(* ===== verification/Prelude.thy ===== *)
theory Prelude
  imports Complex_Main "HOL-Library.Char_ord" "HOL-Library.List_Lexorder" "HOL-Library.AList"
begin

text \<open>
  What the components share: the collections of rewrite rules the component proofs use, Python
  strings and the handful of \<open>str\<close> methods the sources call, dynamically typed Python values
  (JSON payloads, label dictionaries, kwargs), exceptions as values of a sum type, and the one
  contract every state machine of the development is an instance of.

  A Python \<open>str\<close> is a \<open>char list\<close>: the 256 values of \<open>char\<close> stand for the code points U+0000
  to U+00FF, and \<open>lower\<close>, \<open>strip\<close>, \<open>isdigit\<close> follow CPython on all of them. A \<open>dict\<close> with string
  keys is an association list in insertion order with distinct keys, so that iteration order is
  part of the model.
\<close>

named_theorems py_defs \<open>definitions of Python primitives, unfolded together\<close>
named_theorems gate_simps \<open>rewrite rules of the policy gate\<close>
named_theorems exec_simps \<open>rewrite rules of the executor\<close>

section \<open>Exceptions\<close>

datatype exn =
    ValueError string
  | TypeError
  | KeyError
  | AttributeError
  | OverflowError
  | PermissionError string
  | ValidationError
  | PendingRollbackError

type_synonym 'a result = "exn + 'a"

definition rbind :: "'e + 'a \<Rightarrow> ('a \<Rightarrow> 'e + 'b) \<Rightarrow> 'e + 'b" where
  "rbind m f = (case m of Inl e \<Rightarrow> Inl e | Inr x \<Rightarrow> f x)"

definition is_ok :: "'e + 'a \<Rightarrow> bool" where
  "is_ok m = (case m of Inl _ \<Rightarrow> False | Inr _ \<Rightarrow> True)"

lemma rbind_simps [simp]:
  "rbind (Inl e) f = Inl e"
  "rbind (Inr x) f = f x"
  by (simp_all add: rbind_def)

text \<open>A loop whose body may raise: the first exception ends it.\<close>

fun rmap :: "('a \<Rightarrow> 'e + 'b) \<Rightarrow> 'a list \<Rightarrow> 'e + 'b list" where
  "rmap f [] = Inr []"
| "rmap f (x # xs) = rbind (f x) (\<lambda>y. rbind (rmap f xs) (\<lambda>ys. Inr (y # ys)))"

lemma rbind_eq_Inr: "rbind m f = Inr y \<longleftrightarrow> (\<exists>x. m = Inr x \<and> f x = Inr y)"
  by (cases m) simp_all

lemma rmap_Inr: "rmap f xs = Inr ys \<longleftrightarrow> list_all2 (\<lambda>x y. f x = Inr y) xs ys"
  by (induction xs arbitrary: ys) (auto simp: rbind_eq_Inr list_all2_Cons1)

lemma rmap_mem: "rmap f xs = Inr ys \<Longrightarrow> y \<in> set ys \<Longrightarrow> \<exists>x\<in>set xs. f x = Inr y"
  by (induction xs arbitrary: ys) (auto simp: rbind_eq_Inr)

lemma is_ok_simps [simp]: "is_ok (Inl e) = False" "is_ok (Inr x) = True"
  by (simp_all add: is_ok_def)

lemma is_ok_iff: "is_ok m \<longleftrightarrow> (\<exists>x. m = Inr x)"
  by (cases m) simp_all

section \<open>Strings\<close>

definition ch_lower :: "char \<Rightarrow> char" where
  "ch_lower c =
     (let n = (of_char c :: int) in
      if 65 \<le> n \<and> n \<le> 90 \<or> 192 \<le> n \<and> n \<le> 222 \<and> n \<noteq> 215 then char_of (n + 32) else c)"

definition ch_space :: "char \<Rightarrow> bool" where
  "ch_space c =
     (let n = (of_char c :: int) in
      9 \<le> n \<and> n \<le> 13 \<or> 28 \<le> n \<and> n \<le> 32 \<or> n = 133 \<or> n = 160)"

text \<open>A decimal digit: what \<open>\d\<close> and the class \<open>[0-9]\<close> match on these code points.\<close>

definition ch_digit :: "char \<Rightarrow> bool" where
  "ch_digit c = (let n = (of_char c :: int) in 48 \<le> n \<and> n \<le> 57)"

text \<open>\<open>str.isdigit\<close> also accepts the superscripts one, two and three.\<close>

definition ch_isdigit :: "char \<Rightarrow> bool" where
  "ch_isdigit c = (let n = (of_char c :: int) in ch_digit c \<or> n = 178 \<or> n = 179 \<or> n = 185)"

definition ch_az :: "char \<Rightarrow> bool" where
  "ch_az c = (let n = (of_char c :: int) in 97 \<le> n \<and> n \<le> 122)"

definition ch_AZ :: "char \<Rightarrow> bool" where
  "ch_AZ c = (let n = (of_char c :: int) in 65 \<le> n \<and> n \<le> 90)"

definition ch_az09 :: "char \<Rightarrow> bool" where
  "ch_az09 c \<longleftrightarrow> ch_az c \<or> ch_digit c"

definition ch_hex :: "char \<Rightarrow> bool" where
  "ch_hex c \<longleftrightarrow> ch_digit c \<or> (let n = (of_char c :: int) in 97 \<le> n \<and> n \<le> 102)"

definition lower :: "string \<Rightarrow> string" where
  "lower s = map ch_lower s"

definition lstrip :: "string \<Rightarrow> string" where
  "lstrip s = dropWhile ch_space s"

definition rstrip :: "string \<Rightarrow> string" where
  "rstrip s = rev (dropWhile ch_space (rev s))"

definition strip :: "string \<Rightarrow> string" where
  "strip s = rstrip (lstrip s)"

fun startswith :: "string \<Rightarrow> string \<Rightarrow> bool" where
  "startswith s [] = True"
| "startswith [] (p # ps) = False"
| "startswith (c # cs) (p # ps) = (c = p \<and> startswith cs ps)"

text \<open>\<open>s.startswith((p1, p2, ...))\<close>\<close>

definition startswith_any :: "string \<Rightarrow> string list \<Rightarrow> bool" where
  "startswith_any s ps = list_ex (startswith s) ps"

text \<open>\<open>sub in s\<close>\<close>

fun contains :: "string \<Rightarrow> string \<Rightarrow> bool" where
  "contains [] sub = (sub = [])"
| "contains (c # cs) sub = (startswith (c # cs) sub \<or> contains cs sub)"

text \<open>\<open>re.split\<close> on a one-character class.\<close>

fun split_on :: "(char \<Rightarrow> bool) \<Rightarrow> string \<Rightarrow> string list" where
  "split_on p [] = [[]]"
| "split_on p (c # cs) =
     (if p c then [] # split_on p cs
      else (case split_on p cs of [] \<Rightarrow> [[c]] | t # ts \<Rightarrow> (c # t) # ts))"

fun join :: "string \<Rightarrow> string list \<Rightarrow> string" where
  "join sep [] = []"
| "join sep [s] = s"
| "join sep (s # t # ts) = s @ sep @ join sep (t # ts)"

definition isdigit :: "string \<Rightarrow> bool" where
  "isdigit s \<longleftrightarrow> s \<noteq> [] \<and> list_all ch_isdigit s"

text \<open>
  \<open>int(s)\<close> for a string of decimal digits (CPython refuses more than 4300 of them), \<open>str(i)\<close> for an
  integer.
\<close>

definition digit_val :: "char \<Rightarrow> int" where
  "digit_val c = of_char c - 48"

definition int_of_digits :: "string \<Rightarrow> int option" where
  "int_of_digits s =
     (if s \<noteq> [] \<and> list_all ch_digit s \<and> length s \<le> 4300
      then Some (foldl (\<lambda>a c. 10 * a + digit_val c) 0 s) else None)"

function dec_str :: "int \<Rightarrow> string" where
  "dec_str i = (if i < 10 then [char_of (48 + i)] else dec_str (i div 10) @ [char_of (48 + i mod 10)])"
  by pat_completeness auto
termination
  by (relation "measure nat") auto

declare dec_str.simps [simp del]

definition int_str :: "int \<Rightarrow> string" where
  "int_str i = (if i < 0 then ''-'' @ dec_str (- i) else dec_str i)"

lemmas py_str_defs [py_defs] = lower_def lstrip_def rstrip_def strip_def startswith_any_def isdigit_def

lemma startswith_append [simp]: "startswith (p @ s) p"
  by (induction p) auto

lemma startswith_iff: "startswith s p \<longleftrightarrow> (\<exists>t. s = p @ t)"
  by (induction s p rule: startswith.induct) auto

lemma contains_iff: "contains s sub \<longleftrightarrow> (\<exists>u v. s = u @ sub @ v)"
proof (induction s)
  case Nil
  then show ?case by auto
next
  case (Cons c cs)
  have "(\<exists>u v. c # cs = u @ sub @ v) \<longleftrightarrow> (\<exists>v. c # cs = sub @ v) \<or> (\<exists>u v. cs = u @ sub @ v)"
    by (metis append_Cons append_Nil list.exhaust list.inject)
  with Cons show ?case by (simp add: startswith_iff)
qed

lemma ch_lower_idem [simp]: "ch_lower (ch_lower c) = ch_lower c"
proof -
  have "(of_char c :: int) < 256"
    by (metis nat_of_char_less_256 of_nat_less_numeral_iff of_nat_of_char)
  then show ?thesis by (auto simp: ch_lower_def Let_def)
qed

lemma lower_idem [simp]: "lower (lower s) = lower s"
  by (simp add: lower_def)

lemma lower_append [simp]: "lower (s @ t) = lower s @ lower t"
  by (simp add: lower_def)

text \<open>\<open>x or y\<close> for an optional string.\<close>

definition str_or :: "string option \<Rightarrow> string option \<Rightarrow> string option" where
  "str_or a b = (case a of Some s \<Rightarrow> (if s = [] then b else a) | None \<Rightarrow> b)"

section \<open>Numbers and dynamically typed values\<close>

text \<open>
  A Python \<open>float\<close> is a finite value or one of the three special values; comparisons with NaN are
  false. A finite value is given by its shortest decimal form \<open>m * 10 ^ e\<close>, the one \<open>repr\<close> prints
  (\<open>m\<close> has no trailing zero; negative zero is not distinguished from zero). Rounding is monotone, so
  comparing these decimals with the constants of the code, which are doubles themselves (24, 30, 50,
  60, 90, 0.5), is comparing the doubles.
\<close>

datatype pyfloat = FFin int int | FInf | FNegInf | FNaN

definition dec_val :: "int \<Rightarrow> int \<Rightarrow> rat" where
  "dec_val m e = (if 0 \<le> e then of_int m * 10 ^ nat e else of_int m / 10 ^ nat (- e))"

fun fge :: "pyfloat \<Rightarrow> rat \<Rightarrow> bool" where
  "fge (FFin m e) b = (b \<le> dec_val m e)"
| "fge FInf b = True"
| "fge FNegInf b = False"
| "fge FNaN b = False"

fun fgt :: "pyfloat \<Rightarrow> rat \<Rightarrow> bool" where
  "fgt (FFin m e) b = (b < dec_val m e)"
| "fgt FInf b = True"
| "fgt FNegInf b = False"
| "fgt FNaN b = False"

fun fle :: "pyfloat \<Rightarrow> rat \<Rightarrow> bool" where
  "fle (FFin m e) b = (dec_val m e \<le> b)"
| "fle FInf b = False"
| "fle FNegInf b = True"
| "fle FNaN b = False"

datatype pyval =
    PNone
  | PBool bool
  | PInt int
  | PFloat pyfloat
  | PStr string
  | PList "pyval list"
  | PDict "(string \<times> pyval) list"

type_synonym pydict = "(string \<times> pyval) list"

text \<open>\<open>d.get(k)\<close> without a default: the missing key and the key bound to \<open>None\<close> read alike.\<close>

definition dget :: "pydict \<Rightarrow> string \<Rightarrow> pyval" where
  "dget d k = (case map_of d k of None \<Rightarrow> PNone | Some v \<Rightarrow> v)"

definition has_key :: "pydict \<Rightarrow> string \<Rightarrow> bool" where
  "has_key d k \<longleftrightarrow> map_of d k \<noteq> None"

text \<open>\<open>d[k] = v\<close> keeps the position of an existing key and appends a new one.\<close>

definition dset :: "pydict \<Rightarrow> string \<Rightarrow> pyval \<Rightarrow> pydict" where
  "dset d k v = AList.update k v d"

definition dpop :: "pydict \<Rightarrow> string \<Rightarrow> pydict" where
  "dpop d k = AList.delete k d"

text \<open>\<open>{**d, **e}\<close> and \<open>d.setdefault(k, v)\<close>\<close>

definition merge_dict :: "pydict \<Rightarrow> pydict \<Rightarrow> pydict" where
  "merge_dict d e = foldl (\<lambda>acc (k, v). dset acc k v) d e"

definition setdefault :: "pydict \<Rightarrow> string \<Rightarrow> pyval \<Rightarrow> pydict" where
  "setdefault d k v = (if has_key d k then d else dset d k v)"

fun truthy :: "pyval \<Rightarrow> bool" where
  "truthy PNone = False"
| "truthy (PBool b) = b"
| "truthy (PInt i) = (i \<noteq> 0)"
| "truthy (PFloat f) = (case f of FFin m e \<Rightarrow> m \<noteq> 0 | _ \<Rightarrow> True)"
| "truthy (PStr s) = (s \<noteq> [])"
| "truthy (PList xs) = (xs \<noteq> [])"
| "truthy (PDict d) = (d \<noteq> [])"

text \<open>\<open>isinstance(v, int) and not isinstance(v, bool)\<close>, \<open>isinstance(v, str)\<close>, \<open>isinstance(v, dict)\<close>\<close>

fun as_int :: "pyval \<Rightarrow> int option" where
  "as_int (PInt i) = Some i"
| "as_int _ = None"

fun as_str :: "pyval \<Rightarrow> string option" where
  "as_str (PStr s) = Some s"
| "as_str _ = None"

fun as_dict :: "pyval \<Rightarrow> pydict option" where
  "as_dict (PDict d) = Some d"
| "as_dict _ = None"

text \<open>
  \<open>==\<close> on values: booleans, integers and floats compare as numbers, dictionaries without regard
  to order, values of different kinds are different.
\<close>

datatype num_val = NFin rat | NInf | NNegInf | NNaN

fun as_num :: "pyval \<Rightarrow> num_val option" where
  "as_num (PBool b) = Some (NFin (if b then 1 else 0))"
| "as_num (PInt i) = Some (NFin (of_int i))"
| "as_num (PFloat (FFin m e)) = Some (NFin (dec_val m e))"
| "as_num (PFloat FInf) = Some NInf"
| "as_num (PFloat FNegInf) = Some NNegInf"
| "as_num (PFloat FNaN) = Some NNaN"
| "as_num _ = None"

function py_eq :: "pyval \<Rightarrow> pyval \<Rightarrow> bool" where
  "py_eq v w =
     (case (v, w) of
        (PNone, PNone) \<Rightarrow> True
      | (PStr s, PStr t) \<Rightarrow> s = t
      | (PList xs, PList ys) \<Rightarrow>
          length xs = length ys \<and> list_all (\<lambda>(x, y). py_eq x y) (zip xs ys)
      | (PDict d, PDict e) \<Rightarrow>
          length d = length e \<and>
          list_all (\<lambda>(k, x). case map_of e k of None \<Rightarrow> False | Some y \<Rightarrow> py_eq x y) d
      | _ \<Rightarrow> (case (as_num v, as_num w) of
                (Some a, Some b) \<Rightarrow> a = b \<and> a \<noteq> NNaN
              | _ \<Rightarrow> False))"
  by pat_completeness auto

lemma size_pair_list: "(k, x) \<in> set d \<Longrightarrow> size x < Suc (size_list (size_prod (\<lambda>_. 0) size) d)"
  by (induction d) auto

lemma size_zip_list: "(x, y) \<in> set (zip xs ys) \<Longrightarrow> size x < Suc (size_list size xs)"
  by (drule set_zip_leftD) (induction xs, auto)

termination py_eq
  by (relation "measure (\<lambda>(v, w). size v)")
    (auto dest: size_pair_list size_zip_list)

declare py_eq.simps [simp del]

section \<open>Numbers from text and from values\<close>

text \<open>
  \<open>int(x)\<close> and \<open>float(x)\<close>. Text may carry white space, a sign and single underscores between digits. The
  value of a decimal text is taken exactly; the double it denotes is the nearest one, so a
  comparison with one of the thresholds of the code could differ only for a text of more than
  fifteen significant digits.
\<close>

definition digit_text :: "string \<Rightarrow> string option" where
  "digit_text s =
     (let parts = split_on (\<lambda>c. c = CHR ''_'') s in
      if list_all (\<lambda>p. p \<noteq> [] \<and> list_all ch_digit p) parts then Some (concat parts) else None)"

definition digits_int :: "string \<Rightarrow> int" where
  "digits_int s = foldl (\<lambda>a c. 10 * a + digit_val c) 0 s"

definition split_sign :: "string \<Rightarrow> int \<times> string" where
  "split_sign s =
     (case s of
        c # cs \<Rightarrow> if c = CHR ''-'' then (- 1, cs) else if c = CHR ''+'' then (1, cs) else (1, s)
      | [] \<Rightarrow> (1, []))"

definition int_text :: "string \<Rightarrow> int option" where
  "int_text s =
     (case split_sign (strip s) of (sg, t) \<Rightarrow>
        (case digit_text t of
           Some ds \<Rightarrow> (if length ds \<le> 4300 then Some (sg * digits_int ds) else None)
         | None \<Rightarrow> None))"

definition exp_text :: "string list \<Rightarrow> int option" where
  "exp_text es =
     (case es of
        [] \<Rightarrow> Some 0
      | [e] \<Rightarrow> (case split_sign e of (sg, t) \<Rightarrow> map_option (\<lambda>ds. sg * digits_int ds) (digit_text t))
      | _ \<Rightarrow> None)"

definition mantissa_text :: "string \<Rightarrow> (int \<times> int) option" where
  "mantissa_text s =
     (case split_on (\<lambda>c. c = CHR ''.'') s of
        [a] \<Rightarrow> map_option (\<lambda>ds. (digits_int ds, 0)) (digit_text a)
      | [a, b] \<Rightarrow>
          (if a = [] \<and> b = [] then None
           else (case (if a = [] then Some [] else digit_text a, if b = [] then Some [] else digit_text b) of
                   (Some da, Some db) \<Rightarrow> Some (digits_int (da @ db), - int (length db))
                 | _ \<Rightarrow> None))
      | _ \<Rightarrow> None)"

definition float_text :: "string \<Rightarrow> num_val option" where
  "float_text s =
     (case split_sign (lower (strip s)) of (sg, t) \<Rightarrow>
        if t \<in> {''inf'', ''infinity''} then Some (if sg = 1 then NInf else NNegInf)
        else if t = ''nan'' then Some NNaN
        else (case split_on (\<lambda>c. c = CHR ''e'') t of
                m # es \<Rightarrow>
                  (case (mantissa_text m, exp_text es) of
                     (Some (k, e), Some x) \<Rightarrow> Some (NFin (dec_val (sg * k) (e + x)))
                   | _ \<Rightarrow> None)
              | [] \<Rightarrow> None))"

definition to_float :: "pyval \<Rightarrow> num_val result" where
  "to_float v =
     (case v of
        PStr s \<Rightarrow> (case float_text s of Some n \<Rightarrow> Inr n | None \<Rightarrow> Inl (ValueError ''could not convert string to float''))
      | PInt i \<Rightarrow> (if \<bar>i\<bar> < 2 ^ 1024 - 2 ^ 970 then Inr (NFin (of_int i)) else Inl OverflowError)
      | _ \<Rightarrow> (case as_num v of Some n \<Rightarrow> Inr n | None \<Rightarrow> Inl TypeError))"

definition to_int :: "pyval \<Rightarrow> int result" where
  "to_int v =
     (case v of
        PInt i \<Rightarrow> Inr i
      | PBool b \<Rightarrow> Inr (if b then 1 else 0)
      | PFloat (FFin m e) \<Rightarrow> (let x = dec_val m e in Inr (if 0 \<le> x then \<lfloor>x\<rfloor> else \<lceil>x\<rceil>))
      | PFloat FNaN \<Rightarrow> Inl (ValueError ''cannot convert float NaN to integer'')
      | PFloat _ \<Rightarrow> Inl OverflowError
      | PStr s \<Rightarrow> (case int_text s of Some i \<Rightarrow> Inr i | None \<Rightarrow> Inl (ValueError ''invalid literal for int()''))
      | _ \<Rightarrow> Inl TypeError)"

text \<open>Comparisons of a number with a constant; a NaN compares false.\<close>

fun nge :: "num_val \<Rightarrow> rat \<Rightarrow> bool" where
  "nge (NFin x) b = (b \<le> x)" | "nge NInf b = True" | "nge NNegInf b = False" | "nge NNaN b = False"

fun nle :: "num_val \<Rightarrow> rat \<Rightarrow> bool" where
  "nle (NFin x) b = (x \<le> b)" | "nle NInf b = False" | "nle NNegInf b = True" | "nle NNaN b = False"

fun ngt :: "num_val \<Rightarrow> rat \<Rightarrow> bool" where
  "ngt (NFin x) b = (b < x)" | "ngt NInf b = True" | "ngt NNegInf b = False" | "ngt NNaN b = False"

fun nlt :: "num_val \<Rightarrow> rat \<Rightarrow> bool" where
  "nlt (NFin x) b = (x < b)" | "nlt NInf b = False" | "nlt NNegInf b = True" | "nlt NNaN b = False"

text \<open>\<open>(v or "")\<close> used as a string: a true value of another type has no \<open>lower\<close> or \<open>strip\<close>.\<close>

definition str_or_empty :: "pyval \<Rightarrow> string result" where
  "str_or_empty v = (if \<not> truthy v then Inr [] else case v of PStr s \<Rightarrow> Inr s | _ \<Rightarrow> Inl AttributeError)"

definition dict_or_empty :: "pyval \<Rightarrow> pydict option" where
  "dict_or_empty v = (if \<not> truthy v then Some [] else as_dict v)"

section \<open>Text of a value\<close>

definition pad2 :: "string \<Rightarrow> string" where
  "pad2 s = (if length s < 2 then ''0'' @ s else s)"

definition float_digits :: "string \<Rightarrow> int \<Rightarrow> string" where
  "float_digits ds e =
     (let nd = int (length ds); decpt = nd + e in
      if - 4 < decpt \<and> decpt \<le> 16 then
        (if decpt \<le> 0 then ''0.'' @ replicate (nat (- decpt)) CHR ''0'' @ ds
         else if nd \<le> decpt then ds @ replicate (nat (decpt - nd)) CHR ''0'' @ ''.0''
         else take (nat decpt) ds @ ''.'' @ drop (nat decpt) ds)
      else
        take 1 ds @ (if nd = 1 then [] else ''.'' @ drop 1 ds) @ ''e'' @
        (if decpt - 1 < 0 then ''-'' @ pad2 (int_str (1 - decpt)) else ''+'' @ pad2 (int_str (decpt - 1))))"

fun float_repr :: "pyfloat \<Rightarrow> string" where
  "float_repr (FFin m e) =
     (if m = 0 then ''0.0''
      else (if m < 0 then ''-'' else []) @ float_digits (int_str \<bar>m\<bar>) e)"
| "float_repr FInf = ''inf''"
| "float_repr FNegInf = ''-inf''"
| "float_repr FNaN = ''nan''"

definition hex_digit :: "int \<Rightarrow> char" where
  "hex_digit n = char_of (if n < 10 then 48 + n else 87 + n)"

definition repr_char :: "char \<Rightarrow> char \<Rightarrow> string" where
  "repr_char quote c =
     (let n = (of_char c :: int) in
      if c = quote \<or> n = 92 then [CHR 0x5C, c]
      else if n = 9 then [CHR 0x5C, CHR ''t'']
      else if n = 10 then [CHR 0x5C, CHR ''n'']
      else if n = 13 then [CHR 0x5C, CHR ''r'']
      else if n < 32 \<or> 127 \<le> n \<and> n \<le> 160 \<or> n = 173
           then [CHR 0x5C, CHR ''x'', hex_digit (n div 16), hex_digit (n mod 16)]
      else [c])"

definition repr_str :: "string \<Rightarrow> string" where
  "repr_str s =
     (let quote = (if CHR 0x27 \<in> set s \<and> CHR 0x22 \<notin> set s then CHR 0x22 else CHR 0x27) in
      [quote] @ concat (map (repr_char quote) s) @ [quote])"

fun py_repr :: "pyval \<Rightarrow> string" where
  "py_repr PNone = ''None''"
| "py_repr (PBool b) = (if b then ''True'' else ''False'')"
| "py_repr (PInt i) = int_str i"
| "py_repr (PFloat f) = float_repr f"
| "py_repr (PStr s) = repr_str s"
| "py_repr (PList xs) = ''['' @ join '', '' (map py_repr xs) @ '']''"
| "py_repr (PDict d) = ''{'' @ join '', '' (map (\<lambda>(k, v). repr_str k @ '': '' @ py_repr v) d) @ ''}''"

fun py_str :: "pyval \<Rightarrow> string" where
  "py_str (PStr s) = s"
| "py_str v = py_repr v"

text \<open>
  \<open>json.dumps\<close> with \<open>ensure_ascii\<close>; \<open>item_sep\<close> and \<open>key_sep\<close> are the separators, \<open>sort_keys\<close> orders the
  keys of every dictionary by code point.
\<close>

definition json_char :: "char \<Rightarrow> string" where
  "json_char c =
     (let n = (of_char c :: int) in
      if n = 34 \<or> n = 92 then [CHR 0x5C, c]
      else if n = 8 then [CHR 0x5C, CHR ''b'']
      else if n = 9 then [CHR 0x5C, CHR ''t'']
      else if n = 10 then [CHR 0x5C, CHR ''n'']
      else if n = 12 then [CHR 0x5C, CHR ''f'']
      else if n = 13 then [CHR 0x5C, CHR ''r'']
      else if n < 32 \<or> 127 \<le> n
           then [CHR 0x5C, CHR ''u'', CHR ''0'', CHR ''0'', hex_digit (n div 16), hex_digit (n mod 16)]
      else [c])"

definition json_str :: "string \<Rightarrow> string" where
  "json_str s = [CHR 0x22] @ concat (map json_char s) @ [CHR 0x22]"

fun json_float :: "pyfloat \<Rightarrow> string" where
  "json_float FInf = ''Infinity''"
| "json_float FNegInf = ''-Infinity''"
| "json_float FNaN = ''NaN''"
| "json_float f = float_repr f"

fun json_dumps :: "bool \<Rightarrow> string \<Rightarrow> string \<Rightarrow> pyval \<Rightarrow> string" where
  "json_dumps sort_keys isep ksep PNone = ''null''"
| "json_dumps sort_keys isep ksep (PBool b) = (if b then ''true'' else ''false'')"
| "json_dumps sort_keys isep ksep (PInt i) = int_str i"
| "json_dumps sort_keys isep ksep (PFloat f) = json_float f"
| "json_dumps sort_keys isep ksep (PStr s) = json_str s"
| "json_dumps sort_keys isep ksep (PList xs) =
     ''['' @ join isep (map (json_dumps sort_keys isep ksep) xs) @ '']''"
| "json_dumps sort_keys isep ksep (PDict d) =
     ''{'' @ join isep
       (map (\<lambda>(k, t). json_str k @ ksep @ t)
         ((if sort_keys then sort_key fst else id)
           (map (\<lambda>(k, v). (k, json_dumps sort_keys isep ksep v)) d))) @ ''}''"

section \<open>Transition systems and invariants\<close>

text \<open>
  The contract of every state machine below: a set of start states, a step relation and a
  property that the start states have and every step keeps. What a client gets from it is that
  the property holds after any number of steps.
\<close>

locale invariant_system =
  fixes init :: "'s \<Rightarrow> bool"
    and step :: "'s \<Rightarrow> 's \<Rightarrow> bool"
    and inv :: "'s \<Rightarrow> bool"
  assumes init_inv: "init s \<Longrightarrow> inv s"
    and step_inv: "step s t \<Longrightarrow> inv s \<Longrightarrow> inv t"
begin

lemma steps_inv: "step\<^sup>*\<^sup>* s t \<Longrightarrow> inv s \<Longrightarrow> inv t"
  by (induction rule: rtranclp_induct) (auto intro: step_inv)

lemma reach_inv: "init s \<Longrightarrow> step\<^sup>*\<^sup>* s t \<Longrightarrow> inv t"
  by (blast intro: steps_inv init_inv)

end

section \<open>Lemmas on dictionaries\<close>

lemma case_dict_iff:
  "(case x of PDict d \<Rightarrow> P d | _ \<Rightarrow> False) \<longleftrightarrow> (\<exists>d. x = PDict d \<and> P d)"
  by (cases x) simp_all

lemma dget_dset [simp]: "dget (dset d k v) k' = (if k' = k then v else dget d k')"
  by (simp add: dget_def dset_def update_conv')

lemma has_key_dset [simp]: "has_key (dset d k v) k' \<longleftrightarrow> k' = k \<or> has_key d k'"
  by (simp add: has_key_def dset_def update_conv')

lemma dget_dpop [simp]: "dget (dpop d k) k' = (if k' = k then PNone else dget d k')"
  by (simp add: dget_def dpop_def delete_conv')

lemma has_key_dpop [simp]: "has_key (dpop d k) k' \<longleftrightarrow> k' \<noteq> k \<and> has_key d k'"
  by (simp add: has_key_def dpop_def delete_conv')

lemma dget_not_None_has_key: "dget d k \<noteq> PNone \<Longrightarrow> has_key d k"
  by (auto simp: dget_def has_key_def split: option.splits)

lemma distinct_dset [simp]: "distinct (map fst d) \<Longrightarrow> distinct (map fst (dset d k v))"
  by (simp add: dset_def distinct_update)

lemma has_key_setdefault [simp]: "has_key (setdefault d k v) k' \<longleftrightarrow> k' = k \<or> has_key d k'"
  by (auto simp: setdefault_def)

lemma dget_setdefault [simp]:
  "dget (setdefault d k v) k' = (if k' = k \<and> \<not> has_key d k then v else dget d k')"
  by (simp add: setdefault_def)

lemma has_key_merge [simp]: "has_key (merge_dict d e) k \<longleftrightarrow> has_key d k \<or> has_key e k"
  by (induction e arbitrary: d) (auto simp: merge_dict_def has_key_def [of "[]"] has_key_def [of "_ # _"] dset_def
      has_key_def update_conv' split: if_splits)

section \<open>Lemmas on text\<close>

lemma split_on_no_sep: "\<forall>c\<in>set s. \<not> p c \<Longrightarrow> split_on p s = [s]"
  by (induction s) auto

lemma split_on_nonempty: "split_on p s \<noteq> []"
  by (induction s) (auto split: list.splits)

lemma split_on_sep: "\<forall>c\<in>set s. \<not> p c \<Longrightarrow> p x \<Longrightarrow> split_on p (s @ x # t) = s # split_on p t"
  by (induction s) auto

lemma split_on_join:
  assumes "xs \<noteq> []" and "\<And>s. s \<in> set xs \<Longrightarrow> x \<notin> set s"
  shows "split_on (\<lambda>c. c = x) (join [x] xs) = xs"
  using assms
proof (induction "[x]" xs rule: join.induct)
  case (3 s t ts)
  then have "split_on (\<lambda>c. c = x) (s @ x # join [x] (t # ts)) = s # split_on (\<lambda>c. c = x) (join [x] (t # ts))"
    by (intro split_on_sep) auto
  with 3 show ?case by simp
qed (auto intro: split_on_no_sep)

lemma of_char_digit: "0 \<le> i \<Longrightarrow> i < 10 \<Longrightarrow> (of_char (char_of (48 + i) :: char) :: int) = 48 + i"
  by simp

lemma ch_digit_char_of [simp]: "0 \<le> i \<Longrightarrow> i < 10 \<Longrightarrow> ch_digit (char_of (48 + i :: int))"
  by (simp add: ch_digit_def of_char_digit)

lemma dec_str_digits: "0 \<le> i \<Longrightarrow> c \<in> set (dec_str i) \<Longrightarrow> ch_digit c"
proof (induction i rule: dec_str.induct)
  case (1 i)
  show ?case
  proof (cases "i < 10")
    case True
    with 1 show ?thesis by (simp add: dec_str.simps [of i])
  next
    case False
    with 1 show ?thesis by (auto simp: dec_str.simps [of i])
  qed
qed

definition digits_value :: "string \<Rightarrow> int" where
  "digits_value s = foldl (\<lambda>a c. 10 * a + digit_val c) 0 s"

lemma digits_value_dec_str: "0 \<le> i \<Longrightarrow> digits_value (dec_str i) = i"
proof (induction i rule: dec_str.induct)
  case (1 i)
  have d: "digit_val (char_of (48 + j)) = j" if "0 \<le> j" "j < 10" for j :: int
    using that by (simp add: digit_val_def of_char_digit)
  show ?case
  proof (cases "i < 10")
    case True
    with 1 show ?thesis by (simp add: dec_str.simps [of i] digits_value_def d)
  next
    case False
    with 1 have "digits_value (dec_str (i div 10)) = i div 10" by simp
    with False show ?thesis
      by (simp add: dec_str.simps [of i] digits_value_def d)
  qed
qed

lemma dec_str_inj: "0 \<le> i \<Longrightarrow> 0 \<le> j \<Longrightarrow> dec_str i = dec_str j \<Longrightarrow> i = j"
  by (metis digits_value_dec_str)

lemma int_str_chars: "c \<in> set (int_str i) \<Longrightarrow> ch_digit c \<or> c = CHR ''-''"
  by (auto simp: int_str_def split: if_splits dest: dec_str_digits [rotated])

lemma int_str_nonneg_inj: "0 \<le> i \<Longrightarrow> 0 \<le> j \<Longrightarrow> int_str i = int_str j \<Longrightarrow> i = j"
  by (simp add: int_str_def dec_str_inj)

lemma rbind_cases:
  assumes "rbind m f = Inr y"
  obtains x where "m = Inr x" and "f x = Inr y"
  using assms by (auto simp: rbind_eq_Inr)

section \<open>Numbers as text\<close>

lemma dec_str_length: "0 \<le> i \<Longrightarrow> i < 10 ^ Suc n \<Longrightarrow> length (dec_str i) \<le> Suc n"
proof (induction n arbitrary: i)
  case 0
  then show ?case by (subst dec_str.simps) simp
next
  case (Suc n)
  then have "i div 10 < 10 ^ Suc n" by (simp add: div_less_iff_less_mult)
  with Suc show ?case by (subst dec_str.simps) (auto intro: order.trans)
qed

lemma dropWhile_none: "\<forall>c\<in>set s. \<not> p c \<Longrightarrow> dropWhile p s = s"
  by (cases s) auto

lemma strip_no_space: "\<forall>c\<in>set s. \<not> ch_space c \<Longrightarrow> strip s = s"
  by (simp add: strip_def lstrip_def rstrip_def dropWhile_none)

lemma digit_not_space: "ch_digit c \<Longrightarrow> \<not> ch_space c"
  by (auto simp: ch_digit_def ch_space_def Let_def)

lemma digit_not_sign: "ch_digit c \<Longrightarrow> c \<noteq> CHR ''-'' \<and> c \<noteq> CHR ''+'' \<and> c \<noteq> CHR ''_''"
  by (auto simp: ch_digit_def)

lemma int_str_consts: "int_str 0 = ''0''" "int_str 1 = ''1''"
  by code_simp+

lemma int_text_int_str:
  assumes "0 \<le> i" and "i < 10 ^ 15"
  shows "int_text (int_str i) = Some i"
proof -
  have d: "ch_digit c" if "c \<in> set (dec_str i)" for c using assms(1) that by (rule dec_str_digits)
  have ne: "dec_str i \<noteq> []" by (subst dec_str.simps) simp
  have s: "int_str i = dec_str i" using assms(1) by (simp add: int_str_def)
  have "strip (dec_str i) = dec_str i"
    using d by (intro strip_no_space) (auto dest: digit_not_space)
  moreover have "split_sign (dec_str i) = (1, dec_str i)"
    using ne d digit_not_sign by (cases "dec_str i") (auto simp: split_sign_def)
  moreover have "digit_text (dec_str i) = Some (dec_str i)"
  proof -
    have "split_on (\<lambda>c. c = CHR ''_'') (dec_str i) = [dec_str i]"
      using d digit_not_sign by (intro split_on_no_sep) auto
    with d ne show ?thesis by (simp add: digit_text_def list_all_iff)
  qed
  moreover have "length (dec_str i) \<le> 4300"
    using dec_str_length [of i 14] assms by simp
  moreover have "digits_int (dec_str i) = i"
    using digits_value_dec_str [OF assms(1)] by (simp add: digits_int_def digits_value_def)
  ultimately show ?thesis using s by (simp add: int_text_def)
qed

lemma find_append: "find P (xs @ ys) = (case find P xs of None \<Rightarrow> find P ys | Some x \<Rightarrow> Some x)"
  by (induction xs) simp_all

end
