(* ===== verification/Namespaces.thy ===== *)
theory Namespaces
  imports Prelude
begin

text \<open>
  \<open>app/security/namespaces.py\<close>: the one place that says which Kubernetes namespaces are forbidden,
  which are read-only and where a write is allowed at all. All three tests are made on the
  normalised name (surrounding white space dropped, lower case).
\<close>

definition FORBIDDEN_NAMESPACES :: "string list" where
  "FORBIDDEN_NAMESPACES =
     [''kube-system'', ''kube-public'', ''kube-node-lease'', ''chaos-mesh'', ''mcp'']"

definition READ_ONLY_NAMESPACES :: "string list" where
  "READ_ONLY_NAMESPACES = [''prod'', ''preprod'', ''preupdate'', ''production'']"

definition READ_ONLY_NAMESPACE_PREFIXES :: "string list" where
  "READ_ONLY_NAMESPACE_PREFIXES = map (\<lambda>env. env @ ''-'') (sort READ_ONLY_NAMESPACES)"

text \<open>The regular expression anchor \<open>$\<close>: the end, or just before a final newline.\<close>

definition re_end :: "string \<Rightarrow> bool" where
  "re_end rest \<longleftrightarrow> rest = [] \<or> rest = [CHR 0x0A]"

definition match_squad_number :: "string \<Rightarrow> bool" where
  "match_squad_number s \<longleftrightarrow>
     startswith s ''squad-'' \<and>
     takeWhile ch_digit (drop 6 s) \<noteq> [] \<and> re_end (dropWhile ch_digit (drop 6 s))"

definition match_squad_gd :: "string \<Rightarrow> bool" where
  "match_squad_gd s \<longleftrightarrow> startswith s ''squad-gd'' \<and> re_end (drop 8 s)"

definition WRITE_NAMESPACE_PATTERNS :: "(string \<Rightarrow> bool) list" where
  "WRITE_NAMESPACE_PATTERNS = [match_squad_number, match_squad_gd]"

definition normalize :: "string \<Rightarrow> string" where
  "normalize ns = lower (strip ns)"

definition is_write_namespace :: "string \<Rightarrow> bool" where
  "is_write_namespace ns = list_ex (\<lambda>p. p (normalize ns)) WRITE_NAMESPACE_PATTERNS"

definition is_forbidden :: "string \<Rightarrow> bool" where
  "is_forbidden ns \<longleftrightarrow> normalize ns \<in> set FORBIDDEN_NAMESPACES"

definition is_read_only :: "string \<Rightarrow> bool" where
  "is_read_only ns =
     (let n = normalize ns in
      n \<in> set READ_ONLY_NAMESPACES \<or> startswith_any n READ_ONLY_NAMESPACE_PREFIXES)"

section \<open>Lemmas\<close>

lemma set_prefixes: "set READ_ONLY_NAMESPACE_PREFIXES = (\<lambda>env. env @ ''-'') ` set READ_ONLY_NAMESPACES"
  by (simp add: READ_ONLY_NAMESPACE_PREFIXES_def)

lemma write_starts_squad: "is_write_namespace ns \<Longrightarrow> startswith (normalize ns) ''squad-''"
  by (auto simp: is_write_namespace_def WRITE_NAMESPACE_PATTERNS_def match_squad_number_def
      match_squad_gd_def startswith_iff)

lemma squad_not_forbidden: "startswith (normalize ns) ''squad-'' \<Longrightarrow> \<not> is_forbidden ns"
  by (auto simp: is_forbidden_def FORBIDDEN_NAMESPACES_def)

lemma squad_not_read_only: "startswith (normalize ns) ''squad-'' \<Longrightarrow> \<not> is_read_only ns"
  by (auto simp: is_read_only_def Let_def startswith_any_def list_ex_iff set_prefixes
      READ_ONLY_NAMESPACES_def startswith_iff)

section \<open>Properties\<close>

text \<open>
  The write allowlist is disjoint from what is protected: a namespace where a write is allowed is
  neither forbidden nor read-only, whatever its case and surrounding white space, and its
  normalised name starts with \<open>squad-\<close>.
\<close>

theorem write_allowlist_disjoint:
  assumes "is_write_namespace ns"
  shows "\<not> is_forbidden ns \<and> \<not> is_read_only ns \<and> startswith (normalize ns) ''squad-''"
  using write_starts_squad [OF assms] squad_not_forbidden squad_not_read_only by blast

theorem write_allowlist_disjoint_witness:
  "\<not> is_forbidden '' Squad-12 '' \<and> \<not> is_read_only '' Squad-12 '' \<and> startswith (normalize '' Squad-12 '') ''squad-''"
proof -
  have "is_write_namespace '' Squad-12 ''" by code_simp
  then show ?thesis by (rule write_allowlist_disjoint)
qed

end
