(* ===== verification/Execution_Dsl.thy ===== *)
theory Execution_Dsl
  imports Namespaces
begin

text \<open>
  \<open>app/core/execution_dsl.py\<close>: the registry of actions, the typed \<open>ExecutionIntent\<close> with the validators
  its fields run, and the translation of an intent into a \<open>kubectl\<close> argument vector. An intent is the
  only thing the executor accepts; everything it runs comes out of \<open>to_argv\<close>.

  \<open>model_validate\<close> is the declared schema: required and defaulted fields, their types, the
  \<open>pattern\<close> constraints (which match the whole text) and the class's own \<open>field_validator\<close>s. Whatever
  fails is one \<open>ValidationError\<close>.
\<close>

section \<open>The registry of actions\<close>

datatype ActionType =
  RESTART_DEPLOYMENT | SCALE_DEPLOYMENT | GET_LOGS | DESCRIBE_RESOURCE | GET_PODS

fun action_value :: "ActionType \<Rightarrow> string" where
  "action_value RESTART_DEPLOYMENT = ''restart_deployment''"
| "action_value SCALE_DEPLOYMENT = ''scale_deployment''"
| "action_value GET_LOGS = ''get_logs''"
| "action_value DESCRIBE_RESOURCE = ''describe_resource''"
| "action_value GET_PODS = ''get_pods''"

definition all_actions :: "ActionType list" where
  "all_actions = [RESTART_DEPLOYMENT, SCALE_DEPLOYMENT, GET_LOGS, DESCRIBE_RESOURCE, GET_PODS]"

definition parse_action :: "string \<Rightarrow> ActionType option" where
  "parse_action s = find (\<lambda>a. action_value a = s) all_actions"

datatype ConcurrencyPolicy = CP_NONE | PRECONDITION | UNGUARDED

record ActionSpec =
  as_action :: ActionType
  as_mutating :: bool
  as_command_kind :: "string option"
  as_concurrency :: ConcurrencyPolicy
  as_requires_resource_type :: "string option"
  as_required_params :: "string list"

definition ACTION_SPECS :: "(ActionType \<times> ActionSpec) list" where
  "ACTION_SPECS =
     [(RESTART_DEPLOYMENT, \<lparr>as_action = RESTART_DEPLOYMENT, as_mutating = True,
         as_command_kind = Some ''restart'', as_concurrency = UNGUARDED,
         as_requires_resource_type = Some ''deployment'', as_required_params = []\<rparr>),
      (SCALE_DEPLOYMENT, \<lparr>as_action = SCALE_DEPLOYMENT, as_mutating = True,
         as_command_kind = Some ''scale'', as_concurrency = PRECONDITION,
         as_requires_resource_type = Some ''deployment'', as_required_params = [''replicas'']\<rparr>),
      (GET_LOGS, \<lparr>as_action = GET_LOGS, as_mutating = False,
         as_command_kind = None, as_concurrency = CP_NONE,
         as_requires_resource_type = None, as_required_params = []\<rparr>),
      (DESCRIBE_RESOURCE, \<lparr>as_action = DESCRIBE_RESOURCE, as_mutating = False,
         as_command_kind = None, as_concurrency = CP_NONE,
         as_requires_resource_type = None, as_required_params = []\<rparr>),
      (GET_PODS, \<lparr>as_action = GET_PODS, as_mutating = False,
         as_command_kind = None, as_concurrency = CP_NONE,
         as_requires_resource_type = None, as_required_params = []\<rparr>)]"

definition action_spec :: "ActionType \<Rightarrow> ActionSpec result" where
  "action_spec action =
     (case map_of ACTION_SPECS action of
        Some spec \<Rightarrow> Inr spec
      | None \<Rightarrow> Inl (ValueError ''no ActionSpec''))"

definition is_mutating :: "ActionType \<Rightarrow> bool result" where
  "is_mutating action = rbind (action_spec action) (\<lambda>spec. Inr (as_mutating spec))"

section \<open>ExecutionIntent\<close>

record ExecutionIntent =
  ei_action :: ActionType
  ei_resource_type :: string
  ei_resource_name :: string
  ei_namespace :: string
  ei_params :: pydict
  ei_risk :: string
  ei_playbook :: "string option"
  ei_playbook_match :: "string option"

definition SERVER_ONLY_FIELDS :: "string list" where
  "SERVER_ONLY_FIELDS = [''playbook_match'']"

definition SERVER_ONLY_PARAMS :: "string list" where
  "SERVER_ONLY_PARAMS = [''current_replicas'']"

definition drop_server_fields :: "pyval \<Rightarrow> pyval" where
  "drop_server_fields obj =
     (case obj of
        PDict d \<Rightarrow>
          (let out = filter (\<lambda>(k, v). k \<notin> set SERVER_ONLY_FIELDS) d in
           case dget out ''params'' of
             PDict ps \<Rightarrow>
               PDict (dset out ''params'' (PDict (filter (\<lambda>(k, v). k \<notin> set SERVER_ONLY_PARAMS) ps)))
           | _ \<Rightarrow> PDict out)
      | _ \<Rightarrow> obj)"

text \<open>\<open>re.fullmatch(r"[a-z0-9]([a-z0-9.\-]{0,251}[a-z0-9])?", v)\<close>\<close>

definition k8s_name :: "string \<Rightarrow> bool" where
  "k8s_name v \<longleftrightarrow>
     v \<noteq> [] \<and> length v \<le> 253 \<and> ch_az09 (hd v) \<and> ch_az09 (last v) \<and>
     list_all (\<lambda>c. ch_az09 c \<or> c = CHR ''.'' \<or> c = CHR ''-'') v"

definition block_system_ns :: "string \<Rightarrow> string result" where
  "block_system_ns v =
     (if \<not> k8s_name v then Inl (ValueError (''Invalid namespace: '' @ repr_str v))
      else if v \<in> set FORBIDDEN_NAMESPACES
           then Inl (ValueError (''Access to namespace '' @ repr_str v @ '' is forbidden by security policy.''))
      else Inr v)"

definition validate_resource_name :: "string \<Rightarrow> string result" where
  "validate_resource_name v =
     (if \<not> k8s_name v then Inl (ValueError (''Invalid resource_name: '' @ repr_str v)) else Inr v)"

text \<open>
  A count parameter: a string of digits is coerced (\<open>int(r)\<close> raises \<open>ValueError\<close> on the superscripts
  that \<open>isdigit\<close> accepts), and the value has to be an integer, not a boolean, within the bounds.
\<close>

definition coerce_count :: "pyval \<Rightarrow> int \<Rightarrow> int \<Rightarrow> string \<Rightarrow> pyval result" where
  "coerce_count r lo hi msg =
     rbind (case r of
              PStr s \<Rightarrow> (if isdigit s
                         then (case int_of_digits s of Some i \<Rightarrow> Inr (PInt i)
                                 | None \<Rightarrow> Inl (ValueError ''invalid literal for int()''))
                         else Inr r)
            | _ \<Rightarrow> Inr r)
       (\<lambda>r'. case r' of
               PInt i \<Rightarrow> (if lo \<le> i \<and> i \<le> hi then Inr (PInt i) else Inl (ValueError msg))
             | _ \<Rightarrow> Inl (ValueError msg))"

definition label_char :: "char \<Rightarrow> bool" where
  "label_char c \<longleftrightarrow> ch_AZ c \<or> ch_az c \<or> ch_digit c \<or>
     c \<in> {CHR ''.'', CHR ''_'', CHR ''/'', CHR ''='', CHR '','', CHR ''-''}"

definition label_text_ok :: "string \<Rightarrow> bool" where
  "label_text_ok s \<longleftrightarrow> 1 \<le> length s \<and> length s \<le> 253 \<and> list_all label_char s"

definition validate_params :: "pydict \<Rightarrow> pydict result" where
  "validate_params v =
     rbind (if has_key v ''replicas''
            then rbind (coerce_count (dget v ''replicas'') 1 100 ''Invalid replicas'')
                   (\<lambda>r. Inr (dset v ''replicas'' r))
            else Inr v)
       (\<lambda>v1. rbind (if has_key v1 ''current_replicas''
                    then rbind (coerce_count (dget v1 ''current_replicas'') 0 (2 ^ 31 - 1)
                                  ''Invalid current_replicas'')
                           (\<lambda>r. Inr (dset v1 ''current_replicas'' r))
                    else Inr v1)
         (\<lambda>v2. let label = dget v2 ''label'' in
               if truthy label \<and> \<not> label_text_ok (py_str label)
               then Inl (ValueError (''Invalid label selector: '' @ py_repr label))
               else Inr v2))"

definition playbook_pattern :: "string \<Rightarrow> bool" where
  "playbook_pattern s \<longleftrightarrow> 1 \<le> length s \<and> length s \<le> 64 \<and> list_all (\<lambda>c. ch_az09 c \<or> c = CHR ''_'') s"

definition playbook_match_pattern :: "string \<Rightarrow> bool" where
  "playbook_match_pattern s \<longleftrightarrow> length s = 12 \<and> list_all ch_hex s"

definition resource_type_pattern :: "string \<Rightarrow> bool" where
  "resource_type_pattern s \<longleftrightarrow> s \<in> {''deployment'', ''pod'', ''service'', ''ingress''}"

definition opt_str_field :: "pydict \<Rightarrow> string \<Rightarrow> (string \<Rightarrow> bool) \<Rightarrow> string option result" where
  "opt_str_field d k pat =
     (case map_of d k of
        None \<Rightarrow> Inr None
      | Some PNone \<Rightarrow> Inr None
      | Some (PStr s) \<Rightarrow> (if pat s then Inr (Some s) else Inl ValidationError)
      | Some _ \<Rightarrow> Inl ValidationError)"

definition req_str_field :: "pydict \<Rightarrow> string \<Rightarrow> string result" where
  "req_str_field d k =
     (case map_of d k of Some (PStr s) \<Rightarrow> Inr s | _ \<Rightarrow> Inl ValidationError)"

definition as_validation :: "'a result \<Rightarrow> 'a result" where
  "as_validation r = (case r of Inl _ \<Rightarrow> Inl ValidationError | Inr x \<Rightarrow> Inr x)"

definition model_validate :: "pyval \<Rightarrow> ExecutionIntent result" where
  "model_validate obj =
     (case obj of
        PDict d \<Rightarrow>
          rbind (req_str_field d ''action'') (\<lambda>a.
          case parse_action a of None \<Rightarrow> Inl ValidationError | Some action \<Rightarrow>
          rbind (req_str_field d ''resource_type'') (\<lambda>rt.
          if \<not> resource_type_pattern rt then Inl ValidationError else
          rbind (rbind (req_str_field d ''resource_name'') (\<lambda>n. as_validation (validate_resource_name n))) (\<lambda>rn.
          rbind (if has_key d ''namespace''
                 then rbind (req_str_field d ''namespace'') (\<lambda>n. as_validation (block_system_ns n))
                 else Inr ''default'') (\<lambda>ns.
          rbind (case map_of d ''params'' of
                   None \<Rightarrow> Inr []
                 | Some (PDict ps) \<Rightarrow> as_validation (validate_params ps)
                 | Some _ \<Rightarrow> Inl ValidationError) (\<lambda>ps.
          rbind (if has_key d ''risk'' then req_str_field d ''risk'' else Inr ''medium'') (\<lambda>risk.
          rbind (opt_str_field d ''playbook'' playbook_pattern) (\<lambda>pb.
          rbind (opt_str_field d ''playbook_match'' playbook_match_pattern) (\<lambda>pm.
          Inr \<lparr>ei_action = action, ei_resource_type = rt, ei_resource_name = rn, ei_namespace = ns,
               ei_params = ps, ei_risk = risk, ei_playbook = pb, ei_playbook_match = pm\<rparr>))))))))
      | _ \<Rightarrow> Inl ValidationError)"

text \<open>\<open>intent.model_dump(mode="json")\<close>: the fields in their declared order.\<close>

definition opt_pystr :: "string option \<Rightarrow> pyval" where
  "opt_pystr o' = (case o' of None \<Rightarrow> PNone | Some s \<Rightarrow> PStr s)"

definition model_dump :: "ExecutionIntent \<Rightarrow> pydict" where
  "model_dump i =
     [(''action'', PStr (action_value (ei_action i))), (''resource_type'', PStr (ei_resource_type i)),
      (''resource_name'', PStr (ei_resource_name i)), (''namespace'', PStr (ei_namespace i)),
      (''params'', PDict (ei_params i)), (''risk'', PStr (ei_risk i)),
      (''playbook'', opt_pystr (ei_playbook i)), (''playbook_match'', opt_pystr (ei_playbook_match i))]"

section \<open>Translation to kubectl\<close>

text \<open>\<open>params.get(k, default)\<close>\<close>

definition dget_or :: "pydict \<Rightarrow> string \<Rightarrow> pyval \<Rightarrow> pyval" where
  "dget_or d k v = (case map_of d k of None \<Rightarrow> v | Some x \<Rightarrow> x)"

definition to_argv :: "ExecutionIntent \<Rightarrow> string list result" where
  "to_argv intent =
     (let ns = [''-n'', ei_namespace intent] in
      case ei_action intent of
        RESTART_DEPLOYMENT \<Rightarrow>
          Inr ([''kubectl'', ''rollout'', ''restart'', ''deployment/'' @ ei_resource_name intent] @ ns)
      | SCALE_DEPLOYMENT \<Rightarrow>
          (let replicas = dget_or (ei_params intent) ''replicas'' (PInt 1);
               argv = [''kubectl'', ''scale'', ''deployment/'' @ ei_resource_name intent] @ ns
                      @ [''--replicas='' @ py_str replicas]
           in rbind (action_spec (ei_action intent)) (\<lambda>spec.
              if as_concurrency spec = PRECONDITION
              then (let current = dget (ei_params intent) ''current_replicas'' in
                    Inr (if current \<noteq> PNone then argv @ [''--current-replicas='' @ py_str current]
                         else argv))
              else Inr argv))
      | GET_LOGS \<Rightarrow> Inr ([''kubectl'', ''logs'', ei_resource_name intent] @ ns @ [''--tail=100''])
      | DESCRIBE_RESOURCE \<Rightarrow>
          Inr ([''kubectl'', ''describe'', ei_resource_type intent @ ''/'' @ ei_resource_name intent] @ ns)
      | GET_PODS \<Rightarrow>
          (let argv = [''kubectl'', ''get'', ''pods''] @ ns; label = dget (ei_params intent) ''label''
           in Inr (if truthy label then argv @ [''-l'', py_str label] else argv)))"

definition to_kubectl :: "ExecutionIntent \<Rightarrow> string result" where
  "to_kubectl intent = rbind (to_argv intent) (\<lambda>argv. Inr (join '' '' argv))"

section \<open>Lemmas\<close>

lemma action_spec_simps [simp]:
  "action_spec RESTART_DEPLOYMENT = Inr \<lparr>as_action = RESTART_DEPLOYMENT, as_mutating = True,
     as_command_kind = Some ''restart'', as_concurrency = UNGUARDED,
     as_requires_resource_type = Some ''deployment'', as_required_params = []\<rparr>"
  "action_spec SCALE_DEPLOYMENT = Inr \<lparr>as_action = SCALE_DEPLOYMENT, as_mutating = True,
     as_command_kind = Some ''scale'', as_concurrency = PRECONDITION,
     as_requires_resource_type = Some ''deployment'', as_required_params = [''replicas'']\<rparr>"
  "action_spec GET_LOGS = Inr \<lparr>as_action = GET_LOGS, as_mutating = False,
     as_command_kind = None, as_concurrency = CP_NONE,
     as_requires_resource_type = None, as_required_params = []\<rparr>"
  "action_spec DESCRIBE_RESOURCE = Inr \<lparr>as_action = DESCRIBE_RESOURCE, as_mutating = False,
     as_command_kind = None, as_concurrency = CP_NONE,
     as_requires_resource_type = None, as_required_params = []\<rparr>"
  "action_spec GET_PODS = Inr \<lparr>as_action = GET_PODS, as_mutating = False,
     as_command_kind = None, as_concurrency = CP_NONE,
     as_requires_resource_type = None, as_required_params = []\<rparr>"
  by (simp_all add: action_spec_def ACTION_SPECS_def)

lemma action_spec_total: "\<exists>spec. action_spec a = Inr spec \<and> as_action spec = a"
  by (cases a) simp_all

lemma parse_action_value [simp]: "parse_action (action_value a) = Some a"
  by (cases a) (simp_all add: parse_action_def all_actions_def)

lemma parse_action_Some: "parse_action s = Some a \<longleftrightarrow> s = action_value a"
proof
  show "parse_action s = Some a \<Longrightarrow> s = action_value a"
    by (auto simp: parse_action_def find_Some_iff)
qed simp

text \<open>What the validators leave in a count parameter and in the parameters as a whole.\<close>

definition count_within :: "pydict \<Rightarrow> string \<Rightarrow> int \<Rightarrow> int \<Rightarrow> bool" where
  "count_within ps k lo hi \<longleftrightarrow> (has_key ps k \<longrightarrow> (\<exists>i. dget ps k = PInt i \<and> lo \<le> i \<and> i \<le> hi))"

definition params_wf :: "pydict \<Rightarrow> bool" where
  "params_wf ps \<longleftrightarrow>
     count_within ps ''replicas'' 1 100 \<and> count_within ps ''current_replicas'' 0 (2 ^ 31 - 1) \<and>
     (truthy (dget ps ''label'') \<longrightarrow> label_text_ok (py_str (dget ps ''label'')))"

definition intent_wf :: "ExecutionIntent \<Rightarrow> bool" where
  "intent_wf i \<longleftrightarrow>
     resource_type_pattern (ei_resource_type i) \<and> k8s_name (ei_resource_name i) \<and>
     k8s_name (ei_namespace i) \<and> ei_namespace i \<notin> set FORBIDDEN_NAMESPACES \<and>
     params_wf (ei_params i)"

lemma coerce_count_Inr:
  "coerce_count r lo hi msg = Inr v \<Longrightarrow> \<exists>i. v = PInt i \<and> lo \<le> i \<and> i \<le> hi"
  by (cases r) (auto simp: coerce_count_def split: if_splits option.splits)

lemma coerce_field:
  assumes "(if has_key v k then rbind (coerce_count (dget v k) lo hi msg) (\<lambda>r. Inr (dset v k r)) else Inr v)
             = Inr w"
  shows "count_within w k lo hi \<and> (\<forall>k'. k' \<noteq> k \<longrightarrow> dget w k' = dget v k' \<and> has_key w k' = has_key v k')"
  using assms
  by (auto simp: rbind_eq_Inr count_within_def split: if_splits dest!: coerce_count_Inr)

lemma validate_params_wf:
  assumes "validate_params v = Inr ps"
  shows "params_wf ps"
proof -
  from assms obtain v1 where
    v1: "(if has_key v ''replicas''
          then rbind (coerce_count (dget v ''replicas'') 1 100 ''Invalid replicas'')
                 (\<lambda>r. Inr (dset v ''replicas'' r))
          else Inr v) = Inr v1" and
    v2: "(if has_key v1 ''current_replicas''
          then rbind (coerce_count (dget v1 ''current_replicas'') 0 (2 ^ 31 - 1) ''Invalid current_replicas'')
                 (\<lambda>r. Inr (dset v1 ''current_replicas'' r))
          else Inr v1) = Inr ps" and
    label: "truthy (dget ps ''label'') \<Longrightarrow> label_text_ok (py_str (dget ps ''label''))"
    unfolding validate_params_def Let_def by (elim rbind_cases) (auto split: if_splits)
  from coerce_field [OF v1] coerce_field [OF v2] label show ?thesis
    by (simp add: params_wf_def count_within_def)
qed

lemma as_validation_Inr [simp]: "as_validation r = Inr x \<longleftrightarrow> r = Inr x"
  by (cases r) (simp_all add: as_validation_def)

lemma default_k8s_name: "k8s_name ''default''"
  by code_simp

lemma default_not_forbidden: "''default'' \<notin> set FORBIDDEN_NAMESPACES"
  by (simp add: FORBIDDEN_NAMESPACES_def)

lemma params_wf_Nil: "params_wf []"
  by (simp add: params_wf_def count_within_def has_key_def dget_def)

lemma block_system_ns_Inr:
  "block_system_ns v = Inr w \<longleftrightarrow> w = v \<and> k8s_name v \<and> v \<notin> set FORBIDDEN_NAMESPACES"
  by (auto simp: block_system_ns_def)

lemma validate_resource_name_Inr: "validate_resource_name v = Inr w \<longleftrightarrow> w = v \<and> k8s_name v"
  by (auto simp: validate_resource_name_def)

lemma model_validate_wf: "model_validate obj = Inr i \<Longrightarrow> intent_wf i"
  unfolding model_validate_def intent_wf_def
  by (cases obj)
    (auto simp: rbind_eq_Inr block_system_ns_Inr validate_resource_name_Inr default_k8s_name
      default_not_forbidden params_wf_Nil
      split: if_splits option.splits pyval.splits dest: validate_params_wf)

text \<open>A valid intent survives its JSON form.\<close>

lemma dset_same: "map_of d k = Some v \<Longrightarrow> dset d k v = d"
  unfolding dset_def by (induction d) (auto split: if_splits)

lemma coerce_count_within:
  assumes "count_within ps k lo hi" and "has_key ps k"
  shows "\<exists>i. map_of ps k = Some (PInt i) \<and> coerce_count (PInt i) lo hi msg = Inr (PInt i)"
  using assms by (auto simp: count_within_def has_key_def dget_def coerce_count_def)

lemma coerce_field_same:
  assumes "count_within ps k lo hi"
  shows "(if has_key ps k then rbind (coerce_count (dget ps k) lo hi msg) (\<lambda>r. Inr (dset ps k r)) else Inr ps) = Inr ps"
  using coerce_count_within [OF assms, of msg] by (auto simp: dget_def dset_same)

lemma validate_params_same: "params_wf ps \<Longrightarrow> validate_params ps = Inr ps"
  by (simp add: validate_params_def params_wf_def coerce_field_same Let_def del: if_split)

lemma opt_str_field_opt:
  assumes "map_of d k = Some (opt_pystr s)" and "\<And>x. s = Some x \<Longrightarrow> pat x"
  shows "opt_str_field d k pat = Inr s"
  using assms by (cases s) (simp_all add: opt_str_field_def opt_pystr_def)

lemma model_dump_fields [simp]:
  "map_of (model_dump i) ''action'' = Some (PStr (action_value (ei_action i)))"
  "map_of (model_dump i) ''resource_type'' = Some (PStr (ei_resource_type i))"
  "map_of (model_dump i) ''resource_name'' = Some (PStr (ei_resource_name i))"
  "map_of (model_dump i) ''namespace'' = Some (PStr (ei_namespace i))"
  "map_of (model_dump i) ''params'' = Some (PDict (ei_params i))"
  "map_of (model_dump i) ''risk'' = Some (PStr (ei_risk i))"
  "map_of (model_dump i) ''playbook'' = Some (opt_pystr (ei_playbook i))"
  "map_of (model_dump i) ''playbook_match'' = Some (opt_pystr (ei_playbook_match i))"
  by (simp_all add: model_dump_def)

lemma model_dump_valid:
  assumes "intent_wf i" and "\<And>s. ei_playbook i = Some s \<Longrightarrow> playbook_pattern s"
    and "\<And>s. ei_playbook_match i = Some s \<Longrightarrow> playbook_match_pattern s"
  shows "model_validate (PDict (model_dump i)) = Inr i"
proof -
  have "opt_str_field (model_dump i) ''playbook'' playbook_pattern = Inr (ei_playbook i)"
    "opt_str_field (model_dump i) ''playbook_match'' playbook_match_pattern = Inr (ei_playbook_match i)"
    by (rule opt_str_field_opt; simp add: assms)+
  moreover have "validate_params (ei_params i) = Inr (ei_params i)" "validate_resource_name (ei_resource_name i) = Inr (ei_resource_name i)"
    "block_system_ns (ei_namespace i) = Inr (ei_namespace i)"
    using assms(1) by (simp_all add: intent_wf_def validate_params_same validate_resource_name_Inr block_system_ns_Inr)
  ultimately show ?thesis
    using assms(1) by (simp add: model_validate_def req_str_field_def has_key_def as_validation_def intent_wf_def)
qed

lemma k8s_name_no_space: "k8s_name v \<Longrightarrow> CHR '' '' \<notin> set v"
  by (auto simp: k8s_name_def list_all_iff ch_az09_def ch_az_def ch_digit_def)

lemma k8s_name_no_flag: "k8s_name v \<Longrightarrow> \<not> startswith v ''-''"
  by (cases v) (auto simp: k8s_name_def ch_az09_def ch_az_def ch_digit_def)

lemma label_text_no_space: "label_text_ok v \<Longrightarrow> CHR '' '' \<notin> set v"
  by (auto simp: label_text_ok_def list_all_iff label_char_def ch_AZ_def ch_az_def ch_digit_def)

lemma int_str_no_space: "CHR '' '' \<notin> set (int_str i)"
  using int_str_chars [of "CHR '' ''" i] by (auto simp: ch_digit_def)

lemma replicas_text:
  assumes "intent_wf i"
  obtains n where "dget_or (ei_params i) ''replicas'' (PInt 1) = PInt n" and "1 \<le> n" and "n \<le> 100"
  using assms that
  by (auto simp: intent_wf_def params_wf_def count_within_def dget_or_def dget_def has_key_def
      split: option.splits)

lemma current_replicas_text:
  assumes "intent_wf i" and "dget (ei_params i) ''current_replicas'' \<noteq> PNone"
  obtains n where "dget (ei_params i) ''current_replicas'' = PInt n" and "0 \<le> n"
  using assms that dget_not_None_has_key [OF assms(2)]
  by (auto simp: intent_wf_def params_wf_def count_within_def)

lemma to_argv_no_space:
  assumes wf: "intent_wf i" and argv: "to_argv i = Inr argv" and "s \<in> set argv"
  shows "CHR '' '' \<notin> set s"
proof -
  have n: "CHR '' '' \<notin> set (ei_resource_name i)" "CHR '' '' \<notin> set (ei_namespace i)"
    "CHR '' '' \<notin> set (ei_resource_type i)"
    using wf by (auto simp: intent_wf_def resource_type_pattern_def dest: k8s_name_no_space)
  obtain r where r: "dget_or (ei_params i) ''replicas'' (PInt 1) = PInt r"
    using replicas_text [OF wf] by metis
  show ?thesis
  proof (cases "ei_action i")
    case SCALE_DEPLOYMENT
    show ?thesis
    proof (cases "dget (ei_params i) ''current_replicas'' = PNone")
      case True
      with SCALE_DEPLOYMENT assms n r int_str_no_space [of r] show ?thesis
        by (auto simp: to_argv_def)
    next
      case False
      obtain c where "dget (ei_params i) ''current_replicas'' = PInt c"
        using current_replicas_text [OF wf False] by metis
      with SCALE_DEPLOYMENT assms n r int_str_no_space [of r] int_str_no_space [of c] show ?thesis
        by (auto simp: to_argv_def)
    qed
  next
    case GET_PODS
    with assms n show ?thesis
      by (auto simp: to_argv_def Let_def intent_wf_def params_wf_def split: if_splits
          dest: label_text_no_space)
  qed (use assms n in \<open>auto simp: to_argv_def\<close>)
qed

lemma to_argv_total: "\<exists>argv. to_argv i = Inr argv \<and> argv \<noteq> []"
  by (cases "ei_action i") (auto simp: to_argv_def Let_def)

text \<open>What a command looks like around its namespace: no option before \<open>-n\<close>, only the action's own ones after.\<close>

definition own_option :: "string \<Rightarrow> bool" where
  "own_option s \<longleftrightarrow> startswith s ''--replicas='' \<or> startswith s ''--current-replicas='' \<or> s = ''--tail=100''"

definition shielded :: "string list \<Rightarrow> string \<Rightarrow> bool" where
  "shielded argv ns \<longleftrightarrow>
     (\<exists>pre post. argv = pre @ [''-n'', ns] @ post \<and> list_all (\<lambda>s. \<not> startswith s ''-'') (ns # pre) \<and>
                 list_all own_option post)"

lemma to_argv_shielded:
  assumes wf: "intent_wf i" and a: "ei_action i \<noteq> GET_PODS" and argv: "to_argv i = Inr argv"
  shows "shielded argv (ei_namespace i)"
proof -
  have ns: "\<not> startswith (ei_namespace i) ''-''" and rn: "\<not> startswith (ei_resource_name i) ''-''"
    and rt: "\<not> startswith (ei_resource_type i @ x) ''-''" for x
    using wf by (auto simp: intent_wf_def resource_type_pattern_def dest: k8s_name_no_flag)
  define pre post where
    "pre = takeWhile (\<lambda>s. s \<noteq> ''-n'') argv" and "post = drop 2 (dropWhile (\<lambda>s. s \<noteq> ''-n'') argv)"
  have "ei_resource_name i \<noteq> ''-n''" "ei_resource_type i @ x \<noteq> ''-n''" for x
    using rn rt [of x] by auto
  with a argv ns rn rt have "argv = pre @ [''-n'', ei_namespace i] @ post \<and>
      list_all (\<lambda>s. \<not> startswith s ''-'') (ei_namespace i # pre) \<and> list_all own_option post"
    unfolding pre_def post_def
    by (cases "ei_action i") (auto simp: to_argv_def Let_def own_option_def)
  then show ?thesis unfolding shielded_def by blast
qed

lemma to_kubectl_inj:
  assumes "intent_wf i" and "intent_wf j" and "to_kubectl i = to_kubectl j"
  shows "to_argv i = to_argv j"
proof -
  obtain a b where ab: "to_argv i = Inr a" "a \<noteq> []" "to_argv j = Inr b" "b \<noteq> []"
    using to_argv_total by metis
  with assms(3) have "join '' '' a = join '' '' b" by (simp add: to_kubectl_def)
  with ab assms(1,2) show ?thesis
    by (metis split_on_join to_argv_no_space)
qed

lemma mutating_argv_inj:
  assumes i: "intent_wf i" and j: "intent_wf j"
    and eq: "to_argv i = to_argv j"
    and mi: "is_mutating (ei_action i) = Inr True"
  shows "ei_action j = ei_action i \<and> ei_resource_name j = ei_resource_name i \<and>
    ei_namespace j = ei_namespace i \<and>
    (ei_action i = SCALE_DEPLOYMENT \<longrightarrow>
       dget_or (ei_params j) ''replicas'' (PInt 1) = dget_or (ei_params i) ''replicas'' (PInt 1))"
proof -
  obtain n m where n: "dget_or (ei_params i) ''replicas'' (PInt 1) = PInt n" "1 \<le> n"
    and m: "dget_or (ei_params j) ''replicas'' (PInt 1) = PInt m" "1 \<le> m"
    using replicas_text [OF i] replicas_text [OF j] by metis
  have "int_str n = int_str m \<Longrightarrow> n = m"
    using n m by (intro int_str_nonneg_inj) auto
  with eq mi n m show ?thesis
    by (cases "ei_action i"; cases "ei_action j")
      (auto simp: to_argv_def Let_def is_mutating_def split: if_splits)
qed


lemma map_of_filter_key: "map_of (filter (\<lambda>(k, v). P k) d) k = (if P k then map_of d k else None)"
  by (induction d) auto

lemma drop_server_fields_dict:
  obtains e where "drop_server_fields (PDict d) = PDict e" and "map_of e ''playbook_match'' = None"
    and "\<And>ps. map_of e ''params'' = Some (PDict ps) \<Longrightarrow> \<not> has_key ps ''current_replicas''"
proof (rule that)
  let ?out = "filter (\<lambda>(k, v). k \<notin> set SERVER_ONLY_FIELDS) d"
  define e where "e = (case drop_server_fields (PDict d) of PDict e \<Rightarrow> e | _ \<Rightarrow> [])"
  have out: "map_of ?out ''playbook_match'' = None"
    by (simp add: map_of_filter_key SERVER_ONLY_FIELDS_def)
  show "drop_server_fields (PDict d) = PDict e"
    by (simp add: e_def drop_server_fields_def Let_def split: pyval.split)
  show "map_of e ''playbook_match'' = None"
    using out by (simp add: e_def drop_server_fields_def Let_def dset_def update_conv' split: pyval.split)
  show "\<not> has_key ps ''current_replicas''" if "map_of e ''params'' = Some (PDict ps)" for ps
    using that
    by (auto simp: e_def drop_server_fields_def Let_def dset_def update_conv' has_key_def dget_def
        map_of_filter_key SERVER_ONLY_PARAMS_def split: pyval.splits option.splits)
qed

lemma validate_params_has_key:
  "validate_params v = Inr ps \<Longrightarrow> has_key ps k = has_key v k"
  unfolding validate_params_def Let_def
  by (elim rbind_cases) (auto simp: rbind_eq_Inr split: if_splits)

section \<open>Properties\<close>

definition sample_answer :: pyval where
  "sample_answer = PDict
     [(''action'', PStr ''scale_deployment''), (''resource_type'', PStr ''deployment''),
      (''resource_name'', PStr ''api''), (''namespace'', PStr ''squad-1''),
      (''params'', PDict [(''replicas'', PStr ''3''), (''current_replicas'', PInt 9)]),
      (''playbook_match'', PStr ''0123456789ab'')]"

definition sample_scale :: ExecutionIntent where
  "sample_scale =
     \<lparr>ei_action = SCALE_DEPLOYMENT, ei_resource_type = ''deployment'', ei_resource_name = ''api'',
      ei_namespace = ''squad-1'', ei_params = [(''replicas'', PInt 3)], ei_risk = ''medium'',
      ei_playbook = None, ei_playbook_match = None\<rparr>"

lemma sample_scale_ok: "model_validate (drop_server_fields sample_answer) = Inr sample_scale"
  by code_simp

text \<open>
  C22. The command a validated intent is logged and shown as is the command that runs: splitting the
  text of \<open>to_kubectl\<close> at blanks gives back the argument vector of \<open>to_argv\<close>, element by element, so
  neither a name, a namespace nor a parameter can smuggle an additional argument in. Both
  translations return for every validated intent.
\<close>

theorem validated_command_roundtrip:
  assumes "model_validate obj = Inr i"
  shows "\<exists>argv s. to_argv i = Inr argv \<and> to_kubectl i = Inr s \<and> split_on (\<lambda>c. c = CHR '' '') s = argv"
proof -
  from to_argv_total [of i] obtain argv where "to_argv i = Inr argv" and "argv \<noteq> []" by blast
  then show ?thesis
    using split_on_join [of argv "CHR '' ''"] to_argv_no_space [OF model_validate_wf [OF assms]]
    by (auto simp: to_kubectl_def)
qed

theorem validated_command_roundtrip_witness:
  "\<exists>argv s. to_argv sample_scale = Inr argv \<and> to_kubectl sample_scale = Inr s \<and>
     split_on (\<lambda>c. c = CHR '' '') s = argv"
  using validated_command_roundtrip [OF sample_scale_ok] .

text \<open>
  No option injection: in the command of a validated intent other than a pod listing, no argument
  before \<open>-n\<close> is an option, \<open>-n\<close> is followed by the intent's own namespace, and what follows are only
  the options the translator writes itself. The namespace checks on the intent are therefore
  checks on the command.
\<close>

theorem validated_command_shielded:
  assumes "model_validate obj = Inr i" and "ei_action i \<noteq> GET_PODS"
  shows "\<exists>argv. to_argv i = Inr argv \<and> shielded argv (ei_namespace i)"
  using assms to_argv_total to_argv_shielded model_validate_wf by blast

theorem validated_command_shielded_witness:
  "\<exists>argv. to_argv sample_scale = Inr argv \<and> shielded argv (ei_namespace sample_scale)"
  using validated_command_shielded [OF sample_scale_ok] by (simp add: sample_scale_def)

text \<open>
  The text a human approves identifies the change: two validated intents with the same command
  text, the first of them mutating, have the same action, the same object, the same namespace and,
  for a scale, the same replica count.
\<close>

theorem command_text_identifies_change:
  assumes "model_validate x = Inr i" and "model_validate y = Inr j"
    and "is_mutating (ei_action i) = Inr True" and "to_kubectl i = to_kubectl j"
  shows "ei_action j = ei_action i \<and> ei_resource_name j = ei_resource_name i \<and>
    ei_namespace j = ei_namespace i \<and>
    (ei_action i = SCALE_DEPLOYMENT \<longrightarrow>
       dget_or (ei_params j) ''replicas'' (PInt 1) = dget_or (ei_params i) ''replicas'' (PInt 1))"
  using assms by (meson mutating_argv_inj to_kubectl_inj model_validate_wf)

theorem command_text_identifies_change_witness:
  "ei_action sample_scale = ei_action sample_scale \<and> ei_namespace sample_scale = ''squad-1''"
  using command_text_identifies_change [OF sample_scale_ok sample_scale_ok]
  by (simp add: sample_scale_def is_mutating_def)

text \<open>
  What only the server may fill in never comes from the model's answer: after
  \<open>_drop_server_fields\<close> a validated intent has no \<open>playbook_match\<close> and no \<open>current_replicas\<close>, whatever
  the answer said.
\<close>

theorem model_fields_are_server_only:
  assumes "model_validate (drop_server_fields obj) = Inr i"
  shows "ei_playbook_match i = None \<and> \<not> has_key (ei_params i) ''current_replicas''"
proof (cases obj)
  case (PDict d)
  obtain e where e: "drop_server_fields (PDict d) = PDict e" "map_of e ''playbook_match'' = None"
    "\<And>ps. map_of e ''params'' = Some (PDict ps) \<Longrightarrow> \<not> has_key ps ''current_replicas''"
    by (rule drop_server_fields_dict) blast
  have "ei_playbook_match i = None"
    using assms PDict e(1,2)
    by (auto simp: model_validate_def rbind_eq_Inr opt_str_field_def split: option.splits if_splits)
  moreover have "\<not> has_key (ei_params i) ''current_replicas''"
    using assms PDict e(1,3)
    by (auto simp: model_validate_def rbind_eq_Inr has_key_def [of "[]"] split: option.splits if_splits pyval.splits
        dest!: validate_params_has_key)
  ultimately show ?thesis ..
qed (use assms in \<open>simp_all add: model_validate_def drop_server_fields_def\<close>)

theorem model_fields_are_server_only_witness:
  "ei_playbook_match sample_scale = None \<and> \<not> has_key (ei_params sample_scale) ''current_replicas''"
  using model_fields_are_server_only [OF sample_scale_ok] .

text \<open>
  A label selector may look like an option: the value \<open>--namespace=kube-system\<close> passes the label
  check, although the comment on the validator promises a selector without flags, and stands in the
  argument vector after \<open>-l\<close>.
\<close>

theorem label_may_look_like_option:
  "\<exists>i. model_validate (PDict
     [(''action'', PStr ''get_pods''), (''resource_type'', PStr ''pod''),
      (''resource_name'', PStr ''api''), (''namespace'', PStr ''squad-1''),
      (''params'', PDict [(''label'', PStr ''--namespace=kube-system'')])]) = Inr i \<and>
     to_argv i = Inr [''kubectl'', ''get'', ''pods'', ''-n'', ''squad-1'', ''-l'', ''--namespace=kube-system'']"
proof -
  define i where "i = \<lparr>ei_action = GET_PODS, ei_resource_type = ''pod'', ei_resource_name = ''api'',
    ei_namespace = ''squad-1'', ei_params = [(''label'', PStr ''--namespace=kube-system'')],
    ei_risk = ''medium'', ei_playbook = None, ei_playbook_match = None\<rparr>"
  have "model_validate (PDict
     [(''action'', PStr ''get_pods''), (''resource_type'', PStr ''pod''),
      (''resource_name'', PStr ''api''), (''namespace'', PStr ''squad-1''),
      (''params'', PDict [(''label'', PStr ''--namespace=kube-system'')])]) = Inr i"
    unfolding i_def by code_simp
  moreover have "to_argv i = Inr [''kubectl'', ''get'', ''pods'', ''-n'', ''squad-1'', ''-l'', ''--namespace=kube-system'']"
    unfolding i_def by code_simp
  ultimately show ?thesis by blast
qed

end
