(* ===== verification/Facts.thy ===== *)
theory Facts
  imports Prelude
begin

text \<open>
  \<open>app/diagnostics/facts.py\<close>, \<open>engine.py\<close> and \<open>rules/base.py\<close>: facts with their three verdicts, the demotion
  of a negative answer whose source failed, the store of one diagnostic run and the treatment of
  contradictory facts. A rule's \<open>evaluate\<close> is a field of the rule; \<open>None\<close> is an exception in it, and a
  \<open>None\<close> element an object that is not a \<open>Fact\<close>. The facts of a run are distinct objects, so a position
  in the store identifies one.
\<close>

section \<open>Facts\<close>

datatype Verdict = FOUND | ABSENT | V_UNKNOWN

fun verdict_value :: "Verdict \<Rightarrow> string" where
  "verdict_value FOUND = ''found''"
| "verdict_value ABSENT = ''absent''"
| "verdict_value V_UNKNOWN = ''unknown''"

definition EPISTEMIC_VALUES :: "string list" where
  "EPISTEMIC_VALUES =
     [''observed'', ''declared'', ''corroborated'', ''inferred'', ''stale'', ''contradicted'', ''unknown'']"

record Fact =
  fc_kind :: string
  fc_observed :: bool
  fc_confidence :: pyfloat
  fc_evidence :: pydict
  fc_subject :: "string option"
  fc_source_rule :: "string option"
  fc_verdict :: string
  fc_epistemic :: "string option"
  fc_provenance :: "string option"
  fc_window_min :: "int option"
  fc_data_age_min :: "int option"
  fc_unknown_reason :: "string option"

text \<open>\<open>Fact.__post_init__\<close>, which every constructor call runs.\<close>

definition as_unknown :: "Fact \<Rightarrow> Fact" where
  "as_unknown f =
     (let reason = (case fc_unknown_reason f of
                      Some r \<Rightarrow> (if r \<noteq> [] then r
                                 else (let e = dget (fc_evidence f) ''reason'' in
                                       if truthy e then py_str e else ''unknown''))
                    | None \<Rightarrow> (let e = dget (fc_evidence f) ''reason'' in
                               if truthy e then py_str e else ''unknown''))
      in f\<lparr>fc_observed := False, fc_confidence := FFin 0 0,
           fc_epistemic := (case fc_epistemic f of None \<Rightarrow> Some ''unknown'' | Some e \<Rightarrow> Some e),
           fc_unknown_reason := Some reason,
           fc_evidence := setdefault (fc_evidence f) ''reason'' (PStr reason)\<rparr>)"

definition default_verdict :: "Fact \<Rightarrow> Fact" where
  "default_verdict f =
     (if fc_verdict f = []
      then f\<lparr>fc_verdict := verdict_value (if fc_observed f then FOUND else ABSENT)\<rparr> else f)"

definition check_verdict :: "Fact \<Rightarrow> Fact result" where
  "check_verdict f =
     (if fc_verdict f = verdict_value V_UNKNOWN then Inr (as_unknown f)
      else if fc_verdict f = verdict_value FOUND
      then (if fc_observed f then Inr f
            else Inl (ValueError ''Fact(verdict=found) requires observed=True''))
      else if fc_verdict f = verdict_value ABSENT
      then (if fc_observed f then Inl (ValueError ''Fact(verdict=absent) requires observed=False'')
            else Inr f)
      else Inl (ValueError (fc_verdict f @ '' is not a valid Verdict'')))"

definition check_epistemic :: "Fact \<Rightarrow> Fact result" where
  "check_epistemic f =
     (case fc_epistemic f of
        None \<Rightarrow> Inr f
      | Some e \<Rightarrow> (if e \<in> set EPISTEMIC_VALUES then Inr f
                   else Inl (ValueError (e @ '' is not a valid Epistemic''))))"

definition post_init :: "Fact \<Rightarrow> Fact result" where
  "post_init f = rbind (check_verdict (default_verdict f)) check_epistemic"

definition fact_unknown ::
  "string \<Rightarrow> string \<Rightarrow> string option \<Rightarrow> string option \<Rightarrow> string option \<Rightarrow> int option \<Rightarrow> pydict \<Rightarrow> Fact result" where
  "fact_unknown kind reason subject source_rule provenance window_min evidence =
     post_init \<lparr>fc_kind = kind, fc_observed = False, fc_confidence = FFin 0 0, fc_evidence = evidence,
       fc_subject = subject, fc_source_rule = source_rule, fc_verdict = verdict_value V_UNKNOWN,
       fc_epistemic = Some ''unknown'', fc_provenance = provenance, fc_window_min = window_min,
       fc_data_age_min = None, fc_unknown_reason = Some reason\<rparr>"

definition is_unknown :: "Fact \<Rightarrow> bool" where
  "is_unknown f \<longleftrightarrow> fc_verdict f = verdict_value V_UNKNOWN"

definition is_absent :: "Fact \<Rightarrow> bool" where
  "is_absent f \<longleftrightarrow> fc_verdict f = verdict_value ABSENT"

definition FACT_KINDS :: "string list" where
  "FACT_KINDS =
     [''oom_killed'', ''crashloop'', ''failed_scheduling'', ''recent_deploy'', ''resource_pressure'',
      ''upstream_degraded'', ''process_crash'', ''migration_failed'', ''db_permission'',
      ''orleans_membership_degraded'', ''image_pull'', ''container_config'']"

section \<open>The store\<close>

type_synonym FactStore = "Fact list"

definition by_kind :: "FactStore \<Rightarrow> string \<Rightarrow> Fact list" where
  "by_kind facts kind = filter (\<lambda>f. fc_kind f = kind) facts"

definition observed_kinds :: "FactStore \<Rightarrow> string set" where
  "observed_kinds facts = set (map fc_kind (filter fc_observed facts))"

definition unknown_kinds :: "FactStore \<Rightarrow> string set" where
  "unknown_kinds facts = set (map fc_kind (filter is_unknown facts)) - observed_kinds facts"

definition has_observed :: "FactStore \<Rightarrow> string \<Rightarrow> bool" where
  "has_observed facts kind = list_ex fc_observed (by_kind facts kind)"

text \<open>
  The pairs are frozensets, so which member comes first depends on the interpreter's hash seed: the
  functions below take the ordered pairs as an argument, and \<open>kind_order\<close> says what orders there are.
\<close>

definition MUTUALLY_EXCLUSIVE_PAIRS :: "string set list" where
  "MUTUALLY_EXCLUSIVE_PAIRS = [{''oom_killed'', ''process_crash''}, {''image_pull'', ''crashloop''}]"

definition kind_order :: "(string \<times> string) list \<Rightarrow> bool" where
  "kind_order pairs \<longleftrightarrow> map (\<lambda>(a, b). {a, b}) pairs = MUTUALLY_EXCLUSIVE_PAIRS"

definition same_subject :: "string option \<Rightarrow> string option \<Rightarrow> bool" where
  "same_subject a b \<longleftrightarrow> a = None \<or> b = None \<or> a = b"

definition observed_positions :: "FactStore \<Rightarrow> string \<Rightarrow> nat list" where
  "observed_positions facts kind =
     filter (\<lambda>i. fc_kind (facts ! i) = kind \<and> fc_observed (facts ! i)) [0..<length facts]"

definition conflicts :: "(string \<times> string) list \<Rightarrow> FactStore \<Rightarrow> (nat \<times> nat) list" where
  "conflicts pairs facts =
     concat (map (\<lambda>(ka, kb).
       concat (map (\<lambda>i. map (Pair i)
           (filter (\<lambda>j. same_subject (fc_subject (facts ! i)) (fc_subject (facts ! j)))
             (observed_positions facts kb)))
         (observed_positions facts ka))) pairs)"

section \<open>Rules and the engine\<close>

record diag_rule =
  rl_name :: string
  rl_sources :: "string list"
  rl_evaluate :: "pydict \<Rightarrow> Fact option list option"

definition source_problem :: "pydict \<Rightarrow> string \<Rightarrow> string option" where
  "source_problem ctx field =
     (case dget ctx ''source_status'' of
        PDict status \<Rightarrow> (let problem = dget status field in
                         if truthy problem then Some (py_str problem) else None)
      | _ \<Rightarrow> None)"

definition failed_sources :: "diag_rule \<Rightarrow> pydict \<Rightarrow> pydict" where
  "failed_sources rule ctx =
     foldl (\<lambda>out src. case source_problem ctx src of
              Some problem \<Rightarrow> dset out src (PStr problem) | None \<Rightarrow> out) [] (rl_sources rule)"

definition demote :: "string \<Rightarrow> string \<Rightarrow> Fact option \<Rightarrow> Fact option result" where
  "demote rule_name reason x =
     (case x of
        Some f \<Rightarrow>
          if is_absent f
          then rbind (fact_unknown (fc_kind f) reason (fc_subject f)
                        (Some (case fc_source_rule f of
                                 Some s \<Rightarrow> (if s \<noteq> [] then s else rule_name) | None \<Rightarrow> rule_name))
                        (fc_provenance f) (fc_window_min f)
                        (merge_dict [(''demoted_from'', PStr ''absent'')] (fc_evidence f)))
                 (\<lambda>u. Inr (Some u))
          else Inr (Some f)
      | None \<Rightarrow> Inr None)"

definition apply_source_status :: "diag_rule \<Rightarrow> pydict \<Rightarrow> Fact option list \<Rightarrow> Fact option list result" where
  "apply_source_status rule ctx facts =
     (let failed = failed_sources rule ctx in
      if failed = [] then Inr facts
      else (let reason = join ''; '' (map (\<lambda>(src, why). src @ '': '' @ py_str why) failed)
            in rmap (demote (rl_name rule) reason) facts))"

definition rule_run :: "diag_rule \<Rightarrow> pydict \<Rightarrow> Fact option list result" where
  "rule_run rule ctx =
     (case rl_evaluate rule ctx of
        None \<Rightarrow> Inl (ValueError ''rule failed'')
      | Some facts \<Rightarrow> apply_source_status rule ctx facts)"

definition cap_confidence :: "pyfloat \<Rightarrow> pyfloat" where
  "cap_confidence c = (if fgt c (6 / 10) then FFin 6 (- 1) else c)"

definition mark_conflict :: "string \<Rightarrow> Fact \<Rightarrow> Fact" where
  "mark_conflict kind f =
     f\<lparr>fc_confidence := cap_confidence (fc_confidence f),
       fc_evidence := setdefault (fc_evidence f) ''conflict_with'' (PStr kind)\<rparr>"

definition apply_conflict :: "FactStore \<Rightarrow> nat \<times> nat \<Rightarrow> FactStore" where
  "apply_conflict facts ij =
     (case ij of (i, j) \<Rightarrow>
        (let a = facts ! i; b = facts ! j in
         facts[i := mark_conflict (fc_kind b) a, j := mark_conflict (fc_kind a) b]))"

definition apply_conflict_signals :: "(string \<times> string) list \<Rightarrow> FactStore \<Rightarrow> FactStore" where
  "apply_conflict_signals pairs store = foldl apply_conflict store (conflicts pairs store)"

definition collect :: "diag_rule list \<Rightarrow> pydict \<Rightarrow> FactStore" where
  "collect rules ctx =
     foldl (\<lambda>store rule. case rule_run rule ctx of
              Inl _ \<Rightarrow> store
            | Inr facts \<Rightarrow> store @ List.map_filter id facts) [] rules"

definition engine_run :: "(string \<times> string) list \<Rightarrow> diag_rule list \<Rightarrow> pydict \<Rightarrow> FactStore" where
  "engine_run pairs rules ctx = apply_conflict_signals pairs (collect rules ctx)"

section \<open>Workloads\<close>

definition base_names :: "string \<Rightarrow> string list" where
  "base_names name =
     (let parts = split_on (\<lambda>c. c = CHR ''-'') name in
      name # map (\<lambda>depth. join ''-'' (take (length parts - depth) parts))
               (filter (\<lambda>depth. 1 \<le> length parts - depth) [1, 2]))"

definition same_workload :: "string \<Rightarrow> string \<Rightarrow> bool" where
  "same_workload pod_name target =
     (if pod_name = [] \<or> target = [] then False
      else if pod_name = target \<or> startswith pod_name (target @ ''-'') then True
      else list_ex (\<lambda>(i, a).
             list_ex (\<lambda>(j, b). a = b \<and> \<not> (3 \<le> i + j \<and> CHR ''-'' \<notin> set a))
               (enumerate 0 (base_names target)))
           (enumerate 0 (base_names pod_name)))"

section \<open>Lemmas\<close>

lemma verdict_values_differ [simp]:
  "verdict_value a = verdict_value b \<longleftrightarrow> a = b"
  by (cases a; cases b) simp_all

lemma verdict_value_nonempty [simp]: "verdict_value v \<noteq> []"
  by (cases v) simp_all

text \<open>
  The evidence contract: what a constructed fact satisfies. The constructor takes such a fact as it is.
\<close>

definition fact_wf :: "Fact \<Rightarrow> bool" where
  "fact_wf f \<longleftrightarrow>
     (\<exists>v. fc_verdict f = verdict_value v) \<and>
     (fc_observed f \<longleftrightarrow> fc_verdict f = verdict_value FOUND) \<and>
     (is_unknown f \<longrightarrow>
        fc_confidence f = FFin 0 0 \<and> fc_unknown_reason f \<noteq> None \<and>
        has_key (fc_evidence f) ''reason'') \<and>
     post_init f = Inr f"

lemma as_unknown_simps [simp]:
  "fc_kind (as_unknown f) = fc_kind f" "fc_subject (as_unknown f) = fc_subject f"
  "fc_verdict (as_unknown f) = fc_verdict f" "fc_observed (as_unknown f) = False"
  "fc_confidence (as_unknown f) = FFin 0 0" "\<exists>r. fc_unknown_reason (as_unknown f) = Some r"
  "has_key (fc_evidence (as_unknown f)) ''reason''"
  "fc_epistemic (as_unknown f) = Some (case fc_epistemic f of None \<Rightarrow> ''unknown'' | Some e \<Rightarrow> e)"
  by (simp_all add: as_unknown_def Let_def split: option.split)

lemma check_epistemic_Inr: "check_epistemic f = Inr g \<Longrightarrow> g = f"
  by (auto simp: check_epistemic_def split: option.splits if_splits)

lemma setdefault_id: "has_key d k \<Longrightarrow> setdefault d k v = d"
  by (simp add: setdefault_def)

lemma as_unknown_again [simp]: "as_unknown (as_unknown f) = as_unknown f"
proof (cases "has_key (fc_evidence f) ''reason''")
  case True
  then show ?thesis
    by (cases f) (auto simp: as_unknown_def Let_def setdefault_id split: option.splits)
next
  case False
  then have "dget (fc_evidence f) ''reason'' = PNone" by (simp add: has_key_def dget_def split: option.splits)
  then show ?thesis
    by (cases f) (auto simp: as_unknown_def Let_def setdefault_id dget_setdefault split: option.splits)
qed

lemma default_verdict_fixed: "default_verdict f = f \<longleftrightarrow> fc_verdict f \<noteq> []"
proof -
  have "fc_verdict (default_verdict f) \<noteq> []" by (simp add: default_verdict_def)
  then have "default_verdict f = f \<Longrightarrow> fc_verdict f \<noteq> []" by metis
  moreover have "fc_verdict f \<noteq> [] \<Longrightarrow> default_verdict f = f" by (simp add: default_verdict_def)
  ultimately show ?thesis by blast
qed

lemma check_verdict_fixed:
  "check_verdict f = Inr f \<longleftrightarrow>
     fc_verdict f = ''found'' \<and> fc_observed f \<or> fc_verdict f = ''absent'' \<and> \<not> fc_observed f \<or>
     fc_verdict f = ''unknown'' \<and> as_unknown f = f"
  by (auto simp: check_verdict_def)

lemma post_init_fixed: "post_init f = Inr f \<longleftrightarrow> check_verdict f = Inr f \<and> check_epistemic f = Inr f"
proof
  assume "post_init f = Inr f"
  then have c: "check_verdict (default_verdict f) = Inr f" "check_epistemic f = Inr f"
    by (auto simp: post_init_def rbind_eq_Inr dest: check_epistemic_Inr)
  then have "f = default_verdict f \<or> f = as_unknown (default_verdict f)"
    by (simp add: check_verdict_def split: if_splits)
  moreover have "fc_verdict (default_verdict f) \<noteq> []" by (simp add: default_verdict_def)
  ultimately have "fc_verdict f \<noteq> []" by (metis as_unknown_simps(3))
  with c show "check_verdict f = Inr f \<and> check_epistemic f = Inr f" by (metis default_verdict_fixed)
next
  assume c: "check_verdict f = Inr f \<and> check_epistemic f = Inr f"
  then have "fc_verdict f \<noteq> []" by (auto simp: check_verdict_fixed)
  then have "default_verdict f = f" by (simp add: default_verdict_fixed)
  with c show "post_init f = Inr f" by (simp add: post_init_def)
qed

lemma check_verdict_again:
  assumes "check_verdict (default_verdict f) = Inr g"
  shows "check_verdict (default_verdict g) = Inr g"
proof -
  have "g = default_verdict f \<or> g = as_unknown (default_verdict f)"
    using assms by (simp add: check_verdict_def split: if_splits)
  moreover have "fc_verdict (default_verdict f) \<noteq> []" by (simp add: default_verdict_def)
  ultimately have "default_verdict g = g" by (auto simp: default_verdict_def)
  with assms show ?thesis
    using \<open>g = default_verdict f \<or> g = as_unknown (default_verdict f)\<close>
    by (auto simp: check_verdict_def split: if_splits)
qed

lemma post_init_wf: "post_init f = Inr g \<Longrightarrow> fact_wf g"
proof -
  assume p: "post_init f = Inr g"
  then have c: "check_verdict (default_verdict f) = Inr g" "check_epistemic g = Inr g"
    by (auto simp: post_init_def rbind_eq_Inr dest: check_epistemic_Inr)
  then have "post_init g = Inr g" using check_verdict_again by (simp add: post_init_def)
  with c(1) show ?thesis
    by (auto simp: check_verdict_def fact_wf_def is_unknown_def split: if_splits simp del: verdict_value.simps)
qed

lemma fact_unknown_total:
  "\<exists>u. fact_unknown kind reason subject rule prov win ev = Inr u \<and> is_unknown u \<and> fc_kind u = kind \<and>
       fc_subject u = subject"
  by (simp add: fact_unknown_def post_init_def default_verdict_def check_verdict_def check_epistemic_def
      is_unknown_def EPISTEMIC_VALUES_def)

lemma fact_unknown_wf: "fact_unknown kind reason subject rule prov win ev = Inr u \<Longrightarrow> fact_wf u"
  unfolding fact_unknown_def by (rule post_init_wf)

lemma demote_cases:
  obtains (absent) f u where "x = Some f" "is_absent f" "demote n r x = Inr (Some u)" "is_unknown u"
      "fc_kind u = fc_kind f" "fc_subject u = fc_subject f" "fact_wf u"
  | (kept) "demote n r x = Inr x" "\<And>f. x = Some f \<Longrightarrow> \<not> is_absent f"
proof (cases x)
  case (Some f)
  show ?thesis
  proof (cases "is_absent f")
    case True
    let ?s = "Some (case fc_source_rule f of Some s \<Rightarrow> (if s \<noteq> [] then s else n) | None \<Rightarrow> n)"
    let ?e = "merge_dict [(''demoted_from'', PStr ''absent'')] (fc_evidence f)"
    obtain u where "fact_unknown (fc_kind f) r (fc_subject f) ?s (fc_provenance f) (fc_window_min f) ?e = Inr u"
      "is_unknown u" "fc_kind u = fc_kind f" "fc_subject u = fc_subject f"
      using fact_unknown_total by blast
    then show ?thesis using Some True by (intro absent [of f u]) (auto simp: demote_def intro: fact_unknown_wf)
  qed (use Some kept in \<open>auto simp: demote_def\<close>)
qed (use kept in \<open>auto simp: demote_def\<close>)

lemma rmap_demote_total: "\<exists>ys. rmap (demote n r) xs = Inr ys"
proof (induction xs)
  case (Cons x xs)
  then show ?case by (cases rule: demote_cases [of x n r]) auto
qed simp

lemma apply_source_status_total: "\<exists>ys. apply_source_status rule ctx xs = Inr ys"
  using rmap_demote_total by (auto simp: apply_source_status_def Let_def)

lemma apply_source_status_wf:
  assumes "apply_source_status rule ctx xs = Inr ys" and "\<And>f. Some f \<in> set xs \<Longrightarrow> fact_wf f"
    and "Some f \<in> set ys"
  shows "fact_wf f"
proof (cases "failed_sources rule ctx = []")
  case False
  then obtain r where "rmap (demote (rl_name rule) r) xs = Inr ys"
    using assms(1) by (auto simp: apply_source_status_def Let_def)
  from rmap_mem [OF this assms(3)] obtain x where "x \<in> set xs" "demote (rl_name rule) r x = Inr (Some f)"
    by blast
  with assms(2) show ?thesis
    by (cases rule: demote_cases [of x "rl_name rule" r]) simp_all
qed (use assms in \<open>auto simp: apply_source_status_def\<close>)

lemma failed_sources_Nil:
  "failed_sources rule ctx = [] \<longleftrightarrow> (\<forall>src\<in>set (rl_sources rule). source_problem ctx src = None)"
proof -
  have "foldl (\<lambda>out src. case source_problem ctx src of
              Some problem \<Rightarrow> dset out src (PStr problem) | None \<Rightarrow> out) d srcs = []
        \<longleftrightarrow> d = [] \<and> (\<forall>src\<in>set srcs. source_problem ctx src = None)" for d srcs
  proof (induction srcs arbitrary: d)
    case (Cons s srcs)
    have "dset d k v \<noteq> []" for k v by (cases d) (auto simp: dset_def)
    with Cons show ?case by (auto split: option.split)
  qed simp
  then show ?thesis by (simp add: failed_sources_def)
qed

text \<open>What marking a conflict leaves alone.\<close>

lemma mark_conflict_simps [simp]:
  "fc_kind (mark_conflict k f) = fc_kind f" "fc_subject (mark_conflict k f) = fc_subject f"
  "fc_observed (mark_conflict k f) = fc_observed f" "fc_verdict (mark_conflict k f) = fc_verdict f"
  "fc_unknown_reason (mark_conflict k f) = fc_unknown_reason f"
  "fc_confidence (mark_conflict k f) = cap_confidence (fc_confidence f)"
  by (simp_all add: mark_conflict_def)

lemma cap_le [simp]: "\<not> fgt (cap_confidence c) (3 / 5)"
  by (simp add: cap_confidence_def dec_val_def)

lemma cap_zero [simp]: "cap_confidence (FFin 0 0) = FFin 0 0"
  by (simp add: cap_confidence_def dec_val_def)

lemma as_unknown_marked:
  assumes "as_unknown f = f"
  shows "as_unknown (mark_conflict k f) = mark_conflict k f"
proof (rule Fact.equality)
  have f: "fc_confidence f = FFin 0 0" "has_key (fc_evidence f) ''reason''" "\<not> fc_observed f"
    using assms as_unknown_simps(4,5,7) [of f] by simp_all
  have "fc_unknown_reason (as_unknown (mark_conflict k f)) = fc_unknown_reason (as_unknown f)"
    by (simp add: as_unknown_def Let_def mark_conflict_def dget_setdefault split: option.split)
  then show "fc_unknown_reason (as_unknown (mark_conflict k f)) = fc_unknown_reason (mark_conflict k f)"
    using assms by simp
  have "fc_epistemic (as_unknown (mark_conflict k f)) = fc_epistemic (as_unknown f)"
    by (simp add: mark_conflict_def)
  then show "fc_epistemic (as_unknown (mark_conflict k f)) = fc_epistemic (mark_conflict k f)"
    using assms by (simp add: mark_conflict_def)
  show "fc_evidence (as_unknown (mark_conflict k f)) = fc_evidence (mark_conflict k f)"
    using f by (simp add: as_unknown_def Let_def mark_conflict_def setdefault_id split: option.split)
qed (use assms as_unknown_simps(4,5) [of f] in \<open>simp_all add: as_unknown_def Let_def mark_conflict_def\<close>)

lemma mark_conflict_wf:
  assumes "fact_wf f"
  shows "fact_wf (mark_conflict k f)"
proof -
  have "check_epistemic (mark_conflict k f) = Inr (mark_conflict k f)"
    using assms by (auto simp: fact_wf_def post_init_fixed check_epistemic_def mark_conflict_def
        split: option.splits if_splits)
  moreover have "check_verdict (mark_conflict k f) = Inr (mark_conflict k f)"
    using assms by (auto simp: fact_wf_def post_init_fixed check_verdict_fixed as_unknown_marked)
  ultimately have "post_init (mark_conflict k f) = Inr (mark_conflict k f)" by (simp add: post_init_fixed)
  then show ?thesis using assms by (auto simp: fact_wf_def is_unknown_def) (simp_all add: mark_conflict_def)
qed

lemma length_apply_conflict [simp]: "length (apply_conflict fs ij) = length fs"
  by (simp add: apply_conflict_def Let_def split: prod.split)

lemma nth_apply_conflict:
  assumes "n < length fs"
  shows "apply_conflict fs (i, j) ! n =
    (if n = j then mark_conflict (fc_kind (fs ! i)) (fs ! j)
     else if n = i then mark_conflict (fc_kind (fs ! j)) (fs ! i) else fs ! n)"
  using assms by (simp add: apply_conflict_def Let_def nth_list_update)

lemma length_apply_conflicts [simp]: "length (foldl apply_conflict fs cs) = length fs"
  by (induction cs arbitrary: fs) simp_all

text \<open>A property of one fact that marking keeps holds of every fact after all marks.\<close>

definition in_bounds :: "(nat \<times> nat) list \<Rightarrow> nat \<Rightarrow> bool" where
  "in_bounds cs n = list_all (\<lambda>(i, j). i < n \<and> j < n) cs"

lemma in_bounds_Cons [simp]: "in_bounds ((i, j) # cs) n \<longleftrightarrow> i < n \<and> j < n \<and> in_bounds cs n"
  by (auto simp: in_bounds_def)

lemma conflicts_keep:
  assumes "\<And>k f. P f \<Longrightarrow> P (mark_conflict k f)" and "in_bounds cs (length fs)" and "n < length fs" and "P (fs ! n)"
  shows "P (foldl apply_conflict fs cs ! n)"
  using assms(2-4)
proof (induction cs arbitrary: fs)
  case (Cons c cs)
  obtain i j where c: "c = (i, j)" by (cases c)
  with Cons.prems have "P (apply_conflict fs c ! n)"
    using assms(1) by (auto simp: nth_apply_conflict)
  with Cons.IH [of "apply_conflict fs c"] Cons.prems c show ?case by simp
qed simp

lemma conflicts_bounds: "in_bounds (conflicts pairs fs) (length fs)"
  by (auto simp: in_bounds_def conflicts_def observed_positions_def list_all_iff)

lemma observed_positions_iff:
  "i \<in> set (observed_positions fs k) \<longleftrightarrow> i < length fs \<and> fc_kind (fs ! i) = k \<and> fc_observed (fs ! i)"
  by (auto simp: observed_positions_def)

lemma conflicts_iff:
  "(i, j) \<in> set (conflicts pairs fs) \<longleftrightarrow>
     i < length fs \<and> j < length fs \<and> fc_observed (fs ! i) \<and> fc_observed (fs ! j) \<and>
     (fc_kind (fs ! i), fc_kind (fs ! j)) \<in> set pairs \<and>
     same_subject (fc_subject (fs ! i)) (fc_subject (fs ! j))"
proof -
  have "(i, j) \<in> set (conflicts pairs fs) \<longleftrightarrow> (\<exists>(ka, kb)\<in>set pairs.
      i \<in> set (observed_positions fs ka) \<and> j \<in> set (observed_positions fs kb) \<and>
      same_subject (fc_subject (fs ! i)) (fc_subject (fs ! j)))"
    unfolding conflicts_def by (fastforce simp del: set_filter simp: set_filter)
  then show ?thesis by (force simp: observed_positions_iff)
qed

lemma conflict_caps:
  assumes "(i, j) \<in> set cs" and "in_bounds cs (length fs)" and "n = i \<or> n = j"
  shows "\<not> fgt (fc_confidence (foldl apply_conflict fs cs ! n)) (6 / 10)"
  using assms
proof (induction cs arbitrary: fs)
  case (Cons c cs)
  let ?P = "\<lambda>f. \<not> fgt (fc_confidence f) (6 / 10)"
  obtain i' j' where c: "c = (i', j')" by (cases c)
  show ?case
  proof (cases "c = (i, j)")
    case True
    with Cons.prems have n: "n < length fs" by auto
    with True Cons.prems(3) have "?P (apply_conflict fs c ! n)"
      by (auto simp: nth_apply_conflict)
    with n c Cons.prems(2) conflicts_keep [of ?P cs "apply_conflict fs c" n] show ?thesis by simp
  next
    case False
    with Cons.prems c Cons.IH [of "apply_conflict fs c"] show ?thesis by auto
  qed
qed simp

lemma conflict_untouched:
  assumes "\<And>i j. (i, j) \<in> set cs \<Longrightarrow> n \<noteq> i \<and> n \<noteq> j" and "n < length fs"
  shows "foldl apply_conflict fs cs ! n = fs ! n"
  using assms
proof (induction cs arbitrary: fs)
  case (Cons c cs)
  then have "apply_conflict fs c ! n = fs ! n"
    by (cases c) (fastforce simp: nth_apply_conflict)
  moreover have "foldl apply_conflict (apply_conflict fs c) cs ! n = apply_conflict fs c ! n"
    using Cons.IH [of "apply_conflict fs c"] Cons.prems by (metis length_apply_conflict list.set_intros(2))
  ultimately show ?case by simp
qed simp

lemma collect_mem:
  assumes "f \<in> set (collect rules ctx)"
  obtains r fs where "r \<in> set rules" "rule_run r ctx = Inr fs" "Some f \<in> set fs"
proof -
  have "set (foldl (\<lambda>store rule. case rule_run rule ctx of
          Inl _ \<Rightarrow> store | Inr facts \<Rightarrow> store @ List.map_filter id facts) st rs)
        \<subseteq> set st \<union> {f. \<exists>r\<in>set rs. \<exists>fs. rule_run r ctx = Inr fs \<and> Some f \<in> set fs}" for st rs
  proof (induction rs arbitrary: st)
    case (Cons r rs)
    show ?case
      using Cons by (cases "rule_run r ctx") (fastforce simp: List.map_filter_def)+
  qed simp
  then show thesis using assms that by (fastforce simp: collect_def)
qed

lemma collect_wf:
  assumes "\<And>r fs f. r \<in> set rules \<Longrightarrow> rl_evaluate r ctx = Some fs \<Longrightarrow> Some f \<in> set fs \<Longrightarrow> fact_wf f"
    and "f \<in> set (collect rules ctx)"
  shows "fact_wf f"
  using assms(2) by (rule collect_mem)
    (use assms(1) apply_source_status_wf in \<open>auto simp: rule_run_def split: option.splits\<close>)

text \<open>A property of every collected fact that marking keeps holds of every fact of the run.\<close>

lemma engine_run_keeps:
  assumes "\<And>g. g \<in> set (collect rules ctx) \<Longrightarrow> P g" and "\<And>k g. P g \<Longrightarrow> P (mark_conflict k g)"
    and "f \<in> set (engine_run pairs rules ctx)"
  shows "P f"
proof -
  let ?c = "collect rules ctx"
  obtain n where n: "n < length ?c" "f = foldl apply_conflict ?c (conflicts pairs ?c) ! n"
    using assms(3) by (auto simp: engine_run_def apply_conflict_signals_def in_set_conv_nth)
  then show ?thesis
    using conflicts_keep [of P, OF assms(2) conflicts_bounds] assms(1) by simp
qed

lemma same_workload_refl: "p \<noteq> [] \<Longrightarrow> same_workload p p"
  by (simp add: same_workload_def)

text \<open>Two facts that cannot both be true of the same crash.\<close>

definition contradict :: "Fact \<Rightarrow> Fact \<Rightarrow> bool" where
  "contradict f g \<longleftrightarrow> fc_observed f \<and> fc_observed g \<and> same_subject (fc_subject f) (fc_subject g) \<and>
     {fc_kind f, fc_kind g} \<in> set MUTUALLY_EXCLUSIVE_PAIRS"

lemma same_subject_sym: "same_subject a b \<longleftrightarrow> same_subject b a"
  by (auto simp: same_subject_def)

lemma doubleton_mem:
  "{a, b} \<in> set (map (\<lambda>(x, y). {x, y}) pairs) \<longleftrightarrow> (a, b) \<in> set pairs \<or> (b, a) \<in> set pairs"
proof (induction pairs)
  case (Cons p pairs)
  obtain x y where "p = (x, y)" by (cases p)
  with Cons show ?case
    by (simp only: list.map list.set prod.case insert_iff doubleton_eq_iff prod.inject) blast
qed simp

lemma kind_order_mem:
  "kind_order pairs \<Longrightarrow> {a, b} \<in> set MUTUALLY_EXCLUSIVE_PAIRS \<longleftrightarrow> (a, b) \<in> set pairs \<or> (b, a) \<in> set pairs"
  unfolding kind_order_def using doubleton_mem [of a b pairs] by simp

lemma conflicts_contradict:
  assumes "kind_order pairs" and "i < length fs" and "j < length fs"
  shows "(i, j) \<in> set (conflicts pairs fs) \<or> (j, i) \<in> set (conflicts pairs fs) \<longleftrightarrow> contradict (fs ! i) (fs ! j)"
  using assms same_subject_sym by (auto simp: conflicts_iff contradict_def kind_order_mem)

section \<open>Properties\<close>

text \<open>
  Every fact of a diagnostic run obeys the evidence contract, given that the rules build theirs
  with the constructor: it is observed exactly when its verdict is \<open>found\<close>, and an \<open>unknown\<close> fact has
  confidence zero and states its reason, after demotions and conflict marks as well. A failing rule
  does not prevent this.
\<close>

theorem engine_facts_wf:
  assumes "\<And>r fs f. r \<in> set rules \<Longrightarrow> rl_evaluate r ctx = Some fs \<Longrightarrow> Some f \<in> set fs \<Longrightarrow> \<exists>g. post_init g = Inr f"
    and "f \<in> set (engine_run pairs rules ctx)"
  shows "fact_wf f"
proof (rule engine_run_keeps [where P = fact_wf, OF _ mark_conflict_wf assms(2)])
  fix g assume "g \<in> set (collect rules ctx)"
  then show "fact_wf g" using collect_wf [of rules ctx] assms(1) post_init_wf by blast
qed

definition sample_rule :: diag_rule where
  "sample_rule = \<lparr>rl_name = ''oom'', rl_sources = [''logs_summary''],
     rl_evaluate = (\<lambda>ctx. Some [Some \<lparr>fc_kind = ''oom_killed'', fc_observed = False, fc_confidence = FFin 9 (- 1),
       fc_evidence = [], fc_subject = None, fc_source_rule = None, fc_verdict = ''absent'', fc_epistemic = None,
       fc_provenance = None, fc_window_min = None, fc_data_age_min = None, fc_unknown_reason = None\<rparr>])\<rparr>"

definition sample_ctx :: pydict where
  "sample_ctx = [(''source_status'', PDict [(''logs_summary'', PStr ''failed'')])]"

theorem engine_facts_wf_witness:
  "\<exists>f. f \<in> set (engine_run [] [sample_rule] sample_ctx) \<and> is_unknown f \<and> fact_wf f"
proof -
  let ?f = "hd (engine_run [] [sample_rule] sample_ctx)"
  have u: "is_unknown ?f \<and> engine_run [] [sample_rule] sample_ctx \<noteq> []" by code_simp
  then have "?f \<in> set (engine_run [] [sample_rule] sample_ctx)" by simp
  moreover have "fact_wf ?f"
  proof (rule engine_facts_wf)
    show "?f \<in> set (engine_run [] [sample_rule] sample_ctx)" using u by simp
    fix r fs f
    assume "r \<in> set [sample_rule]" "rl_evaluate r sample_ctx = Some fs" "Some f \<in> set fs"
    then have "post_init f = Inr f" 
      by (auto simp: sample_rule_def post_init_def default_verdict_def check_verdict_def check_epistemic_def)
    then show "\<exists>g. post_init g = Inr f" by blast
  qed
  ultimately show ?thesis using u by blast
qed

text \<open>
  A source that failed never proves absence: when one of a rule's sources is marked in
  \<open>source_status\<close>, the rule still returns, each of its \<open>absent\<close> facts has become an \<open>unknown\<close> one about
  the same kind and subject, and everything else it found is returned unchanged.
\<close>

theorem failed_source_demotes_absence:
  assumes "rl_evaluate rule ctx = Some es" and "src \<in> set (rl_sources rule)"
    and "source_problem ctx src \<noteq> None"
  shows "\<exists>fs. rule_run rule ctx = Inr fs \<and> list_all2 (\<lambda>e f. case e of
           Some a \<Rightarrow> if is_absent a
                     then (\<exists>u. f = Some u \<and> is_unknown u \<and> fc_kind u = fc_kind a \<and> fc_subject u = fc_subject a)
                     else f = e
         | None \<Rightarrow> f = e) es fs"
proof -
  have "failed_sources rule ctx \<noteq> []" using assms(2,3) by (auto simp: failed_sources_Nil)
  then obtain r fs where r: "rule_run rule ctx = Inr fs" "rmap (demote (rl_name rule) r) es = Inr fs"
    using assms(1) rmap_demote_total [of "rl_name rule" _ es]
    by (fastforce simp: rule_run_def apply_source_status_def Let_def)
  have "list_all2 (\<lambda>e f. case e of
           Some a \<Rightarrow> if is_absent a
                     then (\<exists>u. f = Some u \<and> is_unknown u \<and> fc_kind u = fc_kind a \<and> fc_subject u = fc_subject a)
                     else f = e
         | None \<Rightarrow> f = e) es fs"
    using r(2) unfolding rmap_Inr
  proof (rule list_all2_mono)
    fix e f assume "demote (rl_name rule) r e = Inr f"
    then show "case e of
           Some a \<Rightarrow> if is_absent a
                     then (\<exists>u. f = Some u \<and> is_unknown u \<and> fc_kind u = fc_kind a \<and> fc_subject u = fc_subject a)
                     else f = e
         | None \<Rightarrow> f = e"
      by (cases rule: demote_cases [of e "rl_name rule" r]) (auto split: option.split)
  qed
  with r(1) show ?thesis by blast
qed

theorem failed_source_demotes_absence_witness:
  "\<exists>f. rule_run sample_rule sample_ctx = Inr [f] \<and> (\<exists>u. f = Some u \<and> is_unknown u)"
proof -
  have p: "source_problem sample_ctx ''logs_summary'' \<noteq> None"
    by (simp add: sample_ctx_def source_problem_def dget_def)
  have s: "''logs_summary'' \<in> set (rl_sources sample_rule)" by (simp add: sample_rule_def)
  obtain a where a: "rl_evaluate sample_rule sample_ctx = Some [Some a]" "is_absent a"
    by (simp add: sample_rule_def is_absent_def)
  show ?thesis
    using failed_source_demotes_absence [OF a(1) s p] a(2) by (auto simp: list_all2_Cons1)
qed

text \<open>
  Contradictory facts are both weakened, whichever member of a pair the interpreter takes first:
  after a run, two observed facts of mutually exclusive kinds about the same subject both have a
  confidence of at most 0.60, and a fact that is in no such pair is exactly the one its rule produced.
\<close>

theorem contradictions_are_capped:
  assumes "kind_order pairs" and "i < length (collect rules ctx)" and "j < length (collect rules ctx)"
  shows "(contradict (collect rules ctx ! i) (collect rules ctx ! j) \<longrightarrow>
      \<not> fgt (fc_confidence (engine_run pairs rules ctx ! i)) (6 / 10) \<and>
      \<not> fgt (fc_confidence (engine_run pairs rules ctx ! j)) (6 / 10)) \<and>
    ((\<forall>f\<in>set (collect rules ctx). \<not> contradict (collect rules ctx ! i) f) \<longrightarrow>
      engine_run pairs rules ctx ! i = collect rules ctx ! i)"
proof (intro conjI impI)
  let ?c = "collect rules ctx"
  assume "contradict (?c ! i) (?c ! j)"
  with assms have "(i, j) \<in> set (conflicts pairs ?c) \<or> (j, i) \<in> set (conflicts pairs ?c)"
    by (simp add: conflicts_contradict)
  then show "\<not> fgt (fc_confidence (engine_run pairs rules ctx ! i)) (6 / 10)"
    and "\<not> fgt (fc_confidence (engine_run pairs rules ctx ! j)) (6 / 10)"
    using conflict_caps [of _ _ "conflicts pairs ?c" ?c, OF _ conflicts_bounds]
    unfolding engine_run_def apply_conflict_signals_def by blast+
next
  let ?c = "collect rules ctx"
  assume "\<forall>f\<in>set ?c. \<not> contradict (?c ! i) f"
  then have "(i, k) \<notin> set (conflicts pairs ?c) \<and> (k, i) \<notin> set (conflicts pairs ?c)" for k
    using assms(1) conflicts_contradict [where pairs = pairs and i = i and j = k and fs = ?c]
    by (metis conflicts_iff nth_mem)
  then show "engine_run pairs rules ctx ! i = ?c ! i"
    using conflict_untouched [of "conflicts pairs ?c" i ?c] assms(2)
    unfolding engine_run_def apply_conflict_signals_def by blast
qed

definition sample_crash :: "string \<Rightarrow> diag_rule" where
  "sample_crash kind = \<lparr>rl_name = kind, rl_sources = [],
     rl_evaluate = (\<lambda>ctx. Some [Some \<lparr>fc_kind = kind, fc_observed = True, fc_confidence = FFin 98 (- 2),
       fc_evidence = [], fc_subject = Some ''pod-a'', fc_source_rule = None, fc_verdict = ''found'', fc_epistemic = None,
       fc_provenance = None, fc_window_min = None, fc_data_age_min = None, fc_unknown_reason = None\<rparr>])\<rparr>"

theorem contradictions_are_capped_witness:
  "\<not> fgt (fc_confidence (engine_run [(''process_crash'', ''oom_killed''), (''image_pull'', ''crashloop'')]
      [sample_crash ''oom_killed'', sample_crash ''process_crash''] [] ! 0)) (6 / 10)"
proof -
  let ?p = "[(''process_crash'', ''oom_killed''), (''image_pull'', ''crashloop'')]"
  let ?r = "[sample_crash ''oom_killed'', sample_crash ''process_crash'']"
  have o: "kind_order ?p" by (auto simp: kind_order_def MUTUALLY_EXCLUSIVE_PAIRS_def)
  have c: "collect ?r [] = [the (hd (the (rl_evaluate (sample_crash ''oom_killed'') []))),
      the (hd (the (rl_evaluate (sample_crash ''process_crash'') [])))]"
    by (simp add: collect_def rule_run_def apply_source_status_def failed_sources_def sample_crash_def
        List.map_filter_def)
  have "contradict (collect ?r [] ! 0) (collect ?r [] ! 1)"
    unfolding c by (simp add: sample_crash_def contradict_def same_subject_def MUTUALLY_EXCLUSIVE_PAIRS_def)
  then show ?thesis using contradictions_are_capped [OF o, of 0 ?r "[]" 1] by (simp add: c)
qed

end
