(* ===== verification/Playbook.thy ===== *)
theory Playbook
  imports Execution_Dsl Facts
begin

text \<open>
  \<open>app/remediation/playbook.py\<close> and \<open>verify_checks.py\<close>: the strict schema of a remediation playbook, the
  contract of its two versions, the registry of YAML documents and the named outcome checks. The
  YAML parser is not part of the repository; a document is the value it gives, \<open>None\<close> a parse error.
  Every model forbids unknown keys, and whatever fails is one \<open>ValidationError\<close>.
\<close>

section \<open>Schema primitives\<close>

definition keys_within :: "string list \<Rightarrow> pydict \<Rightarrow> bool" where
  "keys_within allowed d = list_all (\<lambda>(k, v). k \<in> set allowed) d"

definition opt_field :: "(pyval \<Rightarrow> 'a result) \<Rightarrow> pydict \<Rightarrow> string \<Rightarrow> 'a option result" where
  "opt_field f d k =
     (case map_of d k of
        None \<Rightarrow> Inr None
      | Some v \<Rightarrow> if v = PNone then Inr None else rbind (f v) (\<lambda>x. Inr (Some x)))"

definition req_field :: "(pyval \<Rightarrow> 'a result) \<Rightarrow> pydict \<Rightarrow> string \<Rightarrow> 'a result" where
  "req_field f d k = (case map_of d k of None \<Rightarrow> Inl ValidationError | Some v \<Rightarrow> f v)"

definition p_str :: "pyval \<Rightarrow> string result" where
  "p_str v = (case v of PStr s \<Rightarrow> Inr s | _ \<Rightarrow> Inl ValidationError)"

definition p_list :: "(pyval \<Rightarrow> 'a result) \<Rightarrow> pyval \<Rightarrow> 'a list result" where
  "p_list f v = (case v of PList xs \<Rightarrow> rmap f xs | _ \<Rightarrow> Inl ValidationError)"

definition p_dict :: "pyval \<Rightarrow> pydict result" where
  "p_dict v = (case v of PDict d \<Rightarrow> Inr d | _ \<Rightarrow> Inl ValidationError)"

definition p_model :: "string list \<Rightarrow> (pydict \<Rightarrow> 'a result) \<Rightarrow> pyval \<Rightarrow> 'a result" where
  "p_model allowed f v =
     (case v of PDict d \<Rightarrow> (if keys_within allowed d then f d else Inl ValidationError)
              | _ \<Rightarrow> Inl ValidationError)"

text \<open>A number of type \<open>float | int\<close>, kept as it is; an integer as text is converted.\<close>

definition p_num :: "pyval \<Rightarrow> pyval result" where
  "p_num v =
     (case v of
        PInt _ \<Rightarrow> Inr v
      | PFloat _ \<Rightarrow> Inr v
      | PBool b \<Rightarrow> Inr (PInt (if b then 1 else 0))
      | PStr s \<Rightarrow> (case int_text s of
                     Some i \<Rightarrow> Inr (PInt i)
                   | None \<Rightarrow> Inl ValidationError)
      | _ \<Rightarrow> Inl ValidationError)"

definition p_bool :: "pyval \<Rightarrow> bool result" where
  "p_bool v =
     (case v of
        PBool b \<Rightarrow> Inr b
      | PInt i \<Rightarrow> (if i = 0 then Inr False else if i = 1 then Inr True else Inl ValidationError)
      | PFloat (FFin m e) \<Rightarrow>
          (if m = 0 then Inr False else if dec_val m e = 1 then Inr True else Inl ValidationError)
      | PStr s \<Rightarrow> (if lower s \<in> {''0'', ''off'', ''f'', ''false'', ''n'', ''no''} then Inr False
                   else if lower s \<in> {''1'', ''on'', ''t'', ''true'', ''y'', ''yes''} then Inr True
                   else Inl ValidationError)
      | _ \<Rightarrow> Inl ValidationError)"

text \<open>A value of type \<open>int | str\<close>: a boolean and a float without fraction become integers.\<close>

definition p_int_or_str :: "pyval \<Rightarrow> pyval result" where
  "p_int_or_str v =
     (case v of
        PInt _ \<Rightarrow> Inr v
      | PStr _ \<Rightarrow> Inr v
      | PBool b \<Rightarrow> Inr (PInt (if b then 1 else 0))
      | PFloat (FFin m e) \<Rightarrow>
          (let x = dec_val m e in if of_int \<lfloor>x\<rfloor> = x then Inr (PInt \<lfloor>x\<rfloor>) else Inl ValidationError)
      | _ \<Rightarrow> Inl ValidationError)"

definition p_map :: "(pyval \<Rightarrow> 'a result) \<Rightarrow> pyval \<Rightarrow> (string \<times> 'a) list result" where
  "p_map f v =
     (case v of
        PDict d \<Rightarrow> rmap (\<lambda>(k, x). rbind (f x) (\<lambda>y. Inr (k, y))) d
      | _ \<Rightarrow> Inl ValidationError)"

section \<open>Sections of a playbook\<close>

definition SCHEMA_V1 :: string where "SCHEMA_V1 = ''remediation.playbook/v1''"
definition SCHEMA_V2 :: string where "SCHEMA_V2 = ''remediation.playbook/v2''"

record NumericConstraint =
  nc_gte :: "pyval option"
  nc_lte :: "pyval option"
  nc_gt :: "pyval option"
  nc_lt :: "pyval option"
  nc_eq :: "pyval option"
  nc_ne :: "pyval option"

definition p_numeric :: "pyval \<Rightarrow> NumericConstraint result" where
  "p_numeric = p_model [''gte'', ''lte'', ''gt'', ''lt'', ''eq'', ''ne''] (\<lambda>d.
     rbind (opt_field p_num d ''gte'') (\<lambda>a.
     rbind (opt_field p_num d ''lte'') (\<lambda>b.
     rbind (opt_field p_num d ''gt'') (\<lambda>c.
     rbind (opt_field p_num d ''lt'') (\<lambda>e.
     rbind (opt_field p_num d ''eq'') (\<lambda>f.
     rbind (opt_field p_num d ''ne'') (\<lambda>g.
       Inr \<lparr>nc_gte = a, nc_lte = b, nc_gt = c, nc_lt = e, nc_eq = f, nc_ne = g\<rparr>)))))))"

text \<open>\<open>_NumericConstraint.evaluate\<close>; the value is a number or absent.\<close>

definition num_le :: "num_val \<Rightarrow> num_val \<Rightarrow> bool" where
  "num_le a b =
     (case (a, b) of
        (NNaN, _) \<Rightarrow> False | (_, NNaN) \<Rightarrow> False
      | (NNegInf, _) \<Rightarrow> True | (_, NInf) \<Rightarrow> True
      | (NFin x, NFin y) \<Rightarrow> x \<le> y
      | _ \<Rightarrow> False)"

definition num_eq :: "num_val \<Rightarrow> num_val \<Rightarrow> bool" where
  "num_eq a b \<longleftrightarrow> a = b \<and> a \<noteq> NNaN"

definition num_of :: "pyval \<Rightarrow> num_val" where
  "num_of v = (case as_num v of Some n \<Rightarrow> n | None \<Rightarrow> NNaN)"

definition bound_ok :: "(num_val \<Rightarrow> num_val \<Rightarrow> bool) \<Rightarrow> num_val \<Rightarrow> pyval option \<Rightarrow> bool" where
  "bound_ok cmp v bound = (case bound of None \<Rightarrow> True | Some b \<Rightarrow> cmp v (num_of b))"

definition numeric_evaluate :: "NumericConstraint \<Rightarrow> num_val option \<Rightarrow> bool" where
  "numeric_evaluate c v =
     (case v of
        None \<Rightarrow> False
      | Some x \<Rightarrow>
          bound_ok (\<lambda>x b. num_le b x) x (nc_gte c) \<and>
          bound_ok num_le x (nc_lte c) \<and>
          bound_ok (\<lambda>x b. num_le b x \<and> \<not> num_eq x b) x (nc_gt c) \<and>
          bound_ok (\<lambda>x b. num_le x b \<and> \<not> num_eq x b) x (nc_lt c) \<and>
          bound_ok num_eq x (nc_eq c) \<and>
          bound_ok (\<lambda>x b. \<not> num_eq x b) x (nc_ne c))"

record MatchSection =
  ms_classification :: "string option"
  ms_alertnames :: "string list option"
  ms_job_age_hours :: "NumericConstraint option"
  ms_active_jobs :: "NumericConstraint option"
  ms_failed_jobs :: "NumericConstraint option"
  ms_alert_age :: "NumericConstraint option"
  ms_recent_deploy_age :: "NumericConstraint option"
  ms_affected_replicas_pct :: "NumericConstraint option"

definition p_match :: "pyval \<Rightarrow> MatchSection result" where
  "p_match = p_model [''classification'', ''alertnames'', ''job_age_hours'', ''active_jobs'', ''failed_jobs'',
       ''alert_age'', ''recent_deploy_age'', ''affected_replicas_pct''] (\<lambda>d.
     rbind (opt_field p_str d ''classification'') (\<lambda>a.
     rbind (opt_field (p_list p_str) d ''alertnames'') (\<lambda>b.
     rbind (opt_field p_numeric d ''job_age_hours'') (\<lambda>c.
     rbind (opt_field p_numeric d ''active_jobs'') (\<lambda>e.
     rbind (opt_field p_numeric d ''failed_jobs'') (\<lambda>f.
     rbind (opt_field p_numeric d ''alert_age'') (\<lambda>g.
     rbind (opt_field p_numeric d ''recent_deploy_age'') (\<lambda>h.
     rbind (opt_field p_numeric d ''affected_replicas_pct'') (\<lambda>i.
       Inr \<lparr>ms_classification = a, ms_alertnames = b, ms_job_age_hours = c, ms_active_jobs = e,
            ms_failed_jobs = f, ms_alert_age = g, ms_recent_deploy_age = h,
            ms_affected_replicas_pct = i\<rparr>)))))))))"

datatype str_or_list = OneStr string | ManyStr "string list"

definition p_str_or_list :: "pyval \<Rightarrow> str_or_list result" where
  "p_str_or_list v =
     (case v of PStr s \<Rightarrow> Inr (OneStr s) | _ \<Rightarrow> rbind (p_list p_str v) (\<lambda>xs. Inr (ManyStr xs)))"

record ApproveSection =
  ap_namespace_tier :: "string list option"
  ap_owner_kind :: "str_or_list option"
  ap_blast_radius :: "string list option"
  ap_data_plane :: "string list option"

record AutoSection =
  au_namespace_tier :: "string list option"
  au_owner_kind :: "str_or_list option"
  au_blast_radius :: "string list option"
  au_data_plane :: "string list option"
  au_logs_captured_or_ttl :: "bool option"

record BlockAnySection =
  ba_namespace_tier :: "string list option"
  ba_resource_kind :: "string list option"
  ba_data_plane :: "string list option"
  ba_reversibility :: "string list option"
  ba_confidence :: "string list option"

record BlockSection =
  bl_any :: "BlockAnySection option"

record PolicySection =
  ps_auto :: "AutoSection option"
  ps_approve :: "ApproveSection option"
  ps_block :: "BlockSection option"

definition p_approve :: "pyval \<Rightarrow> ApproveSection result" where
  "p_approve = p_model [''namespace_tier'', ''owner_kind'', ''blast_radius'', ''data_plane''] (\<lambda>d.
     rbind (opt_field (p_list p_str) d ''namespace_tier'') (\<lambda>a.
     rbind (opt_field p_str_or_list d ''owner_kind'') (\<lambda>b.
     rbind (opt_field (p_list p_str) d ''blast_radius'') (\<lambda>c.
     rbind (opt_field (p_list p_str) d ''data_plane'') (\<lambda>e.
       Inr \<lparr>ap_namespace_tier = a, ap_owner_kind = b, ap_blast_radius = c, ap_data_plane = e\<rparr>)))))"

definition p_auto :: "pyval \<Rightarrow> AutoSection result" where
  "p_auto = p_model [''namespace_tier'', ''owner_kind'', ''blast_radius'', ''data_plane'',
       ''logs_captured_or_ttl''] (\<lambda>d.
     rbind (opt_field (p_list p_str) d ''namespace_tier'') (\<lambda>a.
     rbind (opt_field p_str_or_list d ''owner_kind'') (\<lambda>b.
     rbind (opt_field (p_list p_str) d ''blast_radius'') (\<lambda>c.
     rbind (opt_field (p_list p_str) d ''data_plane'') (\<lambda>e.
     rbind (opt_field p_bool d ''logs_captured_or_ttl'') (\<lambda>f.
       Inr \<lparr>au_namespace_tier = a, au_owner_kind = b, au_blast_radius = c, au_data_plane = e,
            au_logs_captured_or_ttl = f\<rparr>))))))"

definition p_block_any :: "pyval \<Rightarrow> BlockAnySection result" where
  "p_block_any = p_model [''namespace_tier'', ''resource_kind'', ''data_plane'', ''reversibility'',
       ''confidence''] (\<lambda>d.
     rbind (opt_field (p_list p_str) d ''namespace_tier'') (\<lambda>a.
     rbind (opt_field (p_list p_str) d ''resource_kind'') (\<lambda>b.
     rbind (opt_field (p_list p_str) d ''data_plane'') (\<lambda>c.
     rbind (opt_field (p_list p_str) d ''reversibility'') (\<lambda>e.
     rbind (opt_field (p_list p_str) d ''confidence'') (\<lambda>f.
       Inr \<lparr>ba_namespace_tier = a, ba_resource_kind = b, ba_data_plane = c, ba_reversibility = e,
            ba_confidence = f\<rparr>))))))"

definition p_block :: "pyval \<Rightarrow> BlockSection result" where
  "p_block = p_model [''any''] (\<lambda>d. rbind (opt_field p_block_any d ''any'') (\<lambda>a. Inr \<lparr>bl_any = a\<rparr>))"

definition p_policy :: "pyval \<Rightarrow> PolicySection result" where
  "p_policy = p_model [''auto'', ''approve'', ''block''] (\<lambda>d.
     rbind (opt_field p_auto d ''auto'') (\<lambda>a.
     rbind (opt_field p_approve d ''approve'') (\<lambda>b.
     rbind (opt_field p_block d ''block'') (\<lambda>c.
       Inr \<lparr>ps_auto = a, ps_approve = b, ps_block = c\<rparr>))))"

section \<open>Plan steps and templates\<close>

definition SERVER_PARAMS :: "string list" where
  "SERVER_PARAMS = [''current_replicas'']"

text \<open>\<open>TEMPLATE_RE.match\<close> with \<open>^\{([a-z_][a-z0-9_]*)\}$\<close>; the final \<open>$\<close> also matches before a newline.\<close>

definition tmpl_char :: "char \<Rightarrow> bool" where
  "tmpl_char c \<longleftrightarrow> ch_az09 c \<or> c = CHR ''_''"

definition template_text :: "string \<Rightarrow> string option" where
  "template_text s =
     (case s of
        [] \<Rightarrow> None
      | b # rest \<Rightarrow>
          (let name = takeWhile tmpl_char rest; tail = dropWhile tmpl_char rest in
           if b = CHR ''{'' \<and> name \<noteq> [] \<and> \<not> ch_digit (hd name) \<and>
              (case tail of [] \<Rightarrow> False | e # end' \<Rightarrow> e = CHR ''}'' \<and> re_end end')
           then Some name else None))"

definition template_name :: "pyval \<Rightarrow> string option" where
  "template_name v = (case v of PStr s \<Rightarrow> template_text s | _ \<Rightarrow> None)"

record PlanStep =
  st_action :: string
  st_params :: pydict
  st_resource_type :: "string option"

definition check_concurrency_guard :: "PlanStep \<Rightarrow> PlanStep result" where
  "check_concurrency_guard step =
     (case parse_action (st_action step) of
        None \<Rightarrow> Inl ValidationError
      | Some a \<Rightarrow>
          rbind (action_spec a) (\<lambda>spec.
            if as_concurrency spec = PRECONDITION \<and> st_params step \<noteq> [] \<and>
               template_name (dget (st_params step) ''current_replicas'') \<noteq> Some ''current_replicas''
            then Inl ValidationError
            else if list_ex (\<lambda>(key, v). key \<in> set SERVER_PARAMS \<and> template_name v \<noteq> Some key) (st_params step)
            then Inl ValidationError
            else Inr step))"

definition p_step :: "pyval \<Rightarrow> PlanStep result" where
  "p_step = p_model [''action'', ''params'', ''resource_type''] (\<lambda>d.
     rbind (req_field p_str d ''action'') (\<lambda>a.
     if parse_action a = None then Inl ValidationError else
     rbind (if has_key d ''params'' then p_map p_int_or_str (dget d ''params'') else Inr []) (\<lambda>ps.
     rbind (opt_field p_str d ''resource_type'') (\<lambda>rt.
       check_concurrency_guard \<lparr>st_action = a, st_params = ps, st_resource_type = rt\<rparr>))))"

record PlanSection =
  pl_command :: "string list option"
  pl_preview :: "string list option"
  pl_steps :: "PlanStep list option"

definition p_plan :: "pyval \<Rightarrow> PlanSection result" where
  "p_plan = p_model [''command'', ''preview'', ''steps''] (\<lambda>d.
     rbind (opt_field (p_list p_str) d ''command'') (\<lambda>a.
     rbind (opt_field (p_list p_str) d ''preview'') (\<lambda>b.
     rbind (opt_field (p_list p_step) d ''steps'') (\<lambda>c.
       Inr \<lparr>pl_command = a, pl_preview = b, pl_steps = c\<rparr>))))"

section \<open>Preconditions, verification, observation\<close>

record Precondition =
  pc_fact :: string
  pc_verdict :: Verdict
  pc_evidence_not_in :: "(string \<times> pyval list) list option"

definition p_verdict :: "pyval \<Rightarrow> Verdict result" where
  "p_verdict v =
     (if v = PStr ''found'' then Inr FOUND else if v = PStr ''absent'' then Inr ABSENT
      else Inl ValidationError)"

definition p_precondition :: "pyval \<Rightarrow> Precondition result" where
  "p_precondition = p_model [''fact'', ''verdict'', ''evidence_not_in''] (\<lambda>d.
     rbind (req_field p_str d ''fact'') (\<lambda>f.
     if f \<notin> set FACT_KINDS then Inl ValidationError else
     rbind (req_field p_verdict d ''verdict'') (\<lambda>v.
     rbind (opt_field (p_map (p_list p_int_or_str)) d ''evidence_not_in'') (\<lambda>e.
       if e \<noteq> None \<and> v \<noteq> FOUND then Inl ValidationError
       else if e = Some [] then Inl ValidationError
       else Inr \<lparr>pc_fact = f, pc_verdict = v, pc_evidence_not_in = e\<rparr>))))"

record ObserveSection =
  ob_timeout :: string
  ob_success :: "pydict option"
  ob_failure :: "pydict option"

definition p_observe :: "pyval \<Rightarrow> ObserveSection result" where
  "p_observe = p_model [''timeout'', ''success'', ''failure''] (\<lambda>d.
     rbind (req_field p_str d ''timeout'') (\<lambda>a.
     rbind (opt_field p_dict d ''success'') (\<lambda>b.
     rbind (opt_field p_dict d ''failure'') (\<lambda>c.
       Inr \<lparr>ob_timeout = a, ob_success = b, ob_failure = c\<rparr>))))"

text \<open>\<open>verify_checks.py\<close>: a check reads one key of the assessment; \<open>None\<close> is \<^emph>\<open>could not be checked\<close>.\<close>

definition flag_check :: "string \<Rightarrow> pydict \<Rightarrow> bool option" where
  "flag_check key checks = (case dget checks key of PBool b \<Rightarrow> Some b | _ \<Rightarrow> None)"

definition no_new_crash_events :: "pydict \<Rightarrow> bool option" where
  "no_new_crash_events checks = (case dget checks ''new_crash_events'' of PInt n \<Rightarrow> Some (n = 0) | _ \<Rightarrow> None)"

definition VERIFY_CHECKS :: "(string \<times> (pydict \<Rightarrow> bool option)) list" where
  "VERIFY_CHECKS =
     [(''same_identity'', flag_check ''same_identity''),
      (''action_took_effect'', flag_check ''action_took_effect''),
      (''converged'', flag_check ''converged''), (''healthy'', flag_check ''healthy''),
      (''alert_resolved'', flag_check ''alert_resolved''),
      (''no_new_crash_events'', no_new_crash_events)]"

definition evaluate_verify :: "string list \<Rightarrow> pydict \<Rightarrow> (string \<times> bool option) list result" where
  "evaluate_verify names checks =
     rbind (rmap (\<lambda>name. case map_of VERIFY_CHECKS name of
                           Some f \<Rightarrow> Inr (name, f checks) | None \<Rightarrow> Inl KeyError) names)
       (\<lambda>rs. Inr (foldl (\<lambda>acc (k, v). AList.update k v acc) [] rs))"

section \<open>The playbook\<close>

record Playbook =
  pb_schema_version :: string
  pb_name :: string
  pb_kind :: string
  pb_description :: "string option"
  pb_match :: MatchSection
  pb_preconditions :: "Precondition list option"
  pb_policy :: PolicySection
  pb_plan :: PlanSection
  pb_verify :: "string list option"
  pb_observe :: "ObserveSection option"

definition is_empty_opt :: "'a list option \<Rightarrow> bool" where
  "is_empty_opt xs = (case xs of None \<Rightarrow> True | Some ys \<Rightarrow> ys = [])"

definition check_version_contract :: "Playbook \<Rightarrow> Playbook result" where
  "check_version_contract pb =
     (if pb_schema_version pb = SCHEMA_V1
      then (if ms_classification (pb_match pb) = None then Inl ValidationError
            else if pl_command (pb_plan pb) = None then Inl ValidationError
            else if ms_alertnames (pb_match pb) \<noteq> None \<or> pl_steps (pb_plan pb) \<noteq> None \<or>
                    pb_preconditions pb \<noteq> None \<or> pb_verify pb \<noteq> None
            then Inl ValidationError
            else Inr pb)
      else (if is_empty_opt (pl_steps (pb_plan pb)) then Inl ValidationError
            else if pl_command (pb_plan pb) \<noteq> None \<or> pl_preview (pb_plan pb) \<noteq> None
            then Inl ValidationError
            else if ms_classification (pb_match pb) = None \<and> is_empty_opt (ms_alertnames (pb_match pb))
            then Inl ValidationError
            else Inr pb))"

definition p_verify_name :: "pyval \<Rightarrow> string result" where
  "p_verify_name v =
     rbind (p_str v) (\<lambda>s. if map_of VERIFY_CHECKS s = None then Inl ValidationError else Inr s)"

definition p_schema_version :: "pyval \<Rightarrow> string result" where
  "p_schema_version v =
     rbind (p_str v) (\<lambda>s. if s \<in> {SCHEMA_V1, SCHEMA_V2} then Inr s else Inl ValidationError)"

definition p_kind :: "pyval \<Rightarrow> string result" where
  "p_kind v = rbind (p_str v) (\<lambda>s. if s = ''remediation'' then Inr s else Inl ValidationError)"

definition p_playbook :: "pyval \<Rightarrow> Playbook result" where
  "p_playbook = p_model [''schema_version'', ''name'', ''kind'', ''description'', ''match'', ''preconditions'',
       ''policy'', ''plan'', ''verify'', ''observe''] (\<lambda>d.
     rbind (req_field p_schema_version d ''schema_version'') (\<lambda>sv.
     rbind (req_field p_str d ''name'') (\<lambda>name.
     rbind (req_field p_kind d ''kind'') (\<lambda>kind.
     rbind (opt_field p_str d ''description'') (\<lambda>desc.
     rbind (req_field p_match d ''match'') (\<lambda>m.
     rbind (opt_field (p_list p_precondition) d ''preconditions'') (\<lambda>pre.
     rbind (req_field p_policy d ''policy'') (\<lambda>pol.
     rbind (req_field p_plan d ''plan'') (\<lambda>plan.
     rbind (opt_field (p_list p_verify_name) d ''verify'') (\<lambda>ver.
     rbind (opt_field p_observe d ''observe'') (\<lambda>obs.
       check_version_contract
         \<lparr>pb_schema_version = sv, pb_name = name, pb_kind = kind, pb_description = desc, pb_match = m,
          pb_preconditions = pre, pb_policy = pol, pb_plan = plan, pb_verify = ver,
          pb_observe = obs\<rparr>)))))))))))"

definition executable :: "Playbook \<Rightarrow> bool" where
  "executable pb \<longleftrightarrow> pb_schema_version pb = SCHEMA_V2"

definition plan_steps :: "Playbook \<Rightarrow> PlanStep list" where
  "plan_steps pb = (case pl_steps (pb_plan pb) of None \<Rightarrow> [] | Some ss \<Rightarrow> ss)"

definition step_actions :: "Playbook \<Rightarrow> string set" where
  "step_actions pb = st_action ` set (plan_steps pb)"

section \<open>The registry\<close>

definition load_playbook :: "pyval option \<Rightarrow> Playbook result" where
  "load_playbook doc =
     (case doc of
        None \<Rightarrow> Inl ValidationError
      | Some (PDict d) \<Rightarrow> p_playbook (PDict d)
      | Some _ \<Rightarrow> Inl ValidationError)"

definition endswith :: "string \<Rightarrow> string \<Rightarrow> bool" where
  "endswith s suf = startswith (rev s) (rev suf)"

text \<open>A directory is the list of its entries with their documents.\<close>

definition iter_yaml_files :: "(string \<times> pyval option) list \<Rightarrow> (string \<times> pyval option) list" where
  "iter_yaml_files directory =
     filter (\<lambda>(entry, doc). \<not> (startswith entry ''.'' \<or> startswith entry ''_'') \<and>
                            (endswith entry ''.yaml'' \<or> endswith entry ''.yml''))
       (sort_key fst directory)"

definition load_registry :: "(string \<times> pyval option) list \<Rightarrow> (string \<times> Playbook) list result" where
  "load_registry directory =
     foldl (\<lambda>acc (entry, doc).
              rbind acc (\<lambda>reg. rbind (load_playbook doc) (\<lambda>pb.
                if pb_name pb \<in> fst ` set reg then Inl ValidationError
                else Inr (reg @ [(pb_name pb, pb)]))))
       (Inr []) (iter_yaml_files directory)"

section \<open>Lemmas\<close>

text \<open>What a loaded playbook guarantees: known actions, guarded scales, no mixing of versions.\<close>

definition step_wf :: "PlanStep \<Rightarrow> bool" where
  "step_wf s \<longleftrightarrow>
     (\<exists>a. parse_action (st_action s) = Some a) \<and>
     (st_action s = ''scale_deployment'' \<and> st_params s \<noteq> [] \<longrightarrow>
        template_name (dget (st_params s) ''current_replicas'') = Some ''current_replicas'') \<and>
     (\<forall>(k, v)\<in>set (st_params s). k \<in> set SERVER_PARAMS \<longrightarrow> template_name v = Some k)"

definition playbook_wf :: "Playbook \<Rightarrow> bool" where
  "playbook_wf pb \<longleftrightarrow>
     pb_schema_version pb \<in> {SCHEMA_V1, SCHEMA_V2} \<and>
     list_all step_wf (plan_steps pb) \<and>
     (executable pb \<longrightarrow> plan_steps pb \<noteq> [] \<and> pl_command (pb_plan pb) = None \<and> pl_preview (pb_plan pb) = None \<and>
        (ms_classification (pb_match pb) \<noteq> None \<or> \<not> is_empty_opt (ms_alertnames (pb_match pb)))) \<and>
     (\<not> executable pb \<longrightarrow> plan_steps pb = [] \<and> pl_command (pb_plan pb) \<noteq> None \<and>
        pb_preconditions pb = None \<and> pb_verify pb = None)"

lemma p_model_Inr: "p_model allowed f v = Inr x \<longleftrightarrow> (\<exists>d. v = PDict d \<and> keys_within allowed d \<and> f d = Inr x)"
  by (auto simp: p_model_def split: pyval.splits if_splits)

lemma opt_field_Some: "opt_field f d k = Inr (Some x) \<Longrightarrow> \<exists>v. f v = Inr x"
  by (auto simp: opt_field_def rbind_eq_Inr split: option.splits if_splits)

lemma req_field_Inr: "req_field f d k = Inr x \<Longrightarrow> \<exists>v. f v = Inr x"
  by (auto simp: req_field_def split: option.splits)

lemma p_list_Inr: "p_list f v = Inr ys \<Longrightarrow> y \<in> set ys \<Longrightarrow> \<exists>x. f x = Inr y"
  by (auto simp: p_list_def split: pyval.splits dest: rmap_mem)

lemma parse_scale: "parse_action ''scale_deployment'' = Some SCALE_DEPLOYMENT"
  using parse_action_value [of SCALE_DEPLOYMENT] by simp

lemma check_concurrency_guard_wf: "check_concurrency_guard s = Inr t \<Longrightarrow> t = s \<and> step_wf s"
  by (auto simp: check_concurrency_guard_def step_wf_def rbind_eq_Inr list_ex_iff parse_scale
      split: option.splits if_splits)

lemma p_step_wf: "p_step v = Inr s \<Longrightarrow> step_wf s"
  unfolding p_step_def p_model_Inr
  by (auto simp: rbind_eq_Inr split: if_splits dest: check_concurrency_guard_wf)

lemma p_plan_wf:
  assumes "p_plan v = Inr p" and "pl_steps p = Some ss" and "s \<in> set ss"
  shows "step_wf s"
proof -
  obtain d where "opt_field (p_list p_step) d ''steps'' = Inr (Some ss)"
    using assms(1,2) unfolding p_plan_def p_model_Inr by (auto simp: rbind_eq_Inr)
  from opt_field_Some [OF this] obtain u where u: "p_list p_step u = Inr ss" by blast
  from p_list_Inr [OF u assms(3)] show ?thesis using p_step_wf by blast
qed

lemma check_version_contract_unchanged:
  "check_version_contract pb = Inr pb' \<Longrightarrow> pb' = pb \<and> check_version_contract pb = Inr pb"
  by (auto simp: check_version_contract_def split: if_splits)

lemma p_playbook_parts:
  assumes "p_playbook v = Inr pb"
  shows "pb_schema_version pb \<in> {SCHEMA_V1, SCHEMA_V2} \<and> check_version_contract pb = Inr pb \<and>
    (\<exists>u. p_plan u = Inr (pb_plan pb))"
proof -
  obtain d pb0 where pb0: "check_version_contract pb0 = Inr pb"
    "req_field p_schema_version d ''schema_version'' = Inr (pb_schema_version pb0)"
    "req_field p_plan d ''plan'' = Inr (pb_plan pb0)"
    using assms unfolding p_playbook_def p_model_Inr by (elim exE conjE rbind_cases) fastforce
  then show ?thesis
    using check_version_contract_unchanged [OF pb0(1)] req_field_Inr [OF pb0(2)] req_field_Inr [OF pb0(3)]
    by (auto simp: p_schema_version_def rbind_eq_Inr split: if_splits)
qed

lemma schema_versions [simp]: "SCHEMA_V1 \<noteq> SCHEMA_V2"
  by (simp add: SCHEMA_V1_def SCHEMA_V2_def)

lemma p_playbook_wf:
  assumes "p_playbook v = Inr pb"
  shows "playbook_wf pb"
proof -
  note parts = p_playbook_parts [OF assms]
  then obtain u where u: "p_plan u = Inr (pb_plan pb)" by blast
  have "list_all step_wf (plan_steps pb)"
    using p_plan_wf [OF u] by (cases "pl_steps (pb_plan pb)") (auto simp: plan_steps_def list_all_iff)
  with parts show ?thesis
    by (auto simp: playbook_wf_def check_version_contract_def executable_def plan_steps_def is_empty_opt_def
        split: if_splits option.splits)
qed

lemma load_playbook_wf: "load_playbook doc = Inr pb \<Longrightarrow> playbook_wf pb"
  by (auto simp: load_playbook_def split: option.splits pyval.splits intro: p_playbook_wf)

text \<open>What is kept while the registry is read, file by file.\<close>

definition registry_wf :: "(string \<times> Playbook) list \<Rightarrow> bool" where
  "registry_wf reg \<longleftrightarrow> distinct (map fst reg) \<and> (\<forall>(name, pb)\<in>set reg. pb_name pb = name \<and> playbook_wf pb)"

definition load_step :: "(string \<times> Playbook) list \<Rightarrow> pyval option \<Rightarrow> (string \<times> Playbook) list result" where
  "load_step reg doc = rbind (load_playbook doc) (\<lambda>pb.
     if pb_name pb \<in> fst ` set reg then Inl ValidationError else Inr (reg @ [(pb_name pb, pb)]))"

lemma load_step_wf: "load_step reg doc = Inr reg' \<Longrightarrow> registry_wf reg \<Longrightarrow> registry_wf reg'"
  by (auto simp: load_step_def registry_wf_def rbind_eq_Inr split: if_splits dest: load_playbook_wf)

lemma load_step_mem:
  "load_step reg doc = Inr reg' \<Longrightarrow> x \<in> set reg' \<Longrightarrow> x \<in> set reg \<or> load_playbook doc = Inr (snd x)"
  by (auto simp: load_step_def rbind_eq_Inr split: if_splits)

lemma load_fold:
  assumes "foldl (\<lambda>acc (entry, doc). rbind acc (\<lambda>reg. load_step reg doc)) (Inr reg) files = Inr reg'"
    and "registry_wf reg"
  shows "registry_wf reg' \<and> (\<forall>x\<in>set reg'. x \<in> set reg \<or> (\<exists>(entry, doc)\<in>set files. load_playbook doc = Inr (snd x)))"
  using assms
proof (induction files arbitrary: reg)
  case (Cons f files)
  obtain entry doc where f: "f = (entry, doc)" by (cases f)
  have stuck: "foldl (\<lambda>acc (entry, doc). rbind acc (\<lambda>reg. load_step reg doc)) (Inl e) fs = Inl e" for e fs
    by (induction fs) auto
  obtain reg1 where r1: "load_step reg doc = Inr reg1"
    using Cons.prems(1) f by (cases "load_step reg doc") (auto simp: stuck)
  with Cons.IH [of reg1] Cons.prems f load_step_wf [OF r1] load_step_mem [OF r1] show ?case by fastforce
qed simp

lemma load_registry_fold:
  "load_registry dir = foldl (\<lambda>acc (entry, doc). rbind acc (\<lambda>reg. load_step reg doc)) (Inr []) (iter_yaml_files dir)"
  unfolding load_registry_def load_step_def by simp

lemma load_registry_wf:
  "load_registry dir = Inr reg \<Longrightarrow> registry_wf reg \<and>
     (\<forall>x\<in>set reg. \<exists>(entry, doc)\<in>set (iter_yaml_files dir). load_playbook doc = Inr (snd x))"
  using load_fold [of "[]" "iter_yaml_files dir" reg] by (simp add: load_registry_fold registry_wf_def)

section \<open>Properties\<close>

text \<open>
  A playbook that loads can be trusted to be what its version says: every step names an action
  of the registry, a scale with parameters carries the server's \<open>current_replicas\<close> precondition,
  a server parameter is never a literal; an executable playbook has steps, no raw command and a
  match condition, and one that is not executable has no steps at all.
\<close>

theorem loaded_playbook_wf:
  assumes "load_playbook doc = Inr pb"
  shows "playbook_wf pb"
  using assms by (rule load_playbook_wf)

definition SCALE_DOC :: pyval where
  "SCALE_DOC = PDict
     [(''schema_version'', PStr ''remediation.playbook/v2''),
      (''name'', PStr ''scale_out_cpu_throttled_deployment''),
      (''kind'', PStr ''remediation''),
      (''match'', PDict [(''alertnames'', PList [PStr ''CPUThrottlingHigh''])]),
      (''preconditions'', PList
         [PDict [(''fact'', PStr ''resource_pressure''), (''verdict'', PStr ''found'')],
          PDict [(''fact'', PStr ''crashloop''), (''verdict'', PStr ''absent'')],
          PDict [(''fact'', PStr ''oom_killed''), (''verdict'', PStr ''absent'')],
          PDict [(''fact'', PStr ''recent_deploy''), (''verdict'', PStr ''absent'')]]),
      (''policy'', PDict
         [(''approve'', PDict [(''namespace_tier'', PList [PStr ''dev'', PStr ''squad'']),
                              (''data_plane'', PList [PStr ''no'', PStr ''maybe''])]),
          (''block'', PDict [(''any'', PDict
             [(''namespace_tier'', PList [PStr ''prod'', PStr ''preprod'', PStr ''system'']),
              (''data_plane'', PList [PStr ''yes'']), (''reversibility'', PList [PStr ''hard'']),
              (''confidence'', PList [PStr ''weak''])])])]),
      (''plan'', PDict [(''steps'', PList
         [PDict [(''action'', PStr ''describe_resource'')],
          PDict [(''action'', PStr ''scale_deployment''),
                 (''params'', PDict [(''replicas'', PStr ''{replicas}''),
                                     (''current_replicas'', PStr ''{current_replicas}'')])]])]),
      (''verify'', PList [PStr ''same_identity'', PStr ''action_took_effect'', PStr ''converged'', PStr ''healthy''])]"

theorem loaded_playbook_wf_witness:
  "\<exists>pb. load_playbook (Some SCALE_DOC) = Inr pb \<and> playbook_wf pb"
proof -
  have "is_ok (load_playbook (Some SCALE_DOC))" by code_simp
  then obtain pb where "load_playbook (Some SCALE_DOC) = Inr pb" by (auto simp: is_ok_iff)
  with loaded_playbook_wf [OF this] show ?thesis by blast
qed

text \<open>
  The registry maps each name to the playbook of that name, once; every playbook in it is well
  formed and comes from a YAML file whose name starts with neither a dot nor an underscore, so the
  executor's own gate policy is never a candidate.
\<close>

theorem registry_contents:
  assumes "load_registry dir = Inr reg"
  shows "distinct (map fst reg) \<and>
    (\<forall>(name, pb)\<in>set reg. pb_name pb = name \<and> playbook_wf pb \<and>
       (\<exists>entry doc. (entry, doc) \<in> set dir \<and> load_playbook doc = Inr pb \<and>
          \<not> startswith entry ''.'' \<and> \<not> startswith entry ''_''))"
proof -
  have "\<exists>entry doc. (entry, doc) \<in> set dir \<and> load_playbook doc = Inr (snd x) \<and>
      \<not> startswith entry ''.'' \<and> \<not> startswith entry ''_''" if "x \<in> set reg" for x
    using load_registry_wf [OF assms] that by (force simp: iter_yaml_files_def)
  then show ?thesis
    using load_registry_wf [OF assms] unfolding registry_wf_def by fastforce
qed

theorem registry_contents_witness:
  "\<exists>reg. load_registry [(''_gate.yaml'', None), (''scale.yaml'', Some SCALE_DOC)] = Inr reg \<and>
     distinct (map fst reg) \<and> length reg = 1"
proof -
  let ?d = "[(''_gate.yaml'', None), (''scale.yaml'', Some SCALE_DOC)]"
  have "case load_registry ?d of Inr reg \<Rightarrow> length reg = 1 | Inl _ \<Rightarrow> False" by code_simp
  then obtain reg where r: "load_registry ?d = Inr reg" "length reg = 1" by (auto split: sum.splits)
  with registry_contents [OF r(1)] show ?thesis by blast
qed

end
