(* ===== verification/Risk_Axes.thy ===== *)
theory Risk_Axes
  imports Prelude
begin

text \<open>
  \<open>app/remediation/risk_axes.py\<close> and \<open>classifier.py\<close>: the eight discrete axes a remediation is judged by,
  inferred from a target dictionary, optional signals and an optional hint, and the rule-based
  classification of an incident. A dictionary value of an unexpected type raises as it does in
  Python.
\<close>

section \<open>The axes\<close>

datatype NamespaceTier = DEV | SQUAD | PREPROD | TIER_PROD | SYSTEM
datatype ResourceKind = POD | DEPLOYMENT | JOB | STATEFULSET | PVC | SECRET | RK_UNKNOWN
datatype BlastRadius = BR_NONE | LOW | BR_MEDIUM | HIGH
datatype DataPlane = DP_NO | MAYBE | DP_YES
datatype Freshness = FRESH | CHRONIC | STALE
datatype Confidence = WEAK | CF_MEDIUM | STRONG
datatype Reversibility = EASY | PARTIAL | HARD
datatype Idempotency = SAFE | GUARDED | UNSAFE

fun tier_value :: "NamespaceTier \<Rightarrow> string" where
  "tier_value DEV = ''dev''" | "tier_value SQUAD = ''squad''" | "tier_value PREPROD = ''preprod''"
| "tier_value TIER_PROD = ''prod''" | "tier_value SYSTEM = ''system''"

fun kind_value :: "ResourceKind \<Rightarrow> string" where
  "kind_value POD = ''pod''" | "kind_value DEPLOYMENT = ''deployment''" | "kind_value JOB = ''job''"
| "kind_value STATEFULSET = ''statefulset''" | "kind_value PVC = ''pvc''" | "kind_value SECRET = ''secret''"
| "kind_value RK_UNKNOWN = ''unknown''"

fun blast_value :: "BlastRadius \<Rightarrow> string" where
  "blast_value BR_NONE = ''none''" | "blast_value LOW = ''low''" | "blast_value BR_MEDIUM = ''medium''"
| "blast_value HIGH = ''high''"

fun data_plane_value :: "DataPlane \<Rightarrow> string" where
  "data_plane_value DP_NO = ''no''" | "data_plane_value MAYBE = ''maybe''" | "data_plane_value DP_YES = ''yes''"

fun freshness_value :: "Freshness \<Rightarrow> string" where
  "freshness_value FRESH = ''fresh''" | "freshness_value CHRONIC = ''chronic''" | "freshness_value STALE = ''stale''"

fun confidence_value :: "Confidence \<Rightarrow> string" where
  "confidence_value WEAK = ''weak''" | "confidence_value CF_MEDIUM = ''medium''" | "confidence_value STRONG = ''strong''"

fun reversibility_value :: "Reversibility \<Rightarrow> string" where
  "reversibility_value EASY = ''easy''" | "reversibility_value PARTIAL = ''partial''"
| "reversibility_value HARD = ''hard''"

fun idempotency_value :: "Idempotency \<Rightarrow> string" where
  "idempotency_value SAFE = ''safe''" | "idempotency_value GUARDED = ''guarded''"
| "idempotency_value UNSAFE = ''unsafe''"

record RiskAxes =
  ra_namespace_tier :: NamespaceTier
  ra_resource_kind :: ResourceKind
  ra_blast_radius :: BlastRadius
  ra_data_plane :: DataPlane
  ra_freshness :: Freshness
  ra_confidence :: Confidence
  ra_reversibility :: Reversibility
  ra_idempotency :: Idempotency

section \<open>Namespaces and kinds\<close>

definition NS_PROD_PREFIXES :: "string list" where
  "NS_PROD_PREFIXES = [''prod-'', ''prod_'', ''production-'']"

definition NS_PREPROD_PREFIXES :: "string list" where
  "NS_PREPROD_PREFIXES = [''preprod-'', ''stage-'', ''staging-'']"

definition NS_DEV_PREFIXES :: "string list" where
  "NS_DEV_PREFIXES = [''dev-'', ''test-'', ''qa-'']"

definition NS_SQUAD_PREFIXES :: "string list" where
  "NS_SQUAD_PREFIXES = [''squad-'']"

definition NS_SYSTEM :: "string list" where
  "NS_SYSTEM =
     [''kube-system'', ''kube-public'', ''kube-node-lease'', ''monitoring'', ''logging'', ''sre-ai'',
      ''ingress-nginx'', ''cert-manager'', ''metallb-system'', ''longhorn-system'', ''default'']"

definition tier_of :: "string \<Rightarrow> NamespaceTier" where
  "tier_of n =
     (if n \<in> set NS_SYSTEM then SYSTEM
      else if startswith_any n NS_PROD_PREFIXES then TIER_PROD
      else if startswith_any n NS_PREPROD_PREFIXES then PREPROD
      else if startswith_any n NS_DEV_PREFIXES then DEV
      else if startswith_any n NS_SQUAD_PREFIXES then SQUAD
      else SYSTEM)"

definition classify_namespace :: "pyval \<Rightarrow> NamespaceTier result" where
  "classify_namespace ns =
     (if \<not> truthy ns then Inr SYSTEM
      else rbind (str_or_empty ns) (\<lambda>s. Inr (tier_of (lower (strip s)))))"

definition KIND_MAP :: "(string \<times> ResourceKind) list" where
  "KIND_MAP =
     [(''pod'', POD), (''deployment'', DEPLOYMENT), (''deploy'', DEPLOYMENT), (''job'', JOB),
      (''cronjob'', JOB), (''statefulset'', STATEFULSET), (''sts'', STATEFULSET), (''pvc'', PVC),
      (''persistentvolumeclaim'', PVC), (''secret'', SECRET)]"

definition classify_kind :: "pyval \<Rightarrow> ResourceKind result" where
  "classify_kind kind =
     (if \<not> truthy kind then Inr RK_UNKNOWN
      else rbind (str_or_empty kind) (\<lambda>s.
        Inr (case map_of KIND_MAP (lower (strip s)) of Some k \<Rightarrow> k | None \<Rightarrow> RK_UNKNOWN)))"

definition DATA_PLANE_KINDS :: "ResourceKind list" where
  "DATA_PLANE_KINDS = [STATEFULSET, PVC, SECRET]"

section \<open>Inference\<close>

definition infer_blast_radius :: "pydict \<Rightarrow> pydict \<Rightarrow> BlastRadius result" where
  "infer_blast_radius target signals =
     rbind (classify_kind (dget target ''kind'')) (\<lambda>kind.
       if kind \<in> set DATA_PLANE_KINDS then Inr HIGH
       else if (case dget target ''replicas'' of PInt n \<Rightarrow> 6 \<le> n | _ \<Rightarrow> False) then Inr HIGH
       else if kind = POD then Inr LOW
       else if kind = JOB then Inr LOW
       else if kind = DEPLOYMENT then Inr BR_MEDIUM
       else (case as_num (if has_key signals ''affected_replicas_pct''
                          then dget signals ''affected_replicas_pct'' else PInt 0) of
               None \<Rightarrow> Inl TypeError
             | Some n \<Rightarrow> Inr (if nge n 50 then HIGH else BR_MEDIUM)))"

definition infer_data_plane :: "pydict \<Rightarrow> DataPlane result" where
  "infer_data_plane target =
     rbind (classify_kind (dget target ''kind'')) (\<lambda>kind.
       if kind \<in> set DATA_PLANE_KINDS then Inr DP_YES
       else rbind (str_or_empty (dget target ''owner_kind'')) (\<lambda>ok.
         if lower ok \<in> {''statefulset'', ''sts''} then Inr DP_YES
         else (case dict_or_empty (dget target ''labels'') of
                 None \<Rightarrow> Inr DP_NO
               | Some labels \<Rightarrow>
                   if has_key labels ''data-plane'' \<and> lower (py_str (dget labels ''data-plane'')) = ''true''
                   then Inr MAYBE
                   else rbind (str_or_empty (dget labels ''app'')) (\<lambda>app.
                     Inr (if contains (lower app) ''db'' then MAYBE else DP_NO)))))"

definition infer_freshness :: "pydict \<Rightarrow> Freshness result" where
  "infer_freshness s =
     rbind (str_or_empty (dget s ''stale_class'')) (\<lambda>sc.
       let stale_class = lower sc in
       if stale_class \<in> {''suspicious_stale'', ''stale''} then Inr STALE
       else rbind (if stale_class = ''chronic'' then Inr True
                   else rbind (to_float (let c = dget s ''chronic_score'' in if truthy c then c else PInt 0))
                          (\<lambda>n. Inr (nge n (1 / 2))))
         (\<lambda>chronic.
            if chronic then Inr CHRONIC
            else
              (case (if dget s ''alert_age_minutes'' = PNone then Inr None
                     else (case to_float (dget s ''alert_age_minutes'') of
                             Inr n \<Rightarrow> Inr (Some n)
                           | Inl TypeError \<Rightarrow> Inr None
                           | Inl (ValueError _) \<Rightarrow> Inr None
                           | Inl e \<Rightarrow> Inl e)) of
                 Inl e \<Rightarrow> Inl e
               | Inr None \<Rightarrow> Inr FRESH
               | Inr (Some age) \<Rightarrow>
                   Inr (if nle age 30 then FRESH else if nle age (24 * 60) then CHRONIC else STALE))))"

definition infer_confidence :: "pydict \<Rightarrow> pydict \<Rightarrow> Confidence" where
  "infer_confidence target signals =
     (if \<not> truthy (dget target ''name'') \<or> \<not> truthy (dget target ''kind'') then WEAK
      else if (case dget target ''resolved_via'' of PList xs \<Rightarrow> 2 \<le> length xs | _ \<Rightarrow> False) then STRONG
      else if truthy (dget signals ''multi_signal'') then STRONG
      else CF_MEDIUM)"

definition infer_reversibility :: "pydict \<Rightarrow> pydict \<Rightarrow> Reversibility result" where
  "infer_reversibility target hint =
     rbind (classify_kind (dget target ''kind'')) (\<lambda>kind.
     rbind (str_or_empty (dget target ''owner_kind'')) (\<lambda>ok.
       let owner_kind = lower ok in
       Inr (if kind \<in> set DATA_PLANE_KINDS then HARD
            else if kind = POD \<and> owner_kind \<in> {''deployment'', ''replicaset'', ''daemonset''} then EASY
            else if kind = POD \<and> owner_kind \<in> {''statefulset'', ''sts''} then HARD
            else if kind = JOB then (if owner_kind = ''cronjob'' then EASY else PARTIAL)
            else if kind = DEPLOYMENT
            then (if truthy (dget hint ''has_previous_revision'') then EASY else PARTIAL)
            else PARTIAL)))"

definition infer_idempotency :: "pydict \<Rightarrow> Idempotency result" where
  "infer_idempotency hint =
     rbind (str_or_empty (dget hint ''command_kind'')) (\<lambda>c.
       let cmd = lower c in
       Inr (if cmd = ''delete'' then SAFE
            else if cmd \<in> {''rollout_undo'', ''restart''} then GUARDED
            else if cmd \<in> {''scale'', ''patch_resources''} then UNSAFE
            else GUARDED))"

definition compute_risk_axes :: "pydict \<Rightarrow> pydict \<Rightarrow> pydict \<Rightarrow> RiskAxes result" where
  "compute_risk_axes target signals hint =
     rbind (classify_namespace (dget target ''namespace'')) (\<lambda>tier.
     rbind (classify_kind (dget target ''kind'')) (\<lambda>kind.
     rbind (infer_blast_radius target signals) (\<lambda>blast.
     rbind (infer_data_plane target) (\<lambda>dp.
     rbind (infer_freshness signals) (\<lambda>fresh.
     rbind (infer_reversibility target hint) (\<lambda>rev.
     rbind (infer_idempotency hint) (\<lambda>idem.
       Inr \<lparr>ra_namespace_tier = tier, ra_resource_kind = kind, ra_blast_radius = blast,
            ra_data_plane = dp, ra_freshness = fresh, ra_confidence = infer_confidence target signals,
            ra_reversibility = rev, ra_idempotency = idem\<rparr>)))))))"

section \<open>Classification\<close>

datatype Classification =
  CL_UNKNOWN | STALE_FAILED_JOB | REGRESSION_POST_DEPLOY | MEMORY_PRESSURE | CHRONIC_UNOWNED

fun classification_value :: "Classification \<Rightarrow> string" where
  "classification_value CL_UNKNOWN = ''unknown''"
| "classification_value STALE_FAILED_JOB = ''stale_failed_job''"
| "classification_value REGRESSION_POST_DEPLOY = ''regression_post_deploy''"
| "classification_value MEMORY_PRESSURE = ''memory_pressure''"
| "classification_value CHRONIC_UNOWNED = ''chronic_unowned''"

record ClassificationResult =
  cr_classification :: Classification
  cr_rule_id :: string
  cr_confidence_hint :: string

text \<open>\<open>_to_float\<close>, \<open>_to_int\<close>: \<open>TypeError\<close> and \<open>ValueError\<close> give \<open>None\<close>, other exceptions pass.\<close>

definition soften :: "'a result \<Rightarrow> 'a option result" where
  "soften r = (case r of Inr x \<Rightarrow> Inr (Some x) | Inl TypeError \<Rightarrow> Inr None
     | Inl (ValueError _) \<Rightarrow> Inr None | Inl e \<Rightarrow> Inl e)"

definition cl_to_float :: "pyval \<Rightarrow> num_val option result" where
  "cl_to_float v = (if v = PNone then Inr None else soften (to_float v))"

definition cl_to_int :: "pyval \<Rightarrow> int option result" where
  "cl_to_int v = (if v = PNone then Inr None else soften (to_int v))"

definition rule_stale_failed_job :: "pydict \<Rightarrow> pydict \<Rightarrow> ClassificationResult option result" where
  "rule_stale_failed_job target signals =
     rbind (str_or_empty (dget target ''kind'')) (\<lambda>k.
       if lower k \<notin> {''job'', ''cronjob''} then Inr None
       else rbind (cl_to_int (dget signals ''failed_jobs'')) (\<lambda>failed.
            rbind (cl_to_int (dget signals ''active_jobs'')) (\<lambda>active.
            rbind (cl_to_float (dget signals ''job_age_hours'')) (\<lambda>age.
              Inr (case (failed, active, age) of
                     (Some f, Some a, Some h) \<Rightarrow>
                       (if 1 \<le> f \<and> a = 0 \<and> nge h 24
                        then Some \<lparr>cr_classification = STALE_FAILED_JOB,
                                   cr_rule_id = ''R1.stale_failed_job_v1'', cr_confidence_hint = ''strong''\<rparr>
                        else None)
                   | _ \<Rightarrow> None)))))"

definition rule_regression_post_deploy :: "pydict \<Rightarrow> ClassificationResult option result" where
  "rule_regression_post_deploy signals =
     rbind (cl_to_float (dget signals ''alert_age_minutes'')) (\<lambda>alert_age.
     rbind (cl_to_float (dget signals ''recent_deploy_age_minutes'')) (\<lambda>deploy_age.
       Inr (case (alert_age, deploy_age) of
              (Some a, Some d) \<Rightarrow>
                (if nle a 60 \<and> nle d 30
                 then Some \<lparr>cr_classification = REGRESSION_POST_DEPLOY,
                            cr_rule_id = ''R2.regression_post_deploy_v1'', cr_confidence_hint = ''strong''\<rparr>
                 else None)
            | _ \<Rightarrow> None)))"

definition rule_memory_pressure :: "pydict \<Rightarrow> ClassificationResult option result" where
  "rule_memory_pressure signals =
     rbind (str_or_empty (dget signals ''event_reason'')) (\<lambda>r.
       if lower r \<in> {''oomkilled'', ''nodememorypressure'', ''memorypressure''}
       then Inr (Some \<lparr>cr_classification = MEMORY_PRESSURE, cr_rule_id = ''R3.memory_pressure_v1'',
                       cr_confidence_hint = ''strong''\<rparr>)
       else rbind (cl_to_float (dget signals ''mem_pct'')) (\<lambda>mem.
              Inr (case mem of
                     Some m \<Rightarrow> (if nge m 90
                                 then Some \<lparr>cr_classification = MEMORY_PRESSURE,
                                            cr_rule_id = ''R3.memory_pressure_v1'', cr_confidence_hint = ''medium''\<rparr>
                                 else None)
                   | None \<Rightarrow> None)))"

definition rule_chronic_unowned :: "pydict \<Rightarrow> pydict \<Rightarrow> ClassificationResult option result" where
  "rule_chronic_unowned target signals =
     rbind (str_or_empty (dget signals ''stale_class'')) (\<lambda>sc.
     rbind (cl_to_float (dget signals ''chronic_score'')) (\<lambda>score.
       Inr (if truthy (dget target ''owner_kind'') \<or> truthy (dget target ''owner_name'') then None
            else if lower sc \<in> {''chronic'', ''suspicious_stale''} \<or>
                    (case score of Some s \<Rightarrow> nge s (1 / 2) | None \<Rightarrow> False)
            then Some \<lparr>cr_classification = CHRONIC_UNOWNED, cr_rule_id = ''R4.chronic_unowned_v1'',
                       cr_confidence_hint = ''medium''\<rparr>
            else None)))"

definition or_else :: "'a option result \<Rightarrow> 'a option result \<Rightarrow> 'a option result" where
  "or_else r s = rbind r (\<lambda>x. case x of Some y \<Rightarrow> Inr (Some y) | None \<Rightarrow> s)"

definition classify :: "pydict \<Rightarrow> pydict \<Rightarrow> ClassificationResult result" where
  "classify target signals =
     rbind (or_else (rule_stale_failed_job target signals)
             (or_else (rule_regression_post_deploy signals)
               (or_else (rule_memory_pressure signals) (rule_chronic_unowned target signals))))
       (\<lambda>r. Inr (case r of
                   Some c \<Rightarrow> c
                 | None \<Rightarrow> \<lparr>cr_classification = CL_UNKNOWN, cr_rule_id = ''R0.no_match_v1'',
                            cr_confidence_hint = ''weak''\<rparr>))"

end
