(* ===== verification/Policy.thy ===== *)
theory Policy
  imports Playbook Risk_Axes
begin

text \<open>
  \<open>app/remediation/policy.py\<close>: a playbook's policy evaluated on the risk axes of a target, in the order
  \<open>block.any\<close>, weak classification, \<open>auto\<close>, \<open>approve\<close>, and \<open>block\<close> when nothing matches. A decision carries
  the reasons the code reports. The modes are ordered by strictness, and combining two decisions
  never gives a laxer one.
\<close>

section \<open>Decisions\<close>

datatype PolicyMode = AUTO | APPROVE | BLOCK

definition MODE_RANK :: "PolicyMode \<Rightarrow> nat" where
  "MODE_RANK m = (case m of AUTO \<Rightarrow> 0 | APPROVE \<Rightarrow> 1 | BLOCK \<Rightarrow> 2)"

instantiation PolicyMode :: linorder
begin

definition less_eq_PolicyMode :: "PolicyMode \<Rightarrow> PolicyMode \<Rightarrow> bool" where
  "less_eq_PolicyMode a b \<longleftrightarrow> MODE_RANK a \<le> MODE_RANK b"

definition less_PolicyMode :: "PolicyMode \<Rightarrow> PolicyMode \<Rightarrow> bool" where
  "less_PolicyMode a b \<longleftrightarrow> MODE_RANK a < MODE_RANK b"

instance
proof
  fix a b :: PolicyMode
  show "a \<le> b \<Longrightarrow> b \<le> a \<Longrightarrow> a = b"
    by (cases a; cases b) (simp_all add: less_eq_PolicyMode_def MODE_RANK_def)
qed (auto simp: less_eq_PolicyMode_def less_PolicyMode_def)

end

record PolicyDecision =
  pd_mode :: PolicyMode
  pd_reasons :: "pydict list"

section \<open>Helpers\<close>

definition ensure_list :: "str_or_list option \<Rightarrow> string list" where
  "ensure_list v = (case v of None \<Rightarrow> [] | Some (OneStr s) \<Rightarrow> [s] | Some (ManyStr xs) \<Rightarrow> xs)"

definition axis_value :: "RiskAxes \<Rightarrow> string \<Rightarrow> string option" where
  "axis_value axes name =
     (if name = ''namespace_tier'' then Some (tier_value (ra_namespace_tier axes))
      else if name = ''resource_kind'' then Some (kind_value (ra_resource_kind axes))
      else if name = ''blast_radius'' then Some (blast_value (ra_blast_radius axes))
      else if name = ''data_plane'' then Some (data_plane_value (ra_data_plane axes))
      else if name = ''freshness'' then Some (freshness_value (ra_freshness axes))
      else if name = ''confidence'' then Some (confidence_value (ra_confidence axes))
      else if name = ''reversibility'' then Some (reversibility_value (ra_reversibility axes))
      else if name = ''idempotency'' then Some (idempotency_value (ra_idempotency axes))
      else None)"

definition strs :: "string list \<Rightarrow> pyval" where
  "strs xs = PList (map PStr xs)"

definition matches_axis_list :: "RiskAxes \<Rightarrow> string \<Rightarrow> string list \<Rightarrow> string \<Rightarrow> bool \<times> pydict" where
  "matches_axis_list axes axis_name allowed rule =
     (let cur = axis_value axes axis_name;
          ok = (case cur of None \<Rightarrow> False | Some v \<Rightarrow> v \<in> set allowed)
      in (ok, [(''axis'', PStr axis_name), (''value'', opt_pystr cur), (''expected'', strs allowed),
               (''ok'', PBool ok), (''rule'', PStr rule)]))"

section \<open>block.any\<close>

definition block_axes :: "BlockAnySection \<Rightarrow> (string \<times> string list option) list" where
  "block_axes b =
     [(''namespace_tier'', ba_namespace_tier b), (''resource_kind'', ba_resource_kind b),
      (''data_plane'', ba_data_plane b), (''reversibility'', ba_reversibility b),
      (''confidence'', ba_confidence b)]"

definition evaluate_block_any :: "BlockAnySection option \<Rightarrow> RiskAxes \<Rightarrow> pydict list" where
  "evaluate_block_any block_any axes =
     (case block_any of
        None \<Rightarrow> []
      | Some b \<Rightarrow>
          concat (map (\<lambda>(axis_name, allowed).
            case allowed of
              None \<Rightarrow> []
            | Some xs \<Rightarrow>
                (case axis_value axes axis_name of
                   Some cur \<Rightarrow> (if cur \<in> set xs
                                 then [[(''axis'', PStr axis_name), (''value'', PStr cur),
                                        (''matched'', strs xs), (''rule'', PStr ''block.any'')]]
                                 else [])
                 | None \<Rightarrow> [])) (block_axes b)))"

section \<open>auto and approve\<close>

text \<open>
  Both sections run their declared constraints in turn: an absent one is skipped, the first that
  fails ends the evaluation with the checks made so far, and a section without any constraint is
  no permission.
\<close>

fun seq_checks :: "string \<Rightarrow> (bool \<times> pydict) option list \<Rightarrow> pydict list \<Rightarrow> bool \<Rightarrow> bool \<times> pydict list" where
  "seq_checks rule [] checks any_constraint =
     (if any_constraint then (True, checks)
      else (False, [[(''rule'', PStr rule), (''reason'', PStr (rule @ '' section has no constraints''))]]))"
| "seq_checks rule (None # cs) checks any_constraint = seq_checks rule cs checks any_constraint"
| "seq_checks rule (Some (ok, r) # cs) checks any_constraint =
     (if ok then seq_checks rule cs (checks @ [r]) True else (False, checks @ [r]))"

definition axis_check :: "string \<Rightarrow> RiskAxes \<Rightarrow> string \<Rightarrow> string list option \<Rightarrow> (bool \<times> pydict) option" where
  "axis_check rule axes name allowed = map_option (\<lambda>xs. matches_axis_list axes name xs rule) allowed"

definition target_or_empty :: "pydict option \<Rightarrow> pydict" where
  "target_or_empty target = (case target of None \<Rightarrow> [] | Some t \<Rightarrow> t)"

definition owner_matches :: "pydict option \<Rightarrow> string list \<Rightarrow> bool" where
  "owner_matches target expected =
     (case target of
        None \<Rightarrow> False
      | Some t \<Rightarrow> t \<noteq> [] \<and>
          (let ok = dget t ''owner_kind'' in
           if truthy ok then (case ok of PStr s \<Rightarrow> s \<in> set expected | _ \<Rightarrow> False) else [] \<in> set expected))"

definition owner_check :: "string \<Rightarrow> pydict option \<Rightarrow> str_or_list option \<Rightarrow> (bool \<times> pydict) option" where
  "owner_check rule target owner_kind =
     (case owner_kind of
        None \<Rightarrow> None
      | Some ok \<Rightarrow>
          (let expected = ensure_list (Some ok); b = owner_matches target expected
           in Some (b, [(''axis'', PStr ''owner_kind''),
                        (''value'', dget (target_or_empty target) ''owner_kind''),
                        (''expected'', strs expected), (''ok'', PBool b), (''rule'', PStr rule)])))"

definition logs_captured_or_ttl :: "pydict option \<Rightarrow> bool" where
  "logs_captured_or_ttl target =
     (case dict_or_empty (dget (target_or_empty target) ''labels'') of
        None \<Rightarrow> False
      | Some labels \<Rightarrow>
          lower (py_str (dget_or labels ''logs_captured'' (PStr []))) = ''true'' \<or>
          strip (py_str (dget_or labels ''ttl_seconds_after_finished'' (PStr []))) \<noteq> [])"

definition logs_check :: "pydict option \<Rightarrow> bool option \<Rightarrow> (bool \<times> pydict) option" where
  "logs_check target expected =
     (case expected of
        None \<Rightarrow> None
      | Some e \<Rightarrow>
          (let actual = logs_captured_or_ttl target; ok = (actual = e)
           in Some (ok, [(''axis'', PStr ''logs_captured_or_ttl''), (''value'', PBool actual),
                         (''expected'', PBool e), (''ok'', PBool ok), (''rule'', PStr ''auto'')])))"

definition auto_checks :: "AutoSection \<Rightarrow> RiskAxes \<Rightarrow> pydict option \<Rightarrow> (bool \<times> pydict) option list" where
  "auto_checks a axes target =
     [axis_check ''auto'' axes ''namespace_tier'' (au_namespace_tier a),
      axis_check ''auto'' axes ''blast_radius'' (au_blast_radius a),
      axis_check ''auto'' axes ''data_plane'' (au_data_plane a),
      owner_check ''auto'' target (au_owner_kind a),
      logs_check target (au_logs_captured_or_ttl a)]"

definition evaluate_auto :: "AutoSection option \<Rightarrow> RiskAxes \<Rightarrow> pydict option \<Rightarrow> bool \<times> pydict list" where
  "evaluate_auto auto axes target =
     (case auto of
        None \<Rightarrow> (False, [[(''rule'', PStr ''auto''), (''reason'', PStr ''auto section absent'')]])
      | Some a \<Rightarrow> seq_checks ''auto'' (auto_checks a axes target) [] False)"

definition approve_checks :: "ApproveSection \<Rightarrow> RiskAxes \<Rightarrow> pydict option \<Rightarrow> (bool \<times> pydict) option list" where
  "approve_checks a axes target =
     [axis_check ''approve'' axes ''namespace_tier'' (ap_namespace_tier a),
      axis_check ''approve'' axes ''blast_radius'' (ap_blast_radius a),
      axis_check ''approve'' axes ''data_plane'' (ap_data_plane a),
      owner_check ''approve'' target (ap_owner_kind a)]"

definition evaluate_approve :: "ApproveSection option \<Rightarrow> RiskAxes \<Rightarrow> pydict option \<Rightarrow> bool \<times> pydict list" where
  "evaluate_approve approve axes target =
     (case approve of
        None \<Rightarrow> (False, [[(''rule'', PStr ''approve''), (''reason'', PStr ''approve section absent'')]])
      | Some a \<Rightarrow> seq_checks ''approve'' (approve_checks a axes target) [] False)"

section \<open>The priority chain\<close>

definition evaluate_policy ::
  "Playbook \<Rightarrow> RiskAxes \<Rightarrow> pydict option \<Rightarrow> string option \<Rightarrow> PolicyDecision" where
  "evaluate_policy playbook axes target classification_confidence =
     (let block_triggers = evaluate_block_any (Option.bind (ps_block (pb_policy playbook)) bl_any) axes in
      if block_triggers \<noteq> [] then \<lparr>pd_mode = BLOCK, pd_reasons = block_triggers\<rparr>
      else if classification_confidence = Some ''weak''
      then \<lparr>pd_mode = BLOCK,
            pd_reasons = [[(''rule'', PStr ''block_low_confidence''), (''value'', PStr ''weak''),
                           (''reason'', PStr ''classification confidence is weak'')]]\<rparr>
      else
        (let (auto_ok, auto_reasons) = evaluate_auto (ps_auto (pb_policy playbook)) axes target in
         if auto_ok then \<lparr>pd_mode = AUTO, pd_reasons = auto_reasons\<rparr>
         else
           (let (approve_ok, approve_reasons) = evaluate_approve (ps_approve (pb_policy playbook)) axes target in
            if approve_ok then \<lparr>pd_mode = APPROVE, pd_reasons = approve_reasons\<rparr>
            else \<lparr>pd_mode = BLOCK,
                  pd_reasons = [[(''rule'', PStr ''block_no_matching_policy''),
                                 (''reason'', PStr ''neither auto nor approve criteria matched''),
                                 (''auto_failed'', PList (map PDict auto_reasons)),
                                 (''approve_failed'', PList (map PDict approve_reasons))]]\<rparr>)))"

definition strictest :: "PolicyDecision \<Rightarrow> PolicyDecision \<Rightarrow> PolicyDecision" where
  "strictest base other = (if MODE_RANK (pd_mode base) < MODE_RANK (pd_mode other) then other else base)"

section \<open>Combining decisions\<close>

text \<open>
  What the gate relies on when it overlays one decision with another: the result is one of the two,
  and its mode is the larger one in the order of strictness.
\<close>

locale overlay =
  fixes mode :: "'d \<Rightarrow> 'm :: linorder"
    and combine :: "'d \<Rightarrow> 'd \<Rightarrow> 'd"
  assumes one_of_both: "combine a b = a \<or> combine a b = b"
    and mode_max: "mode (combine a b) = max (mode a) (mode b)"
begin

lemma never_laxer: "mode a \<le> mode (combine a b)" "mode b \<le> mode (combine a b)"
  by (simp_all add: mode_max)

lemma below_iff: "mode (combine a b) < m \<longleftrightarrow> mode a < m \<and> mode b < m"
  by (simp add: mode_max)

lemma many_never_laxer: "d \<in> set (a # ds) \<Longrightarrow> mode d \<le> mode (foldl combine a ds)"
proof (induction ds arbitrary: a d)
  case (Cons x ds)
  then consider "d = a \<or> d = x" | "d \<in> set ds" by auto
  then show ?case
  proof cases
    case 1
    have "mode (combine a x) \<le> mode (foldl combine (combine a x) ds)"
      using Cons.IH by simp
    with 1 show ?thesis by (auto simp: mode_max)
  next
    case 2
    with Cons.IH show ?thesis by simp
  qed
qed simp

end

interpretation strict: overlay pd_mode strictest
proof
  fix a b :: PolicyDecision
  show "strictest a b = a \<or> strictest a b = b" by (simp add: strictest_def)
  show "pd_mode (strictest a b) = max (pd_mode a) (pd_mode b)"
    by (auto simp: strictest_def max_def less_eq_PolicyMode_def)
      (cases "pd_mode a"; cases "pd_mode b"; simp add: MODE_RANK_def)
qed

section \<open>Lemmas\<close>

lemma seq_checks_fst:
  "fst (seq_checks rule cs checks any) \<longleftrightarrow>
     (\<forall>c\<in>set cs. case c of None \<Rightarrow> True | Some (ok, r) \<Rightarrow> ok) \<and> (any \<or> (\<exists>c\<in>set cs. c \<noteq> None))"
  by (induction rule cs checks any rule: seq_checks.induct) auto

text \<open>The meaning of the three sections, free of the order the code evaluates them in.\<close>

definition axis_in :: "RiskAxes \<Rightarrow> string \<Rightarrow> string list option \<Rightarrow> bool" where
  "axis_in axes name allowed = (case allowed of None \<Rightarrow> True
     | Some xs \<Rightarrow> (case axis_value axes name of None \<Rightarrow> False | Some v \<Rightarrow> v \<in> set xs))"

definition blocked :: "Playbook \<Rightarrow> RiskAxes \<Rightarrow> bool" where
  "blocked pb axes \<longleftrightarrow>
     (\<exists>b xs name. Option.bind (ps_block (pb_policy pb)) bl_any = Some b \<and> (name, Some xs) \<in> set (block_axes b) \<and>
        (case axis_value axes name of None \<Rightarrow> False | Some v \<Rightarrow> v \<in> set xs))"

definition auto_holds :: "Playbook \<Rightarrow> RiskAxes \<Rightarrow> pydict option \<Rightarrow> bool" where
  "auto_holds pb axes target =
     (case ps_auto (pb_policy pb) of
        None \<Rightarrow> False
      | Some a \<Rightarrow>
          (au_namespace_tier a \<noteq> None \<or> au_blast_radius a \<noteq> None \<or> au_data_plane a \<noteq> None \<or>
           au_owner_kind a \<noteq> None \<or> au_logs_captured_or_ttl a \<noteq> None) \<and>
          axis_in axes ''namespace_tier'' (au_namespace_tier a) \<and>
          axis_in axes ''blast_radius'' (au_blast_radius a) \<and>
          axis_in axes ''data_plane'' (au_data_plane a) \<and>
          (au_owner_kind a \<noteq> None \<longrightarrow> owner_matches target (ensure_list (au_owner_kind a))) \<and>
          (au_logs_captured_or_ttl a \<noteq> None \<longrightarrow>
             au_logs_captured_or_ttl a = Some (logs_captured_or_ttl target)))"

definition approve_holds :: "Playbook \<Rightarrow> RiskAxes \<Rightarrow> pydict option \<Rightarrow> bool" where
  "approve_holds pb axes target =
     (case ps_approve (pb_policy pb) of
        None \<Rightarrow> False
      | Some a \<Rightarrow>
          (ap_namespace_tier a \<noteq> None \<or> ap_blast_radius a \<noteq> None \<or> ap_data_plane a \<noteq> None \<or>
           ap_owner_kind a \<noteq> None) \<and>
          axis_in axes ''namespace_tier'' (ap_namespace_tier a) \<and>
          axis_in axes ''blast_radius'' (ap_blast_radius a) \<and>
          axis_in axes ''data_plane'' (ap_data_plane a) \<and>
          (ap_owner_kind a \<noteq> None \<longrightarrow> owner_matches target (ensure_list (ap_owner_kind a))))"

lemma axis_check_ok:
  "(case axis_check rule axes name allowed of None \<Rightarrow> True | Some (ok, r) \<Rightarrow> ok) = axis_in axes name allowed"
  "axis_check rule axes name allowed = None \<longleftrightarrow> allowed = None"
  by (auto simp: axis_check_def axis_in_def matches_axis_list_def Let_def split: option.splits)

lemma owner_check_ok:
  "(case owner_check rule target ok of None \<Rightarrow> True | Some (b, r) \<Rightarrow> b) =
     (ok \<noteq> None \<longrightarrow> owner_matches target (ensure_list ok))"
  "owner_check rule target ok = None \<longleftrightarrow> ok = None"
  by (auto simp: owner_check_def Let_def split: option.splits)

lemma logs_check_ok:
  "(case logs_check target e of None \<Rightarrow> True | Some (b, r) \<Rightarrow> b) =
     (e \<noteq> None \<longrightarrow> e = Some (logs_captured_or_ttl target))"
  "logs_check target e = None \<longleftrightarrow> e = None"
  by (auto simp: logs_check_def Let_def split: option.splits)

lemma evaluate_auto_ok: "fst (evaluate_auto (ps_auto (pb_policy pb)) axes target) = auto_holds pb axes target"
proof (cases "ps_auto (pb_policy pb)")
  case (Some a)
  then show ?thesis
    by (simp add: evaluate_auto_def auto_holds_def seq_checks_fst auto_checks_def axis_check_ok
        owner_check_ok logs_check_ok del: not_None_eq seq_checks.simps) blast
qed (simp add: evaluate_auto_def auto_holds_def)

lemma evaluate_approve_ok:
  "fst (evaluate_approve (ps_approve (pb_policy pb)) axes target) = approve_holds pb axes target"
proof (cases "ps_approve (pb_policy pb)")
  case (Some a)
  then show ?thesis
    by (simp add: evaluate_approve_def approve_holds_def seq_checks_fst approve_checks_def axis_check_ok
        owner_check_ok del: not_None_eq seq_checks.simps) blast
qed (simp add: evaluate_approve_def approve_holds_def)

lemma evaluate_block_any_ok:
  "evaluate_block_any (Option.bind (ps_block (pb_policy pb)) bl_any) axes \<noteq> [] \<longleftrightarrow> blocked pb axes"
  unfolding blocked_def evaluate_block_any_def
  by (fastforce split: option.splits if_splits)

lemma evaluate_policy_mode:
  "pd_mode (evaluate_policy pb axes target conf) =
     (if blocked pb axes \<or> conf = Some ''weak'' then BLOCK
      else if auto_holds pb axes target then AUTO
      else if approve_holds pb axes target then APPROVE else BLOCK)"
  using evaluate_block_any_ok [of pb axes] evaluate_auto_ok [of pb axes target]
    evaluate_approve_ok [of pb axes target]
  by (simp add: evaluate_policy_def Let_def split_beta)

section \<open>Properties\<close>

text \<open>
  C14. The policy engine decides as its documentation says: a decision is \<open>auto\<close> or \<open>approve\<close> only if no
  \<open>block.any\<close> condition holds and the classification is not weak; \<open>auto\<close> exactly if then every
  declared \<open>auto\<close> condition holds and there is one, \<open>approve\<close> exactly if \<open>auto\<close> does not apply and the
  same is true of the \<open>approve\<close> section; in every other case the decision is \<open>block\<close>, with a reason.
\<close>

theorem policy_spec:
  "pd_mode (evaluate_policy pb axes target conf) =
     (if blocked pb axes \<or> conf = Some ''weak'' then BLOCK
      else if auto_holds pb axes target then AUTO
      else if approve_holds pb axes target then APPROVE else BLOCK) \<and>
   pd_reasons (evaluate_policy pb axes target conf) \<noteq> []"
proof -
  have "fst (seq_checks r cs ch any) \<Longrightarrow> snd (seq_checks r cs ch any) \<noteq> [] \<or> ch = [] \<and> any" for r cs ch any
    by (induction r cs ch any rule: seq_checks.induct) (auto split: if_splits)
  then have auto_reasons: "fst (evaluate_auto a axes target) \<Longrightarrow> snd (evaluate_auto a axes target) \<noteq> []"
    and approve_reasons: "fst (evaluate_approve b axes target) \<Longrightarrow> snd (evaluate_approve b axes target) \<noteq> []" for a b
    by (auto simp: evaluate_auto_def evaluate_approve_def split: option.splits)
  then have "pd_reasons (evaluate_policy pb axes target conf) \<noteq> []"
    by (simp add: evaluate_policy_def Let_def split_beta)
  with evaluate_policy_mode show ?thesis by blast
qed

text \<open>
  Overlaying decisions is safe: combining any number of decisions with \<open>_strictest\<close> gives one at
  least as strict as each of them; in particular one \<open>block\<close> among them blocks.
\<close>

theorem strictest_never_laxer:
  assumes "d \<in> set (a # ds)"
  shows "pd_mode d \<le> pd_mode (foldl strictest a ds)"
  using assms by (rule strict.many_never_laxer)

theorem strictest_never_laxer_witness:
  "pd_mode (foldl strictest \<lparr>pd_mode = AUTO, pd_reasons = []\<rparr>
     [\<lparr>pd_mode = BLOCK, pd_reasons = []\<rparr>, \<lparr>pd_mode = APPROVE, pd_reasons = []\<rparr>]) = BLOCK"
proof -
  let ?ds = "[\<lparr>pd_mode = BLOCK, pd_reasons = []\<rparr>, \<lparr>pd_mode = APPROVE, pd_reasons = []\<rparr>] :: PolicyDecision list"
  have "BLOCK \<le> pd_mode (foldl strictest \<lparr>pd_mode = AUTO, pd_reasons = []\<rparr> ?ds)"
    using strictest_never_laxer [of "\<lparr>pd_mode = BLOCK, pd_reasons = []\<rparr>" "\<lparr>pd_mode = AUTO, pd_reasons = []\<rparr>" ?ds]
    by simp
  moreover have "m \<le> BLOCK" for m by (cases m) (simp_all add: less_eq_PolicyMode_def MODE_RANK_def)
  ultimately show ?thesis by (meson order_antisym)
qed

end
