(* ===== verification/Matcher.thy ===== *)
theory Matcher
  imports Playbook
begin

text \<open>
  \<open>app/remediation/matcher.py\<close>: which executable playbooks an incident admits, decided from the alert,
  the classification and the verdicts of the diagnostic facts alone, and the rendering of a plan
  into intents with their argument vectors. \<open>PlanRenderError\<close> is a \<open>ValueError\<close>.
\<close>

section \<open>Preconditions\<close>

definition py_in :: "pyval \<Rightarrow> pyval list \<Rightarrow> bool" where
  "py_in v xs = list_ex (\<lambda>x. py_eq v x) xs"

definition found_facts :: "Fact list \<Rightarrow> Fact list" where
  "found_facts kinds = filter (\<lambda>f. fc_verdict f = verdict_value FOUND) kinds"

definition excluded_by_evidence :: "(string \<times> pyval list) list option \<Rightarrow> Fact list \<Rightarrow> pydict list" where
  "excluded_by_evidence evidence_not_in found =
     (case evidence_not_in of
        None \<Rightarrow> []
      | Some es \<Rightarrow>
          concat (map (\<lambda>(key, banned).
            List.map_filter (\<lambda>f.
              if \<not> has_key (fc_evidence f) key \<or> py_in (dget (fc_evidence f) key) banned
              then Some [(''key'', PStr key),
                         (''value'', if has_key (fc_evidence f) key then dget (fc_evidence f) key
                                     else PStr ''missing'')]
              else None) found) es))"

definition precondition_ok :: "Precondition \<Rightarrow> Fact list \<Rightarrow> bool" where
  "precondition_ok pre kinds =
     (if pc_verdict pre = FOUND
      then found_facts kinds \<noteq> [] \<and> excluded_by_evidence (pc_evidence_not_in pre) (found_facts kinds) = []
      else fc_verdict ` set kinds = {verdict_value ABSENT})"

definition precondition_check :: "Precondition \<Rightarrow> Fact list \<Rightarrow> pydict" where
  "precondition_check pre kinds =
     (let verdicts = remdups (sort (map fc_verdict kinds));
          excluded = (if pc_verdict pre = FOUND
                      then excluded_by_evidence (pc_evidence_not_in pre) (found_facts kinds) else [])
      in [(''fact'', PStr (pc_fact pre)), (''expected'', PStr (verdict_value (pc_verdict pre))),
          (''actual'', PList (if verdicts = [] then [PStr ''missing''] else map PStr verdicts)),
          (''ok'', PBool (precondition_ok pre kinds))] @
         (if excluded = [] then [] else [(''excluded_by_evidence'', PList (map PDict excluded))]))"

fun run_preconditions :: "Precondition list \<Rightarrow> FactStore \<Rightarrow> pydict list \<Rightarrow> bool \<times> pydict list" where
  "run_preconditions [] facts checks = (True, checks)"
| "run_preconditions (pre # pres) facts checks =
     (let kinds = by_kind facts (pc_fact pre); checks' = checks @ [precondition_check pre kinds] in
      if precondition_ok pre kinds then run_preconditions pres facts checks' else (False, checks'))"

text \<open>No fact store at all (\<open>None\<close>) reads like an empty one.\<close>

definition check_preconditions :: "Playbook \<Rightarrow> FactStore option \<Rightarrow> bool \<times> pydict list" where
  "check_preconditions playbook facts =
     run_preconditions (case pb_preconditions playbook of None \<Rightarrow> [] | Some ps \<Rightarrow> ps)
       (case facts of None \<Rightarrow> [] | Some fs \<Rightarrow> fs) []"

section \<open>Candidates\<close>

definition match_section_ok :: "Playbook \<Rightarrow> string option \<Rightarrow> string option \<Rightarrow> bool" where
  "match_section_ok playbook alertname classification =
     (let ms = pb_match playbook; alert = (case alertname of None \<Rightarrow> [] | Some a \<Rightarrow> a) in
      if \<not> is_empty_opt (ms_alertnames ms) \<and> alert \<notin> set (case ms_alertnames ms of None \<Rightarrow> [] | Some xs \<Rightarrow> xs)
      then False
      else if ms_classification ms \<noteq> None \<and> ms_classification ms \<noteq> classification then False
      else True)"

definition match_playbooks ::
  "(string \<times> Playbook) list \<Rightarrow> string option \<Rightarrow> string option \<Rightarrow> FactStore option \<Rightarrow> Playbook list" where
  "match_playbooks registry alertname classification facts =
     filter (\<lambda>pb. executable pb \<and> match_section_ok pb alertname classification \<and>
                  fst (check_preconditions pb facts))
       (map snd (sort_key fst registry))"

section \<open>Rendering a plan\<close>

definition render_param :: "pyval \<Rightarrow> pydict \<Rightarrow> pyval result" where
  "render_param v ctx =
     (case template_name v of
        Some key \<Rightarrow> (if \<not> has_key ctx key \<or> dget ctx key = PNone
                     then Inl (ValueError (''template '' @ key @ '' has no value'')) else Inr (dget ctx key))
      | None \<Rightarrow> Inr v)"

definition plan_error :: "'a result \<Rightarrow> 'a result" where
  "plan_error r = (case r of Inl _ \<Rightarrow> Inl (ValueError ''step produced invalid intent'') | Inr x \<Rightarrow> Inr x)"

definition step_intent :: "Playbook \<Rightarrow> string \<Rightarrow> string \<Rightarrow> PlanStep \<Rightarrow> ActionType \<Rightarrow> ActionSpec \<Rightarrow> pydict \<Rightarrow> pyval" where
  "step_intent playbook namespace resource_name step action spec params =
     PDict
       [(''action'', PStr (action_value action)),
        (''resource_type'', PStr (case str_or (st_resource_type step)
                                         (str_or (as_requires_resource_type spec) (Some ''deployment'')) of
                                   Some t \<Rightarrow> t | None \<Rightarrow> [])),
        (''resource_name'', PStr resource_name), (''namespace'', PStr namespace),
        (''params'', PDict params), (''playbook'', PStr (pb_name playbook))]"

definition require_params :: "ActionSpec \<Rightarrow> pydict \<Rightarrow> pydict result" where
  "require_params spec params =
     (if list_ex (\<lambda>p. \<not> has_key params p) (as_required_params spec)
      then Inl (ValueError ''step is missing required params'') else Inr params)"

definition render_step :: "Playbook \<Rightarrow> string \<Rightarrow> string \<Rightarrow> pydict \<Rightarrow> PlanStep \<Rightarrow> (ExecutionIntent \<times> string list) result" where
  "render_step playbook namespace resource_name ctx step =
     (case parse_action (st_action step) of
        None \<Rightarrow> Inl (ValueError ''not a valid ActionType'')
      | Some action \<Rightarrow>
          rbind (action_spec action) (\<lambda>spec.
          rbind (rmap (\<lambda>(k, v). rbind (render_param v ctx) (\<lambda>x. Inr (k, x))) (st_params step)) (\<lambda>params.
          rbind (require_params spec params) (\<lambda>params.
          rbind (plan_error (model_validate (step_intent playbook namespace resource_name step action spec params)))
            (\<lambda>intent. rbind (to_argv intent) (\<lambda>argv. Inr (intent, argv)))))))"

definition render_plan ::
  "Playbook \<Rightarrow> string \<Rightarrow> string \<Rightarrow> pydict \<Rightarrow> (ExecutionIntent \<times> string list) list result" where
  "render_plan playbook namespace resource_name context' =
     (if \<not> executable playbook then Inl (ValueError ''playbook is not v2 (preview-only)'')
      else rmap (render_step playbook namespace resource_name context') (plan_steps playbook))"

section \<open>Lemmas\<close>

lemma run_preconditions_fst:
  "fst (run_preconditions pres facts checks) \<longleftrightarrow> (\<forall>pre\<in>set pres. precondition_ok pre (by_kind facts (pc_fact pre)))"
  by (induction pres facts checks rule: run_preconditions.induct) (auto simp: Let_def)

lemma check_preconditions_Some:
  "fst (check_preconditions pb (Some facts)) \<longleftrightarrow>
     (\<forall>ps. pb_preconditions pb = Some ps \<longrightarrow> (\<forall>pre\<in>set ps. precondition_ok pre (by_kind facts (pc_fact pre))))"
  by (cases "pb_preconditions pb") (simp_all add: check_preconditions_def run_preconditions_fst)

lemma match_playbooks_iff:
  "pb \<in> set (match_playbooks reg alert cls facts) \<longleftrightarrow>
     pb \<in> snd ` set reg \<and> executable pb \<and> match_section_ok pb alert cls \<and> fst (check_preconditions pb facts)"
  by (auto simp: match_playbooks_def)

lemma by_kind_append: "by_kind (fs @ gs) k = by_kind fs k @ by_kind gs k"
  by (simp add: by_kind_def)

text \<open>A fact that could not be checked never helps a precondition.\<close>

lemma precondition_unknown:
  assumes "fc_verdict u = verdict_value V_UNKNOWN" and "pc_verdict pre \<noteq> V_UNKNOWN"
    and "precondition_ok pre (kinds @ [u])"
  shows "precondition_ok pre kinds"
proof (cases "pc_verdict pre = FOUND")
  case True
  have "found_facts (kinds @ [u]) = found_facts kinds" using assms(1) by (simp add: found_facts_def)
  with True assms(3) show ?thesis by (simp add: precondition_ok_def)
next
  case False
  with assms(3) have "fc_verdict u = verdict_value ABSENT" by (auto simp: precondition_ok_def)
  with assms(1) show ?thesis by (simp del: verdict_value.simps)
qed

lemma p_precondition_verdict: "p_precondition v = Inr pre \<Longrightarrow> pc_verdict pre \<noteq> V_UNKNOWN"
  unfolding p_precondition_def p_model_Inr
  by (auto simp: rbind_eq_Inr p_verdict_def req_field_def split: if_splits option.splits)

lemma loaded_preconditions:
  assumes "load_playbook doc = Inr pb" and "pb_preconditions pb = Some ps" and "pre \<in> set ps"
  shows "pc_verdict pre \<noteq> V_UNKNOWN"
proof -
  obtain v where "p_playbook v = Inr pb"
    using assms(1) by (auto simp: load_playbook_def split: option.splits pyval.splits)
  then obtain d pb0 where "check_version_contract pb0 = Inr pb"
    "opt_field (p_list p_precondition) d ''preconditions'' = Inr (pb_preconditions pb0)"
    unfolding p_playbook_def p_model_Inr by (elim exE conjE rbind_cases) fastforce
  then have "opt_field (p_list p_precondition) d ''preconditions'' = Inr (Some ps)"
    using check_version_contract_unchanged assms(2) by metis
  from opt_field_Some [OF this] obtain u where u: "p_list p_precondition u = Inr ps" by blast
  from p_list_Inr [OF u assms(3)] obtain x where "p_precondition x = Inr pre" by blast
  then show ?thesis by (rule p_precondition_verdict)
qed

lemma plan_error_Inr: "plan_error r = Inr x \<longleftrightarrow> r = Inr x"
  by (cases r) (simp_all add: plan_error_def)

lemma map_filter_Nil: "List.map_filter g xs = [] \<longleftrightarrow> (\<forall>x\<in>set xs. g x = None)"
  by (induction xs) (auto simp: List.map_filter_def)

lemma image_singleton: "f ` A = {c} \<Longrightarrow> (\<exists>x. x \<in> A) \<and> (\<forall>x\<in>A. f x = c)"
  by blast

lemma excluded_Nil:
  assumes "excluded_by_evidence (Some es) found = []" and "f \<in> set found" and "(key, banned) \<in> set es"
  shows "has_key (fc_evidence f) key \<and> \<not> py_in (dget (fc_evidence f) key) banned"
  using assms by (force simp: excluded_by_evidence_def map_filter_Nil split: if_splits)

lemma render_step_Inr:
  assumes "render_step pb ns name ctx step = Inr (i, argv)"
  shows "\<exists>obj. model_validate obj = Inr i" and "to_argv i = Inr argv"
  using assms by (auto simp: render_step_def rbind_eq_Inr plan_error_Inr split: option.splits)

text \<open>What a precondition that holds says about the facts.\<close>

lemma precondition_met:
  assumes ok: "precondition_ok pre (by_kind facts (pc_fact pre))"
  shows "if pc_verdict pre = FOUND
     then (\<exists>f\<in>set facts. fc_kind f = pc_fact pre \<and> fc_verdict f = ''found'') \<and>
          (\<forall>f\<in>set facts. fc_kind f = pc_fact pre \<and> fc_verdict f = ''found'' \<longrightarrow>
             (\<forall>es key banned. pc_evidence_not_in pre = Some es \<and> (key, banned) \<in> set es \<longrightarrow>
                has_key (fc_evidence f) key \<and> \<not> py_in (dget (fc_evidence f) key) banned))
     else (\<exists>f\<in>set facts. fc_kind f = pc_fact pre) \<and>
          (\<forall>f\<in>set facts. fc_kind f = pc_fact pre \<longrightarrow> fc_verdict f = ''absent'')"
proof (cases "pc_verdict pre = FOUND")
  case True
  have found: "set (found_facts (by_kind facts (pc_fact pre))) =
      {f \<in> set facts. fc_kind f = pc_fact pre \<and> fc_verdict f = ''found''}"
    by (auto simp: found_facts_def by_kind_def)
  have "found_facts (by_kind facts (pc_fact pre)) \<noteq> []" and
    ex: "excluded_by_evidence (pc_evidence_not_in pre) (found_facts (by_kind facts (pc_fact pre))) = []"
    using ok True by (auto simp: precondition_ok_def)
  then have "\<exists>f. f \<in> set (found_facts (by_kind facts (pc_fact pre)))"
    by (meson last_in_set)
  moreover have "has_key (fc_evidence f) key \<and> \<not> py_in (dget (fc_evidence f) key) banned"
    if "f \<in> set (found_facts (by_kind facts (pc_fact pre)))" "pc_evidence_not_in pre = Some es"
      "(key, banned) \<in> set es" for f es key banned
    using ex that excluded_Nil by metis
  ultimately show ?thesis using True unfolding found by auto
next
  case False
  then have "fc_verdict ` set (by_kind facts (pc_fact pre)) = {''absent''}"
    using ok by (simp add: precondition_ok_def)
  from image_singleton [OF this] have "\<exists>f. f \<in> set (by_kind facts (pc_fact pre))"
    and "\<And>f. f \<in> set (by_kind facts (pc_fact pre)) \<Longrightarrow> fc_verdict f = ''absent''" by blast+
  moreover have "set (by_kind facts (pc_fact pre)) = {f \<in> set facts. fc_kind f = pc_fact pre}"
    by (simp add: by_kind_def)
  ultimately show ?thesis using False by (simp add: Bex_def)
qed

section \<open>Properties\<close>

text \<open>
  C23. A candidate matches the alert and is justified by the facts. A selected playbook is an executable
  one of the registry; if its match section names alerts, the name of the alert is one of them, and if
  it names a classification, the alert has that one; and for each of its preconditions the required
  verdict was really reached: for \<open>found\<close> there is a found fact of that kind, and every found one
  carries each filtered evidence key with a value that is not banned; for \<open>absent\<close> there is a fact
  of that kind and all of them say \<open>absent\<close>, so neither a missing fact nor one unknown answer passes.
\<close>

theorem candidates_are_justified:
  assumes "pb \<in> set (match_playbooks reg alert cls (Some facts))"
  shows "pb \<in> snd ` set reg \<and> executable pb \<and>
    (\<forall>names. ms_alertnames (pb_match pb) = Some names \<and> names \<noteq> [] \<longrightarrow>
       (case alert of None \<Rightarrow> [] | Some name \<Rightarrow> name) \<in> set names) \<and>
    (\<forall>c. ms_classification (pb_match pb) = Some c \<longrightarrow> cls = Some c) \<and>
    (\<forall>ps pre. pb_preconditions pb = Some ps \<and> pre \<in> set ps \<longrightarrow>
       (if pc_verdict pre = FOUND
        then (\<exists>f\<in>set facts. fc_kind f = pc_fact pre \<and> fc_verdict f = ''found'') \<and>
             (\<forall>f\<in>set facts. fc_kind f = pc_fact pre \<and> fc_verdict f = ''found'' \<longrightarrow>
                (\<forall>es key banned. pc_evidence_not_in pre = Some es \<and> (key, banned) \<in> set es \<longrightarrow>
                   has_key (fc_evidence f) key \<and> \<not> py_in (dget (fc_evidence f) key) banned))
        else (\<exists>f\<in>set facts. fc_kind f = pc_fact pre) \<and>
             (\<forall>f\<in>set facts. fc_kind f = pc_fact pre \<longrightarrow> fc_verdict f = ''absent'')))"
proof -
  have c: "pb \<in> snd ` set reg" "executable pb" "match_section_ok pb alert cls" "fst (check_preconditions pb (Some facts))"
    using assms by (auto simp: match_playbooks_iff)
  have "(if pc_verdict pre = FOUND
      then (\<exists>f\<in>set facts. fc_kind f = pc_fact pre \<and> fc_verdict f = ''found'') \<and>
           (\<forall>f\<in>set facts. fc_kind f = pc_fact pre \<and> fc_verdict f = ''found'' \<longrightarrow>
              (\<forall>es key banned. pc_evidence_not_in pre = Some es \<and> (key, banned) \<in> set es \<longrightarrow>
                 has_key (fc_evidence f) key \<and> \<not> py_in (dget (fc_evidence f) key) banned))
      else (\<exists>f\<in>set facts. fc_kind f = pc_fact pre) \<and>
           (\<forall>f\<in>set facts. fc_kind f = pc_fact pre \<longrightarrow> fc_verdict f = ''absent''))"
    if "pb_preconditions pb = Some ps" "pre \<in> set ps" for ps pre
    using c(4) that by (intro precondition_met) (auto simp: check_preconditions_Some)
  moreover have "\<forall>names. ms_alertnames (pb_match pb) = Some names \<and> names \<noteq> [] \<longrightarrow>
      (case alert of None \<Rightarrow> [] | Some name \<Rightarrow> name) \<in> set names"
    "\<forall>cl. ms_classification (pb_match pb) = Some cl \<longrightarrow> cls = Some cl"
    using c(3) by (auto simp: match_section_ok_def is_empty_opt_def Let_def split: if_splits)
  ultimately show ?thesis using c(1,2) by blast
qed

definition sample_fact :: "string \<Rightarrow> Verdict \<Rightarrow> Fact" where
  "sample_fact kind v = \<lparr>fc_kind = kind, fc_observed = (v = FOUND), fc_confidence = FFin 0 0, fc_evidence = [],
     fc_subject = None, fc_source_rule = None, fc_verdict = verdict_value v, fc_epistemic = None,
     fc_provenance = None, fc_window_min = None, fc_data_age_min = None, fc_unknown_reason = None\<rparr>"

definition sample_facts :: FactStore where
  "sample_facts = [sample_fact ''resource_pressure'' FOUND, sample_fact ''crashloop'' ABSENT,
     sample_fact ''oom_killed'' ABSENT, sample_fact ''recent_deploy'' ABSENT]"

definition sample_registry :: "(string \<times> Playbook) list" where
  "sample_registry = (case load_registry [(''scale.yaml'', Some SCALE_DOC)] of Inr reg \<Rightarrow> reg | Inl _ \<Rightarrow> [])"

theorem candidates_are_justified_witness:
  "\<exists>pb ps. pb \<in> set (match_playbooks sample_registry (Some ''CPUThrottlingHigh'') None (Some sample_facts)) \<and>
     pb_preconditions pb = Some ps \<and> ps \<noteq> [] \<and>
     (\<exists>f\<in>set sample_facts. fc_kind f = pc_fact (hd ps))"
proof -
  let ?c = "match_playbooks sample_registry (Some ''CPUThrottlingHigh'') None (Some sample_facts)"
  have "?c \<noteq> [] \<and> (case pb_preconditions (hd ?c) of None \<Rightarrow> False | Some ps \<Rightarrow> ps \<noteq> [])" by code_simp
  then obtain ps where c: "hd ?c \<in> set ?c" and ps: "pb_preconditions (hd ?c) = Some ps" "ps \<noteq> []"
    by (auto split: option.splits)
  from candidates_are_justified [OF c] ps
  have "\<exists>f\<in>set sample_facts. fc_kind f = pc_fact (hd ps)"
    by (cases "pc_verdict (hd ps) = FOUND") (auto dest!: spec [where x = "hd ps"])
  with c ps show ?thesis by blast
qed

text \<open>
  A gap in the evidence never widens the choice: adding a fact that could not be checked to the
  store can only remove candidates, for every registry of loaded playbooks.
\<close>

theorem unknown_fact_only_removes_candidates:
  assumes "load_registry dir = Inr reg" and "is_unknown u"
  shows "set (match_playbooks reg alert cls (Some (facts @ [u]))) \<subseteq> set (match_playbooks reg alert cls (Some facts))"
proof
  fix pb assume pb: "pb \<in> set (match_playbooks reg alert cls (Some (facts @ [u])))"
  then obtain name where "(name, pb) \<in> set reg" by (auto simp: match_playbooks_iff)
  then obtain doc where doc: "load_playbook doc = Inr pb"
    using load_registry_wf [OF assms(1)] by fastforce
  have "precondition_ok pre (by_kind facts (pc_fact pre))"
    if "pb_preconditions pb = Some ps" "pre \<in> set ps" for ps pre
  proof -
    have ok: "precondition_ok pre (by_kind facts (pc_fact pre) @ by_kind [u] (pc_fact pre))"
      using pb that by (auto simp: match_playbooks_iff check_preconditions_Some by_kind_append)
    show ?thesis
    proof (cases "fc_kind u = pc_fact pre")
      case True
      with ok show ?thesis
        using precondition_unknown [OF _ loaded_preconditions [OF doc that]] assms(2)
        by (simp add: by_kind_def is_unknown_def)
    next
      case False
      with ok show ?thesis by (simp add: by_kind_def)
    qed
  qed
  with pb show "pb \<in> set (match_playbooks reg alert cls (Some facts))"
    by (auto simp: match_playbooks_iff check_preconditions_Some)
qed

theorem unknown_fact_only_removes_candidates_witness:
  "\<exists>reg. load_registry [(''scale.yaml'', Some SCALE_DOC)] = Inr reg \<and>
     set (match_playbooks reg (Some ''CPUThrottlingHigh'') None
       (Some (sample_facts @ [sample_fact ''oom_killed'' V_UNKNOWN])))
     \<subseteq> set (match_playbooks reg (Some ''CPUThrottlingHigh'') None (Some sample_facts))"
proof -
  have "is_ok (load_registry [(''scale.yaml'', Some SCALE_DOC)])" by code_simp
  then obtain reg where r: "load_registry [(''scale.yaml'', Some SCALE_DOC)] = Inr reg" by (auto simp: is_ok_iff)
  have u: "is_unknown (sample_fact ''oom_killed'' V_UNKNOWN)" by (simp add: sample_fact_def is_unknown_def)
  from unknown_fact_only_removes_candidates [OF r u] r show ?thesis by blast
qed

text \<open>
  Whatever a plan renders to went through the intent schema: every rendered step is a validated
  intent, and the argument vector beside it is the one the translator makes of it; a template
  without a value makes rendering fail instead of leaving a gap.
\<close>

theorem rendered_plan_is_validated:
  assumes "render_plan pb ns name ctx = Inr steps" and "(i, argv) \<in> set steps"
  shows "executable pb \<and> (\<exists>obj. model_validate obj = Inr i) \<and> to_argv i = Inr argv"
proof -
  have "executable pb" and r: "rmap (render_step pb ns name ctx) (plan_steps pb) = Inr steps"
    using assms(1) by (auto simp: render_plan_def split: if_splits)
  moreover obtain step where "render_step pb ns name ctx step = Inr (i, argv)"
    using rmap_mem [OF r assms(2)] by blast
  ultimately show ?thesis using render_step_Inr by blast
qed

theorem rendered_plan_is_validated_witness:
  "\<exists>pb i argv. load_playbook (Some SCALE_DOC) = Inr pb \<and> to_argv i = Inr argv \<and>
     (\<exists>obj. model_validate obj = Inr i) \<and> ei_action i = DESCRIBE_RESOURCE"
proof -
  let ?r = "rbind (load_playbook (Some SCALE_DOC)) (\<lambda>pb.
     render_plan pb ''squad-1'' ''api'' [(''replicas'', PInt 4), (''current_replicas'', PInt 2)])"
  have "case ?r of Inr steps \<Rightarrow> steps \<noteq> [] \<and> ei_action (fst (hd steps)) = DESCRIBE_RESOURCE | Inl _ \<Rightarrow> False"
    by code_simp
  then obtain pb steps where pb: "load_playbook (Some SCALE_DOC) = Inr pb"
    and steps: "render_plan pb ''squad-1'' ''api'' [(''replicas'', PInt 4), (''current_replicas'', PInt 2)] = Inr steps"
      "steps \<noteq> []" "ei_action (fst (hd steps)) = DESCRIBE_RESOURCE"
    by (auto simp: rbind_def split: sum.splits)
  have "(fst (hd steps), snd (hd steps)) \<in> set steps" using steps(2) by simp
  from rendered_plan_is_validated [OF steps(1) this] pb steps(3) show ?thesis by blast
qed

end
