(* ===== verification/Binding.thy ===== *)
theory Binding
  imports Matcher
begin

text \<open>
  \<open>app/remediation/binding.py\<close>, the signature of \<open>app/services/intent_signature.py\<close> and
  \<open>_enforce_candidate_binding\<close> of \<open>app/workers/pipeline.py\<close>: the server's snapshot of which playbooks
  matched, the hash by which an intent refers to an entry of it, and the check that an intent is
  exactly a step of the plan it was approved under. The hash function (SHA-256 as hexadecimal text)
  is the parameter \<open>sha\<close>. A snapshot and its entries are JSON values; \<open>entries\<close>, \<open>plan\<close> and \<open>params\<close> have
  the types the server writes (lists and objects), anything else reads as empty.
\<close>

section \<open>Digests\<close>

definition SNAPSHOT_VERSION :: string where "SNAPSHOT_VERSION = ''playbook-match/v1''"

definition canonical :: "pyval \<Rightarrow> string" where
  "canonical obj = json_dumps True '','' '':'' obj"

definition digest :: "(string \<Rightarrow> string) \<Rightarrow> pyval \<Rightarrow> nat \<Rightarrow> string" where
  "digest sha obj len = take len (sha (canonical obj))"

definition dump_opt :: "('a \<Rightarrow> pyval) \<Rightarrow> 'a option \<Rightarrow> pyval" where
  "dump_opt f o' = (case o' of None \<Rightarrow> PNone | Some x \<Rightarrow> f x)"

definition dump_strs :: "string list \<Rightarrow> pyval" where
  "dump_strs xs = PList (map PStr xs)"

definition dump_numeric :: "NumericConstraint \<Rightarrow> pyval" where
  "dump_numeric c = PDict
     [(''gte'', dump_opt id (nc_gte c)), (''lte'', dump_opt id (nc_lte c)), (''gt'', dump_opt id (nc_gt c)),
      (''lt'', dump_opt id (nc_lt c)), (''eq'', dump_opt id (nc_eq c)), (''ne'', dump_opt id (nc_ne c))]"

definition dump_match :: "MatchSection \<Rightarrow> pyval" where
  "dump_match s = PDict
     [(''classification'', opt_pystr (ms_classification s)), (''alertnames'', dump_opt dump_strs (ms_alertnames s)),
      (''job_age_hours'', dump_opt dump_numeric (ms_job_age_hours s)),
      (''active_jobs'', dump_opt dump_numeric (ms_active_jobs s)),
      (''failed_jobs'', dump_opt dump_numeric (ms_failed_jobs s)),
      (''alert_age'', dump_opt dump_numeric (ms_alert_age s)),
      (''recent_deploy_age'', dump_opt dump_numeric (ms_recent_deploy_age s)),
      (''affected_replicas_pct'', dump_opt dump_numeric (ms_affected_replicas_pct s))]"

definition dump_owner :: "str_or_list \<Rightarrow> pyval" where
  "dump_owner v = (case v of OneStr s \<Rightarrow> PStr s | ManyStr xs \<Rightarrow> dump_strs xs)"

definition dump_auto :: "AutoSection \<Rightarrow> pyval" where
  "dump_auto a = PDict
     [(''namespace_tier'', dump_opt dump_strs (au_namespace_tier a)), (''owner_kind'', dump_opt dump_owner (au_owner_kind a)),
      (''blast_radius'', dump_opt dump_strs (au_blast_radius a)), (''data_plane'', dump_opt dump_strs (au_data_plane a)),
      (''logs_captured_or_ttl'', dump_opt PBool (au_logs_captured_or_ttl a))]"

definition dump_approve :: "ApproveSection \<Rightarrow> pyval" where
  "dump_approve a = PDict
     [(''namespace_tier'', dump_opt dump_strs (ap_namespace_tier a)), (''owner_kind'', dump_opt dump_owner (ap_owner_kind a)),
      (''blast_radius'', dump_opt dump_strs (ap_blast_radius a)), (''data_plane'', dump_opt dump_strs (ap_data_plane a))]"

definition dump_block_any :: "BlockAnySection \<Rightarrow> pyval" where
  "dump_block_any b = PDict
     [(''namespace_tier'', dump_opt dump_strs (ba_namespace_tier b)), (''resource_kind'', dump_opt dump_strs (ba_resource_kind b)),
      (''data_plane'', dump_opt dump_strs (ba_data_plane b)), (''reversibility'', dump_opt dump_strs (ba_reversibility b)),
      (''confidence'', dump_opt dump_strs (ba_confidence b))]"

definition dump_policy :: "PolicySection \<Rightarrow> pyval" where
  "dump_policy p = PDict
     [(''auto'', dump_opt dump_auto (ps_auto p)), (''approve'', dump_opt dump_approve (ps_approve p)),
      (''block'', dump_opt (\<lambda>b. PDict [(''any'', dump_opt dump_block_any (bl_any b))]) (ps_block p))]"

definition dump_step :: "PlanStep \<Rightarrow> pyval" where
  "dump_step s = PDict
     [(''action'', PStr (st_action s)), (''params'', PDict (st_params s)),
      (''resource_type'', opt_pystr (st_resource_type s))]"

definition dump_precondition :: "Precondition \<Rightarrow> pyval" where
  "dump_precondition p = PDict
     [(''fact'', PStr (pc_fact p)), (''verdict'', PStr (verdict_value (pc_verdict p))),
      (''evidence_not_in'', dump_opt (\<lambda>es. PDict (map (\<lambda>(k, vs). (k, PList vs)) es)) (pc_evidence_not_in p))]"

text \<open>\<open>playbook.model_dump(mode="json")\<close>\<close>

definition playbook_dump :: "Playbook \<Rightarrow> pyval" where
  "playbook_dump pb = PDict
     [(''schema_version'', PStr (pb_schema_version pb)), (''name'', PStr (pb_name pb)), (''kind'', PStr (pb_kind pb)),
      (''description'', opt_pystr (pb_description pb)), (''match'', dump_match (pb_match pb)),
      (''preconditions'', dump_opt (\<lambda>ps. PList (map dump_precondition ps)) (pb_preconditions pb)),
      (''policy'', dump_policy (pb_policy pb)),
      (''plan'', PDict
         [(''command'', dump_opt dump_strs (pl_command (pb_plan pb))),
          (''preview'', dump_opt dump_strs (pl_preview (pb_plan pb))),
          (''steps'', dump_opt (\<lambda>ss. PList (map dump_step ss)) (pl_steps (pb_plan pb)))]),
      (''verify'', dump_opt dump_strs (pb_verify pb)),
      (''observe'', dump_opt (\<lambda>ob. PDict
         [(''timeout'', PStr (ob_timeout ob)), (''success'', dump_opt PDict (ob_success ob)),
          (''failure'', dump_opt PDict (ob_failure ob))]) (pb_observe pb))]"

definition playbook_digest :: "(string \<Rightarrow> string) \<Rightarrow> Playbook \<Rightarrow> string" where
  "playbook_digest sha pb = digest sha (playbook_dump pb) 16"

section \<open>The snapshot\<close>

definition snapshot_steps :: "Playbook \<Rightarrow> pyval list" where
  "snapshot_steps pb =
     map (\<lambda>s. PDict [(''action'', PStr (st_action s)), (''resource_type'', opt_pystr (st_resource_type s)),
                     (''params'', PDict (st_params s))]) (plan_steps pb)"

definition entry_binding :: "(string \<Rightarrow> string) \<Rightarrow> pydict \<Rightarrow> string" where
  "entry_binding sha entry = digest sha (PDict (filter (\<lambda>(k, v). k \<noteq> ''binding'') entry)) 12"

definition snapshot_entry :: "(string \<Rightarrow> string) \<Rightarrow> FactStore option \<Rightarrow> string \<Rightarrow> Playbook \<Rightarrow> pydict" where
  "snapshot_entry sha facts namespace pb =
     (let entry =
        [(''playbook'', PStr (pb_name pb)), (''playbook_digest'', PStr (playbook_digest sha pb)),
         (''namespace'', PStr namespace),
         (''preconditions'', PList (map PDict (snd (check_preconditions pb facts)))),
         (''plan'', PList (snapshot_steps pb)),
         (''verify'', dump_strs (case pb_verify pb of None \<Rightarrow> [] | Some vs \<Rightarrow> vs))]
      in dset entry ''binding'' (PStr (entry_binding sha entry)))"

definition build_match_snapshot ::
  "(string \<Rightarrow> string) \<Rightarrow> Playbook list \<Rightarrow> FactStore option \<Rightarrow> string \<Rightarrow> string option \<Rightarrow> string option \<Rightarrow> string \<Rightarrow> pydict" where
  "build_match_snapshot sha candidates facts namespace alertname classification now_iso =
     [(''version'', PStr SNAPSHOT_VERSION), (''matched_at'', PStr now_iso), (''namespace'', PStr namespace),
      (''alertname'', opt_pystr alertname), (''classification'', opt_pystr classification),
      (''entries'', PList (map (\<lambda>pb. PDict (snapshot_entry sha facts namespace pb)) candidates))]"

definition entries_of :: "pydict \<Rightarrow> pyval list" where
  "entries_of snap = (case dget snap ''entries'' of PList xs \<Rightarrow> xs | _ \<Rightarrow> [])"

definition is_entry_for :: "string \<Rightarrow> pyval \<Rightarrow> bool" where
  "is_entry_for playbook v = (case v of PDict e \<Rightarrow> dget e ''playbook'' = PStr playbook | _ \<Rightarrow> False)"

definition find_entry :: "pyval \<Rightarrow> string option \<Rightarrow> pydict option" where
  "find_entry snapshot playbook =
     (case (snapshot, playbook) of
        (PDict snap, Some name) \<Rightarrow>
          (if name = [] \<or> dget snap ''version'' \<noteq> PStr SNAPSHOT_VERSION then None
           else (case find (is_entry_for name) (entries_of snap) of Some (PDict e) \<Rightarrow> Some e | _ \<Rightarrow> None))
      | _ \<Rightarrow> None)"

definition verified_entry :: "(string \<Rightarrow> string) \<Rightarrow> pydict option \<Rightarrow> string option \<Rightarrow> pydict option" where
  "verified_entry sha entry binding =
     (case (entry, binding) of
        (Some e, Some b) \<Rightarrow>
          (if b = [] \<or> dget e ''binding'' \<noteq> PStr b \<or> entry_binding sha e \<noteq> b then None else Some e)
      | _ \<Rightarrow> None)"

definition bound_entry_for :: "(string \<Rightarrow> string) \<Rightarrow> ExecutionIntent \<Rightarrow> pyval \<Rightarrow> pydict option" where
  "bound_entry_for sha intent snapshot =
     verified_entry sha (find_entry snapshot (ei_playbook intent)) (ei_playbook_match intent)"

section \<open>Matching an intent against a step\<close>

definition dict_of :: "pyval \<Rightarrow> pydict" where
  "dict_of v = (case v of PDict d \<Rightarrow> d | _ \<Rightarrow> [])"

definition list_of :: "pyval \<Rightarrow> pyval list" where
  "list_of v = (case v of PList xs \<Rightarrow> xs | _ \<Rightarrow> [])"

definition normalized_params :: "ExecutionIntent \<Rightarrow> pydict \<Rightarrow> pydict option" where
  "normalized_params intent params =
     (if params = [] then Some []
      else (case model_validate (PDict
                   [(''action'', PStr (action_value (ei_action intent))),
                    (''resource_type'', PStr (ei_resource_type intent)),
                    (''resource_name'', PStr (ei_resource_name intent)),
                    (''namespace'', PStr (ei_namespace intent)), (''params'', PDict params)]) of
              Inr i \<Rightarrow> Some (ei_params i)
            | Inl _ \<Rightarrow> None))"

definition step_matches :: "pydict \<Rightarrow> ExecutionIntent \<Rightarrow> bool" where
  "step_matches step intent =
     (if dget step ''action'' \<noteq> PStr (action_value (ei_action intent)) then False
      else (case action_spec (ei_action intent) of
              Inl _ \<Rightarrow> False
            | Inr spec \<Rightarrow>
                (let want = (if truthy (dget step ''resource_type'') then py_str (dget step ''resource_type'')
                             else (case str_or (as_requires_resource_type spec) (Some ''deployment'') of
                                     Some s \<Rightarrow> s | None \<Rightarrow> []));
                     step_params = dict_of (dget step ''params'')
                 in if lower (ei_resource_type intent) \<noteq> lower want then False
                    else if set (map fst (ei_params intent)) \<noteq> set (map fst step_params) then False
                    else (case normalized_params intent (filter (\<lambda>(k, v). template_name v = None) step_params) of
                            None \<Rightarrow> False
                          | Some nps \<Rightarrow> list_all (\<lambda>(k, v). py_eq (dget (ei_params intent) k) v) nps))))"

definition server_param_keys :: "pydict \<Rightarrow> string \<Rightarrow> string list" where
  "server_param_keys entry action =
     remdups (sort (concat (map (\<lambda>st.
       case st of
         PDict step \<Rightarrow>
           (if dget step ''action'' = PStr action
            then map fst (filter (\<lambda>(k, v). k \<in> set SERVER_PARAMS \<and> template_name v = Some k)
                                 (dict_of (dget step ''params'')))
            else [])
       | _ \<Rightarrow> []) (list_of (dget entry ''plan'')))))"

section \<open>Binding an intent\<close>

text \<open>Replace the first entry of the playbook: the code updates that dictionary in place.\<close>

fun replace_first :: "('a \<Rightarrow> bool) \<Rightarrow> 'a \<Rightarrow> 'a list \<Rightarrow> 'a list" where
  "replace_first p y [] = []"
| "replace_first p y (x # xs) = (if p x then y # xs else x # replace_first p y xs)"

definition put_entry :: "pydict \<Rightarrow> string \<Rightarrow> pydict \<Rightarrow> pydict" where
  "put_entry snap name entry =
     dset snap ''entries'' (PList (replace_first (is_entry_for name) (PDict entry) (entries_of snap)))"

text \<open>
  \<open>probe\<close> reads the live replica count (\<open>snapshot_target\<close>); an exception in it is \<open>None\<close>, as is a count that
  could not be read. The new intent is returned with the updated snapshot.
\<close>

definition add_server_params ::
  "(ExecutionIntent \<Rightarrow> int option) \<Rightarrow> ExecutionIntent \<Rightarrow> string list \<Rightarrow> pydict \<Rightarrow> pydict \<Rightarrow> pydict \<times> pydict" where
  "add_server_params probe intent keys entry params =
     (if keys = [] then (entry, params)
      else (case probe intent of
              Some current \<Rightarrow>
                (if 0 \<le> current
                 then (dset entry ''server_params''
                         (PDict (merge_dict [(''resource_name'', PStr (ei_resource_name intent))]
                                            (map (\<lambda>k. (k, PInt current)) keys))),
                       merge_dict params (map (\<lambda>k. (k, PInt current)) keys))
                 else (entry, params))
            | None \<Rightarrow> (entry, params)))"

definition bind_server_params ::
  "(string \<Rightarrow> string) \<Rightarrow> (ExecutionIntent \<Rightarrow> int option) \<Rightarrow> ExecutionIntent \<Rightarrow> pyval \<Rightarrow> ExecutionIntent \<times> pyval" where
  "bind_server_params sha probe intent snapshot =
     (let params = filter (\<lambda>(k, v). k \<notin> set SERVER_PARAMS) (ei_params intent) in
      case (find_entry snapshot (ei_playbook intent), snapshot, ei_playbook intent) of
        (Some entry, PDict snap, Some name) \<Rightarrow>
          if ei_playbook_match intent = None \<or> ei_playbook_match intent = Some []
          then (intent\<lparr>ei_params := params\<rparr>, snapshot)
          else
            (let keys = server_param_keys entry (action_value (ei_action intent));
                 (entry1, params1) = add_server_params probe intent keys (dpop entry ''server_params'') params;
                 binding = entry_binding sha entry1;
                 entry2 = dset entry1 ''binding'' (PStr binding)
             in (intent\<lparr>ei_params := params1, ei_playbook_match := Some binding\<rparr>,
                 PDict (put_entry snap name entry2)))
      | _ \<Rightarrow> (intent\<lparr>ei_params := params\<rparr>, snapshot))"

definition enforce_candidate_binding ::
  "ExecutionIntent \<Rightarrow> Playbook list option \<Rightarrow> pyval \<Rightarrow> ExecutionIntent" where
  "enforce_candidate_binding intent candidates snapshot =
     (let intent1 = intent\<lparr>ei_playbook_match := None\<rparr> in
      case (candidates, ei_playbook intent) of
        (Some cs, Some name) \<Rightarrow>
          (if name = [] then intent1
           else if name \<in> pb_name ` set cs
           then (case find_entry snapshot (Some name) of
                   Some entry \<Rightarrow> intent1\<lparr>ei_playbook_match := as_str (dget entry ''binding'')\<rparr>
                 | None \<Rightarrow> intent1)
           else intent1\<lparr>ei_playbook := None\<rparr>)
      | _ \<Rightarrow> intent1)"

section \<open>The check on the apply path\<close>

type_synonym violation = "string \<times> pydict"

definition str_of_any :: "pyval \<Rightarrow> string" where
  "str_of_any v = py_str v"

definition sorted_strs :: "string list \<Rightarrow> pyval" where
  "sorted_strs xs = PList (map PStr (sort xs))"

definition check_server_params :: "ExecutionIntent \<Rightarrow> pydict \<Rightarrow> Playbook \<Rightarrow> violation + unit" where
  "check_server_params intent entry pb =
     (let keys = server_param_keys entry (action_value (ei_action intent)) in
      if keys = [] then Inr ()
      else (case dget entry ''server_params'' of
              PDict server \<Rightarrow>
                (if dget server ''resource_name'' \<noteq> PStr (ei_resource_name intent) \<or>
                    list_ex (\<lambda>k. \<not> py_eq (dget (ei_params intent) k) (dget server k)) keys
                 then Inl (''server_param_mismatch'', [(''playbook'', PStr (pb_name pb)), (''params'', dump_strs keys)])
                 else Inr ())
            | _ \<Rightarrow> Inl (''server_param_missing'', [(''playbook'', PStr (pb_name pb)), (''params'', dump_strs keys)])))"

definition check_plan :: "ExecutionIntent \<Rightarrow> pydict \<Rightarrow> Playbook \<Rightarrow> violation + unit" where
  "check_plan intent entry pb =
     (let plan = list_of (dget entry ''plan'') in
      if list_ex (\<lambda>st. case st of PDict step \<Rightarrow> step_matches step intent | _ \<Rightarrow> False) plan then Inr ()
      else Inl (''intent_not_in_plan'',
             [(''playbook'', PStr (pb_name pb)), (''action'', PStr (action_value (ei_action intent))),
              (''plan'', sorted_strs (concat (map (\<lambda>st. case st of
                 PDict step \<Rightarrow> [str_of_any (dget step ''action'')] | _ \<Rightarrow> []) plan)))]))"

definition check_registry ::
  "(string \<Rightarrow> string) \<Rightarrow> (string \<times> Playbook) list \<Rightarrow> string \<Rightarrow> pydict \<Rightarrow> violation + Playbook" where
  "check_registry sha registry name entry =
     (case map_of registry name of
        None \<Rightarrow> Inl (''playbook_unknown'', [(''playbook'', PStr name)])
      | Some pb \<Rightarrow>
          if \<not> executable pb then Inl (''playbook_not_executable'', [(''playbook'', PStr (pb_name pb))])
          else if dget entry ''playbook_digest'' \<noteq> PStr (playbook_digest sha pb)
          then Inl (''playbook_changed_since_match'', [(''playbook'', PStr (pb_name pb))])
          else Inr pb)"

definition check_entry :: "(string \<Rightarrow> string) \<Rightarrow> ExecutionIntent \<Rightarrow> string \<Rightarrow> string \<Rightarrow> pydict \<Rightarrow> violation + unit" where
  "check_entry sha intent name binding entry =
     (if dget entry ''binding'' \<noteq> PStr (entry_binding sha entry)
      then Inl (''snapshot_tampered'', [(''playbook'', PStr name)])
      else if dget entry ''binding'' \<noteq> PStr binding then Inl (''binding_mismatch'', [(''playbook'', PStr name)])
      else if dget entry ''namespace'' \<noteq> PStr (ei_namespace intent)
      then Inl (''namespace_mismatch'',
             [(''playbook'', PStr name), (''snapshot_namespace'', dget entry ''namespace'')])
      else Inr ())"

definition check_intent_binding ::
  "(string \<Rightarrow> string) \<Rightarrow> ExecutionIntent \<Rightarrow> pyval \<Rightarrow> (string \<times> Playbook) list \<Rightarrow> violation + Playbook" where
  "check_intent_binding sha intent snapshot registry =
     (case ei_playbook intent of
        None \<Rightarrow> Inl (''playbook_missing'', [])
      | Some name \<Rightarrow>
          if name = [] then Inl (''playbook_missing'', [])
          else (case snapshot of
                  PDict snap \<Rightarrow>
                    if dget snap ''version'' \<noteq> PStr SNAPSHOT_VERSION
                    then Inl (''match_snapshot_missing'', [(''playbook'', PStr name)])
                    else (case ei_playbook_match intent of
                            None \<Rightarrow> Inl (''binding_missing'', [(''playbook'', PStr name)])
                          | Some b \<Rightarrow>
                              if b = [] then Inl (''binding_missing'', [(''playbook'', PStr name)])
                              else (case find_entry snapshot (Some name) of
                                      None \<Rightarrow>
                                        Inl (''playbook_not_matched'',
                                          [(''playbook'', PStr name),
                                           (''matched'', sorted_strs (concat (map (\<lambda>e. case e of
                                              PDict d \<Rightarrow> [str_of_any (dget d ''playbook'')] | _ \<Rightarrow> []) (entries_of snap))))])
                                    | Some entry \<Rightarrow>
                                        rbind (check_entry sha intent name b entry) (\<lambda>_.
                                        rbind (check_registry sha registry name entry) (\<lambda>pb.
                                        rbind (check_server_params intent entry pb) (\<lambda>_.
                                        rbind (check_plan intent entry pb) (\<lambda>_. Inr pb))))))
                | _ \<Rightarrow> Inl (''match_snapshot_missing'', [(''playbook'', PStr name)])))"

section \<open>Signature of an intent\<close>

definition signature_payload :: "ExecutionIntent \<Rightarrow> pydict" where
  "signature_payload intent =
     [(''action'', PStr (action_value (ei_action intent))), (''resource_type'', PStr (ei_resource_type intent)),
      (''resource_name'', PStr (ei_resource_name intent)), (''namespace'', PStr (ei_namespace intent)),
      (''params'', PDict (ei_params intent))] @
     (case ei_playbook intent of None \<Rightarrow> [] | Some p \<Rightarrow> if p = [] then [] else [(''playbook'', PStr p)]) @
     (case ei_playbook_match intent of None \<Rightarrow> [] | Some p \<Rightarrow> if p = [] then [] else [(''playbook_match'', PStr p)])"

definition compute_signature :: "(string \<Rightarrow> string) \<Rightarrow> ExecutionIntent \<Rightarrow> string" where
  "compute_signature sha intent = digest sha (PDict (signature_payload intent)) 12"

section \<open>Lemmas\<close>

text \<open>The text the hash of an entry is taken of.\<close>

definition entry_text :: "pydict \<Rightarrow> string" where
  "entry_text entry = canonical (PDict (filter (\<lambda>(k, v). k \<noteq> ''binding'') entry))"

lemma filter_update_other: "filter (\<lambda>(k', v). k' \<noteq> k) (AList.update k v d) = filter (\<lambda>(k', v). k' \<noteq> k) d"
  by (induction d) auto

lemma entry_binding_dset [simp]: "entry_binding sha (dset e ''binding'' v) = entry_binding sha e"
  by (simp add: entry_binding_def dset_def filter_update_other)

lemma merge_same:
  "dget (merge_dict d (map (\<lambda>k. (k, v)) ks)) k = (if k \<in> set ks then v else dget d k)"
  by (induction ks arbitrary: d) (auto simp: merge_dict_def)

lemma server_keys_are_server_params: "k \<in> set (server_param_keys entry a) \<Longrightarrow> k \<in> set SERVER_PARAMS"
  by (auto simp: server_param_keys_def split: pyval.splits if_splits)

lemma server_keys_cong: "dget e ''plan'' = dget f ''plan'' \<Longrightarrow> server_param_keys e a = server_param_keys f a"
  by (simp add: server_param_keys_def)

lemma find_replace_first: "p y \<Longrightarrow> find p xs = Some x \<Longrightarrow> find p (replace_first p y xs) = Some y"
  by (induction xs) auto

lemma find_entry_put:
  assumes "find_entry (PDict snap) (Some name) = Some e" and "dget e' ''playbook'' = PStr name"
  shows "find_entry (PDict (put_entry snap name e')) (Some name) = Some e'"
proof -
  have "name \<noteq> []" "dget snap ''version'' = PStr SNAPSHOT_VERSION"
    and f: "\<exists>x. find (is_entry_for name) (entries_of snap) = Some x"
    using assms(1) by (auto simp: find_entry_def split: if_splits option.splits)
  then show ?thesis
    using find_replace_first [of "is_entry_for name" "PDict e'"] assms(2)
    by (auto simp: find_entry_def put_entry_def entries_of_def is_entry_for_def)
qed

lemma find_entry_Some:
  "find_entry snapshot (Some name) = Some e \<Longrightarrow>
     \<exists>snap. snapshot = PDict snap \<and> dget snap ''version'' = PStr SNAPSHOT_VERSION \<and> name \<noteq> [] \<and>
        dget e ''playbook'' = PStr name"
proof -
  assume f: "find_entry snapshot (Some name) = Some e"
  then obtain snap where s: "snapshot = PDict snap" "name \<noteq> []" "dget snap ''version'' = PStr SNAPSHOT_VERSION"
    by (auto simp: find_entry_def split: pyval.splits if_splits)
  with f have "find (is_entry_for name) (entries_of snap) = Some (PDict e)"
    by (auto simp: find_entry_def split: option.splits pyval.splits)
  then have "is_entry_for name (PDict e)" by (metis find_Some_iff)
  with s show ?thesis by (simp add: is_entry_for_def)
qed

lemma snapshot_entry_simps [simp]:
  "dget (snapshot_entry sha facts ns pb) ''playbook'' = PStr (pb_name pb)"
  "dget (snapshot_entry sha facts ns pb) ''namespace'' = PStr ns"
  "dget (snapshot_entry sha facts ns pb) ''playbook_digest'' = PStr (playbook_digest sha pb)"
  "dget (snapshot_entry sha facts ns pb) ''plan'' = PList (snapshot_steps pb)"
  "dget (snapshot_entry sha facts ns pb) ''binding'' =
     PStr (entry_binding sha (snapshot_entry sha facts ns pb))"
  by (simp_all add: snapshot_entry_def Let_def) (simp_all add: dget_def)

lemma find_snapshot_entry:
  assumes "pb \<in> set cs" and "distinct (map pb_name cs)" and "pb_name pb \<noteq> []"
  shows "find_entry (PDict (build_match_snapshot sha cs facts ns al cl now)) (Some (pb_name pb))
     = Some (snapshot_entry sha facts ns pb)"
proof -
  have "find (is_entry_for (pb_name pb)) (map (\<lambda>pb. PDict (snapshot_entry sha facts ns pb)) cs)
      = Some (PDict (snapshot_entry sha facts ns pb))"
    using assms(1,2)
  proof (induction cs)
    case (Cons c cs)
    then show ?case by (cases "c = pb") (auto simp: is_entry_for_def)
  qed simp
  with assms(3) show ?thesis
    by (simp add: find_entry_def build_match_snapshot_def entries_of_def dget_def [of "_ # _"])
qed

lemma check_intent_binding_Inr:
  assumes "check_intent_binding sha i snapshot reg = Inr pb"
  obtains name b entry where "ei_playbook i = Some name" and "ei_playbook_match i = Some b"
    and "find_entry snapshot (Some name) = Some entry" and "check_entry sha i name b entry = Inr ()"
    and "check_registry sha reg name entry = Inr pb" and "check_server_params i entry pb = Inr ()"
    and "check_plan i entry pb = Inr ()"
  using assms unfolding check_intent_binding_def
  by (auto simp: rbind_eq_Inr split: option.splits if_splits pyval.splits)

lemma check_entry_Inr:
  "check_entry sha i name b entry = Inr () \<longleftrightarrow>
     dget entry ''binding'' = PStr b \<and> entry_binding sha entry = b \<and> dget entry ''namespace'' = PStr (ei_namespace i)"
  by (auto simp: check_entry_def)

lemma check_registry_Inr:
  "check_registry sha reg name entry = Inr pb \<longleftrightarrow>
     map_of reg name = Some pb \<and> executable pb \<and> dget entry ''playbook_digest'' = PStr (playbook_digest sha pb)"
  by (auto simp: check_registry_def split: option.splits)

lemma check_server_params_Inr:
  "check_server_params i entry pb = Inr () \<longleftrightarrow>
     (server_param_keys entry (action_value (ei_action i)) = [] \<or>
      (\<exists>server. dget entry ''server_params'' = PDict server \<and>
         dget server ''resource_name'' = PStr (ei_resource_name i) \<and>
         (\<forall>k\<in>set (server_param_keys entry (action_value (ei_action i))). py_eq (dget (ei_params i) k) (dget server k))))"
  by (auto simp: check_server_params_def Let_def list_ex_iff split: pyval.splits)

lemma check_plan_Inr:
  "check_plan i entry pb = Inr () \<longleftrightarrow>
     (\<exists>step. PDict step \<in> set (list_of (dget entry ''plan'')) \<and> step_matches step i)"
  by (auto simp: check_plan_def Let_def list_ex_iff case_dict_iff)

lemma py_eq_int [simp]: "py_eq (PInt n) (PInt n)"
  by (simp add: py_eq.simps)

text \<open>What binding an intent that refers to an entry of the snapshot does.\<close>

lemma bind_server_params_entry:
  assumes e: "find_entry (PDict snap) (Some name) = Some entry" and "ei_playbook i = Some name"
    and "ei_playbook_match i = Some b" and "b \<noteq> []"
    and keys: "keys = server_param_keys entry (action_value (ei_action i))"
    and e1: "add_server_params probe i keys (dpop entry ''server_params'')
               (filter (\<lambda>(k, v). k \<notin> set SERVER_PARAMS) (ei_params i)) = (entry1, params1)"
  shows "bind_server_params sha probe i (PDict snap) =
    (i\<lparr>ei_params := params1, ei_playbook_match := Some (entry_binding sha entry1)\<rparr>,
     PDict (put_entry snap name (dset entry1 ''binding'' (PStr (entry_binding sha entry1)))))"
  using assms by (simp add: bind_server_params_def Let_def)

lemma add_server_params_keeps:
  assumes "add_server_params probe i keys entry params = (entry1, params1)" and "k \<noteq> ''server_params''"
  shows "dget entry1 k = dget entry k"
  using assms by (auto simp: add_server_params_def split: if_splits option.splits)

lemma add_server_params_probe:
  assumes "add_server_params probe i keys entry params = (entry1, params1)" and "keys \<noteq> []"
    and "probe i = Some n" and "0 \<le> n" and "''resource_name'' \<notin> set keys"
  shows "\<exists>server. dget entry1 ''server_params'' = PDict server \<and>
    dget server ''resource_name'' = PStr (ei_resource_name i) \<and>
    (\<forall>k\<in>set keys. dget server k = PInt n \<and> dget params1 k = PInt n)"
  using assms by (auto simp: add_server_params_def merge_same dget_def [of "[_]"])

lemma bound_intent_accepted:
  assumes "pb \<in> set cs" and "distinct (map pb_name cs)" and "pb_name pb \<noteq> []"
    and "map_of reg (pb_name pb) = Some pb" and "executable pb"
    and "ei_playbook i = Some (pb_name pb)" and "\<And>x. length (sha x) = 64"
    and "snapshot = PDict (build_match_snapshot sha cs facts (ei_namespace i) al cl now)"
    and "bind_server_params sha probe (enforce_candidate_binding i (Some cs) snapshot) snapshot = (i', snapshot')"
    and "\<And>j. \<exists>n\<ge>0. probe j = Some n"
    and "PDict step \<in> set (snapshot_steps pb)" and "step_matches step i'"
  shows "check_intent_binding sha i' snapshot' reg = Inr pb"
proof -
  let ?snap = "build_match_snapshot sha cs facts (ei_namespace i) al cl now"
  let ?e = "snapshot_entry sha facts (ei_namespace i) pb"
  have e: "find_entry (PDict ?snap) (Some (pb_name pb)) = Some ?e"
    using find_snapshot_entry [OF assms(1-3)] .
  define j where "j = i\<lparr>ei_playbook_match := Some (entry_binding sha ?e)\<rparr>"
  have j: "enforce_candidate_binding i (Some cs) snapshot = j"
    using assms(1,3,6) e by (auto simp: enforce_candidate_binding_def assms(8) j_def)
  have b: "entry_binding sha x \<noteq> []" for x
    using assms(7) [of "canonical (PDict (filter (\<lambda>(k, v). k \<noteq> ''binding'') x))"]
    by (auto simp: entry_binding_def digest_def)
  define keys where "keys = server_param_keys ?e (action_value (ei_action j))"
  obtain e1 p1 where a: "add_server_params probe j keys (dpop ?e ''server_params'')
      (filter (\<lambda>(k, v). k \<notin> set SERVER_PARAMS) (ei_params j)) = (e1, p1)" by fastforce
  define e2 where "e2 = dset e1 ''binding'' (PStr (entry_binding sha e1))"
  have bound: "i' = j\<lparr>ei_params := p1, ei_playbook_match := Some (entry_binding sha e1)\<rparr>"
    "snapshot' = PDict (put_entry ?snap (pb_name pb) e2)"
    using bind_server_params_entry [where sha = sha, OF e _ _ b [of ?e] keys_def a] assms(6,9)
    unfolding j by (simp_all add: assms(8) e2_def j_def)
  have same: "dget e2 k = dget ?e k" if "k \<notin> {''binding'', ''server_params''}" for k
    using that add_server_params_keeps [OF a, of k] by (simp add: e2_def)
  have f: "find_entry snapshot' (Some (pb_name pb)) = Some e2"
    unfolding bound(2) by (rule find_entry_put [OF e]) (simp add: same)
  have keys2: "server_param_keys e2 (action_value (ei_action i')) = keys"
    using server_keys_cong [of e2 ?e] same by (simp add: keys_def bound(1))
  have "check_entry sha i' (pb_name pb) (entry_binding sha e1) e2 = Inr ()"
    by (simp add: check_entry_Inr same bound(1) j_def) (simp add: e2_def)
  moreover have "check_registry sha reg (pb_name pb) e2 = Inr pb"
    using assms(4,5) by (simp add: check_registry_Inr same)
  moreover have "check_server_params i' e2 pb = Inr ()"
  proof (cases "keys = []")
    case False
    obtain n where n: "probe j = Some n" "0 \<le> n" using assms(10) by blast
    have "''resource_name'' \<notin> set keys"
      using server_keys_are_server_params by (fastforce simp: keys_def SERVER_PARAMS_def)
    from add_server_params_probe [OF a False n this] show ?thesis
      unfolding check_server_params_Inr keys2 by (auto simp: e2_def bound(1) j_def)
  qed (simp add: check_server_params_Inr keys2)
  moreover have "check_plan i' e2 pb = Inr ()"
    using assms(11,12) by (auto simp: check_plan_Inr same list_of_def)
  moreover have "dget (put_entry ?snap (pb_name pb) e2) ''version'' = PStr SNAPSHOT_VERSION"
    by (simp add: put_entry_def) (simp add: build_match_snapshot_def dget_def)
  ultimately show ?thesis
    using f assms(3,6) b [of e1] by (simp add: check_intent_binding_def bound j_def)
qed

section \<open>Properties\<close>

text \<open>
  C7. What the check on the apply path accepts is a planned change: an accepted intent names a playbook
  that is in the registry, executable and unchanged since the match (same digest); the snapshot has
  an entry for it whose recomputed hash is the one the intent carries, for the intent's own
  namespace; the intent is exactly one of that entry's steps; and each server parameter of the
  action has the value the server recorded for this very object.
\<close>

theorem accepted_intent_is_planned:
  assumes "check_intent_binding sha i snapshot reg = Inr pb"
  shows "\<exists>name entry step. ei_playbook i = Some name \<and> map_of reg name = Some pb \<and> executable pb \<and>
    find_entry snapshot (Some name) = Some entry \<and>
    ei_playbook_match i = Some (entry_binding sha entry) \<and>
    dget entry ''namespace'' = PStr (ei_namespace i) \<and>
    dget entry ''playbook_digest'' = PStr (playbook_digest sha pb) \<and>
    PDict step \<in> set (list_of (dget entry ''plan'')) \<and> step_matches step i \<and>
    (\<forall>k\<in>set (server_param_keys entry (action_value (ei_action i))).
       \<exists>server. dget entry ''server_params'' = PDict server \<and>
         dget server ''resource_name'' = PStr (ei_resource_name i) \<and> py_eq (dget (ei_params i) k) (dget server k))"
  using assms
  by (rule check_intent_binding_Inr)
    (fastforce simp: check_entry_Inr check_registry_Inr check_server_params_Inr check_plan_Inr)

text \<open>
  The hash an approval carries pins the snapshot: if an intent was bound to an entry and the check
  later accepts it, then the entry that is there by then has the same canonical text as the one the
  intent was bound to, unless those two different texts have the same truncated hash. Editing the
  plan, the namespace or the server parameters in the stored analysis after approval is caught.
\<close>

theorem binding_pins_snapshot:
  assumes "check_intent_binding sha i snapshot reg = Inr pb"
    and "find_entry snapshot (ei_playbook i) = Some entry"
    and "ei_playbook_match i = Some (entry_binding sha bound)"
    and "entry_text entry \<noteq> entry_text bound \<Longrightarrow>
      take 12 (sha (entry_text entry)) \<noteq> take 12 (sha (entry_text bound))"
  shows "entry_text entry = entry_text bound"
proof -
  obtain name b where "ei_playbook i = Some name" and "find_entry snapshot (Some name) = Some entry"
    and "ei_playbook_match i = Some b" and "check_entry sha i name b entry = Inr ()"
    using assms(1,2) by (metis check_intent_binding_Inr option.inject)
  with assms(3) have "entry_binding sha entry = entry_binding sha bound"
    by (simp add: check_entry_Inr)
  with assms(4) show ?thesis
    unfolding entry_binding_def digest_def entry_text_def by blast
qed

text \<open>
  The server's own binding passes its own check: when the fix stage binds an intent to a matched
  playbook and the live replica count could be read where the plan needs it, the check on the apply
  path accepts the bound intent against the updated snapshot, provided the intent is a step of the
  plan at all.
\<close>

theorem server_binding_roundtrip:
  assumes "pb \<in> set cs" and "distinct (map pb_name cs)" and "pb_name pb \<noteq> []"
    and "map_of reg (pb_name pb) = Some pb" and "executable pb"
    and "ei_playbook i = Some (pb_name pb)" and "\<And>x. length (sha x) = 64"
    and "snapshot = PDict (build_match_snapshot sha cs facts (ei_namespace i) al cl now)"
    and "bind_server_params sha probe (enforce_candidate_binding i (Some cs) snapshot) snapshot = (i', snapshot')"
    and "\<And>j. \<exists>n\<ge>0. probe j = Some n"
    and "PDict step \<in> set (snapshot_steps pb)" and "step_matches step i'"
  shows "check_intent_binding sha i' snapshot' reg = Inr pb"
  using assms by (rule bound_intent_accepted)

section \<open>Witnesses\<close>

definition sample_hash :: "string \<Rightarrow> string" where
  "sample_hash s = map (\<lambda>c. if ch_digit c then c else CHR ''a'') (take 64 (s @ replicate 64 CHR ''0''))"

definition sample_pb :: Playbook where
  "sample_pb = snd (hd sample_registry)"

definition sample_snapshot :: pyval where
  "sample_snapshot = PDict (build_match_snapshot sample_hash [sample_pb] (Some sample_facts) ''squad-1''
     (Some ''CPUThrottlingHigh'') None ''2026-01-01T00:00:00+00:00'')"

definition sample_planned :: ExecutionIntent where
  "sample_planned = sample_scale\<lparr>ei_params := [(''replicas'', PInt 4)],
     ei_playbook := Some ''scale_out_cpu_throttled_deployment''\<rparr>"

definition sample_binding :: "ExecutionIntent \<times> pyval" where
  "sample_binding = bind_server_params sample_hash (\<lambda>_. Some 2)
     (enforce_candidate_binding sample_planned (Some [sample_pb]) sample_snapshot) sample_snapshot"

lemma sample_pb_facts:
  "pb_name sample_pb = ''scale_out_cpu_throttled_deployment''" "executable sample_pb"
  by code_simp+

definition sample_bound :: ExecutionIntent where
  "sample_bound = sample_planned\<lparr>ei_params := [(''replicas'', PInt 4), (''current_replicas'', PInt 2)],
     ei_playbook_match := Some ''aaaaaaaaaaaa''\<rparr>"

lemma sample_bound: "fst sample_binding = sample_bound"
  by code_simp

lemma sample_bound_fields:
  "ei_action sample_bound = SCALE_DEPLOYMENT" "ei_namespace sample_bound = ''squad-1''"
  "ei_resource_name sample_bound = ''api''" "ei_resource_type sample_bound = ''deployment''"
  "ei_params sample_bound = [(''replicas'', PInt 4), (''current_replicas'', PInt 2)]"
  "ei_playbook sample_bound = Some ''scale_out_cpu_throttled_deployment''"
  "ei_risk sample_bound = ''medium''"
  by (simp_all add: sample_bound_def sample_planned_def sample_scale_def)

lemma sample_step: "step_matches (dict_of (snapshot_steps sample_pb ! 1)) (fst sample_binding)"
  unfolding sample_bound by code_simp

lemma sample_step_mem: "PDict (dict_of (snapshot_steps sample_pb ! 1)) \<in> set (snapshot_steps sample_pb)"
  by code_simp

lemma sample_premises:
  "length (sample_hash x) = 64"
  "sample_snapshot = PDict (build_match_snapshot sample_hash [sample_pb] (Some sample_facts)
      (ei_namespace sample_planned) (Some ''CPUThrottlingHigh'') None ''2026-01-01T00:00:00+00:00'')"
  "bind_server_params sample_hash (\<lambda>_. Some 2)
      (enforce_candidate_binding sample_planned (Some [sample_pb]) sample_snapshot) sample_snapshot
      = (fst sample_binding, snd sample_binding)"
  "ei_playbook sample_planned = Some (pb_name sample_pb)"
  by (simp_all add: sample_hash_def sample_snapshot_def sample_planned_def sample_scale_def sample_binding_def
      sample_pb_facts)

lemma sample_accepted:
  "check_intent_binding sample_hash (fst sample_binding) (snd sample_binding)
     [(''scale_out_cpu_throttled_deployment'', sample_pb)] = Inr sample_pb"
  by (rule bound_intent_accepted [OF _ _ _ _ _ sample_premises(4,1,2,3) _ sample_step_mem sample_step])
    (simp_all add: sample_pb_facts)

theorem accepted_intent_is_planned_witness:
  "\<exists>entry. find_entry (snd sample_binding) (Some ''scale_out_cpu_throttled_deployment'') = Some entry \<and>
     dget entry ''namespace'' = PStr ''squad-1''"
proof -
  obtain pb where "check_intent_binding sample_hash (fst sample_binding) (snd sample_binding)
      [(''scale_out_cpu_throttled_deployment'', sample_pb)] = Inr pb"
    using sample_accepted by blast
  from accepted_intent_is_planned [OF this] obtain name entry where
    "ei_playbook (fst sample_binding) = Some name" "find_entry (snd sample_binding) (Some name) = Some entry"
    "dget entry ''namespace'' = PStr (ei_namespace (fst sample_binding))" by blast
  moreover have "ei_playbook (fst sample_binding) = Some ''scale_out_cpu_throttled_deployment''"
    "ei_namespace (fst sample_binding) = ''squad-1''" by (simp_all add: sample_bound sample_bound_fields)
  ultimately show ?thesis by auto
qed

theorem binding_pins_snapshot_witness:
  "\<exists>entry. find_entry (snd sample_binding) (Some ''scale_out_cpu_throttled_deployment'') = Some entry \<and>
     entry_text entry = entry_text (dset entry ''binding'' PNone)"
proof -
  have p: "ei_playbook (fst sample_binding) = Some ''scale_out_cpu_throttled_deployment''"
    by (simp add: sample_bound sample_bound_fields)
  obtain pb where a: "check_intent_binding sample_hash (fst sample_binding) (snd sample_binding)
      [(''scale_out_cpu_throttled_deployment'', sample_pb)] = Inr pb"
    using sample_accepted by blast
  then obtain entry where e: "find_entry (snd sample_binding) (ei_playbook (fst sample_binding)) = Some entry"
    "ei_playbook_match (fst sample_binding) = Some (entry_binding sample_hash entry)"
    by (rule check_intent_binding_Inr) (auto simp: check_entry_Inr)
  have same: "entry_text (dset entry ''binding'' PNone) = entry_text entry"
    by (simp add: entry_text_def dset_def filter_update_other)
  have "entry_text entry = entry_text (dset entry ''binding'' PNone)"
    by (rule binding_pins_snapshot [OF a e(1)]) (simp_all add: e(2) same)
  with e(1) p show ?thesis by auto
qed

theorem server_binding_roundtrip_witness:
  "check_intent_binding sample_hash (fst sample_binding) (snd sample_binding)
     [(''scale_out_cpu_throttled_deployment'', sample_pb)] = Inr sample_pb"
  by (rule server_binding_roundtrip [OF _ _ _ _ _ sample_premises(4,1,2,3) _ sample_step_mem sample_step])
    (simp_all add: sample_pb_facts)

end
