(* ===== verification/Executor_Gate.thy ===== *)
theory Executor_Gate
  imports Policy Binding Namespaces
begin

text \<open>
  \<open>app/remediation/executor_gate.py\<close>: the server-side gate on the apply path. It recomputes the risk of
  an intent from the intent's own fields, closes the axes it has no signal for, evaluates the gate
  policy of \<open>registry/_executor_apply_gate.yaml\<close> and, when a binding is required, overlays the policy
  of the playbook the intent is bound to. The SHA-256 hash, the setting
  \<open>REMEDIATION_PLAYBOOK_BINDING_ENABLED\<close> and the outcome of \<open>default_registry\<close> are arguments.
\<close>

section \<open>The gate policy\<close>

definition GATE_DOC :: pyval where
  "GATE_DOC = PDict
     [(''schema_version'', PStr ''remediation.playbook/v2''),
      (''name'', PStr ''_executor_apply_gate''),
      (''kind'', PStr ''remediation''),
      (''description'', PStr (''Deterministic safety gate for human-approved direct ExecutionIntent'' @ [CHR 0x0A] @
         ''applies (not LLM-trusted).'' @ [CHR 0x0A])),
      (''match'', PDict [(''classification'', PStr ''executor_intent'')]),
      (''policy'', PDict
         [(''approve'', PDict [(''namespace_tier'', PList [PStr ''dev'', PStr ''squad'']),
                              (''data_plane'', PList [PStr ''no'', PStr ''maybe''])]),
          (''block'', PDict [(''any'', PDict
             [(''namespace_tier'', PList [PStr ''prod'', PStr ''system'']),
              (''data_plane'', PList [PStr ''yes'']), (''reversibility'', PList [PStr ''hard'']),
              (''confidence'', PList [PStr ''weak''])])])]),
      (''plan'', PDict [(''steps'', PList
         [PDict [(''action'', PStr ''restart_deployment'')], PDict [(''action'', PStr ''scale_deployment'')],
          PDict [(''action'', PStr ''get_logs'')], PDict [(''action'', PStr ''describe_resource'')],
          PDict [(''action'', PStr ''get_pods'')]])])]"

definition gate_step :: "string \<Rightarrow> PlanStep" where
  "gate_step a = \<lparr>st_action = a, st_params = [], st_resource_type = None\<rparr>"

definition EXECUTOR_GATE_POLICY :: Playbook where
  "EXECUTOR_GATE_POLICY =
     \<lparr>pb_schema_version = ''remediation.playbook/v2'', pb_name = ''_executor_apply_gate'', pb_kind = ''remediation'',
      pb_description = Some (''Deterministic safety gate for human-approved direct ExecutionIntent'' @ [CHR 0x0A] @
        ''applies (not LLM-trusted).'' @ [CHR 0x0A]),
      pb_match = \<lparr>ms_classification = Some ''executor_intent'', ms_alertnames = None, ms_job_age_hours = None,
        ms_active_jobs = None, ms_failed_jobs = None, ms_alert_age = None, ms_recent_deploy_age = None,
        ms_affected_replicas_pct = None\<rparr>,
      pb_preconditions = None,
      pb_policy = \<lparr>ps_auto = None,
        ps_approve = Some \<lparr>ap_namespace_tier = Some [''dev'', ''squad''], ap_owner_kind = None,
          ap_blast_radius = None, ap_data_plane = Some [''no'', ''maybe'']\<rparr>,
        ps_block = Some \<lparr>bl_any = Some \<lparr>ba_namespace_tier = Some [''prod'', ''system''], ba_resource_kind = None,
          ba_data_plane = Some [''yes''], ba_reversibility = Some [''hard''], ba_confidence = Some [''weak'']\<rparr>\<rparr>\<rparr>,
      pb_plan = \<lparr>pl_command = None, pl_preview = None,
        pl_steps = Some (map gate_step [''restart_deployment'', ''scale_deployment'', ''get_logs'',
          ''describe_resource'', ''get_pods''])\<rparr>,
      pb_verify = None, pb_observe = None\<rparr>"

section \<open>Axes of an intent\<close>

definition DATA_PLANE_NAME_MARKERS :: "string list" where
  "DATA_PLANE_NAME_MARKERS =
     [''db'', ''postgres'', ''pg'', ''mysql'', ''mariadb'', ''mongo'', ''redis'', ''clickhouse'', ''kafka'',
      ''rabbitmq'', ''nats'', ''minio'', ''elastic'', ''etcd'', ''zookeeper'', ''cassandra'', ''seq'']"

definition name_tokens :: "string \<Rightarrow> string list" where
  "name_tokens name = split_on (\<lambda>c. c \<in> {CHR ''-'', CHR ''.'', CHR ''_''}) (lower name)"

definition looks_data_plane :: "string \<Rightarrow> bool" where
  "looks_data_plane name =
     list_ex (\<lambda>t. t \<noteq> [] \<and> list_ex (\<lambda>m. t = m \<or> startswith t m) DATA_PLANE_NAME_MARKERS) (name_tokens name)"

definition intent_to_target :: "ExecutionIntent \<Rightarrow> pydict" where
  "intent_to_target intent =
     [(''kind'', PStr (ei_resource_type intent)), (''namespace'', PStr (ei_namespace intent)),
      (''name'', PStr (ei_resource_name intent)), (''labels'', PDict []), (''resolved_via'', PList [])] @
     (case dget (ei_params intent) ''replicas'' of PInt n \<Rightarrow> [(''replicas'', PInt n)] | _ \<Rightarrow> [])"

definition apply_fail_closed_axes :: "RiskAxes \<Rightarrow> ExecutionIntent \<Rightarrow> RiskAxes result" where
  "apply_fail_closed_axes axes intent =
     rbind (action_spec (ei_action intent)) (\<lambda>spec.
       let data_plane = (if looks_data_plane (ei_resource_name intent) then DP_YES
                         else if ra_data_plane axes = DP_NO then MAYBE else ra_data_plane axes);
           reversibility = (if data_plane = DP_YES then HARD else ra_reversibility axes);
           confidence1 = (case as_requires_resource_type spec of
                            None \<Rightarrow> ra_confidence axes
                          | Some t \<Rightarrow> if t \<noteq> [] \<and> lower (ei_resource_type intent) \<noteq> t then WEAK
                                      else ra_confidence axes);
           confidence2 = (if ''replicas'' \<in> set (as_required_params spec) \<and>
                             \<not> (case dget (ei_params intent) ''replicas'' of PInt n \<Rightarrow> True | _ \<Rightarrow> False)
                          then WEAK else confidence1)
       in Inr (axes\<lparr>ra_data_plane := data_plane, ra_reversibility := reversibility,
                    ra_confidence := confidence2\<rparr>))"

definition gate_axes :: "ExecutionIntent \<Rightarrow> RiskAxes result" where
  "gate_axes intent =
     rbind (action_spec (ei_action intent)) (\<lambda>spec.
     rbind (compute_risk_axes (intent_to_target intent) []
              [(''command_kind'', PStr (case str_or (as_command_kind spec) (Some ''unknown'') of
                                          Some s \<Rightarrow> s | None \<Rightarrow> []))]) (\<lambda>axes.
       apply_fail_closed_axes axes intent))"

section \<open>The overlay of the bound playbook\<close>

definition binding_block :: "string \<Rightarrow> pydict \<Rightarrow> PolicyDecision" where
  "binding_block reason extra =
     \<lparr>pd_mode = BLOCK,
      pd_reasons = [merge_dict [(''rule'', PStr ''block_playbook_binding''), (''reason'', PStr reason)] extra]\<rparr>"

text \<open>The registry is \<open>Inl\<close> with the exception's type name when loading it fails.\<close>

definition playbook_binding_decision ::
  "(string \<Rightarrow> string) \<Rightarrow> (string + (string \<times> Playbook) list) \<Rightarrow> ExecutionIntent \<Rightarrow> RiskAxes \<Rightarrow> pydict \<Rightarrow> pyval
    \<Rightarrow> PolicyDecision" where
  "playbook_binding_decision sha default_registry intent axes target match_snapshot =
     (case default_registry of
        Inl e \<Rightarrow> binding_block ''registry_unavailable'' [(''error'', PStr e)]
      | Inr registry \<Rightarrow>
          (case check_intent_binding sha intent match_snapshot registry of
             Inl (reason, extra) \<Rightarrow> binding_block reason extra
           | Inr pb \<Rightarrow> evaluate_policy pb axes (Some target) None))"

section \<open>The gate\<close>

definition evaluate_intent_gate ::
  "(string \<Rightarrow> string) \<Rightarrow> bool \<Rightarrow> (string + (string \<times> Playbook) list) \<Rightarrow> ExecutionIntent \<Rightarrow> pyval \<Rightarrow> bool
    \<Rightarrow> PolicyDecision result" where
  "evaluate_intent_gate sha BINDING_ENABLED default_registry intent match_snapshot require_binding =
     (let target = intent_to_target intent in
      rbind (action_spec (ei_action intent)) (\<lambda>spec.
        if action_value (ei_action intent) \<notin> step_actions EXECUTOR_GATE_POLICY
        then Inr \<lparr>pd_mode = BLOCK,
               pd_reasons = [[(''rule'', PStr ''block_action_not_in_gate_plan''),
                              (''action'', PStr (action_value (ei_action intent))),
                              (''reason'', PStr ''action is not listed in executor gate plan.steps'')]]\<rparr>
        else rbind (gate_axes intent) (\<lambda>axes.
          let decision = evaluate_policy EXECUTOR_GATE_POLICY axes (Some target) None in
          if \<not> (require_binding \<or> BINDING_ENABLED) then Inr decision
          else if \<not> as_mutating spec then Inr decision
          else Inr (strictest decision
                 (playbook_binding_decision sha default_registry intent axes target match_snapshot)))))"

section \<open>Lemmas\<close>

text \<open>The document of the gate policy loads to the policy the gate uses.\<close>

lemma gate_doc_loads: "load_playbook (Some GATE_DOC) = Inr EXECUTOR_GATE_POLICY"
  by code_simp

lemma gate_plan_complete: "action_value a \<in> step_actions EXECUTOR_GATE_POLICY"
  by (cases a) (simp_all add: step_actions_def plan_steps_def EXECUTOR_GATE_POLICY_def gate_step_def)

lemma gate_policy_fields [simp]:
  "ps_auto (pb_policy EXECUTOR_GATE_POLICY) = None"
  "ps_approve (pb_policy EXECUTOR_GATE_POLICY) = Some \<lparr>ap_namespace_tier = Some [''dev'', ''squad''],
     ap_owner_kind = None, ap_blast_radius = None, ap_data_plane = Some [''no'', ''maybe'']\<rparr>"
  "Option.bind (ps_block (pb_policy EXECUTOR_GATE_POLICY)) bl_any = Some
     \<lparr>ba_namespace_tier = Some [''prod'', ''system''], ba_resource_kind = None, ba_data_plane = Some [''yes''],
      ba_reversibility = Some [''hard''], ba_confidence = Some [''weak'']\<rparr>"
  by (simp_all add: EXECUTOR_GATE_POLICY_def)

lemma axis_values:
  "axis_value axes ''namespace_tier'' = Some (tier_value (ra_namespace_tier axes))"
  "axis_value axes ''data_plane'' = Some (data_plane_value (ra_data_plane axes))"
  "axis_value axes ''reversibility'' = Some (reversibility_value (ra_reversibility axes))"
  "axis_value axes ''confidence'' = Some (confidence_value (ra_confidence axes))"
  by (simp_all add: axis_value_def)

lemma gate_blocked:
  "blocked EXECUTOR_GATE_POLICY axes \<longleftrightarrow>
     tier_value (ra_namespace_tier axes) \<in> {''prod'', ''system''} \<or> data_plane_value (ra_data_plane axes) = ''yes'' \<or>
     reversibility_value (ra_reversibility axes) = ''hard'' \<or> confidence_value (ra_confidence axes) = ''weak''"
  by (simp add: evaluate_block_any_ok [symmetric] evaluate_block_any_def block_axes_def axis_values)

lemma axis_value_cases:
  "tier_value t \<in> {''prod'', ''system''} \<longleftrightarrow> t \<in> {TIER_PROD, SYSTEM}"
  "tier_value t \<in> {''dev'', ''squad''} \<longleftrightarrow> t \<in> {DEV, SQUAD}"
  "data_plane_value d = ''yes'' \<longleftrightarrow> d = DP_YES"
  "data_plane_value d \<in> {''no'', ''maybe''} \<longleftrightarrow> d \<noteq> DP_YES"
  "reversibility_value r = ''hard'' \<longleftrightarrow> r = HARD"
  "confidence_value c = ''weak'' \<longleftrightarrow> c = WEAK"
  subgoal by (cases t) simp_all
  subgoal by (cases t) simp_all
  subgoal by (cases d) simp_all
  subgoal by (cases d) simp_all
  subgoal by (cases r) simp_all
  subgoal by (cases c) simp_all
  done

lemma gate_approve_holds:
  "approve_holds EXECUTOR_GATE_POLICY axes target \<longleftrightarrow>
     tier_value (ra_namespace_tier axes) \<in> {''dev'', ''squad''} \<and> data_plane_value (ra_data_plane axes) \<in> {''no'', ''maybe''}"
  by (simp add: approve_holds_def axis_in_def axis_values)

lemma gate_policy_mode:
  "pd_mode (evaluate_policy EXECUTOR_GATE_POLICY axes target None) =
     (if ra_namespace_tier axes \<in> {DEV, SQUAD} \<and> ra_data_plane axes \<noteq> DP_YES \<and>
         ra_reversibility axes \<noteq> HARD \<and> ra_confidence axes \<noteq> WEAK then APPROVE else BLOCK)"
proof -
  have "\<not> auto_holds EXECUTOR_GATE_POLICY axes target" by (simp add: auto_holds_def)
  then show ?thesis
    unfolding evaluate_policy_mode gate_blocked gate_approve_holds axis_value_cases
    by (cases "ra_namespace_tier axes") auto
qed

lemma kind_of_type:
  assumes "resource_type_pattern t"
  obtains "t = ''deployment''" and "classify_kind (PStr t) = Inr DEPLOYMENT" and "lower t = t"
    | "t = ''pod''" and "classify_kind (PStr t) = Inr POD" and "lower t = t"
    | "t \<in> {''service'', ''ingress''}" and "classify_kind (PStr t) = Inr RK_UNKNOWN" and "lower t = t"
proof -
  have "classify_kind (PStr ''deployment'') = Inr DEPLOYMENT" "lower ''deployment'' = ''deployment''"
    "classify_kind (PStr ''pod'') = Inr POD" "lower ''pod'' = ''pod''"
    "classify_kind (PStr ''service'') = Inr RK_UNKNOWN" "lower ''service'' = ''service''"
    "classify_kind (PStr ''ingress'') = Inr RK_UNKNOWN" "lower ''ingress'' = ''ingress''"
    by code_simp+
  with assms that show thesis by (auto simp: resource_type_pattern_def)
qed

lemma target_fields [simp]:
  "dget (intent_to_target i) ''kind'' = PStr (ei_resource_type i)"
  "dget (intent_to_target i) ''namespace'' = PStr (ei_namespace i)"
  "dget (intent_to_target i) ''name'' = PStr (ei_resource_name i)"
  "dget (intent_to_target i) ''labels'' = PDict []"
  "dget (intent_to_target i) ''resolved_via'' = PList []"
  "dget (intent_to_target i) ''owner_kind'' = PNone"
  by (simp_all add: intent_to_target_def dget_def split: pyval.split)

lemma empty_dict: "dget [] k = PNone" "has_key [] k \<longleftrightarrow> False" "lower [] = []" "str_or_empty PNone = Inr []"
  "contains [] ''db'' \<longleftrightarrow> False"
  by (simp_all add: dget_def has_key_def lower_def str_or_empty_def)

lemma default_freshness: "infer_freshness [] = Inr FRESH"
  by code_simp

text \<open>The axes of an intent of a plain kind: neither the kind nor a label marks it as data plane.\<close>

lemma plain_kind_axes:
  assumes "classify_kind (PStr (ei_resource_type i)) = Inr k" and "k \<in> {DEPLOYMENT, POD, RK_UNKNOWN}"
  shows "infer_data_plane (intent_to_target i) = Inr DP_NO"
    and "is_ok (infer_blast_radius (intent_to_target i) [])"
    and "\<exists>r. infer_reversibility (intent_to_target i) hint = Inr r \<and> r \<noteq> HARD"
  using assms
  by (auto simp: infer_data_plane_def infer_blast_radius_def infer_reversibility_def empty_dict
      DATA_PLANE_KINDS_def dict_or_empty_def Let_def is_ok_iff)

lemma risk_axes_of_intent:
  assumes "intent_wf i"
  shows "\<exists>axes. compute_risk_axes (intent_to_target i) [] [(''command_kind'', PStr c)] = Inr axes \<and>
    ra_namespace_tier axes = tier_of (lower (strip (ei_namespace i))) \<and> ra_data_plane axes = DP_NO \<and>
    ra_reversibility axes \<noteq> HARD \<and> ra_confidence axes \<noteq> WEAK"
proof -
  have ne: "ei_namespace i \<noteq> []" "ei_resource_name i \<noteq> []"
    using assms by (auto simp: intent_wf_def k8s_name_def)
  have ns: "classify_namespace (PStr (ei_namespace i)) = Inr (tier_of (lower (strip (ei_namespace i))))"
    using ne by (simp add: classify_namespace_def str_or_empty_def)
  have rt: "resource_type_pattern (ei_resource_type i)" using assms by (simp add: intent_wf_def)
  then have "ei_resource_type i \<noteq> []" by (auto simp: resource_type_pattern_def)
  with ne have conf: "infer_confidence (intent_to_target i) [] = CF_MEDIUM"
    by (simp add: infer_confidence_def empty_dict)
  have idem: "is_ok (infer_idempotency [(''command_kind'', PStr c)])"
    by (simp add: infer_idempotency_def str_or_empty_def dget_def Let_def)
  from rt obtain k where k: "classify_kind (PStr (ei_resource_type i)) = Inr k" "k \<in> {DEPLOYMENT, POD, RK_UNKNOWN}"
    by (cases rule: kind_of_type) auto
  obtain r where r: "infer_reversibility (intent_to_target i) [(''command_kind'', PStr c)] = Inr r" "r \<noteq> HARD"
    using plain_kind_axes(3) [OF k] by blast
  from k(1) plain_kind_axes(1,2) [OF k] r idem show ?thesis
    by (auto simp: compute_risk_axes_def ns default_freshness conf is_ok_iff)
qed

text \<open>What an action asks of the fields of an intent.\<close>

definition fields_consistent :: "ExecutionIntent \<Rightarrow> bool" where
  "fields_consistent i \<longleftrightarrow>
     (case ei_action i of
        RESTART_DEPLOYMENT \<Rightarrow> lower (ei_resource_type i) = ''deployment''
      | SCALE_DEPLOYMENT \<Rightarrow> lower (ei_resource_type i) = ''deployment'' \<and>
          (\<exists>n. dget (ei_params i) ''replicas'' = PInt n)
      | _ \<Rightarrow> True)"

lemma int_case_iff: "(case v of PInt n \<Rightarrow> True | _ \<Rightarrow> False) \<longleftrightarrow> (\<exists>n. v = PInt n)"
  by (cases v) simp_all

lemma fail_closed_axes:
  assumes "ra_data_plane axes = DP_NO" and "ra_reversibility axes \<noteq> HARD" and "ra_confidence axes \<noteq> WEAK"
  shows "\<exists>a. apply_fail_closed_axes axes i = Inr a \<and> ra_namespace_tier a = ra_namespace_tier axes \<and>
    (ra_data_plane a = DP_YES \<longleftrightarrow> looks_data_plane (ei_resource_name i)) \<and>
    (ra_reversibility a = HARD \<longleftrightarrow> looks_data_plane (ei_resource_name i)) \<and>
    (ra_confidence a = WEAK \<longleftrightarrow> \<not> fields_consistent i)"
  using assms
  by (cases "ei_action i")
    (simp_all add: apply_fail_closed_axes_def action_spec_def ACTION_SPECS_def fields_consistent_def Let_def int_case_iff)

lemma gate_axes_of_intent:
  assumes "intent_wf i"
  shows "\<exists>a. gate_axes i = Inr a \<and> ra_namespace_tier a = tier_of (lower (strip (ei_namespace i))) \<and>
    (ra_data_plane a = DP_YES \<longleftrightarrow> looks_data_plane (ei_resource_name i)) \<and>
    (ra_reversibility a = HARD \<longleftrightarrow> looks_data_plane (ei_resource_name i)) \<and>
    (ra_confidence a = WEAK \<longleftrightarrow> \<not> fields_consistent i)"
proof -
  obtain spec where spec: "action_spec (ei_action i) = Inr spec" using action_spec_total by blast
  let ?c = "case str_or (as_command_kind spec) (Some ''unknown'') of Some s \<Rightarrow> s | None \<Rightarrow> []"
  obtain axes where axes: "compute_risk_axes (intent_to_target i) [] [(''command_kind'', PStr ?c)] = Inr axes"
      "ra_namespace_tier axes = tier_of (lower (strip (ei_namespace i)))"
      "ra_data_plane axes = DP_NO" "ra_reversibility axes \<noteq> HARD" "ra_confidence axes \<noteq> WEAK"
    using risk_axes_of_intent [OF assms] by blast
  from fail_closed_axes [OF axes(3-5), of i] axes(1,2) spec show ?thesis
    by (auto simp: gate_axes_def)
qed

lemma gate_unbound:
  assumes "intent_wf i" and "\<not> (require_binding \<or> flag)"
  shows "\<exists>d. evaluate_intent_gate sha flag reg i snap require_binding = Inr d \<and>
    pd_mode d = (if tier_of (lower (strip (ei_namespace i))) \<in> {DEV, SQUAD} \<and>
        \<not> looks_data_plane (ei_resource_name i) \<and> fields_consistent i then APPROVE else BLOCK)"
proof -
  obtain spec where spec: "action_spec (ei_action i) = Inr spec" using action_spec_total by blast
  from gate_axes_of_intent [OF assms(1)] obtain a where a: "gate_axes i = Inr a"
    "ra_namespace_tier a = tier_of (lower (strip (ei_namespace i)))"
    "ra_data_plane a = DP_YES \<longleftrightarrow> looks_data_plane (ei_resource_name i)"
    "ra_reversibility a = HARD \<longleftrightarrow> looks_data_plane (ei_resource_name i)"
    "ra_confidence a = WEAK \<longleftrightarrow> \<not> fields_consistent i" by blast
  show ?thesis
    using assms(2) spec a
    by (auto simp: evaluate_intent_gate_def gate_plan_complete Let_def gate_policy_mode)
qed

lemma gate_bound:
  assumes "intent_wf i" and "require_binding \<or> flag" and "is_mutating (ei_action i) = Inr True"
    and "evaluate_intent_gate sha flag reg i snap require_binding = Inr d"
  shows "\<exists>d0 a. evaluate_intent_gate sha False reg i snap False = Inr d0 \<and> gate_axes i = Inr a \<and>
    d = strictest d0 (playbook_binding_decision sha reg i a (intent_to_target i) snap)"
proof -
  obtain spec where spec: "action_spec (ei_action i) = Inr spec" "as_mutating spec"
    using assms(3) by (auto simp: is_mutating_def rbind_eq_Inr)
  obtain a where "gate_axes i = Inr a" using gate_axes_of_intent [OF assms(1)] by blast
  with assms(2,4) spec show ?thesis
    by (auto simp: evaluate_intent_gate_def gate_plan_complete Let_def)
qed

lemma binding_decision_passes:
  assumes "pd_mode (playbook_binding_decision sha reg i a t snap) \<noteq> BLOCK"
  shows "\<exists>registry pb. reg = Inr registry \<and> check_intent_binding sha i snap registry = Inr pb \<and>
    playbook_binding_decision sha reg i a t snap = evaluate_policy pb a (Some t) None"
  using assms
  by (auto simp: playbook_binding_decision_def binding_block_def split: sum.splits)

text \<open>None of the functions the gate calls reads the claimed risk.\<close>

lemma risk_update:
  "ei_action (i\<lparr>ei_risk := r\<rparr>) = ei_action i" "ei_resource_type (i\<lparr>ei_risk := r\<rparr>) = ei_resource_type i"
  "ei_resource_name (i\<lparr>ei_risk := r\<rparr>) = ei_resource_name i" "ei_namespace (i\<lparr>ei_risk := r\<rparr>) = ei_namespace i"
  "ei_params (i\<lparr>ei_risk := r\<rparr>) = ei_params i" "ei_playbook (i\<lparr>ei_risk := r\<rparr>) = ei_playbook i"
  "ei_playbook_match (i\<lparr>ei_risk := r\<rparr>) = ei_playbook_match i"
  by simp_all

lemma target_risk: "intent_to_target (i\<lparr>ei_risk := r\<rparr>) = intent_to_target i"
  by (simp add: intent_to_target_def)

lemma gate_axes_risk: "gate_axes (i\<lparr>ei_risk := r\<rparr>) = gate_axes i"
  unfolding gate_axes_def apply_fail_closed_axes_def risk_update target_risk ..

lemma binding_risk: "check_intent_binding sha (i\<lparr>ei_risk := r\<rparr>) snap reg = check_intent_binding sha i snap reg"
  unfolding check_intent_binding_def check_entry_def check_server_params_def check_plan_def step_matches_def
    normalized_params_def risk_update ..

section \<open>Properties\<close>

text \<open>
  C12. What the gate approves, exactly: it decides every validated intent, never \<open>auto\<close>, and approves it
  exactly when its namespace is of the dev or squad tier, no part of the resource name marks a data
  store, and the fields agree with the action (a restart or scale names a deployment, a scale carries
  an integer replica count). Everything else is blocked.
\<close>

theorem gate_decision:
  assumes "model_validate obj = Inr i"
  shows "\<exists>d. evaluate_intent_gate sha False reg i snap False = Inr d \<and>
    pd_mode d = (if tier_of (lower (strip (ei_namespace i))) \<in> {DEV, SQUAD} \<and>
        \<not> looks_data_plane (ei_resource_name i) \<and> fields_consistent i then APPROVE else BLOCK)"
  by (rule gate_unbound [OF model_validate_wf [OF assms]]) simp

theorem gate_decision_witness:
  "\<exists>d. evaluate_intent_gate sample_hash False (Inl ''OSError'') sample_scale PNone False = Inr d \<and> pd_mode d = APPROVE"
proof -
  have "tier_of (lower (strip (ei_namespace sample_scale))) = SQUAD"
    "\<not> looks_data_plane (ei_resource_name sample_scale)" "lower (ei_resource_type sample_scale) = ''deployment''"
    by code_simp+
  moreover have "\<exists>n. dget (ei_params sample_scale) ''replicas'' = PInt n" "ei_action sample_scale = SCALE_DEPLOYMENT"
    by (simp_all add: sample_scale_def dget_def)
  ultimately show ?thesis
    using gate_decision [OF sample_scale_ok, of sample_hash "Inl ''OSError''" PNone] by (simp add: fields_consistent_def)
qed

text \<open>
  C13. With a binding required, by the setting or by the caller, the gate only gets stricter: a mutating
  intent that passes is one the gate approves on its own, its registry loads, the binding check
  accepts it for a playbook, and that playbook's own policy does not block it on the same axes.
\<close>

theorem gate_with_binding:
  assumes "model_validate obj = Inr i" and "is_mutating (ei_action i) = Inr True"
    and "require_binding \<or> flag"
    and "evaluate_intent_gate sha flag reg i snap require_binding = Inr d" and "pd_mode d \<noteq> BLOCK"
  shows "\<exists>d0 registry pb a. evaluate_intent_gate sha False reg i snap False = Inr d0 \<and> pd_mode d0 = APPROVE \<and>
    pd_mode d = APPROVE \<and> reg = Inr registry \<and> check_intent_binding sha i snap registry = Inr pb \<and>
    gate_axes i = Inr a \<and> pd_mode (evaluate_policy pb a (Some (intent_to_target i)) None) \<noteq> BLOCK"
proof -
  note wf = model_validate_wf [OF assms(1)]
  obtain d0 a where d: "evaluate_intent_gate sha False reg i snap False = Inr d0" "gate_axes i = Inr a"
    "d = strictest d0 (playbook_binding_decision sha reg i a (intent_to_target i) snap)"
    using gate_bound [OF wf assms(3,2,4)] by blast
  let ?p = "playbook_binding_decision sha reg i a (intent_to_target i) snap"
  have top: "m < BLOCK \<longleftrightarrow> m \<noteq> BLOCK" for m by (cases m) (simp_all add: less_PolicyMode_def MODE_RANK_def)
  have nb: "pd_mode d0 \<noteq> BLOCK" "pd_mode ?p \<noteq> BLOCK"
    using assms(5) strict.below_iff [of d0 ?p BLOCK] unfolding d(3) top by blast+
  have a0: "pd_mode d0 = APPROVE"
    using nb(1) gate_unbound [OF wf, of False False sha reg snap] d(1) by (auto split: if_splits)
  have "pd_mode d = APPROVE"
    using assms(5) strict.never_laxer(1) [of d0 ?p] a0 d(3)
    by (cases "pd_mode d") (simp_all add: less_eq_PolicyMode_def MODE_RANK_def)
  with binding_decision_passes [OF nb(2)] nb(2) d(1,2) a0 show ?thesis by auto
qed

lemma sample_bound_ok: "model_validate (PDict (model_dump sample_bound)) = Inr sample_bound"
  by code_simp

definition sample_reg :: "string + (string \<times> Playbook) list" where
  "sample_reg = Inr [(''scale_out_cpu_throttled_deployment'', sample_pb)]"

lemma sample_tier:
  "tier_of (lower (strip ''squad-1'')) = SQUAD" "looks_data_plane ''api'' \<longleftrightarrow> False" "lower ''deployment'' = ''deployment''"
  by code_simp+

lemma sample_policy:
  "case gate_axes sample_bound of
     Inr a \<Rightarrow> pd_mode (evaluate_policy sample_pb a (Some (intent_to_target sample_bound)) None) = APPROVE
   | Inl _ \<Rightarrow> False"
  by code_simp

lemma sample_gate:
  "\<exists>d. evaluate_intent_gate sample_hash flag sample_reg sample_bound (snd sample_binding) req = Inr d \<and>
     pd_mode d = APPROVE"
proof (cases "req \<or> flag")
  case False
  with gate_unbound [OF model_validate_wf [OF sample_bound_ok]] show ?thesis
    by (simp add: sample_bound_fields fields_consistent_def dget_def sample_tier)
next
  case True
  note wf = model_validate_wf [OF sample_bound_ok]
  from sample_policy obtain a where a: "gate_axes sample_bound = Inr a"
    "pd_mode (evaluate_policy sample_pb a (Some (intent_to_target sample_bound)) None) = APPROVE"
    by (cases "gate_axes sample_bound") simp_all
  have "pd_mode (evaluate_policy EXECUTOR_GATE_POLICY a (Some (intent_to_target sample_bound)) None) = APPROVE"
    using gate_axes_of_intent [OF wf] a(1)
    by (auto simp: gate_policy_mode sample_bound_fields fields_consistent_def dget_def sample_tier)
  with True a show ?thesis
    by (auto simp: evaluate_intent_gate_def Let_def sample_bound_fields strictest_def
        gate_plan_complete [of SCALE_DEPLOYMENT, simplified] playbook_binding_decision_def sample_reg_def sample_accepted [unfolded sample_bound])
qed

theorem gate_with_binding_witness:
  "\<exists>pb. check_intent_binding sample_hash sample_bound (snd sample_binding)
      [(''scale_out_cpu_throttled_deployment'', sample_pb)] = Inr pb"
proof -
  obtain d where d: "evaluate_intent_gate sample_hash True sample_reg sample_bound (snd sample_binding) False = Inr d"
    "pd_mode d = APPROVE" using sample_gate by blast
  have m: "is_mutating (ei_action sample_bound) = Inr True"
    by (simp add: sample_bound_fields is_mutating_def)
  from gate_with_binding [OF sample_bound_ok m _ d(1)] d(2) show ?thesis by (auto simp: sample_reg_def)
qed

text \<open>
  The model's own estimate of the risk has no influence: whatever \<open>risk\<close> an answer claims, the
  decision of the gate, its reasons included, is the same.
\<close>

theorem gate_ignores_claimed_risk:
  "evaluate_intent_gate sha flag reg (i\<lparr>ei_risk := r\<rparr>) snap require_binding =
   evaluate_intent_gate sha flag reg i snap require_binding"
  unfolding evaluate_intent_gate_def risk_update gate_axes_risk target_risk binding_risk
    playbook_binding_decision_def ..

end
