(* ===== verification/Incident_Machine.thy ===== *)
theory Incident_Machine
  imports Prelude
begin

text \<open>
  The life cycle of an incident: the state machine of \<open>app/core/state_machine.py\<close>, the two places
  that drive an incident row through it (\<open>transition_to\<close> of \<open>app/workers/pipeline.py\<close>, which a
  retried pipeline re-enters, and \<open>_apply_resolve\<close> of \<open>app/api/webhooks.py\<close>, which a resolve webhook
  calls), and the delivery and executor columns of \<open>app/services/incident_state.py\<close> with their
  fallback to the keys older rows carry in \<open>analysis\<close>. Times are microseconds since the epoch, UTC.
\<close>

section \<open>The row\<close>

record incident_record =
  ir_row_id :: int
  ir_incident_id :: "string option"
  ir_status :: "string option"
  ir_data :: pyval
  ir_analysis :: pyval
  ir_trace :: pyval
  ir_user_feedback :: pyval
  ir_is_accepted :: "string option"
  ir_report_state :: "string option"
  ir_report_attempts :: "int option"
  ir_report_updated_at :: "int option"
  ir_executor_state :: "string option"
  ir_executor_claimed_at :: "int option"
  ir_created_at :: "int option"

section \<open>The state machine\<close>

datatype IncidentState =
    OPEN | INVESTIGATING | FACTS_COLLECTED | HYPOTHESIS_GENERATED | FIX_PROPOSED
  | APPROVAL_PENDING | EXECUTING | RESOLVED | TRIAGE_REQUIRED | FAILED

definition all_states :: "IncidentState list" where
  "all_states = [OPEN, INVESTIGATING, FACTS_COLLECTED, HYPOTHESIS_GENERATED, FIX_PROPOSED,
     APPROVAL_PENDING, EXECUTING, RESOLVED, TRIAGE_REQUIRED, FAILED]"

fun state_value :: "IncidentState \<Rightarrow> string" where
  "state_value OPEN = ''OPEN''"
| "state_value INVESTIGATING = ''INVESTIGATING''"
| "state_value FACTS_COLLECTED = ''FACTS_COLLECTED''"
| "state_value HYPOTHESIS_GENERATED = ''HYPOTHESIS_GENERATED''"
| "state_value FIX_PROPOSED = ''FIX_PROPOSED''"
| "state_value APPROVAL_PENDING = ''APPROVAL_PENDING''"
| "state_value EXECUTING = ''EXECUTING''"
| "state_value RESOLVED = ''RESOLVED''"
| "state_value TRIAGE_REQUIRED = ''TRIAGE_REQUIRED''"
| "state_value FAILED = ''FAILED''"

fun TRANSITIONS :: "IncidentState \<Rightarrow> IncidentState list" where
  "TRANSITIONS OPEN = [INVESTIGATING, RESOLVED, FAILED]"
| "TRANSITIONS INVESTIGATING = [FACTS_COLLECTED, HYPOTHESIS_GENERATED, FAILED]"
| "TRANSITIONS FACTS_COLLECTED = [HYPOTHESIS_GENERATED, RESOLVED, FAILED]"
| "TRANSITIONS HYPOTHESIS_GENERATED = [FIX_PROPOSED, FAILED]"
| "TRANSITIONS FIX_PROPOSED = [APPROVAL_PENDING, RESOLVED, TRIAGE_REQUIRED, INVESTIGATING, FAILED]"
| "TRANSITIONS APPROVAL_PENDING = [EXECUTING, FAILED]"
| "TRANSITIONS EXECUTING = [RESOLVED, TRIAGE_REQUIRED, FAILED]"
| "TRANSITIONS RESOLVED = []"
| "TRANSITIONS TRIAGE_REQUIRED = []"
| "TRANSITIONS FAILED = []"

definition validate_transition :: "IncidentState \<Rightarrow> IncidentState \<Rightarrow> bool" where
  "validate_transition current next_state \<longleftrightarrow> next_state \<in> set (TRANSITIONS current)"

text \<open>\<open>IncidentState(raw)\<close>: the member with that value, or \<open>ValueError\<close>.\<close>

definition parse_state :: "string \<Rightarrow> IncidentState option" where
  "parse_state raw = find (\<lambda>s. state_value s = raw) all_states"

section \<open>Driving a row: the pipeline\<close>

fun legacy_status_alias :: "string \<Rightarrow> IncidentState option" where
  "legacy_status_alias raw =
     (if raw = ''PENDING'' then Some OPEN else if raw = ''COMPLETED'' then Some RESOLVED else None)"

definition current_state :: "incident_record \<Rightarrow> IncidentState" where
  "current_state rec =
     (let raw = (case ir_status rec of None \<Rightarrow> [] | Some s \<Rightarrow> s) in
      case parse_state raw of
        Some s \<Rightarrow> s
      | None \<Rightarrow> (case legacy_status_alias raw of Some s \<Rightarrow> s | None \<Rightarrow> OPEN))"

fun pipeline_state_order :: "IncidentState \<Rightarrow> nat option" where
  "pipeline_state_order OPEN = Some 0"
| "pipeline_state_order INVESTIGATING = Some 1"
| "pipeline_state_order FACTS_COLLECTED = Some 2"
| "pipeline_state_order HYPOTHESIS_GENERATED = Some 3"
| "pipeline_state_order FIX_PROPOSED = Some 4"
| "pipeline_state_order _ = None"

datatype stage = Analyze | Diagnose | Hypothesize | Critique | Jira | Fix

fun completed_by_state :: "IncidentState \<Rightarrow> stage list option" where
  "completed_by_state OPEN = Some []"
| "completed_by_state INVESTIGATING = Some [Analyze]"
| "completed_by_state FACTS_COLLECTED = Some [Analyze, Diagnose]"
| "completed_by_state HYPOTHESIS_GENERATED = Some [Analyze, Diagnose, Hypothesize, Critique]"
| "completed_by_state FIX_PROPOSED = Some [Analyze, Diagnose, Hypothesize, Critique, Jira, Fix]"
| "completed_by_state _ = None"

definition transition_to :: "incident_record \<Rightarrow> IncidentState \<Rightarrow> incident_record result" where
  "transition_to rec new_state =
     (let current = current_state rec in
      if current = new_state then Inr rec
      else if (case (pipeline_state_order current, pipeline_state_order new_state) of
                 (Some c, Some n) \<Rightarrow> n < c | _ \<Rightarrow> False) then Inr rec
      else if \<not> validate_transition current new_state
           then Inl (ValueError (''Invalid state transition: '' @ state_value current @ '' -> ''
                  @ state_value new_state))
      else Inr (rec\<lparr>ir_status := Some (state_value new_state)\<rparr>))"

section \<open>Driving a row: the resolve webhook\<close>

text \<open>
  \<open>ends_at\<close> is the payload's \<open>endsAt\<close> (falsy when the alert still has none) and \<open>now_iso\<close> the
  current time in ISO form. The \<open>data\<close> column holds a JSON object or NULL.
\<close>

definition apply_resolve ::
  "incident_record \<Rightarrow> string \<Rightarrow> string option \<Rightarrow> string \<Rightarrow> incident_record \<times> string" where
  "apply_resolve existing prev_status ends_at now_iso =
     (if (case parse_state prev_status of
            Some s \<Rightarrow> validate_transition s RESOLVED | None \<Rightarrow> False)
      then (existing\<lparr>ir_status := Some (state_value RESOLVED)\<rparr>, ''resolved'')
      else
        (let base = (case ir_data existing of PDict d \<Rightarrow> d | _ \<Rightarrow> []);
             resolved_at = (case ends_at of Some s \<Rightarrow> (if s = [] then now_iso else s)
                                          | None \<Rightarrow> now_iso)
         in (existing\<lparr>ir_data := PDict (merge_dict base
               [(''resolve_pending'', PBool True),
                (''resolve_pending_from'', PStr prev_status),
                (''resolved_at'', PStr resolved_at)])\<rparr>,
             ''resolve-deferred'')))"

section \<open>Delivery and executor columns\<close>

definition report_legacy :: "(string \<times> string) list" where
  "report_legacy =
     [(''report_failed'', ''failed''), (''report_sent'', ''sent''), (''report_pending'', ''pending'')]"

definition executor_legacy :: "(string \<times> string) list" where
  "executor_legacy =
     [(''executor_applied'', ''applied''), (''executor_state_unknown'', ''state_unknown''),
      (''executor_in_flight'', ''in_flight''), (''executor_disabled'', ''disabled'')]"

definition from_legacy :: "pyval \<Rightarrow> (string \<times> string) list \<Rightarrow> string option" where
  "from_legacy analysis mapping =
     (case analysis of
        PDict d \<Rightarrow> map_option snd (find (\<lambda>(key, v). truthy (dget d key)) mapping)
      | _ \<Rightarrow> None)"

definition report_state_of :: "incident_record \<Rightarrow> string option" where
  "report_state_of rec = str_or (ir_report_state rec) (from_legacy (ir_analysis rec) report_legacy)"

definition attempt_status_to_state :: "(string \<times> string) list" where
  "attempt_status_to_state =
     [(''claimed'', ''in_flight''), (''applied'', ''applied''), (''failed'', ''applied''),
      (''verified'', ''verified''), (''verification_failed'', ''verification_failed''),
      (''unknown'', ''state_unknown'')]"

text \<open>\<open>attempt_status\<close> is \<open>getattr(attempt, "status", None)\<close> of the incident's last attempt row.\<close>

definition executor_state_of :: "incident_record \<Rightarrow> string option \<Rightarrow> string option" where
  "executor_state_of rec attempt_status =
     (case Option.bind attempt_status (map_of attempt_status_to_state) of
        Some v \<Rightarrow> Some v
      | None \<Rightarrow> str_or (ir_executor_state rec) (from_legacy (ir_analysis rec) executor_legacy))"

definition set_report_state ::
  "incident_record \<Rightarrow> string option \<Rightarrow> int option \<Rightarrow> int \<Rightarrow> incident_record" where
  "set_report_state rec state attempts now =
     rec\<lparr>ir_report_state := state,
         ir_report_attempts := (case attempts of None \<Rightarrow> ir_report_attempts rec | Some n \<Rightarrow> Some n),
         ir_report_updated_at := Some now\<rparr>"

definition set_executor_state ::
  "incident_record \<Rightarrow> string option \<Rightarrow> int option \<Rightarrow> int \<Rightarrow> incident_record" where
  "set_executor_state rec state claimed_at now =
     (let rec' = rec\<lparr>ir_executor_state := state\<rparr> in
      if state = Some ''in_flight''
      then rec'\<lparr>ir_executor_claimed_at := Some (case claimed_at of Some c \<Rightarrow> c | None \<Rightarrow> now)\<rparr>
      else if state \<noteq> None then rec'\<lparr>ir_executor_claimed_at := None\<rparr>
      else rec')"

definition row_claim_is_fresh :: "incident_record \<Rightarrow> int \<Rightarrow> int \<Rightarrow> bool" where
  "row_claim_is_fresh rec ttl_seconds now =
     (ir_executor_state rec = Some ''in_flight'' \<and>
      (case ir_executor_claimed_at rec of
         None \<Rightarrow> False
       | Some claimed \<Rightarrow> now - claimed < ttl_seconds * 1000000))"

section \<open>Lemmas\<close>

lemma parse_state_value [simp]: "parse_state (state_value s) = Some s"
  by (cases s) (simp_all add: parse_state_def all_states_def)

lemma parse_state_Some: "parse_state raw = Some s \<longleftrightarrow> raw = state_value s"
proof
  show "parse_state raw = Some s \<Longrightarrow> raw = state_value s"
    by (auto simp: parse_state_def find_Some_iff)
qed simp

lemma current_state_set [simp]:
  "current_state (rec\<lparr>ir_status := Some (state_value s)\<rparr>) = s"
  by (simp add: current_state_def)

lemma validate_simps [simp]:
  "validate_transition RESOLVED s = False"
  "validate_transition TRIAGE_REQUIRED s = False"
  "validate_transition FAILED s = False"
  by (simp_all add: validate_transition_def)

lemma into_EXECUTING: "validate_transition s EXECUTING \<longleftrightarrow> s = APPROVAL_PENDING"
  by (cases s) (simp_all add: validate_transition_def)

lemma into_APPROVAL_PENDING: "validate_transition s APPROVAL_PENDING \<longleftrightarrow> s = FIX_PROPOSED"
  by (cases s) (simp_all add: validate_transition_def)

lemma into_OPEN: "\<not> validate_transition s OPEN"
  by (cases s) (simp_all add: validate_transition_def)

text \<open>A run of the machine: every consecutive pair of states is a declared transition.\<close>

definition machine_run :: "IncidentState list \<Rightarrow> bool" where
  "machine_run tr \<longleftrightarrow> tr \<noteq> [] \<and> hd tr = OPEN \<and> successively validate_transition tr"

lemma machine_run_step:
  "machine_run tr \<Longrightarrow> Suc i < length tr \<Longrightarrow> validate_transition (tr ! i) (tr ! Suc i)"
  by (simp add: machine_run_def successively_conv_nth)

lemma machine_run_pred:
  assumes "machine_run tr" and "i < length tr" and "tr ! i \<noteq> OPEN"
  obtains j where "i = Suc j" and "validate_transition (tr ! j) (tr ! i)"
proof (cases i)
  case 0
  with assms show ?thesis by (auto simp: machine_run_def hd_conv_nth)
next
  case (Suc j)
  with assms show ?thesis by (intro that [of j]) (auto intro: machine_run_step)
qed

lemma transition_to_cases:
  assumes "transition_to rec new = Inr rec'"
  obtains "rec' = rec"
  | "validate_transition (current_state rec) new"
    "rec' = rec\<lparr>ir_status := Some (state_value new)\<rparr>"
    "\<not> (case (pipeline_state_order (current_state rec), pipeline_state_order new) of
          (Some c, Some n) \<Rightarrow> n < c | _ \<Rightarrow> False)"
  using assms unfolding transition_to_def Let_def by (metis sum.distinct(1) sum.inject(2))

text \<open>How far along the pipeline a row is; the states outside the pipeline order come last.\<close>

definition progress :: "IncidentState \<Rightarrow> nat" where
  "progress s = (case pipeline_state_order s of Some n \<Rightarrow> n | None \<Rightarrow> 5)"

lemma validate_progress:
  "validate_transition s t \<Longrightarrow>
   \<not> (case (pipeline_state_order s, pipeline_state_order t) of
        (Some c, Some n) \<Rightarrow> n < c | _ \<Rightarrow> False) \<Longrightarrow> progress s \<le> progress t"
  by (cases s; cases t) (simp_all add: progress_def validate_transition_def)

lemma transition_to_progress:
  "transition_to rec new = Inr rec' \<Longrightarrow> progress (current_state rec) \<le> progress (current_state rec')"
  by (erule transition_to_cases) (blast, metis current_state_set validate_progress)

definition pipeline_step :: "incident_record \<Rightarrow> incident_record \<Rightarrow> bool" where
  "pipeline_step rec rec' \<longleftrightarrow> (\<exists>new. transition_to rec new = Inr rec')"

interpretation pipeline: invariant_system
  "\<lambda>rec. n \<le> progress (current_state rec)" pipeline_step "\<lambda>rec. n \<le> progress (current_state rec)" for n
  by unfold_locales (auto simp: pipeline_step_def dest: transition_to_progress)

section \<open>Properties\<close>

text \<open>
  No command is executed without approval: in every run of the state machine from \<open>OPEN\<close>, each
  visit of \<open>EXECUTING\<close> is immediately preceded by \<open>APPROVAL_PENDING\<close>, and that by \<open>FIX_PROPOSED\<close>.
\<close>

theorem executing_only_after_approval:
  assumes "machine_run tr" and "i < length tr" and "tr ! i = EXECUTING"
  shows "2 \<le> i \<and> tr ! (i - 1) = APPROVAL_PENDING \<and> tr ! (i - 2) = FIX_PROPOSED"
proof -
  obtain j where j: "i = Suc j" "tr ! j = APPROVAL_PENDING"
    using assms by (auto elim!: machine_run_pred [of tr i] simp: into_EXECUTING)
  moreover obtain k where "j = Suc k" "tr ! k = FIX_PROPOSED"
    using assms j by (auto elim!: machine_run_pred [of tr j] simp: into_APPROVAL_PENDING)
  ultimately show ?thesis by simp
qed

theorem executing_only_after_approval_witness:
  "machine_run [OPEN, INVESTIGATING, HYPOTHESIS_GENERATED, FIX_PROPOSED, APPROVAL_PENDING, EXECUTING]
   \<and> [OPEN, INVESTIGATING, HYPOTHESIS_GENERATED, FIX_PROPOSED, APPROVAL_PENDING, EXECUTING] ! (5 - 1)
     = APPROVAL_PENDING"
proof -
  let ?tr = "[OPEN, INVESTIGATING, HYPOTHESIS_GENERATED, FIX_PROPOSED, APPROVAL_PENDING, EXECUTING]"
  have run: "machine_run ?tr"
    by (simp add: machine_run_def validate_transition_def)
  have "?tr ! 5 = EXECUTING" by simp
  with executing_only_after_approval [OF run, of 5] run show ?thesis by simp
qed

text \<open>
  Every incident can be brought to an end: \<open>RESOLVED\<close>, \<open>TRIAGE_REQUIRED\<close> and \<open>FAILED\<close> are exactly
  the states without a successor, and from every other state \<open>FAILED\<close> is one transition away.
\<close>

theorem terminal_states:
  "(TRANSITIONS s = [] \<longleftrightarrow> s \<in> {RESOLVED, TRIAGE_REQUIRED, FAILED})
   \<and> (s \<notin> {RESOLVED, TRIAGE_REQUIRED, FAILED} \<longleftrightarrow> validate_transition s FAILED)"
  by (cases s) (simp_all add: validate_transition_def)

text \<open>
  A retried pipeline never moves an incident backwards: whatever sequence of \<open>transition_to\<close>
  calls it makes, re-entering stages whose transition an earlier attempt has already committed
  included, the row's place in the pipeline order does not decrease.
\<close>

theorem pipeline_never_regresses:
  "pipeline_step\<^sup>*\<^sup>* rec rec' \<Longrightarrow> progress (current_state rec) \<le> progress (current_state rec')"
  using pipeline.steps_inv [of rec rec' "progress (current_state rec)"] by simp

definition row0 :: incident_record where
  "row0 = \<lparr>ir_row_id = 1, ir_incident_id = Some ''i1'', ir_status = Some ''FACTS_COLLECTED'', ir_data = PNone, ir_analysis = PNone,
     ir_trace = PNone, ir_user_feedback = PNone, ir_is_accepted = None,
     ir_report_state = None, ir_report_attempts = None, ir_report_updated_at = None,
     ir_executor_state = None, ir_executor_claimed_at = None, ir_created_at = None\<rparr>"

theorem pipeline_never_regresses_witness:
  "pipeline_step row0 (row0\<lparr>ir_status := Some ''HYPOTHESIS_GENERATED''\<rparr>)
   \<and> transition_to row0 INVESTIGATING = Inr row0
   \<and> progress (current_state row0) \<le> progress (current_state (row0\<lparr>ir_status := Some ''HYPOTHESIS_GENERATED''\<rparr>))"
proof -
  have "transition_to row0 HYPOTHESIS_GENERATED = Inr (row0\<lparr>ir_status := Some ''HYPOTHESIS_GENERATED''\<rparr>)"
    by (simp add: row0_def transition_to_def current_state_def parse_state_def all_states_def
        validate_transition_def)
  then have step: "pipeline_step row0 (row0\<lparr>ir_status := Some ''HYPOTHESIS_GENERATED''\<rparr>)"
    unfolding pipeline_step_def by blast
  moreover have "transition_to row0 INVESTIGATING = Inr row0"
    by (simp add: row0_def transition_to_def current_state_def parse_state_def all_states_def)
  ultimately show ?thesis
    using pipeline_never_regresses [OF r_into_rtranclp [of pipeline_step, OF step]] by blast
qed

text \<open>
  A resolve webhook never breaks a running investigation: it moves the incident to \<open>RESOLVED\<close> exactly
  when its last status is \<open>OPEN\<close>, \<open>FACTS_COLLECTED\<close>, \<open>FIX_PROPOSED\<close> or \<open>EXECUTING\<close>; in every other status,
  unknown ones included, the status stays and the row only gets the markers by which the resolve is
  caught up on later, with everything else in its data unchanged.
\<close>

theorem resolve_webhook:
  "(snd (apply_resolve r prev ends_at now) = ''resolved'' \<longleftrightarrow>
      prev \<in> {''OPEN'', ''FACTS_COLLECTED'', ''FIX_PROPOSED'', ''EXECUTING''}) \<and>
   (if snd (apply_resolve r prev ends_at now) = ''resolved''
    then fst (apply_resolve r prev ends_at now) = r\<lparr>ir_status := Some ''RESOLVED''\<rparr>
    else ir_status (fst (apply_resolve r prev ends_at now)) = ir_status r \<and>
      (\<exists>d. ir_data (fst (apply_resolve r prev ends_at now)) = PDict d \<and>
         dget d ''resolve_pending'' = PBool True \<and> dget d ''resolve_pending_from'' = PStr prev \<and>
         (\<forall>k. k \<notin> {''resolve_pending'', ''resolve_pending_from'', ''resolved_at''} \<longrightarrow>
            dget d k = dget (case ir_data r of PDict e \<Rightarrow> e | _ \<Rightarrow> []) k)))"
proof -
  have ok: "(case parse_state prev of Some s \<Rightarrow> validate_transition s RESOLVED | None \<Rightarrow> False) \<longleftrightarrow>
      prev \<in> {''OPEN'', ''FACTS_COLLECTED'', ''FIX_PROPOSED'', ''EXECUTING''}"
  proof (cases "parse_state prev")
    case None
    then have "prev \<noteq> state_value s" for s by auto
    from this [of OPEN] this [of FACTS_COLLECTED] this [of FIX_PROPOSED] this [of EXECUTING] None
    show ?thesis by simp
  next
    case (Some s)
    then have "prev = state_value s" by (simp add: parse_state_Some)
    with Some show ?thesis by (cases s) (simp_all add: validate_transition_def)
  qed
  show ?thesis
    unfolding apply_resolve_def ok by (simp add: Let_def merge_dict_def)
qed

theorem resolve_webhook_witness:
  "ir_status (fst (apply_resolve row0 ''INVESTIGATING'' None ''t'')) = Some ''FACTS_COLLECTED'' \<and>
   snd (apply_resolve row0 ''OPEN'' None ''t'') = ''resolved''"
proof -
  note inv = resolve_webhook [of row0 "''INVESTIGATING''" None "''t''"]
  have s: "ir_status row0 = Some ''FACTS_COLLECTED''" by (simp add: row0_def)
  from inv have "snd (apply_resolve row0 ''INVESTIGATING'' None ''t'') \<noteq> ''resolved''" by simp
  with inv s have "ir_status (fst (apply_resolve row0 ''INVESTIGATING'' None ''t'')) = Some ''FACTS_COLLECTED''"
    by (simp only: if_False simp_thms)
  moreover have "snd (apply_resolve row0 ''OPEN'' None ''t'') = ''resolved''"
    using resolve_webhook [of row0 "''OPEN''" None "''t''"] by blast
  ultimately show ?thesis ..
qed

end
