(* ===== verification/Attempts.thy ===== *)
theory Attempts
  imports Incident_Machine Binding
begin

text \<open>
  \<open>app/remediation/attempts.py\<close>, the table \<open>kg_remediation_attempts\<close>: one row per pair of incident and
  intent signature, which the database keeps unique, and the life of a row from its claim to its
  verification. Also the tables the apply path reads beside it (\<open>kg_action_approvals\<close>,
  \<open>kg_remediation_decisions\<close>) and the age of a plan (\<open>intent_recorded_at\<close> of
  \<open>app/services/intent_signature.py\<close>). Times are microseconds since the epoch, UTC. The ISO-8601
  reader and writer of \<open>datetime\<close> are arguments; a text without an offset is read as UTC, as the
  code does with it.
\<close>

section \<open>Rows\<close>

definition STATUS_CLAIMED :: string where "STATUS_CLAIMED = ''claimed''"
definition STATUS_APPLIED :: string where "STATUS_APPLIED = ''applied''"
definition STATUS_FAILED :: string where "STATUS_FAILED = ''failed''"
definition STATUS_VERIFIED :: string where "STATUS_VERIFIED = ''verified''"
definition STATUS_VERIFICATION_FAILED :: string where "STATUS_VERIFICATION_FAILED = ''verification_failed''"
definition STATUS_UNKNOWN :: string where "STATUS_UNKNOWN = ''unknown''"

lemmas status_defs = STATUS_CLAIMED_def STATUS_APPLIED_def STATUS_FAILED_def STATUS_VERIFIED_def
  STATUS_VERIFICATION_FAILED_def STATUS_UNKNOWN_def

definition DONE_STATUSES :: "string list" where
  "DONE_STATUSES = [STATUS_APPLIED, STATUS_FAILED, STATUS_VERIFIED, STATUS_VERIFICATION_FAILED]"

definition APPLIED_STATUSES :: "string list" where
  "APPLIED_STATUSES = [STATUS_APPLIED, STATUS_VERIFIED, STATUS_VERIFICATION_FAILED]"

record RemediationAttempt =
  at_id :: int
  at_incident_id :: string
  at_signature :: string
  at_action :: pyval
  at_namespace :: pyval
  at_resource_name :: pyval
  at_intent :: pydict
  at_status :: string
  at_applied_by :: "string option"
  at_claimed_at :: "int option"
  at_applied_at :: "int option"
  at_result :: pyval
  at_verification :: pyval
  at_error :: "string option"
  at_created_at :: int
  at_updated_at :: int

record ActionApproval =
  aa_id :: int
  aa_incident_id :: string
  aa_action :: "string option"
  aa_intent_signature :: string
  aa_status :: string
  aa_approved_by :: "string option"
  aa_decided_at :: "int option"
  aa_created_at :: "int option"

record RemediationDecision =
  rd_incident_id :: "string option"
  rd_alert_fingerprint :: "string option"
  rd_target_ref :: pyval
  rd_classification :: "string option"
  rd_classification_provenance :: pyval
  rd_risk_axes :: pyval
  rd_candidate_playbooks :: "string list"
  rd_selected_playbook :: "string option"
  rd_decision :: string
  rd_decision_reasons :: "pydict list"
  rd_command_preview :: string
  rd_idempotency_key :: string
  rd_created_at :: int

section \<open>Queries\<close>

text \<open>\<open>ORDER BY id DESC\<close>, first row.\<close>

definition latest_row :: "RemediationAttempt list \<Rightarrow> RemediationAttempt option" where
  "latest_row rows = (case rows of [] \<Rightarrow> None | r # rs \<Rightarrow> Some (foldl (\<lambda>a b. if at_id a < at_id b then b else a) r rs))"

definition blocking_attempt :: "RemediationAttempt list \<Rightarrow> string \<Rightarrow> RemediationAttempt option" where
  "blocking_attempt attempts incident_id = latest_row (filter (\<lambda>r. at_incident_id r = incident_id) attempts)"

definition latest_applied :: "RemediationAttempt list \<Rightarrow> string \<Rightarrow> RemediationAttempt option" where
  "latest_applied attempts incident_id =
     latest_row (filter (\<lambda>r. at_incident_id r = incident_id \<and> at_status r \<in> set APPLIED_STATUSES) attempts)"

definition claim_is_fresh :: "int \<Rightarrow> RemediationAttempt \<Rightarrow> int \<Rightarrow> bool" where
  "claim_is_fresh now row ttl_seconds =
     (case at_claimed_at row of None \<Rightarrow> True | Some claimed \<Rightarrow> now - claimed \<le> ttl_seconds * 1000000)"

section \<open>Changes\<close>

definition BOUND_ENTRY_KEY :: string where "BOUND_ENTRY_KEY = ''bound_playbook_entry''"

definition new_claim ::
  "int \<Rightarrow> int \<Rightarrow> string \<Rightarrow> string \<Rightarrow> pydict \<Rightarrow> string \<Rightarrow> pydict option \<Rightarrow> RemediationAttempt" where
  "new_claim row_id now incident_id signature intent applied_by bound_playbook_entry =
     (let intent1 = (case bound_playbook_entry of
                       None \<Rightarrow> intent | Some e \<Rightarrow> merge_dict intent [(BOUND_ENTRY_KEY, PDict e)])
      in \<lparr>at_id = row_id, at_incident_id = incident_id, at_signature = signature,
          at_action = dget intent1 ''action'', at_namespace = dget intent1 ''namespace'',
          at_resource_name = dget intent1 ''resource_name'', at_intent = intent1, at_status = STATUS_CLAIMED,
          at_applied_by = Some applied_by, at_claimed_at = Some now, at_applied_at = None,
          at_result = PNone, at_verification = PNone, at_error = None,
          at_created_at = now, at_updated_at = now\<rparr>)"

text \<open>\<open>extra\<close> sets the further columns a caller passes by keyword.\<close>

definition set_status ::
  "int \<Rightarrow> string \<Rightarrow> (RemediationAttempt \<Rightarrow> RemediationAttempt) \<Rightarrow> RemediationAttempt \<Rightarrow> RemediationAttempt" where
  "set_status now status extra row = (extra (row\<lparr>at_status := status\<rparr>))\<lparr>at_updated_at := now\<rparr>"

text \<open>\<open>UPDATE \<dots> WHERE id = row_id\<close>, and an insert the unique constraint lets through.\<close>

definition update_row ::
  "int \<Rightarrow> (RemediationAttempt \<Rightarrow> RemediationAttempt) \<Rightarrow> RemediationAttempt list \<Rightarrow> RemediationAttempt list" where
  "update_row row_id f = map (\<lambda>r. if at_id r = row_id then f r else r)"

definition insert_claim :: "RemediationAttempt \<Rightarrow> RemediationAttempt list \<Rightarrow> RemediationAttempt list option" where
  "insert_claim row rows =
     (if list_ex (\<lambda>r. at_incident_id r = at_incident_id row \<and> at_signature r = at_signature row) rows
      then None else Some (rows @ [row]))"

section \<open>The age of a plan\<close>

record iso_time =
  fromisoformat :: "string \<Rightarrow> int option"
  isoformat :: "int \<Rightarrow> string"

fun replace_z :: "string \<Rightarrow> string" where
  "replace_z [] = []"
| "replace_z (c # cs) = (if c = CHR ''Z'' then ''+00:00'' else [c]) @ replace_z cs"

definition parse_utc_ts :: "iso_time \<Rightarrow> pyval \<Rightarrow> int option" where
  "parse_utc_ts clk raw =
     (case raw of
        PStr s \<Rightarrow> if strip s = [] then None else fromisoformat clk (replace_z (strip s))
      | _ \<Rightarrow> None)"

definition dict_field :: "pydict \<Rightarrow> string \<Rightarrow> pydict" where
  "dict_field d k = (case dget d k of PDict e \<Rightarrow> e | _ \<Rightarrow> [])"

text \<open>The first anchor that can be read; \<open>created_at\<close>, a column, comes last.\<close>

definition time_anchors :: "iso_time \<Rightarrow> pydict \<Rightarrow> int option \<Rightarrow> (string \<times> int option) list" where
  "time_anchors clk analysis created_at =
     [(''executor_result.dry_run_at'', parse_utc_ts clk (dget (dict_field analysis ''executor_result'') ''dry_run_at'')),
      (''executor_result.completed_at'', parse_utc_ts clk (dget (dict_field analysis ''executor_result'') ''completed_at'')),
      (''analysis.execution_intent_at'', parse_utc_ts clk (dget analysis ''execution_intent_at'')),
      (''report_sent.sent_at'', parse_utc_ts clk (dget (dict_field analysis ''report_sent'') ''sent_at'')),
      (''report_pending.queued_at'', parse_utc_ts clk (dget (dict_field analysis ''report_pending'') ''queued_at'')),
      (''incident.created_at'', created_at)]"

definition intent_recorded_at :: "iso_time \<Rightarrow> pydict \<Rightarrow> int option \<Rightarrow> int option \<times> string" where
  "intent_recorded_at clk analysis created_at =
     (case find (\<lambda>(s, t). t \<noteq> None) (time_anchors clk analysis created_at) of
        Some (s, t) \<Rightarrow> (t, s)
      | None \<Rightarrow> (None, ''unknown''))"

section \<open>Lemmas\<close>

lemma foldl_latest_mem:
  "foldl (\<lambda>a b. if at_id a < at_id b then b else a) r rs \<in> set (r # rs)"
  by (induction rs arbitrary: r) (auto split: if_splits)

lemma latest_row_None [simp]: "latest_row rows = None \<longleftrightarrow> rows = []"
  by (simp add: latest_row_def split: list.splits)

lemma latest_row_mem: "latest_row rows = Some r \<Longrightarrow> r \<in> set rows"
  using foldl_latest_mem by (auto simp: latest_row_def split: list.splits)

lemma blocking_attempt_None:
  "blocking_attempt rows iid = None \<longleftrightarrow> (\<forall>r\<in>set rows. at_incident_id r \<noteq> iid)"
  by (auto simp: blocking_attempt_def filter_empty_conv)

lemma blocking_attempt_Some: "blocking_attempt rows iid = Some r \<Longrightarrow> r \<in> set rows \<and> at_incident_id r = iid"
  unfolding blocking_attempt_def by (drule latest_row_mem) simp

lemma update_row_ids [simp]:
  assumes "\<And>r. at_incident_id (f r) = at_incident_id r"
  shows "map at_incident_id (update_row k f rows) = map at_incident_id rows"
  using assms by (induction rows) (auto simp: update_row_def)

lemma insert_claim_Some: "insert_claim row rows = Some rows' \<Longrightarrow> rows' = rows @ [row]"
  by (auto simp: insert_claim_def split: if_splits)

end
