(* ===== verification/Redis.thy ===== *)
theory Redis
  imports Prelude
begin

text \<open>
  The Redis server, which is not part of the repository: the commands the sources issue are the
  fields of a parameter \<open>'r redis_api\<close>, and what the sources rely on are the laws of the locale
  \<open>redis\<close>, stated through the view of a store as a map from keys to a text and an expiry time. A
  command that raises (a lost connection, a value that is not a number) is \<open>None\<close> and changes
  nothing. Times are whole seconds. \<open>kv\<close> is a store that has the laws.
\<close>

section \<open>Interface\<close>

record 'r redis_api =
  r_get :: "'r \<Rightarrow> int \<Rightarrow> string \<Rightarrow> string option option"
  r_set :: "'r \<Rightarrow> int \<Rightarrow> string \<Rightarrow> string \<Rightarrow> int \<Rightarrow> bool \<Rightarrow> (bool \<times> 'r) option"
  r_incrby :: "'r \<Rightarrow> int \<Rightarrow> string \<Rightarrow> int \<Rightarrow> (int \<times> 'r) option"
  r_expire :: "'r \<Rightarrow> int \<Rightarrow> string \<Rightarrow> int \<Rightarrow> (bool \<times> 'r) option"
  r_delete :: "'r \<Rightarrow> int \<Rightarrow> string \<Rightarrow> 'r option"
  r_exists :: "'r \<Rightarrow> int \<Rightarrow> string \<Rightarrow> bool option"
  r_ttl :: "'r \<Rightarrow> int \<Rightarrow> string \<Rightarrow> int option"

type_synonym entry = "string \<times> int option"

text \<open>Whether an entry is still there at a time; an entry without expiry stays.\<close>

fun alive :: "int \<Rightarrow> entry \<Rightarrow> bool" where
  "alive now (v, None) = True"
| "alive now (v, Some e) = (now < e)"

text \<open>What \<open>TTL\<close> answers: \<open>-2\<close> for no key, \<open>-1\<close> for a key that stays.\<close>

definition remaining_ttl :: "int \<Rightarrow> entry option \<Rightarrow> int" where
  "remaining_ttl now x = (case x of None \<Rightarrow> -2 | Some (v, None) \<Rightarrow> -1 | Some (v, Some e) \<Rightarrow> e - now)"

definition live :: "(string \<Rightarrow> entry option) \<Rightarrow> int \<Rightarrow> string \<Rightarrow> entry option" where
  "live m now k = (case m k of None \<Rightarrow> None | Some e \<Rightarrow> if alive now e then Some e else None)"

lemma live_upd [simp]:
  "live (m(k \<mapsto> x)) t k' = (if k' = k then (if alive t x then Some x else None) else live m t k')"
  "live (m(k := None)) t k' = (if k' = k then None else live m t k')"
  by (simp_all add: live_def)

text \<open>The decimal text of a number, as \<open>INCR\<close> reads and writes it.\<close>

definition redis_int :: "string \<Rightarrow> int option" where
  "redis_int s = (case s of
     [] \<Rightarrow> None
   | c # cs \<Rightarrow> if c = CHR ''-'' then (if cs \<noteq> [] \<and> list_all ch_digit cs then Some (- digits_value cs) else None)
              else if list_all ch_digit s then Some (digits_value s) else None)"

lemma redis_int_str [simp]: "redis_int (int_str i) = Some i"
proof (cases "i < 0")
  case True
  have "dec_str (- i) \<noteq> []" by (subst dec_str.simps) simp
  with True show ?thesis
    by (auto simp: redis_int_def int_str_def list_all_iff digits_value_dec_str intro: dec_str_digits [of "- i"])
next
  case False
  then have d: "\<And>c. c \<in> set (dec_str i) \<Longrightarrow> ch_digit c" by (auto intro: dec_str_digits [of i])
  obtain c cs where c: "dec_str i = c # cs" by (metis dec_str.simps neq_Nil_conv snoc_eq_iff_butlast)
  with d [of c] have "c \<noteq> CHR ''-''" by (auto simp: ch_digit_def)
  with False c d show ?thesis
    using digits_value_dec_str [of i] by (auto simp: redis_int_def int_str_def list_all_iff)
qed

locale redis =
  fixes api :: "'r redis_api"
    and view :: "'r \<Rightarrow> string \<Rightarrow> entry option"
    and up :: "'r \<Rightarrow> bool"
  assumes get_view: "up r \<Longrightarrow> r_get api r now k = Some (map_option fst (live (view r) now k))"
    and set_view: "up r \<Longrightarrow> \<not> (nx \<and> live (view r) now k \<noteq> None) \<Longrightarrow>
          \<exists>r'. r_set api r now k v ex nx = Some (True, r') \<and> up r' \<and>
               live (view r') = live ((view r)(k \<mapsto> (v, Some (now + ex))))"
    and set_nx_lost: "up r \<Longrightarrow> live (view r) now k \<noteq> None \<Longrightarrow> r_set api r now k v ex True = Some (False, r)"
    and incr_view: "up r \<Longrightarrow> (case live (view r) now k of None \<Rightarrow> Some (0, None)
                        | Some (v, e) \<Rightarrow> map_option (\<lambda>n. (n, e)) (redis_int v)) = Some (n, e) \<Longrightarrow>
          \<exists>r'. r_incrby api r now k d = Some (n + d, r') \<and> up r' \<and>
               live (view r') = live ((view r)(k \<mapsto> (int_str (n + d), e)))"
    and expire_view: "up r \<Longrightarrow> live (view r) now k = Some (v, e) \<Longrightarrow>
          \<exists>r'. r_expire api r now k s = Some (True, r') \<and> up r' \<and>
               live (view r') = live ((view r)(k \<mapsto> (v, Some (now + s))))"
    and expire_missing: "up r \<Longrightarrow> live (view r) now k = None \<Longrightarrow> r_expire api r now k s = Some (False, r)"
    and delete_view: "up r \<Longrightarrow>
          \<exists>r'. r_delete api r now k = Some r' \<and> up r' \<and> live (view r') = live ((view r)(k := None))"
    and exists_view: "up r \<Longrightarrow> r_exists api r now k = Some (live (view r) now k \<noteq> None)"
    and ttl_view: "up r \<Longrightarrow> r_ttl api r now k = Some (remaining_ttl now (live (view r) now k))"
begin

text \<open>An open key after a set, at any later time before it expires.\<close>

lemma set_then_get:
  assumes "up r" and "\<not> (nx \<and> live (view r) now k \<noteq> None)" and "r_set api r now k v ex nx = Some (b, r')"
  shows "up r' \<and> live (view r') now' k = (if now' < now + ex then Some (v, Some (now + ex)) else None)"
  using set_view [OF assms(1,2), of v ex] assms(3) by (auto simp: live_def)

end

section \<open>A store with these laws\<close>

type_synonym kv = "(string \<times> entry) list"

definition kv_get :: "kv \<Rightarrow> int \<Rightarrow> string \<Rightarrow> string option option" where
  "kv_get r now k = Some (map_option fst (live (map_of r) now k))"

definition kv_set :: "kv \<Rightarrow> int \<Rightarrow> string \<Rightarrow> string \<Rightarrow> int \<Rightarrow> bool \<Rightarrow> (bool \<times> kv) option" where
  "kv_set r now k v ex nx =
     (if nx \<and> live (map_of r) now k \<noteq> None then Some (False, r)
      else Some (True, AList.update k (v, Some (now + ex)) r))"

definition kv_incrby :: "kv \<Rightarrow> int \<Rightarrow> string \<Rightarrow> int \<Rightarrow> (int \<times> kv) option" where
  "kv_incrby r now k d =
     (case (case live (map_of r) now k of None \<Rightarrow> Some (0, None)
              | Some (v, e) \<Rightarrow> map_option (\<lambda>n. (n, e)) (redis_int v)) of
        None \<Rightarrow> None
      | Some (n, e) \<Rightarrow> Some (n + d, AList.update k (int_str (n + d), e) r))"

definition kv_expire :: "kv \<Rightarrow> int \<Rightarrow> string \<Rightarrow> int \<Rightarrow> (bool \<times> kv) option" where
  "kv_expire r now k s =
     (case live (map_of r) now k of
        None \<Rightarrow> Some (False, r)
      | Some (v, e) \<Rightarrow> Some (True, AList.update k (v, Some (now + s)) r))"

definition kv_delete :: "kv \<Rightarrow> int \<Rightarrow> string \<Rightarrow> kv option" where
  "kv_delete r now k = Some (AList.delete k r)"

definition kv_exists :: "kv \<Rightarrow> int \<Rightarrow> string \<Rightarrow> bool option" where
  "kv_exists r now k = Some (live (map_of r) now k \<noteq> None)"

definition kv_ttl :: "kv \<Rightarrow> int \<Rightarrow> string \<Rightarrow> int option" where
  "kv_ttl r now k = Some (remaining_ttl now (live (map_of r) now k))"

definition kv_api :: "kv redis_api" where
  "kv_api = \<lparr>r_get = kv_get, r_set = kv_set, r_incrby = kv_incrby, r_expire = kv_expire,
     r_delete = kv_delete, r_exists = kv_exists, r_ttl = kv_ttl\<rparr>"

interpretation kv: redis kv_api map_of "\<lambda>_. True"
  by unfold_locales
    (auto simp: kv_api_def kv_get_def kv_set_def kv_incrby_def kv_expire_def kv_delete_def kv_exists_def kv_ttl_def
      update_conv' delete_conv' split: option.splits)

end
