(* ===== verification/Kubectl_Breaker.thy ===== *)
theory Kubectl_Breaker
  imports Redis
begin

text \<open>
  \<open>app/knowledge_graph/kubectl_breaker.py\<close>: the circuit breaker in front of every \<open>kubectl\<close> call. Its
  state lives in Redis, shared by all worker processes. \<open>subprocess.run\<close> is the parameter \<open>kubectl\<close>: what
  it gives may depend on every command run before, which the world records in \<open>kw_log\<close>.
\<close>

record breaker_config =
  FAILURES_TO_OPEN :: int
  OPEN_SECONDS :: int

datatype outcome =
    Completed int string string
  | TimeoutExpired
  | FileNotFound
  | OtherError string
  | CircuitOpen

type_synonym argv = "string list"
type_synonym kubectl_bin = "argv list \<Rightarrow> argv \<Rightarrow> outcome"

text \<open>
  \<open>kw_redis\<close> is \<open>None\<close> when no client can be built. \<open>kw_log\<close> has the commands handed to the operating
  system, oldest first, and \<open>kw_audit\<close> the events of the audit stream.
\<close>

record 'r kworld =
  kw_redis :: "'r option"
  kw_log :: "argv list"
  kw_audit :: "(string \<times> pydict) list"

definition KEY_FAILURES :: string where "KEY_FAILURES = ''kg:kubectl:cb:failures''"
definition KEY_OPEN :: string where "KEY_OPEN = ''kg:kubectl:cb:open''"

definition circuit_is_open :: "'r redis_api \<Rightarrow> int \<Rightarrow> 'r option \<Rightarrow> bool" where
  "circuit_is_open api now red =
     (case red of
        None \<Rightarrow> False
      | Some r \<Rightarrow> (case r_get api r now KEY_OPEN of Some (Some v) \<Rightarrow> v \<noteq> [] | _ \<Rightarrow> False))"

text \<open>\<open>True\<close>: the call may go on; \<open>False\<close>: \<open>KubectlCircuitOpen\<close> is raised.\<close>

definition guard_kubectl :: "'r redis_api \<Rightarrow> int \<Rightarrow> 'r option \<Rightarrow> bool" where
  "guard_kubectl api now red =
     (case red of
        None \<Rightarrow> True
      | Some r \<Rightarrow> (case r_get api r now KEY_OPEN of Some (Some v) \<Rightarrow> v = [] | _ \<Rightarrow> True))"

definition record_failure :: "'r redis_api \<Rightarrow> breaker_config \<Rightarrow> int \<Rightarrow> 'r \<Rightarrow> 'r" where
  "record_failure api cfg now r =
     (case r_incrby api r now KEY_FAILURES 1 of
        None \<Rightarrow> r
      | Some (fails, r1) \<Rightarrow>
          (case r_expire api r1 now KEY_FAILURES (OPEN_SECONDS cfg * 2) of
             None \<Rightarrow> r1
           | Some (_, r2) \<Rightarrow>
               if FAILURES_TO_OPEN cfg \<le> fails
               then (case r_set api r2 now KEY_OPEN ''1'' (OPEN_SECONDS cfg) False of
                       None \<Rightarrow> r2
                     | Some (_, r3) \<Rightarrow>
                         (case r_delete api r3 now KEY_FAILURES of None \<Rightarrow> r3 | Some r4 \<Rightarrow> r4))
               else r2))"

definition record_success :: "'r redis_api \<Rightarrow> int \<Rightarrow> 'r \<Rightarrow> 'r" where
  "record_success api now r =
     (case r_delete api r now KEY_FAILURES of None \<Rightarrow> r | Some r1 \<Rightarrow> r1)"

definition run_kubectl ::
  "'r redis_api \<Rightarrow> breaker_config \<Rightarrow> kubectl_bin \<Rightarrow> int \<Rightarrow> bool \<Rightarrow> argv \<Rightarrow> 'r kworld \<Rightarrow> outcome \<times> 'r kworld" where
  "run_kubectl api cfg kubectl now respect_breaker args w =
     (if respect_breaker \<and> \<not> guard_kubectl api now (kw_redis w) then (CircuitOpen, w)
      else
        (let out = kubectl (kw_log w) args;
             w1 = w\<lparr>kw_log := kw_log w @ [args]\<rparr>;
             upd = (case out of
                      Completed rc _ _ \<Rightarrow>
                        (if rc \<noteq> 0 then record_failure api cfg now else record_success api now)
                    | _ \<Rightarrow> record_failure api cfg now)
         in (out, w1\<lparr>kw_redis := map_option upd (kw_redis w)\<rparr>)))"

section \<open>Lemmas\<close>

lemma keys_differ [simp]: "KEY_FAILURES \<noteq> KEY_OPEN" "KEY_OPEN \<noteq> KEY_FAILURES"
  by (simp_all add: KEY_FAILURES_def KEY_OPEN_def)

lemma live_put: "live (m(k := x)) now k' = (if k' = k then live (\<lambda>_. x) now k else live m now k')"
  by (simp add: live_def)

lemma live_const [simp]:
  "live (\<lambda>_. None) now k = None"
  "live (\<lambda>_. Some (v, None)) now k = Some (v, None)"
  "live (\<lambda>_. Some (v, Some e)) now k = (if now < e then Some (v, Some e) else None)"
  by (simp_all add: live_def)

lemma guard_is_open: "guard_kubectl api now red \<longleftrightarrow> \<not> circuit_is_open api now red"
  by (auto simp: guard_kubectl_def circuit_is_open_def split: option.splits)

context redis
begin

text \<open>The store after \<open>k\<close> failures in a row, the last of them at \<open>t\<close>, with the circuit closed.\<close>

definition counting :: "breaker_config \<Rightarrow> nat \<Rightarrow> int \<Rightarrow> 'r \<Rightarrow> bool" where
  "counting cfg k t r \<longleftrightarrow> up r \<and> (\<forall>t'. live (view r) t' KEY_OPEN = None) \<and>
     (\<forall>t'. live (view r) t' KEY_FAILURES =
        (if k = 0 \<or> t + OPEN_SECONDS cfg * 2 \<le> t' then None
         else Some (int_str (int k), Some (t + OPEN_SECONDS cfg * 2))))"

text \<open>The store once the circuit has opened at \<open>t\<close>.\<close>

definition opened :: "breaker_config \<Rightarrow> int \<Rightarrow> 'r \<Rightarrow> bool" where
  "opened cfg t r \<longleftrightarrow> up r \<and> (\<forall>t'. live (view r) t' KEY_FAILURES = None) \<and>
     (\<forall>t'. live (view r) t' KEY_OPEN =
        (if t' < t + OPEN_SECONDS cfg then Some (''1'', Some (t + OPEN_SECONDS cfg)) else None))"

lemma failure_counted:
  assumes c: "counting cfg k t r" and w: "k = 0 \<or> t1 < t + OPEN_SECONDS cfg * 2"
    and pos: "0 < OPEN_SECONDS cfg"
  shows "\<exists>r1 r2 b. r_incrby api r t1 KEY_FAILURES 1 = Some (int (Suc k), r1) \<and>
    r_expire api r1 t1 KEY_FAILURES (OPEN_SECONDS cfg * 2) = Some (b, r2) \<and> counting cfg (Suc k) t1 r2"
proof -
  have up: "up r" using c by (simp add: counting_def)
  define e where "e = (if k = 0 then None else Some (t + OPEN_SECONDS cfg * 2))"
  have l: "(case live (view r) t1 KEY_FAILURES of None \<Rightarrow> Some (0, None)
       | Some (v, e) \<Rightarrow> map_option (\<lambda>n. (n, e)) (redis_int v)) = Some (int k, e)"
    using c w by (auto simp: counting_def e_def)
  obtain r1 where r1: "r_incrby api r t1 KEY_FAILURES 1 = Some (int k + 1, r1)" "up r1"
    "live (view r1) = live ((view r)(KEY_FAILURES \<mapsto> (int_str (int k + 1), e)))"
    using incr_view [OF up l, of 1] by auto
  have l1: "live (view r1) t1 KEY_FAILURES = Some (int_str (int k + 1), e)"
    using w by (auto simp: r1 live_put e_def)
  obtain r2 where r2: "r_expire api r1 t1 KEY_FAILURES (OPEN_SECONDS cfg * 2) = Some (True, r2)" "up r2"
    "live (view r2) = live ((view r1)(KEY_FAILURES \<mapsto> (int_str (int k + 1), Some (t1 + OPEN_SECONDS cfg * 2))))"
    using expire_view [OF r1(2) l1, of "OPEN_SECONDS cfg * 2"] by auto
  have "counting cfg (Suc k) t1 r2"
    using c r1(3) r2 by (auto simp: counting_def live_put add.commute)
  with r1 r2 show ?thesis by (auto simp: add.commute)
qed

lemma failure_below:
  assumes "counting cfg k t r" and "k = 0 \<or> t1 < t + OPEN_SECONDS cfg * 2" and "0 < OPEN_SECONDS cfg"
    and "int (Suc k) < FAILURES_TO_OPEN cfg"
  shows "counting cfg (Suc k) t1 (record_failure api cfg t1 r)"
  using failure_counted [OF assms(1-3)] assms(4) by (auto simp: record_failure_def)

lemma failure_opens:
  assumes "counting cfg k t r" and "k = 0 \<or> t1 < t + OPEN_SECONDS cfg * 2" and "0 < OPEN_SECONDS cfg"
    and "FAILURES_TO_OPEN cfg \<le> int (Suc k)"
  shows "opened cfg t1 (record_failure api cfg t1 r)"
proof -
  obtain r1 r2 b where r: "r_incrby api r t1 KEY_FAILURES 1 = Some (int (Suc k), r1)"
    "r_expire api r1 t1 KEY_FAILURES (OPEN_SECONDS cfg * 2) = Some (b, r2)" "counting cfg (Suc k) t1 r2"
    using failure_counted [OF assms(1-3)] by blast
  then have "up r2" by (simp add: counting_def)
  then obtain r3 where r3: "r_set api r2 t1 KEY_OPEN ''1'' (OPEN_SECONDS cfg) False = Some (True, r3)" "up r3"
    "live (view r3) = live ((view r2)(KEY_OPEN \<mapsto> (''1'', Some (t1 + OPEN_SECONDS cfg))))"
    using set_view [of r2 False t1 KEY_OPEN "''1''" "OPEN_SECONDS cfg"] by auto
  from delete_view [OF r3(2), of t1 KEY_FAILURES] obtain r4 where
    r4: "r_delete api r3 t1 KEY_FAILURES = Some r4" "up r4" "live (view r4) = live ((view r3)(KEY_FAILURES := None))"
    by auto
  have "live (view r4) t' KEY_OPEN = (if t' < t1 + OPEN_SECONDS cfg then Some (''1'', Some (t1 + OPEN_SECONDS cfg)) else None)" for t'
    by (simp add: r4(3) live_put) (simp add: r3(3) live_put)
  moreover have "live (view r4) t' KEY_FAILURES = None" for t'
    by (simp add: r4(3) live_put)
  ultimately have "opened cfg t1 r4" using r4 by (simp add: opened_def)
  with r r3 r4 assms(4) show ?thesis by (simp add: record_failure_def)
qed

lemma success_resets: "counting cfg k t r \<Longrightarrow> counting cfg 0 t (record_success api t1 r)"
  using delete_view [of r t1 KEY_FAILURES] by (auto simp: counting_def record_success_def live_put)

lemma open_view:
  assumes "opened cfg t r"
  shows "circuit_is_open api t' (Some r) \<longleftrightarrow> t' < t + OPEN_SECONDS cfg"
  using assms get_view [of r t' KEY_OPEN] by (auto simp: opened_def circuit_is_open_def)

lemma closed_view: "counting cfg k t r \<Longrightarrow> \<not> circuit_is_open api t' (Some r)"
  using get_view [of r t' KEY_OPEN] by (auto simp: counting_def circuit_is_open_def)

text \<open>A row of failures at the times \<open>ts\<close>, each within the counter's lifetime of the one before.\<close>

lemma failures_run:
  assumes "counting cfg k t r" and "successively (\<lambda>a b. b < a + OPEN_SECONDS cfg * 2) ts"
    and "k = 0 \<or> ts = [] \<or> hd ts < t + OPEN_SECONDS cfg * 2" and "0 < OPEN_SECONDS cfg"
    and "int (k + length ts) < FAILURES_TO_OPEN cfg"
  shows "\<exists>t'. counting cfg (k + length ts) t' (foldl (\<lambda>r t. record_failure api cfg t r) r ts) \<and>
           (ts \<noteq> [] \<longrightarrow> t' = last ts) \<and> (ts = [] \<longrightarrow> t' = t)"
  using assms
proof (induction ts arbitrary: k t r)
  case (Cons t1 ts)
  have "counting cfg (Suc k) t1 (record_failure api cfg t1 r)"
    using Cons.prems by (intro failure_below [of cfg k t]) auto
  from Cons.IH [OF this] Cons.prems show ?case
    by (cases ts) auto
qed auto

lemma failures_open:
  assumes "counting cfg 0 t r" and "successively (\<lambda>a b. b < a + OPEN_SECONDS cfg * 2) (ts @ [t1])"
    and "0 < OPEN_SECONDS cfg" and "int (Suc (length ts)) = FAILURES_TO_OPEN cfg"
  shows "opened cfg t1 (foldl (\<lambda>r t. record_failure api cfg t r) r (ts @ [t1]))"
proof -
  have ts: "successively (\<lambda>a b. b < a + OPEN_SECONDS cfg * 2) ts"
    and last: "ts \<noteq> [] \<Longrightarrow> t1 < last ts + OPEN_SECONDS cfg * 2"
    using assms(2) by (auto simp: successively_append_iff)
  obtain t' where t': "counting cfg (length ts) t' (foldl (\<lambda>r t. record_failure api cfg t r) r ts)"
    "ts \<noteq> [] \<Longrightarrow> t' = last ts"
    using failures_run [OF assms(1) ts] assms(3,4) by auto
  show ?thesis
    using failure_opens [OF t'(1), of t1] t'(2) last assms(3,4) by (cases "ts = []") auto
qed

end

section \<open>Properties\<close>

text \<open>
  The breaker does what it is for: on a store without breaker state, fewer than
  \<open>FAILURES_TO_OPEN\<close> failures in a row, each within the counter's lifetime of the one before,
  leave the circuit closed for good; the failure that reaches the threshold opens it, for exactly
  \<open>OPEN_SECONDS\<close> seconds from that failure.
\<close>

theorem breaker_opens_at_threshold:
  assumes "redis api view up" and "up r"
    and "\<And>t'. live (view r) t' KEY_FAILURES = None" and "\<And>t'. live (view r) t' KEY_OPEN = None"
    and "0 < OPEN_SECONDS cfg" and "successively (\<lambda>a b. b < a + OPEN_SECONDS cfg * 2) (ts @ [t1])"
    and "int (length ts) < FAILURES_TO_OPEN cfg"
  shows "\<not> circuit_is_open api now (Some (foldl (\<lambda>r t. record_failure api cfg t r) r ts)) \<and>
    (int (Suc (length ts)) = FAILURES_TO_OPEN cfg \<longrightarrow>
      (circuit_is_open api now (Some (foldl (\<lambda>r t. record_failure api cfg t r) r (ts @ [t1])))
       \<longleftrightarrow> now < t1 + OPEN_SECONDS cfg))"
proof (intro conjI impI)
  have c: "redis.counting view up cfg 0 t1 r"
    using assms(1-4) by (simp add: redis.counting_def)
  have "successively (\<lambda>a b. b < a + OPEN_SECONDS cfg * 2) ts"
    using assms(6) by (simp add: successively_append_iff)
  with redis.failures_run [OF assms(1) c] assms(5,7)
  show "\<not> circuit_is_open api now (Some (foldl (\<lambda>r t. record_failure api cfg t r) r ts))"
    using redis.closed_view [OF assms(1)] by fastforce
  show "circuit_is_open api now (Some (foldl (\<lambda>r t. record_failure api cfg t r) r (ts @ [t1])))
      \<longleftrightarrow> now < t1 + OPEN_SECONDS cfg" if "int (Suc (length ts)) = FAILURES_TO_OPEN cfg"
    using redis.open_view [OF assms(1) redis.failures_open [OF assms(1) c assms(6,5) that]] .
qed

theorem breaker_opens_at_threshold_witness:
  "circuit_is_open kv_api 79
     (Some (foldl (\<lambda>r t. record_failure kv_api \<lparr>FAILURES_TO_OPEN = 3, OPEN_SECONDS = 60\<rparr> t r) [] [0, 10, 20]))
   \<and> \<not> circuit_is_open kv_api 80
     (Some (foldl (\<lambda>r t. record_failure kv_api \<lparr>FAILURES_TO_OPEN = 3, OPEN_SECONDS = 60\<rparr> t r) [] [0, 10, 20]))"
  using breaker_opens_at_threshold
    [OF kv.redis_axioms, of "[]" "\<lparr>FAILURES_TO_OPEN = 3, OPEN_SECONDS = 60\<rparr>" "[0, 10]" 20 79]
    breaker_opens_at_threshold
    [OF kv.redis_axioms, of "[]" "\<lparr>FAILURES_TO_OPEN = 3, OPEN_SECONDS = 60\<rparr>" "[0, 10]" 20 80]
  by (simp add: live_def)

text \<open>
  An open circuit keeps readers away from the API server without touching anything, and never
  stops a remediation: a call that respects the breaker runs its command exactly when the circuit
  is closed, a call that does not always runs it, and each call runs at most its own command, once.
\<close>

theorem run_kubectl_breaker:
  "(circuit_is_open api now (kw_redis w) \<longrightarrow>
      run_kubectl api cfg kubectl now True args w = (CircuitOpen, w)) \<and>
   (\<not> (respect \<and> circuit_is_open api now (kw_redis w)) \<longrightarrow>
      fst (run_kubectl api cfg kubectl now respect args w) = kubectl (kw_log w) args \<and>
      kw_log (snd (run_kubectl api cfg kubectl now respect args w)) = kw_log w @ [args])"
  by (auto simp: run_kubectl_def guard_is_open Let_def)

theorem run_kubectl_breaker_witness:
  "run_kubectl kv_api \<lparr>FAILURES_TO_OPEN = 3, OPEN_SECONDS = 60\<rparr> (\<lambda>_ _. TimeoutExpired) 5 True [''kubectl'']
     \<lparr>kw_redis = Some [(KEY_OPEN, (''1'', Some 10))], kw_log = [], kw_audit = []\<rparr>
   = (CircuitOpen, \<lparr>kw_redis = Some [(KEY_OPEN, (''1'', Some 10))], kw_log = [], kw_audit = []\<rparr>)"
proof -
  let ?w = "\<lparr>kw_redis = Some [(KEY_OPEN, (''1'', Some 10))], kw_log = [], kw_audit = []\<rparr>"
  have "circuit_is_open kv_api 5 (kw_redis ?w)"
    by (simp add: circuit_is_open_def kv_api_def kv_get_def live_def)
  with run_kubectl_breaker [of kv_api 5 ?w "\<lparr>FAILURES_TO_OPEN = 3, OPEN_SECONDS = 60\<rparr>" "\<lambda>_ _. TimeoutExpired" "[''kubectl'']" False]
  show ?thesis by blast
qed

end
