(* ===== verification/K8s_Guard.thy ===== *)
theory K8s_Guard
  imports Execution_Dsl Kubectl_Breaker
begin

text \<open>
  \<open>app/services/k8s_guard.py\<close> and \<open>app/services/k8s_service.py\<close>: the guard every operation passes before
  \<open>kubectl\<close> is called, and the service that checks an intent with it, enforces SAFE_MODE and runs the
  command. Audit events are part of the world; the telemetry spans are not modelled.
\<close>

section \<open>The guard\<close>

record K8sOperation =
  op_verb :: string
  op_resource :: string
  op_namespace :: string
  op_name :: "string option"
  op_body :: "pydict option"

definition READ_ONLY_VERBS :: "string list" where
  "READ_ONLY_VERBS = [''get'', ''list'', ''watch'']"

definition WRITE_VERBS :: "string list" where
  "WRITE_VERBS = [''patch'', ''create'']"

definition ALLOWED_RESOURCES :: "string list" where
  "ALLOWED_RESOURCES = [''pods'', ''deployments'', ''services'', ''configmaps'', ''ingresses'']"

definition privileged_text :: string where
  "privileged_text = [CHR 0x22] @ ''privileged'' @ [CHR 0x22] @ '': true''"

definition hostnetwork_text :: string where
  "hostnetwork_text = [CHR 0x22] @ ''hostnetwork'' @ [CHR 0x22] @ '': true''"

definition validate_body :: "pydict option \<Rightarrow> bool result" where
  "validate_body body =
     (case body of
        None \<Rightarrow> Inr True
      | Some b \<Rightarrow>
          if b = [] then Inr True
          else (let body_str = lower (json_dumps False '', '' '': '' (PDict b)) in
                if contains body_str privileged_text
                then Inl (PermissionError ''Privileged containers are strictly forbidden.'')
                else if contains body_str hostnetwork_text
                then Inl (PermissionError ''hostNetwork usage is blocked for security reasons.'')
                else Inr True))"

definition validate :: "K8sOperation \<Rightarrow> bool result" where
  "validate op =
     (let verb = lower (op_verb op); ns = op_namespace op in
      if is_forbidden ns
      then Inl (PermissionError (''Access to namespace '' @ ns @ '' is blocked by security policy.''))
      else if lower (op_resource op) \<notin> set ALLOWED_RESOURCES
      then Inl (PermissionError (''Resource '' @ op_resource op @ '' is not in the approved list.''))
      else if verb \<in> set WRITE_VERBS \<and> is_read_only ns
      then Inl (PermissionError (''Write actions are not permitted in '' @ ns @ '' (read-only tier).''))
      else if verb \<in> set WRITE_VERBS \<and> \<not> is_write_namespace ns
      then Inl (PermissionError (''Write actions are only permitted in squad-* namespaces, not '' @ ns))
      else if verb \<notin> set WRITE_VERBS \<and> verb \<notin> set READ_ONLY_VERBS
      then Inl (PermissionError (''Action '' @ verb @ '' is not permitted for AI-driven operations.''))
      else validate_body (op_body op))"

section \<open>The service\<close>

definition ACTION_OP_MAP :: "(ActionType \<times> (string \<times> string)) list" where
  "ACTION_OP_MAP =
     [(RESTART_DEPLOYMENT, (''patch'', ''deployments'')),
      (SCALE_DEPLOYMENT, (''patch'', ''deployments'')),
      (GET_LOGS, (''get'', ''pods'')),
      (DESCRIBE_RESOURCE, (''get'', [])),
      (GET_PODS, (''list'', ''pods''))]"

definition RESOURCE_PLURAL :: "(string \<times> string) list" where
  "RESOURCE_PLURAL =
     [(''deployment'', ''deployments''), (''pod'', ''pods''), (''service'', ''services''),
      (''ingress'', ''ingresses'')]"

definition intent_to_operation :: "ExecutionIntent \<Rightarrow> K8sOperation result" where
  "intent_to_operation intent =
     (case map_of ACTION_OP_MAP (ei_action intent) of
        None \<Rightarrow> Inl (ValueError ''Unsupported action type for guard'')
      | Some (verb, default_resource) \<Rightarrow>
          Inr \<lparr>op_verb = verb,
               op_resource = (if default_resource \<noteq> [] then default_resource
                              else (case map_of RESOURCE_PLURAL (lower (ei_resource_type intent)) of
                                      Some r \<Rightarrow> r | None \<Rightarrow> [])),
               op_namespace = ei_namespace intent, op_name = Some (ei_resource_name intent),
               op_body = None\<rparr>)"

record k8s_config =
  SAFE_MODE :: bool
  APPROVAL_REQUIRED :: bool
  kc_breaker :: breaker_config

definition log_event :: "string \<Rightarrow> pydict \<Rightarrow> 'r kworld \<Rightarrow> 'r kworld" where
  "log_event event_type details w = w\<lparr>kw_audit := kw_audit w @ [(event_type, details)]\<rparr>"

definition error_result :: "string \<Rightarrow> bool \<Rightarrow> pydict" where
  "error_result err dry_run =
     [(''success'', PBool False), (''error'', PStr err), (''dry_run'', PBool dry_run)]"

definition run_kubectl_cmd ::
  "'r redis_api \<Rightarrow> k8s_config \<Rightarrow> kubectl_bin \<Rightarrow> int \<Rightarrow> argv \<Rightarrow> bool \<Rightarrow> bool \<Rightarrow> string \<Rightarrow> 'r kworld \<Rightarrow> pydict \<times> 'r kworld" where
  "run_kubectl_cmd api cfg kubectl now argv dry_run post_approval risk w =
     (if argv = [] \<or> hd argv \<noteq> ''kubectl''
      then ([(''success'', PBool False), (''error'', PStr ''Invalid command. Must be kubectl.'')], w)
      else
        (let command = join '' '' argv in
         if \<not> dry_run \<and> SAFE_MODE cfg \<and> APPROVAL_REQUIRED cfg \<and> \<not> post_approval
         then (error_result ''SAFE_MODE: Manual approval required.'' False,
               log_event ''K8S_BLOCKED_NO_APPROVAL''
                 [(''command'', PStr command), (''risk'', PStr risk)] w)
         else
           (let full_cmd = (if dry_run \<and> \<not> list_ex (\<lambda>flag. startswith flag ''--dry-run'') argv
                            then argv @ [''--dry-run=server''] else argv);
                w1 = log_event ''K8S_COMMAND_ATTEMPT''
                       [(''command'', PStr command), (''risk'', PStr risk),
                        (''dry_run'', PBool dry_run), (''post_approval'', PBool post_approval)] w;
                (out, w2) = run_kubectl api (kc_breaker cfg) kubectl now False full_cmd w1
            in (case out of
                  Completed rc stdout stderr \<Rightarrow>
                    ([(''success'', PBool (rc = 0)), (''stdout'', PStr stdout), (''stderr'', PStr stderr),
                      (''command'', PStr (join '' '' full_cmd)), (''exit_code'', PInt rc),
                      (''dry_run'', PBool dry_run)],
                     log_event ''K8S_COMMAND_RESULT''
                       [(''command'', PStr command), (''success'', PBool (rc = 0)),
                        (''exit_code'', PInt rc)] w2)
                | TimeoutExpired \<Rightarrow>
                    (error_result ''kubectl_timeout'' dry_run,
                     log_event ''K8S_COMMAND_TIMEOUT''
                       [(''command'', PStr command), (''timeout_s'', PInt 30)] w2)
                | FileNotFound \<Rightarrow> (error_result ''kubectl_binary_missing'' dry_run, w2)
                | OtherError e \<Rightarrow> (error_result e dry_run, w2)
                | CircuitOpen \<Rightarrow> (error_result ''circuit open'' dry_run, w2)))))"

definition execute_intent ::
  "'r redis_api \<Rightarrow> k8s_config \<Rightarrow> kubectl_bin \<Rightarrow> int \<Rightarrow> ExecutionIntent \<Rightarrow> bool \<Rightarrow> bool \<Rightarrow> 'r kworld
    \<Rightarrow> pydict result \<times> 'r kworld" where
  "execute_intent api cfg kubectl now intent dry_run post_approval w =
     (case rbind (intent_to_operation intent) validate of
        Inl (PermissionError e) \<Rightarrow>
          (Inr (error_result (''GUARDRAIL_BLOCK: '' @ e) dry_run),
           log_event ''K8S_GUARDRAIL_BLOCK''
             [(''intent'', PDict (model_dump intent)), (''error'', PStr e)] w)
      | Inl (ValueError e) \<Rightarrow> (Inr (error_result (''GUARDRAIL_BLOCK: '' @ e) dry_run), w)
      | Inl e \<Rightarrow> (Inl e, w)
      | Inr _ \<Rightarrow>
          (case to_argv intent of
             Inl e \<Rightarrow> (Inl e, w)
           | Inr argv \<Rightarrow>
               (let (res, w') = run_kubectl_cmd api cfg kubectl now argv dry_run post_approval (ei_risk intent) w
                in (Inr res, w'))))"

section \<open>Lemmas\<close>

lemma validate_body_exn: "validate_body b = Inl e \<Longrightarrow> \<exists>m. e = PermissionError m"
  by (auto simp: validate_body_def Let_def split: option.splits if_splits)

lemma validate_exn: "validate op = Inl e \<Longrightarrow> \<exists>m. e = PermissionError m"
  by (auto simp: validate_def Let_def split: if_splits dest: validate_body_exn)

lemma verbs_disjoint: "v \<in> set READ_ONLY_VERBS \<Longrightarrow> v \<notin> set WRITE_VERBS"
  by (auto simp: READ_ONLY_VERBS_def WRITE_VERBS_def)

lemma write_not_read_only: "is_write_namespace ns \<Longrightarrow> \<not> is_read_only ns \<and> \<not> is_forbidden ns"
  using write_starts_squad squad_not_read_only squad_not_forbidden by blast

lemma intent_to_operation_simps [simp]:
  "ei_action i \<in> {RESTART_DEPLOYMENT, SCALE_DEPLOYMENT} \<Longrightarrow> intent_to_operation i =
     Inr \<lparr>op_verb = ''patch'', op_resource = ''deployments'', op_namespace = ei_namespace i,
          op_name = Some (ei_resource_name i), op_body = None\<rparr>"
  by (auto simp: intent_to_operation_def ACTION_OP_MAP_def)

lemma lower_lits: "lower ''patch'' = ''patch''" "lower ''deployments'' = ''deployments''"
  by code_simp+

lemma guard_mutating:
  assumes "ei_action i \<in> {RESTART_DEPLOYMENT, SCALE_DEPLOYMENT}"
  shows "is_ok (rbind (intent_to_operation i) validate) \<longleftrightarrow> is_write_namespace (ei_namespace i)"
  using assms write_not_read_only [of "ei_namespace i"]
  by (auto simp: validate_def Let_def lower_lits ALLOWED_RESOURCES_def WRITE_VERBS_def validate_body_def)

lemma run_kubectl_log: "kw_log (snd (run_kubectl api cfg kubectl now False args w)) = kw_log w @ [args]"
  by (simp add: run_kubectl_def Let_def)

lemma log_event_log [simp]: "kw_log (log_event e d w) = kw_log w"
  by (simp add: log_event_def)

lemma run_kubectl_cmd_log:
  assumes "argv \<noteq> []" and "hd argv = ''kubectl''"
  shows "kw_log (snd (run_kubectl_cmd api cfg kubectl now argv dry post risk w)) =
    (if \<not> dry \<and> SAFE_MODE cfg \<and> APPROVAL_REQUIRED cfg \<and> \<not> post then kw_log w
     else kw_log w @ [if dry \<and> \<not> list_ex (\<lambda>flag. startswith flag ''--dry-run'') argv
                      then argv @ [''--dry-run=server''] else argv])"
  using assms
  by (simp add: run_kubectl_cmd_def Let_def split_beta run_kubectl_log split: outcome.split)

lemma to_argv_hd: "to_argv i = Inr argv \<Longrightarrow> argv \<noteq> [] \<and> hd argv = ''kubectl''"
  by (cases "ei_action i") (auto simp: to_argv_def Let_def split: if_splits)

lemma mutating_cases: "is_mutating a = Inr True \<longleftrightarrow> a \<in> {RESTART_DEPLOYMENT, SCALE_DEPLOYMENT}"
  by (cases a) (simp_all add: is_mutating_def)

lemma no_dry_run_flag:
  assumes "a \<in> {RESTART_DEPLOYMENT, SCALE_DEPLOYMENT}" and "ei_action i = a"
    and "k8s_name (ei_namespace i)" and "to_argv i = Inr argv"
  shows "\<not> list_ex (\<lambda>flag. startswith flag ''--dry-run'') argv"
proof -
  have "\<not> startswith (ei_namespace i) ''--dry-run''"
    using assms(3) k8s_name_no_flag [of "ei_namespace i"] by (auto simp: startswith_iff)
  with assms show ?thesis by (auto simp: to_argv_def Let_def split: if_splits)
qed

lemma execute_intent_log:
  assumes "is_ok (rbind (intent_to_operation i) validate)" and "to_argv i = Inr argv"
  shows "kw_log (snd (execute_intent api cfg kubectl now i dry post w)) =
    kw_log (snd (run_kubectl_cmd api cfg kubectl now argv dry post (ei_risk i) w))"
  using assms by (auto simp: execute_intent_def is_ok_iff split_beta)

lemma execute_intent_blocked_log:
  assumes "\<not> is_ok (rbind (intent_to_operation i) validate)"
  shows "kw_log (snd (execute_intent api cfg kubectl now i dry post w)) = kw_log w"
  using assms
  by (cases "rbind (intent_to_operation i) validate")
    (auto simp: execute_intent_def split: exn.splits)

section \<open>A body that asks for privileges\<close>

inductive nested_true :: "string \<Rightarrow> pyval \<Rightarrow> bool" for key where
  here: "(key, PBool True) \<in> set d \<Longrightarrow> nested_true key (PDict d)"
| in_dict: "(k, v) \<in> set d \<Longrightarrow> nested_true key v \<Longrightarrow> nested_true key (PDict d)"
| in_list: "v \<in> set xs \<Longrightarrow> nested_true key v \<Longrightarrow> nested_true key (PList xs)"

lemma contains_append: "contains s sub \<Longrightarrow> contains (u @ s @ v) sub"
  unfolding contains_iff by (metis append.assoc)

lemma contains_join: "s \<in> set xs \<Longrightarrow> contains s sub \<Longrightarrow> contains (join sep xs) sub"
proof (induction sep xs rule: join.induct)
  case (3 sep s' t ts)
  then show ?case
    using contains_append [of s sub "[]" "sep @ join sep (t # ts)"]
      contains_append [of "join sep (t # ts)" sub "s' @ sep" "[]"] by auto
qed auto

lemma contains_lower: "contains s sub \<Longrightarrow> contains (lower s) (lower sub)"
  unfolding contains_iff by (metis lower_append)

lemma contains_wrapped:
  "s \<in> set xs \<Longrightarrow> contains s sub \<Longrightarrow> contains (l @ join sep xs @ r) sub"
  by (rule contains_append, rule contains_join)

lemma json_dict_entry:
  "(k, v) \<in> set d \<Longrightarrow> json_str k @ ksep @ json_dumps b isep ksep v \<in>
     set (map (\<lambda>(k, t). json_str k @ ksep @ t) (map (\<lambda>(k, v). (k, json_dumps b isep ksep v)) d))"
  by force

lemma contains_refl: "contains s s"
  unfolding contains_iff by (metis append_Nil append_Nil2)

lemma nested_true_text:
  assumes "nested_true key v"
  shows "contains (json_dumps False isep '': '' v) (json_str key @ '': true'')"
  using assms
proof induction
  case (here d)
  show ?case
    unfolding json_dumps.simps if_False id_apply
    by (rule contains_wrapped [OF json_dict_entry [OF here]]) (simp add: contains_refl)
next
  case (in_dict k v d)
  have "contains (json_str k @ '': '' @ json_dumps False isep '': '' v) (json_str key @ '': true'')"
    using contains_append [OF in_dict.IH, of "json_str k @ '': ''" "[]"] by simp
  then show ?case
    unfolding json_dumps.simps if_False id_apply
    by (rule contains_wrapped [OF json_dict_entry [OF in_dict.hyps(1)]])
next
  case (in_list v xs)
  then show ?case
    unfolding json_dumps.simps by (intro contains_wrapped) auto
qed

lemma lower_keys:
  "lower (json_str ''privileged'' @ '': true'') = privileged_text"
  "lower (json_str ''hostNetwork'' @ '': true'') = hostnetwork_text"
  by code_simp+

section \<open>Properties\<close>

text \<open>
  What the guard lets through, exactly: no forbidden namespace, a listed resource, a reading verb
  or a writing verb in a squad namespace, and a body without the two privilege texts. The check
  against the read-only tier never decides on its own: whatever it refuses is outside the write
  allowlist too.
\<close>

theorem guard_spec:
  "is_ok (validate op) \<longleftrightarrow>
     \<not> is_forbidden (op_namespace op) \<and> lower (op_resource op) \<in> set ALLOWED_RESOURCES \<and>
     (lower (op_verb op) \<in> set READ_ONLY_VERBS \<or>
      lower (op_verb op) \<in> set WRITE_VERBS \<and> is_write_namespace (op_namespace op)) \<and>
     is_ok (validate_body (op_body op))"
  using verbs_disjoint [of "lower (op_verb op)"] write_not_read_only [of "op_namespace op"]
  by (auto simp: validate_def Let_def)

text \<open>
  No privileged body gets through: a body in which some dictionary at any depth, inside lists
  included, binds \<open>privileged\<close> or \<open>hostNetwork\<close> to true is refused, although the guard only looks for a
  text in the serialised body.
\<close>

theorem guard_refuses_nested_privileges:
  assumes "nested_true ''privileged'' (PDict b) \<or> nested_true ''hostNetwork'' (PDict b)"
  shows "\<not> is_ok (validate \<lparr>op_verb = v, op_resource = r, op_namespace = n, op_name = m, op_body = Some b\<rparr>)"
proof -
  have "contains (lower (json_dumps False '', '' '': '' (PDict b))) privileged_text \<or>
        contains (lower (json_dumps False '', '' '': '' (PDict b))) hostnetwork_text"
    using assms contains_lower [OF nested_true_text] lower_keys by metis
  moreover have "b \<noteq> []" using assms by (auto elim: nested_true.cases)
  ultimately show ?thesis by (auto simp: validate_def validate_body_def Let_def)
qed

theorem guard_refuses_nested_privileges_witness:
  "\<not> is_ok (validate \<lparr>op_verb = ''patch'', op_resource = ''deployments'', op_namespace = ''squad-1'',
      op_name = None,
      op_body = Some [(''spec'', PDict [(''containers'', PList [PDict [(''privileged'', PBool True)]])])]\<rparr>)"
proof -
  let ?c = "PList [PDict [(''privileged'', PBool True)]]"
  have "nested_true ''privileged'' ?c"
    by (rule nested_true.in_list [of "PDict [(''privileged'', PBool True)]"]) (simp_all add: nested_true.here)
  then have "nested_true ''privileged'' (PDict [(''containers'', ?c)])"
    by (auto intro: nested_true.in_dict [of "''containers''" ?c])
  then have "nested_true ''privileged'' (PDict [(''spec'', PDict [(''containers'', ?c)])])"
    by (auto intro: nested_true.in_dict [of "''spec''" "PDict [(''containers'', ?c)]"])
  then show ?thesis by (intro guard_refuses_nested_privileges disjI1)
qed

text \<open>
  C3. What running a validated mutating intent can do to the cluster: it runs at most one command,
  that of the intent, and only in a squad namespace; a dry run carries \<open>--dry-run=server\<close> as its last
  argument; and under SAFE_MODE with approvals a command without it is run only on the call from the
  approval flow.
\<close>

theorem execute_intent_writes:
  assumes "model_validate obj = Inr i" and "is_mutating (ei_action i) = Inr True"
  shows "\<exists>argv. to_argv i = Inr argv \<and>
    kw_log (snd (execute_intent api cfg kubectl now i dry post w)) =
      (if is_write_namespace (ei_namespace i) \<and>
          (dry \<or> post \<or> \<not> SAFE_MODE cfg \<or> \<not> APPROVAL_REQUIRED cfg)
       then kw_log w @ [if dry then argv @ [''--dry-run=server''] else argv] else kw_log w)"
proof -
  have a: "ei_action i \<in> {RESTART_DEPLOYMENT, SCALE_DEPLOYMENT}" using assms(2) by (simp add: mutating_cases)
  obtain argv where argv: "to_argv i = Inr argv" using to_argv_total by blast
  have nd: "\<not> list_ex (\<lambda>flag. startswith flag ''--dry-run'') argv"
    using no_dry_run_flag [OF a refl _ argv] model_validate_wf [OF assms(1)] by (simp add: intent_wf_def)
  show ?thesis
  proof (cases "is_write_namespace (ei_namespace i)")
    case True
    then have "is_ok (rbind (intent_to_operation i) validate)" using guard_mutating [OF a] by simp
    with True nd argv to_argv_hd [OF argv] show ?thesis
      by (simp add: execute_intent_log [OF _ argv] run_kubectl_cmd_log)
  next
    case False
    then have "\<not> is_ok (rbind (intent_to_operation i) validate)" using guard_mutating [OF a] by simp
    with False argv show ?thesis by (simp add: execute_intent_blocked_log)
  qed
qed

theorem execute_intent_writes_witness:
  "\<exists>argv. to_argv sample_scale = Inr argv \<and>
     kw_log (snd (execute_intent kv_api \<lparr>SAFE_MODE = True, APPROVAL_REQUIRED = True,
        kc_breaker = \<lparr>FAILURES_TO_OPEN = 3, OPEN_SECONDS = 60\<rparr>\<rparr> (\<lambda>_ _. Completed 0 [] []) 0 sample_scale True False
        \<lparr>kw_redis = None, kw_log = [], kw_audit = []\<rparr>)) = [argv @ [''--dry-run=server'']]"
proof -
  have "is_mutating (ei_action sample_scale) = Inr True" by (simp add: sample_scale_def is_mutating_def)
  moreover have "is_write_namespace (ei_namespace sample_scale)" by code_simp
  ultimately show ?thesis
    using execute_intent_writes [OF sample_scale_ok, of kv_api "\<lparr>SAFE_MODE = True, APPROVAL_REQUIRED = True,
        kc_breaker = \<lparr>FAILURES_TO_OPEN = 3, OPEN_SECONDS = 60\<rparr>\<rparr>" "\<lambda>_ _. Completed 0 [] []" 0 True False
        "\<lparr>kw_redis = None, kw_log = [], kw_audit = []\<rparr>"] by simp
qed

end
