(* ===== verification/Target_Resolver.thy ===== *)
theory Target_Resolver
  imports Execution_Dsl Risk_Axes
begin

text \<open>
  \<open>app/remediation/target_resolver.py\<close>: from an alert's labels, explicit facts and the knowledge graph
  to the Kubernetes object a remediation would act on. The knowledge graph is the rows the queries
  select from; \<open>first()\<close> takes the first row in table order.
\<close>

section \<open>The reference\<close>

record TargetRef =
  tr_kind :: "string option"
  tr_namespace :: "string option"
  tr_name :: "string option"
  tr_owner_kind :: "string option"
  tr_owner_name :: "string option"
  tr_labels :: pydict
  tr_replicas :: "int option"
  tr_uid :: "string option"
  tr_incarnation :: "int option"
  tr_resolved_via :: "string list"
  tr_unknown :: bool

definition empty_ref :: TargetRef where
  "empty_ref = \<lparr>tr_kind = None, tr_namespace = None, tr_name = None, tr_owner_kind = None,
     tr_owner_name = None, tr_labels = [], tr_replicas = None, tr_uid = None, tr_incarnation = None,
     tr_resolved_via = [], tr_unknown = False\<rparr>"

definition opt_pyint :: "int option \<Rightarrow> pyval" where
  "opt_pyint o' = (case o' of None \<Rightarrow> PNone | Some i \<Rightarrow> PInt i)"

definition target_to_dict :: "TargetRef \<Rightarrow> pydict" where
  "target_to_dict r =
     [(''kind'', opt_pystr (tr_kind r)), (''namespace'', opt_pystr (tr_namespace r)),
      (''name'', opt_pystr (tr_name r)), (''owner_kind'', opt_pystr (tr_owner_kind r)),
      (''owner_name'', opt_pystr (tr_owner_name r)), (''labels'', PDict (tr_labels r)),
      (''replicas'', opt_pyint (tr_replicas r)), (''uid'', opt_pystr (tr_uid r)),
      (''incarnation'', opt_pyint (tr_incarnation r)),
      (''resolved_via'', PList (map PStr (tr_resolved_via r))), (''unknown'', PBool (tr_unknown r))]"

text \<open>\<open>isinstance(v, str) and v\<close>, and the values a label may have.\<close>

definition nonempty_str :: "pyval \<Rightarrow> string option" where
  "nonempty_str v = (case v of PStr s \<Rightarrow> (if s \<noteq> [] then Some s else None) | _ \<Rightarrow> None)"

definition label_value :: "pyval \<Rightarrow> string option" where
  "label_value v = (case v of PStr s \<Rightarrow> Some s | PInt i \<Rightarrow> Some (py_str v) | PFloat f \<Rightarrow> Some (py_str v)
     | PBool b \<Rightarrow> Some (py_str v) | _ \<Rightarrow> None)"

definition add_labels :: "pydict \<Rightarrow> pydict \<Rightarrow> pydict" where
  "add_labels labels extra =
     foldl (\<lambda>acc (k, v). case label_value v of Some s \<Rightarrow> dset acc k (PStr s) | None \<Rightarrow> acc) labels extra"

section \<open>Labels\<close>

definition KIND_FROM_LABEL_KEYS :: "(string \<times> string) list" where
  "KIND_FROM_LABEL_KEYS =
     [(''statefulset'', ''StatefulSet''), (''daemonset'', ''DaemonSet''), (''deployment'', ''Deployment''),
      (''job_name'', ''Job''), (''cronjob'', ''CronJob''), (''pod'', ''Pod'')]"

definition from_alert_labels :: "pydict \<Rightarrow> TargetRef" where
  "from_alert_labels labels =
     (let ns = nonempty_str (if truthy (dget labels ''namespace'') then dget labels ''namespace''
                             else dget labels ''ns'');
          hit = find (\<lambda>(key, kind). nonempty_str (dget labels key) \<noteq> None) KIND_FROM_LABEL_KEYS
      in empty_ref\<lparr>tr_namespace := ns,
           tr_kind := map_option snd hit,
           tr_name := Option.bind hit (\<lambda>(key, kind). nonempty_str (dget labels key)),
           tr_resolved_via := (case hit of None \<Rightarrow> [] | Some _ \<Rightarrow> [''alert_label'']),
           tr_owner_kind := nonempty_str (dget labels ''owner_kind''),
           tr_owner_name := nonempty_str (dget labels ''owner_name''),
           tr_labels := add_labels [] labels\<rparr>)"

section \<open>Explicit facts\<close>

definition override :: "string option \<Rightarrow> string option \<Rightarrow> string option" where
  "override v old = (case v of Some s \<Rightarrow> Some s | None \<Rightarrow> old)"

definition facts_names :: "pydict \<Rightarrow> TargetRef \<Rightarrow> TargetRef \<times> bool" where
  "facts_names t ref =
     (let get = (\<lambda>key. nonempty_str (dget t key)) in
      (ref\<lparr>tr_kind := override (get ''kind'') (tr_kind ref),
           tr_namespace := override (get ''namespace'') (tr_namespace ref),
           tr_name := override (get ''name'') (tr_name ref),
           tr_owner_kind := override (get ''owner_kind'') (tr_owner_kind ref),
           tr_owner_name := override (get ''owner_name'') (tr_owner_name ref)\<rparr>,
       list_ex (\<lambda>key. get key \<noteq> None) [''kind'', ''namespace'', ''name'', ''owner_kind'', ''owner_name'']))"

definition facts_replicas :: "pydict \<Rightarrow> TargetRef \<times> bool \<Rightarrow> (TargetRef \<times> bool) result" where
  "facts_replicas t ru =
     (if has_key t ''replicas''
      then rbind (soften (to_int (dget t ''replicas''))) (\<lambda>r.
             Inr (case r of Some n \<Rightarrow> ((fst ru)\<lparr>tr_replicas := Some n\<rparr>, True) | None \<Rightarrow> ru))
      else Inr ru)"

definition facts_labels :: "pydict \<Rightarrow> TargetRef \<times> bool \<Rightarrow> TargetRef \<times> bool" where
  "facts_labels t ru =
     (case dget t ''labels'' of
        PDict ls \<Rightarrow> ((fst ru)\<lparr>tr_labels := add_labels (tr_labels (fst ru)) ls\<rparr>, True)
      | _ \<Rightarrow> ru)"

definition note_explicit :: "TargetRef \<times> bool \<Rightarrow> TargetRef" where
  "note_explicit ru =
     (if snd ru \<and> ''explicit_facts'' \<notin> set (tr_resolved_via (fst ru))
      then (fst ru)\<lparr>tr_resolved_via := tr_resolved_via (fst ru) @ [''explicit_facts'']\<rparr>
      else fst ru)"

definition enrich_from_facts :: "TargetRef \<Rightarrow> pydict \<Rightarrow> TargetRef result" where
  "enrich_from_facts ref facts =
     (case dget facts ''target'' of
        PDict t \<Rightarrow> rbind (facts_replicas t (facts_names t ref)) (\<lambda>ru. Inr (note_explicit (facts_labels t ru)))
      | _ \<Rightarrow> Inr ref)"

section \<open>The knowledge graph\<close>

record K8sJob =
  kj_namespace :: string
  kj_name :: string
  kj_metadata :: pyval
  kj_active_count :: "int option"
  kj_failed_count :: "int option"

record PodEvent =
  pe_namespace :: string
  pe_pod_name :: string
  pe_first_seen :: int
  pe_service_id :: "int option"

record Service =
  sv_id :: int
  sv_namespace :: string
  sv_name :: string
  sv_node_kind :: string
  sv_team_owner :: "string option"
  sv_metadata :: pyval
  sv_k8s_uid :: "string option"
  sv_incarnation :: "int option"

record kg_tables =
  kg_jobs :: "K8sJob list"
  kg_pod_events :: "PodEvent list"
  kg_services :: "Service list"

definition keep :: "string option \<Rightarrow> string option \<Rightarrow> string option" where
  "keep old v = (case old of Some s \<Rightarrow> (if s \<noteq> [] then old else (case v of Some x \<Rightarrow> v | None \<Rightarrow> old))
                           | None \<Rightarrow> v)"

definition kg_job_step :: "kg_tables \<Rightarrow> string \<Rightarrow> TargetRef \<Rightarrow> TargetRef" where
  "kg_job_step kg ns ref =
     (if tr_kind ref = Some ''Job'' \<and> tr_name ref \<noteq> None \<and> tr_name ref \<noteq> Some []
      then (case find (\<lambda>j. kj_namespace j = ns \<and> Some (kj_name j) = tr_name ref) (kg_jobs kg) of
              None \<Rightarrow> ref
            | Some row \<Rightarrow>
                (let meta = dict_or_empty (kj_metadata row);
                     ref1 = (case meta of
                               Some m \<Rightarrow> ref\<lparr>tr_owner_kind := keep (tr_owner_kind ref) (nonempty_str (dget m ''owner_kind'')),
                                             tr_owner_name := keep (tr_owner_name ref) (nonempty_str (dget m ''owner_name''))\<rparr>
                             | None \<Rightarrow> ref);
                     l1 = (case kj_active_count row of
                             Some n \<Rightarrow> setdefault (tr_labels ref1) ''_kg_active_jobs'' (PStr (int_str n))
                           | None \<Rightarrow> tr_labels ref1);
                     l2 = (case kj_failed_count row of
                             Some n \<Rightarrow> setdefault l1 ''_kg_failed_jobs'' (PStr (int_str n))
                           | None \<Rightarrow> l1)
                 in ref1\<lparr>tr_labels := l2, tr_resolved_via := tr_resolved_via ref1 @ [''kg_k8s_job'']\<rparr>))
      else ref)"

definition latest_event :: "PodEvent list \<Rightarrow> PodEvent option" where
  "latest_event evs =
     (case evs of
        [] \<Rightarrow> None
      | e # es \<Rightarrow> Some (foldl (\<lambda>best x. if pe_first_seen best < pe_first_seen x then x else best) e es))"

definition kg_pod_step :: "kg_tables \<Rightarrow> string \<Rightarrow> TargetRef \<Rightarrow> TargetRef" where
  "kg_pod_step kg ns ref =
     (if tr_kind ref = Some ''Pod'' \<and> tr_name ref \<noteq> None \<and> tr_name ref \<noteq> Some []
      then (case Option.bind
                   (latest_event (filter (\<lambda>e. pe_namespace e = ns \<and> Some (pe_pod_name e) = tr_name ref)
                      (kg_pod_events kg)))
                   (\<lambda>ev. case pe_service_id ev of
                           Some i \<Rightarrow> (if i \<noteq> 0 then find (\<lambda>s. sv_id s = i) (kg_services kg) else None)
                         | None \<Rightarrow> None) of
              None \<Rightarrow> ref
            | Some svc \<Rightarrow>
                ref\<lparr>tr_owner_name := keep (tr_owner_name ref) (Some (sv_name svc)),
                    tr_owner_kind := keep (tr_owner_kind ref) (Some ''Deployment''),
                    tr_resolved_via := tr_resolved_via ref @ [''kg_pod_event'']\<rparr>)
      else ref)"

definition kg_service_step :: "kg_tables \<Rightarrow> string \<Rightarrow> TargetRef \<Rightarrow> TargetRef result" where
  "kg_service_step kg ns ref =
     (if tr_name ref \<noteq> None \<and> tr_name ref \<noteq> Some [] \<and> tr_kind ref \<in> {Some ''Deployment'', Some ''StatefulSet''}
      then (case find (\<lambda>s. sv_namespace s = ns \<and> Some (sv_name s) = tr_name ref \<and> sv_node_kind s = ''service'')
                   (kg_services kg) of
              None \<Rightarrow> Inr ref
            | Some svc \<Rightarrow>
                (let ref1 = (case sv_team_owner svc of
                               Some o' \<Rightarrow> (if o' \<noteq> [] then ref\<lparr>tr_labels := setdefault (tr_labels ref) ''team_owner'' (PStr o')\<rparr>
                                           else ref)
                             | None \<Rightarrow> ref)
                 in rbind (case dict_or_empty (sv_metadata svc) of
                             Some m \<Rightarrow>
                               if dget m ''replicas'' \<noteq> PNone \<and> tr_replicas ref1 = None
                               then rbind (soften (to_int (dget m ''replicas''))) (\<lambda>r.
                                      Inr (case r of Some n \<Rightarrow> ref1\<lparr>tr_replicas := Some n\<rparr> | None \<Rightarrow> ref1))
                               else Inr ref1
                           | None \<Rightarrow> Inr ref1)
                      (\<lambda>ref2. Inr (ref2\<lparr>tr_resolved_via := tr_resolved_via ref2 @ [''kg_service'']\<rparr>))))
      else Inr ref)"

definition kg_workload_step :: "kg_tables \<Rightarrow> string \<Rightarrow> TargetRef \<Rightarrow> TargetRef" where
  "kg_workload_step kg ns ref =
     (if tr_name ref \<noteq> None \<and> tr_name ref \<noteq> Some [] \<and>
         tr_kind ref \<in> {Some ''Deployment'', Some ''StatefulSet'', Some ''DaemonSet''}
      then (case find (\<lambda>s. sv_namespace s = ns \<and> Some (sv_name s) = tr_name ref \<and> sv_node_kind s = ''workload'')
                   (kg_services kg) of
              None \<Rightarrow> ref
            | Some w \<Rightarrow>
                (case sv_k8s_uid w of
                   Some uid \<Rightarrow>
                     (if uid \<noteq> []
                      then ref\<lparr>tr_uid := Some uid,
                               tr_incarnation := Some (case sv_incarnation w of
                                                         Some n \<Rightarrow> (if n \<noteq> 0 then n else 1) | None \<Rightarrow> 1),
                               tr_resolved_via := tr_resolved_via ref @ [''kg_workload_uid'']\<rparr>
                      else ref)
                 | None \<Rightarrow> ref))
      else ref)"

definition enrich_from_kg :: "kg_tables option \<Rightarrow> TargetRef \<Rightarrow> TargetRef result" where
  "enrich_from_kg session ref =
     (case (session, tr_namespace ref) of
        (Some kg, Some ns) \<Rightarrow>
          (if ns = [] then Inr ref
           else rbind (kg_service_step kg ns (kg_pod_step kg ns (kg_job_step kg ns ref)))
                  (\<lambda>r. Inr (kg_workload_step kg ns r)))
      | _ \<Rightarrow> Inr ref)"

definition given :: "string option \<Rightarrow> bool" where
  "given s \<longleftrightarrow> s \<noteq> None \<and> s \<noteq> Some []"

text \<open>\<open>remdups\<close> keeps last occurrences, the code keeps the first ones.\<close>

definition dedup :: "string list \<Rightarrow> string list" where
  "dedup xs = rev (remdups (rev xs))"

definition resolve_target :: "pydict \<Rightarrow> pydict \<Rightarrow> kg_tables option \<Rightarrow> TargetRef result" where
  "resolve_target alert facts session =
     (let labels = (case dget alert ''labels'' of PDict ls \<Rightarrow> ls | _ \<Rightarrow> [])
      in rbind (enrich_from_facts (from_alert_labels labels) facts) (\<lambda>ref1.
         rbind (enrich_from_kg session ref1) (\<lambda>ref2.
           Inr (ref2\<lparr>tr_unknown := tr_unknown ref2 \<or>
                       \<not> (given (tr_namespace ref2) \<and> given (tr_kind ref2) \<and> given (tr_name ref2)),
                     tr_resolved_via := dedup (tr_resolved_via ref2)\<rparr>))))"

section \<open>Lemmas\<close>

text \<open>What an enrichment may not touch once it is set.\<close>

definition extends :: "TargetRef \<Rightarrow> TargetRef \<Rightarrow> bool" where
  "extends r r' \<longleftrightarrow>
     tr_kind r' = tr_kind r \<and> tr_namespace r' = tr_namespace r \<and> tr_name r' = tr_name r \<and>
     (given (tr_owner_kind r) \<longrightarrow> tr_owner_kind r' = tr_owner_kind r) \<and>
     (given (tr_owner_name r) \<longrightarrow> tr_owner_name r' = tr_owner_name r) \<and>
     (tr_replicas r \<noteq> None \<longrightarrow> tr_replicas r' = tr_replicas r) \<and> tr_unknown r' = tr_unknown r"

lemma extends_refl: "extends r r"
  by (simp add: extends_def)

lemma extends_trans: "extends a b \<Longrightarrow> extends b c \<Longrightarrow> extends a c"
  by (auto simp: extends_def)

lemma keep_given: "given old \<Longrightarrow> keep old v = old"
  by (auto simp: keep_def given_def split: option.splits)

lemma kg_steps_extend:
  "extends ref (kg_job_step kg ns ref)" "extends ref (kg_pod_step kg ns ref)"
  "extends ref (kg_workload_step kg ns ref)"
  by (auto simp: extends_def kg_job_step_def kg_pod_step_def kg_workload_step_def Let_def keep_given
      split: option.splits if_splits)

lemma kg_service_extend: "kg_service_step kg ns ref = Inr ref' \<Longrightarrow> extends ref ref'"
  by (auto simp: extends_def kg_service_step_def Let_def rbind_eq_Inr split: option.splits if_splits)

lemma enrich_from_kg_extends:
  assumes "enrich_from_kg session ref = Inr ref'"
  shows "extends ref ref'"
proof -
  have "extends ref (kg_pod_step kg ns (kg_job_step kg ns ref))" for kg ns
    using kg_steps_extend extends_trans by blast
  with assms show ?thesis
    by (auto simp: enrich_from_kg_def rbind_eq_Inr extends_refl split: option.splits if_splits)
      (metis kg_service_extend kg_steps_extend(3) extends_trans)
qed

lemma set_dedup [simp]: "set (dedup xs) = set xs" and distinct_dedup [simp]: "distinct (dedup xs)"
  by (simp_all add: dedup_def)

lemma from_labels_not_unknown: "\<not> tr_unknown (from_alert_labels ls)"
  by (simp add: from_alert_labels_def empty_ref_def Let_def)

text \<open>The parts of a reference that replicas, labels and provenance leave alone.\<close>

definition same_names :: "TargetRef \<Rightarrow> TargetRef \<Rightarrow> bool" where
  "same_names a b \<longleftrightarrow> tr_kind b = tr_kind a \<and> tr_namespace b = tr_namespace a \<and> tr_name b = tr_name a \<and>
     tr_unknown b = tr_unknown a"

lemma facts_same_names:
  "facts_replicas t ru = Inr rv \<Longrightarrow> same_names (fst ru) (fst rv)"
  "same_names (fst ru) (fst (facts_labels t ru))"
  "same_names (fst ru) (note_explicit ru)"
  by (auto simp: same_names_def facts_replicas_def facts_labels_def note_explicit_def rbind_eq_Inr
      split: if_splits option.splits pyval.split)

lemma from_facts_overrides:
  assumes "enrich_from_facts ref facts = Inr r" and "dget facts ''target'' = PDict t"
  shows "same_names (fst (facts_names t ref)) r"
proof -
  obtain ru where ru: "facts_replicas t (facts_names t ref) = Inr ru" "r = note_explicit (facts_labels t ru)"
    using assms by (auto simp: enrich_from_facts_def rbind_eq_Inr)
  have "same_names (fst (facts_names t ref)) (fst ru)" using facts_same_names(1) [OF ru(1)] .
  moreover have "same_names (fst ru) (fst (facts_labels t ru))" by (rule facts_same_names(2))
  moreover have "same_names (fst (facts_labels t ru)) r" unfolding ru(2) by (rule facts_same_names(3))
  ultimately show ?thesis by (simp add: same_names_def)
qed

section \<open>Properties\<close>

text \<open>
  A resolved target keeps the declared priority of its sources: kind, namespace and name come from
  explicit facts where those give them and from the alert's labels otherwise, the knowledge graph
  never changes them; the reference is marked unknown exactly when one of the three is missing, and
  no source is listed twice.
\<close>

theorem resolved_target_priority:
  assumes "resolve_target alert facts session = Inr r" and "dget facts ''target'' = PDict t"
    and "dget alert ''labels'' = PDict ls"
  shows "tr_kind r = override (nonempty_str (dget t ''kind'')) (tr_kind (from_alert_labels ls)) \<and>
    tr_namespace r = override (nonempty_str (dget t ''namespace'')) (tr_namespace (from_alert_labels ls)) \<and>
    tr_name r = override (nonempty_str (dget t ''name'')) (tr_name (from_alert_labels ls)) \<and>
    (tr_unknown r \<longleftrightarrow> \<not> (given (tr_namespace r) \<and> given (tr_kind r) \<and> given (tr_name r))) \<and>
    distinct (tr_resolved_via r)"
proof -
  obtain r1 r2 where r1: "enrich_from_facts (from_alert_labels ls) facts = Inr r1"
    and r2: "enrich_from_kg session r1 = Inr r2"
    and r: "r = r2\<lparr>tr_unknown := tr_unknown r2 \<or>
                 \<not> (given (tr_namespace r2) \<and> given (tr_kind r2) \<and> given (tr_name r2)),
               tr_resolved_via := dedup (tr_resolved_via r2)\<rparr>"
    using assms(1,3) by (auto simp: resolve_target_def rbind_eq_Inr)
  from enrich_from_kg_extends [OF r2] from_facts_overrides [OF r1 assms(2)] from_labels_not_unknown
  show ?thesis by (simp add: r extends_def same_names_def facts_names_def Let_def)
qed

theorem resolved_target_priority_witness:
  "\<exists>r. resolve_target [(''labels'', PDict [(''namespace'', PStr ''squad-1''), (''pod'', PStr ''api-0'')])]
     [(''target'', PDict [(''kind'', PStr ''Deployment''), (''name'', PStr ''api'')])] None = Inr r \<and>
   tr_kind r = Some ''Deployment'' \<and> tr_name r = Some ''api'' \<and> \<not> tr_unknown r"
proof -
  let ?ls = "[(''namespace'', PStr ''squad-1''), (''pod'', PStr ''api-0'')]"
  let ?a = "[(''labels'', PDict ?ls)]"
  let ?t = "[(''kind'', PStr ''Deployment''), (''name'', PStr ''api'')]"
  have "is_ok (resolve_target ?a [(''target'', PDict ?t)] None)" by code_simp
  then obtain r where r: "resolve_target ?a [(''target'', PDict ?t)] None = Inr r" by (auto simp: is_ok_iff)
  have n: "tr_namespace (from_alert_labels ?ls) = Some ''squad-1''" by code_simp
  show ?thesis
    using resolved_target_priority [OF r, of ?t ?ls] n r
    by (simp add: dget_def nonempty_str_def override_def given_def)
qed

text \<open>
  Without enrichment signals the classifier cannot name a class: whatever the target, its answer
  is \<open>unknown\<close>. The candidate selection of the fix stage classifies exactly this way (\<open>classify_alert\<close>
  passes no signals), so a playbook that is matched by classification is never selected there.
\<close>

theorem classify_without_signals:
  "classify (target_to_dict r) [] = Inr \<lparr>cr_classification = CL_UNKNOWN, cr_rule_id = ''R0.no_match_v1'',
     cr_confidence_hint = ''weak''\<rparr>"
proof -
  have "\<exists>s. str_or_empty (dget (target_to_dict r) ''kind'') = Inr s"
    by (simp add: target_to_dict_def dget_def opt_pystr_def str_or_empty_def split: option.split)
  then show ?thesis
    by (auto simp: classify_def or_else_def rule_stale_failed_job_def rule_regression_post_deploy_def
        rule_memory_pressure_def rule_chronic_unowned_def cl_to_int_def cl_to_float_def dget_def [of "[]"]
        str_or_empty_def [of PNone] lower_def)
qed

end
