(* ===== verification/Verification.thy ===== *)
theory Verification
  imports Attempts K8s_Guard Target_Resolver
begin

text \<open>
  \<open>app/remediation/verification.py\<close>: the snapshot of the live object, the comparison of its identity
  with the one the knowledge graph recorded, the delayed check after an action and what it writes
  back. \<open>json.loads\<close>, SHA-256, the ISO form of times and the message broker are arguments. The texts
  of the reasons are in English here; the code writes them in Russian.
\<close>

section \<open>Snapshots\<close>

definition RESOURCE_KIND :: "(string \<times> string) list" where
  "RESOURCE_KIND =
     [(''deployment'', ''deployment''), (''pod'', ''pod''), (''service'', ''service''), (''ingress'', ''ingress'')]"

record TargetSnapshot =
  ts_kind :: string
  ts_namespace :: pyval
  ts_name :: pyval
  ts_uid :: pyval
  ts_resource_version :: pyval
  ts_generation :: pyval
  ts_observed_generation :: pyval
  ts_template_hash :: "string option"
  ts_replicas_desired :: pyval
  ts_replicas_ready :: pyval
  ts_phase :: pyval
  ts_observed_at :: string
  ts_unknown :: bool
  ts_reason :: "string option"
  ts_extras :: pydict

definition unavailable :: "string \<Rightarrow> string \<Rightarrow> ExecutionIntent \<Rightarrow> TargetSnapshot" where
  "unavailable now_iso reason intent =
     \<lparr>ts_kind = ei_resource_type intent, ts_namespace = PStr (ei_namespace intent),
      ts_name = PStr (ei_resource_name intent), ts_uid = PNone, ts_resource_version = PNone,
      ts_generation = PNone, ts_observed_generation = PNone, ts_template_hash = None,
      ts_replicas_desired = PNone, ts_replicas_ready = PNone, ts_phase = PNone, ts_observed_at = now_iso,
      ts_unknown = True, ts_reason = Some reason, ts_extras = []\<rparr>"

definition snapshot_to_dict :: "TargetSnapshot \<Rightarrow> pydict" where
  "snapshot_to_dict s =
     [(''kind'', PStr (ts_kind s)), (''namespace'', ts_namespace s), (''name'', ts_name s), (''uid'', ts_uid s),
      (''resource_version'', ts_resource_version s), (''generation'', ts_generation s),
      (''observed_generation'', ts_observed_generation s), (''template_hash'', opt_pystr (ts_template_hash s)),
      (''replicas_desired'', ts_replicas_desired s), (''replicas_ready'', ts_replicas_ready s),
      (''phase'', ts_phase s), (''observed_at'', PStr (ts_observed_at s)), (''unknown'', PBool (ts_unknown s)),
      (''reason'', opt_pystr (ts_reason s)), (''extras'', PDict (ts_extras s))]"

text \<open>
  \<open>a >= b\<close> on numbers and on texts; other operands raise. (Python also orders lists, which no field of
  a snapshot holds.)
\<close>

definition num_ge :: "num_val \<Rightarrow> num_val \<Rightarrow> bool" where
  "num_ge a b =
     (case (a, b) of
        (NFin x, NFin y) \<Rightarrow> y \<le> x
      | (NNaN, _) \<Rightarrow> False | (_, NNaN) \<Rightarrow> False
      | (NInf, _) \<Rightarrow> True | (_, NNegInf) \<Rightarrow> True
      | _ \<Rightarrow> False)"

definition py_ge :: "pyval \<Rightarrow> pyval \<Rightarrow> bool result" where
  "py_ge v w =
     (case (as_num v, as_num w) of
        (Some a, Some b) \<Rightarrow> Inr (num_ge a b)
      | _ \<Rightarrow> (case (v, w) of (PStr s, PStr t) \<Rightarrow> Inr (t \<le> s) | _ \<Rightarrow> Inl TypeError))"

definition py_gt :: "pyval \<Rightarrow> pyval \<Rightarrow> bool result" where
  "py_gt v w =
     (case (as_num v, as_num w) of
        (Some a, Some b) \<Rightarrow> Inr (num_ge a b \<and> a \<noteq> b)
      | _ \<Rightarrow> (case (v, w) of (PStr s, PStr t) \<Rightarrow> Inr (t < s) | _ \<Rightarrow> Inl TypeError))"

definition converged :: "TargetSnapshot \<Rightarrow> bool option result" where
  "converged s =
     (if ts_unknown s \<or> ts_generation s = PNone \<or> ts_observed_generation s = PNone then Inr None
      else rbind (py_ge (ts_observed_generation s) (ts_generation s)) (\<lambda>b. Inr (Some b)))"

definition healthy :: "TargetSnapshot \<Rightarrow> bool option result" where
  "healthy s =
     (if ts_unknown s \<or> ts_replicas_desired s = PNone then Inr None
      else if py_eq (ts_replicas_desired s) (PInt 0) then Inr None
      else rbind (py_ge (if truthy (ts_replicas_ready s) then ts_replicas_ready s else PInt 0) (ts_replicas_desired s))
             (\<lambda>b. Inr (Some b)))"

definition template_hash :: "(string \<Rightarrow> string) \<Rightarrow> pydict \<Rightarrow> string option" where
  "template_hash sha spec =
     (case dget spec ''template'' of PDict t \<Rightarrow> Some (take 16 (sha (canonical (PDict t)))) | _ \<Rightarrow> None)"

text \<open>\<open>obj.get(k) or {}\<close>, then \<open>.get\<close> on it.\<close>

definition sub_dict :: "pydict \<Rightarrow> string \<Rightarrow> pydict result" where
  "sub_dict d k =
     (let v = dget d k in if \<not> truthy v then Inr [] else (case v of PDict e \<Rightarrow> Inr e | _ \<Rightarrow> Inl AttributeError))"

definition parse_snapshot ::
  "(string \<Rightarrow> string) \<Rightarrow> string \<Rightarrow> pydict \<Rightarrow> ExecutionIntent \<Rightarrow> TargetSnapshot result" where
  "parse_snapshot sha now_iso obj intent =
     rbind (sub_dict obj ''metadata'') (\<lambda>meta.
     rbind (sub_dict obj ''spec'') (\<lambda>spec.
     rbind (sub_dict obj ''status'') (\<lambda>status.
       let snap = \<lparr>ts_kind = ei_resource_type intent,
             ts_namespace = (if truthy (dget meta ''namespace'') then dget meta ''namespace'' else PStr (ei_namespace intent)),
             ts_name = (if truthy (dget meta ''name'') then dget meta ''name'' else PStr (ei_resource_name intent)),
             ts_uid = dget meta ''uid'', ts_resource_version = dget meta ''resourceVersion'',
             ts_generation = dget meta ''generation'', ts_observed_generation = dget status ''observedGeneration'',
             ts_template_hash = None, ts_replicas_desired = PNone, ts_replicas_ready = PNone, ts_phase = PNone,
             ts_observed_at = now_iso, ts_unknown = False, ts_reason = None, ts_extras = []\<rparr>
       in Inr (if ei_resource_type intent = ''deployment''
               then snap\<lparr>ts_template_hash := template_hash sha spec, ts_replicas_desired := dget spec ''replicas'',
                         ts_replicas_ready := (if truthy (dget status ''readyReplicas'')
                                               then dget status ''readyReplicas'' else PInt 0)\<rparr>
               else if ei_resource_type intent = ''pod'' then snap\<lparr>ts_phase := dget status ''phase''\<rparr>
               else snap))))"

definition snapshot_argv :: "string \<Rightarrow> ExecutionIntent \<Rightarrow> argv" where
  "snapshot_argv kind intent =
     [''kubectl'', ''get'', kind, ei_resource_name intent, ''-n'', ei_namespace intent, ''-o'', ''json'']"

text \<open>What the process gave, turned into a snapshot. The exceptions carry their type's name.\<close>

definition read_snapshot ::
  "(string \<Rightarrow> string) \<Rightarrow> (string \<Rightarrow> pyval option) \<Rightarrow> string \<Rightarrow> ExecutionIntent \<Rightarrow> outcome \<Rightarrow> TargetSnapshot result" where
  "read_snapshot sha json_loads now_iso intent out =
     (case out of
        TimeoutExpired \<Rightarrow> Inr (unavailable now_iso ''kubectl_failed:TimeoutExpired'' intent)
      | FileNotFound \<Rightarrow> Inr (unavailable now_iso ''kubectl_failed:FileNotFoundError'' intent)
      | CircuitOpen \<Rightarrow> Inr (unavailable now_iso ''kubectl_failed:KubectlCircuitOpen'' intent)
      | OtherError e \<Rightarrow> Inr (unavailable now_iso (''kubectl_failed:'' @ e) intent)
      | Completed rc stdout stderr \<Rightarrow>
          (if rc \<noteq> 0
           then (let err = take 160 (strip stderr) in
                 if contains err ''NotFound'' \<or> contains err ''not found''
                 then Inr (unavailable now_iso ''target_not_found'' intent)
                 else Inr (unavailable now_iso (''kubectl_exit_'' @ int_str rc @ '':'' @ err) intent))
           else (case json_loads (if stdout = [] then ''{}'' else stdout) of
                   None \<Rightarrow> Inr (unavailable now_iso ''kubectl_output_not_json'' intent)
                 | Some (PDict obj) \<Rightarrow>
                     (if \<not> truthy (dget obj ''metadata'')
                      then Inr (unavailable now_iso ''kubectl_output_empty'' intent)
                      else parse_snapshot sha now_iso obj intent)
                 | Some _ \<Rightarrow> Inr (unavailable now_iso ''kubectl_output_empty'' intent))))"

definition snapshot_target ::
  "'r redis_api \<Rightarrow> breaker_config \<Rightarrow> kubectl_bin \<Rightarrow> (string \<Rightarrow> string) \<Rightarrow> (string \<Rightarrow> pyval option) \<Rightarrow> int \<Rightarrow> string
    \<Rightarrow> ExecutionIntent \<Rightarrow> bool \<Rightarrow> 'r kworld \<Rightarrow> TargetSnapshot result \<times> 'r kworld" where
  "snapshot_target api cfg kubectl sha json_loads now now_iso intent respect_breaker w =
     (case map_of RESOURCE_KIND (lower (ei_resource_type intent)) of
        None \<Rightarrow> (Inr (unavailable now_iso (''unsupported_resource_type:'' @ ei_resource_type intent) intent), w)
      | Some kind \<Rightarrow>
          (let (out, w') = run_kubectl api cfg kubectl now respect_breaker (snapshot_argv kind intent) w
           in (read_snapshot sha json_loads now_iso intent out, w')))"

section \<open>Identity\<close>

definition latest_decision :: "RemediationDecision list \<Rightarrow> RemediationDecision option" where
  "latest_decision rows =
     (case rows of [] \<Rightarrow> None
      | r # rs \<Rightarrow> Some (foldl (\<lambda>a b. if rd_created_at a < rd_created_at b then b else a) r rs))"

definition expected_identity :: "RemediationDecision list \<Rightarrow> string \<Rightarrow> pydict option" where
  "expected_identity decisions incident_id =
     (case latest_decision (filter (\<lambda>r. rd_incident_id r = Some incident_id) decisions) of
        None \<Rightarrow> None
      | Some row \<Rightarrow>
          (case rd_target_ref row of
             PDict ref \<Rightarrow> Some [(''uid'', dget ref ''uid''), (''incarnation'', dget ref ''incarnation''),
                              (''kind'', dget ref ''kind''), (''namespace'', dget ref ''namespace''),
                              (''name'', dget ref ''name'')]
           | _ \<Rightarrow> None))"

definition expected_uid :: "pydict option \<Rightarrow> pyval" where
  "expected_uid expected = (case expected of None \<Rightarrow> PNone | Some e \<Rightarrow> dget e ''uid'')"

definition identity_mismatch :: "pydict option \<Rightarrow> TargetSnapshot \<Rightarrow> string option" where
  "identity_mismatch expected snap =
     (if \<not> truthy (expected_uid expected) \<or> ts_unknown snap \<or> \<not> truthy (ts_uid snap) then None
      else if py_str (expected_uid expected) \<noteq> py_str (ts_uid snap)
      then Some (''graph uid '' @ take 8 (py_str (expected_uid expected)) @ '' is not the live uid '' @
                 take 8 (py_str (ts_uid snap)))
      else None)"

definition identity_check :: "pydict option \<Rightarrow> TargetSnapshot \<Rightarrow> string" where
  "identity_check expected snap =
     (if ts_unknown snap then ''unknown:no_live_snapshot''
      else if \<not> truthy (expected_uid expected) then ''unknown:no_expected_uid''
      else if py_str (expected_uid expected) = py_str (ts_uid snap) then ''same'' else ''mismatch'')"

section \<open>The delayed check\<close>

definition OUTCOME_VERIFIED :: string where "OUTCOME_VERIFIED = ''verified''"
definition OUTCOME_FAILED :: string where "OUTCOME_FAILED = ''failed''"
definition OUTCOME_PENDING :: string where "OUTCOME_PENDING = ''pending''"
definition OUTCOME_UNKNOWN :: string where "OUTCOME_UNKNOWN = ''unknown''"

lemmas outcome_defs = OUTCOME_VERIFIED_def OUTCOME_FAILED_def OUTCOME_PENDING_def OUTCOME_UNKNOWN_def

definition CRASH_REASONS :: "string list" where
  "CRASH_REASONS = [''oomkill'', ''crashloopbackoff'', ''backoff'']"

definition verify_delays :: "string \<Rightarrow> int list result" where
  "verify_delays REMEDIATION_VERIFY_DELAYS_SEC =
     rbind (rmap (\<lambda>p. let part = strip p in
              if isdigit part
              then (case int_of_digits part of
                      None \<Rightarrow> Inl (ValueError ''invalid literal for int()'')
                    | Some n \<Rightarrow> Inr (if 0 < n then [n] else []))
              else Inr []) (split_on (\<lambda>c. c = CHR '','') REMEDIATION_VERIFY_DELAYS_SEC))
       (\<lambda>parts. Inr (if concat parts = [] then [300, 900] else concat parts))"

text \<open>
  \<open>broker\<close> is the type name of the exception with which putting the task into the queue fails, if it
  does. The task put there is returned beside the answer. Attempts count from 1.
\<close>

definition schedule_verification ::
  "bool \<Rightarrow> string \<Rightarrow> string option \<Rightarrow> string \<Rightarrow> nat \<Rightarrow> (pydict \<times> (string \<times> nat \<times> int) option) result" where
  "schedule_verification VERIFY_ENABLED delays_setting broker incident_id attempt =
     (if \<not> VERIFY_ENABLED then Inr ([(''scheduled'', PBool False), (''reason'', PStr ''disabled'')], None)
      else rbind (verify_delays delays_setting) (\<lambda>delays.
        if length delays < attempt
        then Inr ([(''scheduled'', PBool False), (''reason'', PStr ''no_more_attempts'')], None)
        else (let delay = delays ! (attempt - 1) in
              case broker of
                Some e \<Rightarrow> Inr ([(''scheduled'', PBool False), (''reason'', PStr (''broker:'' @ e)),
                               (''delay_sec'', PInt delay)], None)
              | None \<Rightarrow> Inr ([(''scheduled'', PBool True), (''attempt'', PInt (int attempt)), (''delay_sec'', PInt delay)],
                            Some (incident_id, attempt, delay)))))"

record AlertEvent =
  ae_fingerprint :: "string option"
  ae_resolved_at :: "int option"

record CrashEvent = PodEvent +
  pe_reason :: string

definition alert_resolved :: "AlertEvent list \<Rightarrow> string \<Rightarrow> bool option" where
  "alert_resolved alerts incident_id =
     map_option (\<lambda>row. ae_resolved_at row \<noteq> None) (find (\<lambda>r. ae_fingerprint r = Some incident_id) alerts)"

definition new_crash_events :: "Service list \<Rightarrow> CrashEvent list \<Rightarrow> ExecutionIntent \<Rightarrow> int \<Rightarrow> nat" where
  "new_crash_events services events intent since =
     (let svc_ids = map sv_id (filter (\<lambda>s. sv_namespace s = ei_namespace intent \<and>
            sv_name s = ei_resource_name intent \<and> sv_node_kind s = ''service'') services)
      in length (filter (\<lambda>e. (case pe_service_id e of Some sid \<Rightarrow> sid \<in> set svc_ids | None \<Rightarrow> False) \<and>
            since \<le> pe_first_seen e \<and> list_ex (\<lambda>c. contains (lower (pe_reason e)) c) CRASH_REASONS) events))"

record assessment =
  as_outcome :: string
  as_checks :: pydict
  as_reasons :: "string list"

definition opt_bool :: "bool option \<Rightarrow> pyval" where
  "opt_bool b = (case b of None \<Rightarrow> PNone | Some x \<Rightarrow> PBool x)"

definition took_effect :: "ExecutionIntent \<Rightarrow> pydict \<Rightarrow> TargetSnapshot \<Rightarrow> bool option result" where
  "took_effect intent before now_snap =
     (case ei_action intent of
        RESTART_DEPLOYMENT \<Rightarrow>
          (if truthy (dget before ''template_hash'') \<and> truthy (opt_pystr (ts_template_hash now_snap))
           then Inr (Some (\<not> py_eq (dget before ''template_hash'') (opt_pystr (ts_template_hash now_snap))))
           else if dget before ''generation'' \<noteq> PNone \<and> ts_generation now_snap \<noteq> PNone
           then rbind (py_gt (ts_generation now_snap) (dget before ''generation'')) (\<lambda>b. Inr (Some b))
           else Inr None)
      | SCALE_DEPLOYMENT \<Rightarrow>
          (let want = dget (ei_params intent) ''replicas'' in
           if want = PNone \<or> ts_replicas_desired now_snap = PNone then Inr None
           else rbind (to_int want) (\<lambda>n. Inr (Some (py_eq (PInt n) (ts_replicas_desired now_snap)))))
      | _ \<Rightarrow> Inr None)"

definition pending_or_failed :: "nat \<Rightarrow> nat \<Rightarrow> string" where
  "pending_or_failed attempt max_attempts = (if attempt < max_attempts then OUTCOME_PENDING else OUTCOME_FAILED)"

definition verdict_of ::
  "bool option \<Rightarrow> bool option \<Rightarrow> bool option \<Rightarrow> bool option \<Rightarrow> nat \<Rightarrow> nat \<Rightarrow> nat \<Rightarrow> string \<times> string list" where
  "verdict_of took conv heal resolved crashes attempt max_attempts =
     (if 0 < crashes then (OUTCOME_FAILED, [''new crash events after the action''])
      else if took = Some False then (OUTCOME_FAILED, [])
      else if conv = Some False then (pending_or_failed attempt max_attempts, [''rollout has not converged''])
      else if heal = Some False then (pending_or_failed attempt max_attempts, [''not all replicas are ready''])
      else if resolved = Some False then (pending_or_failed attempt max_attempts, [''alert is still firing''])
      else (OUTCOME_VERIFIED, []))"

definition assess ::
  "ExecutionIntent \<Rightarrow> pyval \<Rightarrow> TargetSnapshot \<Rightarrow> bool option \<Rightarrow> nat \<Rightarrow> nat \<Rightarrow> nat \<Rightarrow> assessment result" where
  "assess intent before_val now_snap resolved crashes attempt max_attempts =
     (case (if \<not> truthy before_val then Some [] else as_dict before_val) of
        None \<Rightarrow> if ts_unknown now_snap
                then Inr \<lparr>as_outcome = OUTCOME_UNKNOWN, as_checks = [(''snapshot'', PNone)],
                          as_reasons = [''live snapshot is unavailable'']\<rparr>
                else Inl AttributeError
      | Some before \<Rightarrow>
          if ts_unknown now_snap
          then Inr \<lparr>as_outcome = OUTCOME_UNKNOWN, as_checks = [(''snapshot'', PNone)],
                    as_reasons = [''live snapshot is unavailable'']\<rparr>
          else
            (let known = truthy (dget before ''uid'') \<and> truthy (ts_uid now_snap);
                 same = py_eq (dget before ''uid'') (ts_uid now_snap)
             in if known \<and> \<not> same
                then Inr \<lparr>as_outcome = OUTCOME_UNKNOWN, as_checks = [(''same_identity'', PBool False)],
                          as_reasons = [''uid changed after the action'']\<rparr>
                else
                  rbind (took_effect intent before now_snap) (\<lambda>took.
                  rbind (converged now_snap) (\<lambda>conv.
                  rbind (healthy now_snap) (\<lambda>heal.
                    let (outcome, why) = verdict_of took conv heal resolved crashes attempt max_attempts
                    in Inr \<lparr>as_outcome = outcome,
                         as_checks = [(''same_identity'', if known then PBool True else PNone),
                                      (''action_took_effect'', opt_bool took), (''converged'', opt_bool conv),
                                      (''healthy'', opt_bool heal), (''alert_resolved'', opt_bool resolved),
                                      (''new_crash_events'', PInt (int crashes))],
                         as_reasons =
                           (if known then [] else [''uid before the action is unknown'']) @
                           (if took = Some False then [''action did not take effect''] else []) @
                           (if resolved = None then [''alert is not in kg_alerts''] else []) @ why\<rparr>)))))"

section \<open>The checks the playbook asks for\<close>

record verify_spec =
  vs_playbook :: string
  vs_source :: string
  vs_names :: "string list"
  vs_binding_lost :: bool

definition playbook_verify_names ::
  "(string \<Rightarrow> string) \<Rightarrow> ExecutionIntent \<Rightarrow> pydict \<Rightarrow> pydict option \<Rightarrow> verify_spec option" where
  "playbook_verify_names sha intent analysis bound_entry =
     (case (ei_playbook intent, ei_playbook_match intent) of
        (Some name, Some match) \<Rightarrow>
          if name = [] \<or> match = [] then None
          else
            (let spec = (\<lambda>source e. \<lparr>vs_playbook = name, vs_source = source,
                   vs_names = map py_str (list_of (dget e ''verify'')), vs_binding_lost = False\<rparr>)
             in case verified_entry sha bound_entry (Some match) of
                  Some e \<Rightarrow> Some (spec ''attempt'' e)
                | None \<Rightarrow>
                    (case verified_entry sha (find_entry (dget analysis ''playbook_match'') (Some name)) (Some match) of
                       Some e \<Rightarrow> Some (spec ''match_snapshot'' e)
                     | None \<Rightarrow> Some \<lparr>vs_playbook = name, vs_source = ''binding_lost'', vs_names = [],
                                     vs_binding_lost = True\<rparr>))
      | _ \<Rightarrow> None)"

record verify_result =
  vr_assessment :: assessment
  vr_playbook_verify :: "(string \<times> string \<times> (string \<times> bool option) list) option"

text \<open>The outcome after the playbook's checks, and the reason added to it.\<close>

definition tighten ::
  "string \<Rightarrow> verify_spec \<Rightarrow> (string \<times> bool option) list \<Rightarrow> string list \<Rightarrow> bool \<Rightarrow> string \<times> string list" where
  "tighten outcome verify evaluated unknown_names is_last =
     (if outcome \<noteq> OUTCOME_VERIFIED \<and> outcome \<noteq> OUTCOME_PENDING then (outcome, [])
      else if vs_binding_lost verify
      then (if is_last then OUTCOME_UNKNOWN else OUTCOME_PENDING, [''binding snapshot is lost''])
      else if list_ex (\<lambda>(n, v). v = Some False) evaluated
      then (if is_last then OUTCOME_FAILED else OUTCOME_PENDING, [''playbook checks failed''])
      else if list_ex (\<lambda>(n, v). v = None) evaluated \<or> unknown_names \<noteq> []
      then (if is_last then OUTCOME_UNKNOWN else OUTCOME_PENDING, [''playbook checks could not be made''])
      else (outcome, []))"

definition apply_playbook_verify ::
  "assessment \<Rightarrow> verify_spec option \<Rightarrow> nat \<Rightarrow> nat \<Rightarrow> verify_result result" where
  "apply_playbook_verify result verify attempt max_attempts =
     (case verify of
        None \<Rightarrow> Inr \<lparr>vr_assessment = result, vr_playbook_verify = None\<rparr>
      | Some v \<Rightarrow>
          if vs_names v = [] \<and> \<not> vs_binding_lost v then Inr \<lparr>vr_assessment = result, vr_playbook_verify = None\<rparr>
          else
            (let known = (\<lambda>n. map_of VERIFY_CHECKS n \<noteq> None);
                 names = filter known (vs_names v);
                 unknown_names = filter (\<lambda>n. \<not> known n) (vs_names v)
             in rbind (evaluate_verify names (as_checks result)) (\<lambda>evaluated.
                  let (outcome, why) = tighten (as_outcome result) v evaluated unknown_names (max_attempts \<le> attempt)
                  in Inr \<lparr>vr_assessment = result\<lparr>as_outcome := outcome, as_reasons := as_reasons result @ why\<rparr>,
                          vr_playbook_verify = Some (vs_playbook v, vs_source v, evaluated)\<rparr>)))"

section \<open>Recording the outcome\<close>

text \<open>The tables of the remediation path. \<open>db_attempt_seq\<close> is the next id of an attempt.\<close>

record remediation_db =
  db_incidents :: "incident_record list"
  db_attempts :: "RemediationAttempt list"
  db_attempt_seq :: int
  db_approvals :: "ActionApproval list"
  db_decisions :: "RemediationDecision list"
  db_alerts :: "AlertEvent list"
  db_services :: "Service list"
  db_crash_events :: "CrashEvent list"

definition find_incident :: "remediation_db \<Rightarrow> string \<Rightarrow> incident_record option" where
  "find_incident db incident_id = find (\<lambda>r. ir_incident_id r = Some incident_id) (db_incidents db)"

definition put_incident :: "incident_record \<Rightarrow> remediation_db \<Rightarrow> remediation_db" where
  "put_incident rec db =
     db\<lparr>db_incidents := map (\<lambda>r. if ir_row_id r = ir_row_id rec then rec else r) (db_incidents db)\<rparr>"

definition reasons_text :: "string list \<Rightarrow> string option" where
  "reasons_text rs = (let t = take 2000 (join ''; '' rs) in if t = [] then None else Some t)"

definition record_on_attempt :: "int \<Rightarrow> string \<Rightarrow> pydict \<Rightarrow> string list \<Rightarrow> RemediationAttempt \<Rightarrow> RemediationAttempt" where
  "record_on_attempt now outcome entry reasons row =
     (if outcome = OUTCOME_VERIFIED
      then set_status now STATUS_VERIFIED (\<lambda>r. r\<lparr>at_verification := PDict entry\<rparr>) row
      else if outcome = OUTCOME_FAILED
      then set_status now STATUS_VERIFICATION_FAILED
             (\<lambda>r. r\<lparr>at_verification := PDict entry, at_error := reasons_text reasons\<rparr>) row
      else row\<lparr>at_verification := PDict entry, at_updated_at := now\<rparr>)"

record 'r verify_env =
  ve_api :: "'r redis_api"
  ve_breaker :: breaker_config
  ve_kubectl :: kubectl_bin
  ve_sha :: "string \<Rightarrow> string"
  ve_json :: "string \<Rightarrow> pyval option"
  ve_time :: iso_time
  ve_delays :: string

definition dict_or :: "pyval \<Rightarrow> pydict result" where
  "dict_or v = (if \<not> truthy v then Inr [] else (case v of PDict d \<Rightarrow> Inr d | _ \<Rightarrow> Inl TypeError))"

definition unknown_outcome :: "string \<Rightarrow> pydict" where
  "unknown_outcome reason = [(''outcome'', PStr OUTCOME_UNKNOWN), (''reason'', PStr reason)]"

definition playbook_verify_field :: "verify_result \<Rightarrow> pydict" where
  "playbook_verify_field res =
     (case vr_playbook_verify res of
        None \<Rightarrow> []
      | Some (name, source, evaluated) \<Rightarrow>
          [(''playbook_verify'', PDict [(''playbook'', PStr name), (''source'', PStr source),
             (''checks'', PDict (map (\<lambda>(n, v). (n, opt_bool v)) evaluated))])])"

definition verify_entry :: "iso_time \<Rightarrow> int \<Rightarrow> nat \<Rightarrow> nat \<Rightarrow> TargetSnapshot \<Rightarrow> verify_result \<Rightarrow> pydict" where
  "verify_entry clk now attempt max_attempts snap res =
     [(''attempt'', PInt (int attempt)), (''max_attempts'', PInt (int max_attempts)),
      (''checked_at'', PStr (isoformat clk now)), (''outcome'', PStr (as_outcome (vr_assessment res))),
      (''checks'', PDict (as_checks (vr_assessment res))),
      (''reasons'', PList (map PStr (as_reasons (vr_assessment res)))),
      (''snapshot'', PDict (snapshot_to_dict snap))] @ playbook_verify_field res"

definition note_history :: "pydict \<Rightarrow> pydict \<Rightarrow> pydict result" where
  "note_history analysis entry =
     (let old = dget analysis ''executor_verification_history'' in
      rbind (if \<not> truthy old then Inr [] else (case old of PList xs \<Rightarrow> Inr xs | _ \<Rightarrow> Inl TypeError)) (\<lambda>history.
        let history1 = history @ [PDict (filter (\<lambda>(k, v). k \<in> {''attempt'', ''checked_at'', ''outcome''}) entry)]
        in Inr (dset (dset analysis ''executor_verification'' (PDict entry))
                  ''executor_verification_history'' (PList (drop (length history1 - 10) history1)))))"

definition EXECUTOR_VERIFIED :: string where "EXECUTOR_VERIFIED = ''verified''"
definition EXECUTOR_VERIFY_FAILED :: string where "EXECUTOR_VERIFY_FAILED = ''verification_failed''"

text \<open>What the answer \<open>res\<close> changes in the tables: the row's analysis and executor state, and the attempt.\<close>

definition store_outcome ::
  "int \<Rightarrow> string \<Rightarrow> pydict \<Rightarrow> string list \<Rightarrow> incident_record \<Rightarrow> pydict \<Rightarrow> RemediationAttempt option \<Rightarrow> remediation_db \<Rightarrow> remediation_db" where
  "store_outcome now outcome entry reasons rec analysis attempt_row db =
     (let rec1 = rec\<lparr>ir_analysis := PDict analysis\<rparr>;
          rec2 = (if outcome = OUTCOME_VERIFIED then set_executor_state rec1 (Some EXECUTOR_VERIFIED) None now
                  else if outcome = OUTCOME_FAILED then set_executor_state rec1 (Some EXECUTOR_VERIFY_FAILED) None now
                  else rec1);
          db1 = put_incident rec2 db
      in case attempt_row of
           None \<Rightarrow> db1
         | Some row \<Rightarrow>
             db1\<lparr>db_attempts := update_row (at_id row) (record_on_attempt now outcome entry reasons) (db_attempts db1)\<rparr>)"

text \<open>\<open>str.upper\<close> on the outcomes, which are lower-case ASCII words.\<close>

definition ch_upper :: "char \<Rightarrow> char" where
  "ch_upper c = (if ch_az c then char_of ((of_char c :: nat) - 32) else c)"

definition exn_name :: "exn \<Rightarrow> string" where
  "exn_name e =
     (case e of ValueError _ \<Rightarrow> ''ValueError'' | TypeError \<Rightarrow> ''TypeError'' | KeyError \<Rightarrow> ''KeyError''
      | AttributeError \<Rightarrow> ''AttributeError'' | OverflowError \<Rightarrow> ''OverflowError''
      | PermissionError _ \<Rightarrow> ''PermissionError'' | ValidationError \<Rightarrow> ''ValidationError''
      | PendingRollbackError \<Rightarrow> ''PendingRollbackError'')"

definition parse_iso :: "iso_time \<Rightarrow> pyval \<Rightarrow> int option" where
  "parse_iso clk raw = (if \<not> truthy raw then None else fromisoformat clk (py_str raw))"

text \<open>What was applied and by which plan: the attempt's row first, then the keys in \<open>analysis\<close>.\<close>

definition applied_of :: "RemediationAttempt option \<Rightarrow> pydict \<Rightarrow> pyval" where
  "applied_of row analysis =
     (case row of
        Some r \<Rightarrow> (case at_result r of PDict (x # xs) \<Rightarrow> PDict (x # xs) | _ \<Rightarrow> dget analysis ''executor_applied'')
      | None \<Rightarrow> dget analysis ''executor_applied'')"

definition intent_data_of :: "RemediationAttempt option \<Rightarrow> pydict \<Rightarrow> pyval" where
  "intent_data_of row analysis =
     (case row of
        Some r \<Rightarrow> (if at_intent r \<noteq> [] then PDict (at_intent r) else dget analysis ''execution_intent'')
      | None \<Rightarrow> dget analysis ''execution_intent'')"

definition bound_entry_of :: "RemediationAttempt option \<Rightarrow> pyval \<Rightarrow> pydict option" where
  "bound_entry_of row intent_data =
     (case (row, intent_data) of (Some r, PDict d) \<Rightarrow> as_dict (dget d BOUND_ENTRY_KEY) | _ \<Rightarrow> None)"

definition check_applied ::
  "'r verify_env \<Rightarrow> int \<Rightarrow> remediation_db \<Rightarrow> string \<Rightarrow> nat \<Rightarrow> nat \<Rightarrow> pydict \<Rightarrow> RemediationAttempt option \<Rightarrow> pyval
    \<Rightarrow> ExecutionIntent \<Rightarrow> pydict \<Rightarrow> TargetSnapshot \<Rightarrow> verify_result result" where
  "check_applied env now db incident_id attempt max_attempts analysis row intent_data intent applied snap =
     (let applied_at = (case parse_iso (ve_time env) (dget applied ''applied_at'') of Some t \<Rightarrow> t | None \<Rightarrow> now) in
      rbind (assess intent (dget applied ''target_before'') snap (alert_resolved (db_alerts db) incident_id)
               (new_crash_events (db_services db) (db_crash_events db) intent applied_at) attempt max_attempts) (\<lambda>res.
        apply_playbook_verify res
          (playbook_verify_names (ve_sha env) intent analysis (bound_entry_of row intent_data)) attempt max_attempts))"

definition verify_answer :: "verify_result \<Rightarrow> nat \<Rightarrow> int list \<Rightarrow> pydict" where
  "verify_answer res attempt delays =
     [(''outcome'', PStr (as_outcome (vr_assessment res))), (''checks'', PDict (as_checks (vr_assessment res))),
      (''reasons'', PList (map PStr (as_reasons (vr_assessment res))))] @ playbook_verify_field res @
     [(''attempt'', PInt (int attempt)),
      (''next_delay_sec'', if as_outcome (vr_assessment res) = OUTCOME_PENDING \<and> attempt < length delays
                          then PInt (delays ! attempt) else PNone)]"

definition verify_remediation ::
  "'r verify_env \<Rightarrow> int \<Rightarrow> string \<Rightarrow> nat \<Rightarrow> remediation_db \<Rightarrow> 'r kworld \<Rightarrow> pydict result \<times> remediation_db \<times> 'r kworld" where
  "verify_remediation env now incident_id attempt db w =
     (case verify_delays (ve_delays env) of
        Inl e \<Rightarrow> (Inl e, db, w)
      | Inr delays \<Rightarrow>
     (case find_incident db incident_id of
        None \<Rightarrow> (Inr (unknown_outcome ''incident_not_found''), db, w)
      | Some rec \<Rightarrow>
     (case dict_or (ir_analysis rec) of
        Inl e \<Rightarrow> (Inl e, db, w)
      | Inr analysis \<Rightarrow>
     (let row = latest_applied (db_attempts db) incident_id;
          applied_val = applied_of row analysis;
          intent_data = intent_data_of row analysis
      in if \<not> truthy applied_val \<or> \<not> truthy intent_data
         then (Inr (unknown_outcome ''nothing_applied''), db, w)
         else case model_validate intent_data of
           Inl e \<Rightarrow> (Inr (unknown_outcome (''intent_invalid:'' @ exn_name e)), db, w)
         | Inr intent \<Rightarrow>
     (case applied_val of
        PDict applied \<Rightarrow>
          (let (snap_res, w1) = snapshot_target (ve_api env) (ve_breaker env) (ve_kubectl env) (ve_sha env) (ve_json env)
                 (now div 1000000) (isoformat (ve_time env) now) intent True w
           in case rbind snap_res (\<lambda>snap. rbind (check_applied env now db incident_id attempt (length delays)
                          analysis row intent_data intent applied snap) (\<lambda>res.
                     let entry = verify_entry (ve_time env) now attempt (length delays) snap res
                     in rbind (note_history analysis entry) (\<lambda>analysis1. Inr (res, entry, analysis1)))) of
                Inl e \<Rightarrow> (Inl e, db, w1)
              | Inr (res, entry, analysis1) \<Rightarrow>
                  (Inr (verify_answer res attempt delays),
                   store_outcome now (as_outcome (vr_assessment res)) entry (as_reasons (vr_assessment res))
                     rec analysis1 row db,
                   log_event (''EXECUTOR_VERIFY_'' @ map ch_upper (as_outcome (vr_assessment res)))
                     [(''incident_id'', PStr incident_id), (''attempt'', PInt (int attempt)),
                      (''checks'', PDict (as_checks (vr_assessment res))),
                      (''reasons'', PList (map PStr (as_reasons (vr_assessment res))))] w1))
      | _ \<Rightarrow> (Inl AttributeError, db, w))))))"

section \<open>Lemmas\<close>

lemma foldl_update_const:
  assumes "\<And>k v. (k, v) \<in> set rs \<Longrightarrow> v = g k"
  shows "map_of (foldl (\<lambda>acc (k, v). AList.update k v acc) acc rs) k =
    (if k \<in> fst ` set rs then Some (g k) else map_of acc k)"
  using assms
proof (induction rs arbitrary: acc)
  case (Cons r rs)
  obtain k0 v0 where r: "r = (k0, v0)" by (cases r)
  have "v0 = g k0" using Cons.prems [of k0 v0] r by simp
  moreover have "\<And>k v. (k, v) \<in> set rs \<Longrightarrow> v = g k" using Cons.prems by simp
  ultimately show ?case using r Cons.IH by (auto simp: update_conv')
qed simp

lemma evaluate_verify_mem:
  assumes "evaluate_verify names checks = Inr ev" and "n \<in> set names"
  shows "\<exists>f. map_of VERIFY_CHECKS n = Some f \<and> (n, f checks) \<in> set ev"
proof -
  let ?g = "\<lambda>n. the (map_of VERIFY_CHECKS n) checks"
  let ?h = "\<lambda>name. case map_of VERIFY_CHECKS name of Some f \<Rightarrow> Inr (name, f checks) | None \<Rightarrow> Inl KeyError"
  obtain rs where rs: "rmap ?h names = Inr rs" "ev = foldl (\<lambda>acc (k, v). AList.update k v acc) [] rs"
    using assms(1) by (auto simp: evaluate_verify_def rbind_eq_Inr)
  have all: "v = ?g k \<and> map_of VERIFY_CHECKS k \<noteq> None" if "(k, v) \<in> set rs" for k v
    using rmap_mem [OF rs(1) that] by (auto split: option.splits)
  have "list_all2 (\<lambda>x y. ?h x = Inr y) names rs" using rs(1) by (simp only: rmap_Inr)
  then obtain y where y: "y \<in> set rs" "?h n = Inr y"
    using assms(2) unfolding list_all2_conv_all_nth in_set_conv_nth by metis
  then have fst: "fst y = n" by (auto split: option.splits)
  have "map_of ev n = Some (?g n)"
    using foldl_update_const [of rs ?g "[]" n] all y(1) fst unfolding rs(2) by force
  then have "(n, ?g n) \<in> set ev" by (rule map_of_SomeD)
  moreover have "map_of VERIFY_CHECKS n \<noteq> None" using all [of "fst y" "snd y"] y(1) fst by auto
  ultimately show ?thesis by auto
qed

lemma verdict_of_verified:
  assumes "fst (verdict_of took conv heal resolved crashes attempt max_attempts) = OUTCOME_VERIFIED"
  shows "crashes = 0 \<and> took \<noteq> Some False \<and> conv \<noteq> Some False \<and> heal \<noteq> Some False \<and> resolved \<noteq> Some False"
  using assms by (auto simp: verdict_of_def pending_or_failed_def outcome_defs split: if_splits)

lemma verdict_of_last: "max_attempts \<le> attempt \<Longrightarrow>
    fst (verdict_of took conv heal resolved crashes attempt max_attempts) \<noteq> OUTCOME_PENDING"
  by (auto simp: verdict_of_def pending_or_failed_def outcome_defs)

lemma assess_verified:
  assumes "assess intent before_val snap resolved crashes attempt max_attempts = Inr a"
    and "as_outcome a = OUTCOME_VERIFIED"
  shows "\<not> ts_unknown snap \<and> crashes = 0 \<and> resolved \<noteq> Some False \<and>
    converged snap \<noteq> Inr (Some False) \<and> healthy snap \<noteq> Inr (Some False) \<and>
    (\<forall>before. before_val = PDict before \<and> truthy (dget before ''uid'') \<and> truthy (ts_uid snap) \<longrightarrow>
       py_eq (dget before ''uid'') (ts_uid snap))"
  using assms
  by (auto simp: assess_def Let_def outcome_defs rbind_eq_Inr split_beta dget_def
      dest!: verdict_of_verified [unfolded outcome_defs] split: option.splits if_splits)

lemma assess_last:
  assumes "assess intent before_val snap resolved crashes attempt max_attempts = Inr a" and "max_attempts \<le> attempt"
  shows "as_outcome a \<noteq> OUTCOME_PENDING"
  using assms verdict_of_last [OF assms(2)]
  by (auto simp: assess_def Let_def rbind_eq_Inr split_beta split: option.splits if_splits)
    (simp_all add: outcome_defs)

lemma tighten_verified:
  assumes "fst (tighten outcome v ev un is_last) = OUTCOME_VERIFIED"
  shows "outcome = OUTCOME_VERIFIED \<and> \<not> vs_binding_lost v \<and> un = [] \<and> (\<forall>(n, b)\<in>set ev. b = Some True)"
  using assms
  by (auto simp: tighten_def outcome_defs list_ex_iff split: if_splits)

lemma tighten_last: "outcome \<noteq> OUTCOME_PENDING \<Longrightarrow> fst (tighten outcome v ev un True) \<noteq> OUTCOME_PENDING"
  by (auto simp: tighten_def outcome_defs)

lemma playbook_verified:
  assumes "apply_playbook_verify a (Some v) attempt max_attempts = Inr res"
    and "as_outcome (vr_assessment res) = OUTCOME_VERIFIED"
  shows "as_outcome a = OUTCOME_VERIFIED \<and> as_checks (vr_assessment res) = as_checks a \<and> \<not> vs_binding_lost v \<and>
    (\<forall>n\<in>set (vs_names v). \<exists>f. map_of VERIFY_CHECKS n = Some f \<and> f (as_checks a) = Some True)"
proof (cases "vs_names v = [] \<and> \<not> vs_binding_lost v")
  case True
  with assms show ?thesis by (auto simp: apply_playbook_verify_def)
next
  case False
  let ?known = "\<lambda>n. map_of VERIFY_CHECKS n \<noteq> None"
  obtain ev where ev: "evaluate_verify (filter ?known (vs_names v)) (as_checks a) = Inr ev"
    "as_outcome (vr_assessment res) =
       fst (tighten (as_outcome a) v ev (filter (\<lambda>n. \<not> ?known n) (vs_names v)) (max_attempts \<le> attempt))"
    "as_checks (vr_assessment res) = as_checks a"
    using assms(1) False
    by (auto simp: apply_playbook_verify_def Let_def rbind_eq_Inr split_beta)
  with assms(2) have t: "as_outcome a = OUTCOME_VERIFIED" "\<not> vs_binding_lost v"
    "filter (\<lambda>n. \<not> ?known n) (vs_names v) = []" "\<forall>(n, b)\<in>set ev. b = Some True"
    using tighten_verified by metis+
  have "\<exists>f. map_of VERIFY_CHECKS n = Some f \<and> f (as_checks a) = Some True" if "n \<in> set (vs_names v)" for n
  proof -
    have "?known n" using that t(3) by (simp add: filter_empty_conv)
    with that have "n \<in> set (filter ?known (vs_names v))" by simp
    from evaluate_verify_mem [OF ev(1) this] t(4) show ?thesis by fastforce
  qed
  with t ev(3) show ?thesis by blast
qed

lemma verify_names_bound:
  assumes "ei_playbook intent = Some name" "name \<noteq> []" "ei_playbook_match intent = Some m" "m \<noteq> []"
  shows "\<exists>v. playbook_verify_names sha intent analysis bound = Some v \<and>
    (\<not> vs_binding_lost v \<longrightarrow> (\<exists>e. dget e ''binding'' = PStr m \<and> entry_binding sha e = m \<and>
       vs_names v = map py_str (list_of (dget e ''verify''))))"
  using assms
  by (auto simp: playbook_verify_names_def Let_def verified_entry_def split: option.splits if_splits)

lemma check_applied_verified:
  assumes "check_applied env now db iid attempt max_attempts analysis row idata intent applied snap = Inr res"
    and "as_outcome (vr_assessment res) = OUTCOME_VERIFIED"
  obtains a before crashes where "assess intent before snap (alert_resolved (db_alerts db) iid) crashes attempt max_attempts = Inr a"
    "as_outcome a = OUTCOME_VERIFIED" "before = dget applied ''target_before''"
    "as_checks (vr_assessment res) = as_checks a"
    "\<And>v. playbook_verify_names (ve_sha env) intent analysis (bound_entry_of row idata) = Some v \<Longrightarrow>
       \<not> vs_binding_lost v \<and> (\<forall>n\<in>set (vs_names v). \<exists>f. map_of VERIFY_CHECKS n = Some f \<and> f (as_checks a) = Some True)"
proof -
  let ?v = "playbook_verify_names (ve_sha env) intent analysis (bound_entry_of row idata)"
  obtain a crashes where a: "assess intent (dget applied ''target_before'') snap (alert_resolved (db_alerts db) iid)
      crashes attempt max_attempts = Inr a" "apply_playbook_verify a ?v attempt max_attempts = Inr res"
    using assms(1) by (auto simp: check_applied_def Let_def rbind_eq_Inr)
  show thesis
  proof (cases ?v)
    case None
    with a assms(2) show thesis by (intro that [OF a(1)]) (auto simp: apply_playbook_verify_def)
  next
    case (Some v)
    with a(2) have "apply_playbook_verify a (Some v) attempt max_attempts = Inr res" by simp
    from playbook_verified [OF this assms(2)] Some show thesis by (intro that [OF a(1)]) auto
  qed
qed

section \<open>Properties\<close>

text \<open>
  C15. \<open>verified\<close> is earned: if the delayed check reports it, the live object could be read, it is not a
  different object under the same name, the rollout converged and is healthy as far as that could
  be told, the alert is not still firing; and for an intent bound to a playbook the entry the
  approval was given for was found again by its hash and every check it names exists and holds.
\<close>

theorem verified_is_earned:
  assumes "check_applied env now db iid attempt max_attempts analysis row idata intent applied snap = Inr res"
    and "as_outcome (vr_assessment res) = OUTCOME_VERIFIED"
  shows "\<not> ts_unknown snap \<and> alert_resolved (db_alerts db) iid \<noteq> Some False \<and>
    converged snap \<noteq> Inr (Some False) \<and> healthy snap \<noteq> Inr (Some False) \<and>
    (\<forall>before. dget applied ''target_before'' = PDict before \<and> truthy (dget before ''uid'') \<and> truthy (ts_uid snap) \<longrightarrow>
       py_eq (dget before ''uid'') (ts_uid snap)) \<and>
    (\<forall>name m. ei_playbook intent = Some name \<and> name \<noteq> [] \<and> ei_playbook_match intent = Some m \<and> m \<noteq> [] \<longrightarrow>
       (\<exists>e. dget e ''binding'' = PStr m \<and> entry_binding (ve_sha env) e = m \<and>
          (\<forall>n\<in>set (list_of (dget e ''verify'')). \<exists>f. map_of VERIFY_CHECKS (py_str n) = Some f \<and>
             f (as_checks (vr_assessment res)) = Some True)))"
proof -
  let ?v = "playbook_verify_names (ve_sha env) intent analysis (bound_entry_of row idata)"
  obtain a crashes where a: "assess intent (dget applied ''target_before'') snap (alert_resolved (db_alerts db) iid)
      crashes attempt max_attempts = Inr a" "as_outcome a = OUTCOME_VERIFIED" "as_checks (vr_assessment res) = as_checks a"
    and v: "\<And>v. ?v = Some v \<Longrightarrow> \<not> vs_binding_lost v \<and>
       (\<forall>n\<in>set (vs_names v). \<exists>f. map_of VERIFY_CHECKS n = Some f \<and> f (as_checks a) = Some True)"
    using check_applied_verified [OF assms] by metis
  have "\<exists>e. dget e ''binding'' = PStr m \<and> entry_binding (ve_sha env) e = m \<and>
      (\<forall>n\<in>set (list_of (dget e ''verify'')). \<exists>f. map_of VERIFY_CHECKS (py_str n) = Some f \<and> f (as_checks a) = Some True)"
    if "ei_playbook intent = Some name" "name \<noteq> []" "ei_playbook_match intent = Some m" "m \<noteq> []" for name m
    using verify_names_bound [OF that, of "ve_sha env" analysis "bound_entry_of row idata"] v by force
  with assess_verified [OF a(1,2)] a(3) show ?thesis by auto
qed

text \<open>
  Verification comes to an end: on the last attempt the outcome is never \<open>pending\<close>, so a check that
  returns reports success, failure or that it cannot know, and asks for no further attempt.
\<close>

theorem verification_ends:
  assumes "check_applied env now db iid attempt max_attempts analysis row idata intent applied snap = Inr res"
    and "max_attempts \<le> attempt"
  shows "as_outcome (vr_assessment res) \<noteq> OUTCOME_PENDING"
proof -
  let ?v = "playbook_verify_names (ve_sha env) intent analysis (bound_entry_of row idata)"
  obtain a crashes where a: "assess intent (dget applied ''target_before'') snap (alert_resolved (db_alerts db) iid)
      crashes attempt max_attempts = Inr a" "apply_playbook_verify a ?v attempt max_attempts = Inr res"
    using assms(1) by (auto simp: check_applied_def Let_def rbind_eq_Inr)
  note p = assess_last [OF a(1) assms(2)]
  show ?thesis
    using a(2) p tighten_last [OF p] assms(2)
    by (auto simp: apply_playbook_verify_def Let_def rbind_eq_Inr split_beta split: option.splits if_splits)
qed

section \<open>Witnesses\<close>

definition sample_clock :: iso_time where
  "sample_clock = \<lparr>fromisoformat = int_text, isoformat = int_str\<rparr>"

definition sample_verify_env :: "kv verify_env" where
  "sample_verify_env =
     \<lparr>ve_api = kv_api, ve_breaker = \<lparr>FAILURES_TO_OPEN = 3, OPEN_SECONDS = 60\<rparr>,
      ve_kubectl = (\<lambda>_ _. TimeoutExpired), ve_sha = sample_hash, ve_json = (\<lambda>_. None),
      ve_time = sample_clock, ve_delays = ''300,900''\<rparr>"

definition empty_db :: remediation_db where
  "empty_db = \<lparr>db_incidents = [], db_attempts = [], db_attempt_seq = 1, db_approvals = [], db_decisions = [],
     db_alerts = [], db_services = [], db_crash_events = []\<rparr>"

definition sample_entry :: pydict where
  "sample_entry = [(''playbook'', PStr ''scale_out_cpu_throttled_deployment''),
     (''verify'', PList [PStr ''converged'', PStr ''same_identity'']), (''binding'', PStr ''aaaaaaaaaaaa'')]"

definition sample_row :: RemediationAttempt where
  "sample_row = new_claim 1 0 ''i1'' ''s1'' (model_dump sample_bound) ''op'' (Some sample_entry)"

definition sample_snap :: TargetSnapshot where
  "sample_snap = (unavailable ''0'' ''-'' sample_bound)\<lparr>ts_unknown := False, ts_reason := None, ts_uid := PStr ''u1'',
     ts_generation := PInt 4, ts_observed_generation := PInt 4, ts_replicas_desired := PInt 4,
     ts_replicas_ready := PInt 4\<rparr>"

definition sample_check :: "nat \<Rightarrow> TargetSnapshot \<Rightarrow> verify_result result" where
  "sample_check attempt snap = check_applied sample_verify_env 0 empty_db ''i1'' attempt 2 [] (Some sample_row)
     (PDict (at_intent sample_row)) sample_bound [(''target_before'', PDict [(''uid'', PStr ''u1'')])] snap"

lemma sample_check_verified:
  "case sample_check 1 sample_snap of Inr r \<Rightarrow> as_outcome (vr_assessment r) = OUTCOME_VERIFIED | Inl _ \<Rightarrow> False"
  by code_simp

lemma sample_check_behind:
  "is_ok (sample_check 2 (sample_snap\<lparr>ts_observed_generation := PInt 3\<rparr>))"
  by code_simp

theorem verified_is_earned_witness:
  "\<exists>res. sample_check 1 sample_snap = Inr res \<and>
     (\<exists>e. dget e ''binding'' = PStr ''aaaaaaaaaaaa'' \<and> entry_binding sample_hash e = ''aaaaaaaaaaaa'')"
proof -
  obtain res where r: "sample_check 1 sample_snap = Inr res" "as_outcome (vr_assessment res) = OUTCOME_VERIFIED"
    using sample_check_verified by (cases "sample_check 1 sample_snap") simp_all
  have b: "ei_playbook sample_bound = Some ''scale_out_cpu_throttled_deployment''"
    "ei_playbook_match sample_bound = Some ''aaaaaaaaaaaa''" "ve_sha sample_verify_env = sample_hash"
    by (simp_all add: sample_bound_def sample_planned_def sample_verify_env_def)
  show ?thesis
    using verified_is_earned [OF r(1) [unfolded sample_check_def] r(2)] r(1) b by auto
qed

theorem verification_ends_witness:
  "\<exists>res. sample_check 2 (sample_snap\<lparr>ts_observed_generation := PInt 3\<rparr>) = Inr res \<and>
     as_outcome (vr_assessment res) \<noteq> OUTCOME_PENDING"
proof -
  obtain res where r: "sample_check 2 (sample_snap\<lparr>ts_observed_generation := PInt 3\<rparr>) = Inr res"
    using sample_check_behind by (auto simp: is_ok_iff)
  from verification_ends [OF r [unfolded sample_check_def]] r show ?thesis by auto
qed

end
