(* ===== verification/Executor_Apply.thy ===== *)
theory Executor_Apply
  imports Executor_Gate Verification
begin

text \<open>
  \<open>apply_intent\<close> of \<open>app/services/executor_apply.py\<close>: the path from an approved intent to the command in
  the cluster. It has three phases between two commits: the checks and the claim, the command, and
  the record of its result. The database is a value, so a phase that returns without a commit
  leaves it as it was; a failing database is not modelled. The clock is read once per phase. Texts
  of exceptions and reasons are abbreviated where they only inform.
\<close>

section \<open>Settings, refusals, claims\<close>

record 'r apply_env =
  ax_verify :: "'r verify_env"
  ax_k8s :: k8s_config
  IN_FLIGHT_TTL_SECONDS :: int
  APPROVAL_MAX_AGE_SECONDS :: int
  INTENT_MAX_AGE_SECONDS :: int
  ax_binding :: bool
  ax_registry :: "string + (string \<times> Playbook) list"
  ax_verify_enabled :: bool
  ax_broker :: "string option"

text \<open>\<open>int(setting or default)\<close>\<close>

definition or_default :: "int \<Rightarrow> int \<Rightarrow> int" where
  "or_default n d = (if n = 0 then d else n)"

definition STATE_UNKNOWN_REASON :: string where
  "STATE_UNKNOWN_REASON = ''cluster_state_unknown:manual_intervention_required''"

definition ELIGIBLE_RISKS :: "string list" where
  "ELIGIBLE_RISKS = [''low'', ''medium'']"

text \<open>
  A phase stops with a refusal, with the audit events that come before the one every refusal logs, or
  with an exception.
\<close>

datatype stop = Refuse string "(string \<times> pydict) list" | Throw exn

definition lift_exn :: "'a result \<Rightarrow> stop + 'a" where
  "lift_exn r = (case r of Inl e \<Rightarrow> Inl (Throw e) | Inr x \<Rightarrow> Inr x)"

definition refuse_dict :: "string \<Rightarrow> pydict" where
  "refuse_dict reason = [(''ok'', PBool False), (''reason'', PStr reason)]"

definition refuse :: "string \<Rightarrow> string \<Rightarrow> string \<Rightarrow> 'r kworld \<Rightarrow> 'r kworld" where
  "refuse incident_id reason applied_by w =
     log_event ''EXECUTOR_APPLY_REFUSED''
       [(''incident_id'', PStr incident_id), (''reason'', PStr reason), (''applied_by'', PStr applied_by)] w"

record claim =
  cm_incident_id :: string
  cm_applied_by :: string
  cm_row_id :: int
  cm_attempt_id :: int
  cm_intent_data :: pyval
  cm_intent :: ExecutionIntent
  cm_analysis :: pydict
  cm_recorded_at :: int
  cm_anchor :: string
  cm_age :: int
  cm_gate :: PolicyDecision
  cm_recheck :: pydict
  cm_expected :: "pydict option"
  cm_before :: TargetSnapshot

section \<open>What has happened to the incident before\<close>

definition in_flight_is_fresh :: "iso_time \<Rightarrow> int \<Rightarrow> pydict \<Rightarrow> int \<Rightarrow> bool" where
  "in_flight_is_fresh clk now entry ttl_sec =
     (case fromisoformat clk (py_str (dget entry ''claimed_at'')) of
        None \<Rightarrow> True
      | Some claimed_at \<Rightarrow> now - claimed_at \<le> ttl_sec * 1000000)"

datatype prior =
    AlreadyApplied | ApplyInFlight | StaleJson pyval | StaleRow RemediationAttempt | StateUnknown | Free

definition prior_row :: "int \<Rightarrow> int \<Rightarrow> RemediationAttempt option \<Rightarrow> prior" where
  "prior_row now ttl attempt =
     (case attempt of
        None \<Rightarrow> Free
      | Some r \<Rightarrow>
          if at_status r \<in> set DONE_STATUSES then AlreadyApplied
          else if at_status r = STATUS_CLAIMED
          then (if claim_is_fresh now r ttl then ApplyInFlight else StaleRow r)
          else if at_status r = STATUS_UNKNOWN then StateUnknown
          else Free)"

definition prior_state :: "iso_time \<Rightarrow> int \<Rightarrow> int \<Rightarrow> pydict \<Rightarrow> RemediationAttempt option \<Rightarrow> prior" where
  "prior_state clk now ttl analysis attempt =
     (let in_flight = dget analysis ''executor_in_flight'' in
      if truthy (dget analysis ''executor_applied'') then AlreadyApplied
      else if (case in_flight of PDict e \<Rightarrow> in_flight_is_fresh clk now e ttl | _ \<Rightarrow> False) then ApplyInFlight
      else if truthy in_flight then StaleJson in_flight
      else if prior_row now ttl attempt \<noteq> Free then prior_row now ttl attempt
      else if truthy (dget analysis ''executor_state_unknown'') then StateUnknown
      else Free)"

definition mark_state_unknown :: "iso_time \<Rightarrow> int \<Rightarrow> pydict \<Rightarrow> pyval \<Rightarrow> string \<Rightarrow> pydict" where
  "mark_state_unknown clk now analysis stale_claim applied_by =
     dset (dpop analysis ''executor_in_flight'') ''executor_state_unknown''
       (PDict [(''detected_at'', PStr (isoformat clk now)), (''detected_by'', PStr applied_by),
               (''stale_claim'', case stale_claim of PDict d \<Rightarrow> PDict d | v \<Rightarrow> PStr (py_str v)),
               (''resolution'', PStr ''manual'')])"

definition stale_claim_dict :: "iso_time \<Rightarrow> RemediationAttempt \<Rightarrow> pydict" where
  "stale_claim_dict clk r =
     [(''claimed_at'', case at_claimed_at r of None \<Rightarrow> PNone | Some t \<Rightarrow> PStr (isoformat clk t)),
      (''claimed_by'', opt_pystr (at_applied_by r)), (''attempt_id'', PInt (at_id r))]"

definition set_analysis :: "int \<Rightarrow> pydict \<Rightarrow> remediation_db \<Rightarrow> remediation_db" where
  "set_analysis row_id analysis db =
     db\<lparr>db_incidents := map (\<lambda>r. if ir_row_id r = row_id then r\<lparr>ir_analysis := PDict analysis\<rparr> else r) (db_incidents db)\<rparr>"

section \<open>Authorisation\<close>

definition approval_is_stale :: "int \<Rightarrow> ActionApproval \<Rightarrow> int \<Rightarrow> bool" where
  "approval_is_stale now approval max_age_sec =
     (case aa_decided_at approval of None \<Rightarrow> True | Some t \<Rightarrow> max_age_sec * 1000000 < now - t)"

definition load_approval :: "ActionApproval list \<Rightarrow> string \<Rightarrow> string \<Rightarrow> ActionApproval option" where
  "load_approval approvals incident_id signature =
     find (\<lambda>a. aa_incident_id a = incident_id \<and> aa_intent_signature a = signature) approvals"

definition incident_namespace :: "incident_record \<Rightarrow> string option" where
  "incident_namespace rec =
     (let data = (case ir_data rec of PDict d \<Rightarrow> d | _ \<Rightarrow> []);
          ns = (if truthy (dget data ''namespace'') then dget data ''namespace''
                else (case dget data ''labels'' of PDict labels \<Rightarrow> dget labels ''namespace'' | _ \<Rightarrow> dget data ''namespace''))
      in if truthy ns then Some (lower (strip (py_str ns))) else None)"

text \<open>\<open>int(timedelta.total_seconds())\<close> truncates towards zero.\<close>

definition whole_seconds :: "int \<Rightarrow> int" where
  "whole_seconds d = (if 0 \<le> d then d div 1000000 else - ((- d) div 1000000))"

definition check_signature :: "(string \<Rightarrow> string) \<Rightarrow> ExecutionIntent \<Rightarrow> string option \<Rightarrow> stop + string" where
  "check_signature sha intent expected =
     (case expected of
        None \<Rightarrow> Inl (Refuse ''signature_required'' [])
      | Some s \<Rightarrow>
          if s = [] then Inl (Refuse ''signature_required'' [])
          else if compute_signature sha intent \<noteq> s then Inl (Refuse ''signature_mismatch'' [])
          else Inr s)"

definition check_approval :: "int \<Rightarrow> int \<Rightarrow> ActionApproval list \<Rightarrow> string \<Rightarrow> string \<Rightarrow> stop + unit" where
  "check_approval now max_age approvals incident_id signature =
     (case load_approval approvals incident_id signature of
        None \<Rightarrow> Inl (Refuse ''not_approved'' [])
      | Some a \<Rightarrow>
          if lower (aa_status a) \<noteq> ''approved'' then Inl (Refuse ''not_approved'' [])
          else if approval_is_stale now a max_age then Inl (Refuse ''approval_stale'' [])
          else Inr ())"

definition check_namespace :: "incident_record \<Rightarrow> ExecutionIntent \<Rightarrow> stop + unit" where
  "check_namespace rec intent =
     (case incident_namespace rec of
        None \<Rightarrow> Inl (Refuse ''namespace_unbound'' [])
      | Some ns \<Rightarrow>
          if ns = [] then Inl (Refuse ''namespace_unbound'' [])
          else if lower (strip (ei_namespace intent)) \<noteq> ns then Inl (Refuse ''namespace_mismatch'' [])
          else Inr ())"

definition check_plan_state :: "ExecutionIntent \<Rightarrow> pydict \<Rightarrow> stop + unit" where
  "check_plan_state intent analysis =
     (if lower (ei_risk intent) \<notin> set ELIGIBLE_RISKS then Inl (Refuse (''risk_too_high:'' @ ei_risk intent) [])
      else (let v = dget analysis ''executor_result'' in
            rbind (if \<not> truthy v then Inr [] else (case v of PDict d \<Rightarrow> Inr d | _ \<Rightarrow> Inl (Throw AttributeError))) (\<lambda>er.
              if dget er ''status'' \<noteq> PStr ''dry_run_ok''
              then Inl (Refuse (''dry_run_not_ok:'' @
                     (if has_key er ''status'' then py_str (dget er ''status'') else ''missing'')) [])
              else Inr ())))"

definition check_age :: "iso_time \<Rightarrow> int \<Rightarrow> int \<Rightarrow> pydict \<Rightarrow> int option \<Rightarrow> stop + (int \<times> string \<times> int)" where
  "check_age clk now max_age analysis created_at =
     (case intent_recorded_at clk analysis created_at of
        (None, _) \<Rightarrow> Inl (Refuse ''intent_age_unknown'' [])
      | (Some recorded_at, anchor) \<Rightarrow>
          (let age = whole_seconds (now - recorded_at) in
           if max_age < age then Inl (Refuse (''intent_stale:'' @ int_str age @ ''s'') [])
           else Inr (recorded_at, anchor, age)))"

definition mode_value :: "PolicyMode \<Rightarrow> string" where
  "mode_value m = (case m of AUTO \<Rightarrow> ''auto'' | APPROVE \<Rightarrow> ''approve'' | BLOCK \<Rightarrow> ''block'')"

definition decision_to_dict :: "PolicyDecision \<Rightarrow> pydict" where
  "decision_to_dict d = [(''mode'', PStr (mode_value (pd_mode d))), (''reasons'', PList (map PDict (pd_reasons d)))]"

definition block_code :: "PolicyDecision \<Rightarrow> string" where
  "block_code d =
     (case pd_reasons d of
        [] \<Rightarrow> ''no_match''
      | first # _ \<Rightarrow> if truthy (dget first ''axis'') then py_str (dget first ''axis'')
                     else if truthy (dget first ''rule'') then py_str (dget first ''rule'') else ''no_match'')"

definition BRIDGE_SOURCE :: string where "BRIDGE_SOURCE = ''remediation_bridge''"

definition is_bridge_analysis :: "pydict \<Rightarrow> bool" where
  "is_bridge_analysis analysis \<longleftrightarrow> dget analysis ''source'' = PStr BRIDGE_SOURCE"

definition check_gate :: "'r apply_env \<Rightarrow> string \<Rightarrow> string \<Rightarrow> pydict \<Rightarrow> ExecutionIntent \<Rightarrow> stop + PolicyDecision" where
  "check_gate env incident_id applied_by analysis intent =
     rbind (lift_exn (evaluate_intent_gate (ve_sha (ax_verify env)) (ax_binding env) (ax_registry env) intent
              (dget analysis ''playbook_match'') (is_bridge_analysis analysis))) (\<lambda>gate.
       if pd_mode gate = BLOCK
       then Inl (Refuse (''policy_block:'' @ block_code gate)
              [(''EXECUTOR_APPLY_REFUSED_POLICY'',
                [(''incident_id'', PStr incident_id), (''applied_by'', PStr applied_by),
                 (''policy_decision'', PDict (decision_to_dict gate))])])
       else Inr gate)"

record authorized =
  az_intent_data :: pyval
  az_intent :: ExecutionIntent
  az_signature :: string
  az_recorded_at :: int
  az_anchor :: string
  az_age :: int
  az_gate :: PolicyDecision

definition authorize ::
  "'r apply_env \<Rightarrow> int \<Rightarrow> remediation_db \<Rightarrow> incident_record \<Rightarrow> pydict \<Rightarrow> string \<Rightarrow> string \<Rightarrow> string option \<Rightarrow> stop + authorized" where
  "authorize env now db rec analysis incident_id applied_by expected_signature =
     (let intent_data = dget analysis ''execution_intent'' in
      if \<not> truthy intent_data then Inl (Refuse ''no_intent'' [])
      else case model_validate intent_data of
        Inl e \<Rightarrow> Inl (Refuse (''intent_invalid:'' @ exn_name e) [])
      | Inr intent \<Rightarrow>
          rbind (check_signature (ve_sha (ax_verify env)) intent expected_signature) (\<lambda>sig.
          rbind (check_approval now (or_default (APPROVAL_MAX_AGE_SECONDS env) 3600) (db_approvals db) incident_id sig) (\<lambda>_.
          rbind (check_namespace rec intent) (\<lambda>_.
          rbind (check_plan_state intent analysis) (\<lambda>_.
          rbind (check_age (ve_time (ax_verify env)) now (or_default (INTENT_MAX_AGE_SECONDS env) 86400) analysis
                   (ir_created_at rec)) (\<lambda>(recorded_at, anchor, age).
          rbind (check_gate env incident_id applied_by analysis intent) (\<lambda>gate.
            Inr \<lparr>az_intent_data = intent_data, az_intent = intent, az_signature = sig, az_recorded_at = recorded_at,
                 az_anchor = anchor, az_age = age, az_gate = gate\<rparr>)))))))"

section \<open>Phase 1: the checks on the live cluster and the claim\<close>

definition result_detail :: "nat \<Rightarrow> pydict \<Rightarrow> string" where
  "result_detail n res =
     (let err = dget res ''error''; stderr = (case dget res ''stderr'' of PStr s \<Rightarrow> strip s | _ \<Rightarrow> [])
      in take n (if truthy err then py_str err else if stderr \<noteq> [] then stderr
                 else ''exit_code='' @ py_str (dget res ''exit_code'')))"

definition opt_dict :: "pydict option \<Rightarrow> pyval" where
  "opt_dict d = (case d of None \<Rightarrow> PNone | Some e \<Rightarrow> PDict e)"

definition check_recheck :: "string \<Rightarrow> string \<Rightarrow> pydict \<Rightarrow> stop + unit" where
  "check_recheck incident_id applied_by recheck =
     (if truthy (dget recheck ''success'') then Inr ()
      else Inl (Refuse (''dry_run_recheck_failed:'' @ result_detail 160 recheck)
             [(''EXECUTOR_APPLY_DRY_RUN_RECHECK_FAILED'',
               [(''incident_id'', PStr incident_id), (''applied_by'', PStr applied_by),
                (''command'', dget recheck ''command''), (''detail'', PStr (result_detail 160 recheck))])]))"

definition check_target :: "string \<Rightarrow> string \<Rightarrow> pydict option \<Rightarrow> TargetSnapshot \<Rightarrow> stop + unit" where
  "check_target incident_id applied_by expected before =
     (let details = [(''incident_id'', PStr incident_id), (''applied_by'', PStr applied_by),
            (''expected'', opt_dict expected), (''live'', PDict (snapshot_to_dict before))]
      in case identity_mismatch expected before of
           Some m \<Rightarrow> Inl (Refuse (''target_reincarnated:'' @ m) [(''EXECUTOR_APPLY_REFUSED_TARGET_REINCARNATED'', details)])
         | None \<Rightarrow>
             if ts_unknown before \<and> truthy (expected_uid expected)
             then Inl (Refuse (''target_snapshot_unknown:'' @ (case ts_reason before of Some r \<Rightarrow> r | None \<Rightarrow> ''None''))
                    [(''EXECUTOR_APPLY_REFUSED_TARGET_UNVERIFIED'', details)])
             else Inr ())"

definition seconds :: "int \<Rightarrow> int" where "seconds now = now div 1000000"

text \<open>The server-side dry run and the snapshot, both past the breaker; nothing is stored.\<close>

definition probe_target ::
  "'r apply_env \<Rightarrow> int \<Rightarrow> remediation_db \<Rightarrow> string \<Rightarrow> string \<Rightarrow> authorized \<Rightarrow> 'r kworld
    \<Rightarrow> (stop + (pydict \<times> pydict option \<times> TargetSnapshot)) \<times> 'r kworld" where
  "probe_target env now db incident_id applied_by az w =
     (let v = ax_verify env;
          (recheck_res, w1) = execute_intent (ve_api v) (ax_k8s env) (ve_kubectl v) (seconds now) (az_intent az) True False w
      in case rbind (lift_exn recheck_res) (\<lambda>r. rbind (check_recheck incident_id applied_by r) (\<lambda>_. Inr r)) of
           Inl s \<Rightarrow> (Inl s, w1)
         | Inr recheck \<Rightarrow>
             (let expected = expected_identity (db_decisions db) incident_id;
                  (before_res, w2) = snapshot_target (ve_api v) (ve_breaker v) (ve_kubectl v) (ve_sha v) (ve_json v)
                    (seconds now) (isoformat (ve_time v) now) (az_intent az) False w1
              in (rbind (lift_exn before_res) (\<lambda>before.
                    rbind (check_target incident_id applied_by expected before) (\<lambda>_. Inr (recheck, expected, before))), w2)))"

definition in_flight_entry :: "iso_time \<Rightarrow> int \<Rightarrow> string \<Rightarrow> authorized \<Rightarrow> pydict" where
  "in_flight_entry clk now applied_by az =
     [(''claimed_at'', PStr (isoformat clk now)), (''claimed_by'', PStr applied_by),
      (''intent_recorded_at'', PStr (isoformat clk (az_recorded_at az))), (''intent_time_anchor'', PStr (az_anchor az))]"

definition claim_row :: "'r apply_env \<Rightarrow> int \<Rightarrow> remediation_db \<Rightarrow> string \<Rightarrow> string \<Rightarrow> pydict \<Rightarrow> authorized \<Rightarrow> RemediationAttempt" where
  "claim_row env now db incident_id applied_by analysis az =
     new_claim (db_attempt_seq db) now incident_id (az_signature az) (model_dump (az_intent az)) applied_by
       (bound_entry_for (ve_sha (ax_verify env)) (az_intent az) (dget analysis ''playbook_match''))"

datatype phase1 = Stopped stop | AnsweredDone | Claimed claim

definition stale_details :: "string \<Rightarrow> string \<Rightarrow> pyval \<Rightarrow> pydict" where
  "stale_details incident_id applied_by stale =
     [(''incident_id'', PStr incident_id), (''applied_by'', PStr applied_by), (''stale_claim'', stale)]"

definition take_claim ::
  "'r apply_env \<Rightarrow> int \<Rightarrow> string \<Rightarrow> string \<Rightarrow> incident_record \<Rightarrow> pydict \<Rightarrow> authorized \<Rightarrow> pydict \<times> pydict option \<times> TargetSnapshot
    \<Rightarrow> remediation_db \<Rightarrow> phase1 \<times> remediation_db" where
  "take_claim env now incident_id applied_by rec analysis az probe db =
     (let row = claim_row env now db incident_id applied_by analysis az;
          (recheck, expected, before) = probe;
          db1 = db\<lparr>db_attempt_seq := db_attempt_seq db + 1\<rparr>;
          analysis1 = dset analysis ''executor_in_flight'' (PDict (in_flight_entry (ve_time (ax_verify env)) now applied_by az))
      in case insert_claim row (db_attempts db) of
           None \<Rightarrow> (Stopped (Refuse ''apply_in_flight'' []), db1)
         | Some rows \<Rightarrow>
             (Claimed \<lparr>cm_incident_id = incident_id, cm_applied_by = applied_by, cm_row_id = ir_row_id rec,
                cm_attempt_id = at_id row, cm_intent_data = az_intent_data az, cm_intent = az_intent az,
                cm_analysis = analysis1, cm_recorded_at = az_recorded_at az, cm_anchor = az_anchor az, cm_age = az_age az,
                cm_gate = az_gate az, cm_recheck = recheck, cm_expected = expected, cm_before = before\<rparr>,
              set_analysis (ir_row_id rec) analysis1 (db1\<lparr>db_attempts := rows\<rparr>)))"

definition claim_free ::
  "'r apply_env \<Rightarrow> int \<Rightarrow> string \<Rightarrow> string \<Rightarrow> string option \<Rightarrow> incident_record \<Rightarrow> pydict \<Rightarrow> remediation_db \<Rightarrow> 'r kworld
    \<Rightarrow> phase1 \<times> remediation_db \<times> 'r kworld" where
  "claim_free env now incident_id applied_by expected_signature rec analysis db w =
     (case authorize env now db rec analysis incident_id applied_by expected_signature of
        Inl s \<Rightarrow> (Stopped s, db, w)
      | Inr az \<Rightarrow>
          (case probe_target env now db incident_id applied_by az w of
             (Inl s, w1) \<Rightarrow> (Stopped s, db, w1)
           | (Inr probe, w1) \<Rightarrow>
               (let (p, db1) = take_claim env now incident_id applied_by rec analysis az probe db in (p, db1, w1))))"

definition apply_claim ::
  "'r apply_env \<Rightarrow> int \<Rightarrow> string \<Rightarrow> string \<Rightarrow> string option \<Rightarrow> remediation_db \<Rightarrow> 'r kworld
    \<Rightarrow> phase1 \<times> remediation_db \<times> 'r kworld" where
  "apply_claim env now incident_id applied_by expected_signature db w =
     (case find_incident db incident_id of
        None \<Rightarrow> (Stopped (Refuse ''incident_not_found'' []), db, w)
      | Some rec \<Rightarrow>
     (case (if \<not> truthy (ir_analysis rec) then Some [] else as_dict (ir_analysis rec)) of
        None \<Rightarrow> (Stopped (Throw AttributeError), db, w)
      | Some analysis \<Rightarrow>
     (let clk = ve_time (ax_verify env);
          mark = (\<lambda>stale. set_analysis (ir_row_id rec) (mark_state_unknown clk now analysis stale applied_by));
          unknown = (\<lambda>stale. Stopped (Refuse STATE_UNKNOWN_REASON
                       [(''EXECUTOR_STATE_UNKNOWN'', stale_details incident_id applied_by stale)]))
      in case prior_state clk now (or_default (IN_FLIGHT_TTL_SECONDS env) 600) analysis
                (blocking_attempt (db_attempts db) incident_id) of
           AlreadyApplied \<Rightarrow> (AnsweredDone, db, w)
         | ApplyInFlight \<Rightarrow> (Stopped (Refuse ''apply_in_flight'' []), db, w)
         | StaleJson stale \<Rightarrow> (unknown stale, mark stale db, w)
         | StaleRow r \<Rightarrow>
             (let stale = PDict (stale_claim_dict clk r) in
              (unknown stale,
               mark stale (db\<lparr>db_attempts := update_row (at_id r)
                 (set_status now STATUS_UNKNOWN (\<lambda>x. x\<lparr>at_error := Some ''stale_claim''\<rparr>)) (db_attempts db)\<rparr>),
               w))
         | StateUnknown \<Rightarrow> (Stopped (Refuse STATE_UNKNOWN_REASON []), db, w)
         | Free \<Rightarrow> claim_free env now incident_id applied_by expected_signature rec analysis db w)))"

section \<open>Phase 2: the command\<close>

definition apply_write ::
  "'r apply_env \<Rightarrow> int \<Rightarrow> claim \<Rightarrow> 'r kworld \<Rightarrow> (pydict \<times> TargetSnapshot) result \<times> 'r kworld" where
  "apply_write env now c w =
     (let v = ax_verify env;
          (res, w1) = execute_intent (ve_api v) (ax_k8s env) (ve_kubectl v) (seconds now) (cm_intent c) False True w
      in case res of
           Inl e \<Rightarrow> (Inl e, w1)
         | Inr r \<Rightarrow>
             (let (after_res, w2) = snapshot_target (ve_api v) (ve_breaker v) (ve_kubectl v) (ve_sha v) (ve_json v)
                    (seconds now) (isoformat (ve_time v) now) (cm_intent c) True w1
              in (rbind after_res (\<lambda>after. Inr (r, after)), w2)))"

section \<open>Phase 3: the record of the result\<close>

definition text_field :: "pydict \<Rightarrow> string \<Rightarrow> pyval" where
  "text_field res k = PStr (take 2048 (case dget res k of PStr s \<Rightarrow> s | _ \<Rightarrow> []))"

definition succeeded :: "pydict \<Rightarrow> bool" where
  "succeeded res \<longleftrightarrow> truthy (dget_or res ''success'' (PBool False))"

definition applied_entry :: "'r apply_env \<Rightarrow> int \<Rightarrow> claim \<Rightarrow> pydict \<Rightarrow> TargetSnapshot \<Rightarrow> pydict \<Rightarrow> pydict" where
  "applied_entry env now c res after verification =
     (let clk = ve_time (ax_verify env) in
      [(''applied_at'', PStr (isoformat clk now)), (''applied_by'', PStr (cm_applied_by c)),
       (''intent_recorded_at'', PStr (isoformat clk (cm_recorded_at c))), (''intent_time_anchor'', PStr (cm_anchor c)),
       (''intent_age_seconds'', PInt (cm_age c)),
       (''pre_write_dry_run'', PDict [(''command'', dget (cm_recheck c) ''command''),
                                     (''exit_code'', dget (cm_recheck c) ''exit_code'')]),
       (''result'', PDict [(''success'', dget_or res ''success'' (PBool False)), (''command'', dget res ''command''),
                          (''stdout'', text_field res ''stdout''), (''stderr'', text_field res ''stderr''),
                          (''exit_code'', dget res ''exit_code''), (''error'', dget res ''error'')]),
       (''policy_decision'', PDict (decision_to_dict (cm_gate c))), (''target_expected'', opt_dict (cm_expected c)),
       (''target_before'', PDict (snapshot_to_dict (cm_before c))), (''target_after'', PDict (snapshot_to_dict after)),
       (''identity_check'', PStr (identity_check (cm_expected c) (cm_before c))), (''verification'', PDict verification)])"

type_synonym verify_task = "string \<times> nat \<times> int"

definition apply_finalize ::
  "'r apply_env \<Rightarrow> int \<Rightarrow> claim \<Rightarrow> pydict \<Rightarrow> TargetSnapshot \<Rightarrow> remediation_db \<Rightarrow> 'r kworld
    \<Rightarrow> (pydict \<times> verify_task option) result \<times> remediation_db \<times> 'r kworld" where
  "apply_finalize env now c res after db w =
     (case (if succeeded res
            then schedule_verification (ax_verify_enabled env) (ve_delays (ax_verify env)) (ax_broker env) (cm_incident_id c) 1
            else Inr ([(''scheduled'', PBool False), (''reason'', PStr ''apply_failed'')], None)) of
        Inl e \<Rightarrow> (Inl e, db, w)
      | Inr (verification, task) \<Rightarrow>
          (let entry = applied_entry env now c res after verification;
               status = (if succeeded res then STATUS_APPLIED else STATUS_FAILED);
               err = (if succeeded res then None else Some (result_detail 2000 res));
               rows = update_row (cm_attempt_id c)
                        (set_status now status (\<lambda>r. r\<lparr>at_applied_at := Some now, at_result := PDict entry, at_error := err\<rparr>))
                        (db_attempts db);
               analysis = dpop (dset (cm_analysis c) ''executor_applied'' (PDict entry)) ''executor_in_flight''
           in (Inr ([(''ok'', PBool True), (''result'', PDict res), (''intent'', cm_intent_data c)], task),
               set_analysis (cm_row_id c) analysis (db\<lparr>db_attempts := rows\<rparr>),
               log_event ''EXECUTOR_APPLIED''
                 [(''incident_id'', PStr (cm_incident_id c)), (''applied_by'', PStr (cm_applied_by c)),
                  (''command'', dget res ''command''), (''success'', dget_or res ''success'' (PBool False)),
                  (''policy_decision'', PDict (decision_to_dict (cm_gate c))), (''intent_age_seconds'', PInt (cm_age c)),
                  (''intent_time_anchor'', PStr (cm_anchor c))] w)))"

section \<open>The whole call\<close>

definition exn_text :: "exn \<Rightarrow> string" where
  "exn_text e = (case e of ValueError m \<Rightarrow> m | PermissionError m \<Rightarrow> m | e \<Rightarrow> exn_name e)"

definition exception_answer :: "string \<Rightarrow> exn \<Rightarrow> 'r kworld \<Rightarrow> pydict \<times> 'r kworld" where
  "exception_answer incident_id e w =
     ([(''ok'', PBool False), (''reason'', PStr ''execute_error''), (''error'', PStr (exn_text e))],
      log_event ''EXECUTOR_APPLY_EXCEPTION'' [(''incident_id'', PStr incident_id), (''error'', PStr (exn_name e))] w)"

definition stop_answer :: "string \<Rightarrow> string \<Rightarrow> stop \<Rightarrow> 'r kworld \<Rightarrow> pydict \<times> 'r kworld" where
  "stop_answer incident_id applied_by s w =
     (case s of
        Refuse reason events \<Rightarrow>
          (refuse_dict reason, refuse incident_id reason applied_by (foldl (\<lambda>w (e, d). log_event e d w) w events))
      | Throw e \<Rightarrow> exception_answer incident_id e w)"

definition apply_intent ::
  "'r apply_env \<Rightarrow> int \<Rightarrow> int \<Rightarrow> int \<Rightarrow> string \<Rightarrow> string \<Rightarrow> string option \<Rightarrow> remediation_db \<Rightarrow> 'r kworld
    \<Rightarrow> pydict \<times> remediation_db \<times> 'r kworld" where
  "apply_intent env t1 t2 t3 incident_id applied_by expected_signature db w =
     (case apply_claim env t1 incident_id applied_by expected_signature db w of
        (AnsweredDone, db1, w1) \<Rightarrow> (refuse_dict ''already_applied'', db1, w1)
      | (Stopped s, db1, w1) \<Rightarrow> (let (d, w2) = stop_answer incident_id applied_by s w1 in (d, db1, w2))
      | (Claimed c, db1, w1) \<Rightarrow>
          (case apply_write env t2 c w1 of
             (Inl e, w2) \<Rightarrow> (let (d, w3) = exception_answer incident_id e w2 in (d, db1, w3))
           | (Inr (res, after), w2) \<Rightarrow>
               (case apply_finalize env t3 c res after db1 w2 of
                  (Inl e, db2, w3) \<Rightarrow> (let (d, w4) = exception_answer incident_id e w3 in (d, db2, w4))
                | (Inr (d, task), db2, w3) \<Rightarrow> (d, db2, w3))))"

section \<open>Lemmas\<close>

lemma lift_exn_Inr [simp]: "lift_exn r = Inr x \<longleftrightarrow> r = Inr x"
  by (cases r) (simp_all add: lift_exn_def)

lemma set_analysis_attempts [simp]:
  "db_attempts (set_analysis k a db) = db_attempts db" "db_attempt_seq (set_analysis k a db) = db_attempt_seq db"
  by (simp_all add: set_analysis_def)

lemma check_signature_Inr: "check_signature sha i e = Inr s \<longleftrightarrow> e = Some s \<and> s \<noteq> [] \<and> compute_signature sha i = s"
  by (auto simp: check_signature_def split: option.splits if_splits)

lemma check_approval_Inr:
  "check_approval now m approvals iid s = Inr () \<longleftrightarrow>
     (\<exists>a. load_approval approvals iid s = Some a \<and> lower (aa_status a) = ''approved'' \<and> \<not> approval_is_stale now a m)"
  by (auto simp: check_approval_def split: option.splits)

lemma check_namespace_Inr:
  "check_namespace rec i = Inr () \<longleftrightarrow>
     incident_namespace rec = Some (lower (strip (ei_namespace i))) \<and> lower (strip (ei_namespace i)) \<noteq> []"
  by (auto simp: check_namespace_def split: option.splits)

lemma check_plan_state_Inr:
  "check_plan_state i analysis = Inr () \<longleftrightarrow> lower (ei_risk i) \<in> set ELIGIBLE_RISKS \<and>
     (\<exists>er. dget analysis ''executor_result'' = PDict er \<and> dget er ''status'' = PStr ''dry_run_ok'')"
  by (auto simp: check_plan_state_def Let_def rbind_eq_Inr dget_def split: if_splits pyval.splits)

lemma check_age_Inr:
  "check_age clk now m analysis c = Inr (r, anchor, age) \<longleftrightarrow>
     intent_recorded_at clk analysis c = (Some r, anchor) \<and> age = whole_seconds (now - r) \<and> age \<le> m"
  by (auto simp: check_age_def Let_def split: prod.splits option.splits)

lemma check_gate_Inr:
  "check_gate env iid by analysis i = Inr g \<longleftrightarrow>
     evaluate_intent_gate (ve_sha (ax_verify env)) (ax_binding env) (ax_registry env) i
       (dget analysis ''playbook_match'') (is_bridge_analysis analysis) = Inr g \<and> pd_mode g \<noteq> BLOCK"
  by (auto simp: check_gate_def rbind_eq_Inr)

lemmas check_Inr = check_signature_Inr check_approval_Inr check_namespace_Inr check_plan_state_Inr
  check_age_Inr check_gate_Inr

text \<open>What an authorised intent has passed.\<close>

definition authorized_by ::
  "'r apply_env \<Rightarrow> int \<Rightarrow> remediation_db \<Rightarrow> incident_record \<Rightarrow> pydict \<Rightarrow> string \<Rightarrow> string option \<Rightarrow> ExecutionIntent \<Rightarrow> bool" where
  "authorized_by env now db rec analysis incident_id expected i \<longleftrightarrow>
     model_validate (dget analysis ''execution_intent'') = Inr i \<and>
     expected = Some (compute_signature (ve_sha (ax_verify env)) i) \<and>
     (\<exists>a. load_approval (db_approvals db) incident_id (compute_signature (ve_sha (ax_verify env)) i) = Some a \<and>
        lower (aa_status a) = ''approved'' \<and>
        \<not> approval_is_stale now a (or_default (APPROVAL_MAX_AGE_SECONDS env) 3600)) \<and>
     incident_namespace rec = Some (lower (strip (ei_namespace i))) \<and>
     lower (ei_risk i) \<in> set ELIGIBLE_RISKS \<and>
     (\<exists>er. dget analysis ''executor_result'' = PDict er \<and> dget er ''status'' = PStr ''dry_run_ok'') \<and>
     (\<exists>r anchor. intent_recorded_at (ve_time (ax_verify env)) analysis (ir_created_at rec) = (Some r, anchor) \<and>
        whole_seconds (now - r) \<le> or_default (INTENT_MAX_AGE_SECONDS env) 86400) \<and>
     (\<exists>g. evaluate_intent_gate (ve_sha (ax_verify env)) (ax_binding env) (ax_registry env) i
        (dget analysis ''playbook_match'') (is_bridge_analysis analysis) = Inr g \<and> pd_mode g \<noteq> BLOCK)"

lemma authorize_Inr:
  assumes "authorize env now db rec analysis iid by expected = Inr az"
  shows "authorized_by env now db rec analysis iid expected (az_intent az) \<and>
    az_signature az = compute_signature (ve_sha (ax_verify env)) (az_intent az)"
  using assms
  by (auto simp: authorize_def Let_def rbind_eq_Inr check_Inr authorized_by_def split: if_splits sum.splits)

lemma claim_row_simps [simp]:
  "at_id (claim_row env now db iid by an az) = db_attempt_seq db"
  "at_incident_id (claim_row env now db iid by an az) = iid"
  "at_signature (claim_row env now db iid by an az) = az_signature az"
  "at_status (claim_row env now db iid by an az) = STATUS_CLAIMED"
  by (simp_all add: claim_row_def new_claim_def Let_def)

lemma take_claim_Claimed:
  assumes "take_claim env now iid by rec an az probe db = (Claimed c, db')"
  shows "cm_incident_id c = iid \<and> cm_intent c = az_intent az \<and>
    db_attempts db' = db_attempts db @ [claim_row env now db iid by an az]"
  using assms
  by (auto simp: take_claim_def Let_def dest!: insert_claim_Some split: prod.splits option.splits)

lemma take_claim_attempts:
  assumes "take_claim env now iid by rec an az probe db = (p, db')"
  shows "db_attempts db' = (case p of Claimed c \<Rightarrow> db_attempts db @ [claim_row env now db iid by an az] | _ \<Rightarrow> db_attempts db)"
  using assms
  by (auto simp: take_claim_def Let_def dest!: insert_claim_Some split: prod.splits option.splits)

lemma claim_free_Claimed:
  assumes "claim_free env now iid by expected rec an db w = (Claimed c, db', w')"
  obtains az recheck expect before where "authorize env now db rec an iid by expected = Inr az"
    "probe_target env now db iid by az w = (Inr (recheck, expect, before), w')"
    "take_claim env now iid by rec an az (recheck, expect, before) db = (Claimed c, db')"
  using assms by (auto simp: claim_free_def Let_def split: sum.splits prod.splits)

lemma probe_target_Inr:
  assumes "probe_target env now db iid by az w = (Inr (recheck, expect, before), w')"
  shows "truthy (dget recheck ''success'') \<and> expect = expected_identity (db_decisions db) iid \<and>
    identity_mismatch expect before = None \<and> \<not> (ts_unknown before \<and> truthy (expected_uid expect))"
  using assms
  by (auto simp: probe_target_def Let_def rbind_eq_Inr check_recheck_def check_target_def
      split: prod.splits sum.splits if_splits option.splits)

text \<open>The analysis a row carries, and a claim's whole path through phase 1.\<close>

definition analysis_of :: "incident_record \<Rightarrow> pydict option" where
  "analysis_of rec = (if \<not> truthy (ir_analysis rec) then Some [] else as_dict (ir_analysis rec))"

lemma apply_claim_Claimed:
  assumes "apply_claim env now iid by expected db w = (Claimed c, db', w')"
  obtains rec an where "find_incident db iid = Some rec" "analysis_of rec = Some an"
    "prior_state (ve_time (ax_verify env)) now (or_default (IN_FLIGHT_TTL_SECONDS env) 600) an
       (blocking_attempt (db_attempts db) iid) = Free"
    "claim_free env now iid by expected rec an db w = (Claimed c, db', w')"
  using assms
  by (auto simp: apply_claim_def analysis_of_def Let_def split: option.splits prior.splits if_splits)

lemma prior_state_Free:
  "prior_state clk now ttl an attempt = Free \<Longrightarrow>
     \<not> truthy (dget an ''executor_applied'') \<and> \<not> truthy (dget an ''executor_in_flight'') \<and>
     prior_row now ttl attempt = Free \<and> \<not> truthy (dget an ''executor_state_unknown'')"
  by (auto simp: prior_state_def Let_def split: if_splits)

definition ALL_STATUSES :: "string list" where
  "ALL_STATUSES = STATUS_CLAIMED # STATUS_UNKNOWN # DONE_STATUSES"

lemma prior_row_Free: "prior_row now ttl attempt = Free \<Longrightarrow> attempt = Some r \<Longrightarrow> at_status r \<notin> set ALL_STATUSES"
  by (auto simp: prior_row_def ALL_STATUSES_def split: if_splits)

text \<open>Phase 1 leaves the rows of the table, marks a stale one as unknown, or appends the claim.\<close>

definition stale_mark :: "int \<Rightarrow> RemediationAttempt \<Rightarrow> RemediationAttempt" where
  "stale_mark now = set_status now STATUS_UNKNOWN (\<lambda>x. x\<lparr>at_error := Some ''stale_claim''\<rparr>)"

lemma stale_mark_simp:
  "stale_mark now = (\<lambda>x. x\<lparr>at_status := STATUS_UNKNOWN, at_error := Some ''stale_claim'', at_updated_at := now\<rparr>)"
  by (simp add: stale_mark_def set_status_def fun_eq_iff)

text \<open>
  What phase 1 does without a claim: nothing, or the mark of a claim found stale, in the incident's analysis
  and, where the claim is a row, in that row.
\<close>

lemma prior_row_StaleRow:
  "prior_row now ttl attempt = StaleRow r \<Longrightarrow>
     attempt = Some r \<and> at_status r = STATUS_CLAIMED \<and> \<not> claim_is_fresh now r ttl"
  by (auto simp: prior_row_def split: option.splits if_splits)

lemma prior_row_StaleJson: "prior_row now ttl attempt \<noteq> StaleJson v"
  by (auto simp: prior_row_def split: option.splits)

lemma prior_state_StaleRow:
  "prior_state clk now ttl an attempt = StaleRow r \<Longrightarrow> prior_row now ttl attempt = StaleRow r"
  by (auto simp: prior_state_def Let_def split: if_splits)

lemma claim_free_inert:
  assumes "claim_free env now iid by expected rec an db w = (p, db', w')" and "\<And>c. p \<noteq> Claimed c"
  shows "db_incidents db' = db_incidents db \<and> db_approvals db' = db_approvals db \<and> db_attempts db' = db_attempts db"
  using assms
  by (auto simp: claim_free_def take_claim_def Let_def split: sum.splits prod.splits phase1.splits option.splits)

lemma set_analysis_frame [simp]:
  "db_attempts (set_analysis k an db) = db_attempts db" "db_approvals (set_analysis k an db) = db_approvals db"
  "db_incidents (set_analysis k an (db\<lparr>db_attempts := rows\<rparr>)) = db_incidents (set_analysis k an db)"
  by (simp_all add: set_analysis_def)

lemma apply_claim_inert:
  assumes "apply_claim env now iid by expected db w = (p, db', w')" and "\<And>c. p \<noteq> Claimed c"
  shows "db_approvals db' = db_approvals db \<and>
    (db_incidents db' = db_incidents db \<and> db_attempts db' = db_attempts db \<or>
     (\<exists>rec an stale. find_incident db iid = Some rec \<and> analysis_of rec = Some an \<and>
        db_incidents db' = db_incidents (set_analysis (ir_row_id rec)
          (mark_state_unknown (ve_time (ax_verify env)) now an stale by) db)) \<and>
     (db_attempts db' = db_attempts db \<or>
      (\<exists>r\<in>set (db_attempts db). at_incident_id r = iid \<and> at_status r = STATUS_CLAIMED \<and>
         \<not> claim_is_fresh now r (or_default (IN_FLIGHT_TTL_SECONDS env) 600) \<and>
         db_attempts db' = update_row (at_id r) (stale_mark now) (db_attempts db))))"
proof (cases "find_incident db iid")
  case None
  with assms(1) show ?thesis by (simp add: apply_claim_def)
next
  case (Some rec)
  show ?thesis
  proof (cases "analysis_of rec")
    case None
    with Some assms(1) show ?thesis by (simp add: apply_claim_def analysis_of_def)
  next
    case an: (Some an)
    let ?s = "prior_state (ve_time (ax_verify env)) now (or_default (IN_FLIGHT_TTL_SECONDS env) 600) an
       (blocking_attempt (db_attempts db) iid)"
    show ?thesis
    proof (cases ?s)
      case (StaleRow r)
      with prior_row_StaleRow [OF prior_state_StaleRow [OF StaleRow]] blocking_attempt_Some
      have "r \<in> set (db_attempts db)" "at_incident_id r = iid" "at_status r = STATUS_CLAIMED"
        "\<not> claim_is_fresh now r (or_default (IN_FLIGHT_TTL_SECONDS env) 600)" by blast+
      with StaleRow Some an assms(1) show ?thesis
        by (auto simp: apply_claim_def analysis_of_def Let_def stale_mark_def)
    next
      case Free
      with claim_free_inert [of env now iid "by" expected rec an db w p db' w'] Some an assms show ?thesis
        by (auto simp: apply_claim_def analysis_of_def Let_def)
    qed (use Some an assms(1) in \<open>auto simp: apply_claim_def analysis_of_def Let_def\<close>)
  qed
qed

lemma apply_claim_unclaimed:
  assumes "apply_claim env now iid by expected db w = (p, db', w')" and "\<And>c. p \<noteq> Claimed c"
  shows "db_attempts db' = db_attempts db \<or> (\<exists>k. db_attempts db' = update_row k (stale_mark now) (db_attempts db))"
  using apply_claim_inert [OF assms] by blast

lemma apply_claim_claimed:
  assumes "apply_claim env now iid by expected db w = (Claimed c, db', w')"
  shows "cm_incident_id c = iid \<and> (\<exists>row. db_attempts db' = db_attempts db @ [row] \<and>
      at_incident_id row = iid \<and> at_status row = STATUS_CLAIMED) \<and>
    (\<forall>r. blocking_attempt (db_attempts db) iid = Some r \<longrightarrow> at_status r \<notin> set ALL_STATUSES)"
  using assms
proof (rule apply_claim_Claimed)
  fix rec an
  assume f: "prior_state (ve_time (ax_verify env)) now (or_default (IN_FLIGHT_TTL_SECONDS env) 600) an
      (blocking_attempt (db_attempts db) iid) = Free"
    and "claim_free env now iid by expected rec an db w = (Claimed c, db', w')"
  then obtain az pr where "take_claim env now iid by rec an az pr db = (Claimed c, db')"
    by (auto elim: claim_free_Claimed)
  from take_claim_Claimed [OF this] prior_state_Free [OF f] show ?thesis
    by (auto dest: prior_row_Free)
qed

section \<open>Properties\<close>

text \<open>
  C2. Nothing reaches the cluster without authority: whenever phase 1 ends with a claim, the only end
  that leads to a command, the incident exists, carries no trace of an earlier application, and its
  stored plan is a validated intent whose signature is the one the operator saw; that signature is
  approved, recently; the intent stays in the incident's own namespace, its claimed risk is low or
  medium, its dry run passed, the plan is recent, the gate does not block it, a fresh dry run
  succeeded, and the live object is not known to be another one than the incident was about, nor
  unreadable when that is known. The claim is by then a committed row of the attempts table.
\<close>

theorem claim_is_authorized:
  assumes "apply_claim env now iid by expected db w = (Claimed c, db', w')"
  shows "\<exists>rec an row. find_incident db iid = Some rec \<and> analysis_of rec = Some an \<and>
    \<not> truthy (dget an ''executor_applied'') \<and> \<not> truthy (dget an ''executor_in_flight'') \<and>
    \<not> truthy (dget an ''executor_state_unknown'') \<and>
    authorized_by env now db rec an iid expected (cm_intent c) \<and>
    truthy (dget (cm_recheck c) ''success'') \<and>
    cm_expected c = expected_identity (db_decisions db) iid \<and> identity_mismatch (cm_expected c) (cm_before c) = None \<and>
    \<not> (ts_unknown (cm_before c) \<and> truthy (expected_uid (cm_expected c))) \<and>
    db_attempts db' = db_attempts db @ [row] \<and> at_incident_id row = iid \<and>
    at_signature row = compute_signature (ve_sha (ax_verify env)) (cm_intent c) \<and> at_status row = STATUS_CLAIMED \<and>
    at_claimed_at row = Some now"
  using assms
proof (rule apply_claim_Claimed)
  fix rec an
  assume r: "find_incident db iid = Some rec" "analysis_of rec = Some an"
    and f: "prior_state (ve_time (ax_verify env)) now (or_default (IN_FLIGHT_TTL_SECONDS env) 600) an
      (blocking_attempt (db_attempts db) iid) = Free"
    and "claim_free env now iid by expected rec an db w = (Claimed c, db', w')"
  then obtain az recheck expect before where az: "authorize env now db rec an iid by expected = Inr az"
    "probe_target env now db iid by az w = (Inr (recheck, expect, before), w')"
    and t: "take_claim env now iid by rec an az (recheck, expect, before) db = (Claimed c, db')"
    by (auto elim: claim_free_Claimed)
  have c: "cm_recheck c = recheck" "cm_expected c = expect" "cm_before c = before"
    using t by (auto simp: take_claim_def Let_def split: option.splits)
  show ?thesis
    using r prior_state_Free [OF f] authorize_Inr [OF az(1)] probe_target_Inr [OF az(2)] take_claim_Claimed [OF t] c
    by (auto simp: claim_row_def new_claim_def Let_def)
qed

section \<open>Witness\<close>

definition sample_env :: "kv apply_env" where
  "sample_env =
     \<lparr>ax_verify = sample_verify_env\<lparr>ve_kubectl := (\<lambda>_ _. Completed 0 [] [])\<rparr>,
      ax_k8s = \<lparr>SAFE_MODE = True, APPROVAL_REQUIRED = True, kc_breaker = \<lparr>FAILURES_TO_OPEN = 3, OPEN_SECONDS = 60\<rparr>\<rparr>,
      IN_FLIGHT_TTL_SECONDS = 600, APPROVAL_MAX_AGE_SECONDS = 3600, INTENT_MAX_AGE_SECONDS = 86400,
      ax_binding = False, ax_registry = Inl ''OSError'', ax_verify_enabled = True, ax_broker = None\<rparr>"

definition sample_sig :: string where
  "sample_sig = compute_signature sample_hash sample_scale"

definition sample_incident :: incident_record where
  "sample_incident = row0\<lparr>ir_status := Some ''APPROVAL_PENDING'', ir_data := PDict [(''namespace'', PStr ''squad-1'')],
     ir_analysis := PDict [(''execution_intent'', PDict (model_dump sample_scale)),
       (''executor_result'', PDict [(''status'', PStr ''dry_run_ok'')])], ir_created_at := Some 0\<rparr>"

definition sample_db :: remediation_db where
  "sample_db = empty_db\<lparr>db_incidents := [sample_incident],
     db_approvals := [\<lparr>aa_id = 1, aa_incident_id = ''i1'', aa_action = None, aa_intent_signature = sample_sig,
       aa_status = ''approved'', aa_approved_by = Some ''op'', aa_decided_at = Some 0, aa_created_at = Some 0\<rparr>]\<rparr>"

definition sample_world :: "kv kworld" where
  "sample_world = \<lparr>kw_redis = None, kw_log = [], kw_audit = []\<rparr>"

lemma sample_claimed:
  "case apply_claim sample_env 0 ''i1'' ''op'' (Some sample_sig) sample_db sample_world of (Claimed c, _, _) \<Rightarrow> True | _ \<Rightarrow> False"
  by code_simp

theorem claim_is_authorized_witness:
  "\<exists>c db w. apply_claim sample_env 0 ''i1'' ''op'' (Some sample_sig) sample_db sample_world = (Claimed c, db, w) \<and>
     (\<exists>row. db_attempts db = [row] \<and> at_status row = STATUS_CLAIMED)"
proof -
  obtain c db w where a: "apply_claim sample_env 0 ''i1'' ''op'' (Some sample_sig) sample_db sample_world = (Claimed c, db, w)"
    using sample_claimed by (auto split: prod.splits phase1.splits)
  from claim_is_authorized [OF a] a show ?thesis by (auto simp: sample_db_def empty_db_def)
qed

end
