(* ===== verification/Apply_System.thy ===== *)
theory Apply_System
  imports Executor_Apply
begin

text \<open>
  Any number of \<open>apply_intent\<close> calls at once, each of which may die between its phases, delayed checks,
  and everything else that writes to the tables: the pipeline that rewrites \<open>analysis\<close>, approvals,
  resolves, time. Phase 1 is one transaction on the locked incident row, so it is one step; the
  attempts table is written by the apply path and the delayed check only. The ghost component
  \<open>sy_writes\<close> has the incidents for which phase 2 was entered.
\<close>

section \<open>The step relation\<close>

datatype job = Ready claim | Written claim pydict TargetSnapshot

record 'r sys =
  sy_db :: remediation_db
  sy_world :: "'r kworld"
  sy_jobs :: "job list"
  sy_writes :: "string list"

definition new_jobs :: "phase1 \<Rightarrow> job list" where
  "new_jobs p = (case p of Claimed c \<Rightarrow> [Ready c] | _ \<Rightarrow> [])"

definition written_jobs :: "claim \<Rightarrow> (pydict \<times> TargetSnapshot) result \<Rightarrow> job list" where
  "written_jobs c r = (case r of Inr (res, after) \<Rightarrow> [Written c res after] | Inl _ \<Rightarrow> [])"

inductive sys_step :: "'r apply_env \<Rightarrow> 'r sys \<Rightarrow> 'r sys \<Rightarrow> bool" for env where
  start: "apply_claim env now iid by sig (sy_db s) (sy_world s) = (p, db, w) \<Longrightarrow>
    sys_step env s (s\<lparr>sy_db := db, sy_world := w, sy_jobs := new_jobs p @ sy_jobs s\<rparr>)"
| perform: "sy_jobs s = js @ Ready c # js' \<Longrightarrow> apply_write env now c (sy_world s) = (r, w) \<Longrightarrow>
    sys_step env s (s\<lparr>sy_world := w, sy_jobs := js @ written_jobs c r @ js', sy_writes := cm_incident_id c # sy_writes s\<rparr>)"
| finish: "sy_jobs s = js @ Written c res after # js' \<Longrightarrow> apply_finalize env now c res after (sy_db s) (sy_world s) = (r, db, w) \<Longrightarrow>
    sys_step env s (s\<lparr>sy_db := db, sy_world := w, sy_jobs := js @ js'\<rparr>)"
| crash: "sy_jobs s = js @ j # js' \<Longrightarrow> sys_step env s (s\<lparr>sy_jobs := js @ js'\<rparr>)"
| verify: "verify_remediation (ax_verify env) now iid attempt (sy_db s) (sy_world s) = (r, db, w) \<Longrightarrow>
    sys_step env s (s\<lparr>sy_db := db, sy_world := w\<rparr>)"
| others: "db_attempts db = db_attempts (sy_db s) \<Longrightarrow> kw_log w = kw_log (sy_world s) \<Longrightarrow>
    sys_step env s (s\<lparr>sy_db := db, sy_world := w\<rparr>)"

section \<open>Commands that change the cluster\<close>

definition write_cmd :: "argv \<Rightarrow> bool" where
  "write_cmd argv \<longleftrightarrow> 2 \<le> length argv \<and> argv ! 1 \<in> {''rollout'', ''scale''} \<and> last argv \<noteq> ''--dry-run=server''"

definition writes_of :: "'r kworld \<Rightarrow> nat" where
  "writes_of w = length (filter write_cmd (kw_log w))"

lemma writes_of_log_event [simp]: "writes_of (log_event e d w) = writes_of w"
  by (simp add: writes_of_def)

lemma run_kubectl_writes:
  "writes_of (snd (run_kubectl api cfg kubectl now rb argv w)) \<le> writes_of w + (if write_cmd argv then 1 else 0)"
  by (auto simp: run_kubectl_def writes_of_def Let_def)

lemma snapshot_writes: "writes_of (snd (snapshot_target api cfg kubectl sha js now t i rb w)) \<le> writes_of w"
proof (cases "map_of RESOURCE_KIND (lower (ei_resource_type i))")
  case (Some kind)
  have "\<not> write_cmd (snapshot_argv kind i)" by (simp add: write_cmd_def snapshot_argv_def)
  with Some run_kubectl_writes [of api cfg kubectl now rb "snapshot_argv kind i" w] show ?thesis
    by (simp add: snapshot_target_def Let_def split_beta)
qed (simp add: snapshot_target_def)

lemma run_cmd_writes:
  "writes_of (snd (run_kubectl_cmd api cfg kubectl now argv dry post risk w)) \<le> writes_of w +
     (if write_cmd (if dry \<and> \<not> list_ex (\<lambda>flag. startswith flag ''--dry-run'') argv
                    then argv @ [''--dry-run=server''] else argv) then 1 else 0)"
proof (cases "argv = [] \<or> hd argv \<noteq> ''kubectl''")
  case True
  then show ?thesis by (simp add: run_kubectl_cmd_def)
next
  case False
  then show ?thesis by (simp add: writes_of_def run_kubectl_cmd_log)
qed

lemma execute_log_cases:
  obtains "writes_of (snd (execute_intent api cfg kubectl now i dry post w)) = writes_of w"
  | argv where "to_argv i = Inr argv"
    "writes_of (snd (execute_intent api cfg kubectl now i dry post w)) =
     writes_of (snd (run_kubectl_cmd api cfg kubectl now argv dry post (ei_risk i) w))"
proof (cases "is_ok (rbind (intent_to_operation i) validate)")
  case True
  obtain argv where argv: "to_argv i = Inr argv" using to_argv_total by blast
  have "kw_log (snd (execute_intent api cfg kubectl now i dry post w)) =
      kw_log (snd (run_kubectl_cmd api cfg kubectl now argv dry post (ei_risk i) w))"
    by (rule execute_intent_log [OF True argv])
  with argv show thesis by (intro that(2)) (simp_all add: writes_of_def)
next
  case False
  have "kw_log (snd (execute_intent api cfg kubectl now i dry post w)) = kw_log w"
    by (rule execute_intent_blocked_log [OF False])
  with that(1) show thesis by (simp add: writes_of_def)
qed

lemma execute_writes: "writes_of (snd (execute_intent api cfg kubectl now i dry post w)) \<le> writes_of w + 1"
proof (cases rule: execute_log_cases [of api cfg kubectl now i dry post w])
  case (2 argv)
  with run_cmd_writes [of api cfg kubectl now argv dry post "ei_risk i" w] show ?thesis
    by (simp split: if_splits)
qed simp

lemma dry_argv_no_write:
  assumes "k8s_name (ei_namespace i)" and "to_argv i = Inr argv"
  shows "\<not> write_cmd (if \<not> list_ex (\<lambda>flag. startswith flag ''--dry-run'') argv
                    then argv @ [''--dry-run=server''] else argv)"
proof (cases "ei_action i \<in> {RESTART_DEPLOYMENT, SCALE_DEPLOYMENT}")
  case True
  with no_dry_run_flag [OF _ refl assms] show ?thesis by (auto simp: write_cmd_def)
next
  case False
  with assms(2) show ?thesis
    by (cases "ei_action i") (auto simp: to_argv_def write_cmd_def Let_def nth_append split: if_splits)
qed

lemma execute_dry_writes:
  assumes "k8s_name (ei_namespace i)"
  shows "writes_of (snd (execute_intent api cfg kubectl now i True post w)) \<le> writes_of w"
proof (cases rule: execute_log_cases [of api cfg kubectl now i True post w])
  case (2 argv)
  with run_cmd_writes [of api cfg kubectl now argv True post "ei_risk i" w] dry_argv_no_write [OF assms 2(1)]
  show ?thesis by simp
qed simp

section \<open>What each phase adds\<close>

lemma probe_writes:
  assumes "probe_target env now db iid by az w = (r, w')" and "intent_wf (az_intent az)"
  shows "writes_of w' \<le> writes_of w"
proof -
  let ?v = "ax_verify env"
  let ?w1 = "snd (execute_intent (ve_api ?v) (ax_k8s env) (ve_kubectl ?v) (seconds now) (az_intent az) True False w)"
  have "writes_of ?w1 \<le> writes_of w" using assms(2) by (intro execute_dry_writes) (simp add: intent_wf_def)
  moreover have "writes_of w' \<le> writes_of ?w1"
    using assms(1) snapshot_writes [of "ve_api ?v" "ve_breaker ?v" "ve_kubectl ?v" "ve_sha ?v" "ve_json ?v" "seconds now"
        "isoformat (ve_time ?v) now" "az_intent az" False ?w1]
    by (auto simp: probe_target_def Let_def split_beta split: sum.splits)
  ultimately show ?thesis by simp
qed

lemma claim_free_writes:
  assumes "claim_free env now iid by sig rec an db w = (p, db', w')"
  shows "writes_of w' \<le> writes_of w"
proof (cases "authorize env now db rec an iid by sig")
  case (Inr az)
  have "intent_wf (az_intent az)"
    using authorize_Inr [OF Inr] by (auto simp: authorized_by_def dest: model_validate_wf)
  with assms Inr show ?thesis
    by (auto simp: claim_free_def Let_def split: prod.splits sum.splits dest: probe_writes)
qed (use assms in \<open>simp add: claim_free_def\<close>)

lemma apply_claim_writes:
  assumes "apply_claim env now iid by sig db w = (p, db', w')"
  shows "writes_of w' \<le> writes_of w"
  using assms
  by (auto simp: apply_claim_def Let_def dest: claim_free_writes split: option.splits prior.splits if_splits)

lemma apply_write_writes:
  assumes "apply_write env now c w = (r, w')"
  shows "writes_of w' \<le> writes_of w + 1"
proof -
  let ?v = "ax_verify env"
  let ?w1 = "snd (execute_intent (ve_api ?v) (ax_k8s env) (ve_kubectl ?v) (seconds now) (cm_intent c) False True w)"
  have "writes_of ?w1 \<le> writes_of w + 1" by (rule execute_writes)
  moreover have "writes_of w' \<le> writes_of ?w1"
    using assms snapshot_writes [of "ve_api ?v" "ve_breaker ?v" "ve_kubectl ?v" "ve_sha ?v" "ve_json ?v" "seconds now"
        "isoformat (ve_time ?v) now" "cm_intent c" True ?w1]
    by (auto simp: apply_write_def Let_def split_beta split: sum.splits)
  ultimately show ?thesis by simp
qed

text \<open>A change of at most one row, which keeps its incident and leaves it with a known status.\<close>

definition row_change :: "RemediationAttempt list \<Rightarrow> RemediationAttempt list \<Rightarrow> bool" where
  "row_change rows rows' \<longleftrightarrow> rows' = rows \<or>
     (\<exists>k f. rows' = update_row k f rows \<and>
        (\<forall>x. at_incident_id (f x) = at_incident_id x \<and> (at_status (f x) = at_status x \<or> at_status (f x) \<in> set ALL_STATUSES)))"

lemma row_change_refl [simp]: "row_change rows rows"
  by (simp add: row_change_def)

lemma row_change_update:
  assumes "\<And>x. at_incident_id (f x) = at_incident_id x"
    and "\<And>x. at_status (f x) = at_status x \<or> at_status (f x) \<in> set ALL_STATUSES"
  shows "row_change rows (update_row k f rows)"
  unfolding row_change_def using assms by (intro disjI2 exI [of _ k] exI [of _ f]) simp

lemma row_change_ids: "row_change rows rows' \<Longrightarrow> map at_incident_id rows' = map at_incident_id rows"
  by (auto simp: row_change_def)

lemma row_change_statuses:
  assumes "row_change rows rows'" and "\<forall>r\<in>set rows. at_status r \<in> set ALL_STATUSES"
  shows "\<forall>r\<in>set rows'. at_status r \<in> set ALL_STATUSES"
  using assms(1) unfolding row_change_def
proof (elim disjE exE conjE)
  fix k f
  assume "rows' = update_row k f rows"
    and f: "\<forall>x. at_incident_id (f x) = at_incident_id x \<and> (at_status (f x) = at_status x \<or> at_status (f x) \<in> set ALL_STATUSES)"
  moreover have "at_status (f r) \<in> set ALL_STATUSES" if "r \<in> set rows" for r
    using f assms(2) that by (metis (no_types))
  ultimately show ?thesis using assms(2) by (auto simp: update_row_def)
qed (use assms(2) in simp)

lemma statuses_mem [simp]:
  "STATUS_CLAIMED \<in> set ALL_STATUSES" "STATUS_APPLIED \<in> set ALL_STATUSES" "STATUS_FAILED \<in> set ALL_STATUSES"
  "STATUS_VERIFIED \<in> set ALL_STATUSES" "STATUS_VERIFICATION_FAILED \<in> set ALL_STATUSES" "STATUS_UNKNOWN \<in> set ALL_STATUSES"
  by (simp_all add: ALL_STATUSES_def DONE_STATUSES_def)

lemma apply_finalize_writes:
  "apply_finalize env now c res after db w = (r, db', w') \<Longrightarrow> writes_of w' = writes_of w"
  by (auto simp: apply_finalize_def Let_def split: sum.splits prod.splits)

lemma apply_finalize_rows:
  "apply_finalize env now c res after db w = (r, db', w') \<Longrightarrow> row_change (db_attempts db) (db_attempts db')"
  by (auto simp: apply_finalize_def Let_def set_status_def intro!: row_change_update split: sum.splits prod.splits)

lemma apply_claim_rows:
  assumes "apply_claim env now iid by sig db w = (p, db', w')" and "\<And>c. p \<noteq> Claimed c"
  shows "row_change (db_attempts db) (db_attempts db')"
  using apply_claim_unclaimed [OF assms]
  by (auto simp: stale_mark_def set_status_def intro!: row_change_update)

lemma store_outcome_rows: "row_change (db_attempts db) (db_attempts (store_outcome now oc entry rs rec an row db))"
  by (auto simp: store_outcome_def put_incident_def record_on_attempt_def set_status_def Let_def
      intro!: row_change_update split: option.splits)

lemma verify_rows:
  assumes "verify_remediation env now iid attempt db w = (r, db', w')"
  shows "row_change (db_attempts db) (db_attempts db')"
  using assms
  by (auto simp: verify_remediation_def Let_def store_outcome_rows split: sum.splits option.splits if_splits pyval.splits prod.splits)

lemma verify_writes:
  assumes "verify_remediation env now iid attempt db w = (r, db', w')"
  shows "writes_of w' \<le> writes_of w"
proof -
  have "writes_of (snd (snapshot_target (ve_api env) (ve_breaker env) (ve_kubectl env) (ve_sha env) (ve_json env)
       (now div 1000000) (isoformat (ve_time env) now) i True w)) \<le> writes_of w" for i
    by (rule snapshot_writes)
  with assms show ?thesis
    by (auto simp: verify_remediation_def Let_def split_beta split: sum.splits option.splits if_splits pyval.splits)
qed

section \<open>The invariant\<close>

fun ready_id :: "job \<Rightarrow> string list" where
  "ready_id (Ready c) = [cm_incident_id c]"
| "ready_id (Written c res after) = []"

definition ready_ids :: "job list \<Rightarrow> string list" where
  "ready_ids js = concat (map ready_id js)"

lemma ready_ids_simps [simp]:
  "ready_ids [] = []" "ready_ids (j # js) = ready_id j @ ready_ids js" "ready_ids (js @ js') = ready_ids js @ ready_ids js'"
  by (simp_all add: ready_ids_def)

lemma ready_ids_new [simp]:
  "ready_ids (new_jobs p) = (case p of Claimed c \<Rightarrow> [cm_incident_id c] | _ \<Rightarrow> [])" "ready_ids (written_jobs c r) = []"
  by (auto simp: new_jobs_def written_jobs_def split: phase1.splits sum.splits prod.splits)

definition sys_inv :: "'r kworld \<Rightarrow> 'r sys \<Rightarrow> bool" where
  "sys_inv w0 s \<longleftrightarrow>
     (\<forall>r\<in>set (db_attempts (sy_db s)). at_status r \<in> set ALL_STATUSES) \<and>
     distinct (ready_ids (sy_jobs s) @ sy_writes s) \<and>
     set (ready_ids (sy_jobs s) @ sy_writes s) \<subseteq> at_incident_id ` set (db_attempts (sy_db s)) \<and>
     writes_of (sy_world s) \<le> writes_of w0 + length (sy_writes s)"

definition sys_init :: "'r kworld \<Rightarrow> 'r sys \<Rightarrow> bool" where
  "sys_init w0 s \<longleftrightarrow> sy_jobs s = [] \<and> sy_writes s = [] \<and> sy_world s = w0 \<and>
     (\<forall>r\<in>set (db_attempts (sy_db s)). at_status r \<in> set ALL_STATUSES)"

lemma row_change_image: "row_change rows rows' \<Longrightarrow> at_incident_id ` set rows' = at_incident_id ` set rows"
  using row_change_ids by (metis list.set_map)

lemma sys_inv_rows:
  assumes "sys_inv w0 s" and "row_change (db_attempts (sy_db s)) (db_attempts db)" and "writes_of w \<le> writes_of (sy_world s)"
    and "set (ready_ids js) \<subseteq> set (ready_ids (sy_jobs s))" "distinct (ready_ids js)"
  shows "sys_inv w0 (s\<lparr>sy_db := db, sy_world := w, sy_jobs := js\<rparr>)"
  using assms row_change_statuses [OF assms(2)] row_change_image [OF assms(2)]
  by (auto simp: sys_inv_def)

lemma sys_inv_init: "sys_init w0 s \<Longrightarrow> sys_inv w0 s"
  by (simp add: sys_init_def sys_inv_def)

text \<open>A claim is a new row, and phase 1 takes none while the incident has a row.\<close>

lemma blocking_attempt_exists:
  assumes "iid \<in> at_incident_id ` set rows"
  obtains r where "blocking_attempt rows iid = Some r" "r \<in> set rows"
proof (cases "blocking_attempt rows iid")
  case None
  with assms show ?thesis by (auto simp: blocking_attempt_None)
next
  case (Some r)
  with blocking_attempt_Some [OF this] that show ?thesis by blast
qed

lemma claimed_is_new:
  assumes "apply_claim env now iid by sig db w = (Claimed c, db', w')"
    and "\<forall>r\<in>set (db_attempts db). at_status r \<in> set ALL_STATUSES"
  shows "cm_incident_id c \<notin> at_incident_id ` set (db_attempts db)"
proof
  assume "cm_incident_id c \<in> at_incident_id ` set (db_attempts db)"
  with apply_claim_claimed [OF assms(1)] have "iid \<in> at_incident_id ` set (db_attempts db)" by simp
  then obtain r where "blocking_attempt (db_attempts db) iid = Some r" "r \<in> set (db_attempts db)"
    by (rule blocking_attempt_exists)
  with apply_claim_claimed [OF assms(1)] assms(2) show False by auto
qed

lemma start_inv:
  assumes "sys_inv w0 s" and "apply_claim env now iid by sig (sy_db s) (sy_world s) = (p, db, w)"
  shows "sys_inv w0 (s\<lparr>sy_db := db, sy_world := w, sy_jobs := new_jobs p @ sy_jobs s\<rparr>)"
proof (cases "\<exists>c. p = Claimed c")
  case True
  then obtain c where c: "p = Claimed c" by blast
  note a = assms(2) [unfolded c]
  from apply_claim_claimed [OF a] obtain row where row: "db_attempts db = db_attempts (sy_db s) @ [row]"
    "at_incident_id row = cm_incident_id c" "at_status row = STATUS_CLAIMED" by blast
  have "cm_incident_id c \<notin> at_incident_id ` set (db_attempts (sy_db s))"
    using claimed_is_new [OF a] assms(1) by (simp add: sys_inv_def)
  with assms(1) apply_claim_writes [OF a] row c show ?thesis
    by (auto simp: sys_inv_def)
next
  case False
  then have "row_change (db_attempts (sy_db s)) (db_attempts db)"
    by (intro apply_claim_rows [OF assms(2)]) auto
  moreover have "ready_ids (new_jobs p) = []" using False by (simp split: phase1.splits)
  ultimately show ?thesis
    using assms(1) apply_claim_writes [OF assms(2)] by (intro sys_inv_rows) (auto simp: sys_inv_def)
qed

lemma perform_inv:
  assumes "sys_inv w0 s" and "sy_jobs s = js @ Ready c # js'" and "apply_write env now c (sy_world s) = (r, w)"
  shows "sys_inv w0 (s\<lparr>sy_world := w, sy_jobs := js @ written_jobs c r @ js', sy_writes := cm_incident_id c # sy_writes s\<rparr>)"
  using assms(1, 2) apply_write_writes [OF assms(3)]
  by (auto simp: sys_inv_def)

lemma drop_job_inv:
  assumes "sys_inv w0 s" and "sy_jobs s = js @ j # js'"
    and "row_change (db_attempts (sy_db s)) (db_attempts db)" and "writes_of w \<le> writes_of (sy_world s)"
  shows "sys_inv w0 (s\<lparr>sy_db := db, sy_world := w, sy_jobs := js @ js'\<rparr>)"
  using assms by (intro sys_inv_rows) (auto simp: sys_inv_def)

lemma tables_inv:
  assumes "sys_inv w0 s"
    and "row_change (db_attempts (sy_db s)) (db_attempts db)" and "writes_of w \<le> writes_of (sy_world s)"
  shows "sys_inv w0 (s\<lparr>sy_db := db, sy_world := w\<rparr>)"
  using sys_inv_rows [OF assms, of "sy_jobs s"] assms(1) by (simp add: sys_inv_def)

lemma sys_step_inv:
  assumes "sys_step env s t" and "sys_inv w0 s"
  shows "sys_inv w0 t"
  using assms
proof cases
  case (crash js j js')
  with drop_job_inv [OF assms(2) crash(2), of "sy_db s" "sy_world s"] show ?thesis by simp
next
  case (others db w)
  show ?thesis unfolding others(1) by (rule tables_inv [OF assms(2)]) (simp_all add: others writes_of_def)
qed (use assms(2) start_inv perform_inv drop_job_inv apply_finalize_rows apply_finalize_writes tables_inv
      verify_rows verify_writes in \<open>metis le_refl\<close>)+

interpretation apply_system: invariant_system "sys_init w0" "sys_step env" "sys_inv w0" for w0 env
  by unfold_locales (auto intro: sys_inv_init sys_step_inv)

section \<open>The answer of one call\<close>

lemma find_updated:
  assumes "find P xs = Some x" and "Q x" and "\<And>y. P (f y) = P y"
  shows "find P (map (\<lambda>y. if Q y then f y else y) xs) = Some (f x)"
  using assms by (induction xs) (auto split: if_splits)

lemma find_incident_set_analysis:
  assumes "find_incident db iid = Some rec" and "ir_row_id rec = k"
  shows "find_incident (set_analysis k an db) iid = Some (rec\<lparr>ir_analysis := PDict an\<rparr>)"
  using assms by (simp add: find_incident_def set_analysis_def find_updated)

lemma applied_entry_nonempty [simp]: "applied_entry env now c res after v \<noteq> []"
  by (simp add: applied_entry_def Let_def)

lemma find_incident_attempts [simp]:
  "find_incident (db\<lparr>db_attempts := rows\<rparr>) iid = find_incident db iid"
  "find_incident (db\<lparr>db_attempt_seq := n\<rparr>) iid = find_incident db iid"
  by (simp_all add: find_incident_def)

lemma apply_claim_incident:
  assumes "apply_claim env now iid by sig db w = (Claimed c, db', w')"
  obtains rec where "find_incident db' iid = Some rec" "ir_row_id rec = cm_row_id c"
  using assms
proof (rule apply_claim_Claimed)
  fix rec an
  assume f: "find_incident db iid = Some rec" and "claim_free env now iid by sig rec an db w = (Claimed c, db', w')"
  then obtain az pr where "take_claim env now iid by rec an az pr db = (Claimed c, db')"
    by (auto elim: claim_free_Claimed)
  with f that show thesis
    by (auto simp: take_claim_def Let_def find_incident_set_analysis split: prod.splits option.splits)
qed

lemma apply_finalize_incident:
  assumes "apply_finalize env now c res after db w = (Inr (d, task), db', w')"
    and "find_incident db iid = Some rec" and "ir_row_id rec = cm_row_id c"
  obtains rec' an where "find_incident db' iid = Some rec'" "ir_analysis rec' = PDict an"
    "truthy (dget an ''executor_applied'')"
proof -
  obtain v rows where
    db': "db' = set_analysis (cm_row_id c) (dpop (dset (cm_analysis c) ''executor_applied''
        (PDict (applied_entry env now c res after v))) ''executor_in_flight'') (db\<lparr>db_attempts := rows\<rparr>)"
    (is "_ = set_analysis _ ?an _")
    using assms(1) by (auto simp: apply_finalize_def Let_def split: sum.splits prod.splits)
  have an: "truthy (dget ?an ''executor_applied'')" by simp
  have "find_incident db' iid = Some (rec\<lparr>ir_analysis := PDict ?an\<rparr>)"
    unfolding db' using assms(2, 3) by (intro find_incident_set_analysis) simp_all
  then show ?thesis by (rule that [OF _ _ an]) simp
qed

lemma apply_intent_ok:
  assumes "apply_intent env t1 t2 t3 iid by sig db w = (d, db', w')" and "dget d ''ok'' = PBool True"
    and "apply_claim env t1 iid by sig db w = (p, db1, w1)"
  obtains c where "p = Claimed c" "\<exists>res after task w2 w3. apply_finalize env t3 c res after db1 w2 = (Inr (d, task), db', w3)"
proof (cases p)
  case (Claimed c)
  with assms show ?thesis
    by (intro that [of c])
      (auto simp: apply_intent_def exception_answer_def dget_def split: prod.splits sum.splits, blast)
qed (use assms in \<open>auto simp: apply_intent_def stop_answer_def exception_answer_def refuse_dict_def dget_def
      split: stop.splits prod.splits\<close>)

lemma foldl_log_event_writes [simp]: "writes_of (foldl (\<lambda>w (e, d). log_event e d w) w evs) = writes_of w"
  by (induction evs arbitrary: w) (auto split: prod.splits)


section \<open>Properties\<close>

text \<open>
  C1. At most one command per incident: however many calls of \<open>apply_intent\<close> overlap, wherever they
  die, and whatever the rest of the system writes into the incident rows in between, phase 2 is
  entered at most once per incident, and no more commands that change the cluster have reached
  \<open>kubectl\<close> than incidents for which it was entered.
\<close>

theorem at_most_one_write:
  assumes "sys_init w0 s0" and "(sys_step env)\<^sup>*\<^sup>* s0 s"
  shows "distinct (sy_writes s) \<and> writes_of (sy_world s) \<le> writes_of w0 + length (sy_writes s)"
  using apply_system.reach_inv [OF assms] by (simp add: sys_inv_def)

text \<open>
  C10. A call that answers \<open>ok\<close> settles the incident for good: it held a claim, and every later call for that
  incident, by whomever, with whatever signature and at whatever time, answers \<open>already_applied\<close> and
  leaves the tables, the command log and the audit log as they are.
\<close>

theorem applied_once:
  assumes "apply_intent env t1 t2 t3 iid by sig db w = (d, db', w')" and "dget d ''ok'' = PBool True"
  shows "(\<exists>c db1 w1. apply_claim env t1 iid by sig db w = (Claimed c, db1, w1)) \<and>
    (\<forall>u1 u2 u3 by' sig' v. apply_intent env u1 u2 u3 iid by' sig' db' v = (refuse_dict ''already_applied'', db', v))"
proof -
  obtain p db1 w1 where p: "apply_claim env t1 iid by sig db w = (p, db1, w1)" by (metis prod_cases3)
  obtain c where c: "p = Claimed c" and f: "\<exists>res after task w2 w3. apply_finalize env t3 c res after db1 w2 = (Inr (d, task), db', w3)"
    using assms p by (rule apply_intent_ok)
  obtain rec where "find_incident db1 iid = Some rec" "ir_row_id rec = cm_row_id c"
    using p c by (auto elim: apply_claim_incident)
  with f obtain rec' an where r: "find_incident db' iid = Some rec'" "ir_analysis rec' = PDict an"
    "truthy (dget an ''executor_applied'')" by (auto elim: apply_finalize_incident)
  then have "an \<noteq> []" by (auto simp: dget_def)
  with r have "apply_claim env u iid by' sig' db' v = (AnsweredDone, db', v)" for u by' sig' v
    by (simp add: apply_claim_def prior_state_def Let_def)
  with p c show ?thesis by (simp add: apply_intent_def)
qed


section \<open>Witness\<close>

definition sample_sys :: "kv sys" where
  "sample_sys = \<lparr>sy_db = sample_db, sy_world = sample_world, sy_jobs = [], sy_writes = []\<rparr>"

theorem at_most_one_write_witness:
  "\<exists>s. (sys_step sample_env)\<^sup>*\<^sup>* sample_sys s \<and> sy_writes s = [''i1''] \<and> distinct (sy_writes s) \<and>
     writes_of (sy_world s) \<le> 1"
proof -
  obtain c db w where a: "apply_claim sample_env 0 ''i1'' ''op'' (Some sample_sig) sample_db sample_world = (Claimed c, db, w)"
    using sample_claimed by (auto split: prod.splits phase1.splits)
  have c: "cm_incident_id c = ''i1''" using apply_claim_claimed [OF a] by simp
  obtain r w' where b: "apply_write sample_env 0 c w = (r, w')" by fastforce
  let ?s1 = "sample_sys\<lparr>sy_db := db, sy_world := w, sy_jobs := [Ready c]\<rparr>"
  let ?s2 = "?s1\<lparr>sy_world := w', sy_jobs := written_jobs c r, sy_writes := [''i1'']\<rparr>"
  have "sys_step sample_env sample_sys ?s1"
    using start [of sample_env 0 "''i1''" "''op''" "Some sample_sig" sample_sys] a
    by (simp add: sample_sys_def new_jobs_def)
  moreover have "sys_step sample_env ?s1 ?s2"
    using perform [of ?s1 "[]" c "[]" sample_env 0 r w'] b c by (simp add: sample_sys_def)
  ultimately have reach: "(sys_step sample_env)\<^sup>*\<^sup>* sample_sys ?s2" by (meson converse_rtranclp_into_rtranclp rtranclp.rtrancl_refl)
  have "sys_init sample_world sample_sys" by (simp add: sys_init_def sample_sys_def sample_db_def empty_db_def)
  from at_most_one_write [OF this reach] reach show ?thesis
    by (intro exI [of _ ?s2]) (simp add: sample_world_def writes_of_def)
qed

theorem applied_once_witness:
  "\<exists>d db w. apply_intent sample_env 0 0 0 ''i1'' ''op'' (Some sample_sig) sample_db sample_world = (d, db, w) \<and>
     dget d ''ok'' = PBool True \<and>
     apply_intent sample_env 7 8 9 ''i1'' ''eve'' None db w = (refuse_dict ''already_applied'', db, w)"
proof -
  obtain d db w where a: "apply_intent sample_env 0 0 0 ''i1'' ''op'' (Some sample_sig) sample_db sample_world = (d, db, w)"
    by (metis prod_cases3)
  have "dget (fst (apply_intent sample_env 0 0 0 ''i1'' ''op'' (Some sample_sig) sample_db sample_world)) ''ok'' = PBool True"
    by code_simp
  with a have "dget d ''ok'' = PBool True" by simp
  with a applied_once [OF a this] show ?thesis by blast
qed


end
