(* ===== verification/Alert_Dedup.thy ===== *)
theory Alert_Dedup
  imports Redis Attempts
begin

text \<open>
  Which fires of an alert reach the channel: \<open>decide_send\<close> and \<open>rollback_undelivered\<close> of
  \<open>app/services/alert_dedup.py\<close> with the rows of the knowledge graph they read, and the windows of
  \<open>app/core/fire_dedup.py\<close>. Times are microseconds since the epoch, Redis counts whole seconds. A
  database that cannot be read is \<open>None\<close>.
\<close>

section \<open>Reading a time\<close>

text \<open>\<open>parse_ts\<close> of \<open>app/core/timeutil.py\<close>; a naive time counts as UTC.\<close>

fun trim_fraction :: "string \<Rightarrow> string" where
  "trim_fraction [] = []"
| "trim_fraction (c # cs) =
     (let ds = takeWhile ch_digit cs in
      if c = CHR ''.'' \<and> 7 \<le> length ds then c # take 6 ds @ trim_fraction (drop (length ds) cs)
      else c # trim_fraction cs)"

definition parse_ts :: "iso_time \<Rightarrow> string \<Rightarrow> int option" where
  "parse_ts clk raw =
     (if raw = [] then None
      else (let s = strip raw;
                s1 = (if s \<noteq> [] \<and> last s \<in> {CHR ''Z'', CHR ''z''} then butlast s @ ''+00:00'' else replace_z s)
            in fromisoformat clk (trim_fraction s1)))"

section \<open>The rows of the knowledge graph\<close>

record kg_service =
  sv_id :: int
  sv_namespace :: string
  sv_name :: string
  sv_node_kind :: string

record AlertEvent =
  ae_service_id :: "int option"
  ae_alertname :: string
  ae_severity :: "string option"
  ae_fingerprint :: "string option"
  ae_fired_at :: int
  ae_resolved_at :: "int option"

record alert_db =
  ad_services :: "kg_service list"
  ad_alerts :: "AlertEvent list"

text \<open>\<open>one_or_none\<close> raises when more than one row fits.\<close>

definition service_by_namespace_name :: "alert_db \<Rightarrow> string \<Rightarrow> string \<Rightarrow> kg_service option option" where
  "service_by_namespace_name db namespace name =
     (case filter (\<lambda>s. sv_namespace s = namespace \<and> sv_name s = name \<and> sv_node_kind s = ''service'') (ad_services db) of
        [] \<Rightarrow> Some None
      | [s] \<Rightarrow> Some (Some s)
      | _ \<Rightarrow> None)"

text \<open>The order of the rows does not matter to the one caller and is left as stored.\<close>

definition incidents_on :: "alert_db \<Rightarrow> string \<Rightarrow> string \<Rightarrow> int \<Rightarrow> int \<Rightarrow> AlertEvent list option" where
  "incidents_on db namespace service_name since till =
     map_option (\<lambda>svc. case svc of
         None \<Rightarrow> []
       | Some s \<Rightarrow> filter (\<lambda>a. ae_service_id a = Some (sv_id s) \<and> since \<le> ae_fired_at a \<and> ae_fired_at a \<le> till) (ad_alerts db))
       (service_by_namespace_name db namespace service_name)"

section \<open>Settings, keys, decisions\<close>

definition CHRONIC_WINDOW_SECONDS :: int where "CHRONIC_WINDOW_SECONDS = 6 * 3600"
definition CHRONIC_QUIET_RESET_SECONDS :: int where "CHRONIC_QUIET_RESET_SECONDS = 2 * 3600"
definition CHRONIC_MIN_COUNT :: int where "CHRONIC_MIN_COUNT = 3"
definition ROLLOUT_NOISE_THRESHOLD_SECONDS :: int where "ROLLOUT_NOISE_THRESHOLD_SECONDS = 10 * 60"
definition RESURFACE_CLAIM_SECONDS :: int where "RESURFACE_CLAIM_SECONDS = 120"

definition state_key :: "string \<Rightarrow> string \<Rightarrow> string \<Rightarrow> string" where
  "state_key alertname service suffix = ''enrich:lastsent:'' @ alertname @ '':'' @ service @ suffix"

definition count_key :: "string \<Rightarrow> string \<Rightarrow> string" where
  "count_key alertname service = state_key alertname service '':cnt''"

definition last_key :: "string \<Rightarrow> string \<Rightarrow> string" where
  "last_key alertname service = state_key alertname service '':last''"

definition resurface_key :: "string \<Rightarrow> string \<Rightarrow> string" where
  "resurface_key alertname service = state_key alertname service '':resurface''"

datatype Decision = SEND | SEND_RESURFACED | SUPPRESS_CHRONIC | SUPPRESS_ROLLOUT | SEND_NO_DEDUP | SUPPRESS_REPEAT

type_synonym episode = "string \<times> string option"

record fire =
  fi_alertname :: string
  fi_namespace :: "string option"
  fi_service :: "string option"
  fi_severity :: string
  fi_episodes :: "episode list"

record dedup_env =
  de_time :: iso_time
  ALERT_SUPPRESS_AM_REPEATS :: bool

section \<open>The checks on the rows\<close>

text \<open>\<open>by_fp\<close> is a dict: of several rows of a fingerprint the last one counts.\<close>

definition alert_row :: "AlertEvent list \<Rightarrow> string \<Rightarrow> AlertEvent option" where
  "alert_row rows fp = find (\<lambda>a. ae_fingerprint a = Some fp) (rev rows)"

definition all_continuous :: "iso_time \<Rightarrow> AlertEvent list \<Rightarrow> episode list \<Rightarrow> int \<Rightarrow> bool" where
  "all_continuous clk rows episodes seen_before =
     (episodes \<noteq> [] \<and> list_all (\<lambda>(fp, _). fp \<noteq> []) episodes \<and>
      list_all (\<lambda>(_, starts_at). case Option.bind starts_at (parse_ts clk) of
          None \<Rightarrow> False | Some st \<Rightarrow> st \<le> seen_before) episodes \<and>
      list_all (\<lambda>(fp, _). case alert_row rows fp of
          None \<Rightarrow> False | Some a \<Rightarrow> ae_resolved_at a = None \<and> ae_fired_at a \<le> seen_before) episodes)"

definition ROLLOUT_ALERTS :: "string list" where
  "ROLLOUT_ALERTS = [''KubeDeploymentGenerationMismatch'', ''KubeReplicaSetMismatch'']"

definition short_fire :: "AlertEvent \<Rightarrow> bool" where
  "short_fire a = (case ae_resolved_at a of
     None \<Rightarrow> False
   | Some ra \<Rightarrow> 0 < ra - ae_fired_at a \<and> ra - ae_fired_at a < ROLLOUT_NOISE_THRESHOLD_SECONDS * 1000000)"

definition rollout_noise :: "alert_db option \<Rightarrow> int \<Rightarrow> fire \<Rightarrow> string \<Rightarrow> bool" where
  "rollout_noise db fire_at f service =
     (fi_alertname f \<in> set ROLLOUT_ALERTS \<and>
      (case fi_namespace f of
         None \<Rightarrow> False
       | Some ns \<Rightarrow> ns \<noteq> [] \<and>
           (case Option.bind db (\<lambda>d. incidents_on d ns service (fire_at - 2 * 3600 * 1000000) fire_at) of
              None \<Rightarrow> False
            | Some recent \<Rightarrow> list_ex short_fire recent)))"

section \<open>The decision\<close>

text \<open>A Redis command inside the \<open>try\<close>: when it raises, the alert is sent and the store stays as it is.\<close>

definition or_no_dedup :: "('a \<times> 'r) option \<Rightarrow> 'r \<Rightarrow> ('a \<Rightarrow> 'r \<Rightarrow> Decision \<times> 'r) \<Rightarrow> Decision \<times> 'r" where
  "or_no_dedup cmd r k = (case cmd of None \<Rightarrow> (SEND_NO_DEDUP, r) | Some (x, r1) \<Rightarrow> k x r1)"

definition r_del :: "'r redis_api \<Rightarrow> 'r \<Rightarrow> int \<Rightarrow> string \<Rightarrow> (unit \<times> 'r) option" where
  "r_del api r now k = map_option (Pair ()) (r_delete api r now k)"

text \<open>The time of the last fire; a value that is no number is cleared with the counter.\<close>

definition read_last ::
  "'r redis_api \<Rightarrow> int \<Rightarrow> string \<Rightarrow> string \<Rightarrow> 'r \<Rightarrow> (int option \<Rightarrow> 'r \<Rightarrow> Decision \<times> 'r) \<Rightarrow> Decision \<times> 'r" where
  "read_last api sec alertname service r k =
     (case r_get api r sec (last_key alertname service) of
        None \<Rightarrow> (SEND_NO_DEDUP, r)
      | Some None \<Rightarrow> k None r
      | Some (Some raw) \<Rightarrow>
          (case int_text raw of
             Some t \<Rightarrow> k (Some t) r
           | None \<Rightarrow>
               or_no_dedup (r_del api r sec (last_key alertname service)) r (\<lambda>_ r1.
               or_no_dedup (r_del api r1 sec (count_key alertname service)) r1 (\<lambda>_ r2. k None r2))))"

definition restart_window ::
  "'r redis_api \<Rightarrow> int \<Rightarrow> int \<Rightarrow> string \<Rightarrow> string \<Rightarrow> Decision \<Rightarrow> 'r \<Rightarrow> Decision \<times> 'r" where
  "restart_window api sec now_unix alertname service d r =
     or_no_dedup (r_set api r sec (count_key alertname service) ''1'' CHRONIC_WINDOW_SECONDS False) r (\<lambda>_ r1.
     or_no_dedup (r_set api r1 sec (last_key alertname service) (int_str now_unix) CHRONIC_WINDOW_SECONDS False) r1 (\<lambda>_ r2.
       (d, r2)))"

definition count_fire :: "'r redis_api \<Rightarrow> int \<Rightarrow> int \<Rightarrow> string \<Rightarrow> string \<Rightarrow> 'r \<Rightarrow> Decision \<times> 'r" where
  "count_fire api sec now_unix alertname service r =
     or_no_dedup (r_set api r sec (count_key alertname service) ''0'' CHRONIC_WINDOW_SECONDS True) r (\<lambda>_ r1.
     or_no_dedup (r_incrby api r1 sec (count_key alertname service) 1) r1 (\<lambda>new_count r2.
     or_no_dedup (r_set api r2 sec (last_key alertname service) (int_str now_unix) CHRONIC_WINDOW_SECONDS False) r2 (\<lambda>_ r3.
       (if CHRONIC_MIN_COUNT \<le> new_count then SUPPRESS_CHRONIC else SEND, r3))))"

definition resurface :: "'r redis_api \<Rightarrow> int \<Rightarrow> int \<Rightarrow> string \<Rightarrow> string \<Rightarrow> 'r \<Rightarrow> Decision \<times> 'r" where
  "resurface api sec now_unix alertname service r =
     or_no_dedup (r_set api r sec (resurface_key alertname service) (int_str now_unix) RESURFACE_CLAIM_SECONDS True) r (\<lambda>won r1.
       if won then restart_window api sec now_unix alertname service SEND_RESURFACED r1
       else count_fire api sec now_unix alertname service r1)"

text \<open>\<open>fromtimestamp\<close> raises outside the years 1 to 9999.\<close>

definition in_calendar :: "int \<Rightarrow> bool" where
  "in_calendar sec \<longleftrightarrow> - 62135596800 \<le> sec \<and> sec \<le> 253402300799"

definition continuous :: "dedup_env \<Rightarrow> alert_db option \<Rightarrow> fire \<Rightarrow> int \<Rightarrow> bool" where
  "continuous env db f seen =
     (fi_episodes f \<noteq> [] \<and> ALERT_SUPPRESS_AM_REPEATS env \<and> in_calendar seen \<and>
      (case db of
         None \<Rightarrow> False
       | Some d \<Rightarrow> all_continuous (de_time env) (ad_alerts d) (fi_episodes f) (seen * 1000000)))"

definition decide_chronic ::
  "'r redis_api \<Rightarrow> dedup_env \<Rightarrow> alert_db option \<Rightarrow> int \<Rightarrow> int \<Rightarrow> fire \<Rightarrow> string \<Rightarrow> 'r \<Rightarrow> Decision \<times> 'r" where
  "decide_chronic api env db sec now_unix f service r =
     (let alertname = fi_alertname f in
      read_last api sec alertname service r (\<lambda>seen r1.
        case seen of
          None \<Rightarrow> count_fire api sec now_unix alertname service r1
        | Some t \<Rightarrow>
            if CHRONIC_QUIET_RESET_SECONDS < now_unix - t
            then (if continuous env db f t
                  then (if lower (fi_severity f) = ''critical''
                        then restart_window api sec now_unix alertname service SEND r1
                        else or_no_dedup (r_set api r1 sec (last_key alertname service) (int_str now_unix)
                               CHRONIC_WINDOW_SECONDS False) r1 (\<lambda>_ r2. (SUPPRESS_REPEAT, r2)))
                  else resurface api sec now_unix alertname service r1)
            else count_fire api sec now_unix alertname service r1))"

definition decide_send ::
  "'r redis_api \<Rightarrow> dedup_env \<Rightarrow> alert_db option \<Rightarrow> int \<Rightarrow> int option \<Rightarrow> fire \<Rightarrow> 'r \<Rightarrow> Decision \<times> 'r" where
  "decide_send api env db now fire_at f r =
     (case fi_service f of
        None \<Rightarrow> (SEND_NO_DEDUP, r)
      | Some service \<Rightarrow>
          if service = [] then (SEND_NO_DEDUP, r)
          else (let fired = (case fire_at of None \<Rightarrow> now | Some t \<Rightarrow> t) in
                if rollout_noise db fired f service then (SUPPRESS_ROLLOUT, r)
                else decide_chronic api env db (now div 1000000) (fired div 1000000) f service r))"

section \<open>Taking back what was not delivered\<close>

definition rollback_undelivered :: "'r redis_api \<Rightarrow> int \<Rightarrow> string \<Rightarrow> string option \<Rightarrow> Decision \<Rightarrow> 'r \<Rightarrow> 'r" where
  "rollback_undelivered api now alertname service d r =
     (let sec = now div 1000000 in
      case service of
        None \<Rightarrow> r
      | Some s \<Rightarrow>
          if s = [] \<or> d \<notin> {SEND, SEND_RESURFACED} then r
          else (case r_incrby api r sec (count_key alertname s) (- 1) of
                  None \<Rightarrow> r
                | Some (new_count, r1) \<Rightarrow>
                    (case (if new_count \<le> 0 then r_delete api r1 sec (count_key alertname s) else Some r1) of
                       None \<Rightarrow> r1
                     | Some r2 \<Rightarrow>
                         if d = SEND_RESURFACED
                         then (case r_delete api r2 sec (resurface_key alertname s) of None \<Rightarrow> r2 | Some r3 \<Rightarrow> r3)
                         else r2)))"

section \<open>Windows shared by the worker processes\<close>

definition fire_dedup_key :: "string \<Rightarrow> string \<Rightarrow> string" where
  "fire_dedup_key channel fingerprint = ''copilot:fire_dedup:'' @ channel @ '':'' @ fingerprint"

definition should_fire :: "'r redis_api \<Rightarrow> int \<Rightarrow> string \<Rightarrow> string \<Rightarrow> 'r option \<Rightarrow> bool" where
  "should_fire api sec channel fingerprint red =
     (case red of
        None \<Rightarrow> True
      | Some r \<Rightarrow> (case r_exists api r sec (fire_dedup_key channel fingerprint) of None \<Rightarrow> True | Some b \<Rightarrow> \<not> b))"

definition mark_fired :: "'r redis_api \<Rightarrow> int \<Rightarrow> string \<Rightarrow> string \<Rightarrow> int \<Rightarrow> 'r option \<Rightarrow> 'r option" where
  "mark_fired api sec channel fingerprint window_seconds red =
     map_option (\<lambda>r. case r_set api r sec (fire_dedup_key channel fingerprint) ''1'' window_seconds False of
        None \<Rightarrow> r | Some (_, r1) \<Rightarrow> r1) red"

definition clear_fired :: "'r redis_api \<Rightarrow> int \<Rightarrow> string \<Rightarrow> string \<Rightarrow> 'r option \<Rightarrow> 'r option" where
  "clear_fired api sec channel fingerprint red =
     map_option (\<lambda>r. case r_delete api r sec (fire_dedup_key channel fingerprint) of None \<Rightarrow> r | Some r1 \<Rightarrow> r1) red"

section \<open>Keys\<close>

lemma key_distinct [simp]:
  "count_key a s \<noteq> last_key a s" "last_key a s \<noteq> count_key a s"
  "resurface_key a s \<noteq> count_key a s" "resurface_key a s \<noteq> last_key a s"
  "count_key a s \<noteq> resurface_key a s" "last_key a s \<noteq> resurface_key a s"
  by (simp_all add: count_key_def last_key_def resurface_key_def state_key_def)

section \<open>Runs of fires\<close>

text \<open>A run of fires of one alert, each decided when the one before is settled.\<close>

fun decide_all ::
  "'r redis_api \<Rightarrow> dedup_env \<Rightarrow> alert_db option \<Rightarrow> fire \<Rightarrow> int list \<Rightarrow> 'r \<Rightarrow> Decision list" where
  "decide_all api env db f [] r = []"
| "decide_all api env db f (t # ts) r =
     (case decide_send api env db t None f r of (d, r1) \<Rightarrow> d # decide_all api env db f ts r1)"

section \<open>The counter on a store with the laws of Redis\<close>

context redis
begin

lemma set_over:
  assumes "up r"
  obtains r' where "r_set api r now k v ex False = Some (True, r')" "up r'"
    "live (view r') = live ((view r)(k \<mapsto> (v, Some (now + ex))))"
  using set_view [OF assms, of False now k v ex] that by auto

text \<open>A counter that is gone or stands at one, whatever the time.\<close>

definition counted :: "string \<Rightarrow> 'r \<Rightarrow> bool" where
  "counted k r \<longleftrightarrow> up r \<and> (\<forall>t. live (view r) t k = None \<or> (\<exists>e. live (view r) t k = Some (''1'', e)))"

definition uncounted :: "string \<Rightarrow> 'r \<Rightarrow> bool" where
  "uncounted k r \<longleftrightarrow> up r \<and> (\<forall>t. live (view r) t k = None)"

lemma restart_window_view:
  assumes "up r"
  obtains r' where "restart_window api sec nu a s d r = (d, r')" "counted (count_key a s) r'"
proof -
  obtain r1 where 1: "r_set api r sec (count_key a s) ''1'' CHRONIC_WINDOW_SECONDS False = Some (True, r1)" "up r1"
    "live (view r1) = live ((view r)(count_key a s \<mapsto> (''1'', Some (sec + CHRONIC_WINDOW_SECONDS))))"
    using assms by (rule set_over)
  obtain r2 where 2: "r_set api r1 sec (last_key a s) (int_str nu) CHRONIC_WINDOW_SECONDS False = Some (True, r2)" "up r2"
    "live (view r2) = live ((view r1)(last_key a s \<mapsto> (int_str nu, Some (sec + CHRONIC_WINDOW_SECONDS))))"
    using 1(2) by (rule set_over)
  have "counted (count_key a s) r2"
    using 1(3) 2(2,3) by (simp add: counted_def)
  with 1(1) 2(1) show ?thesis by (intro that) (simp add: restart_window_def or_no_dedup_def)
qed

lemma count_fire_first:
  assumes "uncounted (count_key a s) r"
  obtains r' where "count_fire api sec nu a s r = (SEND, r')" "counted (count_key a s) r'"
proof -
  have "up r" and n: "live (view r) sec (count_key a s) = None" using assms by (simp_all add: uncounted_def)
  then obtain r1 where 1: "r_set api r sec (count_key a s) ''0'' CHRONIC_WINDOW_SECONDS True = Some (True, r1)" "up r1"
    "live (view r1) = live ((view r)(count_key a s \<mapsto> (''0'', Some (sec + CHRONIC_WINDOW_SECONDS))))"
    using set_view [of r True sec "count_key a s" "''0''" CHRONIC_WINDOW_SECONDS] by auto
  have "live (view r1) sec (count_key a s) = Some (int_str 0, Some (sec + CHRONIC_WINDOW_SECONDS))"
    using 1(3) by (simp add: CHRONIC_WINDOW_SECONDS_def int_str_consts)
  then obtain r2 where 2: "r_incrby api r1 sec (count_key a s) 1 = Some (1, r2)" "up r2"
    "live (view r2) = live ((view r1)(count_key a s \<mapsto> (int_str 1, Some (sec + CHRONIC_WINDOW_SECONDS))))"
    using incr_view [OF 1(2), of sec "count_key a s" 0 "Some (sec + CHRONIC_WINDOW_SECONDS)" 1] by auto
  obtain r3 where 3: "r_set api r2 sec (last_key a s) (int_str nu) CHRONIC_WINDOW_SECONDS False = Some (True, r3)" "up r3"
    "live (view r3) = live ((view r2)(last_key a s \<mapsto> (int_str nu, Some (sec + CHRONIC_WINDOW_SECONDS))))"
    using 2(2) by (rule set_over)
  have "counted (count_key a s) r3" using 2(3) 3(2,3) by (simp add: counted_def int_str_consts)
  with 1(1) 2(1) 3(1) show ?thesis
    by (intro that) (simp add: count_fire_def or_no_dedup_def CHRONIC_MIN_COUNT_def)
qed

text \<open>What a decision leaves of the counter, when it was not there.\<close>

lemma del_view:
  assumes "up r"
  obtains r' where "r_del api r now k = Some ((), r')" "up r'" "live (view r') = live ((view r)(k := None))"
  using delete_view [OF assms, of now k] by (auto simp: r_del_def)

definition settled :: "string \<Rightarrow> Decision \<times> 'r \<Rightarrow> bool" where
  "settled k x \<longleftrightarrow> (case x of (d, r) \<Rightarrow>
     d \<noteq> SUPPRESS_CHRONIC \<and> (if d \<in> {SEND, SEND_RESURFACED} then counted k r else uncounted k r))"

lemma settled_restart:
  assumes "up r" and "d \<in> {SEND, SEND_RESURFACED}"
  shows "settled (count_key a s) (restart_window api sec nu a s d r)"
  using assms(1) by (rule restart_window_view [of r sec nu a s d]) (use assms(2) in \<open>auto simp: settled_def\<close>)

lemma settled_count:
  assumes "uncounted (count_key a s) r"
  shows "settled (count_key a s) (count_fire api sec nu a s r)"
  using assms by (rule count_fire_first [of a s r sec nu]) (simp add: settled_def)

lemma settled_resurface:
  assumes "uncounted (count_key a s) r"
  shows "settled (count_key a s) (resurface api sec nu a s r)"
proof (cases "live (view r) sec (resurface_key a s) = None")
  case True
  with assms obtain r1 where "r_set api r sec (resurface_key a s) (int_str nu) RESURFACE_CLAIM_SECONDS True = Some (True, r1)" "up r1"
    using set_view [of r True sec "resurface_key a s" "int_str nu" RESURFACE_CLAIM_SECONDS] by (auto simp: uncounted_def)
  then show ?thesis by (simp add: resurface_def or_no_dedup_def settled_restart)
next
  case False
  with assms have "r_set api r sec (resurface_key a s) (int_str nu) RESURFACE_CLAIM_SECONDS True = Some (False, r)"
    by (simp add: set_nx_lost uncounted_def)
  with assms show ?thesis by (simp add: resurface_def or_no_dedup_def settled_count)
qed

lemma read_last_view:
  assumes "uncounted (count_key a s) r"
  obtains seen r1 where "\<And>k. read_last api sec a s r k = k seen r1" "uncounted (count_key a s) r1"
proof -
  have u: "up r" using assms by (simp add: uncounted_def)
  consider "r_get api r sec (last_key a s) = Some None" | t raw where
      "r_get api r sec (last_key a s) = Some (Some raw)" "int_text raw = Some t"
    | raw where "r_get api r sec (last_key a s) = Some (Some raw)" "int_text raw = None"
    using get_view [OF u, of sec "last_key a s"] by (metis not_None_eq)
  then show ?thesis
  proof cases
    case 3
    obtain r1 where 1: "r_del api r sec (last_key a s) = Some ((), r1)" "up r1" "live (view r1) = live ((view r)(last_key a s := None))"
      using u by (rule del_view)
    obtain r2 where 2: "r_del api r1 sec (count_key a s) = Some ((), r2)" "up r2" "live (view r2) = live ((view r1)(count_key a s := None))"
      using 1(2) by (rule del_view)
    have "uncounted (count_key a s) r2" using 2(2,3) by (simp add: uncounted_def)
    with 3 1(1) 2(1) show ?thesis by (intro that [of None r2]) (simp_all add: read_last_def or_no_dedup_def)
  qed (use assms in \<open>auto intro!: that simp: read_last_def\<close>)
qed

lemma settled_repeat:
  assumes "uncounted (count_key a s) r"
  shows "settled (count_key a s) (or_no_dedup (r_set api r sec (last_key a s) v CHRONIC_WINDOW_SECONDS False) r (\<lambda>_ r2. (SUPPRESS_REPEAT, r2)))"
proof -
  have "up r" using assms by (simp add: uncounted_def)
  then obtain r' where "r_set api r sec (last_key a s) v CHRONIC_WINDOW_SECONDS False = Some (True, r')" "up r'"
    "live (view r') = live ((view r)(last_key a s \<mapsto> (v, Some (sec + CHRONIC_WINDOW_SECONDS))))" by (rule set_over)
  with assms show ?thesis by (simp add: or_no_dedup_def settled_def uncounted_def)
qed

lemma decide_chronic_settled:
  assumes "uncounted (count_key (fi_alertname f) s) r"
  shows "settled (count_key (fi_alertname f) s) (decide_chronic api env db sec nu f s r)"
proof -
  obtain seen r1 where r: "\<And>k. read_last api sec (fi_alertname f) s r k = k seen r1" "uncounted (count_key (fi_alertname f) s) r1"
    using assms by (rule read_last_view [where sec = sec]) blast
  from r(2) have "up r1" by (simp add: uncounted_def)
  with r(2) show ?thesis
    by (auto simp: decide_chronic_def r(1) Let_def settled_count settled_restart settled_resurface settled_repeat split: option.split)
qed

lemma decide_send_settled:
  assumes "fi_service f = Some s" and "uncounted (count_key (fi_alertname f) s) r"
  shows "settled (count_key (fi_alertname f) s) (decide_send api env db now fire_at f r)"
  using assms decide_chronic_settled [OF assms(2)]
  by (auto simp: decide_send_def Let_def settled_def)

lemma rollback_counted:
  assumes "if d \<in> {SEND, SEND_RESURFACED} then counted (count_key a s) r else uncounted (count_key a s) r" and "s \<noteq> []"
  shows "uncounted (count_key a s) (rollback_undelivered api now a (Some s) d r)"
proof (cases "d \<in> {SEND, SEND_RESURFACED}")
  case True
  let ?k = "count_key a s" and ?t = "now div 1000000"
  have u: "up r" using assms(1) True by (simp add: counted_def)
  obtain n r1 where 1: "r_incrby api r ?t ?k (- 1) = Some (n, r1)" "n \<le> 0" "up r1"
  proof (cases "live (view r) ?t ?k")
    case None
    with incr_view [OF u, of ?t ?k 0 None "- 1"] that show ?thesis by auto
  next
    case (Some x)
    then obtain e where "x = (int_str 1, e)" using assms(1) True
      unfolding counted_def int_str_consts by (metis option.distinct(1) option.inject)
    with Some incr_view [OF u, of ?t ?k 1 e "- 1"] that show ?thesis by auto
  qed
  obtain r2 where 2: "r_delete api r1 ?t ?k = Some r2" "up r2" "live (view r2) = live ((view r1)(?k := None))"
    using delete_view [OF 1(3), of ?t ?k] by blast
  obtain r3 where 3: "r_delete api r2 ?t (resurface_key a s) = Some r3" "up r3"
    "live (view r3) = live ((view r2)(resurface_key a s := None))"
    using delete_view [OF 2(2), of ?t "resurface_key a s"] by blast
  show ?thesis using True 1 2 3 assms(2)
    by (auto simp: rollback_undelivered_def Let_def uncounted_def)
qed (use assms in \<open>simp add: rollback_undelivered_def Let_def\<close>)

text \<open>The counter of a running window that ends at \<open>e\<close>, and the time it was last fired at.\<close>

definition running :: "string \<Rightarrow> string \<Rightarrow> int \<Rightarrow> int \<Rightarrow> int \<Rightarrow> 'r \<Rightarrow> bool" where
  "running a s n e seen r \<longleftrightarrow> up r \<and>
     (\<forall>t. live (view r) t (count_key a s) = (if t < e then Some (int_str n, Some e) else None)) \<and>
     (\<forall>t. live (view r) t (last_key a s) =
        (if t < seen + CHRONIC_WINDOW_SECONDS then Some (int_str seen, Some (seen + CHRONIC_WINDOW_SECONDS)) else None))"

lemma count_running:
  assumes "up r" and "live (view r) sec (count_key a s) = Some (int_str n, Some e)"
    and "\<forall>t. live (view r) t (count_key a s) = (if t < e then Some (int_str n, Some e) else None)"
  obtains r' where "running a s (n + 1) e sec r'"
    "count_fire api sec sec a s r = (if CHRONIC_MIN_COUNT \<le> n + 1 then SUPPRESS_CHRONIC else SEND, r')"
proof -
  have 1: "r_set api r sec (count_key a s) ''0'' CHRONIC_WINDOW_SECONDS True = Some (False, r)"
    using assms(1,2) by (simp add: set_nx_lost)
  obtain r2 where 2: "r_incrby api r sec (count_key a s) 1 = Some (n + 1, r2)" "up r2"
    "live (view r2) = live ((view r)(count_key a s \<mapsto> (int_str (n + 1), Some e)))"
    using incr_view [OF assms(1), of sec "count_key a s" n "Some e" 1] assms(2) by auto
  obtain r3 where 3: "r_set api r2 sec (last_key a s) (int_str sec) CHRONIC_WINDOW_SECONDS False = Some (True, r3)" "up r3"
    "live (view r3) = live ((view r2)(last_key a s \<mapsto> (int_str sec, Some (sec + CHRONIC_WINDOW_SECONDS))))"
    using 2(2) by (rule set_over)
  have "running a s (n + 1) e sec r3" using 2(3) 3(2,3) by (simp add: running_def)
  with 1 2(1) 3(1) show ?thesis by (intro that) (simp_all add: count_fire_def or_no_dedup_def)
qed

lemma count_fresh:
  assumes "uncounted (count_key a s) r"
  obtains r' where "running a s 1 (sec + CHRONIC_WINDOW_SECONDS) sec r'" "count_fire api sec sec a s r = (SEND, r')"
proof -
  let ?k = "count_key a s" and ?e = "sec + CHRONIC_WINDOW_SECONDS"
  obtain r1 where 1: "r_set api r sec ?k ''0'' CHRONIC_WINDOW_SECONDS True = Some (True, r1)" "up r1"
    "live (view r1) = live ((view r)(?k \<mapsto> (''0'', Some ?e)))"
    using assms set_view [of r True sec ?k "''0''" CHRONIC_WINDOW_SECONDS] by (auto simp: uncounted_def)
  have l: "live (view r1) sec ?k = Some (int_str 0, Some ?e)"
    "\<forall>t. live (view r1) t ?k = (if t < ?e then Some (int_str 0, Some ?e) else None)"
    using 1(3) by (simp_all add: CHRONIC_WINDOW_SECONDS_def int_str_consts)
  have lost: "r_set api r1 sec ?k ''0'' CHRONIC_WINDOW_SECONDS True = Some (False, r1)"
    using 1(2) l(1) by (simp add: set_nx_lost)
  obtain r' where r': "running a s (0 + 1) ?e sec r'"
    "count_fire api sec sec a s r1 = (if CHRONIC_MIN_COUNT \<le> 0 + 1 then SUPPRESS_CHRONIC else SEND, r')"
    using 1(2) l by (rule count_running)
  have "count_fire api sec sec a s r = count_fire api sec sec a s r1"
    using 1(1) lost by (simp add: count_fire_def or_no_dedup_def)
  with r' show ?thesis by (intro that) (simp_all add: CHRONIC_MIN_COUNT_def)
qed

lemma decide_running:
  assumes "running (fi_alertname f) s n e seen r" and "sec < e" and "seen \<le> sec" "sec - seen \<le> CHRONIC_QUIET_RESET_SECONDS"
    and "0 \<le> seen" "seen < 10 ^ 15"
  obtains r' where "running (fi_alertname f) s (n + 1) e sec r'"
    "decide_chronic api env db sec sec f s r = (if CHRONIC_MIN_COUNT \<le> n + 1 then SUPPRESS_CHRONIC else SEND, r')"
proof -
  let ?a = "fi_alertname f"
  have u: "up r" and c: "live (view r) sec (count_key ?a s) = Some (int_str n, Some e)"
    and cs: "\<forall>t. live (view r) t (count_key ?a s) = (if t < e then Some (int_str n, Some e) else None)"
    using assms(1,2) by (simp_all add: running_def)
  have "r_get api r sec (last_key ?a s) = Some (Some (int_str seen))"
    using get_view [OF u, of sec "last_key ?a s"] assms(1,4)
    by (simp add: running_def CHRONIC_WINDOW_SECONDS_def CHRONIC_QUIET_RESET_SECONDS_def)
  then have "decide_chronic api env db sec sec f s r = count_fire api sec sec ?a s r"
    using assms(4) int_text_int_str [OF assms(5,6)]
    by (simp add: decide_chronic_def read_last_def Let_def)
  moreover obtain r' where "running ?a s (n + 1) e sec r'"
    "count_fire api sec sec ?a s r = (if CHRONIC_MIN_COUNT \<le> n + 1 then SUPPRESS_CHRONIC else SEND, r')"
    using u c cs by (rule count_running)
  ultimately show ?thesis by (intro that) simp_all
qed

lemma decide_all_running:
  assumes "running (fi_alertname f) s n e (t div 1000000) r" and "fi_service f = Some s" "s \<noteq> []"
    and "\<And>t. \<not> rollout_noise db t f s"
    and "successively (\<lambda>x y. x \<le> y \<and> y div 1000000 - x div 1000000 \<le> CHRONIC_QUIET_RESET_SECONDS) (t # ts)"
    and "\<forall>x\<in>set (t # ts). 0 \<le> x \<and> x div 1000000 < e \<and> x div 1000000 < 10 ^ 15"
  shows "decide_all api env db f ts r =
    map (\<lambda>i. if CHRONIC_MIN_COUNT \<le> n + 1 + int i then SUPPRESS_CHRONIC else SEND) [0..<length ts]"
  using assms(1,5,6)
proof (induction ts arbitrary: n t r)
  case (Cons u ts)
  let ?sec = "u div 1000000"
  obtain r' where r': "running (fi_alertname f) s (n + 1) e ?sec r'"
    "decide_chronic api env db ?sec ?sec f s r = (if CHRONIC_MIN_COUNT \<le> n + 1 then SUPPRESS_CHRONIC else SEND, r')"
  proof (rule decide_running [OF Cons.prems(1), of ?sec])
    show "t div 1000000 \<le> ?sec" using Cons.prems(2) by (simp add: zdiv_mono1)
  qed (use Cons.prems(2,3) that in auto)
  have "decide_send api env db u None f r = (if CHRONIC_MIN_COUNT \<le> n + 1 then SUPPRESS_CHRONIC else SEND, r')"
    using r'(2) assms(2-4) by (simp add: decide_send_def Let_def)
  moreover have "decide_all api env db f ts r' =
      map (\<lambda>i. if CHRONIC_MIN_COUNT \<le> (n + 1) + 1 + int i then SUPPRESS_CHRONIC else SEND) [0..<length ts]"
    using Cons.prems(2,3) by (intro Cons.IH [OF r'(1)]) auto
  ultimately show ?case by (simp add: map_upt_Suc add_ac del: upt_Suc)
qed simp


end

fun undelivered ::
  "'r redis_api \<Rightarrow> dedup_env \<Rightarrow> (alert_db option \<times> int \<times> fire \<times> int) list \<Rightarrow> 'r \<Rightarrow> Decision list" where
  "undelivered api env [] r = []"
| "undelivered api env ((db, t, f, t') # xs) r =
     (case decide_send api env db t None f r of (d, r1) \<Rightarrow>
        d # undelivered api env xs (rollback_undelivered api t' (fi_alertname f) (fi_service f) d r1))"

lemma undelivered_settled:
  assumes "redis api view up" and "redis.uncounted view up (count_key a s) r" and "s \<noteq> []"
    and "\<forall>(db, t, f, t')\<in>set xs. fi_alertname f = a \<and> fi_service f = Some s"
  shows "SUPPRESS_CHRONIC \<notin> set (undelivered api env xs r)"
  using assms(2,4)
proof (induction xs arbitrary: r)
  case (Cons x xs)
  obtain db t f t' where x: "x = (db, t, f, t')" by (metis prod_cases4)
  then have f: "fi_alertname f = a" "fi_service f = Some s" using Cons.prems(2) by auto
  obtain d r1 where d: "decide_send api env db t None f r = (d, r1)" by fastforce
  have st: "redis.settled view up (count_key a s) (d, r1)"
    using redis.decide_send_settled [OF assms(1) f(2), of r env db t None] Cons.prems(1) d f(1) by simp
  then have "redis.uncounted view up (count_key a s) (rollback_undelivered api t' a (Some s) d r1)"
    by (intro redis.rollback_counted [OF assms(1) _ assms(3)]) (simp add: redis.settled_def [OF assms(1)])
  then have "SUPPRESS_CHRONIC \<notin> set (undelivered api env xs (rollback_undelivered api t' a (Some s) d r1))"
    using Cons.prems(2) by (intro Cons.IH) auto
  with st d f x show ?case by (auto simp: redis.settled_def [OF assms(1)])
qed simp

section \<open>Properties\<close>

text \<open>
  The channel hears a chronic alert twice per window: on a store that has no counter and no last
  fire for the alert and the service, the first two fires of a run are sent and all later ones are
  suppressed, as long as no two are more than two hours apart, all lie within six hours of the
  first, and none is taken for the noise of a rollout.
\<close>

theorem chronic_fires_suppressed:
  assumes "redis api view up" and "up r" and "fi_service f = Some s" "s \<noteq> []"
    and "\<And>t. live (view r) t (count_key (fi_alertname f) s) = None"
    and "\<And>t. live (view r) t (last_key (fi_alertname f) s) = None"
    and "\<And>t. \<not> rollout_noise db t f s"
    and "successively (\<lambda>x y. x \<le> y \<and> y div 1000000 - x div 1000000 \<le> CHRONIC_QUIET_RESET_SECONDS) ts"
    and "\<forall>t\<in>set ts. 0 \<le> t \<and> t div 1000000 < hd ts div 1000000 + CHRONIC_WINDOW_SECONDS \<and> t div 1000000 < 10 ^ 15"
  shows "decide_all api env db f ts r = map (\<lambda>i. if i < 2 then SEND else SUPPRESS_CHRONIC) [0..<length ts]"
proof (cases ts)
  case (Cons t us)
  let ?sec = "t div 1000000"
  have "redis.uncounted view up (count_key (fi_alertname f) s) r"
    using assms(1,2,5) by (simp add: redis.uncounted_def)
  then obtain r' where r': "redis.running view up (fi_alertname f) s 1 (?sec + CHRONIC_WINDOW_SECONDS) ?sec r'"
    "count_fire api ?sec ?sec (fi_alertname f) s r = (SEND, r')"
    using redis.count_fresh [OF assms(1)] by metis
  have "r_get api r ?sec (last_key (fi_alertname f) s) = Some None"
    using redis.get_view [OF assms(1,2)] assms(6) by simp
  with r'(2) have "decide_send api env db t None f r = (SEND, r')"
    using assms(3,4,7) by (simp add: decide_send_def decide_chronic_def read_last_def Let_def)
  moreover have "decide_all api env db f us r' =
      map (\<lambda>i. if CHRONIC_MIN_COUNT \<le> 1 + 1 + int i then SUPPRESS_CHRONIC else SEND) [0..<length us]"
    using assms(8,9) Cons by (intro redis.decide_all_running [OF assms(1) r'(1) assms(3,4,7)]) auto
  ultimately show ?thesis
    by (auto simp: Cons map_upt_Suc CHRONIC_MIN_COUNT_def simp del: upt_Suc intro!: map_cong)
qed simp

definition sample_fire :: fire where
  "sample_fire = \<lparr>fi_alertname = ''KubePodCrashLooping'', fi_namespace = Some ''squad-1'', fi_service = Some ''api'',
     fi_severity = ''warning'', fi_episodes = []\<rparr>"

definition sample_dedup_env :: dedup_env where
  "sample_dedup_env = \<lparr>de_time = \<lparr>fromisoformat = (\<lambda>_. None), isoformat = (\<lambda>_. [])\<rparr>, ALERT_SUPPRESS_AM_REPEATS = True\<rparr>"

theorem chronic_fires_suppressed_witness:
  "decide_all kv_api sample_dedup_env None sample_fire [0, 60000000, 3600000000, 7200000000] [] =
     [SEND, SEND, SUPPRESS_CHRONIC, SUPPRESS_CHRONIC]"
  using chronic_fires_suppressed [OF kv.redis_axioms, where r = "[]" and f = sample_fire and s = "''api''" and db = None and ts = "[0, 60000000, 3600000000, 7200000000]"
      and env = sample_dedup_env]
  by (simp add: sample_fire_def live_def rollout_noise_def ROLLOUT_ALERTS_def CHRONIC_QUIET_RESET_SECONDS_def
      CHRONIC_WINDOW_SECONDS_def upt_rec)

text \<open>
  Cards that never arrived silence nothing: from a store without a counter for the alert and the
  service, however many fires come, whenever they come and whatever the rows of the knowledge graph
  say, if every delivery fails and is rolled back, no fire is suppressed as chronic.
\<close>

theorem undelivered_never_silences:
  assumes "redis api view up" and "up r" and "s \<noteq> []" and "\<And>t. live (view r) t (count_key a s) = None"
    and "\<forall>(db, t, f, t')\<in>set xs. fi_alertname f = a \<and> fi_service f = Some s"
  shows "SUPPRESS_CHRONIC \<notin> set (undelivered api env xs r)"
  using assms by (intro undelivered_settled [of api view up a s]) (simp_all add: redis.uncounted_def)

theorem undelivered_never_silences_witness:
  "let x = (\<lambda>t. (None, t, sample_fire, t + 1000000)) in
   length (undelivered kv_api sample_dedup_env (map x [0, 60000000, 120000000, 180000000, 9999000000]) []) = 5 \<and>
   SUPPRESS_CHRONIC \<notin> set (undelivered kv_api sample_dedup_env (map x [0, 60000000, 120000000, 180000000, 9999000000]) [])"
proof -
  let ?xs = "map (\<lambda>t. (None, t, sample_fire, t + 1000000)) [0, 60000000, 120000000, 180000000, 9999000000]"
  have "SUPPRESS_CHRONIC \<notin> set (undelivered kv_api sample_dedup_env ?xs [])"
    by (rule undelivered_never_silences [OF kv.redis_axioms, where s = "''api''" and a = "''KubePodCrashLooping''"])
      (simp_all add: live_def sample_fire_def)
  moreover have "length (undelivered kv_api sample_dedup_env xs r) = length xs" for xs r
    by (induction kv_api sample_dedup_env xs r rule: undelivered.induct) (auto split: prod.splits)
  ultimately show ?thesis by (simp add: Let_def)
qed

end
