(* ===== verification/Api_Guards.thy ===== *)
theory Api_Guards
  imports Redis
begin

text \<open>
  What stands in front of the webhooks: the signature of a request and its one use
  (\<open>app/security/replay.py\<close>, \<open>verify_alertmanager_signature\<close> of \<open>app/api/webhooks.py\<close>,
  \<open>check_remediation_signature\<close> of \<open>app/knowledge_graph/remediation_events.py\<close>), and the rate
  limit (\<open>app/api/rate_limit.py\<close>). HMAC-SHA256 is the parameter \<open>hmac\<close>, a key and a text to a hex text.
  Clocks are read in whole seconds. Metrics and log lines are not modelled.
\<close>

section \<open>Freshness\<close>

definition is_timestamp_fresh :: "string option \<Rightarrow> int \<Rightarrow> int \<Rightarrow> bool" where
  "is_timestamp_fresh timestamp max_age_seconds now =
     (if max_age_seconds \<le> 0 then True
      else (case timestamp of
              None \<Rightarrow> False
            | Some s \<Rightarrow>
                (case to_float (PStr s) of
                   Inr (NFin ts) \<Rightarrow> \<bar>of_int now - ts\<bar> \<le> of_int max_age_seconds
                 | _ \<Rightarrow> False)))"

section \<open>The shared store of used signatures\<close>

record nonce_store =
  ns_connected :: bool
  ns_unavailable_until :: int

definition NONCE_PREFIX :: string where "NONCE_PREFIX = ''am:replay:nonce:''"
definition COOLDOWN_SECONDS :: int where "COOLDOWN_SECONDS = 30"

text \<open>\<open>True\<close>: the key is new; \<open>False\<close>: it was there; \<open>None\<close>: no answer.\<close>

definition claim_nonce ::
  "'r redis_api \<Rightarrow> bool \<Rightarrow> int \<Rightarrow> string \<Rightarrow> int \<Rightarrow> nonce_store \<times> 'r \<Rightarrow> bool option \<times> nonce_store \<times> 'r" where
  "claim_nonce api can_connect now key ttl_seconds x =
     (case x of (st, r) \<Rightarrow>
        let cooling = st\<lparr>ns_connected := False, ns_unavailable_until := now + COOLDOWN_SECONDS\<rparr> in
        if now < ns_unavailable_until st then (None, st, r)
        else if \<not> ns_connected st \<and> \<not> can_connect then (None, cooling, r)
        else (case r_set api r now (NONCE_PREFIX @ key) ''1'' (max 1 ttl_seconds) True of
                None \<Rightarrow> (None, cooling, r)
              | Some (created, r1) \<Rightarrow> (Some created, st\<lparr>ns_connected := True\<rparr>, r1)))"

definition env_flag :: "string option \<Rightarrow> bool option" where
  "env_flag raw =
     (case raw of
        None \<Rightarrow> None
      | Some s \<Rightarrow>
          (let v = lower (strip s) in
           if v \<in> {''1'', ''true'', ''yes'', ''on''} then Some True
           else if v \<in> {''0'', ''false'', ''no'', ''off''} then Some False else None))"

definition shared_nonce_enabled :: "bool option \<Rightarrow> string option \<Rightarrow> bool \<Rightarrow> bool" where
  "shared_nonce_enabled configured env is_production =
     (case configured of
        Some b \<Rightarrow> b
      | None \<Rightarrow> (case env_flag env of Some b \<Rightarrow> b | None \<Rightarrow> is_production))"

section \<open>The cache of a process\<close>

text \<open>Signatures with the time they run out, in the order they came; the oldest goes when it is full.\<close>

type_synonym sig_cache = "(string \<times> int) list"

definition MAX_ENTRIES :: nat where "MAX_ENTRIES = 4096"

definition seen_locally :: "nat \<Rightarrow> string \<Rightarrow> int \<Rightarrow> int \<Rightarrow> sig_cache \<Rightarrow> bool \<times> sig_cache" where
  "seen_locally max_entries signature ttl_seconds current entries =
     (let kept = filter (\<lambda>(s, e). current < e) entries in
      if signature \<in> fst ` set kept then (True, kept)
      else (let all = kept @ [(signature, current + ttl_seconds)] in (False, drop (length all - max_entries) all)))"

text \<open>\<open>shared\<close>: the shared store is switched on. The answer is whether the request is a replay.\<close>

definition seen_recently ::
  "'r redis_api \<Rightarrow> bool \<Rightarrow> bool \<Rightarrow> nat \<Rightarrow> string \<Rightarrow> int \<Rightarrow> int \<Rightarrow> sig_cache \<Rightarrow> nonce_store \<times> 'r
    \<Rightarrow> bool \<times> sig_cache \<times> nonce_store \<times> 'r" where
  "seen_recently api shared can_connect max_entries signature ttl_seconds current cache x =
     (if ttl_seconds \<le> 0 then (False, cache, x)
      else (case seen_locally max_entries signature ttl_seconds current cache of
              (True, cache1) \<Rightarrow> (True, cache1, x)
            | (False, cache1) \<Rightarrow>
                if \<not> shared then (False, cache1, x)
                else (case claim_nonce api can_connect current signature ttl_seconds x of
                        (claimed, x1) \<Rightarrow> (claimed = Some False, cache1, x1))))"

section \<open>The signature of a request\<close>

record am_settings =
  ALERTMANAGER_WEBHOOK_SECRET :: "string option"
  ALERTMANAGER_ALLOW_UNAUTHENTICATED :: bool
  ALERTMANAGER_WEBHOOK_MAX_AGE_SECONDS :: int
  ALERTMANAGER_REQUIRE_SIGNED_TIMESTAMP :: bool
  am_shared_nonce :: bool

record request =
  rq_headers :: "(string \<times> string) list"
  rq_body :: string

text \<open>\<open>request.headers.get\<close>: names are compared without case, the first one counts.\<close>

definition header :: "request \<Rightarrow> string \<Rightarrow> string option" where
  "header rq name = map_option snd (find (\<lambda>(k, v). lower k = lower name) (rq_headers rq))"

definition given :: "string option \<Rightarrow> string option" where
  "given x = (case x of None \<Rightarrow> None | Some s \<Rightarrow> if s = [] then None else Some s)"

definition bare_signature :: "string \<Rightarrow> string" where
  "bare_signature s = (if startswith s ''sha256='' then drop 7 s else s)"

text \<open>The text the signature is over, or the reason of a 401.\<close>

definition signed_payload :: "am_settings \<Rightarrow> int \<Rightarrow> request \<Rightarrow> string + string" where
  "signed_payload cfg now rq =
     (case given (header rq ''X-Alertmanager-Timestamp'') of
        Some ts \<Rightarrow>
          if is_timestamp_fresh (Some ts) (ALERTMANAGER_WEBHOOK_MAX_AGE_SECONDS cfg) now
          then Inr (ts @ ''.'' @ rq_body rq) else Inl ''Stale AlertManager timestamp''
      | None \<Rightarrow>
          if ALERTMANAGER_REQUIRE_SIGNED_TIMESTAMP cfg then Inl ''Missing AlertManager timestamp''
          else Inr (rq_body rq))"

definition check_hmac ::
  "(string \<Rightarrow> string \<Rightarrow> string) \<Rightarrow> am_settings \<Rightarrow> string \<Rightarrow> int \<Rightarrow> request \<Rightarrow> string + string" where
  "check_hmac hmac cfg secret now rq =
     (case given (header rq ''X-Alertmanager-Signature'') of
        None \<Rightarrow> Inl ''Missing AlertManager signature''
      | Some s \<Rightarrow>
          rbind (signed_payload cfg now rq) (\<lambda>payload.
            if bare_signature s = hmac secret payload then Inr (bare_signature s)
            else Inl ''Invalid AlertManager signature''))"

definition verify_alertmanager_signature ::
  "'r redis_api \<Rightarrow> bool \<Rightarrow> (string \<Rightarrow> string \<Rightarrow> string) \<Rightarrow> am_settings \<Rightarrow> int \<Rightarrow> request \<Rightarrow> sig_cache \<Rightarrow> nonce_store \<times> 'r
    \<Rightarrow> (string + unit) \<times> sig_cache \<times> nonce_store \<times> 'r" where
  "verify_alertmanager_signature api can_connect hmac cfg now rq cache x =
     (case given (ALERTMANAGER_WEBHOOK_SECRET cfg) of
        None \<Rightarrow>
          (if ALERTMANAGER_ALLOW_UNAUTHENTICATED cfg then Inr ()
           else Inl ''AlertManager webhook authentication is not configured'', cache, x)
      | Some secret \<Rightarrow>
          (case check_hmac hmac cfg secret now rq of
             Inl e \<Rightarrow> (Inl e, cache, x)
           | Inr signature \<Rightarrow>
               (let ttl = ALERTMANAGER_WEBHOOK_MAX_AGE_SECONDS cfg in
                if 0 < ttl
                then (case seen_recently api (am_shared_nonce cfg) can_connect MAX_ENTRIES signature ttl now cache x of
                        (replayed, y) \<Rightarrow> (if replayed then Inl ''Replayed AlertManager request'' else Inr (), y))
                else (Inr (), cache, x))))"

text \<open>The webhook of external executors: the timestamp is not optional, and names map to the last value.\<close>

definition last_header :: "request \<Rightarrow> string \<Rightarrow> string" where
  "last_header rq name =
     strip (case find (\<lambda>(k, v). lower k = lower name) (rev (rq_headers rq)) of None \<Rightarrow> [] | Some (_, v) \<Rightarrow> v)"

definition check_remediation_signature ::
  "(string \<Rightarrow> string \<Rightarrow> string) \<Rightarrow> string option \<Rightarrow> int \<Rightarrow> int \<Rightarrow> request \<Rightarrow> string + string" where
  "check_remediation_signature hmac secret max_age_seconds now rq =
     (case given secret of
        None \<Rightarrow> Inl ''remediation webhook authentication is not configured''
      | Some key \<Rightarrow>
          (let signature = last_header rq ''X-Remediation-Signature''; timestamp = last_header rq ''X-Remediation-Timestamp'' in
           if signature = [] then Inl ''missing signature''
           else if timestamp = [] then Inl ''missing timestamp''
           else if \<not> is_timestamp_fresh (Some timestamp) max_age_seconds now then Inl ''stale timestamp''
           else if bare_signature signature \<noteq> hmac key (timestamp @ ''.'' @ rq_body rq) then Inl ''invalid signature''
           else Inr (bare_signature signature)))"

definition verify_remediation_signature ::
  "'r redis_api \<Rightarrow> bool \<Rightarrow> (string \<Rightarrow> string \<Rightarrow> string) \<Rightarrow> string option \<Rightarrow> int \<Rightarrow> bool \<Rightarrow> int \<Rightarrow> request \<Rightarrow> sig_cache
    \<Rightarrow> nonce_store \<times> 'r \<Rightarrow> (string + unit) \<times> sig_cache \<times> nonce_store \<times> 'r" where
  "verify_remediation_signature api can_connect hmac secret max_age_seconds shared now rq cache x =
     (case check_remediation_signature hmac secret max_age_seconds now rq of
        Inl e \<Rightarrow> (Inl e, cache, x)
      | Inr signature \<Rightarrow>
          (if 0 < max_age_seconds
           then (case seen_recently api shared can_connect MAX_ENTRIES signature max_age_seconds now cache x of
                   (replayed, y) \<Rightarrow> (if replayed then Inl ''Replayed remediation request'' else Inr (), y))
           else (Inr (), cache, x)))"

section \<open>The rate limit\<close>

definition ALERTMANAGER_RATE_LIMIT :: int where "ALERTMANAGER_RATE_LIMIT = 10"
definition WINDOW_SECONDS :: int where "WINDOW_SECONDS = 60"
definition FALLBACK_MAX_KEYS :: nat where "FALLBACK_MAX_KEYS = 8192"

definition rate_key :: "string \<Rightarrow> int \<Rightarrow> string" where
  "rate_key client_ip window = ''rl:alertmanager:'' @ client_ip @ '':'' @ int_str window"

text \<open>Counters of a process, least recently used first.\<close>

type_synonym fallback = "((string \<times> int) \<times> int) list"

definition check_local_fallback :: "string \<Rightarrow> int \<Rightarrow> fallback \<Rightarrow> bool \<times> fallback" where
  "check_local_fallback client_ip window counters =
     (let key = (client_ip, window);
          count = (case map_of counters key of None \<Rightarrow> 0 | Some n \<Rightarrow> n) + 1;
          moved = AList.delete key counters @ [(key, count)]
      in (count \<le> ALERTMANAGER_RATE_LIMIT, drop (length moved - FALLBACK_MAX_KEYS) moved))"

definition check_alertmanager :: "'r redis_api \<Rightarrow> int \<Rightarrow> string \<Rightarrow> fallback \<times> 'r \<Rightarrow> bool \<times> fallback \<times> 'r" where
  "check_alertmanager api now client_ip x =
     (case x of (fb, r) \<Rightarrow>
        if client_ip = [] then (True, fb, r)
        else
          (let window = now div WINDOW_SECONDS; key = rate_key client_ip window;
               local = (\<lambda>r. case check_local_fallback client_ip window fb of (ok, fb1) \<Rightarrow> (ok, fb1, r))
           in case r_incrby api r now key 1 of
                None \<Rightarrow> local r
              | Some (count, r1) \<Rightarrow>
                  if count = 1
                  then (case r_expire api r1 now key (WINDOW_SECONDS + 10) of
                          None \<Rightarrow> local r1
                        | Some (_, r2) \<Rightarrow> (count \<le> ALERTMANAGER_RATE_LIMIT, fb, r2))
                  else (count \<le> ALERTMANAGER_RATE_LIMIT, fb, r1)))"

section \<open>One use per signature\<close>

text \<open>
  The replicas of the service with one shared store: each has its own cache and its own connection.
  A request is a replica, a signature and a time; the answer is whether it is refused as a replay.
\<close>

fun serve ::
  "'r redis_api \<Rightarrow> nat \<Rightarrow> int \<Rightarrow> (nat \<times> string \<times> int) list \<Rightarrow> (nat \<Rightarrow> sig_cache) \<Rightarrow> (nat \<Rightarrow> nonce_store) \<Rightarrow> 'r \<Rightarrow> bool list" where
  "serve api mx ttl [] caches stores r = []"
| "serve api mx ttl ((i, sig, t) # rest) caches stores r =
     (case seen_recently api True True mx sig ttl t (caches i) (stores i, r) of
        (replayed, c, st, r1) \<Rightarrow> replayed # serve api mx ttl rest (caches(i := c)) (stores(i := st)) r1)"

definition ready_stores :: "(nat \<Rightarrow> nonce_store) \<Rightarrow> int \<Rightarrow> bool" where
  "ready_stores stores lo \<longleftrightarrow> (\<forall>i. ns_unavailable_until (stores i) \<le> lo)"

lemma serve_length: "length (serve api mx ttl reqs caches stores r) = length reqs"
  by (induction api mx ttl reqs caches stores r rule: serve.induct) (auto split: prod.splits simp del: fun_upd_apply)

fun check_all :: "'r redis_api \<Rightarrow> string \<Rightarrow> int list \<Rightarrow> fallback \<times> 'r \<Rightarrow> bool list" where
  "check_all api ip [] x = []"
| "check_all api ip (t # ts) x = (case check_alertmanager api t ip x of (ok, y) \<Rightarrow> ok # check_all api ip ts y)"

context redis
begin

lemma claim_nonce_up:
  assumes "up r" and "ns_unavailable_until st \<le> t"
  obtains r' where "claim_nonce api True t sig ttl (st, r) = (Some (live (view r) t (NONCE_PREFIX @ sig) = None), st\<lparr>ns_connected := True\<rparr>, r')"
    "up r'" "if live (view r) t (NONCE_PREFIX @ sig) = None
       then live (view r') = live ((view r)(NONCE_PREFIX @ sig \<mapsto> (''1'', Some (t + max 1 ttl)))) else r' = r"
proof (cases "live (view r) t (NONCE_PREFIX @ sig) = None")
  case True
  then obtain r' where "r_set api r t (NONCE_PREFIX @ sig) ''1'' (max 1 ttl) True = Some (True, r')" "up r'"
    "live (view r') = live ((view r)(NONCE_PREFIX @ sig \<mapsto> (''1'', Some (t + max 1 ttl))))"
    using set_view [OF assms(1), of True t "NONCE_PREFIX @ sig" "''1''" "max 1 ttl"] by auto
  with True assms(2) show ?thesis by (intro that [of r']) (simp_all add: claim_nonce_def Let_def)
next
  case False
  then have "r_set api r t (NONCE_PREFIX @ sig) ''1'' (max 1 ttl) True = Some (False, r)"
    using assms(1) by (simp add: set_nx_lost)
  with False assms show ?thesis by (intro that [of r]) (auto simp: claim_nonce_def Let_def)
qed

text \<open>A signature whose key is held until \<open>e\<close>, from the time \<open>lo\<close> on.\<close>

definition held :: "string \<Rightarrow> int \<Rightarrow> int \<Rightarrow> 'r \<Rightarrow> bool" where
  "held sig lo e r \<longleftrightarrow> up r \<and> (\<forall>t. lo \<le> t \<and> t < e \<longrightarrow> live (view r) t (NONCE_PREFIX @ sig) \<noteq> None)"

lemma seen_recently_up:
  assumes "up r" and "ns_unavailable_until st \<le> t" and "0 < ttl"
    and "seen_recently api True True mx sig ttl t c (st, r) = (b, c', st', r')"
  shows "up r' \<and> ns_unavailable_until st' \<le> t \<and> (\<not> b \<longrightarrow> held sig t (t + ttl) r') \<and>
    (\<forall>sig' e. held sig' t e r \<longrightarrow> held sig' t e r' \<and> (sig' = sig \<and> t < e \<longrightarrow> b))"
proof (cases "seen_locally mx sig ttl t c")
  case (Pair seen c1)
  show ?thesis
  proof (cases seen)
    case True
    with Pair assms show ?thesis by (auto simp: seen_recently_def)
  next
    case False
    obtain r1 where r1: "claim_nonce api True t sig ttl (st, r) = (Some (live (view r) t (NONCE_PREFIX @ sig) = None), st\<lparr>ns_connected := True\<rparr>, r1)"
      "up r1" "if live (view r) t (NONCE_PREFIX @ sig) = None
         then live (view r1) = live ((view r)(NONCE_PREFIX @ sig \<mapsto> (''1'', Some (t + max 1 ttl)))) else r1 = r"
      using assms(1,2) by (rule claim_nonce_up [of r st t sig ttl])
    have b: "b \<longleftrightarrow> live (view r) t (NONCE_PREFIX @ sig) \<noteq> None" "st' = st\<lparr>ns_connected := True\<rparr>" "r' = r1"
      using assms(3,4) False Pair r1(1) by (auto simp: seen_recently_def)
    show ?thesis
    proof (cases b)
      case True
      with b r1 assms(2) show ?thesis by auto
    next
      case False
      with b have n: "live (view r) t (NONCE_PREFIX @ sig) = None" by blast
      have l: "live (view r1) t' k = (if k = NONCE_PREFIX @ sig then (if t' < t + ttl then Some (''1'', Some (t + ttl)) else None)
          else live (view r) t' k)" for t' k
        using r1(3) assms(3) by (simp add: n)
      from False b l r1(2) assms(2) show ?thesis by (auto simp: held_def)
    qed
  qed
qed

lemma serve_held:
  assumes "held sig lo e r" and "ready_stores stores lo" and "0 < ttl"
    and "sorted (map (\<lambda>(i, s, t). t) reqs)" and "\<forall>(i, s, t)\<in>set reqs. lo \<le> t"
    and "j < length reqs" and "reqs ! j = (i, sig, t)" and "t < e"
  shows "serve api mx ttl reqs caches stores r ! j"
  using assms(1,2,4-7)
proof (induction reqs arbitrary: j lo caches stores r)
  case (Cons q reqs)
  obtain i' sig' t' where q: "q = (i', sig', t')" by (metis prod_cases3)
  obtain b c st r1 where s: "seen_recently api True True mx sig' ttl t' (caches i') (stores i', r) = (b, c, st, r1)"
    by (metis prod_cases4)
  have t': "lo \<le> t'" using Cons.prems(4) q by simp
  have h: "held sig t' e r" using Cons.prems(1) t' by (simp add: held_def)
  have "ns_unavailable_until (stores i') \<le> t'" "up r"
    using Cons.prems(1,2) t' by (auto simp: ready_stores_def held_def intro: order.trans)
  note u = seen_recently_up [OF this(2,1) assms(3) s]
  show ?case
  proof (cases j)
    case 0
    with Cons.prems(6) q have "sig' = sig" "t' = t" by simp_all
    with u h assms(8) have b by blast
    with 0 q s show ?thesis by simp
  next
    case (Suc k)
    have "ready_stores (stores(i' := st)) t'"
      using u Cons.prems(2) t' by (auto simp: ready_stores_def intro: order.trans)
    moreover have "held sig t' e r1" using u h by blast
    ultimately have "serve api mx ttl reqs (caches(i' := c)) (stores(i' := st)) r1 ! k"
      using Cons.prems(3-6) q Suc by (intro Cons.IH [where lo = t']) (auto simp del: fun_upd_apply)
    with Suc q s show ?thesis by simp
  qed
qed simp

lemma serve_once:
  assumes "up r" and "ready_stores stores lo" and "0 < ttl"
    and "sorted (map (\<lambda>(i, s, t). t) reqs)" and "\<forall>(i, s, t)\<in>set reqs. lo \<le> t"
    and "a < b" and "b < length reqs" and "reqs ! a = (i, sig, t)" and "reqs ! b = (i', sig, t')"
    and "\<not> serve api mx ttl reqs caches stores r ! a" and "\<not> serve api mx ttl reqs caches stores r ! b"
  shows "t + ttl \<le> t'"
  using assms(1,2,4-11)
proof (induction reqs arbitrary: a b lo caches stores r)
  case (Cons q reqs)
  obtain i1 s1 t1 where q: "q = (i1, s1, t1)" by (metis prod_cases3)
  obtain v c st r1 where s: "seen_recently api True True mx s1 ttl t1 (caches i1) (stores i1, r) = (v, c, st, r1)"
    by (metis prod_cases4)
  have t1: "lo \<le> t1" using Cons.prems(4) q by simp
  then have "ns_unavailable_until (stores i1) \<le> t1" using Cons.prems(2) by (auto simp: ready_stores_def intro: order.trans)
  note u = seen_recently_up [OF Cons.prems(1) this assms(3) s]
  have rdy: "ready_stores (stores(i1 := st)) t1"
    using u Cons.prems(2) t1 by (auto simp: ready_stores_def intro: order.trans)
  have rest: "sorted (map (\<lambda>(i, s, t). t) reqs)" "\<forall>(i, s, t)\<in>set reqs. t1 \<le> t"
    using Cons.prems(3) q by auto
  obtain k where k: "b = Suc k" using Cons.prems(5) by (cases b) auto
  show ?case
  proof (cases a)
    case 0
    with Cons.prems(7,9) q s have "s1 = sig" "t1 = t" "\<not> v" by simp_all
    with u have "held sig t1 (t1 + ttl) r1" by blast
    from serve_held [OF this rdy assms(3) rest, of k i' t' mx "caches(i1 := c)"] \<open>t1 = t\<close>
    show ?thesis using Cons.prems(6,8,10) k q s by (simp add: not_less [symmetric]) blast
  next
    case (Suc m)
    show ?thesis
      by (rule Cons.IH [where a = m and b = k and lo = t1 and r = r1 and stores = "stores(i1 := st)" and caches = "caches(i1 := c)"])
        (use Cons.prems k Suc q s u rdy rest in \<open>auto simp: not_less simp del: fun_upd_apply\<close>)
  qed
qed simp

text \<open>The counter of a window.\<close>

definition rated :: "string \<Rightarrow> int \<Rightarrow> int \<Rightarrow> 'r \<Rightarrow> bool" where
  "rated k n e r \<longleftrightarrow> up r \<and>
     (\<forall>t. live (view r) t k = (if n = 0 then None else if t < e then Some (int_str n, Some e) else None))"

lemma rate_first:
  assumes "rated (rate_key ip (t div WINDOW_SECONDS)) 0 e r" and "ip \<noteq> []"
  obtains r' where "check_alertmanager api t ip (fb, r) = (True, fb, r')"
    "rated (rate_key ip (t div WINDOW_SECONDS)) 1 (t + (WINDOW_SECONDS + 10)) r'"
proof -
  let ?k = "rate_key ip (t div WINDOW_SECONDS)"
  obtain r1 where 1: "r_incrby api r t ?k 1 = Some (1, r1)" "up r1" "live (view r1) = live ((view r)(?k \<mapsto> (int_str 1, None)))"
    using incr_view [of r t ?k 0 None 1] assms(1) by (auto simp: rated_def)
  have "live (view r1) t ?k = Some (int_str 1, None)" using 1(3) by simp
  then obtain r2 where 2: "r_expire api r1 t ?k (WINDOW_SECONDS + 10) = Some (True, r2)" "up r2"
    "live (view r2) = live ((view r1)(?k \<mapsto> (int_str 1, Some (t + (WINDOW_SECONDS + 10)))))"
    using expire_view [OF 1(2)] by blast
  have "rated ?k 1 (t + (WINDOW_SECONDS + 10)) r2" using 2 by (simp add: rated_def)
  with 1(1) 2(1) assms(2) show ?thesis
    by (intro that) (simp_all add: check_alertmanager_def Let_def ALERTMANAGER_RATE_LIMIT_def)
qed

lemma rate_next:
  assumes "rated (rate_key ip (t div WINDOW_SECONDS)) n e r" and "ip \<noteq> []" and "0 < n" and "t < e"
  obtains r' where "check_alertmanager api t ip (fb, r) = (n + 1 \<le> ALERTMANAGER_RATE_LIMIT, fb, r')"
    "rated (rate_key ip (t div WINDOW_SECONDS)) (n + 1) e r'"
proof -
  let ?k = "rate_key ip (t div WINDOW_SECONDS)"
  have "live (view r) t ?k = Some (int_str n, Some e)" "up r" using assms by (simp_all add: rated_def)
  then obtain r1 where 1: "r_incrby api r t ?k 1 = Some (n + 1, r1)" "up r1"
    "live (view r1) = live ((view r)(?k \<mapsto> (int_str (n + 1), Some e)))"
    using incr_view [of r t ?k n "Some e" 1] by auto
  have "rated ?k (n + 1) e r1" using 1 assms(1,3) by (simp add: rated_def)
  with 1(1) assms(2,3) show ?thesis by (intro that) (simp_all add: check_alertmanager_def Let_def)
qed

lemma rate_run:
  assumes "rated (rate_key ip w) n e r" and "ip \<noteq> []" and "0 < n"
    and "\<forall>t\<in>set ts. t div WINDOW_SECONDS = w \<and> t < e"
  shows "check_all api ip ts (fb, r) = map (\<lambda>i. n + 1 + int i \<le> ALERTMANAGER_RATE_LIMIT) [0..<length ts]"
  using assms(1,3,4)
proof (induction ts arbitrary: n r)
  case (Cons t ts)
  have w: "t div WINDOW_SECONDS = w" and t: "t < e" using Cons.prems(3) by simp_all
  obtain r' where r': "check_alertmanager api t ip (fb, r) = (n + 1 \<le> ALERTMANAGER_RATE_LIMIT, fb, r')"
    "rated (rate_key ip w) (n + 1) e r'"
    using rate_next [of ip t n e r fb] Cons.prems(1,2) assms(2) t unfolding w by blast
  have "check_all api ip ts (fb, r') = map (\<lambda>i. n + 1 + 1 + int i \<le> ALERTMANAGER_RATE_LIMIT) [0..<length ts]"
    using Cons.prems by (intro Cons.IH [OF r'(2)]) simp_all
  with r'(1) show ?case by (simp add: map_upt_Suc add_ac del: upt_Suc)
qed simp

end

section \<open>Properties\<close>

text \<open>
  C20. What the webhook accepts is authentic: a request passes exactly when the secret is configured and
  the request carries the HMAC of what it says (of the timestamp and the body when it has a
  timestamp, which is then fresh; of the body alone only where that is allowed) and the signature
  was not used before; or when no secret is configured and running without one was chosen. A
  request refused for another reason than a replay leaves the caches as they were.
\<close>

theorem webhook_is_authentic:
  "(case verify_alertmanager_signature api can_connect hmac cfg now rq cache x of (res, y) \<Rightarrow>
     (res = Inr () \<longleftrightarrow>
       (case given (ALERTMANAGER_WEBHOOK_SECRET cfg) of
          None \<Rightarrow> ALERTMANAGER_ALLOW_UNAUTHENTICATED cfg
        | Some secret \<Rightarrow>
            \<exists>s payload. given (header rq ''X-Alertmanager-Signature'') = Some s \<and> bare_signature s = hmac secret payload \<and>
              (case given (header rq ''X-Alertmanager-Timestamp'') of
                 Some ts \<Rightarrow> is_timestamp_fresh (Some ts) (ALERTMANAGER_WEBHOOK_MAX_AGE_SECONDS cfg) now \<and>
                   payload = ts @ ''.'' @ rq_body rq
               | None \<Rightarrow> \<not> ALERTMANAGER_REQUIRE_SIGNED_TIMESTAMP cfg \<and> payload = rq_body rq) \<and>
              \<not> (0 < ALERTMANAGER_WEBHOOK_MAX_AGE_SECONDS cfg \<and>
                 fst (seen_recently api (am_shared_nonce cfg) can_connect MAX_ENTRIES (bare_signature s)
                   (ALERTMANAGER_WEBHOOK_MAX_AGE_SECONDS cfg) now cache x)))) \<and>
     (res \<noteq> Inr () \<and> res \<noteq> Inl ''Replayed AlertManager request'' \<longrightarrow> y = (cache, x)))"
proof (cases "given (ALERTMANAGER_WEBHOOK_SECRET cfg)")
  case (Some secret)
  show ?thesis
  proof (cases "check_hmac hmac cfg secret now rq")
    case (Inl e)
    with Some show ?thesis
      by (auto simp: verify_alertmanager_signature_def check_hmac_def signed_payload_def rbind_def
          split: option.splits if_splits)
  next
    case (Inr sig)
    with Some show ?thesis
      by (auto simp: verify_alertmanager_signature_def check_hmac_def signed_payload_def rbind_def Let_def
          split: option.splits if_splits prod.splits)
  qed
qed (simp add: verify_alertmanager_signature_def)

theorem webhook_is_authentic_witness:
  "let cfg = \<lparr>ALERTMANAGER_WEBHOOK_SECRET = Some ''k'', ALERTMANAGER_ALLOW_UNAUTHENTICATED = False,
       ALERTMANAGER_WEBHOOK_MAX_AGE_SECONDS = 300, ALERTMANAGER_REQUIRE_SIGNED_TIMESTAMP = False, am_shared_nonce = False\<rparr>;
     hmac = (\<lambda>k m. k @ m); rq = \<lparr>rq_headers = [(''x-alertmanager-signature'', ''sha256=kbody'')], rq_body = ''body''\<rparr>;
     x = (\<lparr>ns_connected = False, ns_unavailable_until = 0\<rparr>, [] :: kv)
   in fst (verify_alertmanager_signature kv_api True hmac cfg 100 rq [] x) = Inr ()"
proof -
  let ?cfg = "\<lparr>ALERTMANAGER_WEBHOOK_SECRET = Some ''k'', ALERTMANAGER_ALLOW_UNAUTHENTICATED = False,
       ALERTMANAGER_WEBHOOK_MAX_AGE_SECONDS = 300, ALERTMANAGER_REQUIRE_SIGNED_TIMESTAMP = False, am_shared_nonce = False\<rparr>"
  let ?rq = "\<lparr>rq_headers = [(''x-alertmanager-signature'', ''sha256=kbody'')], rq_body = ''body''\<rparr>"
  let ?x = "(\<lparr>ns_connected = False, ns_unavailable_until = 0\<rparr>, [] :: kv)"
  have "given (header ?rq ''X-Alertmanager-Signature'') = Some ''sha256=kbody''"
    "given (header ?rq ''X-Alertmanager-Timestamp'') = None" "bare_signature ''sha256=kbody'' = ''kbody''"
    by code_simp+
  with webhook_is_authentic [where api = kv_api and can_connect = True and hmac = "\<lambda>k m. k @ m" and cfg = ?cfg and now = 100
      and rq = ?rq and cache = "[]" and x = ?x] show ?thesis
    by (simp add: given_def seen_recently_def seen_locally_def Let_def split: prod.splits)
qed

text \<open>
  C19. A signature is good for one request in the whole deployment: with the shared store switched on
  and working, whichever replicas the requests reach, two accepted requests with the same
  signature lie at least the lifetime of a signature apart.
\<close>

theorem signature_used_once:
  assumes "redis api view up" and "up r" and "ready_stores stores lo" and "0 < ttl"
    and "sorted (map (\<lambda>(i, s, t). t) reqs)" and "\<forall>(i, s, t)\<in>set reqs. lo \<le> t"
    and "a < b" and "b < length reqs" and "reqs ! a = (i, sig, t)" and "reqs ! b = (i', sig, t')"
    and "\<not> serve api mx ttl reqs caches stores r ! a" and "\<not> serve api mx ttl reqs caches stores r ! b"
  shows "t + ttl \<le> t'"
  using redis.serve_once [OF assms] .

theorem signature_used_once_witness:
  "serve kv_api 4096 300 [(0, ''s'', 10), (1, ''s'', 20)] (\<lambda>_. []) (\<lambda>_. \<lparr>ns_connected = False, ns_unavailable_until = 0\<rparr>) [] ! 1"
proof (rule ccontr)
  let ?reqs = "[(0, ''s'', 10), (1, ''s'', 20)] :: (nat \<times> string \<times> int) list"
  let ?st = "\<lambda>_ :: nat. \<lparr>ns_connected = False, ns_unavailable_until = 0\<rparr>"
  assume b: "\<not> serve kv_api 4096 300 ?reqs (\<lambda>_. []) ?st [] ! 1"
  have a: "\<not> serve kv_api 4096 300 ?reqs (\<lambda>_. []) ?st [] ! 0"
    by (simp add: seen_recently_def seen_locally_def claim_nonce_def kv_api_def kv_set_def live_def Let_def split: prod.splits)
  have "(10 :: int) + 300 \<le> 20"
    by (rule signature_used_once [OF kv.redis_axioms, where a = 0 and b = 1 and lo = 0 and reqs = ?reqs, OF _ _ _ _ _ _ _ _ _ a b])
      (simp_all add: ready_stores_def)
  then show False by simp
qed

text \<open>
  The rate limit is exact while Redis works: of the requests of one address in one window, on a
  store that has not counted any, the first ten pass and all others are refused, whatever the
  counters of the process say.
\<close>

theorem rate_limit_exact:
  assumes "redis api view up" and "up r" and "ip \<noteq> []" and "\<And>t. live (view r) t (rate_key ip w) = None"
    and "\<forall>t\<in>set ts. t div WINDOW_SECONDS = w"
  shows "check_all api ip ts (fb, r) = map (\<lambda>i. i < 10) [0..<length ts]"
proof (cases ts)
  case (Cons t us)
  have w: "t div WINDOW_SECONDS = w" using assms(5) Cons by simp
  have "redis.rated view up (rate_key ip w) 0 0 r" using assms(1,2,4) by (simp add: redis.rated_def)
  then obtain r' where r': "check_alertmanager api t ip (fb, r) = (True, fb, r')"
    "redis.rated view up (rate_key ip w) 1 (t + (WINDOW_SECONDS + 10)) r'"
    using redis.rate_first [OF assms(1), of ip t 0 r fb] assms(3) unfolding w by blast
  have "u < t + (WINDOW_SECONDS + 10)" if "u \<in> set us" for u
  proof -
    have "u div 60 = t div 60" using assms(5) Cons that w by (simp add: WINDOW_SECONDS_def)
    then show ?thesis by (simp add: WINDOW_SECONDS_def)
  qed
  then have "check_all api ip us (fb, r') = map (\<lambda>i. 1 + 1 + int i \<le> ALERTMANAGER_RATE_LIMIT) [0..<length us]"
    using assms(5) Cons by (intro redis.rate_run [OF assms(1) r'(2) assms(3)]) simp_all
  with r'(1) show ?thesis
    by (auto simp: Cons map_upt_Suc ALERTMANAGER_RATE_LIMIT_def simp del: upt_Suc)
qed simp

theorem rate_limit_exact_witness:
  "check_all kv_api ''10.0.0.1'' [0, 1, 2, 3, 4, 5, 6, 7, 8, 9, 10, 59] ([], []) =
     [True, True, True, True, True, True, True, True, True, True, False, False]"
  using rate_limit_exact [OF kv.redis_axioms, where r = "[]" and ip = "''10.0.0.1''" and w = 0 and fb = "[]"
      and ts = "[0, 1, 2, 3, 4, 5, 6, 7, 8, 9, 10, 59]"]
  by (simp add: live_def WINDOW_SECONDS_def upt_rec)

end
