(* ===== verification/Ingest.thy ===== *)
theory Ingest
  imports Incident_Machine Namespaces Playbook
begin

text \<open>
  The webhook that starts the pipeline: \<open>alertmanager_webhook\<close> of \<open>app/api/webhooks.py\<close> with the payload of
  \<open>app/models/incident.py\<close> and the scope of \<open>app/workers/pipeline_scope.py\<close>. An alert is read, checked and
  planned against the row it finds, and the plan is then carried out on the table, which other
  requests may have changed in between. A task given to the queue is an entry of \<open>is_tasks\<close>; the
  context from TeamCity and the broker are parameters.
\<close>

section \<open>The payload\<close>

record AlertManagerAlert =
  al_status :: string
  al_status_extra :: pyval
  al_labels :: "(string \<times> string) list"
  al_annotations :: "(string \<times> string) list"
  al_startsAt :: string
  al_endsAt :: "string option"
  al_generatorURL :: "string option"
  al_fingerprint :: string

text \<open>A status that is an object becomes a word and is kept beside it; labels may say the same.\<close>

definition status_patch :: "pydict \<Rightarrow> pydict result" where
  "status_patch data =
     (case dget data ''status'' of
        PDict status \<Rightarrow>
          Inr [(''status_extra'', PDict status),
               (''status'', PStr (if dget status ''state'' = PStr ''resolved'' then ''resolved'' else ''firing''))]
      | _ \<Rightarrow>
          if dget data ''status_extra'' \<noteq> PNone then Inr []
          else (case dict_or_empty (dget data ''labels'') of
                  None \<Rightarrow> Inl AttributeError
                | Some labels \<Rightarrow>
                    (let sb = dget labels ''silenced_by''; ib = dget labels ''inhibited_by'' in
                     if truthy sb \<or> truthy ib
                     then Inr [(''status_extra'', PDict [(''state'', PStr ''suppressed''),
                                 (''silencedBy'', PList (if truthy sb then [sb] else [])),
                                 (''inhibitedBy'', PList (if truthy ib then [ib] else []))])]
                     else Inr [])))"

definition extract_status_extra :: "pyval \<Rightarrow> pyval result" where
  "extract_status_extra data =
     (case data of
        PDict d \<Rightarrow> rbind (status_patch d) (\<lambda>patch. Inr (if patch = [] then PDict d else PDict (merge_dict d patch)))
      | _ \<Rightarrow> Inr data)"

definition opt_dict_field :: "pydict \<Rightarrow> string \<Rightarrow> pyval result" where
  "opt_dict_field d k = (case dget d k of PNone \<Rightarrow> Inr PNone | PDict e \<Rightarrow> Inr (PDict e) | _ \<Rightarrow> Inl ValidationError)"

definition str_map :: "pydict \<Rightarrow> string \<Rightarrow> (string \<times> string) list result" where
  "str_map d k = (if has_key d k then p_map p_str (dget d k) else Inr [])"

definition p_alert :: "pyval \<Rightarrow> AlertManagerAlert result" where
  "p_alert raw =
     rbind (extract_status_extra raw) (\<lambda>data.
       case data of
         PDict d \<Rightarrow>
           rbind (p_str (dget d ''status'')) (\<lambda>status.
           rbind (opt_dict_field d ''status_extra'') (\<lambda>extra.
           rbind (str_map d ''labels'') (\<lambda>labels.
           rbind (str_map d ''annotations'') (\<lambda>annotations.
           rbind (p_str (dget d ''startsAt'')) (\<lambda>starts.
           rbind (opt_field p_str d ''endsAt'') (\<lambda>ends.
           rbind (opt_field p_str d ''generatorURL'') (\<lambda>gen.
           rbind (p_str (dget d ''fingerprint'')) (\<lambda>fp.
             Inr \<lparr>al_status = status, al_status_extra = extra, al_labels = labels, al_annotations = annotations,
                  al_startsAt = starts, al_endsAt = ends, al_generatorURL = gen, al_fingerprint = fp\<rparr>))))))))
       | _ \<Rightarrow> Inl ValidationError)"

section \<open>The incident\<close>

record Incident =
  in_incident_id :: string
  in_severity :: string
  in_status :: string
  in_summary :: string
  in_description :: string
  in_namespace :: "string option"
  in_labels :: "(string \<times> string) list"
  in_annotations :: "(string \<times> string) list"
  in_starts_at :: string
  in_ends_at :: "string option"
  in_generator_url :: "string option"
  in_raw :: pydict
  in_teamcity_context :: pyval
  in_flap_count :: int
  in_status_extra :: pyval
  in_batch_truncated_alerts :: int

definition str_dict :: "(string \<times> string) list \<Rightarrow> pyval" where
  "str_dict d = PDict (map (\<lambda>(k, v). (k, PStr v)) d)"

definition opt_str :: "string option \<Rightarrow> pyval" where
  "opt_str s = (case s of None \<Rightarrow> PNone | Some x \<Rightarrow> PStr x)"

definition get_or :: "(string \<times> string) list \<Rightarrow> string \<Rightarrow> string \<Rightarrow> string" where
  "get_or d k dflt = (case map_of d k of None \<Rightarrow> dflt | Some v \<Rightarrow> v)"

definition alert_dump :: "AlertManagerAlert \<Rightarrow> pydict" where
  "alert_dump a =
     [(''status'', PStr (al_status a)), (''status_extra'', al_status_extra a), (''labels'', str_dict (al_labels a)),
      (''annotations'', str_dict (al_annotations a)), (''startsAt'', PStr (al_startsAt a)),
      (''endsAt'', opt_str (al_endsAt a)), (''generatorURL'', opt_str (al_generatorURL a)),
      (''fingerprint'', PStr (al_fingerprint a))]"

definition from_alertmanager :: "AlertManagerAlert \<Rightarrow> int \<Rightarrow> Incident" where
  "from_alertmanager alert truncated =
     \<lparr>in_incident_id = al_fingerprint alert,
      in_severity = get_or (al_labels alert) ''severity'' ''unknown'',
      in_status = al_status alert,
      in_summary = get_or (al_annotations alert) ''summary'' (get_or (al_labels alert) ''alertname'' ''unknown alert''),
      in_description = get_or (al_annotations alert) ''description'' [],
      in_namespace = map_of (al_labels alert) ''namespace'',
      in_labels = al_labels alert, in_annotations = al_annotations alert,
      in_starts_at = al_startsAt alert, in_ends_at = al_endsAt alert, in_generator_url = al_generatorURL alert,
      in_raw = alert_dump alert, in_teamcity_context = PNone, in_flap_count = 0,
      in_status_extra = al_status_extra alert, in_batch_truncated_alerts = truncated\<rparr>"

definition incident_dump :: "Incident \<Rightarrow> pydict" where
  "incident_dump i =
     [(''incident_id'', PStr (in_incident_id i)), (''severity'', PStr (in_severity i)), (''status'', PStr (in_status i)),
      (''summary'', PStr (in_summary i)), (''description'', PStr (in_description i)),
      (''namespace'', opt_str (in_namespace i)), (''labels'', str_dict (in_labels i)),
      (''annotations'', str_dict (in_annotations i)), (''starts_at'', PStr (in_starts_at i)),
      (''ends_at'', opt_str (in_ends_at i)), (''generator_url'', opt_str (in_generator_url i)),
      (''raw'', PDict (in_raw i)), (''teamcity_context'', in_teamcity_context i),
      (''flap_count'', PInt (in_flap_count i)), (''status_extra'', in_status_extra i),
      (''batch_truncated_alerts'', PInt (in_batch_truncated_alerts i))]"

section \<open>Noise and labels\<close>

record ingest_env =
  ALERT_SUPPRESS_NAMES :: "string list"
  ALERT_SUPPRESS_NAMES_EXTRA :: string
  PIPELINE_SEVERITY_ALLOWLIST :: "string list"
  PIPELINE_NAMESPACE_PREFIXES :: "string list"
  PIPELINE_DIRECT_INVOKE :: bool
  teamcity :: "string option \<Rightarrow> string \<Rightarrow> pyval result"
  delay :: "pydict \<Rightarrow> string result"

fun uniq :: "string list \<Rightarrow> string list \<Rightarrow> string list" where
  "uniq seen [] = []"
| "uniq seen (x # xs) = (if x \<in> set seen then uniq seen xs else x # uniq (x # seen) xs)"

definition suppress_names :: "ingest_env \<Rightarrow> string list" where
  "suppress_names env =
     uniq [] (ALERT_SUPPRESS_NAMES env @
       filter (\<lambda>s. s \<noteq> []) (map strip (split_on (\<lambda>c. c = CHR '','') (ALERT_SUPPRESS_NAMES_EXTRA env))))"

definition alert_in_allowlist :: "string \<Rightarrow> string list \<Rightarrow> string option" where
  "alert_in_allowlist alertname patterns =
     (if alertname = [] then None else find (\<lambda>p. p \<noteq> [] \<and> contains alertname p) patterns)"

definition is_self_noise :: "AlertManagerAlert \<Rightarrow> bool" where
  "is_self_noise alert \<longleftrightarrow>
     lower (get_or (al_labels alert) ''severity'' []) = ''info'' \<and>
     lower (get_or (al_labels alert) ''service'' []) = ''monitoring''"

definition filter_suppressed :: "ingest_env \<Rightarrow> AlertManagerAlert list \<Rightarrow> AlertManagerAlert list \<times> nat" where
  "filter_suppressed env alerts =
     (let passed = filter (\<lambda>a. alert_in_allowlist (get_or (al_labels a) ''alertname'' []) (suppress_names env) = None \<and>
                               \<not> is_self_noise a) alerts
      in (passed, length alerts - length passed))"

text \<open>\<open>re.match\<close> of one class repeated between anchors; \<open>$\<close> also stands before a final newline.\<close>

definition all_chars :: "(char \<Rightarrow> bool) \<Rightarrow> string \<Rightarrow> bool" where
  "all_chars p s \<longleftrightarrow> (let t = takeWhile p s in t \<noteq> [] \<and> re_end (drop (length t) s))"

definition ns_char :: "char \<Rightarrow> bool" where
  "ns_char c \<longleftrightarrow> ch_az09 c \<or> c = CHR ''-''"

definition name_char :: "char \<Rightarrow> bool" where
  "name_char c \<longleftrightarrow> ch_az09 c \<or> ch_AZ c \<or> c \<in> set ''._-''"

definition instance_char :: "char \<Rightarrow> bool" where
  "instance_char c \<longleftrightarrow> name_char c \<or> c \<in> set '':/''"

definition label_value_ok :: "string \<Rightarrow> bool" where
  "label_value_ok v \<longleftrightarrow> v = [] \<or> (all_chars name_char v \<and> length (takeWhile name_char v) \<le> 253)"

text \<open>The reason of a 400, if any.\<close>

definition validate_alert_labels :: "AlertManagerAlert \<Rightarrow> string option" where
  "validate_alert_labels alert =
     (let get = (\<lambda>k. get_or (al_labels alert) k []) in
      if get ''alertname'' = [] then Some ''Missing alertname in labels''
      else if get ''namespace'' \<noteq> [] \<and> \<not> all_chars ns_char (get ''namespace'') then Some ''Invalid namespace format''
      else if get ''instance'' \<noteq> [] \<and> \<not> all_chars instance_char (get ''instance'') then Some ''Invalid instance format''
      else if \<not> label_value_ok (get ''service'') then Some ''Invalid service format''
      else if \<not> label_value_ok (get ''app'') then Some ''Invalid app format''
      else None)"

section \<open>The scope of the pipeline\<close>

definition word_field :: "pydict \<Rightarrow> string \<Rightarrow> string option" where
  "word_field d k = (case dget d k of PStr s \<Rightarrow> if strip s = [] then None else Some (strip s) | _ \<Rightarrow> None)"

definition direct_or_label :: "pydict \<Rightarrow> string \<Rightarrow> string option" where
  "direct_or_label data k =
     (case word_field data k of
        Some s \<Rightarrow> Some s
      | None \<Rightarrow> (case dget data ''labels'' of PDict labels \<Rightarrow> word_field labels k | _ \<Rightarrow> None))"

definition severity_of :: "pydict \<Rightarrow> string" where
  "severity_of data = (case direct_or_label data ''severity'' of Some s \<Rightarrow> lower s | None \<Rightarrow> ''unknown'')"

definition namespace_of :: "pydict \<Rightarrow> string" where
  "namespace_of data = (case direct_or_label data ''namespace'' of Some s \<Rightarrow> s | None \<Rightarrow> [])"

record ScopeVerdict =
  sc_in_scope :: bool
  sc_reason :: string
  sc_severity :: string
  sc_namespace :: string

definition allowed_severities :: "ingest_env \<Rightarrow> string list" where
  "allowed_severities env = map (\<lambda>s. lower (strip s)) (filter (\<lambda>s. strip s \<noteq> []) (PIPELINE_SEVERITY_ALLOWLIST env))"

definition allowed_prefixes :: "ingest_env \<Rightarrow> string list" where
  "allowed_prefixes env = map strip (filter (\<lambda>s. strip s \<noteq> []) (PIPELINE_NAMESPACE_PREFIXES env))"

definition check_scope :: "ingest_env \<Rightarrow> pydict \<Rightarrow> ScopeVerdict" where
  "check_scope env data =
     (let severity = severity_of data; namespace = namespace_of data;
          verdict = (\<lambda>ok reason. \<lparr>sc_in_scope = ok, sc_reason = reason, sc_severity = severity, sc_namespace = namespace\<rparr>)
      in if allowed_severities env \<noteq> [] \<and> severity \<notin> set (allowed_severities env)
         then verdict False ''severity_out_of_scope''
         else if allowed_prefixes env \<noteq> [] \<and> \<not> startswith_any namespace (allowed_prefixes env)
         then verdict False ''namespace_out_of_scope''
         else verdict True ''in_scope'')"

section \<open>From an alert to a plan\<close>

definition SKIP_STATES :: "IncidentState list" where
  "SKIP_STATES = [OPEN, INVESTIGATING, FACTS_COLLECTED, HYPOTHESIS_GENERATED, FIX_PROPOSED]"

definition status_in :: "incident_record \<Rightarrow> IncidentState list \<Rightarrow> bool" where
  "status_in rec states \<longleftrightarrow> ir_status rec \<in> Some ` set (map state_value states)"

text \<open>\<open>str(existing.status)\<close>\<close>

definition status_text :: "incident_record \<Rightarrow> string" where
  "status_text rec = (case ir_status rec of None \<Rightarrow> ''None'' | Some s \<Rightarrow> s)"

text \<open>
  What a request means to do after it has read the row: answer at once, record a resolve, insert a new
  row, or claim the row it saw in a given status.
\<close>

datatype plan =
    Answer pydict
  | Resolve incident_record
  | Insert Incident
  | Refire string Incident

definition answer :: "Incident \<Rightarrow> string \<Rightarrow> pydict \<Rightarrow> pydict" where
  "answer i task extra = [(''incident_id'', PStr (in_incident_id i)), (''task_id'', PStr task)] @ extra"

definition flap_count_of :: "incident_record \<Rightarrow> int result" where
  "flap_count_of rec =
     (case dict_or_empty (ir_data rec) of
        None \<Rightarrow> Inl AttributeError
      | Some d \<Rightarrow>
          if \<not> has_key d ''flap_count'' then Inr 0
          else (case dget d ''flap_count'' of PInt n \<Rightarrow> Inr n | PBool b \<Rightarrow> Inr (if b then 1 else 0) | _ \<Rightarrow> Inl TypeError))"

definition with_teamcity :: "ingest_env \<Rightarrow> Incident \<Rightarrow> Incident" where
  "with_teamcity env i =
     (case teamcity env (in_namespace i) (in_starts_at i) of
        Inl _ \<Rightarrow> i | Inr ctx \<Rightarrow> i\<lparr>in_teamcity_context := ctx\<rparr>)"

definition alert_plan :: "ingest_env \<Rightarrow> AlertManagerAlert \<Rightarrow> Incident \<Rightarrow> incident_record option \<Rightarrow> plan result" where
  "alert_plan env alert incident existing =
     (if al_status alert = ''resolved''
      then (case existing of
              None \<Rightarrow> Inr (Answer (answer incident ''resolved'' []))
            | Some rec \<Rightarrow>
                if status_in rec [RESOLVED, TRIAGE_REQUIRED, FAILED] then Inr (Answer (answer incident ''resolved'' []))
                else Inr (Resolve rec))
      else
        (let scope = check_scope env (incident_dump incident) in
         if \<not> sc_in_scope scope then Inr (Answer (answer incident ''out_of_scope'' [(''reason'', PStr (sc_reason scope))]))
         else (case existing of
                 None \<Rightarrow> Inr (Insert (with_teamcity env incident))
               | Some rec \<Rightarrow>
                   if status_in rec [RESOLVED, TRIAGE_REQUIRED]
                   then rbind (flap_count_of rec) (\<lambda>n.
                          Inr (Refire (status_text rec) (with_teamcity env (incident\<lparr>in_flap_count := n + 1\<rparr>))))
                   else if status_in rec SKIP_STATES
                   then Inr (Answer (answer incident ''deduplicated'' [(''status'', PStr (status_text rec))]))
                   else Inr (Refire (status_text rec) (with_teamcity env incident)))))"

section \<open>Carrying it out\<close>

record ingest_state =
  is_rows :: "incident_record list"
  is_seq :: int
  is_tasks :: "pydict list"

definition row_of :: "incident_record list \<Rightarrow> string \<Rightarrow> incident_record option" where
  "row_of rows iid = find (\<lambda>r. ir_incident_id r = Some iid) rows"

definition new_row :: "int \<Rightarrow> int \<Rightarrow> Incident \<Rightarrow> incident_record" where
  "new_row row_id now i =
     \<lparr>ir_row_id = row_id, ir_incident_id = Some (in_incident_id i), ir_status = Some (state_value OPEN),
      ir_data = PDict (incident_dump i), ir_analysis = PNone, ir_trace = PNone, ir_user_feedback = PNone,
      ir_is_accepted = None, ir_report_state = None, ir_report_attempts = None, ir_report_updated_at = None,
      ir_executor_state = None, ir_executor_claimed_at = None, ir_created_at = Some now\<rparr>"

text \<open>\<open>_claim_refire\<close>: one conditional update, and the number of rows it changed.\<close>

definition claims :: "string \<Rightarrow> string \<Rightarrow> incident_record \<Rightarrow> bool" where
  "claims incident_id expected_status r \<longleftrightarrow> ir_incident_id r = Some incident_id \<and> ir_status r = Some expected_status"

definition claim_refire :: "string \<Rightarrow> string \<Rightarrow> pydict \<Rightarrow> incident_record list \<Rightarrow> nat \<times> incident_record list" where
  "claim_refire incident_id expected_status new_data rows =
     (length (filter (claims incident_id expected_status) rows),
      map (\<lambda>r. if claims incident_id expected_status r
               then r\<lparr>ir_status := Some (state_value OPEN), ir_data := PDict new_data\<rparr> else r) rows)"

text \<open>Whether the request may start the pipeline, and the table afterwards.\<close>

fun commit :: "int \<Rightarrow> plan \<Rightarrow> ingest_state \<Rightarrow> bool \<times> ingest_state" where
  "commit now (Insert i) s =
     (if row_of (is_rows s) (in_incident_id i) \<noteq> None then (False, s\<lparr>is_seq := is_seq s + 1\<rparr>)
      else (True, s\<lparr>is_rows := is_rows s @ [new_row (is_seq s) now i], is_seq := is_seq s + 1\<rparr>))"
| "commit now (Refire expected i) s =
     (case claim_refire (in_incident_id i) expected (incident_dump i) (is_rows s) of
        (n, rows) \<Rightarrow> (n \<noteq> 0, s\<lparr>is_rows := rows\<rparr>))"
| "commit now (Answer d) s = (False, s)"
| "commit now (Resolve rec) s = (False, s)"

text \<open>A commit of the session writes only the columns of the object that differ from what it loaded.\<close>

definition write_changes :: "incident_record \<Rightarrow> incident_record \<Rightarrow> incident_record list \<Rightarrow> incident_record list" where
  "write_changes loaded rec =
     map (\<lambda>r. if ir_row_id r \<noteq> ir_row_id loaded then r
              else r\<lparr>ir_status := (if ir_status rec \<noteq> ir_status loaded then ir_status rec else ir_status r),
                     ir_data := (if ir_data rec \<noteq> ir_data loaded then ir_data rec else ir_data r)\<rparr>)"

definition SCOPE_APPROVED_KEY :: string where "SCOPE_APPROVED_KEY = ''_scope_approved''"

definition dispatch :: "ingest_env \<Rightarrow> Incident \<Rightarrow> ingest_state \<Rightarrow> pydict result \<times> ingest_state" where
  "dispatch env i s =
     (let payload = merge_dict (incident_dump i) [(SCOPE_APPROVED_KEY, PBool True)]; s1 = s\<lparr>is_tasks := is_tasks s @ [payload]\<rparr> in
      if PIPELINE_DIRECT_INVOKE env then (Inr (answer i ''direct'' []), s1)
      else (case delay env payload of
              Inl e \<Rightarrow> (Inl e, s)
            | Inr task \<Rightarrow> (Inr (answer i task []), s1)))"

text \<open>A plan on the table as it is now.\<close>

definition carry_out :: "ingest_env \<Rightarrow> int \<Rightarrow> string \<Rightarrow> Incident \<Rightarrow> plan \<Rightarrow> ingest_state \<Rightarrow> pydict result \<times> ingest_state" where
  "carry_out env now now_iso incident p s =
     (case p of
        Answer d \<Rightarrow> (Inr d, s)
      | Resolve rec \<Rightarrow>
          (let (rec1, result) = apply_resolve rec (status_text rec) (in_ends_at incident) now_iso in
           (Inr (answer incident result []), s\<lparr>is_rows := write_changes rec rec1 (is_rows s)\<rparr>))
      | Insert i \<Rightarrow>
          (case commit now p s of
             (True, s1) \<Rightarrow> dispatch env i s1 | (False, s1) \<Rightarrow> (Inr (answer i ''deduplicated'' []), s1))
      | Refire expected i \<Rightarrow>
          (case commit now p s of
             (True, s1) \<Rightarrow> dispatch env i s1 | (False, s1) \<Rightarrow> (Inr (answer i ''deduplicated'' []), s1)))"

text \<open>
  The session of a request gives out one object per row as long as something refers to it, and a query that
  finds the row again leaves the values of the object: nothing is expired by a commit, and the claim's update
  does not touch it. What the loop keeps alive is \<open>existing\<close> of the alert before.
\<close>

definition read_existing :: "incident_record option \<Rightarrow> incident_record list \<Rightarrow> string \<Rightarrow> incident_record option" where
  "read_existing held rows iid =
     (case row_of rows iid of
        None \<Rightarrow> None
      | Some r \<Rightarrow> (case held of
                     Some h \<Rightarrow> if ir_row_id h = ir_row_id r then Some h else Some r
                   | None \<Rightarrow> Some r))"

definition held_after :: "string \<Rightarrow> Incident \<Rightarrow> plan \<Rightarrow> incident_record option \<Rightarrow> incident_record option" where
  "held_after now_iso incident p existing =
     (case p of
        Resolve rec \<Rightarrow> Some (fst (apply_resolve rec (status_text rec) (in_ends_at incident) now_iso))
      | _ \<Rightarrow> existing)"

definition process_alert ::
  "ingest_env \<Rightarrow> int \<Rightarrow> string \<Rightarrow> int \<Rightarrow> AlertManagerAlert \<Rightarrow> incident_record option \<Rightarrow> ingest_state
    \<Rightarrow> pydict list result \<times> incident_record option \<times> ingest_state" where
  "process_alert env now now_iso truncated alert held s =
     (if validate_alert_labels alert \<noteq> None then (Inr [], held, s)
      else
        (let incident = from_alertmanager alert truncated;
             existing = read_existing held (is_rows s) (in_incident_id incident) in
         case alert_plan env alert incident existing of
           Inl e \<Rightarrow> (Inl e, existing, s)
         | Inr p \<Rightarrow>
             (case carry_out env now now_iso incident p s of
                (r, s1) \<Rightarrow> (rbind r (\<lambda>d. Inr [d]), held_after now_iso incident p existing, s1))))"

fun process_alerts ::
  "ingest_env \<Rightarrow> int \<Rightarrow> string \<Rightarrow> int \<Rightarrow> AlertManagerAlert list \<Rightarrow> incident_record option \<Rightarrow> ingest_state
    \<Rightarrow> pydict list result \<times> ingest_state" where
  "process_alerts env now now_iso truncated [] held s = (Inr [], s)"
| "process_alerts env now now_iso truncated (a # alerts) held s =
     (case process_alert env now now_iso truncated a held s of
        (Inl e, _, s1) \<Rightarrow> (Inl e, s1)
      | (Inr ds, held1, s1) \<Rightarrow>
          (case process_alerts env now now_iso truncated alerts held1 s1 of
             (r, s2) \<Rightarrow> (rbind r (\<lambda>rest. Inr (ds @ rest)), s2)))"

definition alertmanager_webhook ::
  "ingest_env \<Rightarrow> int \<Rightarrow> string \<Rightarrow> AlertManagerAlert list \<Rightarrow> int \<Rightarrow> ingest_state \<Rightarrow> pydict result \<times> ingest_state" where
  "alertmanager_webhook env now now_iso alerts truncated_alerts s =
     (let truncated = max 0 truncated_alerts in
      case process_alerts env now now_iso truncated (fst (filter_suppressed env alerts)) None s of
        (r, s1) \<Rightarrow>
          (rbind r (\<lambda>accepted. Inr [(''status'', PStr ''accepted''), (''alerts'', PList (map PDict accepted)),
             (''truncated_alerts'', PInt truncated)]), s1))"

section \<open>Lemmas\<close>

lemma state_value_inj: "state_value a = state_value b \<longleftrightarrow> a = b"
  by (cases a; cases b) simp_all

lemma row_of_Some: "row_of rows iid = Some r \<Longrightarrow> r \<in> set rows \<and> ir_incident_id r = Some iid"
  by (auto simp: row_of_def find_Some_iff)

lemma row_of_None: "row_of rows iid = None \<longleftrightarrow> (\<forall>r\<in>set rows. ir_incident_id r \<noteq> Some iid)"
  by (auto simp: row_of_def find_None_iff)

text \<open>A plan that may start the pipeline.\<close>

fun plan_incident :: "plan \<Rightarrow> Incident option" where
  "plan_incident (Insert i) = Some i"
| "plan_incident (Refire expected i) = Some i"
| "plan_incident _ = None"

lemma with_teamcity_id [simp]: "in_incident_id (with_teamcity env i) = in_incident_id i"
  by (simp add: with_teamcity_def split: sum.splits)

lemma alert_plan_id:
  assumes "alert_plan env a i existing = Inr p" and "plan_incident p = Some j"
  shows "in_incident_id j = in_incident_id i"
  using assms by (auto simp: alert_plan_def Let_def rbind_eq_Inr split: if_splits option.splits)

lemma alert_plan_not_open:
  assumes "alert_plan env a i existing = Inr (Refire expected j)"
  shows "expected \<noteq> state_value OPEN"
  using assms
  by (auto simp: alert_plan_def Let_def rbind_eq_Inr status_text_def status_in_def SKIP_STATES_def
      split: if_splits option.splits)

text \<open>The unique constraint of the column.\<close>

definition unique_ids :: "incident_record list \<Rightarrow> bool" where
  "unique_ids rows \<longleftrightarrow> (\<forall>iid. length (filter (\<lambda>r. ir_incident_id r = Some iid) rows) \<le> 1)"

lemma unique_row:
  assumes "unique_ids rows" and "r \<in> set rows" "r' \<in> set rows"
    and "ir_incident_id r = Some iid" "ir_incident_id r' = Some iid"
  shows "r = r'"
proof -
  let ?f = "filter (\<lambda>r. ir_incident_id r = Some iid) rows"
  have "length ?f \<le> 1" using assms(1) by (simp add: unique_ids_def)
  then have "?f = [] \<or> (\<exists>x. ?f = [x])" by (cases ?f) auto
  moreover have "r \<in> set ?f" "r' \<in> set ?f" using assms(2-5) by auto
  ultimately show ?thesis by (metis empty_iff insert_iff list.set)
qed

lemma unique_row_of:
  assumes "unique_ids rows" and "r \<in> set rows" and "ir_incident_id r = Some iid"
  shows "row_of rows iid = Some r"
  using assms unique_row [OF assms(1)] row_of_Some [of rows iid] row_of_None [of rows iid]
  by (cases "row_of rows iid") auto

lemma unique_ids_map:
  assumes "\<And>r. ir_incident_id (f r) = ir_incident_id r"
  shows "unique_ids (map f rows) \<longleftrightarrow> unique_ids rows"
  using assms by (simp add: unique_ids_def filter_map comp_def)

lemma claim_refire_won:
  assumes "unique_ids rows" and "claim_refire iid expected d rows = (n, rows')" and "n \<noteq> 0"
  obtains r where "row_of rows iid = Some r" "ir_status r = Some expected"
    "row_of rows' iid = Some (r\<lparr>ir_status := Some (state_value OPEN), ir_data := PDict d\<rparr>)" "unique_ids rows'"
proof -
  let ?f = "\<lambda>r. if claims iid expected r then r\<lparr>ir_status := Some (state_value OPEN), ir_data := PDict d\<rparr> else r"
  have rows': "rows' = map ?f rows" using assms(2) by (auto simp: claim_refire_def)
  have u: "unique_ids rows'" using assms(1) unfolding rows' by (subst unique_ids_map) auto
  from assms(2,3) obtain r where r: "r \<in> set rows" "claims iid expected r"
    by (auto simp: claim_refire_def filter_empty_conv)
  then have "ir_incident_id r = Some iid" "ir_status r = Some expected" by (simp_all add: claims_def)
  moreover have "row_of rows' iid = Some (?f r)"
    using r by (intro unique_row_of [OF u]) (auto simp: rows' claims_def)
  ultimately show ?thesis using r assms(1) u by (intro that) (simp_all add: unique_row_of)
qed

lemma commit_won:
  assumes "unique_ids (is_rows s)" and "commit now p s = (True, s')" and "plan_incident p = Some j"
  obtains r where "row_of (is_rows s') (in_incident_id j) = Some r" "ir_status r = Some (state_value OPEN)"
    "ir_data r = PDict (incident_dump j)" "unique_ids (is_rows s')"
proof (cases p)
  case (Insert i)
  with assms(2,3) have j: "i = j" and n: "row_of (is_rows s) (in_incident_id j) = None"
    and s': "is_rows s' = is_rows s @ [new_row (is_seq s) now j]" by (auto split: if_splits)
  from n assms(1) have u: "unique_ids (is_rows s')"
    by (auto simp: unique_ids_def s' new_row_def row_of_None filter_empty_conv)
  have "row_of (is_rows s') (in_incident_id j) = Some (new_row (is_seq s) now j)"
    by (rule unique_row_of [OF u]) (simp_all add: s' new_row_def)
  then show ?thesis by (rule that [OF _ _ _ u]) (simp_all add: new_row_def)
next
  case (Refire expected i)
  with assms(2,3) obtain n where j: "i = j" and c: "claim_refire (in_incident_id j) expected (incident_dump j) (is_rows s) = (n, is_rows s')"
    "n \<noteq> 0" by (auto split: prod.splits)
  from c(1) have c1: "claim_refire (in_incident_id j) expected (incident_dump j) (is_rows s) = (n, is_rows s')" .
  obtain r where r: "row_of (is_rows s') (in_incident_id j) = Some (r\<lparr>ir_status := Some (state_value OPEN), ir_data := PDict (incident_dump j)\<rparr>)"
    "unique_ids (is_rows s')"
    using claim_refire_won [OF assms(1) c1 c(2)] by metis
  from r(1) show ?thesis by (rule that [OF _ _ _ r(2)]) simp_all
qed (use assms in simp_all)

lemma commit_was_not_open:
  assumes "unique_ids (is_rows s)" and "commit now p s = (True, s')" and "plan_incident p = Some j"
    and "\<And>expected i. p = Refire expected i \<Longrightarrow> expected \<noteq> state_value OPEN"
    and "r \<in> set (is_rows s)" and "ir_incident_id r = Some (in_incident_id j)"
  shows "ir_status r \<noteq> Some (state_value OPEN)"
proof (cases p)
  case (Insert i)
  with assms show ?thesis by (auto simp: row_of_None split: if_splits)
next
  case (Refire expected i)
  with assms(2,3) obtain n where c: "claim_refire (in_incident_id j) expected (incident_dump j) (is_rows s) = (n, is_rows s')"
    "n \<noteq> 0" by (auto split: prod.splits)
  from claim_refire_won [OF assms(1) this] obtain r' where "row_of (is_rows s) (in_incident_id j) = Some r'" "ir_status r' = Some expected" .
  with unique_row_of [OF assms(1,5,6)] assms(4) Refire show ?thesis by auto
qed (use assms in simp_all)

lemma open_row_refuses:
  assumes "unique_ids (is_rows s)" and "row_of (is_rows s) iid = Some r" and "ir_status r = Some (state_value OPEN)"
    and "alert_plan env a i existing = Inr p" and "in_incident_id i = iid"
  shows "\<not> fst (commit now p s)"
proof (cases p)
  case (Insert j)
  with alert_plan_id [OF assms(4)] assms(2,5) show ?thesis by simp
next
  case (Refire expected j)
  with alert_plan_id [OF assms(4)] assms(5) have j: "in_incident_id j = iid" by simp
  have e: "expected \<noteq> state_value OPEN" using alert_plan_not_open assms(4) Refire by blast
  have "\<not> claims iid expected r'" if "r' \<in> set (is_rows s)" for r'
    using unique_row_of [OF assms(1) that] assms(2,3) e by (auto simp: claims_def)
  then have "filter (claims iid expected) (is_rows s) = []" by (simp add: filter_empty_conv)
  with Refire j show ?thesis by (simp add: claim_refire_def)
qed simp_all

section \<open>Properties\<close>

text \<open>
  C18. One start of the pipeline per opening of an incident, however many webhooks deliver the same alert
  at once: a request starts the pipeline only by taking the row from another status, or from not
  being there, to \<open>OPEN\<close>; afterwards, as long as the row is \<open>OPEN\<close>, no request for the incident can,
  whatever it read before and under whatever settings.
\<close>

theorem one_start_per_opening:
  assumes "unique_ids (is_rows s)" and "alert_plan env a i existing = Inr p" and "plan_incident p = Some j"
    and "commit now p s = (True, s')"
  shows "(\<forall>r\<in>set (is_rows s). ir_incident_id r = Some (in_incident_id i) \<longrightarrow> ir_status r \<noteq> Some (state_value OPEN)) \<and>
    (\<exists>r. row_of (is_rows s') (in_incident_id i) = Some r \<and> ir_status r = Some (state_value OPEN) \<and>
       ir_data r = PDict (incident_dump j)) \<and>
    (\<forall>env' a' i' existing' p' now'. alert_plan env' a' i' existing' = Inr p' \<and> in_incident_id i' = in_incident_id i \<longrightarrow>
       \<not> fst (commit now' p' s'))"
proof -
  have j: "in_incident_id j = in_incident_id i" by (rule alert_plan_id [OF assms(2,3)])
  obtain r where r: "row_of (is_rows s') (in_incident_id j) = Some r" "ir_status r = Some (state_value OPEN)"
    "ir_data r = PDict (incident_dump j)" "unique_ids (is_rows s')"
    using assms(1,4,3) by (rule commit_won)
  have ne: "expected \<noteq> state_value OPEN" if "p = Refire expected k" for expected k
    using assms(2) that alert_plan_not_open by blast
  have "ir_status x \<noteq> Some (state_value OPEN)" if "x \<in> set (is_rows s)" "ir_incident_id x = Some (in_incident_id i)" for x
    using commit_was_not_open [OF assms(1,4,3) ne that(1)] that(2) j by auto
  with r j open_row_refuses [OF r(4,1,2)] show ?thesis by auto
qed

text \<open>
  C24. What a repeated alert does to an incident in progress: a firing alert in scope leaves a row that is
  open, under investigation, with facts, with a hypothesis or with a proposed fix alone. In every other
  status, \<open>APPROVAL_PENDING\<close> and \<open>EXECUTING\<close> among them, it sets the row back to \<open>OPEN\<close> and starts the
  pipeline again, past the state machine; the stored analysis stays. The row is read as it is in the table,
  which it is unless the alert just before it in the same payload was of the same incident, and the broker takes the task.
\<close>

theorem refire_restarts:
  assumes "validate_alert_labels a = None" and "al_status a \<noteq> ''resolved''"
    and "sc_in_scope (check_scope env (incident_dump (from_alertmanager a trunc)))"
    and "unique_ids (is_rows s)" and "row_of (is_rows s) (al_fingerprint a) = Some r"
    and "read_existing held (is_rows s) (al_fingerprint a) = Some r"
    and "ir_status r = Some (state_value st)" and "flap_count_of r = Inr n" and "\<And>d. \<exists>task. delay env d = Inr task"
    and "process_alert env now now_iso trunc a held s = (res, held', s')"
  shows "if st \<in> {OPEN, INVESTIGATING, FACTS_COLLECTED, HYPOTHESIS_GENERATED, FIX_PROPOSED} then s' = s
    else length (is_tasks s') = Suc (length (is_tasks s)) \<and>
      (\<exists>r'. row_of (is_rows s') (al_fingerprint a) = Some r' \<and> ir_status r' = Some (state_value OPEN) \<and>
         ir_analysis r' = ir_analysis r)"
proof -
  let ?i = "from_alertmanager a trunc"
  have id: "in_incident_id ?i = al_fingerprint a" by (simp add: from_alertmanager_def)
  have st: "status_in r S \<longleftrightarrow> st \<in> set S" for S
    using assms(7) by (auto simp: status_in_def state_value_inj)
  have name: "status_text r = state_value st" using assms(7) by (simp add: status_text_def)
  show ?thesis
  proof (cases "st \<in> {OPEN, INVESTIGATING, FACTS_COLLECTED, HYPOTHESIS_GENERATED, FIX_PROPOSED}")
    case True
    then have "alert_plan env a ?i (Some r) = Inr (Answer (answer ?i ''deduplicated'' [(''status'', PStr (status_text r))]))"
      using assms(2,3) by (auto simp: alert_plan_def st SKIP_STATES_def)
    with True assms(1,6,10) id show ?thesis by (simp add: process_alert_def carry_out_def Let_def)
  next
    case False
    let ?j = "with_teamcity env (if st \<in> {RESOLVED, TRIAGE_REQUIRED} then ?i\<lparr>in_flap_count := n + 1\<rparr> else ?i)"
    obtain j where jj: "j = ?j" by blast
    have p: "alert_plan env a ?i (Some r) = Inr (Refire (state_value st) j)"
      using False assms(2,3,8) unfolding jj by (simp add: alert_plan_def st name SKIP_STATES_def)
    have j: "in_incident_id j = al_fingerprint a" using id unfolding jj by simp
    let ?d = "incident_dump j"
    obtain m rows where c: "claim_refire (al_fingerprint a) (state_value st) ?d (is_rows s) = (m, rows)" by fastforce
    have "r \<in> set (filter (claims (al_fingerprint a) (state_value st)) (is_rows s))"
      using row_of_Some [OF assms(5)] assms(7) by (simp add: claims_def)
    then have m: "m \<noteq> 0" using c by (auto simp: claim_refire_def filter_empty_conv)
    have "row_of rows (al_fingerprint a) = Some (r\<lparr>ir_status := Some (state_value OPEN), ir_data := PDict ?d\<rparr>)"
      using claim_refire_won [OF assms(4) c m] assms(5) by (metis option.inject)
    moreover have "is_rows s' = rows \<and> length (is_tasks s') = Suc (length (is_tasks s))"
    proof -
      obtain task where "delay env (merge_dict ?d [(SCOPE_APPROVED_KEY, PBool True)]) = Inr task" using assms(9) by blast
      with assms(1,6,10) id p j c m show ?thesis
        by (cases "PIPELINE_DIRECT_INVOKE env") (auto simp: process_alert_def carry_out_def dispatch_def Let_def)
    qed
    ultimately show ?thesis using False by simp
  qed
qed

section \<open>Witnesses\<close>

definition sample_alert :: AlertManagerAlert where
  "sample_alert = \<lparr>al_status = ''firing'', al_status_extra = PNone,
     al_labels = [(''alertname'', ''KubePodCrashLooping''), (''severity'', ''critical''), (''namespace'', ''prod-1'')],
     al_annotations = [], al_startsAt = ''t'', al_endsAt = None, al_generatorURL = None, al_fingerprint = ''f1''\<rparr>"

definition sample_ingest :: ingest_env where
  "sample_ingest = \<lparr>ALERT_SUPPRESS_NAMES = [''Watchdog''], ALERT_SUPPRESS_NAMES_EXTRA = [],
     PIPELINE_SEVERITY_ALLOWLIST = [''critical''], PIPELINE_NAMESPACE_PREFIXES = [''prod-''], PIPELINE_DIRECT_INVOKE = False,
     teamcity = (\<lambda>_ _. Inr PNone), delay = (\<lambda>_. Inr ''task-1'')\<rparr>"

theorem one_start_per_opening_witness:
  "\<exists>j s'. commit 0 (Insert j) \<lparr>is_rows = [], is_seq = 1, is_tasks = []\<rparr> = (True, s') \<and> in_incident_id j = ''f1'' \<and>
     (\<forall>p. alert_plan sample_ingest sample_alert (from_alertmanager sample_alert 0) (row_of (is_rows s') ''f1'') = Inr p \<longrightarrow>
        \<not> fst (commit 5 p s'))"
proof -
  let ?i = "from_alertmanager sample_alert 0" and ?s = "\<lparr>is_rows = [], is_seq = 1, is_tasks = []\<rparr>"
  let ?j = "with_teamcity sample_ingest ?i"
  have sc: "sc_in_scope (check_scope sample_ingest (incident_dump ?i))" by code_simp
  have id: "in_incident_id ?i = ''f1''" by (simp add: from_alertmanager_def sample_alert_def)
  have p: "alert_plan sample_ingest sample_alert ?i None = Inr (Insert ?j)"
    using sc by (simp add: alert_plan_def sample_alert_def Let_def)
  obtain s' where s': "commit 0 (Insert ?j) ?s = (True, s')" by (simp add: row_of_def)
  have "unique_ids (is_rows ?s)" by (simp add: unique_ids_def)
  from one_start_per_opening [OF this p _ s'] have "\<not> fst (commit 5 q s')"
    if "alert_plan sample_ingest sample_alert ?i (row_of (is_rows s') ''f1'') = Inr q" for q
    using that by simp
  with s' id show ?thesis by (intro exI [of _ ?j] exI [of _ s']) simp
qed

theorem refire_restarts_witness:
  "let row = row0\<lparr>ir_incident_id := Some ''f1'', ir_status := Some ''EXECUTING''\<rparr>;
     s' = snd (snd (process_alert sample_ingest 0 ''t'' 0 sample_alert None \<lparr>is_rows = [row], is_seq = 2, is_tasks = []\<rparr>))
   in length (is_tasks s') = 1 \<and> (\<exists>r. row_of (is_rows s') ''f1'' = Some r \<and> ir_status r = Some ''OPEN'')"
proof -
  let ?row = "row0\<lparr>ir_incident_id := Some ''f1'', ir_status := Some ''EXECUTING''\<rparr>"
  let ?s = "\<lparr>is_rows = [?row], is_seq = 2, is_tasks = []\<rparr>"
  obtain res held s' where p: "process_alert sample_ingest 0 ''t'' 0 sample_alert None ?s = (res, held, s')"
    by (metis prod_cases3)
  have "validate_alert_labels sample_alert = None" "sc_in_scope (check_scope sample_ingest (incident_dump (from_alertmanager sample_alert 0)))"
    by code_simp+
  then have "if EXECUTING \<in> {OPEN, INVESTIGATING, FACTS_COLLECTED, HYPOTHESIS_GENERATED, FIX_PROPOSED} then s' = ?s
    else length (is_tasks s') = Suc (length (is_tasks ?s)) \<and>
      (\<exists>r'. row_of (is_rows s') (al_fingerprint sample_alert) = Some r' \<and> ir_status r' = Some (state_value OPEN) \<and>
         ir_analysis r' = ir_analysis ?row)"
    by (intro refire_restarts [OF _ _ _ _ _ _ _ _ _ p, where n = 0])
      (simp_all add: sample_alert_def unique_ids_def read_existing_def row_of_def flap_count_of_def row0_def dict_or_empty_def has_key_def sample_ingest_def)
  then have "length (is_tasks s') = 1 \<and> (\<exists>r. row_of (is_rows s') ''f1'' = Some r \<and> ir_status r = Some ''OPEN'')"
    by (auto simp: sample_alert_def)
  with p show ?thesis by simp
qed

end
