(* ===== verification/Bridge.thy ===== *)
theory Bridge
  imports Apply_System Ingest
begin

text \<open>
  \<open>app/remediation/bridge.py\<close>: from an enriched alert to a card with a button, without the language model.
  The facts that come with the alert, the snapshot of the pods, the loaded registry, the diagnostic
  rules and the Discord client are parameters; \<open>kubectl\<close>, Redis, the clock and SHA-256 are those of the
  apply path. A function that raises returns \<open>Inl\<close>.
\<close>

section \<open>Context and settings\<close>

record pod_snapshot =
  sn_error :: "string option"
  sn_container_terminated :: pydict
  sn_text :: string
  sn_pod_events :: "pyval list"
  sn_unhealthy_pods :: "string list option"

record enriched =
  ec_incident :: Incident
  ec_service :: "string option"
  ec_pod_name :: "string option"
  ec_rule_facts :: "Fact list"

text \<open>
  The Russian words and the signs of the card are the fields of \<open>card_words\<close>: a \<open>char\<close> of the model is one byte.
\<close>

record card_words =
  cw_yes :: string
  cw_no :: string
  cw_tool :: string
  cw_dash :: string
  cw_matched :: string
  cw_command :: string
  cw_why :: string
  cw_bridge :: string
  cw_apply :: string
  cw_decline :: string
  cw_blocked :: string

record 'r bridge_env =
  bv_verify :: "'r verify_env"
  bv_k8s :: k8s_config
  bv_registry :: "string + (string \<times> Playbook) list"
  bv_binding :: bool
  bv_rules :: "diag_rule list"
  bv_kg :: "kg_tables option"
  REMEDIATION_BRIDGE_ENABLED :: bool
  EXECUTOR_ENABLED :: bool
  EXECUTOR_APPROVAL_ENABLED :: bool
  REMEDIATION_BRIDGE_DEDUP_SECONDS :: int
  EXECUTOR_DISPATCH :: string
  bv_queue_answers :: bool
  bv_post :: "pydict \<Rightarrow> pyval option result"
  bv_token :: string
  bv_words :: card_words

definition OUTCOME_PROPOSED :: string where "OUTCOME_PROPOSED = ''proposed''"
definition OUTCOME_BLOCKED :: string where "OUTCOME_BLOCKED = ''blocked''"
definition OUTCOME_DEDUPLICATED :: string where "OUTCOME_DEDUPLICATED = ''deduplicated''"
definition OUTCOME_EXECUTOR_DISABLED :: string where "OUTCOME_EXECUTOR_DISABLED = ''executor_disabled''"
definition OUTCOME_TARGET_UNAVAILABLE :: string where "OUTCOME_TARGET_UNAVAILABLE = ''target_unavailable''"
definition OUTCOME_TARGET_REINCARNATED :: string where "OUTCOME_TARGET_REINCARNATED = ''target_reincarnated''"
definition OUTCOME_DRY_RUN_FAILED :: string where "OUTCOME_DRY_RUN_FAILED = ''dry_run_failed''"
definition OUTCOME_POST_FAILED :: string where "OUTCOME_POST_FAILED = ''post_failed''"

text \<open>\<open>a or b\<close> on optional texts is \<open>str_or\<close>.\<close>

definition label_of :: "enriched \<Rightarrow> string \<Rightarrow> string option" where
  "label_of ctx k = map_of (in_labels (ec_incident ctx)) k"

definition namespace_of_ctx :: "enriched \<Rightarrow> string option" where
  "namespace_of_ctx ctx = str_or (in_namespace (ec_incident ctx)) (label_of ctx ''namespace'')"

definition nonempty :: "string option \<Rightarrow> string option" where
  "nonempty s = (case s of Some x \<Rightarrow> if x = [] then None else Some x | None \<Rightarrow> None)"

section \<open>Which alerts\<close>

definition candidate_alertnames :: "string + (string \<times> Playbook) list \<Rightarrow> string list option" where
  "candidate_alertnames registry =
     (case registry of
        Inl _ \<Rightarrow> None
      | Inr reg \<Rightarrow> Some (concat (map (\<lambda>(n, pb). if executable pb
            then (case ms_alertnames (pb_match pb) of None \<Rightarrow> [] | Some ns \<Rightarrow> ns) else []) reg)))"

definition wants_bridge :: "'r bridge_env \<Rightarrow> (string \<times> string) list \<Rightarrow> bool" where
  "wants_bridge env labels \<longleftrightarrow>
     REMEDIATION_BRIDGE_ENABLED env \<and>
     (case candidate_alertnames (bv_registry env) of
        None \<Rightarrow> False
      | Some names \<Rightarrow> (case map_of labels ''alertname'' of None \<Rightarrow> False | Some n \<Rightarrow> n \<in> set names))"

section \<open>Facts\<close>

definition snap_ok :: "pod_snapshot option \<Rightarrow> bool" where
  "snap_ok snap \<longleftrightarrow> (case snap of None \<Rightarrow> False | Some s \<Rightarrow> nonempty (sn_error s) = None)"

definition source_status :: "pod_snapshot option \<Rightarrow> pydict" where
  "source_status snap =
     (if snap_ok snap then []
      else (let reason = ''failed: '' @ (case Option.bind snap (\<lambda>s. nonempty (sn_error s)) of
                  Some e \<Rightarrow> e | None \<Rightarrow> ''k8s_facts_unavailable'')
            in map (\<lambda>f. (f, PStr reason)) [''k8s_pod_state'', ''logs_summary'', ''k8s_events'']))"

definition rule_ctx :: "enriched \<Rightarrow> pod_snapshot option \<Rightarrow> pydict" where
  "rule_ctx ctx snap =
     (let inc = ec_incident ctx in
      [(''incident'', PDict (incident_dump inc)), (''namespace'', opt_str (namespace_of_ctx ctx)),
       (''service'', opt_str (ec_service ctx)),
       (''pod'', opt_str (str_or (str_or (ec_pod_name ctx) (label_of ctx ''pod'')) (ec_service ctx))),
       (''alertname'', PStr (get_or (in_labels inc) ''alertname'' [])), (''description'', PStr (in_description inc)),
       (''k8s_pod_state'', PDict (case snap of None \<Rightarrow> [] | Some s \<Rightarrow> sn_container_terminated s)),
       (''logs_summary'', PStr (case snap of None \<Rightarrow> [] | Some s \<Rightarrow> sn_text s)),
       (''k8s_events'', PList (case snap of None \<Rightarrow> [] | Some s \<Rightarrow> sn_pod_events s)),
       (''source_status'', PDict (source_status snap))])"

definition CPU_PRESSURE_ALERTS :: "string list" where "CPU_PRESSURE_ALERTS = [''CPUThrottlingHigh'']"

text \<open>A fact as the two calls of the constructor give it; both are well formed.\<close>

definition signal_fact :: "string \<Rightarrow> bool \<Rightarrow> pyfloat \<Rightarrow> pydict \<Rightarrow> string option \<Rightarrow> string \<Rightarrow> string \<Rightarrow> Fact" where
  "signal_fact kind observed confidence evidence subject rule provenance =
     \<lparr>fc_kind = kind, fc_observed = observed, fc_confidence = confidence, fc_evidence = evidence,
      fc_subject = subject, fc_source_rule = Some rule,
      fc_verdict = verdict_value (if observed then FOUND else ABSENT), fc_epistemic = None,
      fc_provenance = Some provenance, fc_window_min = None, fc_data_age_min = None, fc_unknown_reason = None\<rparr>"

definition signal_facts :: "enriched \<Rightarrow> pod_snapshot option \<Rightarrow> Fact list \<Rightarrow> Fact list" where
  "signal_facts ctx snap existing =
     (let pod = nonempty (str_or (ec_pod_name ctx) (label_of ctx ''pod''));
          alertname = get_or (in_labels (ec_incident ctx)) ''alertname'' [];
          pressure = (if alertname \<in> set CPU_PRESSURE_ALERTS
            then [signal_fact ''resource_pressure'' True (FFin 9 (- 1))
                    [(''alertname'', PStr alertname), (''container'', opt_str (label_of ctx ''container''))]
                    (str_or (ec_pod_name ctx) (label_of ctx ''pod'')) ''AlertSignal'' ''alertmanager'']
            else []);
          calm = (case (pod, Option.bind snap sn_unhealthy_pods) of
            (Some p, Some unhealthy) \<Rightarrow>
              if snap_ok snap \<and> \<not> list_ex (\<lambda>f. fc_kind f = ''crashloop'') existing \<and> p \<notin> set unhealthy \<and>
                 (case snap of None \<Rightarrow> True | Some s \<Rightarrow> \<not> has_key (sn_container_terminated s) p)
              then [signal_fact ''crashloop'' False (FFin 8 (- 1)) [(''unhealthy_pods'', PInt (int (length unhealthy)))]
                      (Some p) ''K8sSnapshotHealth'' ''kubernetes'']
              else []
          | _ \<Rightarrow> [])
      in pressure @ calm)"

text \<open>A rule that raises is skipped.\<close>

definition pod_state_facts :: "'r bridge_env \<Rightarrow> enriched \<Rightarrow> pod_snapshot option \<Rightarrow> Fact list" where
  "pod_state_facts env ctx snap =
     (let ruled = concat (map (\<lambda>rule. case rule_run rule (rule_ctx ctx snap) of
            Inl _ \<Rightarrow> [] | Inr fs \<Rightarrow> List.map_filter id fs) (bv_rules env))
      in ruled @ signal_facts ctx snap (ec_rule_facts ctx @ ruled))"

text \<open>No snapshot is taken for an alert without a namespace; \<open>snap\<close> is what the cluster would answer.\<close>

definition collect_facts :: "'r bridge_env \<Rightarrow> enriched \<Rightarrow> pod_snapshot option \<Rightarrow> Fact list" where
  "collect_facts env ctx snap =
     ec_rule_facts ctx @ pod_state_facts env ctx (if nonempty (namespace_of_ctx ctx) = None then None else snap)"

section \<open>Plans\<close>

record Proposal =
  pr_playbook :: string
  pr_namespace :: string
  pr_resource_name :: string
  pr_tier :: NamespaceTier
  pr_mode :: PolicyMode
  pr_reasons :: "pydict list"
  pr_intent :: ExecutionIntent
  pr_snapshot :: pyval
  pr_target_ref :: pydict
  pr_classification :: "string option"
  pr_command_preview :: string
  pr_preconditions :: "pyval list"

definition live_target ::
  "'r bridge_env \<Rightarrow> int \<Rightarrow> ExecutionIntent \<Rightarrow> 'r kworld \<Rightarrow> TargetSnapshot result \<times> 'r kworld" where
  "live_target env now intent w =
     (let v = bv_verify env in
      snapshot_target (ve_api v) (ve_breaker v) (ve_kubectl v) (ve_sha v) (ve_json v) (seconds now)
        (isoformat (ve_time v) now) intent True w)"

definition replicas_of :: "TargetSnapshot \<Rightarrow> int option" where
  "replicas_of snap = (if ts_unknown snap then None else as_int (ts_replicas_desired snap))"

definition probe_current_replicas ::
  "'r bridge_env \<Rightarrow> int \<Rightarrow> ExecutionIntent \<Rightarrow> 'r kworld \<Rightarrow> int option result \<times> 'r kworld" where
  "probe_current_replicas env now intent w =
     (case live_target env now intent w of (r, w1) \<Rightarrow> (rbind r (\<lambda>snap. Inr (replicas_of snap)), w1))"

definition REPLICA_TEMPLATES :: "string list" where "REPLICA_TEMPLATES = [''replicas'', ''current_replicas'']"

definition wanted_templates :: "Playbook \<Rightarrow> string list" where
  "wanted_templates pb = concat (map (\<lambda>st. List.map_filter (\<lambda>(k, v). template_name v) (st_params st)) (plan_steps pb))"

definition describe_intent :: "string \<Rightarrow> string \<Rightarrow> string \<Rightarrow> pyval" where
  "describe_intent name namespace playbook =
     PDict [(''action'', PStr (action_value DESCRIBE_RESOURCE)), (''resource_type'', PStr ''deployment''),
       (''resource_name'', PStr name), (''namespace'', PStr namespace), (''playbook'', PStr playbook)]"

text \<open>
  A \<open>PlanRenderError\<close> drops the playbook, any other exception ends the planning: the inner sum
  carries the first.
\<close>

definition plan_context ::
  "'r bridge_env \<Rightarrow> int \<Rightarrow> Playbook \<Rightarrow> string \<Rightarrow> string \<Rightarrow> 'r kworld \<Rightarrow> (string + pydict) result \<times> 'r kworld" where
  "plan_context env now pb namespace name w =
     (let wanted = wanted_templates pb in
      if wanted = [] then (Inr (Inr []), w)
      else if \<not> set wanted \<subseteq> set REPLICA_TEMPLATES then (Inr (Inl ''bridge cannot fill templates''), w)
      else (case model_validate (describe_intent name namespace (pb_name pb)) of
              Inl e \<Rightarrow> (Inl e, w)
            | Inr probe \<Rightarrow>
                (case probe_current_replicas env now probe w of
                   (r, w1) \<Rightarrow>
                     (rbind r (\<lambda>current. case current of
                        None \<Rightarrow> Inr (Inl ''live replicas unknown or zero'')
                      | Some n \<Rightarrow>
                          if n < 1 then Inr (Inl ''live replicas unknown or zero'')
                          else Inr (Inr [(''current_replicas'', PInt n), (''replicas'', PInt (n + 1))])), w1))))"

definition target_name :: "enriched \<Rightarrow> string option" where
  "target_name ctx = nonempty (str_or (label_of ctx ''deployment'') (ec_service ctx))"

definition classify_alert :: "(string \<times> string) list \<Rightarrow> string option" where
  "classify_alert labels =
     (case rbind (resolve_target [(''labels'', str_dict labels)] [] None) (\<lambda>t. classify (target_to_dict t) []) of
        Inl _ \<Rightarrow> None
      | Inr r \<Rightarrow> if cr_classification r = CL_UNKNOWN then None else Some (classification_value (cr_classification r)))"

text \<open>The probe runs only when the plan waits for a server parameter; a probe that raises knows nothing.\<close>

definition bind_live ::
  "'r bridge_env \<Rightarrow> int \<Rightarrow> ExecutionIntent \<Rightarrow> pydict \<Rightarrow> pyval \<Rightarrow> 'r kworld \<Rightarrow> (ExecutionIntent \<times> pyval) \<times> 'r kworld" where
  "bind_live env now intent entry snapshot w =
     (let sha = ve_sha (bv_verify env) in
      if server_param_keys entry (action_value (ei_action intent)) = []
      then (bind_server_params sha (\<lambda>_. None) intent snapshot, w)
      else (case probe_current_replicas env now intent w of
              (r, w1) \<Rightarrow> (bind_server_params sha (\<lambda>_. case r of Inl _ \<Rightarrow> None | Inr n \<Rightarrow> n) intent snapshot, w1)))"

definition mutating_intents :: "(ExecutionIntent \<times> string list) list \<Rightarrow> ExecutionIntent list" where
  "mutating_intents rendered = filter (\<lambda>i. is_mutating (ei_action i) = Inr True) (map fst rendered)"

definition propose_plan ::
  "'r bridge_env \<Rightarrow> enriched \<Rightarrow> string \<Rightarrow> string \<Rightarrow> Playbook \<Rightarrow> pydict \<Rightarrow> ExecutionIntent \<times> pyval \<Rightarrow> Proposal result" where
  "propose_plan env ctx namespace name pb entry bound =
     (case bound of (intent, snapshot) \<Rightarrow>
        rbind (evaluate_intent_gate (ve_sha (bv_verify env)) (bv_binding env) (bv_registry env) intent snapshot True) (\<lambda>decision.
        rbind (resolve_target [(''labels'', str_dict (in_labels (ec_incident ctx)))]
                 [(''target'', PDict [(''kind'', PStr ''Deployment''), (''namespace'', PStr namespace), (''name'', PStr name)])]
                 (bv_kg env)) (\<lambda>target.
        rbind (classify_namespace (PStr namespace)) (\<lambda>tier.
        rbind (to_argv intent) (\<lambda>argv.
          Inr \<lparr>pr_playbook = pb_name pb, pr_namespace = namespace, pr_resource_name = name, pr_tier = tier,
               pr_mode = pd_mode decision, pr_reasons = pd_reasons decision, pr_intent = intent, pr_snapshot = snapshot,
               pr_target_ref = target_to_dict target, pr_classification = classify_alert (in_labels (ec_incident ctx)),
               pr_command_preview = join '' '' argv, pr_preconditions = list_of (dget entry ''preconditions'')\<rparr>)))))"

definition plan_one ::
  "'r bridge_env \<Rightarrow> int \<Rightarrow> enriched \<Rightarrow> Fact list \<Rightarrow> string \<Rightarrow> string \<Rightarrow> Playbook \<Rightarrow> 'r kworld \<Rightarrow> Proposal option result \<times> 'r kworld" where
  "plan_one env now ctx facts namespace name pb w =
     (case plan_context env now pb namespace name w of
        (Inl e, w1) \<Rightarrow> (Inl e, w1)
      | (Inr (Inl _), w1) \<Rightarrow> (Inr None, w1)
      | (Inr (Inr plan_ctx), w1) \<Rightarrow>
          (case render_plan pb namespace name plan_ctx of
             Inl (ValueError _) \<Rightarrow> (Inr None, w1)
           | Inl e \<Rightarrow> (Inl e, w1)
           | Inr rendered \<Rightarrow>
               (case mutating_intents rendered of
                  [] \<Rightarrow> (Inr None, w1)
                | first # _ \<Rightarrow>
                    (let labels = in_labels (ec_incident ctx);
                         snapshot = PDict (build_match_snapshot (ve_sha (bv_verify env)) [pb] (Some facts) namespace
                           (map_of labels ''alertname'') (classify_alert labels) (isoformat (ve_time (bv_verify env)) now))
                     in case find_entry snapshot (Some (pb_name pb)) of
                          None \<Rightarrow> (Inr None, w1)
                        | Some entry \<Rightarrow>
                            (case bind_live env now (first\<lparr>ei_playbook_match := as_str (dget entry ''binding'')\<rparr>) entry snapshot w1 of
                               (bound, w2) \<Rightarrow>
                                 (rbind (propose_plan env ctx namespace name pb entry bound) (\<lambda>p. Inr (Some p)), w2))))))"

fun plan_all ::
  "'r bridge_env \<Rightarrow> int \<Rightarrow> enriched \<Rightarrow> Fact list \<Rightarrow> string \<Rightarrow> string \<Rightarrow> Playbook list \<Rightarrow> 'r kworld \<Rightarrow> Proposal list result \<times> 'r kworld" where
  "plan_all env now ctx facts namespace name [] w = (Inr [], w)"
| "plan_all env now ctx facts namespace name (pb # pbs) w =
     (case plan_one env now ctx facts namespace name pb w of
        (Inl e, w1) \<Rightarrow> (Inl e, w1)
      | (Inr p, w1) \<Rightarrow>
          (case plan_all env now ctx facts namespace name pbs w1 of
             (r, w2) \<Rightarrow> (rbind r (\<lambda>ps. Inr (case p of None \<Rightarrow> ps | Some x \<Rightarrow> x # ps)), w2)))"

definition plan_proposals ::
  "'r bridge_env \<Rightarrow> int \<Rightarrow> enriched \<Rightarrow> Fact list \<Rightarrow> 'r kworld \<Rightarrow> Proposal list result \<times> 'r kworld" where
  "plan_proposals env now ctx facts w =
     (case (nonempty (namespace_of_ctx ctx), target_name ctx, bv_registry env) of
        (Some namespace, Some name, Inr registry) \<Rightarrow>
          plan_all env now ctx facts namespace name
            (match_playbooks registry (label_of ctx ''alertname'') (classify_alert (in_labels (ec_incident ctx))) (Some facts)) w
      | _ \<Rightarrow> (Inr [], w))"

section \<open>One card per target and window\<close>

definition dedup_key :: "(string \<Rightarrow> string) \<Rightarrow> string \<Rightarrow> string \<Rightarrow> pyval \<Rightarrow> string" where
  "dedup_key sha playbook uid incarnation =
     take 24 (sha (playbook @ ''|'' @ uid @ ''|'' @ (if incarnation \<noteq> PNone then py_str incarnation else ''-'')))"

definition DEDUP_PREFIX :: string where "DEDUP_PREFIX = ''copilot:remediation_bridge:''"
definition IDEM_PREFIX :: string where "IDEM_PREFIX = ''bridge:''"
definition BLOCK_IDEM_PREFIX :: string where "BLOCK_IDEM_PREFIX = ''bridge-block:''"

definition window_seconds :: "'r bridge_env \<Rightarrow> int" where
  "window_seconds env = max 1 (REMEDIATION_BRIDGE_DEDUP_SECONDS env)"

definition recent_decision_exists :: "'r bridge_env \<Rightarrow> int \<Rightarrow> remediation_db \<Rightarrow> string \<Rightarrow> bool" where
  "recent_decision_exists env now db key =
     list_ex (\<lambda>d. rd_idempotency_key d = IDEM_PREFIX @ key \<and> now - window_seconds env * 1000000 \<le> rd_created_at d)
       (db_decisions db)"

definition claim_proposal ::
  "'r bridge_env \<Rightarrow> int \<Rightarrow> remediation_db \<Rightarrow> string \<Rightarrow> 'r kworld \<Rightarrow> bool \<times> 'r kworld" where
  "claim_proposal env now db key w =
     (let fallback = (\<not> recent_decision_exists env now db key, w) in
      case kw_redis w of
        None \<Rightarrow> fallback
      | Some r \<Rightarrow>
          (case r_set (ve_api (bv_verify env)) r (seconds now) (DEDUP_PREFIX @ key) ''1'' (window_seconds env) True of
             None \<Rightarrow> fallback
           | Some (won, r1) \<Rightarrow> (won, w\<lparr>kw_redis := Some r1\<rparr>)))"

definition release_proposal :: "'r bridge_env \<Rightarrow> int \<Rightarrow> string \<Rightarrow> 'r kworld \<Rightarrow> 'r kworld" where
  "release_proposal env now key w =
     (case kw_redis w of
        None \<Rightarrow> w
      | Some r \<Rightarrow>
          (case r_delete (ve_api (bv_verify env)) r (seconds now) (DEDUP_PREFIX @ key) of
             None \<Rightarrow> w | Some r1 \<Rightarrow> w\<lparr>kw_redis := Some r1\<rparr>))"

section \<open>Dry run, rows, card\<close>

definition run_dry :: "'r bridge_env \<Rightarrow> int \<Rightarrow> ExecutionIntent \<Rightarrow> 'r kworld \<Rightarrow> (string + pydict) \<times> 'r kworld" where
  "run_dry env now intent w =
     (let v = bv_verify env;
          exec = (\<lambda>i. case execute_intent (ve_api v) (bv_k8s env) (ve_kubectl v) (seconds now) i True False w of
                        (Inl e, w1) \<Rightarrow> (Inl (exn_name e), w1) | (Inr r, w1) \<Rightarrow> (Inr r, w1))
      in if EXECUTOR_DISPATCH env \<noteq> ''queue'' then exec intent
         else if \<not> bv_queue_answers env then (Inl ''TimeoutError'', w)
         else (case model_validate (PDict (model_dump intent)) of Inl e \<Rightarrow> (Inl (exn_name e), w) | Inr i \<Rightarrow> exec i))"

definition dry_status :: "pydict \<Rightarrow> string" where
  "dry_status res =
     (if (case dget res ''error'' of PStr s \<Rightarrow> startswith s ''GUARDRAIL_BLOCK'' | _ \<Rightarrow> False) then ''guardrail_blocked''
      else if truthy (dget res ''success'') then ''dry_run_ok'' else ''dry_run_failed'')"

definition dry_run :: "'r bridge_env \<Rightarrow> int \<Rightarrow> ExecutionIntent \<Rightarrow> 'r kworld \<Rightarrow> pydict \<times> 'r kworld" where
  "dry_run env now intent w =
     (let stamp = (''dry_run_at'', PStr (isoformat (ve_time (bv_verify env)) now)) in
      case run_dry env now intent w of
        (Inl e, w1) \<Rightarrow> ([(''status'', PStr ''error''), (''error_type'', PStr e), stamp], w1)
      | (Inr res, w1) \<Rightarrow>
          ([(''status'', PStr (dry_status res)), (''command'', dget res ''command''), (''stdout'', text_field res ''stdout''),
            (''stderr'', text_field res ''stderr''), (''exit_code'', dget res ''exit_code''), stamp], w1))"

definition record_decision ::
  "int \<Rightarrow> string \<Rightarrow> string \<Rightarrow> Proposal \<Rightarrow> string \<Rightarrow> pydict list \<Rightarrow> remediation_db \<Rightarrow> remediation_db" where
  "record_decision now incident_id fingerprint p idempotency_key reasons db =
     (if list_ex (\<lambda>d. rd_incident_id d = Some incident_id \<and> rd_idempotency_key d = idempotency_key) (db_decisions db) then db
      else db\<lparr>db_decisions := db_decisions db @
        [\<lparr>rd_incident_id = Some incident_id, rd_alert_fingerprint = Some fingerprint,
          rd_target_ref = PDict (pr_target_ref p), rd_classification = pr_classification p,
          rd_classification_provenance = PDict [(''source'', PStr BRIDGE_SOURCE)], rd_risk_axes = PNone,
          rd_candidate_playbooks = [pr_playbook p], rd_selected_playbook = Some (pr_playbook p),
          rd_decision = mode_value (pr_mode p), rd_decision_reasons = reasons,
          rd_command_preview = pr_command_preview p, rd_idempotency_key = idempotency_key, rd_created_at = now\<rparr>]\<rparr>)"

definition check_mark :: "card_words \<Rightarrow> pyval \<Rightarrow> string" where
  "check_mark cw check =
     (let c = dict_of check in
      (if truthy (dget c ''ok'') then cw_yes cw else cw_no cw) @ '' '' @ py_str (dget c ''fact'') @ '': '' @
      join '','' (map py_str (list_of (dget c ''actual''))))"

definition quoted :: "string \<Rightarrow> string" where "quoted s = ''`'' @ s @ ''`''"

definition build_card :: "card_words \<Rightarrow> string \<Rightarrow> Proposal \<Rightarrow> string \<Rightarrow> string \<Rightarrow> string \<Rightarrow> pydict" where
  "build_card cw now_iso p incident_id signature alertname =
     (let marks = join [CHR 0x0A] (map (check_mark cw) (pr_preconditions p));
          why = (if marks = [] then cw_dash cw else marks);
          field = (\<lambda>name text inline. PDict [(''name'', PStr name), (''value'', PStr text), (''inline'', PBool inline)]);
          button = (\<lambda>style label act. PDict [(''type'', PInt 2), (''style'', PInt style), (''label'', PStr label),
             (''custom_id'', PStr (act @ '':'' @ incident_id @ '':'' @ signature))]);
          embed = PDict
            [(''title'', PStr (take 256 (cw_tool cw @ '' '' @ pr_playbook p @ '': '' @ pr_namespace p @ ''/'' @ pr_resource_name p))),
             (''description'', PStr (quoted alertname @ '' '' @ cw_matched cw)), (''color'', PInt 0x5865F2),
             (''fields'', PList
               [field (cw_command cw) (take 1024 (quoted (pr_command_preview p))) False,
                field (cw_why cw) (take 1024 why) False,
                field ''Policy'' (mode_value (pr_mode p) @ '' ('' @ tier_value (pr_tier p) @ '')'') True]),
             (''footer'', PDict [(''text'', PStr (''incident/'' @ incident_id @ cw_bridge cw))]),
             (''timestamp'', PStr now_iso)]
      in [(''embeds'', PList [embed]),
          (''components'', PList [PDict [(''type'', PInt 1), (''components'', PList
             [button 3 (cw_apply cw) ''approve'', button 4 (cw_decline cw) ''decline''])]]),
          (''allowed_mentions'', PDict [(''parse'', PList [])])])"

section \<open>A proposal\<close>

definition proposal_analysis :: "'r bridge_env \<Rightarrow> int \<Rightarrow> Incident \<Rightarrow> Proposal \<Rightarrow> pydict \<Rightarrow> TargetSnapshot \<Rightarrow> pydict" where
  "proposal_analysis env now incident p executor_result seen =
     [(''source'', PStr BRIDGE_SOURCE), (''alert_fingerprint'', PStr (in_incident_id incident)),
      (''execution_intent'', PDict (model_dump (pr_intent p))),
      (''execution_intent_at'', PStr (isoformat (ve_time (bv_verify env)) now)),
      (''executor_result'', PDict executor_result), (''playbook_match'', pr_snapshot p),
      (''policy_decision'', PDict [(''mode'', PStr (mode_value (pr_mode p))), (''reasons'', PList (map PDict (pr_reasons p)))]),
      (''target_live'', PDict (snapshot_to_dict seen))]"

definition next_row_id :: "remediation_db \<Rightarrow> int" where
  "next_row_id db = foldr max (map ir_row_id (db_incidents db)) 0 + 1"

definition proposal_row :: "int \<Rightarrow> int \<Rightarrow> string \<Rightarrow> Incident \<Rightarrow> pydict \<Rightarrow> incident_record" where
  "proposal_row row_id now incident_id incident analysis =
     (new_row row_id now incident)\<lparr>ir_incident_id := Some incident_id, ir_status := Some (state_value APPROVAL_PENDING),
       ir_analysis := PDict analysis\<rparr>"

definition drop_proposal :: "string \<Rightarrow> remediation_db \<Rightarrow> remediation_db" where
  "drop_proposal incident_id db =
     db\<lparr>db_decisions := filter (\<lambda>d. rd_incident_id d \<noteq> Some incident_id) (db_decisions db),
        db_incidents := filter (\<lambda>r. ir_incident_id r \<noteq> Some incident_id) (db_incidents db)\<rparr>"

definition with_uid :: "Proposal \<Rightarrow> TargetSnapshot \<Rightarrow> Proposal" where
  "with_uid p seen =
     p\<lparr>pr_target_ref := dset (pr_target_ref p) ''uid''
         (if truthy (ts_uid seen) then ts_uid seen else dget (pr_target_ref p) ''uid'')\<rparr>"

definition uid_text :: "Proposal \<Rightarrow> TargetSnapshot \<Rightarrow> string" where
  "uid_text p seen =
     (if truthy (ts_uid seen) then py_str (ts_uid seen)
      else if truthy (dget (pr_target_ref p) ''uid'') then py_str (dget (pr_target_ref p) ''uid'')
      else pr_namespace p @ ''/'' @ pr_resource_name p)"

definition proposal_id :: "'r bridge_env \<Rightarrow> int \<Rightarrow> string \<Rightarrow> string" where
  "proposal_id env now key = ''rb-'' @ take 12 key @ ''-'' @ int_str (seconds now) @ ''-'' @ bv_token env"

text \<open>The rows are committed before the card is sent; a card that is not sent takes them back.\<close>

definition offer ::
  "'r bridge_env \<Rightarrow> int \<Rightarrow> Incident \<Rightarrow> Proposal \<Rightarrow> string \<Rightarrow> TargetSnapshot \<Rightarrow> pydict \<Rightarrow> remediation_db \<Rightarrow> 'r kworld
    \<Rightarrow> string result \<times> remediation_db \<times> 'r kworld" where
  "offer env now incident p key seen executor_result db w =
     (let iid = proposal_id env now key;
          signature = compute_signature (ve_sha (bv_verify env)) (pr_intent p);
          analysis = proposal_analysis env now incident p executor_result seen;
          row = proposal_row (next_row_id db) now iid incident analysis;
          db1 = record_decision now iid (in_incident_id incident) p (IDEM_PREFIX @ key) (pr_reasons p)
                  (db\<lparr>db_incidents := db_incidents db @ [row]\<rparr>)
      in if find_incident db iid \<noteq> None then (Inl PendingRollbackError, db, w)
         else (case bv_post env (build_card (bv_words env) (isoformat (ve_time (bv_verify env)) now) p iid signature (get_or (in_labels incident) ''alertname'' ''?'')) of
                 Inl e \<Rightarrow> (Inl e, db1, w)
               | Inr None \<Rightarrow> (Inr OUTCOME_POST_FAILED, drop_proposal iid db1, release_proposal env now key w)
               | Inr (Some msg) \<Rightarrow>
                   (Inr OUTCOME_PROPOSED, set_analysis (ir_row_id row) (dset analysis ''bridge_card'' msg) db1,
                    log_event ''REMEDIATION_BRIDGE_PROPOSED''
                      [(''incident_id'', PStr iid), (''alert_fingerprint'', PStr (in_incident_id incident)),
                       (''playbook'', PStr (pr_playbook p)), (''namespace'', PStr (pr_namespace p)),
                       (''resource'', PStr (pr_resource_name p)), (''intent_signature'', PStr signature)] w)))"

definition propose ::
  "'r bridge_env \<Rightarrow> int \<Rightarrow> Incident \<Rightarrow> Proposal \<Rightarrow> remediation_db \<Rightarrow> 'r kworld \<Rightarrow> string result \<times> remediation_db \<times> 'r kworld" where
  "propose env now incident p db w =
     (if \<not> (EXECUTOR_ENABLED env \<and> EXECUTOR_APPROVAL_ENABLED env) then (Inr OUTCOME_EXECUTOR_DISABLED, db, w)
      else (case live_target env now (pr_intent p) w of
              (Inl e, w1) \<Rightarrow> (Inl e, db, w1)
            | (Inr seen, w1) \<Rightarrow>
                (let kg_uid = dget (pr_target_ref p) ''uid'' in
                 if ts_unknown seen then (Inr OUTCOME_TARGET_UNAVAILABLE, db, w1)
                 else if truthy kg_uid \<and> truthy (ts_uid seen) \<and> py_str kg_uid \<noteq> py_str (ts_uid seen)
                 then (Inr OUTCOME_TARGET_REINCARNATED, db, w1)
                 else
                   (let key = dedup_key (ve_sha (bv_verify env)) (pr_playbook p) (uid_text p seen)
                                (dget (pr_target_ref p) ''incarnation'')
                    in case claim_proposal env now db key w1 of
                         (False, w2) \<Rightarrow> (Inr OUTCOME_DEDUPLICATED, db, w2)
                       | (True, w2) \<Rightarrow>
                           (case dry_run env now (pr_intent p) w2 of
                              (res, w3) \<Rightarrow>
                                if dget res ''status'' \<noteq> PStr ''dry_run_ok''
                                then (Inr OUTCOME_DRY_RUN_FAILED, db,
                                      log_event ''REMEDIATION_BRIDGE_DRY_RUN_FAILED''
                                        [(''playbook'', PStr (pr_playbook p)), (''namespace'', PStr (pr_namespace p)),
                                         (''resource'', PStr (pr_resource_name p)), (''status'', dget res ''status'')] w3)
                                else offer env now incident (with_uid p seen) key seen res db w3)))))"

section \<open>The whole bridge\<close>

definition blocked_line :: "card_words \<Rightarrow> Proposal \<Rightarrow> string" where
  "blocked_line cw p = ''playbook '' @ quoted (pr_playbook p) @ '': '' @ cw_blocked cw @ '' ('' @ tier_value (pr_tier p) @ '')''"

definition handle_proposal ::
  "'r bridge_env \<Rightarrow> int \<Rightarrow> Incident \<Rightarrow> Proposal \<Rightarrow> remediation_db \<times> 'r kworld \<times> string list
    \<Rightarrow> string \<times> remediation_db \<times> 'r kworld \<times> string list" where
  "handle_proposal env now incident p st =
     (case st of (db, w, lines) \<Rightarrow>
        if pr_mode p = BLOCK
        then (OUTCOME_BLOCKED,
              record_decision now (in_incident_id incident) (in_incident_id incident) p
                (BLOCK_IDEM_PREFIX @ pr_playbook p) (pr_reasons p) db, w,
              if blocked_line (bv_words env) p \<in> set lines then lines else lines @ [blocked_line (bv_words env) p])
        else (case propose env now incident p db w of
                (Inl e, db1, w1) \<Rightarrow> (''error:'' @ exn_name e, db1, w1, lines)
              | (Inr outcome, db1, w1) \<Rightarrow> (outcome, db1, w1, lines)))"

fun handle_all ::
  "'r bridge_env \<Rightarrow> int \<Rightarrow> Incident \<Rightarrow> Proposal list \<Rightarrow> remediation_db \<times> 'r kworld \<times> string list
    \<Rightarrow> (string \<times> PolicyMode \<times> string) list \<times> remediation_db \<times> 'r kworld \<times> string list" where
  "handle_all env now incident [] st = ([], st)"
| "handle_all env now incident (p # ps) st =
     (case handle_proposal env now incident p st of (outcome, st1) \<Rightarrow>
        case handle_all env now incident ps st1 of (rest, st2) \<Rightarrow> ((pr_playbook p, pr_mode p, outcome) # rest, st2))"

definition run_bridge ::
  "'r bridge_env \<Rightarrow> int \<Rightarrow> enriched \<Rightarrow> pod_snapshot option \<Rightarrow> remediation_db \<Rightarrow> 'r kworld
    \<Rightarrow> (string \<times> PolicyMode \<times> string) list \<times> remediation_db \<times> 'r kworld \<times> string list" where
  "run_bridge env now ctx snap db w =
     (if \<not> wants_bridge env (in_labels (ec_incident ctx)) then ([], db, w, [])
      else (case plan_proposals env now ctx (collect_facts env ctx snap) w of
              (Inl _, w1) \<Rightarrow> ([], db, w1, [])
            | (Inr ps, w1) \<Rightarrow> handle_all env now (ec_incident ctx) ps (db, w1, [])))"

section \<open>Lemmas\<close>

lemma rendered_intent:
  assumes "render_plan pb ns name c = Inr rendered" and "i \<in> fst ` set rendered"
  shows "intent_wf i \<and> ei_namespace i = ns \<and> ei_resource_name i = name \<and> ei_risk i = ''medium'' \<and>
    ei_playbook i = Some (pb_name pb) \<and> playbook_pattern (pb_name pb)"
proof -
  obtain argv where m: "(i, argv) \<in> set rendered" using assms(2) by force
  have "rmap (render_step pb ns name c) (plan_steps pb) = Inr rendered"
    using assms(1) by (auto simp: render_plan_def split: if_splits)
  from rmap_mem [OF this m] obtain step where "render_step pb ns name c step = Inr (i, argv)" by blast
  then obtain a spec ps where v: "model_validate (step_intent pb ns name step a spec ps) = Inr i"
    by (auto simp: render_step_def rbind_eq_Inr plan_error_Inr split: option.splits)
  from model_validate_wf [OF v] v show ?thesis
    by (auto simp: model_validate_def step_intent_def rbind_eq_Inr req_str_field_def has_key_def opt_str_field_def
        block_system_ns_Inr validate_resource_name_Inr split: if_splits option.splits)
qed

lemma bind_server_params_same:
  assumes "bind_server_params sha probe i snapshot = (i', snapshot')"
  shows "ei_action i' = ei_action i \<and> ei_resource_type i' = ei_resource_type i \<and> ei_resource_name i' = ei_resource_name i \<and>
    ei_namespace i' = ei_namespace i \<and> ei_risk i' = ei_risk i \<and> ei_playbook i' = ei_playbook i \<and>
    (ei_playbook_match i' = ei_playbook_match i \<or> (\<exists>e. ei_playbook_match i' = Some (entry_binding sha e)))"
  using assms by (auto simp: bind_server_params_def Let_def split: option.splits pyval.splits if_splits prod.splits)

lemma bind_live_same:
  assumes "bind_live env now i entry snapshot w = ((i', snapshot'), w')"
  shows "ei_action i' = ei_action i \<and> ei_resource_type i' = ei_resource_type i \<and> ei_resource_name i' = ei_resource_name i \<and>
    ei_namespace i' = ei_namespace i \<and> ei_risk i' = ei_risk i \<and> ei_playbook i' = ei_playbook i \<and>
    (ei_playbook_match i' = ei_playbook_match i \<or>
     (\<exists>e. ei_playbook_match i' = Some (entry_binding (ve_sha (bv_verify env)) e)))"
proof -
  obtain probe where "bind_server_params (ve_sha (bv_verify env)) probe i snapshot = (i', snapshot')"
    using assms by (auto simp: bind_live_def Let_def split: if_splits prod.splits)
  then show ?thesis by (rule bind_server_params_same)
qed

text \<open>The digest SHA-256 gives in hexadecimal.\<close>

definition hex_digest :: "(string \<Rightarrow> string) \<Rightarrow> bool" where
  "hex_digest sha \<longleftrightarrow> (\<forall>x. length (sha x) = 64 \<and> list_all ch_hex (sha x))"

lemma entry_binding_hex: "hex_digest sha \<Longrightarrow> playbook_match_pattern (entry_binding sha e)"
  by (auto simp: hex_digest_def entry_binding_def digest_def playbook_match_pattern_def list_all_iff dest: in_set_takeD)

lemma snapshot_binding:
  assumes "find_entry (PDict (build_match_snapshot sha [pb] facts ns al cl t)) (Some n) = Some entry"
  shows "\<exists>e. as_str (dget entry ''binding'') = Some (entry_binding sha e)"
proof -
  have "entry = snapshot_entry sha facts ns pb"
    using assms by (auto simp: find_entry_def build_match_snapshot_def entries_of_def dget_def split: if_splits)
  then show ?thesis by (auto simp: snapshot_entry_def Let_def)
qed

text \<open>What the planner promises of a proposal: an intent that can be stored and read back, and the gate's answer to it.\<close>

definition planned :: "'r bridge_env \<Rightarrow> string \<Rightarrow> Proposal \<Rightarrow> bool" where
  "planned env ns p \<longleftrightarrow>
     ei_namespace (pr_intent p) = ns \<and> ei_risk (pr_intent p) = ''medium'' \<and> k8s_name ns \<and>
     (hex_digest (ve_sha (bv_verify env)) \<and> params_wf (ei_params (pr_intent p)) \<longrightarrow> model_validate (PDict (model_dump (pr_intent p))) = Inr (pr_intent p)) \<and>
     (\<exists>d. evaluate_intent_gate (ve_sha (bv_verify env)) (bv_binding env) (bv_registry env) (pr_intent p) (pr_snapshot p) True = Inr d \<and>
          pd_mode d = pr_mode p)"

lemma propose_plan_Inr:
  assumes "propose_plan env ctx ns name pb entry (i, snap) = Inr p"
  shows "pr_intent p = i \<and> (\<exists>d. evaluate_intent_gate (ve_sha (bv_verify env)) (bv_binding env) (bv_registry env) i (pr_snapshot p) True = Inr d \<and>
    pd_mode d = pr_mode p)"
  using assms by (auto simp: propose_plan_def rbind_eq_Inr)

lemma plan_one_planned:
  assumes "plan_one env now ctx facts ns name pb w = (Inr (Some p), w')"
  shows "planned env ns p"
proof -
  from assms obtain c rendered first more' snap entry bound w1 w2 where
    r: "render_plan pb ns name c = Inr rendered" and m: "mutating_intents rendered = first # more'"
    and s: "snap = PDict (build_match_snapshot (ve_sha (bv_verify env)) [pb] (Some facts) ns
        (map_of (in_labels (ec_incident ctx)) ''alertname'') (classify_alert (in_labels (ec_incident ctx)))
        (isoformat (ve_time (bv_verify env)) now))"
    and e: "find_entry snap (Some (pb_name pb)) = Some entry"
    and b: "bind_live env now (first\<lparr>ei_playbook_match := as_str (dget entry ''binding'')\<rparr>) entry snap w1 = (bound, w2)"
    and p: "propose_plan env ctx ns name pb entry bound = Inr p"
    by (auto simp: plan_one_def Let_def rbind_eq_Inr split: prod.splits sum.splits exn.splits list.splits option.splits)
  have "first \<in> fst ` set rendered"
    using m by (metis (no_types, lifting) filter_is_subset list.set_intros(1) list.set_map mutating_intents_def subsetD)
  note i = rendered_intent [OF r this]
  obtain i' snap' where bound: "bound = (i', snap')" by fastforce
  note same = bind_live_same [OF b [unfolded bound]]
  have "pr_intent p = i'" using propose_plan_Inr [OF p [unfolded bound]] by simp
  moreover have "playbook_match_pattern x" if "hex_digest (ve_sha (bv_verify env))" "ei_playbook_match i' = Some x" for x
    using that same snapshot_binding e s entry_binding_hex [OF that(1)] by fastforce
  then have "hex_digest (ve_sha (bv_verify env)) \<and> params_wf (ei_params i') \<longrightarrow> model_validate (PDict (model_dump i')) = Inr i'"
    using i same by (auto intro!: model_dump_valid simp: intent_wf_def)
  ultimately show ?thesis
    using i same propose_plan_Inr [OF p [unfolded bound]] by (auto simp: planned_def intent_wf_def)
qed

lemma plan_all_planned:
  assumes "plan_all env now ctx facts ns name pbs w = (Inr ps, w')" and "p \<in> set ps"
  shows "planned env ns p"
  using assms
proof (induction pbs arbitrary: w w' ps)
  case (Cons pb pbs)
  note one = plan_one_planned [of env now ctx facts ns name pb w p]
  from Cons show ?case
    by (auto split: prod.splits sum.splits option.splits simp: rbind_eq_Inr)
      (use one in blast)
qed simp

lemma plan_proposals_planned:
  assumes "plan_proposals env now ctx facts w = (Inr ps, w')" and "p \<in> set ps"
  shows "\<exists>ns. namespace_of_ctx ctx = Some ns \<and> planned env ns p"
  using assms plan_all_planned
  by (auto simp: plan_proposals_def nonempty_def split: option.splits sum.splits if_splits)

text \<open>The rows of a card.\<close>

lemma next_row_id_new: "r \<in> set (db_incidents db) \<Longrightarrow> ir_row_id r < next_row_id db"
proof -
  have "x \<in> set xs \<Longrightarrow> x \<le> foldr max xs 0" for x :: int and xs by (induction xs) auto
  from this [of "ir_row_id r" "map ir_row_id (db_incidents db)"] show "r \<in> set (db_incidents db) \<Longrightarrow> ?thesis"
    by (simp add: next_row_id_def)
qed

lemma record_decision_incidents [simp]:
  "db_incidents (record_decision now iid fp p k rs db) = db_incidents db"
  "db_approvals (record_decision now iid fp p k rs db) = db_approvals db"
  by (simp_all add: record_decision_def)

text \<open>The custom ids of the buttons a card carries, in their order.\<close>

definition card_buttons :: "pydict \<Rightarrow> pyval list" where
  "card_buttons m =
     concat (map (\<lambda>r. map (\<lambda>b. dget (dict_of b) ''custom_id'') (list_of (dget (dict_of r) ''components'')))
       (list_of (dget m ''components'')))"

definition button_id :: "string \<Rightarrow> string \<Rightarrow> string \<Rightarrow> string" where
  "button_id act iid sig = act @ '':'' @ iid @ '':'' @ sig"

lemma build_card_buttons:
  "card_buttons (build_card cw t p iid sig al) = [PStr (button_id ''approve'' iid sig), PStr (button_id ''decline'' iid sig)]"
  by (simp add: build_card_def card_buttons_def button_id_def Let_def dget_def dict_of_def list_of_def)

lemma offer_rows:
  fixes env p key now incident
  defines "iid \<equiv> proposal_id env now key" and "an \<equiv> proposal_analysis env now incident p"
  assumes "offer env now incident p key seen res db w = (Inr OUTCOME_PROPOSED, db', w')"
  obtains msg where "find_incident db' iid =
      Some (proposal_row (next_row_id db) now iid incident (dset (an res seen) ''bridge_card'' msg))"
    and "bv_post env (build_card (bv_words env) (isoformat (ve_time (bv_verify env)) now) p iid
      (compute_signature (ve_sha (bv_verify env)) (pr_intent p)) (get_or (in_labels incident) ''alertname'' ''?'')) = Inr (Some msg)"
proof -
  from assms(3) obtain msg where f: "find_incident db iid = None"
    and post: "bv_post env (build_card (bv_words env) (isoformat (ve_time (bv_verify env)) now) p iid
      (compute_signature (ve_sha (bv_verify env)) (pr_intent p)) (get_or (in_labels incident) ''alertname'' ''?'')) = Inr (Some msg)"
    and db': "db' = set_analysis (next_row_id db) (dset (an res seen) ''bridge_card'' msg)
      (record_decision now iid (in_incident_id incident) p (IDEM_PREFIX @ key) (pr_reasons p)
        (db\<lparr>db_incidents := db_incidents db @ [proposal_row (next_row_id db) now iid incident (an res seen)]\<rparr>))"
    by (auto simp: offer_def Let_def iid_def an_def OUTCOME_PROPOSED_def OUTCOME_POST_FAILED_def proposal_row_def new_row_def
        split: sum.splits option.splits if_splits)
  have "find (\<lambda>r. ir_incident_id r = Some iid)
      (map (\<lambda>r. if ir_row_id r = next_row_id db then r\<lparr>ir_analysis := v\<rparr> else r) (db_incidents db)) = None" for v
    using f by (auto simp: find_incident_def find_None_iff)
  then show ?thesis
    by (intro that [of msg])
      (simp_all add: post db' find_incident_def set_analysis_def proposal_row_def new_row_def find_append)
qed

text \<open>The converse of \<open>authorize_Inr\<close>.\<close>

lemma authorize_complete:
  assumes a: "authorized_by env now db rec analysis iid expected i"
    and "compute_signature (ve_sha (ax_verify env)) i \<noteq> []" and "lower (strip (ei_namespace i)) \<noteq> []"
  shows "\<exists>az. authorize env now db rec analysis iid by expected = Inr az \<and> az_intent az = i"
proof -
  let ?sig = "compute_signature (ve_sha (ax_verify env)) i"
  have v: "model_validate (dget analysis ''execution_intent'') = Inr i" using a by (simp add: authorized_by_def)
  then have t: "truthy (dget analysis ''execution_intent'')"
    by (cases "dget analysis ''execution_intent''") (auto simp: model_validate_def req_str_field_def)
  have "check_signature (ve_sha (ax_verify env)) i expected = Inr ?sig"
    "check_approval now (or_default (APPROVAL_MAX_AGE_SECONDS env) 3600) (db_approvals db) iid ?sig = Inr ()"
    "check_namespace rec i = Inr ()" "check_plan_state i analysis = Inr ()"
    using a assms(2,3) by (simp_all add: check_Inr authorized_by_def)
  moreover obtain r anchor age where "check_age (ve_time (ax_verify env)) now (or_default (INTENT_MAX_AGE_SECONDS env) 86400)
      analysis (ir_created_at rec) = Inr (r, anchor, age)"
    using a by (auto simp: check_age_Inr authorized_by_def)
  moreover obtain g where "check_gate env iid by analysis i = Inr g"
    using a by (auto simp: check_gate_Inr authorized_by_def)
  ultimately show ?thesis using v t by (simp add: authorize_def)
qed

lemma name_char_not_space: "ch_az09 c \<or> c = CHR ''.'' \<or> c = CHR ''-'' \<Longrightarrow> \<not> ch_space c"
  by (auto simp: ch_az09_def ch_az_def ch_digit_def ch_space_def Let_def)

lemma k8s_name_lower_strip: "k8s_name ns \<Longrightarrow> lower (strip ns) \<noteq> []"
proof -
  assume "k8s_name ns"
  then have "\<forall>c\<in>set ns. \<not> ch_space c" "ns \<noteq> []"
    using name_char_not_space by (auto simp: k8s_name_def list_all_iff)
  then show ?thesis by (simp add: strip_no_space lower_def)
qed

lemma dry_run_time: "dry_run env now i w = (res, w') \<Longrightarrow> dget res ''dry_run_at'' = PStr (isoformat (ve_time (bv_verify env)) now)"
  by (auto simp: dry_run_def dget_def Let_def split: prod.splits sum.splits)

text \<open>A posted card has passed every step before it.\<close>

lemma propose_offer:
  assumes "propose env now incident p db w = (Inr OUTCOME_PROPOSED, db', w')"
  obtains seen key res w1 where "offer env now incident (with_uid p seen) key seen res db w1 = (Inr OUTCOME_PROPOSED, db', w')"
    and "dget res ''status'' = PStr ''dry_run_ok''" and "dget res ''dry_run_at'' = PStr (isoformat (ve_time (bv_verify env)) now)"
    and "\<exists>pb uid inc. key = dedup_key (ve_sha (bv_verify env)) pb uid inc"
proof -
  from assms obtain seen key res w1 w2 where
    "key = dedup_key (ve_sha (bv_verify env)) (pr_playbook p) (uid_text p seen) (dget (pr_target_ref p) ''incarnation'')" and "dry_run env now (pr_intent p) w2 = (res, w1)"
    and "offer env now incident (with_uid p seen) key seen res db w1 = (Inr OUTCOME_PROPOSED, db', w')"
    and "dget res ''status'' = PStr ''dry_run_ok''"
    by (auto simp: propose_def Let_def OUTCOME_PROPOSED_def OUTCOME_EXECUTOR_DISABLED_def OUTCOME_TARGET_UNAVAILABLE_def
        OUTCOME_TARGET_REINCARNATED_def OUTCOME_DEDUPLICATED_def OUTCOME_DRY_RUN_FAILED_def
        split: if_splits prod.splits sum.splits bool.splits)
  then show ?thesis using that dry_run_time by blast
qed

lemma with_uid_same [simp]:
  "pr_intent (with_uid p seen) = pr_intent p" "pr_snapshot (with_uid p seen) = pr_snapshot p"
  by (simp_all add: with_uid_def)

lemma card_namespace:
  assumes "namespace_of_ctx ctx = Some ns" and "ns \<noteq> []"
  shows "incident_namespace (proposal_row k now iid (ec_incident ctx) an) = Some (lower (strip ns))"
proof -
  have "map_of (map (\<lambda>(k, v). (k, PStr v)) d) k = map_option PStr (map_of d k)" for d and k :: string
    by (induction d) auto
  then show ?thesis
    using assms
    by (auto simp: incident_namespace_def Let_def proposal_row_def new_row_def incident_dump_def dget_def opt_str_def
        str_dict_def namespace_of_ctx_def label_of_def str_or_def split: option.splits if_splits)
qed

lemma card_fields:
  assumes "an = dset (proposal_analysis env now incident p res seen) ''bridge_card'' msg"
  shows "dget an ''execution_intent'' = PDict (model_dump (pr_intent p))" "dget an ''executor_result'' = PDict res"
    "dget an ''playbook_match'' = pr_snapshot p" "is_bridge_analysis an" "an \<noteq> []"
  unfolding assms by (simp_all add: proposal_analysis_def dset_def is_bridge_analysis_def dget_def)

lemma handle_proposed:
  assumes "handle_proposal env now incident p (db, w, ls) = (OUTCOME_PROPOSED, db', w', ls')"
  shows "pr_mode p \<noteq> BLOCK \<and> propose env now incident p db w = (Inr OUTCOME_PROPOSED, db', w')"
  using assms
  by (auto simp: handle_proposal_def OUTCOME_PROPOSED_def OUTCOME_BLOCKED_def split: if_splits prod.splits sum.splits)

lemma gate_with_required_binding:
  "evaluate_intent_gate sha b reg i snap True = evaluate_intent_gate sha b' reg i snap True"
  unfolding evaluate_intent_gate_def simp_thms ..

lemma medium_eligible: "lower ''medium'' \<in> set ELIGIBLE_RISKS"
  by code_simp

lemma hex_digest_nonempty: "hex_digest sha \<Longrightarrow> sha x \<noteq> []"
  by (metis hex_digest_def list.size(3) zero_neq_numeral)

lemma card_authorized:
  assumes sha: "hex_digest (ve_sha (bv_verify env))"
    and clock: "parse_utc_ts (ve_time (bv_verify env)) (PStr (isoformat (ve_time (bv_verify env)) shown)) = Some shown"
    and ns: "namespace_of_ctx ctx = Some ns" and p: "planned env ns p" and mode: "pr_mode p \<noteq> BLOCK"
    and live_params: "params_wf (ei_params (pr_intent p))"
    and same: "ve_sha (ax_verify ax) = ve_sha (bv_verify env)" "ve_time (ax_verify ax) = ve_time (bv_verify env)"
      "ax_registry ax = bv_registry env"
    and age: "whole_seconds (now - shown) \<le> or_default (INTENT_MAX_AGE_SECONDS ax) 86400"
    and res: "dget res ''status'' = PStr ''dry_run_ok''" "dget res ''dry_run_at'' = PStr (isoformat (ve_time (bv_verify env)) shown)"
    and a: "an = dset (proposal_analysis env shown (ec_incident ctx) (with_uid p seen) res seen) ''bridge_card'' msg"
    and rec: "rec = proposal_row k shown iid (ec_incident ctx) an"
    and approved: "check_approval now (or_default (APPROVAL_MAX_AGE_SECONDS ax) 3600) (db_approvals db) iid sig = Inr ()"
    and sig: "sig = compute_signature (ve_sha (bv_verify env)) (pr_intent p)"
  shows "authorized_by ax now db rec an iid (Some sig) (pr_intent p)"
proof -
  note an = card_fields [OF a, simplified]
  have "incident_namespace rec = Some (lower (strip ns))"
    using card_namespace [OF ns] p by (simp add: rec planned_def k8s_name_def)
  moreover have "intent_recorded_at (ve_time (ax_verify ax)) an (ir_created_at rec) = (Some shown, ''executor_result.dry_run_at'')"
    using res(2) clock by (simp add: intent_recorded_at_def time_anchors_def dict_field_def an(2) same(2))
  moreover obtain d where "evaluate_intent_gate (ve_sha (ax_verify ax)) (ax_binding ax) (ax_registry ax) (pr_intent p)
      (dget an ''playbook_match'') (is_bridge_analysis an) = Inr d" "pd_mode d \<noteq> BLOCK"
    using p mode gate_with_required_binding [of _ "ax_binding ax" _ _ _ "bv_binding env"]
    by (auto simp: planned_def an same)
  ultimately show ?thesis
    using approved sha p live_params res(1) age
    by (auto simp: authorized_by_def planned_def an same sig check_approval_Inr medium_eligible)
qed

lemma hex_not_colon: "ch_hex c \<Longrightarrow> c \<noteq> CHR '':''"
  by (auto simp: ch_hex_def ch_digit_def Let_def)

lemma proposal_id_colon:
  assumes "hex_digest sha" and "\<exists>pb uid inc. key = dedup_key sha pb uid inc"
  shows "list_all ch_hex (bv_token env) \<longrightarrow> CHR '':'' \<notin> set (proposal_id env now key)"
  using assms hex_not_colon int_str_chars [of "CHR '':''" "seconds now"]
  by (fastforce simp: proposal_id_def dedup_key_def hex_digest_def list_all_iff ch_digit_def dest: in_set_takeD)

text \<open>
  A card the bridge posts is one the apply path will honour: the buttons name the new row and the signature of
  the proposed intent, the row waits for approval, and with an approval of that pair that is not too old,
  the same registry and a plan that has not aged out, \<open>authorize\<close> accepts exactly the proposed intent.
\<close>

lemma card_honoured:
  assumes sha: "hex_digest (ve_sha (bv_verify env))"
    and clock: "parse_utc_ts (ve_time (bv_verify env)) (PStr (isoformat (ve_time (bv_verify env)) shown)) = Some shown"
    and plan: "plan_proposals env t ctx facts w = (Inr ps, w1)" "p \<in> set ps"
    and posted: "handle_proposal env shown (ec_incident ctx) p (db, w2, ls) = (OUTCOME_PROPOSED, db', w3, ls')"
    and live_params: "params_wf (ei_params (pr_intent p))"
    and same: "ve_sha (ax_verify ax) = ve_sha (bv_verify env)" "ve_time (ax_verify ax) = ve_time (bv_verify env)"
      "ax_registry ax = bv_registry env"
    and sig: "sig = compute_signature (ve_sha (bv_verify env)) (pr_intent p)"
  shows "\<exists>iid rec an m msg. bv_post env m = Inr (Some msg) \<and>
    card_buttons m = [PStr (button_id ''approve'' iid sig), PStr (button_id ''decline'' iid sig)] \<and>
    (list_all ch_hex (bv_token env) \<longrightarrow> CHR '':'' \<notin> set iid) \<and>
    find_incident db' iid = Some rec \<and> ir_status rec = Some (state_value APPROVAL_PENDING) \<and>
    analysis_of rec = Some an \<and>
    (\<forall>now approvals who. whole_seconds (now - shown) \<le> or_default (INTENT_MAX_AGE_SECONDS ax) 86400 \<longrightarrow>
       check_approval now (or_default (APPROVAL_MAX_AGE_SECONDS ax) 3600) approvals iid sig = Inr () \<longrightarrow>
       (\<exists>az. authorize ax now (db'\<lparr>db_approvals := approvals\<rparr>) rec an iid who (Some sig) = Inr az \<and> az_intent az = pr_intent p))"
proof -
  from plan_proposals_planned [OF plan] obtain ns where ns: "namespace_of_ctx ctx = Some ns" and p: "planned env ns p"
    by blast
  from handle_proposed [OF posted] have mode: "pr_mode p \<noteq> BLOCK"
    and propose: "propose env shown (ec_incident ctx) p db w2 = (Inr OUTCOME_PROPOSED, db', w3)" by simp_all
  from propose obtain seen key res w4 where o: "offer env shown (ec_incident ctx) (with_uid p seen) key seen res db w4 =
      (Inr OUTCOME_PROPOSED, db', w3)"
    and res: "dget res ''status'' = PStr ''dry_run_ok''" "dget res ''dry_run_at'' = PStr (isoformat (ve_time (bv_verify env)) shown)"
      "\<exists>pb uid inc. key = dedup_key (ve_sha (bv_verify env)) pb uid inc"
    by (rule propose_offer)
  define iid where "iid = proposal_id env shown key"
  from o obtain msg where row: "find_incident db' iid = Some (proposal_row (next_row_id db) shown iid (ec_incident ctx)
      (dset (proposal_analysis env shown (ec_incident ctx) (with_uid p seen) res seen) ''bridge_card'' msg))"
    and post: "bv_post env (build_card (bv_words env) (isoformat (ve_time (bv_verify env)) shown) (with_uid p seen) iid sig
      (get_or (in_labels (ec_incident ctx)) ''alertname'' ''?'')) = Inr (Some msg)"
    unfolding iid_def sig by (rule offer_rows) (simp add: sig)
  define an where "an = dset (proposal_analysis env shown (ec_incident ctx) (with_uid p seen) res seen) ''bridge_card'' msg"
  define rec where "rec = proposal_row (next_row_id db) shown iid (ec_incident ctx) an"
  have "sig \<noteq> []" using hex_digest_nonempty [OF sha] by (simp add: sig compute_signature_def digest_def)
  moreover have "lower (strip (ei_namespace (pr_intent p))) \<noteq> []" using p k8s_name_lower_strip by (auto simp: planned_def)
  moreover note card_authorized [OF sha clock ns p mode live_params same _ res(1,2) an_def rec_def _ sig]
  ultimately have "\<exists>az. authorize ax now (db'\<lparr>db_approvals := approvals\<rparr>) rec an iid who (Some sig) = Inr az \<and> az_intent az = pr_intent p"
    if "whole_seconds (now - shown) \<le> or_default (INTENT_MAX_AGE_SECONDS ax) 86400"
      and "check_approval now (or_default (APPROVAL_MAX_AGE_SECONDS ax) 3600) approvals iid sig = Inr ()" for now approvals who
    using that by (intro authorize_complete) (simp_all add: same sig)
  moreover have "find_incident db' iid = Some rec" "ir_status rec = Some (state_value APPROVAL_PENDING)" "analysis_of rec = Some an"
    using row card_fields(5) [OF an_def] by (simp_all add: rec_def an_def analysis_of_def proposal_row_def)
  moreover note post build_card_buttons proposal_id_colon [OF sha res(3), of env shown, folded iid_def]
  ultimately show ?thesis by blast
qed

text \<open>The bridge reads the cluster and asks for dry runs; it writes to neither the cluster nor the tables of the apply path.\<close>

lemma writes_of_redis [simp]: "writes_of (w\<lparr>kw_redis := r\<rparr>) = writes_of w"
  by (simp add: writes_of_def)

lemma live_target_writes: "live_target env now i w = (r, w') \<Longrightarrow> writes_of w' \<le> writes_of w"
  unfolding live_target_def Let_def by (metis snapshot_writes snd_conv)

lemma probe_replicas_writes: "probe_current_replicas env now i w = (r, w') \<Longrightarrow> writes_of w' \<le> writes_of w"
  by (auto simp: probe_current_replicas_def split: prod.splits dest: live_target_writes)

lemma plan_context_writes: "plan_context env now pb ns name w = (r, w') \<Longrightarrow> writes_of w' \<le> writes_of w"
  by (auto simp: plan_context_def Let_def split: if_splits sum.splits prod.splits dest: probe_replicas_writes)

lemma bind_live_writes: "bind_live env now i entry snap w = (r, w') \<Longrightarrow> writes_of w' \<le> writes_of w"
  by (auto simp: bind_live_def Let_def split: if_splits prod.splits dest: probe_replicas_writes)

lemma plan_one_writes: "plan_one env now ctx facts ns name pb w = (r, w') \<Longrightarrow> writes_of w' \<le> writes_of w"
  by (fastforce simp: plan_one_def Let_def
      split: prod.splits sum.splits exn.splits list.splits option.splits
      dest: plan_context_writes bind_live_writes)

lemma plan_all_writes: "plan_all env now ctx facts ns name pbs w = (r, w') \<Longrightarrow> writes_of w' \<le> writes_of w"
proof (induction pbs arbitrary: w w' r)
  case (Cons pb pbs)
  obtain r1 w1 where one: "plan_one env now ctx facts ns name pb w = (r1, w1)" by fastforce
  obtain r2 w2 where rest: "plan_all env now ctx facts ns name pbs w1 = (r2, w2)" by fastforce
  from Cons.prems one rest have "w' = w1 \<or> w' = w2" by (auto split: sum.splits)
  with plan_one_writes [OF one] Cons.IH [OF rest] show ?case by auto
qed simp

lemma plan_proposals_writes: "plan_proposals env now ctx facts w = (r, w') \<Longrightarrow> writes_of w' \<le> writes_of w"
  by (auto simp: plan_proposals_def split: option.splits sum.splits dest: plan_all_writes)

lemma claim_proposal_writes: "claim_proposal env now db key w = (b, w') \<Longrightarrow> writes_of w' = writes_of w"
  by (auto simp: claim_proposal_def Let_def split: option.splits prod.splits)

lemma release_proposal_writes [simp]: "writes_of (release_proposal env now key w) = writes_of w"
  by (simp add: release_proposal_def split: option.splits)

lemma run_dry_writes:
  assumes "k8s_name (ei_namespace i)" and "run_dry env now i w = (r, w')"
  shows "writes_of w' \<le> writes_of w"
proof -
  let ?v = "bv_verify env"
  have "writes_of w' \<le> writes_of w \<or> (\<exists>j. k8s_name (ei_namespace j) \<and>
      w' = snd (execute_intent (ve_api ?v) (bv_k8s env) (ve_kubectl ?v) (seconds now) j True False w))"
    using assms model_validate_wf [of "PDict (model_dump i)"]
    by (fastforce simp: run_dry_def Let_def intent_wf_def split: if_splits sum.splits prod.splits)
  then show ?thesis using execute_dry_writes by blast
qed

lemma dry_run_writes: "k8s_name (ei_namespace i) \<Longrightarrow> dry_run env now i w = (r, w') \<Longrightarrow> writes_of w' \<le> writes_of w"
  by (auto simp: dry_run_def Let_def split: prod.splits sum.splits dest: run_dry_writes)

definition bridge_frame :: "remediation_db \<Rightarrow> 'r kworld \<Rightarrow> remediation_db \<Rightarrow> 'r kworld \<Rightarrow> bool" where
  "bridge_frame db w db' w' \<longleftrightarrow>
     db_attempts db' = db_attempts db \<and> db_approvals db' = db_approvals db \<and> writes_of w' \<le> writes_of w"

lemma record_decision_attempts [simp]: "db_attempts (record_decision now iid fp p k rs db) = db_attempts db"
  by (simp add: record_decision_def)

lemma offer_frame:
  "offer env now incident p key seen res db w = (r, db', w') \<Longrightarrow> bridge_frame db w db' w'"
  by (auto simp: offer_def Let_def bridge_frame_def set_analysis_def drop_proposal_def split: sum.splits option.splits if_splits)

lemma propose_frame:
  assumes "k8s_name (ei_namespace (pr_intent p))" and "propose env now incident p db w = (r, db', w')"
  shows "bridge_frame db w db' w'"
  using assms(2)
  by (auto simp: propose_def Let_def split: if_splits prod.splits sum.splits bool.splits
      dest!: live_target_writes claim_proposal_writes dry_run_writes [OF assms(1)] offer_frame)
    (auto simp: bridge_frame_def)

lemma handle_proposal_frame:
  assumes "k8s_name (ei_namespace (pr_intent p))" and "handle_proposal env now incident p (db, w, ls) = (out, db', w', ls')"
  shows "bridge_frame db w db' w'"
  using assms(2)
  by (auto simp: handle_proposal_def bridge_frame_def split: if_splits prod.splits sum.splits
      dest: propose_frame [OF assms(1), unfolded bridge_frame_def])

lemma handle_all_frame:
  assumes "\<forall>p\<in>set ps. k8s_name (ei_namespace (pr_intent p))" and "handle_all env now incident ps (db, w, ls) = (outs, db', w', ls')"
  shows "bridge_frame db w db' w'"
  using assms
proof (induction ps arbitrary: db w ls outs)
  case (Cons p ps)
  obtain out db1 w1 ls1 where one: "handle_proposal env now incident p (db, w, ls) = (out, db1, w1, ls1)"
    by (metis prod_cases4)
  obtain outs1 where rest: "handle_all env now incident ps (db1, w1, ls1) = (outs1, db', w', ls')"
    using Cons.prems(2) one by (auto split: prod.splits)
  from handle_proposal_frame [OF _ one] Cons.IH [OF _ rest] Cons.prems(1) show ?case by (auto simp: bridge_frame_def)
qed (simp add: bridge_frame_def)

section \<open>Properties\<close>

text \<open>
  C5. The bridge proposes and never acts: whatever the alert, the facts, the playbooks, the registry and the
  answers of the cluster and of Discord, one run of the bridge adds no command to the cluster's log
  that would change it (it reads the target and asks the server for dry runs), claims no attempt and
  records no approval. Only the apply path, after a person's approval, does these.
\<close>

theorem bridge_never_writes:
  "case run_bridge env now ctx snap db w of
     (outcomes, db', w', lines) \<Rightarrow>
       writes_of w' \<le> writes_of w \<and> db_attempts db' = db_attempts db \<and> db_approvals db' = db_approvals db"
proof -
  obtain outs db' w' ls where r: "run_bridge env now ctx snap db w = (outs, db', w', ls)" by (metis prod_cases4)
  obtain ps w1 where plan: "plan_proposals env now ctx (collect_facts env ctx snap) w = (ps, w1)" by fastforce
  note p = plan_proposals_writes [OF plan]
  have "bridge_frame db w db' w'"
  proof (cases ps)
    case (Inr xs)
    have "\<forall>p\<in>set xs. k8s_name (ei_namespace (pr_intent p))"
      using plan_proposals_planned plan Inr by (fastforce simp: planned_def)
    with r plan p Inr show ?thesis
      by (auto simp: run_bridge_def bridge_frame_def split: if_splits dest: handle_all_frame [unfolded bridge_frame_def])
  qed (use r plan p in \<open>auto simp: run_bridge_def bridge_frame_def split: if_splits\<close>)
  with r show ?thesis by (simp add: bridge_frame_def)
qed

section \<open>A concrete run\<close>

definition sample_words :: card_words where
  "sample_words = \<lparr>cw_yes = ''y'', cw_no = ''n'', cw_tool = ''t'', cw_dash = ''-'', cw_matched = ''m'', cw_command = ''c'', cw_why = ''w'',
     cw_bridge = ''b'', cw_apply = ''a'', cw_decline = ''d'', cw_blocked = ''x''\<rparr>"

definition sample_bridge :: "kv bridge_env" where
  "sample_bridge =
     \<lparr>bv_verify = sample_verify_env\<lparr>ve_sha := (\<lambda>_. replicate 64 CHR ''a''), ve_kubectl := (\<lambda>_ _. Completed 0 ''{}'' []),
        ve_json := (\<lambda>_. Some (PDict [(''metadata'', PDict [(''uid'', PStr ''u1'')]), (''spec'', PDict [(''replicas'', PInt 3)])]))\<rparr>,
      bv_k8s = ax_k8s sample_env, bv_registry = Inr sample_registry, bv_binding = False, bv_rules = [], bv_kg = None,
      REMEDIATION_BRIDGE_ENABLED = True, EXECUTOR_ENABLED = True, EXECUTOR_APPROVAL_ENABLED = True,
      REMEDIATION_BRIDGE_DEDUP_SECONDS = 21600, EXECUTOR_DISPATCH = ''inline'', bv_queue_answers = False,
      bv_post = (\<lambda>_. Inr (Some (PStr ''m1''))), bv_token = ''abcdef'', bv_words = sample_words\<rparr>"

definition sample_ctx :: enriched where
  "sample_ctx = \<lparr>ec_incident = (from_alertmanager sample_alert 0)\<lparr>in_labels := [(''alertname'', ''CPUThrottlingHigh''),
     (''namespace'', ''squad-1''), (''deployment'', ''api'')], in_namespace := Some ''squad-1''\<rparr>,
     ec_service = Some ''api'', ec_pod_name = None, ec_rule_facts = []\<rparr>"

definition sample_apply :: "kv apply_env" where
  "sample_apply = sample_env\<lparr>ax_verify := bv_verify sample_bridge, ax_registry := Inr sample_registry\<rparr>"

lemma sample_digest: "hex_digest (\<lambda>_. replicate 64 CHR ''a'')"
  by (simp add: hex_digest_def list_all_iff ch_hex_def)

lemma sample_clock_reads: "parse_utc_ts sample_clock (PStr (isoformat sample_clock 0)) = Some 0"
  by code_simp

lemma sample_posted:
  "case plan_proposals sample_bridge 0 sample_ctx sample_facts sample_world of
     (Inr [p], w) \<Rightarrow> ei_params (pr_intent p) = [(''replicas'', PInt 4), (''current_replicas'', PInt 3)] \<and>
       fst (handle_proposal sample_bridge 0 (ec_incident sample_ctx) p (empty_db, w, [])) = OUTCOME_PROPOSED
   | _ \<Rightarrow> False"
  by code_simp

lemma sample_apply_shares:
  "ve_sha (bv_verify sample_bridge) = (\<lambda>_. replicate 64 CHR ''a'')" "ve_time (bv_verify sample_bridge) = sample_clock"
  "ax_verify sample_apply = bv_verify sample_bridge" "ax_registry sample_apply = bv_registry sample_bridge"
  "whole_seconds (0 - 0) \<le> or_default (INTENT_MAX_AGE_SECONDS sample_apply) 86400"
  by (simp_all add: sample_apply_def sample_bridge_def sample_env_def sample_verify_env_def whole_seconds_def or_default_def)

end
