(* ===== verification/Discord_Approvals.thy ===== *)
theory Discord_Approvals
  imports Executor_Apply Api_Guards
begin

text \<open>
  \<open>app/api/discord_interactions.py\<close>: the buttons. A person's click approves or declines a proposed action,
  starts it, or rates an analysis. The signature scheme (Ed25519), the JSON reader and the clock's
  text are parameters. A message to the person is a constructor with the texts it shows; the clock is
  read once per request, and in whole seconds where a signature's age is checked. A function that
  raises answers \<open>Inl\<close>, and what it had stored stays.
\<close>

section \<open>Settings, state, answers\<close>

record discord_env =
  DISCORD_PUBLIC_KEY :: string
  DISCORD_INTERACTION_MAX_AGE_SECONDS :: int
  DISCORD_APPROVERS_USER_IDS :: string
  DISCORD_APPROVERS_ROLE_IDS :: string
  DISCORD_APPROVAL_RATE_LIMIT_PER_HOUR :: int
  dv_EXECUTOR_ENABLED :: bool
  dv_EXECUTOR_APPROVAL_ENABLED :: bool
  dv_EXECUTOR_DISPATCH :: string
  dv_broker_error :: "string option"
  ed25519_verify :: "string \<Rightarrow> string \<Rightarrow> string \<Rightarrow> bool"
  dv_json_loads :: "string \<Rightarrow> pyval result"
  dv_strftime :: "int \<Rightarrow> string"

text \<open>An application that was started: in the background of the process, or as a task of the executor's queue.\<close>

record apply_task =
  tk_incident_id :: string
  tk_applied_by :: pyval
  tk_intent_sig :: string
  tk_token :: "pyval option"
  tk_queued :: bool

record discord_state =
  ds_db :: remediation_db
  ds_rate :: "(pyval \<times> int list) list"
  ds_tasks :: "apply_task list"
  ds_audit :: "(string \<times> pydict) list"
  ds_edits :: "(pyval \<times> pyval \<times> string \<times> string \<times> string) list"

datatype message =
    IncidentNotFound string | PositiveStored | ConfirmNegative | NegativeStored | FeedbackCancelled | FeedbackUnauthorized
  | BadCustomId | ApprovalDisabled | ApplyUnauthorized | ApplyRateLimited | ConfirmApply | TokenMissing
  | DecidedOtherwise string | ApplyNotQueued string | ApplyCancelled
  | ApproveUnauthorized | ApproveRateLimited | AlreadyDecided string string string | DeclinedBy string
  | ApprovedNotQueued string string | ApprovedLaunched string | ApprovedDisabled string | ApprovedExecutorOff string
  | UnknownAction

datatype response = HTTPError int | Pong | Ephemeral message "pyval list" | Deferred

definition audit :: "string \<Rightarrow> pydict \<Rightarrow> discord_state \<Rightarrow> discord_state" where
  "audit e d st = st\<lparr>ds_audit := ds_audit st @ [(e, d)]\<rparr>"

section \<open>Who may click\<close>

definition parse_csv_ids :: "string \<Rightarrow> string list" where
  "parse_csv_ids raw = filter (\<lambda>p. p \<noteq> []) (map strip (split_on (\<lambda>c. c = CHR '','') raw))"

text \<open>\<open>v.get(k, default)\<close>, which raises on what is not a dictionary.\<close>

definition py_get :: "pyval \<Rightarrow> string \<Rightarrow> pyval \<Rightarrow> pyval result" where
  "py_get v k dflt = (case v of PDict d \<Rightarrow> Inr (dget_or d k dflt) | _ \<Rightarrow> Inl AttributeError)"

definition or_else :: "pyval \<Rightarrow> pyval \<Rightarrow> pyval" where
  "or_else a b = (if truthy a then a else b)"

definition user_field :: "pyval \<Rightarrow> pyval \<Rightarrow> pyval result" where
  "user_field holder dflt = rbind (py_get holder ''user'' (PDict [])) (\<lambda>u. py_get u ''id'' dflt)"

definition is_authorized_approver :: "discord_env \<Rightarrow> pyval \<Rightarrow> (bool \<times> string) result" where
  "is_authorized_approver env payload =
     (let allowed_users = parse_csv_ids (DISCORD_APPROVERS_USER_IDS env);
          allowed_roles = parse_csv_ids (DISCORD_APPROVERS_ROLE_IDS env)
      in if allowed_users = [] \<and> allowed_roles = [] then Inr (False, ''no_approvers_configured'')
         else rbind (py_get payload ''member'' PNone) (\<lambda>m.
           let member = or_else m (PDict []) in
           rbind (user_field member PNone) (\<lambda>a.
           rbind (if truthy a then Inr a else user_field payload PNone) (\<lambda>b.
             let user_id = (if truthy b then py_str b else []) in
             if user_id \<noteq> [] \<and> user_id \<in> set allowed_users then Inr (True, ''ok_user_whitelist'')
             else rbind (py_get member ''roles'' PNone) (\<lambda>r.
               rbind (if \<not> truthy r then Inr [] else (case r of PList rs \<Rightarrow> Inr rs | _ \<Rightarrow> Inl TypeError)) (\<lambda>roles.
                 if list_ex (\<lambda>x. py_str x \<in> set allowed_roles) roles then Inr (True, ''ok_role_whitelist'')
                 else Inr (False, ''not_in_whitelist'')))))))"

definition RATE_WINDOW_SEC :: int where "RATE_WINDOW_SEC = 3600"

definition hashable :: "pyval \<Rightarrow> bool" where
  "hashable v = (case v of PList _ \<Rightarrow> False | PDict _ \<Rightarrow> False | _ \<Rightarrow> True)"

definition clicks_of :: "(pyval \<times> int list) list \<Rightarrow> pyval \<Rightarrow> int list" where
  "clicks_of rate u = (case find (\<lambda>(k, _). py_eq k u) rate of None \<Rightarrow> [] | Some (_, cs) \<Rightarrow> cs)"

definition put_clicks :: "(pyval \<times> int list) list \<Rightarrow> pyval \<Rightarrow> int list \<Rightarrow> (pyval \<times> int list) list" where
  "put_clicks rate u cs =
     (if list_ex (\<lambda>(k, _). py_eq k u) rate then map (\<lambda>(k, old). if py_eq k u then (k, cs) else (k, old)) rate
      else rate @ [(u, cs)])"

definition check_rate_limit :: "discord_env \<Rightarrow> int \<Rightarrow> pyval \<Rightarrow> discord_state \<Rightarrow> bool result \<times> discord_state" where
  "check_rate_limit env now user_id st =
     (let cap = DISCORD_APPROVAL_RATE_LIMIT_PER_HOUR env in
      if cap \<le> 0 \<or> \<not> truthy user_id then (Inr True, st)
      else if \<not> hashable user_id then (Inl TypeError, st)
      else (let clicks = dropWhile (\<lambda>t. t < now - RATE_WINDOW_SEC * 1000000) (clicks_of (ds_rate st) user_id)
            in if cap \<le> int (length clicks) then (Inr False, st\<lparr>ds_rate := put_clicks (ds_rate st) user_id clicks\<rparr>)
               else (Inr True, st\<lparr>ds_rate := put_clicks (ds_rate st) user_id (clicks @ [now])\<rparr>)))"

text \<open>The two gates: \<open>Some\<close> answer is a denial.\<close>

definition deny_apply ::
  "discord_env \<Rightarrow> int \<Rightarrow> pyval \<Rightarrow> pyval \<Rightarrow> string \<Rightarrow> discord_state \<Rightarrow> response option result \<times> discord_state" where
  "deny_apply env now payload user_id incident_id st =
     (case is_authorized_approver env payload of
        Inl e \<Rightarrow> (Inl e, st)
      | Inr (False, reason) \<Rightarrow>
          (Inr (Some (Ephemeral ApplyUnauthorized [])),
           audit ''EXECUTOR_APPLY_DENIED_UNAUTHORIZED''
             [(''incident_id'', PStr incident_id), (''discord_user_id'', user_id), (''reason'', PStr reason)] st)
      | Inr (True, _) \<Rightarrow>
          (case check_rate_limit env now user_id st of
             (Inl e, st1) \<Rightarrow> (Inl e, st1)
           | (Inr True, st1) \<Rightarrow> (Inr None, st1)
           | (Inr False, st1) \<Rightarrow>
               (Inr (Some (Ephemeral ApplyRateLimited [])),
                audit ''EXECUTOR_APPLY_DENIED_RATE_LIMIT''
                  [(''incident_id'', PStr incident_id), (''discord_user_id'', user_id)] st1)))"

definition deny_feedback ::
  "discord_env \<Rightarrow> pyval \<Rightarrow> pyval \<Rightarrow> string \<Rightarrow> discord_state \<Rightarrow> response option result \<times> discord_state" where
  "deny_feedback env payload user_id incident_id st =
     (case is_authorized_approver env payload of
        Inl e \<Rightarrow> (Inl e, st)
      | Inr (True, _) \<Rightarrow> (Inr None, st)
      | Inr (False, reason) \<Rightarrow>
          (Inr (Some (Ephemeral FeedbackUnauthorized [])),
           audit ''DISCORD_FEEDBACK_DENIED_UNAUTHORIZED''
             [(''incident_id'', PStr incident_id), (''discord_user_id'', user_id), (''reason'', PStr reason)] st))"

section \<open>Signature\<close>

record interaction =
  ix_signature :: string
  ix_timestamp :: string
  ix_body :: string

definition verify_signature :: "discord_env \<Rightarrow> int \<Rightarrow> interaction \<Rightarrow> bool" where
  "verify_signature env now rq \<longleftrightarrow>
     is_timestamp_fresh (Some (ix_timestamp rq)) (DISCORD_INTERACTION_MAX_AGE_SECONDS env) (seconds now) \<and>
     ed25519_verify env (DISCORD_PUBLIC_KEY env) (ix_signature rq) (ix_timestamp rq @ ix_body rq)"

section \<open>What a click stores\<close>

definition store_feedback :: "string \<Rightarrow> bool \<Rightarrow> pyval \<Rightarrow> discord_state \<Rightarrow> bool \<times> discord_state" where
  "store_feedback incident_id accepted user_id st =
     (case find_incident (ds_db st) incident_id of
        None \<Rightarrow> (False, st)
      | Some rec \<Rightarrow>
          (True, st\<lparr>ds_db := (ds_db st)\<lparr>db_incidents := map (\<lambda>r. if ir_row_id r = ir_row_id rec
             then r\<lparr>ir_is_accepted := Some (if accepted then ''ACCEPTED'' else ''REJECTED''),
                    ir_user_feedback := PDict [(''score'', PInt (if accepted then 5 else 1)), (''comment'', PNone),
                      (''discord_user_id'', user_id), (''source'', PStr ''discord_button'')]\<rparr>
             else r) (db_incidents (ds_db st))\<rparr>\<rparr>))"

record decided =
  dc_already_decided :: bool
  dc_status :: string
  dc_approved_by :: string
  dc_decided_at :: string

definition approval_id :: "ActionApproval list \<Rightarrow> int" where
  "approval_id rows = foldr max (map aa_id rows) 0 + 1"

text \<open>
  The insert and its unique pair. The table has no other writer that deletes, so the row of a collision
  is there.
\<close>

definition record_click :: "discord_env \<Rightarrow> int \<Rightarrow> string \<Rightarrow> string \<Rightarrow> string \<Rightarrow> pyval \<Rightarrow> discord_state \<Rightarrow> decided \<times> discord_state" where
  "record_click env now incident_id intent_signature status approved_by st =
     (let rows = db_approvals (ds_db st) in
      case load_approval rows incident_id intent_signature of
        Some existing \<Rightarrow>
          (\<lparr>dc_already_decided = True, dc_status = aa_status existing,
            dc_approved_by = (case aa_approved_by existing of None \<Rightarrow> ''?'' | Some n \<Rightarrow> if n = [] then ''?'' else n),
            dc_decided_at = (case aa_decided_at existing of None \<Rightarrow> ''?'' | Some t \<Rightarrow> dv_strftime env t)\<rparr>, st)
      | None \<Rightarrow>
          (\<lparr>dc_already_decided = False, dc_status = status, dc_approved_by = py_str approved_by,
            dc_decided_at = dv_strftime env now\<rparr>,
           st\<lparr>ds_db := (ds_db st)\<lparr>db_approvals := rows @
             [\<lparr>aa_id = approval_id rows, aa_incident_id = incident_id, aa_action = None,
               aa_intent_signature = intent_signature, aa_status = status, aa_approved_by = Some (py_str approved_by),
               aa_decided_at = Some now, aa_created_at = Some now\<rparr>]\<rparr>\<rparr>))"

section \<open>Buttons\<close>

text \<open>Their labels are left out.\<close>

definition button :: "int \<Rightarrow> string \<Rightarrow> pyval" where
  "button style custom_id = PDict [(''type'', PInt 2), (''style'', PInt style), (''custom_id'', PStr custom_id)]"

definition action_row :: "pyval list \<Rightarrow> pyval" where
  "action_row bs = PDict [(''type'', PInt 1), (''components'', PList bs)]"

definition confirm_neg_buttons :: "string \<Rightarrow> pyval list" where
  "confirm_neg_buttons incident_id =
     [action_row [button 4 (''feedback_neg_confirm_'' @ incident_id), button 2 (''feedback_neg_cancel_'' @ incident_id)]]"

definition confirm_apply_buttons :: "string \<Rightarrow> string \<Rightarrow> pyval list" where
  "confirm_apply_buttons incident_id intent_sig =
     [action_row [button 4 (''apply_confirm:'' @ incident_id @ '':'' @ intent_sig), button 2 (''apply_cancel:'' @ incident_id)]]"

text \<open>\<open>custom_id.split(":", 2)\<close> without its first part: \<open>None\<close> when there are fewer than three.\<close>

definition button_parts :: "string \<Rightarrow> (string \<times> string) option" where
  "button_parts custom_id =
     (let rest = drop 1 (dropWhile (\<lambda>c. c \<noteq> CHR '':'') custom_id);
          tail = dropWhile (\<lambda>c. c \<noteq> CHR '':'') rest
      in if tail = [] then None else Some (takeWhile (\<lambda>c. c \<noteq> CHR '':'') rest, tl tail))"

definition after :: "string \<Rightarrow> string \<Rightarrow> string" where
  "after prefix s = drop (length prefix) s"

definition user_name_of :: "pyval \<Rightarrow> pyval \<Rightarrow> pyval result" where
  "user_name_of payload user_id =
     rbind (py_get payload ''member'' PNone) (\<lambda>m.
     rbind (py_get (or_else m (PDict [])) ''user'' PNone) (\<lambda>a.
     rbind (if truthy a then Inr a else py_get payload ''user'' PNone) (\<lambda>b.
       let user_obj = or_else b (PDict []) in
       rbind (py_get user_obj ''username'' PNone) (\<lambda>u.
       rbind (py_get user_obj ''global_name'' PNone) (\<lambda>g.
         Inr (or_else u (or_else g (or_else user_id (PStr ''unknown'')))))))))"

definition add_task :: "apply_task \<Rightarrow> discord_state \<Rightarrow> discord_state" where
  "add_task t st = st\<lparr>ds_tasks := ds_tasks st @ [t]\<rparr>"

section \<open>The endpoint\<close>

definition click_user :: "pyval \<Rightarrow> pyval result" where
  "click_user payload =
     rbind (py_get payload ''member'' (PDict [])) (\<lambda>m.
     rbind (user_field m (PStr [])) (\<lambda>a.
       if truthy a then Inr a else user_field payload (PStr [])))"

definition custom_id_of :: "pyval \<Rightarrow> string result" where
  "custom_id_of payload =
     rbind (py_get payload ''data'' (PDict [])) (\<lambda>d.
     rbind (py_get d ''custom_id'' (PStr [])) (\<lambda>c. case c of PStr s \<Rightarrow> Inr s | _ \<Rightarrow> Inl AttributeError))"

definition feedback_click ::
  "discord_env \<Rightarrow> pyval \<Rightarrow> pyval \<Rightarrow> string \<Rightarrow> (discord_state \<Rightarrow> response \<times> discord_state) \<Rightarrow> discord_state
    \<Rightarrow> response result \<times> discord_state" where
  "feedback_click env payload user_id incident_id k st =
     (case deny_feedback env payload user_id incident_id st of
        (Inl e, st1) \<Rightarrow> (Inl e, st1)
      | (Inr (Some denied), st1) \<Rightarrow> (Inr denied, st1)
      | (Inr None, st1) \<Rightarrow> (case k st1 of (r, st2) \<Rightarrow> (Inr r, st2)))"

definition save_feedback :: "string \<Rightarrow> bool \<Rightarrow> pyval \<Rightarrow> discord_state \<Rightarrow> response \<times> discord_state" where
  "save_feedback incident_id accepted user_id st =
     (case store_feedback incident_id accepted user_id st of
        (False, st1) \<Rightarrow> (Ephemeral (IncidentNotFound incident_id) [], st1)
      | (True, st1) \<Rightarrow> (Ephemeral (if accepted then PositiveStored else NegativeStored) [], st1))"

definition apply_click ::
  "discord_env \<Rightarrow> int \<Rightarrow> pyval \<Rightarrow> pyval \<Rightarrow> string \<Rightarrow> (string \<Rightarrow> string \<Rightarrow> discord_state \<Rightarrow> response result \<times> discord_state)
    \<Rightarrow> discord_state \<Rightarrow> response result \<times> discord_state" where
  "apply_click env now payload user_id custom_id k st =
     (case button_parts custom_id of
        None \<Rightarrow> (Inr (Ephemeral BadCustomId []), st)
      | Some (incident_id, intent_sig) \<Rightarrow>
          if \<not> dv_EXECUTOR_APPROVAL_ENABLED env then (Inr (Ephemeral ApprovalDisabled []), st)
          else (case deny_apply env now payload user_id incident_id st of
                  (Inl e, st1) \<Rightarrow> (Inl e, st1)
                | (Inr (Some denied), st1) \<Rightarrow> (Inr denied, st1)
                | (Inr None, st1) \<Rightarrow> k incident_id intent_sig st1))"

definition queue_dispatch_enabled :: "discord_env \<Rightarrow> bool" where
  "queue_dispatch_enabled env \<longleftrightarrow> dv_EXECUTOR_DISPATCH env = ''queue''"

definition confirm_click ::
  "discord_env \<Rightarrow> int \<Rightarrow> pyval \<Rightarrow> pyval \<Rightarrow> string \<Rightarrow> string \<Rightarrow> discord_state \<Rightarrow> response result \<times> discord_state" where
  "confirm_click env now payload user_id incident_id intent_sig st =
     (case py_get payload ''token'' (PStr []) of
        Inl e \<Rightarrow> (Inl e, st)
      | Inr token \<Rightarrow>
          if \<not> truthy token then (Inr (Ephemeral TokenMissing []), st)
          else (case user_name_of payload user_id of
                  Inl e \<Rightarrow> (Inl e, st)
                | Inr user_name \<Rightarrow>
                    (case record_click env now incident_id intent_sig ''approved'' user_name st of
                       (d, st1) \<Rightarrow>
                         if dc_already_decided d \<and> dc_status d \<noteq> ''approved''
                         then (Inr (Ephemeral (DecidedOtherwise (dc_status d)) []), st1)
                         else
                           (let task = \<lparr>tk_incident_id = incident_id, tk_applied_by = user_id, tk_intent_sig = intent_sig,
                                  tk_token = Some token, tk_queued = queue_dispatch_enabled env\<rparr>
                            in if queue_dispatch_enabled env
                               then (case dv_broker_error env of
                                       Some e \<Rightarrow> (Inr (Ephemeral (ApplyNotQueued e) []), st1)
                                     | None \<Rightarrow> (Inr Deferred, add_task task st1))
                               else (Inr Deferred, add_task task st1)))))"

definition schedule_edit ::
  "pyval \<Rightarrow> pyval \<Rightarrow> string \<Rightarrow> string \<Rightarrow> string \<Rightarrow> discord_state \<Rightarrow> discord_state" where
  "schedule_edit channel_id message_id verdict user_name decided_at st =
     (if truthy message_id \<and> truthy channel_id
      then st\<lparr>ds_edits := ds_edits st @ [(channel_id, message_id, verdict, user_name, decided_at)]\<rparr> else st)"

definition click_details :: "string \<Rightarrow> string \<Rightarrow> pyval \<Rightarrow> pyval \<Rightarrow> pydict" where
  "click_details incident_id intent_sig user_id user_name =
     [(''incident_id'', PStr incident_id), (''intent_signature'', PStr intent_sig), (''discord_user_id'', user_id),
      (''discord_user_name'', user_name)]"

definition message_fields :: "pyval \<Rightarrow> (pyval \<times> pyval) result" where
  "message_fields payload =
     rbind (py_get payload ''message'' PNone) (\<lambda>m.
     let message = or_else m (PDict []) in
     rbind (py_get message ''id'' PNone) (\<lambda>message_id.
     rbind (py_get payload ''channel_id'' PNone) (\<lambda>c.
     rbind (py_get message ''channel_id'' PNone) (\<lambda>c'. Inr (message_id, or_else c c')))))"

text \<open>After the decision has been recorded for the first time.\<close>

definition decided_click ::
  "discord_env \<Rightarrow> string \<Rightarrow> string \<Rightarrow> string \<Rightarrow> pyval \<Rightarrow> pyval \<Rightarrow> pyval \<times> pyval \<Rightarrow> decided \<Rightarrow> discord_state
    \<Rightarrow> response \<times> discord_state" where
  "decided_click env verdict incident_id intent_sig user_id user_name ids d st =
     (let name = py_str user_name;
          edit = schedule_edit (snd ids) (fst ids) verdict name (dc_decided_at d);
          via_queue = (verdict = ''approved'' \<and> dv_EXECUTOR_ENABLED env \<and> dv_EXECUTOR_APPROVAL_ENABLED env \<and>
                       queue_dispatch_enabled env);
          st1 = (if via_queue then st else edit st);
          st2 = audit (if verdict = ''approved'' then ''INCIDENT_ACTION_APPROVED'' else ''INCIDENT_ACTION_DECLINED'')
                  (click_details incident_id intent_sig user_id user_name) st1;
          task = \<lparr>tk_incident_id = incident_id, tk_applied_by = user_name, tk_intent_sig = intent_sig,
                  tk_token = None, tk_queued = via_queue\<rparr>
      in if verdict = ''declined'' then (Ephemeral (DeclinedBy name) [], st2)
         else if dv_EXECUTOR_ENABLED env \<and> dv_EXECUTOR_APPROVAL_ENABLED env
         then (if via_queue
               then (case dv_broker_error env of
                       Some e \<Rightarrow> (Ephemeral (ApprovedNotQueued name e) [], st2)
                     | None \<Rightarrow> (Ephemeral (ApprovedLaunched name) [], edit (add_task task st2)))
               else (Ephemeral (ApprovedLaunched name) [], add_task task st2))
         else if dv_EXECUTOR_ENABLED env then (Ephemeral (ApprovedDisabled name) [], st2)
         else (Ephemeral (ApprovedExecutorOff name) [], st2))"

definition decision_click ::
  "discord_env \<Rightarrow> int \<Rightarrow> pyval \<Rightarrow> pyval \<Rightarrow> string \<Rightarrow> string \<Rightarrow> discord_state \<Rightarrow> response result \<times> discord_state" where
  "decision_click env now payload user_id custom_id verdict st =
     (case button_parts custom_id of
        None \<Rightarrow> (Inr (Ephemeral BadCustomId []), st)
      | Some (incident_id, intent_sig) \<Rightarrow>
     (case user_name_of payload user_id of
        Inl e \<Rightarrow> (Inl e, st)
      | Inr user_name \<Rightarrow>
          (let details = click_details incident_id intent_sig user_id user_name @ [(''verdict_attempted'', PStr verdict)] in
           case is_authorized_approver env payload of
             Inl e \<Rightarrow> (Inl e, st)
           | Inr (False, reason) \<Rightarrow>
               (Inr (Ephemeral ApproveUnauthorized []),
                audit (if reason = ''no_approvers_configured'' then ''DISCORD_APPROVAL_DENIED_NO_APPROVERS_CONFIGURED''
                       else ''DISCORD_APPROVAL_DENIED_UNAUTHORIZED'') (details @ [(''reason'', PStr reason)]) st)
           | Inr (True, _) \<Rightarrow>
               (case check_rate_limit env now user_id st of
                  (Inl e, st1) \<Rightarrow> (Inl e, st1)
                | (Inr False, st1) \<Rightarrow>
                    (Inr (Ephemeral ApproveRateLimited []), audit ''DISCORD_APPROVAL_DENIED_RATE_LIMIT'' details st1)
                | (Inr True, st1) \<Rightarrow>
                    (case message_fields payload of
                       Inl e \<Rightarrow> (Inl e, st1)
                     | Inr ids \<Rightarrow>
                         (case record_click env now incident_id intent_sig verdict user_name st1 of
                            (d, st2) \<Rightarrow>
                              if dc_already_decided d
                              then (Inr (Ephemeral (AlreadyDecided (dc_status d) (dc_approved_by d) (dc_decided_at d)) []), st2)
                              else (case decided_click env verdict incident_id intent_sig user_id user_name ids d st2 of
                                      (r, st3) \<Rightarrow> (Inr r, st3))))))))"

definition component_click ::
  "discord_env \<Rightarrow> int \<Rightarrow> pyval \<Rightarrow> pyval \<Rightarrow> string \<Rightarrow> discord_state \<Rightarrow> response result \<times> discord_state" where
  "component_click env now payload user_id custom_id st =
     (let feedback = (\<lambda>prefix. feedback_click env payload user_id (after prefix custom_id)) in
      if startswith custom_id ''feedback_pos_''
      then feedback ''feedback_pos_'' (save_feedback (after ''feedback_pos_'' custom_id) True user_id) st
      else if startswith custom_id ''feedback_neg_'' \<and> \<not> startswith custom_id ''feedback_neg_confirm_'' \<and>
              \<not> startswith custom_id ''feedback_neg_cancel_''
      then feedback ''feedback_neg_''
             (\<lambda>st1. (Ephemeral ConfirmNegative (confirm_neg_buttons (after ''feedback_neg_'' custom_id)), st1)) st
      else if startswith custom_id ''feedback_neg_confirm_''
      then feedback ''feedback_neg_confirm_'' (save_feedback (after ''feedback_neg_confirm_'' custom_id) False user_id) st
      else if startswith custom_id ''feedback_neg_cancel_'' then (Inr (Ephemeral FeedbackCancelled []), st)
      else if startswith custom_id ''apply:''
      then apply_click env now payload user_id custom_id
             (\<lambda>iid sig st1. (Inr (Ephemeral ConfirmApply (confirm_apply_buttons iid sig)), st1)) st
      else if startswith custom_id ''apply_confirm:''
      then apply_click env now payload user_id custom_id (confirm_click env now payload user_id) st
      else if startswith custom_id ''apply_cancel:'' then (Inr (Ephemeral ApplyCancelled []), st)
      else if startswith custom_id ''approve:'' then decision_click env now payload user_id custom_id ''approved'' st
      else if startswith custom_id ''decline:'' then decision_click env now payload user_id custom_id ''declined'' st
      else (Inr (Ephemeral UnknownAction []), st))"

definition discord_interactions :: "discord_env \<Rightarrow> int \<Rightarrow> interaction \<Rightarrow> discord_state \<Rightarrow> response result \<times> discord_state" where
  "discord_interactions env now rq st =
     (if DISCORD_PUBLIC_KEY env = [] then (Inr (HTTPError 503), st)
      else if \<not> verify_signature env now rq then (Inr (HTTPError 401), st)
      else (case rbind (dv_json_loads env (ix_body rq)) (\<lambda>payload.
                   rbind (py_get payload ''type'' PNone) (\<lambda>kind. Inr (payload, kind))) of
              Inl e \<Rightarrow> (Inl e, st)
            | Inr (payload, kind) \<Rightarrow>
                if \<not> py_eq kind (PInt 3) then (Inr Pong, st)
                else (case rbind (custom_id_of payload) (\<lambda>c. rbind (click_user payload) (\<lambda>u. Inr (c, u))) of
                        Inl e \<Rightarrow> (Inl e, st)
                      | Inr (custom_id, user_id) \<Rightarrow> component_click env now payload user_id custom_id st)))"

section \<open>Lemmas\<close>

lemma audit_keeps [simp]:
  "ds_db (audit e d st) = ds_db st" "ds_tasks (audit e d st) = ds_tasks st" "ds_rate (audit e d st) = ds_rate st"
  by (simp_all add: audit_def)

lemma schedule_edit_keeps [simp]:
  "ds_db (schedule_edit c m v u t st) = ds_db st" "ds_tasks (schedule_edit c m v u t st) = ds_tasks st"
  by (simp_all add: schedule_edit_def)

lemma add_task_simps [simp]: "ds_db (add_task t st) = ds_db st" "ds_tasks (add_task t st) = ds_tasks st @ [t]"
  by (simp_all add: add_task_def)

lemma check_rate_limit_keeps:
  "check_rate_limit env now u st = (r, st') \<Longrightarrow> ds_db st' = ds_db st \<and> ds_tasks st' = ds_tasks st"
  by (auto simp: check_rate_limit_def Let_def split: if_splits)

lemma deny_apply_keeps:
  "deny_apply env now p u iid st = (r, st') \<Longrightarrow> ds_db st' = ds_db st \<and> ds_tasks st' = ds_tasks st"
  by (auto simp: deny_apply_def split: sum.splits prod.splits bool.splits dest!: check_rate_limit_keeps)

lemma deny_feedback_keeps:
  "deny_feedback env p u iid st = (r, st') \<Longrightarrow> ds_db st' = ds_db st \<and> ds_tasks st' = ds_tasks st"
  by (auto simp: deny_feedback_def split: sum.splits prod.splits bool.splits)

lemma feedback_keeps:
  assumes "feedback_click env payload u iid k st = (r, st')"
    and "\<And>s. db_approvals (ds_db (snd (k s))) = db_approvals (ds_db s) \<and> ds_tasks (snd (k s)) = ds_tasks s"
  shows "db_approvals (ds_db st') = db_approvals (ds_db st) \<and> ds_tasks st' = ds_tasks st"
  using assms(1) assms(2)
  by (auto simp: feedback_click_def split: sum.splits prod.splits option.splits dest!: deny_feedback_keeps) (metis snd_conv)+

lemma save_feedback_keeps:
  "db_approvals (ds_db (snd (save_feedback iid acc u s))) = db_approvals (ds_db s) \<and> ds_tasks (snd (save_feedback iid acc u s)) = ds_tasks s"
  by (auto simp: save_feedback_def store_feedback_def split: option.splits prod.splits bool.splits)

text \<open>Which decisions a click may add, and which application it may start.\<close>

definition passed_gates :: "discord_env \<Rightarrow> int \<Rightarrow> pyval \<Rightarrow> pyval \<Rightarrow> discord_state \<Rightarrow> bool" where
  "passed_gates env now payload user_id st \<longleftrightarrow>
     (\<exists>reason. is_authorized_approver env payload = Inr (True, reason)) \<and>
     (\<exists>st1. check_rate_limit env now user_id st = (Inr True, st1))"

definition decides :: "int \<Rightarrow> string \<Rightarrow> string \<Rightarrow> string \<Rightarrow> ActionApproval list \<Rightarrow> ActionApproval list \<Rightarrow> bool" where
  "decides now iid sig verdict rows rows' \<longleftrightarrow>
     rows' = rows \<or>
     (load_approval rows iid sig = None \<and>
      (\<exists>a. rows' = rows @ [a] \<and> aa_incident_id a = iid \<and> aa_intent_signature a = sig \<and> aa_status a = verdict \<and>
           aa_decided_at a = Some now))"

definition starts :: "discord_env \<Rightarrow> string \<Rightarrow> string \<Rightarrow> discord_state \<Rightarrow> discord_state \<Rightarrow> bool" where
  "starts env iid sig st st' \<longleftrightarrow>
     ds_tasks st' = ds_tasks st \<or>
     (\<exists>t. ds_tasks st' = ds_tasks st @ [t] \<and> tk_incident_id t = iid \<and> tk_intent_sig t = sig \<and>
          dv_EXECUTOR_APPROVAL_ENABLED env \<and>
          (\<exists>a. load_approval (db_approvals (ds_db st')) iid sig = Some a \<and> aa_status a = ''approved''))"

definition click_effect :: "discord_env \<Rightarrow> int \<Rightarrow> pyval \<Rightarrow> pyval \<Rightarrow> string \<Rightarrow> string \<Rightarrow> discord_state \<Rightarrow> discord_state \<Rightarrow> bool" where
  "click_effect env now payload user_id custom_id verdict st st' \<longleftrightarrow>
     db_approvals (ds_db st') = db_approvals (ds_db st) \<and> ds_tasks st' = ds_tasks st \<or>
     (\<exists>iid sig. button_parts custom_id = Some (iid, sig) \<and> passed_gates env now payload user_id st \<and>
        decides now iid sig verdict (db_approvals (ds_db st)) (db_approvals (ds_db st')) \<and> starts env iid sig st st')"

lemma record_click_decides:
  assumes "record_click env now iid sig verdict u st = (d, st')"
  shows "decides now iid sig verdict (db_approvals (ds_db st)) (db_approvals (ds_db st')) \<and> ds_tasks st' = ds_tasks st \<and>
    (\<exists>a. load_approval (db_approvals (ds_db st')) iid sig = Some a \<and> aa_status a = dc_status d) \<and>
    (\<not> dc_already_decided d \<longrightarrow> dc_status d = verdict)"
proof (cases "load_approval (db_approvals (ds_db st)) iid sig")
  case None
  then have "load_approval (db_approvals (ds_db st) @ [a]) iid sig = Some a"
    if "aa_incident_id a = iid" "aa_intent_signature a = sig" for a
    using that by (simp add: load_approval_def find_append)
  with None assms show ?thesis by (auto simp: record_click_def Let_def decides_def)
qed (use assms in \<open>auto simp: record_click_def Let_def decides_def\<close>)

lemma decided_click_effect:
  assumes "decided_click env verdict iid sig u n ids d st = (r, st')"
  shows "ds_db st' = ds_db st \<and> (ds_tasks st' = ds_tasks st \<or>
    (verdict \<noteq> ''declined'' \<and> dv_EXECUTOR_APPROVAL_ENABLED env \<and>
     (\<exists>t. ds_tasks st' = ds_tasks st @ [t] \<and> tk_incident_id t = iid \<and> tk_intent_sig t = sig)))"
  using assms by (auto simp: decided_click_def Let_def split: if_splits option.splits)

lemma decision_click_effect:
  assumes "decision_click env now payload u custom_id verdict st = (r, st')" and "verdict \<in> {''approved'', ''declined''}"
  shows "click_effect env now payload u custom_id verdict st st'"
proof (cases "db_approvals (ds_db st') = db_approvals (ds_db st) \<and> ds_tasks st' = ds_tasks st")
  case False
  with assms(1) obtain iid sig n reason st1 ids d st2 r3 where
    parts: "button_parts custom_id = Some (iid, sig)" and auth: "is_authorized_approver env payload = Inr (True, reason)"
    and rate: "check_rate_limit env now u st = (Inr True, st1)"
    and rc: "record_click env now iid sig verdict n st1 = (d, st2)" "\<not> dc_already_decided d"
    and dc: "decided_click env verdict iid sig u n ids d st2 = (r3, st')"
    by (auto simp: decision_click_def Let_def record_click_def split: option.splits sum.splits prod.splits bool.splits if_splits
        dest!: check_rate_limit_keeps)
  show ?thesis
    using parts auth rate check_rate_limit_keeps [OF rate] record_click_decides [OF rc(1)] rc(2) decided_click_effect [OF dc] assms(2)
    by (auto simp: click_effect_def passed_gates_def starts_def)
qed (simp add: click_effect_def)

lemma deny_apply_passed:
  "deny_apply env now payload u iid st = (Inr None, st') \<Longrightarrow> passed_gates env now payload u st"
  by (auto simp: deny_apply_def passed_gates_def split: sum.splits prod.splits bool.splits)

lemma apply_click_effect:
  assumes "apply_click env now payload u custom_id k st = (r, st')"
    and "\<And>iid sig s r s'. k iid sig s = (r, s') \<Longrightarrow> dv_EXECUTOR_APPROVAL_ENABLED env \<Longrightarrow>
      decides now iid sig ''approved'' (db_approvals (ds_db s)) (db_approvals (ds_db s')) \<and> starts env iid sig s s'"
  shows "click_effect env now payload u custom_id ''approved'' st st'"
proof (cases "db_approvals (ds_db st') = db_approvals (ds_db st) \<and> ds_tasks st' = ds_tasks st")
  case False
  with assms(1) obtain iid sig st1 where parts: "button_parts custom_id = Some (iid, sig)"
    and on: "dv_EXECUTOR_APPROVAL_ENABLED env" and deny: "deny_apply env now payload u iid st = (Inr None, st1)"
    and k: "k iid sig st1 = (r, st')"
    by (auto simp: apply_click_def split: option.splits sum.splits prod.splits if_splits dest!: deny_apply_keeps)
  have "decides now iid sig ''approved'' (db_approvals (ds_db st)) (db_approvals (ds_db st'))" "starts env iid sig st st'"
    using assms(2) [OF k on] deny_apply_keeps [OF deny] by (simp_all add: starts_def)
  with parts deny_apply_passed [OF deny] show ?thesis by (auto simp: click_effect_def)
qed (simp add: click_effect_def)

lemma confirm_click_effect:
  assumes "confirm_click env now payload u iid sig st = (r, st')" and "dv_EXECUTOR_APPROVAL_ENABLED env"
  shows "decides now iid sig ''approved'' (db_approvals (ds_db st)) (db_approvals (ds_db st')) \<and> starts env iid sig st st'"
proof (cases "st' = st")
  case False
  with assms(1) obtain token n where token: "py_get payload ''token'' (PStr []) = Inr token" "truthy token"
    and n: "user_name_of payload u = Inr n"
    by (auto simp: confirm_click_def split: sum.splits if_splits)
  obtain d st1 where rc: "record_click env now iid sig ''approved'' n st = (d, st1)" by fastforce
  have "st' = st1 \<or> ((\<not> dc_already_decided d \<or> dc_status d = ''approved'') \<and> ds_db st' = ds_db st1 \<and>
      (\<exists>t. ds_tasks st' = ds_tasks st1 @ [t] \<and> tk_incident_id t = iid \<and> tk_intent_sig t = sig))"
    using assms(1) token n rc by (auto simp: confirm_click_def Let_def split: if_splits option.splits)
  with record_click_decides [OF rc] assms(2) show ?thesis by (auto simp: starts_def)
qed (simp add: decides_def starts_def)

text \<open>The buttons that decide, and what they decide.\<close>

definition deciding :: "string \<Rightarrow> string \<Rightarrow> bool" where
  "deciding custom_id verdict \<longleftrightarrow>
     (if verdict = ''declined'' then startswith custom_id ''decline:''
      else verdict = ''approved'' \<and> (startswith custom_id ''approve:'' \<or> startswith custom_id ''apply_confirm:''))"

lemma apply_first_keeps:
  "apply_click env now payload u custom_id (\<lambda>iid sig s. (f iid sig, s)) st = (r, st') \<Longrightarrow>
    ds_db st' = ds_db st \<and> ds_tasks st' = ds_tasks st"
  by (auto simp: apply_click_def split: option.splits sum.splits prod.splits if_splits dest!: deny_apply_keeps)

lemma if_eqE:
  assumes "(if b then x else y) = z" and "b \<Longrightarrow> x = z \<Longrightarrow> P" and "\<not> b \<Longrightarrow> y = z \<Longrightarrow> P"
  shows P
  using assms by (cases b) simp_all

lemma component_click_effect:
  assumes "component_click env now payload u custom_id st = (r, st')"
    and changed: "\<not> (db_approvals (ds_db st') = db_approvals (ds_db st) \<and> ds_tasks st' = ds_tasks st)"
  shows "\<exists>verdict. deciding custom_id verdict \<and> click_effect env now payload u custom_id verdict st st'"
proof -
  from changed have f: "feedback_click env payload u iid k st = (r, st') \<Longrightarrow>
      (\<And>s. db_approvals (ds_db (snd (k s))) = db_approvals (ds_db s) \<and> ds_tasks (snd (k s)) = ds_tasks s) \<Longrightarrow> False" for iid k
    using feedback_keeps by blast
  have n: "feedback_click env payload u iid (\<lambda>s. (x, s)) st \<noteq> (r, st')" for iid x
    using f [of iid "\<lambda>s. (x, s)"] by auto
  have s: "feedback_click env payload u iid (save_feedback iid' acc u) st \<noteq> (r, st')" for iid iid' acc
    using f save_feedback_keeps by blast
  have a: "apply_click env now payload u custom_id (\<lambda>iid sig s. (g iid sig, s)) st \<noteq> (r, st')" for g
    using changed apply_first_keeps by metis
  have same: "st \<noteq> st'" using changed by auto
  consider
    "startswith custom_id ''apply_confirm:''" "apply_click env now payload u custom_id (confirm_click env now payload u) st = (r, st')"
  | "startswith custom_id ''approve:''" "decision_click env now payload u custom_id ''approved'' st = (r, st')"
  | "startswith custom_id ''decline:''" "decision_click env now payload u custom_id ''declined'' st = (r, st')"
    using assms(1) unfolding component_click_def Let_def
    apply (elim if_eqE)
             apply (blast dest: s [THEN notE])
            apply (blast dest: n [THEN notE])
           apply (blast dest: s [THEN notE])
          apply (simp add: same)
         apply (erule a [THEN notE])
        apply blast
       apply (simp add: same)
      apply blast
     apply blast
    apply (simp add: same)
    done
  then show ?thesis
  proof cases
    case 1
    have "click_effect env now payload u custom_id ''approved'' st st'"
      using 1(2) by (rule apply_click_effect) (rule confirm_click_effect)
    moreover from 1(1) have "deciding custom_id ''approved''" unfolding deciding_def by simp
    ultimately show ?thesis by blast
  next
    case 2
    have "click_effect env now payload u custom_id ''approved'' st st'"
      using 2(2) by (rule decision_click_effect) simp
    moreover from 2(1) have "deciding custom_id ''approved''" unfolding deciding_def by simp
    ultimately show ?thesis by blast
  next
    case 3
    have "click_effect env now payload u custom_id ''declined'' st st'"
      using 3(2) by (rule decision_click_effect) simp
    moreover from 3(1) have "deciding custom_id ''declined''" unfolding deciding_def by simp
    ultimately show ?thesis by blast
  qed
qed

lemma interaction_effect:
  assumes "discord_interactions env now rq st = (res, st')"
    and "\<not> (db_approvals (ds_db st') = db_approvals (ds_db st) \<and> ds_tasks st' = ds_tasks st)"
  obtains payload custom_id user verdict iid sig where "verify_signature env now rq"
    and "dv_json_loads env (ix_body rq) = Inr payload" and "custom_id_of payload = Inr custom_id" and "click_user payload = Inr user"
    and "deciding custom_id verdict" and "button_parts custom_id = Some (iid, sig)" and "passed_gates env now payload user st"
    and "decides now iid sig verdict (db_approvals (ds_db st)) (db_approvals (ds_db st'))" and "starts env iid sig st st'"
proof -
  from assms obtain payload custom_id user where v: "verify_signature env now rq"
    and p: "dv_json_loads env (ix_body rq) = Inr payload" "custom_id_of payload = Inr custom_id" "click_user payload = Inr user"
    and c: "component_click env now payload user custom_id st = (res, st')"
    by (auto simp: discord_interactions_def rbind_eq_Inr split: if_splits sum.splits)
  from component_click_effect [OF c assms(2)] obtain verdict where "deciding custom_id verdict"
    "click_effect env now payload user custom_id verdict st st'" by blast
  with v p assms(2) show thesis by (auto simp: click_effect_def intro: that)
qed

text \<open>A sequence of clicks, each with the settings and the time it meets.\<close>

fun clicks :: "(discord_env \<times> int \<times> interaction) list \<Rightarrow> discord_state \<Rightarrow> discord_state" where
  "clicks [] st = st"
| "clicks ((env, now, rq) # rest) st = clicks rest (snd (discord_interactions env now rq st))"

lemma decides_keeps:
  "decides now iid sig v rows rows' \<Longrightarrow> load_approval rows iid' sig' = Some a \<Longrightarrow> load_approval rows' iid' sig' = Some a"
  by (auto simp: decides_def load_approval_def find_append)

lemma interaction_keeps_decision:
  assumes "load_approval (db_approvals (ds_db st)) iid sig = Some a"
  shows "load_approval (db_approvals (ds_db (snd (discord_interactions env now rq st)))) iid sig = Some a"
proof -
  obtain res st' where d: "discord_interactions env now rq st = (res, st')" by fastforce
  show ?thesis
  proof (cases "db_approvals (ds_db st') = db_approvals (ds_db st) \<and> ds_tasks st' = ds_tasks st")
    case False
    from interaction_effect [OF d this] assms show ?thesis unfolding d by (metis decides_keeps snd_conv)
  qed (use assms d in simp)
qed

lemma clicks_keep_decision:
  "load_approval (db_approvals (ds_db st)) iid sig = Some a \<Longrightarrow> load_approval (db_approvals (ds_db (clicks xs st))) iid sig = Some a"
  by (induction xs arbitrary: st) (auto simp: interaction_keeps_decision)

section \<open>Properties\<close>

text \<open>
  C6. Only an approver decides, and only about what the button names: a request that adds a row of approvals
  or starts an application carries a fresh signature by Discord's key over its timestamp and body,
  comes from a listed person or role, within that person's hourly number of clicks, through a button
  that approves, declines or confirms; the row is about the incident and the signature in the button,
  has the button's verdict and the time of the click, and there was none for the pair before; at most one
  application is started, of the same pair, with executions switched on, and the pair is approved.
\<close>

theorem only_approvers_decide:
  assumes "discord_interactions env now rq st = (res, st')"
    and "\<not> (db_approvals (ds_db st') = db_approvals (ds_db st) \<and> ds_tasks st' = ds_tasks st)"
  shows "\<exists>payload custom_id user verdict iid sig. verify_signature env now rq \<and>
    dv_json_loads env (ix_body rq) = Inr payload \<and> custom_id_of payload = Inr custom_id \<and> click_user payload = Inr user \<and>
    deciding custom_id verdict \<and> button_parts custom_id = Some (iid, sig) \<and> passed_gates env now payload user st \<and>
    decides now iid sig verdict (db_approvals (ds_db st)) (db_approvals (ds_db st')) \<and> starts env iid sig st st'"
  using interaction_effect [OF assms] by metis

text \<open>
  C25. A decision is final, and so is its age: once an approval of an incident's action has become too old,
  no later click of anyone, whatever the settings, makes it fresh again, and the apply path refuses the
  action as \<open>approval_stale\<close> for good, although that refusal asks for a new approval.
\<close>

theorem stale_approval_is_final:
  assumes "load_approval (db_approvals (ds_db st)) iid sig = Some a" and "lower (aa_status a) = ''approved''"
    and "approval_is_stale now a max_age" and "now \<le> later"
  shows "check_approval later max_age (db_approvals (ds_db (clicks xs st))) iid sig = Inl (Refuse ''approval_stale'' [])"
  using clicks_keep_decision [OF assms(1), of xs] assms(2-)
  by (auto simp: check_approval_def approval_is_stale_def split: option.splits)

section \<open>Witnesses\<close>

definition sample_click_payload :: pyval where
  "sample_click_payload = PDict
     [(''type'', PInt 3), (''data'', PDict [(''custom_id'', PStr ''approve:inc-1:abc'')]),
      (''member'', PDict [(''user'', PDict [(''id'', PStr ''7''), (''username'', PStr ''op'')]), (''roles'', PList [])]),
      (''channel_id'', PStr ''c1''), (''message'', PDict [(''id'', PStr ''m1'')])]"

definition sample_discord :: discord_env where
  "sample_discord = \<lparr>DISCORD_PUBLIC_KEY = ''key'', DISCORD_INTERACTION_MAX_AGE_SECONDS = 300, DISCORD_APPROVERS_USER_IDS = ''5, 7'',
     DISCORD_APPROVERS_ROLE_IDS = [], DISCORD_APPROVAL_RATE_LIMIT_PER_HOUR = 5, dv_EXECUTOR_ENABLED = True,
     dv_EXECUTOR_APPROVAL_ENABLED = True, dv_EXECUTOR_DISPATCH = ''inline'', dv_broker_error = None,
     ed25519_verify = (\<lambda>key signature text. signature = key), dv_json_loads = (\<lambda>_. Inr sample_click_payload), dv_strftime = (\<lambda>_. ''00:00 UTC'')\<rparr>"

definition sample_click :: interaction where
  "sample_click = \<lparr>ix_signature = ''key'', ix_timestamp = ''0'', ix_body = ''{}''\<rparr>"

definition sample_discord_state :: discord_state where
  "sample_discord_state = \<lparr>ds_db = empty_db, ds_rate = [], ds_tasks = [], ds_audit = [], ds_edits = []\<rparr>"

lemma sample_click_decides:
  "case discord_interactions sample_discord 0 sample_click sample_discord_state of (res, st) \<Rightarrow>
     map (\<lambda>a. (aa_incident_id a, aa_intent_signature a, aa_status a)) (db_approvals (ds_db st)) = [(''inc-1'', ''abc'', ''approved'')] \<and>
     map (\<lambda>t. (tk_incident_id t, tk_intent_sig t)) (ds_tasks st) = [(''inc-1'', ''abc'')]"
  by code_simp

theorem only_approvers_decide_witness:
  "\<exists>st verdict. snd (discord_interactions sample_discord 0 sample_click sample_discord_state) = st \<and> ds_tasks st \<noteq> [] \<and>
     deciding ''approve:inc-1:abc'' verdict \<and> verify_signature sample_discord 0 sample_click \<and>
     passed_gates sample_discord 0 sample_click_payload (PStr ''7'') sample_discord_state"
proof -
  obtain res st where d: "discord_interactions sample_discord 0 sample_click sample_discord_state = (res, st)" by fastforce
  with sample_click_decides have t: "ds_tasks st \<noteq> []" by auto
  then have "\<not> (db_approvals (ds_db st) = db_approvals (ds_db sample_discord_state) \<and> ds_tasks st = ds_tasks sample_discord_state)"
    by (simp add: sample_discord_state_def)
  from only_approvers_decide [OF d this] obtain payload c u verdict where
    v: "verify_signature sample_discord 0 sample_click" "dv_json_loads sample_discord (ix_body sample_click) = Inr payload"
      "custom_id_of payload = Inr c" "click_user payload = Inr u" "deciding c verdict" "passed_gates sample_discord 0 payload u sample_discord_state"
    by blast
  then have "payload = sample_click_payload" by (simp add: sample_discord_def)
  moreover have "custom_id_of sample_click_payload = Inr ''approve:inc-1:abc''" "click_user sample_click_payload = Inr (PStr ''7'')"
    by code_simp+
  ultimately show ?thesis using d t v by auto
qed

theorem stale_approval_is_final_witness:
  "\<exists>db. load_approval (db_approvals db) ''inc-1'' ''abc'' \<noteq> None \<and>
     check_approval 9000000000 3600 (db_approvals (ds_db (clicks [(sample_discord, 8000000000, sample_click)]
       (sample_discord_state\<lparr>ds_db := db\<rparr>)))) ''inc-1'' ''abc'' = Inl (Refuse ''approval_stale'' [])"
proof -
  let ?a = "\<lparr>aa_id = 1, aa_incident_id = ''inc-1'', aa_action = None, aa_intent_signature = ''abc'',
       aa_status = ''approved'', aa_approved_by = Some ''op'', aa_decided_at = Some 0, aa_created_at = Some 0\<rparr> :: ActionApproval"
  let ?db = "empty_db\<lparr>db_approvals := [?a]\<rparr>"
  have l: "load_approval (db_approvals (ds_db (sample_discord_state\<lparr>ds_db := ?db\<rparr>))) ''inc-1'' ''abc'' = Some ?a"
    by (simp add: load_approval_def)
  have "lower (aa_status ?a) = ''approved''" by code_simp
  moreover have "approval_is_stale 7000000000 ?a 3600" by (simp add: approval_is_stale_def)
  moreover have "(7000000000 :: int) \<le> 9000000000" by simp
  ultimately have "check_approval 9000000000 3600 (db_approvals (ds_db (clicks [(sample_discord, 8000000000, sample_click)]
       (sample_discord_state\<lparr>ds_db := ?db\<rparr>)))) ''inc-1'' ''abc'' = Inl (Refuse ''approval_stale'' [])"
    by (rule stale_approval_is_final [OF l])
  with l show ?thesis by (intro exI [of _ ?db]) simp
qed

end
