(* ===== verification/Approval_Flow.thy ===== *)
theory Approval_Flow
  imports Bridge Discord_Approvals
begin

text \<open>
  From a card to an authorised application: what the bridge posts (\<open>app/remediation/bridge.py\<close>), what a press of
  its button stores and starts (\<open>app/api/discord_interactions.py\<close>), and what the apply path then decides
  (\<open>app/services/executor_apply.py\<close>), put together.
\<close>

section \<open>A press of a deciding button\<close>

text \<open>
  A request by Discord about a message component with the given custom id, in time, by a listed person within
  the limit, with the fields the handler reads.
\<close>

definition valid_press :: "discord_env \<Rightarrow> int \<Rightarrow> interaction \<Rightarrow> string \<Rightarrow> discord_state \<Rightarrow> bool" where
  "valid_press env now rq custom_id st \<longleftrightarrow>
     DISCORD_PUBLIC_KEY env \<noteq> [] \<and> verify_signature env now rq \<and>
     (\<exists>payload user name ids. dv_json_loads env (ix_body rq) = Inr payload \<and> py_get payload ''type'' PNone = Inr (PInt 3) \<and>
        custom_id_of payload = Inr custom_id \<and> click_user payload = Inr user \<and> user_name_of payload user = Inr name \<and>
        message_fields payload = Inr ids \<and> passed_gates env now payload user st)"

text \<open>The settings that start an approved application, in the process or through a queue that answers.\<close>

definition starts_applications :: "discord_env \<Rightarrow> bool" where
  "starts_applications env \<longleftrightarrow> dv_EXECUTOR_ENABLED env \<and> dv_EXECUTOR_APPROVAL_ENABLED env \<and>
     (queue_dispatch_enabled env \<longrightarrow> dv_broker_error env = None)"

lemma button_parts_id:
  assumes "CHR '':'' \<notin> set act" and "CHR '':'' \<notin> set iid"
  shows "button_parts (button_id act iid sig) = Some (iid, sig)"
proof -
  have d: "dropWhile (\<lambda>c. c \<noteq> CHR '':'') (xs @ CHR '':'' # ys) = CHR '':'' # ys"
    and t: "takeWhile (\<lambda>c. c \<noteq> CHR '':'') (xs @ CHR '':'' # ys) = xs" if "CHR '':'' \<notin> set xs" for xs ys
    using that by (induction xs) auto
  show ?thesis using assms by (simp add: button_parts_def button_id_def d t Let_def)
qed

lemma approve_button_dispatch:
  "component_click env now payload u (button_id ''approve'' iid sig) st =
     decision_click env now payload u (button_id ''approve'' iid sig) ''approved'' st"
  by (simp add: component_click_def button_id_def Let_def)

text \<open>What the press stores and starts when nothing has been decided before.\<close>

lemma decided_click_starts:
  assumes "starts_applications env" and "decided_click env ''approved'' iid sig u n ids d st = (r, st')"
  shows "ds_db st' = ds_db st \<and> (\<exists>t. ds_tasks st' = ds_tasks st @ [t] \<and> tk_incident_id t = iid \<and> tk_intent_sig t = sig)"
  using assms by (auto simp: decided_click_def starts_applications_def Let_def split: if_splits option.splits)

lemma press_starts:
  assumes press: "valid_press env now rq (button_id ''approve'' iid sig) st"
    and "starts_applications env" and "CHR '':'' \<notin> set iid"
    and new: "load_approval (db_approvals (ds_db st)) iid sig = None"
    and run: "discord_interactions env now rq st = (res, st')"
  obtains a t where "ds_db st' = (ds_db st)\<lparr>db_approvals := db_approvals (ds_db st) @ [a]\<rparr>"
    and "aa_incident_id a = iid" and "aa_intent_signature a = sig" and "aa_status a = ''approved''" and "aa_decided_at a = Some now"
    and "ds_tasks st' = ds_tasks st @ [t]" and "tk_incident_id t = iid" and "tk_intent_sig t = sig"
proof -
  let ?c = "button_id ''approve'' iid sig"
  from press obtain payload user name ids reason st1 where
    k: "DISCORD_PUBLIC_KEY env \<noteq> []" "verify_signature env now rq" "dv_json_loads env (ix_body rq) = Inr payload"
      "py_get payload ''type'' PNone = Inr (PInt 3)" "custom_id_of payload = Inr ?c" "click_user payload = Inr user"
    and p: "user_name_of payload user = Inr name" "message_fields payload = Inr ids"
      "is_authorized_approver env payload = Inr (True, reason)" "check_rate_limit env now user st = (Inr True, st1)"
    by (auto simp: valid_press_def passed_gates_def)
  have "decision_click env now payload user ?c ''approved'' st = (res, st')"
    using run k by (simp add: discord_interactions_def approve_button_dispatch py_eq.simps)
  moreover obtain d st2 where rc: "record_click env now iid sig ''approved'' name st1 = (d, st2)" by fastforce
  moreover obtain r st3 where dc: "decided_click env ''approved'' iid sig user name ids d st2 = (r, st3)" by fastforce
  moreover note same = check_rate_limit_keeps [OF p(4)]
  moreover have "\<not> dc_already_decided d" using rc new same by (auto simp: record_click_def Let_def)
  ultimately have "st' = st3"
    using p button_parts_id [of "''approve''" iid sig] assms(3) by (simp add: decision_click_def Let_def)
  with decided_click_starts [OF assms(2) dc] obtain t where t: "ds_db st' = ds_db st2"
    "ds_tasks st' = ds_tasks st2 @ [t]" "tk_incident_id t = iid" "tk_intent_sig t = sig" by blast
  from rc new same show thesis
    by (intro that) (use t in \<open>auto simp: record_click_def Let_def\<close>)
qed

text \<open>The row of the press is the approval the apply path looks up, until it has aged out.\<close>

lemma press_approves:
  assumes "load_approval rows iid sig = None" and "aa_incident_id a = iid" and "aa_intent_signature a = sig"
    and "aa_status a = ''approved''" and "aa_decided_at a = Some pressed" and "now - pressed \<le> max_age * 1000000"
  shows "check_approval now max_age (rows @ [a]) iid sig = Inr ()"
proof -
  have "load_approval (rows @ [a]) iid sig = Some a" using assms(1-3) by (simp add: load_approval_def find_append)
  moreover have "lower ''approved'' = ''approved''" by code_simp
  ultimately show ?thesis using assms(4-) by (simp add: check_approval_def approval_is_stale_def)
qed

section \<open>Properties\<close>

text \<open>
  C4. The whole way of an approval: the bridge has posted a card for a planned proposal, and a listed person
  presses its approve button while nothing has been decided about it. Then exactly one application is
  started, about the incident row and the signature the card carries, and until the plan or the
  approval ages out the apply path authorises it, whoever it runs for, and for exactly the proposed intent.
  Between the alert and the cluster no check refuses what an earlier step built and a person approved.
\<close>

theorem approved_card_is_authorized:
  assumes "hex_digest (ve_sha (bv_verify env))" and token: "list_all ch_hex (bv_token env)"
    and "parse_utc_ts (ve_time (bv_verify env)) (PStr (isoformat (ve_time (bv_verify env)) shown)) = Some shown"
    and "plan_proposals env t ctx facts w = (Inr ps, w1)" and "p \<in> set ps"
    and "handle_proposal env shown (ec_incident ctx) p (db, w2, ls) = (OUTCOME_PROPOSED, db', w3, ls')"
    and "params_wf (ei_params (pr_intent p))"
    and "ve_sha (ax_verify ax) = ve_sha (bv_verify env)" and "ve_time (ax_verify ax) = ve_time (bv_verify env)"
    and "ax_registry ax = bv_registry env"
    and sig: "sig = compute_signature (ve_sha (bv_verify env)) (pr_intent p)"
  shows "\<exists>iid rec an m msg. bv_post env m = Inr (Some msg) \<and> PStr (button_id ''approve'' iid sig) \<in> set (card_buttons m) \<and>
    find_incident db' iid = Some rec \<and> analysis_of rec = Some an \<and>
    (\<forall>denv pressed rq st res st'. ds_db st = db' \<and> load_approval (db_approvals db') iid sig = None \<and>
       valid_press denv pressed rq (button_id ''approve'' iid sig) st \<and> starts_applications denv \<and>
       discord_interactions denv pressed rq st = (res, st') \<longrightarrow>
       (\<exists>task. ds_tasks st' = ds_tasks st @ [task] \<and> tk_incident_id task = iid \<and> tk_intent_sig task = sig \<and>
         find_incident (ds_db st') iid = Some rec \<and>
         (\<forall>now who. whole_seconds (now - shown) \<le> or_default (INTENT_MAX_AGE_SECONDS ax) 86400 \<and>
            now - pressed \<le> or_default (APPROVAL_MAX_AGE_SECONDS ax) 3600 * 1000000 \<longrightarrow>
            (\<exists>az. authorize ax now (ds_db st') rec an iid who (Some sig) = Inr az \<and> az_intent az = pr_intent p))))"
proof -
  from card_honoured [OF assms(1,3-10) sig] token obtain iid rec an m msg where
    card: "bv_post env m = Inr (Some msg)" "PStr (button_id ''approve'' iid sig) \<in> set (card_buttons m)"
      "find_incident db' iid = Some rec" "analysis_of rec = Some an" and colon: "CHR '':'' \<notin> set iid"
    and ok: "\<And>now approvals who. whole_seconds (now - shown) \<le> or_default (INTENT_MAX_AGE_SECONDS ax) 86400 \<Longrightarrow>
      check_approval now (or_default (APPROVAL_MAX_AGE_SECONDS ax) 3600) approvals iid sig = Inr () \<Longrightarrow>
      \<exists>az. authorize ax now (db'\<lparr>db_approvals := approvals\<rparr>) rec an iid who (Some sig) = Inr az \<and> az_intent az = pr_intent p"
    by (metis list.set_intros(1))
  have "\<exists>task. ds_tasks st' = ds_tasks st @ [task] \<and> tk_incident_id task = iid \<and> tk_intent_sig task = sig \<and>
      find_incident (ds_db st') iid = Some rec \<and>
      (\<forall>now who. whole_seconds (now - shown) \<le> or_default (INTENT_MAX_AGE_SECONDS ax) 86400 \<and>
         now - pressed \<le> or_default (APPROVAL_MAX_AGE_SECONDS ax) 3600 * 1000000 \<longrightarrow>
         (\<exists>az. authorize ax now (ds_db st') rec an iid who (Some sig) = Inr az \<and> az_intent az = pr_intent p))"
    if db: "ds_db st = db'" and new: "load_approval (db_approvals db') iid sig = None"
      and press: "valid_press denv pressed rq (button_id ''approve'' iid sig) st" "starts_applications denv"
        "discord_interactions denv pressed rq st = (res, st')" for denv pressed rq st res st'
  proof -
    from press_starts [OF press(1,2) colon new [folded db] press(3)] obtain a task where
      st': "ds_db st' = db'\<lparr>db_approvals := db_approvals db' @ [a]\<rparr>"
      and a: "aa_incident_id a = iid" "aa_intent_signature a = sig" "aa_status a = ''approved''" "aa_decided_at a = Some pressed"
      and task: "ds_tasks st' = ds_tasks st @ [task]" "tk_incident_id task = iid" "tk_intent_sig task = sig"
      unfolding db by metis
    have "find_incident (ds_db st') iid = Some rec" using card(3) by (simp add: st' find_incident_def)
    with task ok press_approves [OF new a] show ?thesis unfolding st' by blast
  qed
  with card show ?thesis by blast
qed

section \<open>Witness\<close>

definition press_payload :: "string \<Rightarrow> pyval" where
  "press_payload c = PDict
     [(''type'', PInt 3), (''data'', PDict [(''custom_id'', PStr c)]),
      (''member'', PDict [(''user'', PDict [(''id'', PStr ''7''), (''username'', PStr ''op'')])]),
      (''channel_id'', PStr ''c1''), (''message'', PDict [(''id'', PStr ''m1'')])]"

definition press_env :: "string \<Rightarrow> discord_env" where
  "press_env c = sample_discord\<lparr>dv_json_loads := (\<lambda>_. Inr (press_payload c))\<rparr>"

lemma sample_request_verified: "verify_signature (press_env c) 0 sample_click"
proof -
  have "is_timestamp_fresh (Some ''0'') 300 (seconds 0)" by code_simp
  then show ?thesis by (simp add: verify_signature_def press_env_def sample_discord_def sample_click_def)
qed

lemma press_payload_reads:
  "py_get (press_payload c) ''type'' PNone = Inr (PInt 3)" "custom_id_of (press_payload c) = Inr c"
  "click_user (press_payload c) = Inr (PStr ''7'')" "user_name_of (press_payload c) (PStr ''7'') = Inr (PStr ''op'')"
  "message_fields (press_payload c) = Inr (PStr ''m1'', PStr ''c1'')"
  by (simp_all add: press_payload_def py_get_def dget_or_def dget_def custom_id_of_def click_user_def user_field_def
      user_name_of_def message_fields_def or_else_def Let_def)

lemma press_passes: "passed_gates (press_env c) 0 (press_payload c) (PStr ''7'') (sample_discord_state\<lparr>ds_db := db\<rparr>)"
proof -
  have "parse_csv_ids ''5, 7'' = [''5'', ''7'']" by code_simp
  then have "is_authorized_approver (press_env c) (press_payload c) = Inr (True, ''ok_user_whitelist'')"
    by (simp add: is_authorized_approver_def press_env_def sample_discord_def press_payload_def py_get_def dget_or_def dget_def
        user_field_def or_else_def Let_def)
  moreover have "fst (check_rate_limit (press_env c) 0 (PStr ''7'') (sample_discord_state\<lparr>ds_db := db\<rparr>)) = Inr True"
    by (simp add: check_rate_limit_def press_env_def sample_discord_def sample_discord_state_def hashable_def clicks_of_def Let_def)
  ultimately show ?thesis unfolding passed_gates_def by (metis prod.collapse)
qed

lemma sample_press: "valid_press (press_env c) 0 sample_click c (sample_discord_state\<lparr>ds_db := db\<rparr>)"
proof -
  have "DISCORD_PUBLIC_KEY (press_env c) \<noteq> []" "dv_json_loads (press_env c) (ix_body sample_click) = Inr (press_payload c)"
    by (simp_all add: press_env_def sample_discord_def)
  then show ?thesis unfolding valid_press_def using sample_request_verified press_payload_reads press_passes by blast
qed

lemma sample_starts: "starts_applications (press_env c)"
  by (simp add: starts_applications_def press_env_def sample_discord_def queue_dispatch_enabled_def)

lemma bridge_keeps_approvals:
  assumes "handle_proposal env now inc p (db, w, ls) = (o', db', w', ls')"
    and "k8s_name (ei_namespace (pr_intent p))"
  shows "db_approvals db' = db_approvals db"
  using handle_proposal_frame [OF assms(2,1)] by (simp add: bridge_frame_def)

theorem approved_card_is_authorized_witness:
  "\<exists>(p :: Proposal) iid rec an (st :: discord_state) task az. ds_tasks st = [task] \<and> tk_incident_id task = iid \<and>
     dget (ei_params (pr_intent p)) ''replicas'' = PInt 4 \<and> find_incident (ds_db st) iid = Some rec \<and>
     authorize sample_apply 0 (ds_db st) rec an iid ''op'' (Some (tk_intent_sig task)) = Inr az \<and> az_intent az = pr_intent p"
proof -
  obtain p w where p: "plan_proposals sample_bridge 0 sample_ctx sample_facts sample_world = (Inr [p], w)"
    "ei_params (pr_intent p) = [(''replicas'', PInt 4), (''current_replicas'', PInt 3)]"
    "fst (handle_proposal sample_bridge 0 (ec_incident sample_ctx) p (empty_db, w, [])) = OUTCOME_PROPOSED"
    using sample_posted by (auto split: prod.splits sum.splits list.splits)
  obtain db w' ls where h: "handle_proposal sample_bridge 0 (ec_incident sample_ctx) p (empty_db, w, []) = (OUTCOME_PROPOSED, db, w', ls)"
    using p(3) by (metis eq_fst_iff)
  let ?sig = "compute_signature (ve_sha (bv_verify sample_bridge)) (pr_intent p)"
  have wf: "params_wf (ei_params (pr_intent p))"
    by (simp add: p(2) params_wf_def count_within_def has_key_def dget_def)
  have clock: "parse_utc_ts (ve_time (bv_verify sample_bridge)) (PStr (isoformat (ve_time (bv_verify sample_bridge)) 0)) = Some 0"
    by (simp only: sample_apply_shares sample_clock_reads)
  have token: "list_all ch_hex (bv_token sample_bridge)" by (simp add: sample_bridge_def ch_hex_def ch_digit_def)
  have mem: "p \<in> set [p]" by simp
  have "k8s_name (ei_namespace (pr_intent p))" using plan_proposals_planned [OF p(1) mem] by (auto simp: planned_def)
  then have rows: "db_approvals db = []" using bridge_keeps_approvals [OF h] by (simp add: empty_db_def)
  from approved_card_is_authorized [OF sample_digest [folded sample_apply_shares(1)] token clock p(1) mem h wf _ _ _ refl, of sample_apply]
  obtain iid rec an where
    a: "\<And>denv pressed rq st res st'. ds_db st = db \<and> load_approval (db_approvals db) iid ?sig = None \<and>
       valid_press denv pressed rq (button_id ''approve'' iid ?sig) st \<and> starts_applications denv \<and>
       discord_interactions denv pressed rq st = (res, st') \<longrightarrow>
       (\<exists>task. ds_tasks st' = ds_tasks st @ [task] \<and> tk_incident_id task = iid \<and> tk_intent_sig task = ?sig \<and>
         find_incident (ds_db st') iid = Some rec \<and>
         (\<forall>now who. whole_seconds (now - 0) \<le> or_default (INTENT_MAX_AGE_SECONDS sample_apply) 86400 \<and>
            now - pressed \<le> or_default (APPROVAL_MAX_AGE_SECONDS sample_apply) 3600 * 1000000 \<longrightarrow>
            (\<exists>az. authorize sample_apply now (ds_db st') rec an iid who (Some ?sig) = Inr az \<and> az_intent az = pr_intent p)))"
    by (auto simp: sample_apply_shares)
  let ?c = "button_id ''approve'' iid ?sig"
  obtain res st' where d: "discord_interactions (press_env ?c) 0 sample_click (sample_discord_state\<lparr>ds_db := db\<rparr>) = (res, st')" by fastforce
  have "load_approval (db_approvals db) iid ?sig = None" by (simp add: rows load_approval_def)
  then obtain task where t: "ds_tasks st' = [task]" "tk_incident_id task = iid" "tk_intent_sig task = ?sig" "find_incident (ds_db st') iid = Some rec"
    and z: "\<forall>now who. whole_seconds (now - 0) \<le> or_default (INTENT_MAX_AGE_SECONDS sample_apply) 86400 \<and>
            now - 0 \<le> or_default (APPROVAL_MAX_AGE_SECONDS sample_apply) 3600 * 1000000 \<longrightarrow>
            (\<exists>az. authorize sample_apply now (ds_db st') rec an iid who (Some ?sig) = Inr az \<and> az_intent az = pr_intent p)"
    using a [of "sample_discord_state\<lparr>ds_db := db\<rparr>" "press_env ?c" 0 sample_click res st'] sample_press sample_starts d
    by (auto simp: sample_discord_state_def)
  have "0 - 0 \<le> or_default (APPROVAL_MAX_AGE_SECONDS sample_apply) 3600 * 1000000"
    by (simp add: sample_apply_def sample_env_def or_default_def)
  with z sample_apply_shares(5) obtain az where
    "authorize sample_apply 0 (ds_db st') rec an iid ''op'' (Some ?sig) = Inr az" and same: "az_intent az = pr_intent p" by blast
  then have "authorize sample_apply 0 (ds_db st') rec an iid ''op'' (Some (tk_intent_sig task)) = Inr az" by (simp add: t(3))
  moreover have "dget (ei_params (pr_intent p)) ''replicas'' = PInt 4" by (simp add: p(2) dget_def)
  ultimately show ?thesis using t(1,2,4) same by blast
qed

end
