(* ===== verification/Task_Lock.thy ===== *)
theory Task_Lock
  imports Redis
begin

text \<open>
  \<open>app/workers/task_lock.py\<close>: the singleton lock of the periodic tasks. A run takes a short lease in Redis, a thread of its
  process renews it while the task runs, and the release removes only the run's own lock. The first part translates the
  functions; the second is the system of all runs of one lock, where runs start, renew, end and die in any order and a
  delete may come long after the read that allowed it. Times are microseconds of one clock, and a command of
  Redis happens at the time its caller read; \<open>'r redis_api\<close> is the parameter for Redis.
\<close>

section \<open>The functions\<close>

definition LOCK_KEY_PREFIX :: string where "LOCK_KEY_PREFIX = ''celery:lock:''"
definition SKIPPED_LOCKED :: string where "SKIPPED_LOCKED = ''already_running''"
definition LEASE_SECONDS :: int where "LEASE_SECONDS = 90"
definition SEC :: int where "SEC = 1000000"

record 'r lock_env =
  lk_api :: "'r redis_api"
  lk_name :: string
  lk_ttl :: int

definition lock_key :: "'r lock_env \<Rightarrow> string" where
  "lock_key env = LOCK_KEY_PREFIX @ lk_name env"

definition lease :: "'r lock_env \<Rightarrow> int" where
  "lease env = min LEASE_SECONDS (lk_ttl env)"

text \<open>The start of the wrapper: without a client, or when Redis raises, the task runs without the lock.\<close>

datatype start = RunUnlocked | SkipRun | RunLocked

definition acquire :: "'r lock_env \<Rightarrow> bool \<Rightarrow> int \<Rightarrow> string \<Rightarrow> 'r \<Rightarrow> start \<times> 'r" where
  "acquire env client now token r =
     (if \<not> client then (RunUnlocked, r)
      else (case r_set (lk_api env) r now (lock_key env) token (lease env * SEC) True of
              None \<Rightarrow> (RunUnlocked, r)
            | Some (acquired, r') \<Rightarrow> (if acquired then RunLocked else SkipRun, r')))"

text \<open>\<open>_compare_and_expire\<close>, one command on the server.\<close>

definition compare_and_expire :: "'r redis_api \<Rightarrow> int \<Rightarrow> string \<Rightarrow> string \<Rightarrow> int \<Rightarrow> 'r \<Rightarrow> (bool \<times> 'r) option" where
  "compare_and_expire api now key token secs r =
     (case r_get api r now key of
        None \<Rightarrow> None
      | Some v \<Rightarrow> if v = Some token then r_expire api r now key (secs * SEC) else Some (False, r))"

definition renew_seconds :: "'r lock_env \<Rightarrow> int \<Rightarrow> int" where
  "renew_seconds env remaining = max 1 (min (lease env) (remaining div SEC))"

definition renew_once :: "'r lock_env \<Rightarrow> int \<Rightarrow> string \<Rightarrow> int \<Rightarrow> 'r \<Rightarrow> bool \<times> 'r" where
  "renew_once env deadline token now r =
     (let remaining = deadline - now in
      if remaining \<le> 0 then (False, r)
      else (case compare_and_expire (lk_api env) now (lock_key env) token (renew_seconds env remaining) r of
              None \<Rightarrow> (True, r)
            | Some (owned, r') \<Rightarrow> (owned, r')))"

text \<open>\<open>_release\<close>: the read that decides, and the delete after it.\<close>

definition release_get :: "'r lock_env \<Rightarrow> int \<Rightarrow> string \<Rightarrow> 'r \<Rightarrow> bool" where
  "release_get env now token r \<longleftrightarrow> r_get (lk_api env) r now (lock_key env) = Some (Some token)"

definition release_delete :: "'r lock_env \<Rightarrow> int \<Rightarrow> 'r \<Rightarrow> 'r" where
  "release_delete env now r = (case r_delete (lk_api env) r now (lock_key env) of None \<Rightarrow> r | Some r' \<Rightarrow> r')"

definition skipped_result :: "'r lock_env \<Rightarrow> pyval" where
  "skipped_result env = PDict [(''skipped'', PStr SKIPPED_LOCKED), (''task'', PStr (lk_name env))]"

definition is_skipped :: "pyval \<Rightarrow> bool" where
  "is_skipped res = (case res of PDict d \<Rightarrow> py_eq (dget d ''skipped'') (PStr SKIPPED_LOCKED) | _ \<Rightarrow> False)"

section \<open>All runs of one lock\<close>

text \<open>
  A run is a number; its token is fresh (\<open>uuid4\<close>), so tokens are an injective function of runs. \<open>lk_until\<close> is the end of the
  lease a run was granted last, \<open>lk_renewer\<close> the deadline of its renewal thread while that may still act, which it
  may for a while after the task has ended, and \<open>lk_foreign\<close> records that a late delete removed another run's lock.
\<close>

datatype phase = Waiting | Unlocked | Skipped | Holding | Releasing | Deleting | Over | Dead

record 'r lock_state =
  lk_now :: int
  lk_redis :: 'r
  lk_phase :: "nat \<Rightarrow> phase"
  lk_renewer :: "nat \<Rightarrow> int option"
  lk_deadline :: "nat \<Rightarrow> int"
  lk_until :: "nat \<Rightarrow> int"
  lk_foreign :: bool

definition locked :: "phase \<Rightarrow> bool" where
  "locked ph \<longleftrightarrow> ph \<in> {Holding, Releasing, Deleting}"

definition start_phase :: "start \<Rightarrow> phase" where
  "start_phase x = (case x of RunUnlocked \<Rightarrow> Unlocked | SkipRun \<Rightarrow> Skipped | RunLocked \<Rightarrow> Holding)"

definition started :: "'r lock_env \<Rightarrow> nat \<Rightarrow> start \<Rightarrow> 'r \<Rightarrow> 'r lock_state \<Rightarrow> 'r lock_state" where
  "started env p x r' s =
     (let s1 = s\<lparr>lk_redis := r', lk_phase := (lk_phase s)(p := start_phase x)\<rparr> in
      if x = RunLocked
      then s1\<lparr>lk_deadline := (lk_deadline s)(p := lk_now s + lk_ttl env * SEC),
              lk_renewer := (lk_renewer s)(p := Some (lk_now s + lk_ttl env * SEC)),
              lk_until := (lk_until s)(p := lk_now s + lease env * SEC)\<rparr>
      else s1)"

definition renewed :: "'r lock_env \<Rightarrow> nat \<Rightarrow> int \<Rightarrow> bool \<times> 'r \<Rightarrow> 'r lock_state \<Rightarrow> 'r lock_state" where
  "renewed env p d res s =
     (if fst res
      then s\<lparr>lk_redis := snd res, lk_until := (lk_until s)(p := lk_now s + renew_seconds env (d - lk_now s) * SEC)\<rparr>
      else s\<lparr>lk_redis := snd res, lk_renewer := (lk_renewer s)(p := None)\<rparr>)"

text \<open>Starts of runs without a lock are left out: they touch nothing and the lock is meant to allow them.\<close>

inductive lock_step :: "'r lock_env \<Rightarrow> (nat \<Rightarrow> string) \<Rightarrow> 'r lock_state \<Rightarrow> 'r lock_state \<Rightarrow> bool"
  for env token where
  tick: "lk_now s \<le> t \<Longrightarrow> lock_step env token s (s\<lparr>lk_now := t\<rparr>)"
| start: "lk_phase s p = Waiting \<Longrightarrow> acquire env client (lk_now s) (token p) (lk_redis s) = (x, r') \<Longrightarrow>
    lock_step env token s (started env p x r' s)"
| renew: "lk_renewer s p = Some d \<Longrightarrow>
    lock_step env token s (renewed env p d (renew_once env d (token p) (lk_now s) (lk_redis s)) s)"
| finish: "lk_phase s p = Holding \<Longrightarrow> lock_step env token s (s\<lparr>lk_phase := (lk_phase s)(p := Releasing)\<rparr>)"
| renewer_ends: "lk_phase s p \<noteq> Holding \<Longrightarrow> lock_step env token s (s\<lparr>lk_renewer := (lk_renewer s)(p := None)\<rparr>)"
| release_read: "lk_phase s p = Releasing \<Longrightarrow>
    lock_step env token s (s\<lparr>lk_phase := (lk_phase s)(p :=
      (if release_get env (lk_now s) (token p) (lk_redis s) then Deleting else Over))\<rparr>)"
| release_del: "lk_phase s p = Deleting \<Longrightarrow>
    lock_step env token s (s\<lparr>lk_redis := release_delete env (lk_now s) (lk_redis s), lk_phase := (lk_phase s)(p := Over),
      lk_foreign := (lk_foreign s \<or> \<not> release_get env (lk_now s) (token p) (lk_redis s))\<rparr>)"
| die: "lock_step env token s (s\<lparr>lk_phase := (lk_phase s)(p := Dead), lk_renewer := (lk_renewer s)(p := None)\<rparr>)"

inductive_cases lock_stepE: "lock_step env token s s'"

definition lock_init :: "'r lock_env \<Rightarrow> ('r \<Rightarrow> string \<Rightarrow> entry option) \<Rightarrow> ('r \<Rightarrow> bool) \<Rightarrow> 'r lock_state \<Rightarrow> bool" where
  "lock_init env view up s \<longleftrightarrow>
     up (lk_redis s) \<and> live (view (lk_redis s)) (lk_now s) (lock_key env) = None \<and>
     lk_phase s = (\<lambda>_. Waiting) \<and> lk_renewer s = (\<lambda>_. None) \<and> \<not> lk_foreign s"

section \<open>The invariant\<close>

definition grant_ok :: "'r lock_env \<Rightarrow> 'r lock_state \<Rightarrow> nat \<Rightarrow> bool" where
  "grant_ok env s p \<longleftrightarrow> lk_until s p \<le> lk_now s + lease env * SEC \<and> lk_until s p \<le> lk_deadline s p + SEC"

definition lock_inv ::
  "'r lock_env \<Rightarrow> (nat \<Rightarrow> string) \<Rightarrow> ('r \<Rightarrow> string \<Rightarrow> entry option) \<Rightarrow> ('r \<Rightarrow> bool) \<Rightarrow> 'r lock_state \<Rightarrow> bool" where
  "lock_inv env token view up s \<longleftrightarrow>
     up (lk_redis s) \<and>
     (\<forall>p. lk_renewer s p \<noteq> None \<longrightarrow> lk_renewer s p = Some (lk_deadline s p) \<and> lk_phase s p \<noteq> Waiting) \<and>
     (\<forall>v e. live (view (lk_redis s)) (lk_now s) (lock_key env) = Some (v, e) \<longrightarrow>
        (\<exists>p. v = token p \<and> e = Some (lk_until s p) \<and> grant_ok env s p \<and> lk_phase s p \<noteq> Waiting)) \<and>
     (\<not> lk_foreign s \<longrightarrow>
        (\<forall>p. locked (lk_phase s p) \<and> lk_now s < lk_until s p \<longrightarrow>
           live (view (lk_redis s)) (lk_now s) (lock_key env) = Some (token p, Some (lk_until s p))))"

lemma lock_invI:
  assumes "up (lk_redis s)"
    and "\<And>p d. lk_renewer s p = Some d \<Longrightarrow> d = lk_deadline s p \<and> lk_phase s p \<noteq> Waiting"
    and "\<And>v e. live (view (lk_redis s)) (lk_now s) (lock_key env) = Some (v, e) \<Longrightarrow>
      \<exists>p. v = token p \<and> e = Some (lk_until s p) \<and> grant_ok env s p \<and> lk_phase s p \<noteq> Waiting"
    and "\<And>p. \<not> lk_foreign s \<Longrightarrow> locked (lk_phase s p) \<Longrightarrow> lk_now s < lk_until s p \<Longrightarrow>
      live (view (lk_redis s)) (lk_now s) (lock_key env) = Some (token p, Some (lk_until s p))"
  shows "lock_inv env token view up s"
  using assms by (auto simp: lock_inv_def)

lemma lock_invD:
  assumes "lock_inv env token view up s"
  shows "up (lk_redis s)"
    and "lk_renewer s p = Some d \<Longrightarrow> d = lk_deadline s p \<and> lk_phase s p \<noteq> Waiting"
    and "live (view (lk_redis s)) (lk_now s) (lock_key env) = Some (v, e) \<Longrightarrow>
      \<exists>p. v = token p \<and> e = Some (lk_until s p) \<and> grant_ok env s p \<and> lk_phase s p \<noteq> Waiting"
    and "\<not> lk_foreign s \<Longrightarrow> locked (lk_phase s p) \<Longrightarrow> lk_now s < lk_until s p \<Longrightarrow>
      live (view (lk_redis s)) (lk_now s) (lock_key env) = Some (token p, Some (lk_until s p))"
  using assms by (auto simp: lock_inv_def)

lemma lock_inv_phase:
  assumes inv: "lock_inv env token view up s" and "\<And>q. locked (f q) \<Longrightarrow> locked (lk_phase s q)"
    and "\<And>q. lk_phase s q \<noteq> Waiting \<Longrightarrow> f q \<noteq> Waiting" and "\<And>q d. g q = Some d \<Longrightarrow> lk_renewer s q = Some d"
  shows "lock_inv env token view up (s\<lparr>lk_phase := f, lk_renewer := g\<rparr>)"
proof (rule lock_invI)
  fix v e assume "live (view (lk_redis (s\<lparr>lk_phase := f, lk_renewer := g\<rparr>))) (lk_now (s\<lparr>lk_phase := f, lk_renewer := g\<rparr>)) (lock_key env) = Some (v, e)"
  then have "live (view (lk_redis s)) (lk_now s) (lock_key env) = Some (v, e)" by simp
  from lock_invD(3) [OF inv this] assms(3)
  show "\<exists>p. v = token p \<and> e = Some (lk_until (s\<lparr>lk_phase := f, lk_renewer := g\<rparr>) p) \<and>
      grant_ok env (s\<lparr>lk_phase := f, lk_renewer := g\<rparr>) p \<and> lk_phase (s\<lparr>lk_phase := f, lk_renewer := g\<rparr>) p \<noteq> Waiting"
    by (auto simp: grant_ok_def)
next
  fix q d assume "lk_renewer (s\<lparr>lk_phase := f, lk_renewer := g\<rparr>) q = Some d"
  then have "g q = Some d" by simp
  from lock_invD(2) [OF inv assms(4) [OF this]] assms(3)
  show "d = lk_deadline (s\<lparr>lk_phase := f, lk_renewer := g\<rparr>) q \<and> lk_phase (s\<lparr>lk_phase := f, lk_renewer := g\<rparr>) q \<noteq> Waiting" by simp
qed (use lock_invD(1,4) [OF inv] assms(2) in simp_all)

lemma lock_inv_set_phase:
  assumes "lock_inv env token view up s" and "locked ph \<Longrightarrow> locked (lk_phase s p)" and "ph \<noteq> Waiting"
  shows "lock_inv env token view up (s\<lparr>lk_phase := (lk_phase s)(p := ph)\<rparr>)"
proof -
  have "lock_inv env token view up (s\<lparr>lk_phase := (lk_phase s)(p := ph), lk_renewer := lk_renewer s\<rparr>)"
    by (rule lock_inv_phase [OF assms(1)]) (use assms(2,3) in \<open>auto split: if_splits\<close>)
  then show ?thesis by simp
qed

lemma lock_inv_no_renewer:
  assumes "lock_inv env token view up s"
  shows "lock_inv env token view up (s\<lparr>lk_renewer := (lk_renewer s)(p := None)\<rparr>)"
proof -
  have "lock_inv env token view up (s\<lparr>lk_phase := lk_phase s, lk_renewer := (lk_renewer s)(p := None)\<rparr>)"
    by (rule lock_inv_phase [OF assms]) (auto split: if_splits)
  then show ?thesis by simp
qed

lemma lease_bounds: "0 < lk_ttl env \<Longrightarrow> 1 \<le> lease env \<and> lease env \<le> lk_ttl env"
  by (simp add: lease_def LEASE_SECONDS_def)

lemma renew_seconds_bounds:
  assumes "0 < lk_ttl env" and "now < d"
  shows "renew_seconds env (d - now) * SEC \<le> lease env * SEC" "now + renew_seconds env (d - now) * SEC \<le> d + SEC"
    "0 < renew_seconds env (d - now)"
proof -
  have "renew_seconds env (d - now) \<le> lease env" using lease_bounds [OF assms(1)] by (simp add: renew_seconds_def)
  then show "renew_seconds env (d - now) * SEC \<le> lease env * SEC" by (simp add: SEC_def)
  have "(d - now) div SEC * SEC \<le> d - now" by (simp add: SEC_def)
  with assms(2) show "now + renew_seconds env (d - now) * SEC \<le> d + SEC"
    by (auto simp: renew_seconds_def SEC_def max_def min_def)
  show "0 < renew_seconds env (d - now)" by (simp add: renew_seconds_def)
qed

lemma live_later: "live m now k = Some (v, Some e) \<Longrightarrow> t < e \<Longrightarrow> live m t k = Some (v, Some e)"
  by (auto simp: live_def split: option.splits if_splits)

lemma live_earlier: "live m t k = Some (v, e) \<Longrightarrow> now \<le> t \<Longrightarrow> live m now k = Some (v, e)"
  by (cases e) (auto simp: live_def split: option.splits if_splits)

lemma live_until: "live m now k = Some (v, Some e) \<Longrightarrow> now < e"
  by (auto simp: live_def split: option.splits if_splits)

context redis
begin

text \<open>What each function does to a store, seen through its view.\<close>

lemma set_nx_cases:
  assumes "up r"
  obtains (free) r' where "live (view r) now k = None" and "r_set api r now k v ex True = Some (True, r')" and "up r'"
    and "live (view r') = live ((view r)(k \<mapsto> (v, Some (now + ex))))"
  | (taken) "live (view r) now k \<noteq> None" and "r_set api r now k v ex True = Some (False, r)"
proof (cases "live (view r) now k = None")
  case True
  then have "\<not> (True \<and> live (view r) now k \<noteq> None)" by simp
  from set_view [OF assms this, of v ex] show thesis using free True by blast
next
  case False
  from set_nx_lost [OF assms this] show thesis by (rule taken [OF False])
qed

lemma acquire_cases:
  assumes "lk_api env = api" and "up r" and "acquire env client now token r = (x, r')"
  obtains (run) "\<not> client" and "x = RunUnlocked" and "r' = r"
  | (lock) "client" and "x = RunLocked" and "live (view r) now (lock_key env) = None" and "up r'"
      and "live (view r') = live ((view r)(lock_key env \<mapsto> (token, Some (now + lease env * SEC))))"
  | (skip) "client" and "x = SkipRun" and "live (view r) now (lock_key env) \<noteq> None" and "r' = r"
proof (cases client)
  case True
  show thesis
  proof (rule set_nx_cases [OF assms(2), of now "lock_key env" token "lease env * SEC"])
    fix r1
    assume f: "live (view r) now (lock_key env) = None" and u: "up r1"
      and s: "r_set api r now (lock_key env) token (lease env * SEC) True = Some (True, r1)"
      and v: "live (view r1) = live ((view r)(lock_key env \<mapsto> (token, Some (now + lease env * SEC))))"
    have "x = RunLocked" "r1 = r'" using True assms(1,3) s by (simp_all add: acquire_def)
    from lock [OF True this(1) f u [unfolded this(2)] v [unfolded this(2)]] show thesis .
  next
    assume f: "live (view r) now (lock_key env) \<noteq> None"
      and s: "r_set api r now (lock_key env) token (lease env * SEC) True = Some (False, r)"
    have "x = SkipRun" "r' = r" using True assms(1,3) s by (simp_all add: acquire_def)
    from skip [OF True this(1) f this(2)] show thesis .
  qed
next
  case False
  then have "x = RunUnlocked" "r' = r" using assms(3) by (simp_all add: acquire_def)
  from run [OF False this] show thesis .
qed

lemma renew_cases:
  assumes "lk_api env = api" and "up r" and "renew_once env d token now r = (go, r')"
  obtains (kept) e where "go" and "now < d" and "live (view r) now (lock_key env) = Some (token, e)" and "up r'"
      and "live (view r') = live ((view r)(lock_key env \<mapsto> (token, Some (now + renew_seconds env (d - now) * SEC))))"
  | (lost) "\<not> go" and "r' = r"
proof (cases "now < d \<and> (\<exists>e. live (view r) now (lock_key env) = Some (token, e))")
  case True
  then obtain e where e: "live (view r) now (lock_key env) = Some (token, e)" by blast
  from expire_view [OF assms(2) e, of "renew_seconds env (d - now) * SEC"] obtain r1 where
    r1: "r_expire api r now (lock_key env) (renew_seconds env (d - now) * SEC) = Some (True, r1)" "up r1"
    "live (view r1) = live ((view r)(lock_key env \<mapsto> (token, Some (now + renew_seconds env (d - now) * SEC))))" by blast
  have "go \<and> r' = r1"
    using assms(1,3) True e r1(1) get_view [OF assms(2)] by (simp add: renew_once_def compare_and_expire_def Let_def)
  with True e r1 kept show thesis by blast
next
  case False
  then have "\<not> go \<and> r' = r"
    using assms(1,3) get_view [OF assms(2), of now "lock_key env"]
    by (cases "live (view r) now (lock_key env)") (auto simp: renew_once_def compare_and_expire_def Let_def split: if_splits)
  with lost show thesis by blast
qed

lemma release_get_iff:
  "lk_api env = api \<Longrightarrow> up r \<Longrightarrow> release_get env now token r \<longleftrightarrow> (\<exists>e. live (view r) now (lock_key env) = Some (token, e))"
  by (auto simp: release_get_def get_view)

lemma release_delete_view:
  assumes "lk_api env = api" and "up r"
  shows "up (release_delete env now r) \<and> live (view (release_delete env now r)) = live ((view r)(lock_key env := None))"
proof -
  from delete_view [OF assms(2), of now "lock_key env"] obtain r1 where
    "r_delete api r now (lock_key env) = Some r1" "up r1" "live (view r1) = live ((view r)(lock_key env := None))" by blast
  with assms(1) show ?thesis by (simp add: release_delete_def)
qed

text \<open>One preservation lemma for each rule that changes the store or the clock.\<close>

lemma lock_inv_tick:
  assumes inv: "lock_inv env token view up s" and "lk_now s \<le> t"
  shows "lock_inv env token view up (s\<lparr>lk_now := t\<rparr>)" (is "lock_inv _ _ _ _ ?s")
proof (rule lock_invI)
  fix v e assume "live (view (lk_redis ?s)) (lk_now ?s) (lock_key env) = Some (v, e)"
  then have "live (view (lk_redis s)) (lk_now s) (lock_key env) = Some (v, e)" using assms(2) by (auto intro: live_earlier)
  from lock_invD(3) [OF inv this] assms(2)
  show "\<exists>p. v = token p \<and> e = Some (lk_until ?s p) \<and> grant_ok env ?s p \<and> lk_phase ?s p \<noteq> Waiting"
    by (auto simp: grant_ok_def)
next
  fix p assume "\<not> lk_foreign ?s" "locked (lk_phase ?s p)" "lk_now ?s < lk_until ?s p"
  with lock_invD(4) [OF inv, of p] assms(2)
  show "live (view (lk_redis ?s)) (lk_now ?s) (lock_key env) = Some (token p, Some (lk_until ?s p))"
    by (auto intro: live_later)
qed (use lock_invD(1,2) [OF inv] in simp_all)

lemma lock_inv_start:
  assumes env: "lk_api env = api" "0 < lk_ttl env" and inv: "lock_inv env token view up s"
    and w: "lk_phase s p = Waiting" and a: "acquire env client (lk_now s) (token p) (lk_redis s) = (x, r')"
  shows "lock_inv env token view up (started env p x r' s)"
  using env(1) lock_invD(1) [OF inv] a
proof (cases rule: acquire_cases)
  case lock
  let ?s = "started env p x r' s" and ?t = "lk_now s + lease env * SEC"
  have t: "?t \<le> lk_now s + lk_ttl env * SEC + SEC" "lk_now s < ?t"
    using lease_bounds [OF env(2)] by (simp_all add: SEC_def)
  have s: "lk_redis ?s = r'" "lk_now ?s = lk_now s" "lk_until ?s p = ?t" "lk_phase ?s p = Holding" "lk_foreign ?s = lk_foreign s"
      "lk_deadline ?s p = lk_now s + lk_ttl env * SEC"
    and o: "\<And>q. q \<noteq> p \<Longrightarrow> lk_until ?s q = lk_until s q \<and> lk_phase ?s q = lk_phase s q \<and> lk_deadline ?s q = lk_deadline s q \<and>
      lk_renewer ?s q = lk_renewer s q" and "lk_renewer ?s p = Some (lk_deadline ?s p)"
    using lock(2) by (simp_all add: started_def start_phase_def Let_def)
  have k: "live (view r') (lk_now s) (lock_key env) = Some (token p, Some ?t)" using lock(5) t(2) by simp
  show ?thesis
  proof (rule lock_invI)
    fix v e assume "live (view (lk_redis ?s)) (lk_now ?s) (lock_key env) = Some (v, e)"
    with k s t show "\<exists>p. v = token p \<and> e = Some (lk_until ?s p) \<and> grant_ok env ?s p \<and> lk_phase ?s p \<noteq> Waiting"
      by (intro exI [of _ p]) (simp add: grant_ok_def)
  next
    fix q assume q: "\<not> lk_foreign ?s" "locked (lk_phase ?s q)" "lk_now ?s < lk_until ?s q"
    have "q = p"
    proof (rule ccontr)
      assume "q \<noteq> p"
      with q s(2,5) o lock_invD(4) [OF inv, of q] lock(3) show False by simp
    qed
    with k s show "live (view (lk_redis ?s)) (lk_now ?s) (lock_key env) = Some (token q, Some (lk_until ?s q))" by simp
  next
    fix q d assume "lk_renewer ?s q = Some d"
    with \<open>lk_renewer ?s p = Some (lk_deadline ?s p)\<close> s(4) o lock_invD(2) [OF inv, of q d]
    show "d = lk_deadline ?s q \<and> lk_phase ?s q \<noteq> Waiting" by (cases "q = p") simp_all
  qed (use s lock(4) in simp)
next
  case run
  with lock_inv_set_phase [OF inv, of Unlocked p] show ?thesis by (simp add: started_def start_phase_def locked_def)
next
  case skip
  with lock_inv_set_phase [OF inv, of Skipped p] show ?thesis by (simp add: started_def start_phase_def locked_def)
qed

lemma lock_inv_renew:
  assumes env: "lk_api env = api" "0 < lk_ttl env" and inj: "inj token" and inv: "lock_inv env token view up s"
    and d: "lk_renewer s p = Some d"
  shows "lock_inv env token view up (renewed env p d (renew_once env d (token p) (lk_now s) (lk_redis s)) s)"
proof -
  obtain go r' where r: "renew_once env d (token p) (lk_now s) (lk_redis s) = (go, r')" by fastforce
  let ?s = "renewed env p d (go, r') s" and ?t = "lk_now s + renew_seconds env (d - lk_now s) * SEC"
  from env(1) lock_invD(1) [OF inv] r have "lock_inv env token view up ?s"
  proof (cases rule: renew_cases)
    case (kept e)
    note b = renew_seconds_bounds [OF env(2) kept(2)]
    from b(3) have t: "lk_now s < ?t" by (simp add: SEC_def)
    have s: "lk_redis ?s = r'" "lk_now ?s = lk_now s" "lk_until ?s = (lk_until s)(p := ?t)" "lk_phase ?s = lk_phase s" "lk_foreign ?s = lk_foreign s"
      "lk_deadline ?s = lk_deadline s" "lk_renewer ?s = lk_renewer s"
      using kept(1) by (simp_all add: renewed_def)
    have k: "live (view r') (lk_now s) (lock_key env) = Some (token p, Some ?t)" using kept(5) t by simp
    show ?thesis
    proof (rule lock_invI)
      fix v e assume "live (view (lk_redis ?s)) (lk_now ?s) (lock_key env) = Some (v, e)"
      with k s b lock_invD(2) [OF inv d] show "\<exists>p. v = token p \<and> e = Some (lk_until ?s p) \<and> grant_ok env ?s p \<and> lk_phase ?s p \<noteq> Waiting"
        by (intro exI [of _ p]) (simp add: grant_ok_def)
    next
      fix q assume q: "\<not> lk_foreign ?s" "locked (lk_phase ?s q)" "lk_now ?s < lk_until ?s q"
      have "q = p"
      proof (rule ccontr)
        assume "q \<noteq> p"
        with q s lock_invD(4) [OF inv, of q] kept(3) have "token q = token p" by simp
        with inj \<open>q \<noteq> p\<close> show False by (simp add: inj_eq)
      qed
      with k s show "live (view (lk_redis ?s)) (lk_now ?s) (lock_key env) = Some (token q, Some (lk_until ?s q))" by simp
    qed (use s kept(4) lock_invD(2) [OF inv] in simp_all)
  next
    case lost
    with lock_inv_no_renewer [OF inv, of p] show ?thesis by (simp add: renewed_def)
  qed
  then show ?thesis by (simp add: r)
qed

lemma lock_inv_delete:
  assumes env: "lk_api env = api" and inj: "inj token" and inv: "lock_inv env token view up s"
  shows "lock_inv env token view up (s\<lparr>lk_redis := release_delete env (lk_now s) (lk_redis s), lk_phase := (lk_phase s)(p := Over),
      lk_foreign := (lk_foreign s \<or> \<not> release_get env (lk_now s) (token p) (lk_redis s))\<rparr>)" (is "lock_inv _ _ _ _ ?s")
proof (rule lock_invI)
  note del = release_delete_view [OF env lock_invD(1) [OF inv], of "lk_now s"]
  from del show "up (lk_redis ?s)" by simp
  fix q
  assume q: "\<not> lk_foreign ?s" "locked (lk_phase ?s q)" "lk_now ?s < lk_until ?s q"
  then have "q \<noteq> p" by (auto simp: locked_def)
  with q lock_invD(4) [OF inv, of q] have "live (view (lk_redis s)) (lk_now s) (lock_key env) = Some (token q, Some (lk_until s q))" by simp
  with q release_get_iff [OF env lock_invD(1) [OF inv], of "lk_now s" "token p"] have "token q = token p" by simp
  with inj \<open>q \<noteq> p\<close> show "live (view (lk_redis ?s)) (lk_now ?s) (lock_key env) = Some (token q, Some (lk_until ?s q))" by (simp add: inj_eq)
next
  fix q d assume "lk_renewer ?s q = Some d"
  with lock_invD(2) [OF inv, of q d] show "d = lk_deadline ?s q \<and> lk_phase ?s q \<noteq> Waiting" by simp
next
  fix v e assume "live (view (lk_redis ?s)) (lk_now ?s) (lock_key env) = Some (v, e)"
  with release_delete_view [OF env lock_invD(1) [OF inv], of "lk_now s"]
  show "\<exists>p. v = token p \<and> e = Some (lk_until ?s p) \<and> grant_ok env ?s p \<and> lk_phase ?s p \<noteq> Waiting" by simp
qed

lemma lock_inv_step:
  assumes env: "lk_api env = api" "0 < lk_ttl env" and inj: "inj token" and inv: "lock_inv env token view up s"
    and st: "lock_step env token s s'"
  shows "lock_inv env token view up s'"
  using st
proof (cases rule: lock_step.cases)
  case (tick t)
  with lock_inv_tick [OF inv] show ?thesis by simp
next
  case (start p client x r')
  with lock_inv_start [OF env inv] show ?thesis by simp
next
  case (renew p d)
  with lock_inv_renew [OF env inj inv] show ?thesis by simp
next
  case (release_del p)
  with lock_inv_delete [OF env(1) inj inv] show ?thesis by simp
next
  case (finish p)
  with lock_inv_set_phase [OF inv, of Releasing p] show ?thesis by (simp add: locked_def)
next
  case (renewer_ends p)
  with lock_inv_no_renewer [OF inv, of p] show ?thesis by simp
next
  case (release_read p)
  with lock_inv_set_phase [OF inv, of Deleting p] lock_inv_set_phase [OF inv, of Over p] show ?thesis by (simp add: locked_def)
next
  case (die p)
  with lock_inv_no_renewer [OF lock_inv_set_phase [OF inv], of Dead p p] show ?thesis by (simp add: locked_def)
qed

end

text \<open>The system of runs, over every server that has the laws of the interface.\<close>

definition lock_safe ::
  "'r lock_env \<Rightarrow> (nat \<Rightarrow> string) \<Rightarrow> ('r \<Rightarrow> string \<Rightarrow> entry option) \<Rightarrow> ('r \<Rightarrow> bool) \<Rightarrow> 'r lock_state \<Rightarrow> bool" where
  "lock_safe env token view up s \<longleftrightarrow>
     (redis (lk_api env) view up \<and> 0 < lk_ttl env \<and> inj token \<longrightarrow> lock_inv env token view up s)"

interpretation task_lock: invariant_system "lock_init env view up" "lock_step env token" "lock_safe env token view up"
  for env token view up
  by unfold_locales
    (simp add: lock_safe_def lock_init_def lock_inv_def locked_def, unfold lock_safe_def, blast intro: redis.lock_inv_step [OF _ refl])

lemma reachable_lock:
  assumes "redis (lk_api env) view up" and "0 < lk_ttl env" and "inj token"
    and "lock_init env view up s0" and "(lock_step env token)\<^sup>*\<^sup>* s0 s"
  shows "lock_inv env token view up s"
  using task_lock.reach_inv [OF assms(4,5)] assms(1-3) by (simp add: lock_safe_def)

text \<open>Another run's lock can only be removed by a delete that comes after its own lease has ended.\<close>

lemma foreign_delete_is_late:
  assumes "redis (lk_api env) view up" and inv: "lock_inv env token view up s"
    and "lock_step env token s s'" and "\<not> lk_foreign s" and "lk_foreign s'"
  shows "\<exists>q. lk_phase s q = Deleting \<and> lk_until s q \<le> lk_now s"
  using assms(3)
proof (cases rule: lock_step.cases)
  case (release_del q)
  then have "\<not> release_get env (lk_now s) (token q) (lk_redis s)" using assms(4,5) by simp
  then have "\<not> lk_now s < lk_until s q"
    using redis.release_get_iff [OF assms(1) refl lock_invD(1) [OF inv]] lock_invD(4) [OF inv assms(4), of q] release_del(2)
    by (auto simp: locked_def)
  with release_del(2) show ?thesis by auto
qed (use assms(4,5) in \<open>auto simp: started_def renewed_def Let_def split: if_splits\<close>)

lemma acquire_skips:
  assumes "redis (lk_api env) view up" and "up r" and "live (view r) now (lock_key env) \<noteq> None"
  shows "acquire env True now token r = (SkipRun, r)"
proof -
  obtain x r' where a: "acquire env True now token r = (x, r')" by fastforce
  with assms(3) have "x = SkipRun \<and> r' = r" by (elim redis.acquire_cases [OF assms(1) refl assms(2)]) simp_all
  with a show ?thesis by simp
qed

lemma acquire_takes:
  assumes "redis (lk_api env) view up" and "up r" and "live (view r) now (lock_key env) = None"
  shows "\<exists>r'. acquire env True now token r = (RunLocked, r')"
proof -
  obtain x r' where a: "acquire env True now token r = (x, r')" by fastforce
  with assms(3) have "x = RunLocked" by (elim redis.acquire_cases [OF assms(1) refl assms(2)]) simp_all
  with a show ?thesis by simp
qed

section \<open>Properties\<close>

text \<open>
  C26. The singleton lock excludes: in every interleaving of runs of one task that start, renew, finish, release and
  die, while some run's lease lasts there is no other run with a lease that lasts, and a run that starts is
  skipped. This can be lost in one way only, which the comment of \<open>_release\<close> accepts: a delete that is executed after
  the lease of its own run has ended.
\<close>

theorem locked_runs_exclude:
  assumes "redis (lk_api env) view up" and "0 < lk_ttl env" and "inj token"
    and "lock_init env view up s0" and "(lock_step env token)\<^sup>*\<^sup>* s0 s" and "\<not> lk_foreign s"
  shows "(\<forall>p. locked (lk_phase s p) \<and> lk_now s < lk_until s p \<longrightarrow>
      (\<forall>q. locked (lk_phase s q) \<and> lk_now s < lk_until s q \<longrightarrow> q = p) \<and>
      (\<forall>tok. acquire env True (lk_now s) tok (lk_redis s) = (SkipRun, lk_redis s))) \<and>
    (\<forall>s'. lock_step env token s s' \<and> lk_foreign s' \<longrightarrow> (\<exists>q. lk_phase s q = Deleting \<and> lk_until s q \<le> lk_now s))"
proof -
  note inv = reachable_lock [OF assms(1-5)]
  have "(\<forall>q. locked (lk_phase s q) \<and> lk_now s < lk_until s q \<longrightarrow> q = p) \<and>
      (\<forall>tok. acquire env True (lk_now s) tok (lk_redis s) = (SkipRun, lk_redis s))"
    if p: "locked (lk_phase s p)" "lk_now s < lk_until s p" for p
  proof (intro conjI allI impI)
    note k = lock_invD(4) [OF inv assms(6) p]
    fix q assume "locked (lk_phase s q) \<and> lk_now s < lk_until s q"
    with lock_invD(4) [OF inv assms(6), of q] k have "token q = token p" by simp
    with assms(3) show "q = p" by (simp add: inj_eq)
  next
    fix tok
    show "acquire env True (lk_now s) tok (lk_redis s) = (SkipRun, lk_redis s)"
      by (rule acquire_skips [OF assms(1) lock_invD(1) [OF inv]]) (simp add: lock_invD(4) [OF inv assms(6) p])
  qed
  with foreign_delete_is_late [OF assms(1) inv _ assms(6)] show ?thesis by blast
qed

text \<open>
  C27. The lock does not outlive its run: whatever runs have died in whatever state, once one lease has passed
  without a renewal the next run to start gets the lock, and no renewal holds it for more than a second past
  the ceiling of its run.
\<close>

theorem lock_frees_itself:
  assumes "redis (lk_api env) view up" and "0 < lk_ttl env" and "inj token"
    and "lock_init env view up s0" and "(lock_step env token)\<^sup>*\<^sup>* s0 s"
  shows "(\<forall>t tok. lk_now s + lease env * SEC \<le> t \<longrightarrow> (\<exists>r'. acquire env True t tok (lk_redis s) = (RunLocked, r'))) \<and>
    (\<forall>v e. live (view (lk_redis s)) (lk_now s) (lock_key env) = Some (v, e) \<longrightarrow>
       (\<exists>p. v = token p \<and> e = Some (lk_until s p) \<and> lk_until s p \<le> lk_deadline s p + SEC))"
proof -
  note inv = reachable_lock [OF assms]
  have "live (view (lk_redis s)) t (lock_key env) = None" if t: "lk_now s + lease env * SEC \<le> t" for t
  proof (rule ccontr)
    assume "live (view (lk_redis s)) t (lock_key env) \<noteq> None"
    then obtain v e where l: "live (view (lk_redis s)) t (lock_key env) = Some (v, e)" by auto
    have "lk_now s \<le> t" using t lease_bounds [OF assms(2)] by (simp add: SEC_def)
    from lock_invD(3) [OF inv live_earlier [OF l this]] live_until l t show False by (fastforce simp: grant_ok_def)
  qed
  with acquire_takes [OF assms(1) lock_invD(1) [OF inv]] lock_invD(3) [OF inv] show ?thesis
    by (fastforce simp: grant_ok_def)
qed

section \<open>Witnesses\<close>

definition sample_lock :: "kv lock_env" where
  "sample_lock = \<lparr>lk_api = kv_api, lk_name = ''kg_topology_sync'', lk_ttl = 3600\<rparr>"

definition sample_token :: "nat \<Rightarrow> string" where "sample_token p = replicate p CHR ''a''"

definition sample_runs :: "kv lock_state" where
  "sample_runs = \<lparr>lk_now = 0, lk_redis = [], lk_phase = (\<lambda>_. Waiting), lk_renewer = (\<lambda>_. None), lk_deadline = (\<lambda>_. 0),
     lk_until = (\<lambda>_. 0), lk_foreign = False\<rparr>"

lemma sample_lock_init: "lock_init sample_lock map_of (\<lambda>_. True) sample_runs"
  by (simp add: lock_init_def sample_runs_def live_def)

lemma sample_token_inj: "inj sample_token"
  by (rule injI) (metis length_replicate sample_token_def)

lemma sample_start:
  obtains s where "lock_step sample_lock sample_token sample_runs s" and "lk_phase s 1 = Holding" and "lk_until s 1 = 90000000"
    and "lk_now s = 0" and "\<not> lk_foreign s"
proof
  let ?s = "started sample_lock 1 RunLocked (snd (acquire sample_lock True 0 (sample_token 1) [])) sample_runs"
  have "fst (acquire sample_lock True 0 (sample_token 1) []) = RunLocked" by code_simp
  then have "acquire sample_lock True (lk_now sample_runs) (sample_token 1) (lk_redis sample_runs) =
      (RunLocked, snd (acquire sample_lock True 0 (sample_token 1) []))" by (simp add: sample_runs_def prod_eq_iff)
  from lock_step.start [where token = sample_token and s = sample_runs and p = 1, OF _ this] show "lock_step sample_lock sample_token sample_runs ?s" by (simp add: sample_runs_def)
qed (simp_all add: started_def start_phase_def sample_runs_def Let_def sample_lock_def lease_def LEASE_SECONDS_def SEC_def)

theorem locked_runs_exclude_witness:
  "\<exists>s :: kv lock_state. lk_phase s 1 = Holding \<and> lk_now s = 0 \<and> acquire sample_lock True 0 ''b'' (lk_redis s) = (SkipRun, lk_redis s)"
proof -
  obtain s where s: "lock_step sample_lock sample_token sample_runs s" "lk_phase s 1 = Holding" "lk_until s 1 = 90000000"
    "lk_now s = 0" "\<not> lk_foreign s" by (rule sample_start)
  have "redis (lk_api sample_lock) map_of (\<lambda>_. True)" "0 < lk_ttl sample_lock"
    using kv.redis_axioms by (simp_all add: sample_lock_def)
  note out = locked_runs_exclude [OF this sample_token_inj sample_lock_init r_into_rtranclp [of "lock_step sample_lock sample_token", OF s(1)] s(5),
      THEN conjunct1, rule_format, of 1, THEN conjunct2, rule_format]
  have "acquire sample_lock True (lk_now s) ''b'' (lk_redis s) = (SkipRun, lk_redis s)"
    using out s(2-4) by (simp add: locked_def)
  with s(2,4) show ?thesis by auto
qed

theorem lock_frees_itself_witness:
  "\<exists>(s :: kv lock_state) r'. lk_phase s 1 = Dead \<and> lk_now s = 0 \<and> acquire sample_lock True 90000000 ''b'' (lk_redis s) = (RunLocked, r')"
proof -
  obtain s where s: "lock_step sample_lock sample_token sample_runs s" "lk_now s = 0" by (rule sample_start)
  let ?s = "s\<lparr>lk_phase := (lk_phase s)(1 := Dead), lk_renewer := (lk_renewer s)(1 := None)\<rparr>"
  have "lock_step sample_lock sample_token s ?s" by (rule lock_step.die)
  with s(1) have r: "(lock_step sample_lock sample_token)\<^sup>*\<^sup>* sample_runs ?s" by (meson converse_rtranclp_into_rtranclp r_into_rtranclp)
  have "redis (lk_api sample_lock) map_of (\<lambda>_. True)" "0 < lk_ttl sample_lock"
    using kv.redis_axioms by (simp_all add: sample_lock_def)
  note free = lock_frees_itself [OF this sample_token_inj sample_lock_init r, THEN conjunct1, rule_format, of 90000000 "''b''"]
  have "lk_now ?s + lease sample_lock * SEC \<le> 90000000" using s(2) by (simp add: sample_lock_def lease_def LEASE_SECONDS_def SEC_def)
  from free [OF this] obtain r' where "acquire sample_lock True 90000000 ''b'' (lk_redis ?s) = (RunLocked, r')" by blast
  with s(2) show ?thesis by (intro exI [of _ ?s] exI [of _ r']) simp
qed

end
