(* ===== verification/Cost_Guard.thy ===== *)
theory Cost_Guard
  imports Prelude
begin

text \<open>
  \<open>app/services/cost_guard.py\<close>: the daily ceiling of what the language model may cost. The table of the ledger maps a day to
  microdollars, each of the two upserts is one step, and \<open>db_reply\<close> says what happened to it: it was done, it
  failed, or it was done and the answer did not arrive. Prices and costs are exact where the code has
  doubles, a text is the list of its UTF-8 bytes, and a day is a number.
\<close>

section \<open>Settings and verdicts\<close>

definition USD_SCALE :: int where "USD_SCALE = 1000000"

record cost_env =
  LLM_DAILY_BUDGET_USD :: pyval
  LLM_PRICE_PER_MTOK :: pyval
  LLM_PRICE_FALLBACK_INPUT :: pyval
  LLM_PRICE_FALLBACK_OUTPUT :: pyval
  MAX_TOKENS :: int

record BudgetVerdict =
  bv_allowed :: bool
  bv_reason :: string
  bv_spent_usd :: "rat option"
  bv_limit_usd :: rat
  bv_reserved_usd :: rat
  bv_day :: "int option"

type_synonym ledger = "int \<Rightarrow> int option"

datatype db_reply = Committed | Failed | Lost

section \<open>Prices\<close>

definition positive_float :: "pyval \<Rightarrow> rat option" where
  "positive_float v = (case to_float v of Inr (NFin q) \<Rightarrow> if q \<le> 0 then None else Some q | _ \<Rightarrow> None)"

definition limit_usd :: "cost_env \<Rightarrow> rat" where
  "limit_usd env =
     (let raw = LLM_DAILY_BUDGET_USD env
      in case positive_float (if truthy raw then raw else PFloat (FFin 0 0)) of None \<Rightarrow> 0 | Some q \<Rightarrow> q)"

definition price_table :: "cost_env \<Rightarrow> pydict" where
  "price_table env = (case LLM_PRICE_PER_MTOK env of PDict d \<Rightarrow> d | _ \<Rightarrow> [])"

definition valid_rate :: "pyval \<Rightarrow> rat option" where
  "valid_rate v = positive_float v"

definition rates_for :: "cost_env \<Rightarrow> string \<Rightarrow> rat \<times> rat" where
  "rates_for env model =
     (let fallback = (case valid_rate (LLM_PRICE_FALLBACK_INPUT env) of None \<Rightarrow> 15 | Some q \<Rightarrow> q,
                      case valid_rate (LLM_PRICE_FALLBACK_OUTPUT env) of None \<Rightarrow> 75 | Some q \<Rightarrow> q)
      in case dget (price_table env) model of
           PDict prices \<Rightarrow>
             (case (valid_rate (dget prices ''input''), valid_rate (dget prices ''output'')) of
                (Some i, Some o') \<Rightarrow> (i, o')
              | _ \<Rightarrow> fallback)
         | _ \<Rightarrow> fallback)"

definition estimate_cost_usd :: "cost_env \<Rightarrow> string \<Rightarrow> int \<Rightarrow> int \<Rightarrow> rat" where
  "estimate_cost_usd env model input_tokens output_tokens =
     (case rates_for env model of (in_price, out_price) \<Rightarrow>
        (of_int (max 0 input_tokens) * in_price + of_int (max 0 output_tokens) * out_price) / 1000000)"

definition max_output :: "cost_env \<Rightarrow> int" where
  "max_output env = (if MAX_TOKENS env = 0 then 4096 else MAX_TOKENS env)"

definition estimate_worst_case_usd :: "cost_env \<Rightarrow> string \<Rightarrow> string \<Rightarrow> rat" where
  "estimate_worst_case_usd env model prompt = estimate_cost_usd env model (int (length prompt)) (max_output env)"

section \<open>The ledger\<close>

text \<open>\<open>round\<close> of Python: to the even neighbour in the middle.\<close>

definition py_round :: "rat \<Rightarrow> int" where
  "py_round x =
     (let f = \<lfloor>x\<rfloor>; d = x - of_int f in
      if d < 1 / 2 then f else if 1 / 2 < d then f + 1 else if even f then f else f + 1)"

definition spent_micro :: "ledger \<Rightarrow> int \<Rightarrow> int" where
  "spent_micro led day = (case led day of None \<Rightarrow> 0 | Some n \<Rightarrow> n)"

definition apply_delta :: "int \<Rightarrow> int \<Rightarrow> ledger \<Rightarrow> ledger" where
  "apply_delta day delta led =
     led(day \<mapsto> (case led day of None \<Rightarrow> max delta 0 | Some n \<Rightarrow> max (n + delta) 0))"

definition reserve_atomic :: "int \<Rightarrow> int \<Rightarrow> int \<Rightarrow> ledger \<Rightarrow> int option \<times> ledger" where
  "reserve_atomic day micro limit_micro led =
     (if limit_micro < micro then (None, led)
      else (case led day of
              None \<Rightarrow> (Some micro, led(day \<mapsto> micro))
            | Some n \<Rightarrow> if n + micro \<le> limit_micro then (Some (n + micro), led(day \<mapsto> n + micro)) else (None, led)))"

text \<open>What the database did of an update, and whether its caller learns of it.\<close>

definition commit_reply :: "db_reply \<Rightarrow> 'a \<times> ledger \<Rightarrow> ledger \<Rightarrow> 'a option \<times> ledger" where
  "commit_reply rep res led =
     (case rep of Committed \<Rightarrow> (Some (fst res), snd res) | Failed \<Rightarrow> (None, led) | Lost \<Rightarrow> (None, snd res))"

definition spent_today_usd :: "bool \<Rightarrow> int \<Rightarrow> ledger \<Rightarrow> rat option" where
  "spent_today_usd readable day led = (if readable then Some (of_int (spent_micro led day) / of_int USD_SCALE) else None)"

definition verdict :: "bool \<Rightarrow> string \<Rightarrow> rat option \<Rightarrow> rat \<Rightarrow> BudgetVerdict" where
  "verdict allowed reason spent limit =
     \<lparr>bv_allowed = allowed, bv_reason = reason, bv_spent_usd = spent, bv_limit_usd = limit, bv_reserved_usd = 0, bv_day = None\<rparr>"

definition reserve_micro :: "rat \<Rightarrow> int" where
  "reserve_micro cost = max 1 \<lceil>cost * of_int USD_SCALE\<rceil>"

definition limit_micro :: "cost_env \<Rightarrow> int" where
  "limit_micro env = \<lfloor>limit_usd env * of_int USD_SCALE\<rfloor>"

definition reserve ::
  "cost_env \<Rightarrow> db_reply \<Rightarrow> bool \<Rightarrow> string \<Rightarrow> string \<Rightarrow> int \<Rightarrow> ledger \<Rightarrow> BudgetVerdict \<times> ledger" where
  "reserve env rep readable model prompt today led =
     (let limit = limit_usd env in
      if limit \<le> 0 then (verdict True ''budget_not_configured'' None 0, led)
      else
        (let cost = estimate_worst_case_usd env model prompt in
         case commit_reply rep (reserve_atomic today (reserve_micro cost) (limit_micro env) led) led of
           (None, led') \<Rightarrow> (verdict False ''budget_state_unknown'' None limit, led')
         | (Some None, led') \<Rightarrow> (verdict False ''daily_budget_exhausted'' (spent_today_usd readable today led') limit, led')
         | (Some (Some n), led') \<Rightarrow>
             (\<lparr>bv_allowed = True, bv_reason = ''within_budget'', bv_spent_usd = Some (of_int n / of_int USD_SCALE),
               bv_limit_usd = limit, bv_reserved_usd = cost, bv_day = Some today\<rparr>, led')))"

definition settle ::
  "cost_env \<Rightarrow> db_reply \<Rightarrow> BudgetVerdict \<Rightarrow> string \<Rightarrow> int \<Rightarrow> int \<Rightarrow> int \<Rightarrow> ledger \<Rightarrow> rat \<times> ledger" where
  "settle env rep v model input_tokens output_tokens today led =
     (let actual = estimate_cost_usd env model input_tokens output_tokens in
      if bv_reserved_usd v \<le> 0 then (actual, led)
      else
        (let delta = py_round ((actual - bv_reserved_usd v) * of_int USD_SCALE) in
         if delta = 0 then (actual, led)
         else
           (let day = (case bv_day v of None \<Rightarrow> today | Some d \<Rightarrow> d) in
            case commit_reply rep ((), apply_delta day delta led) led of
              (None, led') \<Rightarrow> (bv_reserved_usd v, led')
            | (Some _, led') \<Rightarrow> (actual, led'))))"

definition release :: "db_reply \<Rightarrow> BudgetVerdict \<Rightarrow> int \<Rightarrow> ledger \<Rightarrow> rat \<times> ledger" where
  "release rep v today led =
     (if bv_reserved_usd v \<le> 0 then (0, led)
      else
        (let micro = py_round (bv_reserved_usd v * of_int USD_SCALE);
             day = (case bv_day v of None \<Rightarrow> today | Some d \<Rightarrow> d)
         in case commit_reply rep ((), apply_delta day (- micro) led) led of
              (None, led') \<Rightarrow> (bv_reserved_usd v, led')
            | (Some _, led') \<Rightarrow> (0, led')))"

definition peek :: "cost_env \<Rightarrow> bool \<Rightarrow> int \<Rightarrow> ledger \<Rightarrow> BudgetVerdict" where
  "peek env readable today led =
     (let limit = limit_usd env in
      if limit \<le> 0 then verdict True ''budget_not_configured'' None 0
      else (case spent_today_usd readable today led of
              None \<Rightarrow> verdict False ''budget_state_unknown'' None limit
            | Some spent \<Rightarrow>
                if limit \<le> spent then verdict False ''daily_budget_exhausted'' (Some spent) limit
                else verdict True ''within_budget'' (Some spent) limit))"

section \<open>All calls of all workers\<close>

text \<open>
  The calls that have a reservation and have not reported back, with the model and the size of their prompt, what the
  provider really charges for the calls booked on a day, and how many of them were settled. A call ends in one of
  three ways: an answer with its usage, a refusal by the provider that costs nothing, or a failure that may
  have been charged up to the worst case. The provider charges no more tokens than the prompt has
  bytes and no more output than was allowed; that is the law the reservation rests on.
\<close>

record budget_state =
  bs_ledger :: ledger
  bs_open :: "(BudgetVerdict \<times> string \<times> int) list"
  bs_paid :: "int \<Rightarrow> rat"
  bs_settled :: "int \<Rightarrow> int"

definition call_day :: "BudgetVerdict \<Rightarrow> int" where
  "call_day v = (case bv_day v of None \<Rightarrow> 0 | Some d \<Rightarrow> d)"

definition charge :: "BudgetVerdict \<Rightarrow> rat \<Rightarrow> bool \<Rightarrow> budget_state \<Rightarrow> budget_state" where
  "charge v c settled s =
     s\<lparr>bs_paid := (bs_paid s)(call_day v := bs_paid s (call_day v) + c),
       bs_settled := (bs_settled s)(call_day v := bs_settled s (call_day v) + (if settled then 1 else 0))\<rparr>"

inductive budget_step :: "cost_env \<Rightarrow> budget_state \<Rightarrow> budget_state \<Rightarrow> bool" for env where
  reserved: "reserve env rep readable model prompt today (bs_ledger s) = (v, led) \<Longrightarrow>
    budget_step env s (s\<lparr>bs_ledger := led,
      bs_open := (if bv_allowed v then bs_open s @ [(v, model, int (length prompt))] else bs_open s)\<rparr>)"
| answered: "bs_open s = xs @ (v, model, size') # ys \<Longrightarrow> input \<le> size' \<Longrightarrow> output \<le> max_output env \<Longrightarrow>
    settle env rep v model input output today (bs_ledger s) = (booked, led) \<Longrightarrow>
    budget_step env s (charge v (estimate_cost_usd env model input output) True (s\<lparr>bs_ledger := led, bs_open := xs @ ys\<rparr>))"
| refused: "bs_open s = xs @ (v, model, size') # ys \<Longrightarrow> release rep v today (bs_ledger s) = (booked, led) \<Longrightarrow>
    budget_step env s (s\<lparr>bs_ledger := led, bs_open := xs @ ys\<rparr>)"
| failed: "bs_open s = xs @ (v, model, size') # ys \<Longrightarrow> 0 \<le> c \<Longrightarrow> c \<le> bv_reserved_usd v \<Longrightarrow>
    budget_step env s (charge v c False (s\<lparr>bs_open := xs @ ys\<rparr>))"

inductive_cases budget_stepE: "budget_step env s s'"

definition budget_init :: "budget_state \<Rightarrow> bool" where
  "budget_init s \<longleftrightarrow> bs_ledger s = Map.empty \<and> bs_open s = [] \<and> bs_paid s = (\<lambda>_. 0) \<and> bs_settled s = (\<lambda>_. 0)"

section \<open>Lemmas\<close>

lemma USD_SCALE_pos: "(0 :: rat) < of_int USD_SCALE"
  by (simp add: USD_SCALE_def)

lemma positive_float_pos: "positive_float v = Some q \<Longrightarrow> 0 < q"
  by (auto simp: positive_float_def split: sum.splits num_val.splits if_splits)

lemma rates_pos: "rates_for env model = (i, o') \<Longrightarrow> 0 < i \<and> 0 < o'"
  by (auto simp: rates_for_def Let_def valid_rate_def split: option.splits pyval.splits prod.splits if_splits dest: positive_float_pos)

lemma estimate_cost_nonneg: "0 \<le> estimate_cost_usd env model a b"
  using rates_pos [of env model] by (auto simp: estimate_cost_usd_def split: prod.splits intro!: add_nonneg_nonneg mult_nonneg_nonneg)

text \<open>More tokens never cost less.\<close>

lemma estimate_cost_mono:
  assumes "a \<le> a'" and "b \<le> b'"
  shows "estimate_cost_usd env model a b \<le> estimate_cost_usd env model a' b'"
proof -
  obtain i j where r: "rates_for env model = (i, j)" by fastforce
  then have "0 \<le> i" "0 \<le> j" using rates_pos by fastforce+
  moreover have "(of_int (max 0 a) :: rat) \<le> of_int (max 0 a')" "(of_int (max 0 b) :: rat) \<le> of_int (max 0 b')"
    by (intro iffD2 [OF of_int_le_iff] max.mono order_refl assms)+
  ultimately have "of_int (max 0 a) * i + of_int (max 0 b) * j \<le> of_int (max 0 a') * i + of_int (max 0 b') * j"
    by (intro add_mono mult_right_mono)
  then show ?thesis by (simp add: estimate_cost_usd_def r divide_right_mono)
qed

lemma py_round_bounds:
  "x - 1 / 2 \<le> of_int (py_round x)" "of_int (py_round x) \<le> x + 1 / 2" "py_round x \<le> \<lceil>x\<rceil>" "x \<le> 0 \<Longrightarrow> py_round x \<le> 0"
proof -
  have f: "of_int \<lfloor>x\<rfloor> \<le> x" "x < of_int \<lfloor>x\<rfloor> + 1" by linarith+
  have "py_round x = \<lfloor>x\<rfloor> \<and> x - of_int \<lfloor>x\<rfloor> \<le> 1 / 2 \<or> py_round x = \<lfloor>x\<rfloor> + 1 \<and> 1 / 2 \<le> x - of_int \<lfloor>x\<rfloor>"
    by (auto simp: py_round_def Let_def)
  then have "of_int (py_round x) = (of_int \<lfloor>x\<rfloor> :: rat) \<and> x - of_int \<lfloor>x\<rfloor> \<le> 1 / 2 \<or>
      of_int (py_round x) = (of_int \<lfloor>x\<rfloor> + 1 :: rat) \<and> 1 / 2 \<le> x - of_int \<lfloor>x\<rfloor>" by auto
  with f show "x - 1 / 2 \<le> of_int (py_round x)" "of_int (py_round x) \<le> x + 1 / 2" by linarith+
  show c: "py_round x \<le> \<lceil>x\<rceil>"
  proof (cases "x = of_int \<lfloor>x\<rfloor>")
    case True
    then show ?thesis using f by (simp add: py_round_def Let_def)
  next
    case False
    then have "\<lfloor>x\<rfloor> + 1 \<le> \<lceil>x\<rceil>" using f by linarith
    moreover have "py_round x \<le> \<lfloor>x\<rfloor> + 1" by (simp add: py_round_def Let_def)
    ultimately show ?thesis by simp
  qed
  show "x \<le> 0 \<Longrightarrow> py_round x \<le> 0" using c by (meson ceiling_le_zero order_trans)
qed

lemma py_round_nonneg: "0 \<le> x \<Longrightarrow> 0 \<le> py_round x"
  by (simp add: py_round_def Let_def)

lemma reserve_micro_ge: "c * of_int USD_SCALE \<le> of_int (reserve_micro c)" "1 \<le> reserve_micro c" "\<lceil>c * of_int USD_SCALE\<rceil> \<le> reserve_micro c"
  unfolding reserve_micro_def by linarith+

lemma spent_apply_delta:
  "spent_micro (apply_delta day x led) d = (if d = day then max (spent_micro led d + x) 0 else spent_micro led d)"
  by (simp add: spent_micro_def apply_delta_def split: option.splits)

lemma spent_upd: "spent_micro (led(day \<mapsto> n)) d = (if d = day then n else spent_micro led d)"
  by (simp add: spent_micro_def)

text \<open>What a reservation leaves in the ledger: nothing, or its own amount on its own day, within the ceiling.\<close>

lemma reserve_cases:
  assumes "reserve env rep readable model prompt today led = (v, led')" and "0 < limit_usd env"
  defines "cost \<equiv> estimate_worst_case_usd env model prompt"
  obtains (no) "\<not> bv_allowed v" and "led' = led"
  | (lost) "\<not> bv_allowed v" and "rep = Lost" and "spent_micro led today + reserve_micro cost \<le> limit_micro env"
      and "reserve_micro cost \<le> limit_micro env" and "led' = led(today \<mapsto> spent_micro led today + reserve_micro cost)"
  | (yes) "bv_allowed v" and "rep = Committed" and "bv_reserved_usd v = cost" and "bv_day v = Some today"
      and "spent_micro led today + reserve_micro cost \<le> limit_micro env"
      and "reserve_micro cost \<le> limit_micro env" and "led' = led(today \<mapsto> spent_micro led today + reserve_micro cost)"
  using assms(1,2)
  by (cases rep) (auto simp: reserve_def commit_reply_def reserve_atomic_def Let_def verdict_def spent_micro_def cost_def
      split: option.splits if_splits intro: no lost yes)

definition booked :: "budget_state \<Rightarrow> int \<Rightarrow> rat" where
  "booked s d = sum_list (map (\<lambda>(v, m, n). if call_day v = d then of_int (reserve_micro (bv_reserved_usd v)) else 0) (bs_open s))"

definition budget_inv :: "cost_env \<Rightarrow> budget_state \<Rightarrow> bool" where
  "budget_inv env s \<longleftrightarrow>
     (\<forall>d. 0 \<le> spent_micro (bs_ledger s) d \<and> spent_micro (bs_ledger s) d \<le> max 0 (limit_micro env) \<and>
        booked s d + bs_paid s d * of_int USD_SCALE - of_int (bs_settled s d) / 2 \<le> of_int (spent_micro (bs_ledger s) d)) \<and>
     (\<forall>(v, m, n)\<in>set (bs_open s). bv_day v \<noteq> None \<and> bv_reserved_usd v = estimate_cost_usd env m n (max_output env))"

lemma booked_simps [simp]:
  "booked (s\<lparr>bs_ledger := l\<rparr>) = booked s" "booked (s\<lparr>bs_paid := pd, bs_settled := t\<rparr>) = booked s"
  "booked (charge v c b s) = booked s" "bs_ledger (charge v c b s) = bs_ledger s" "bs_open (charge v c b s) = bs_open s"
  by (simp_all add: booked_def charge_def fun_eq_iff)

lemma booked_remove:
  "bs_open s = xs @ (v, m, n) # ys \<Longrightarrow>
    booked s d = booked (s\<lparr>bs_open := xs @ ys\<rparr>) d + (if call_day v = d then of_int (reserve_micro (bv_reserved_usd v)) else 0)"
  by (simp add: booked_def)

lemma booked_add:
  "booked (s\<lparr>bs_open := bs_open s @ [(v, m, n)]\<rparr>) d = booked s d + (if call_day v = d then of_int (reserve_micro (bv_reserved_usd v)) else 0)"
  by (simp add: booked_def)

lemma charge_paid: "bs_paid (charge v c b s) d = bs_paid s d + (if call_day v = d then c else 0)"
  and charge_settled: "bs_settled (charge v c b s) d = bs_settled s d + (if call_day v = d \<and> b then 1 else 0)"
  by (simp_all add: charge_def)

text \<open>Each clause of the invariant by its own name.\<close>

lemma budget_invD:
  assumes "budget_inv env s"
  shows "0 \<le> spent_micro (bs_ledger s) d" "spent_micro (bs_ledger s) d \<le> max 0 (limit_micro env)"
    and "booked s d + bs_paid s d * of_int USD_SCALE - of_int (bs_settled s d) / 2 \<le> of_int (spent_micro (bs_ledger s) d)"
    and "(v, m, n) \<in> set (bs_open s) \<Longrightarrow> bv_day v \<noteq> None \<and> bv_reserved_usd v = estimate_cost_usd env m n (max_output env)"
  using assms by (auto simp: budget_inv_def)

lemma budget_invI:
  assumes "\<And>d. 0 \<le> spent_micro (bs_ledger s) d \<and> spent_micro (bs_ledger s) d \<le> max 0 (limit_micro env) \<and>
      booked s d + bs_paid s d * of_int USD_SCALE - of_int (bs_settled s d) / 2 \<le> of_int (spent_micro (bs_ledger s) d)"
    and "\<And>v m n. (v, m, n) \<in> set (bs_open s) \<Longrightarrow> bv_day v \<noteq> None \<and> bv_reserved_usd v = estimate_cost_usd env m n (max_output env)"
  shows "budget_inv env s"
  using assms by (auto simp: budget_inv_def)

lemma budget_inv_reserve:
  assumes inv: "budget_inv env s" and "0 < limit_usd env"
    and r: "reserve env rep readable model prompt today (bs_ledger s) = (v, led)"
  shows "budget_inv env (s\<lparr>bs_ledger := led,
    bs_open := (if bv_allowed v then bs_open s @ [(v, model, int (length prompt))] else bs_open s)\<rparr>)"
  using r assms(2)
proof (cases rule: reserve_cases)
  case no
  then show ?thesis using inv by simp
next
  case lost
  note m = reserve_micro_ge(2) [of "estimate_worst_case_usd env model prompt"]
  have "budget_inv env (s\<lparr>bs_ledger := led\<rparr>)"
  proof (rule budget_invI)
    fix d
    show "0 \<le> spent_micro (bs_ledger (s\<lparr>bs_ledger := led\<rparr>)) d \<and> spent_micro (bs_ledger (s\<lparr>bs_ledger := led\<rparr>)) d \<le> max 0 (limit_micro env) \<and>
      booked (s\<lparr>bs_ledger := led\<rparr>) d + bs_paid (s\<lparr>bs_ledger := led\<rparr>) d * of_int USD_SCALE -
      of_int (bs_settled (s\<lparr>bs_ledger := led\<rparr>) d) / 2 \<le> of_int (spent_micro (bs_ledger (s\<lparr>bs_ledger := led\<rparr>)) d)"
      using budget_invD(1-3) [OF inv, of d] lost(3,5) m by (auto simp: spent_upd)
  qed (use budget_invD(4) [OF inv] in simp)
  with lost(1) show ?thesis by simp
next
  case yes
  note m = reserve_micro_ge(2) [of "estimate_worst_case_usd env model prompt"]
  have day: "call_day v = today" using yes(4) by (simp add: call_day_def)
  let ?s = "s\<lparr>bs_ledger := led, bs_open := bs_open s @ [(v, model, int (length prompt))]\<rparr>"
  have b: "booked ?s d = booked s d + (if d = today then of_int (reserve_micro (estimate_worst_case_usd env model prompt)) else 0)" for d
    using booked_add [of "s\<lparr>bs_ledger := led\<rparr>" v model "int (length prompt)" d] yes(3) day by auto
  have "budget_inv env ?s"
  proof (rule budget_invI)
    fix d
    show "0 \<le> spent_micro (bs_ledger ?s) d \<and> spent_micro (bs_ledger ?s) d \<le> max 0 (limit_micro env) \<and>
      booked ?s d + bs_paid ?s d * of_int USD_SCALE - of_int (bs_settled ?s d) / 2 \<le> of_int (spent_micro (bs_ledger ?s) d)"
      unfolding b using budget_invD(1-3) [OF inv, of d] yes(5) m by (auto simp: yes(7) spent_upd)
  next
    fix w m' n assume "(w, m', n) \<in> set (bs_open ?s)"
    with budget_invD(4) [OF inv, of w m' n] yes(3,4)
    show "bv_day w \<noteq> None \<and> bv_reserved_usd w = estimate_cost_usd env m' n (max_output env)"
      by (auto simp: estimate_worst_case_usd_def)
  qed
  with yes(1) show ?thesis by simp
qed

text \<open>
  The end of a call: its reservation leaves the books, and the ledger goes down by no more than the difference
  between the reservation and what the call is charged, half a microdollar for the rounding apart.
\<close>

lemma budget_inv_close:
  assumes inv: "budget_inv env s" and o: "bs_open s = xs @ (v, m, n) # ys"
    and led: "\<And>d. d \<noteq> call_day v \<Longrightarrow> spent_micro led d = spent_micro (bs_ledger s) d"
    and up: "spent_micro led (call_day v) \<le> spent_micro (bs_ledger s) (call_day v)" "0 \<le> spent_micro led (call_day v)"
    and down: "of_int (spent_micro (bs_ledger s) (call_day v)) - of_int (reserve_micro (bv_reserved_usd v)) + c * of_int USD_SCALE -
      (if b then 1 / 2 else 0) \<le> of_int (spent_micro led (call_day v))"
  shows "budget_inv env (charge v c b (s\<lparr>bs_ledger := led, bs_open := xs @ ys\<rparr>))"
proof (rule budget_invI)
  let ?s = "s\<lparr>bs_ledger := led, bs_open := xs @ ys\<rparr>"
  fix d
  have b: "booked s d = booked ?s d + (if call_day v = d then of_int (reserve_micro (bv_reserved_usd v)) else 0)"
    using booked_remove [OF o, of d] by (simp add: booked_def)
  show "0 \<le> spent_micro (bs_ledger (charge v c b ?s)) d \<and> spent_micro (bs_ledger (charge v c b ?s)) d \<le> max 0 (limit_micro env) \<and>
      booked (charge v c b ?s) d + bs_paid (charge v c b ?s) d * of_int USD_SCALE - of_int (bs_settled (charge v c b ?s) d) / 2
        \<le> of_int (spent_micro (bs_ledger (charge v c b ?s)) d)"
  proof (cases "call_day v = d")
    case True
    then show ?thesis using budget_invD(1-3) [OF inv, of d] up down b
      by (auto simp: charge_paid charge_settled distrib_right add_divide_distrib split: if_splits)
  next
    case False
    then show ?thesis using budget_invD(1-3) [OF inv, of d] led [of d] b by (auto simp: charge_paid charge_settled)
  qed
next
  fix w m' n' assume "(w, m', n') \<in> set (bs_open (charge v c b (s\<lparr>bs_ledger := led, bs_open := xs @ ys\<rparr>)))"
  then have "(w, m', n') \<in> set (bs_open s)" using o by auto
  from budget_invD(4) [OF inv this] show "bv_day w \<noteq> None \<and> bv_reserved_usd w = estimate_cost_usd env m' n' (max_output env)" .
qed

lemma charge_zero: "charge v 0 False s = s"
  by (simp add: charge_def)

lemma commit_delta:
  assumes "commit_reply rep ((), apply_delta day x led) led = (res, led')"
  shows "led' = led \<or> led' = apply_delta day x led"
  using assms by (auto simp: commit_reply_def split: db_reply.splits)

lemma settle_led:
  assumes "settle env rep v model input output today led = (ret, led')" and "bv_day v \<noteq> None"
  shows "led' = led \<and> (0 < bv_reserved_usd v \<longrightarrow> py_round ((estimate_cost_usd env model input output - bv_reserved_usd v) * of_int USD_SCALE) = 0 \<or> rep = Failed)
    \<or> led' = apply_delta (call_day v) (py_round ((estimate_cost_usd env model input output - bv_reserved_usd v) * of_int USD_SCALE)) led"
  using assms by (auto simp: settle_def commit_reply_def call_day_def Let_def split: if_splits db_reply.splits)

lemma budget_inv_answer:
  assumes inv: "budget_inv env s" and o: "bs_open s = xs @ (v, model, n) # ys" and "input \<le> n" and "output \<le> max_output env"
    and st: "settle env rep v model input output today (bs_ledger s) = (bk, led)"
  shows "budget_inv env (charge v (estimate_cost_usd env model input output) True (s\<lparr>bs_ledger := led, bs_open := xs @ ys\<rparr>))"
proof -
  let ?act = "estimate_cost_usd env model input output" and ?res = "bv_reserved_usd v"
  let ?x = "py_round ((?act - ?res) * of_int USD_SCALE)"
  have v: "bv_day v \<noteq> None" "?res = estimate_cost_usd env model n (max_output env)" using budget_invD(4) [OF inv, of v model n] o by auto
  have le: "?act \<le> ?res" using estimate_cost_mono [OF assms(3,4)] v(2) by simp
  then have neg: "(?act - ?res) * of_int USD_SCALE \<le> 0" using USD_SCALE_pos by (simp add: mult_nonpos_nonneg)
  note x = py_round_bounds(1) [of "(?act - ?res) * of_int USD_SCALE"] py_round_bounds(4) [OF neg] reserve_micro_ge(1) [of ?res]
  have scale: "?act * of_int USD_SCALE \<le> ?res * of_int USD_SCALE" using le USD_SCALE_pos by (simp add: mult_right_mono)
  have mul: "(?act - ?res) * of_int USD_SCALE = ?act * of_int USD_SCALE - ?res * of_int USD_SCALE" by (simp add: left_diff_distrib)
  from settle_led [OF st v(1)] consider (same) "led = bs_ledger s" | (delta) "led = apply_delta (call_day v) ?x (bs_ledger s)" by blast
  then show ?thesis
  proof cases
    case same
    show ?thesis unfolding same using budget_invD(1) [OF inv] scale x(3)
      by (intro budget_inv_close [OF inv o]) auto
  next
    case delta
    have "of_int (spent_micro (bs_ledger s) (call_day v)) + of_int ?x \<le> (of_int (spent_micro led (call_day v)) :: rat)"
      by (simp add: delta spent_apply_delta flip: of_int_add)
    moreover have "spent_micro led (call_day v) \<le> spent_micro (bs_ledger s) (call_day v)"
      using x(2) budget_invD(1) [OF inv] by (simp add: delta spent_apply_delta)
    ultimately show ?thesis using x(1,3) mul
      by (intro budget_inv_close [OF inv o]) (auto simp: delta spent_apply_delta)
  qed
qed

lemma budget_inv_refuse:
  assumes inv: "budget_inv env s" and o: "bs_open s = xs @ (v, model, n) # ys"
    and st: "release rep v today (bs_ledger s) = (bk, led)"
  shows "budget_inv env (s\<lparr>bs_ledger := led, bs_open := xs @ ys\<rparr>)"
proof -
  let ?x = "py_round (bv_reserved_usd v * of_int USD_SCALE)"
  have "bv_day v \<noteq> None" using budget_invD(4) [OF inv, of v model n] o by auto
  with st consider (same) "led = bs_ledger s" | (delta) "0 < bv_reserved_usd v" "led = apply_delta (call_day v) (- ?x) (bs_ledger s)"
    by (auto simp: release_def call_day_def Let_def split: if_splits option.splits prod.splits dest!: commit_delta)
  then have "budget_inv env (charge v 0 False (s\<lparr>bs_ledger := led, bs_open := xs @ ys\<rparr>))"
  proof cases
    case same
    show ?thesis unfolding same using budget_invD(1) [OF inv] reserve_micro_ge(2) [of "bv_reserved_usd v"]
      by (intro budget_inv_close [OF inv o]) auto
  next
    case delta
    have "0 \<le> ?x" using py_round_nonneg [of "bv_reserved_usd v * of_int USD_SCALE"] delta(1) USD_SCALE_pos by simp
    moreover have "?x \<le> reserve_micro (bv_reserved_usd v)"
      using py_round_bounds(3) [of "bv_reserved_usd v * of_int USD_SCALE"] reserve_micro_ge(3) [of "bv_reserved_usd v"] by linarith
    moreover have "of_int (spent_micro (bs_ledger s) (call_day v)) - of_int ?x \<le> (of_int (spent_micro led (call_day v)) :: rat)"
      by (simp add: delta spent_apply_delta flip: of_int_diff)
    ultimately show ?thesis using budget_invD(1) [OF inv, of "call_day v"]
      by (intro budget_inv_close [OF inv o]) (auto simp: delta spent_apply_delta)
  qed
  then show ?thesis by (simp add: charge_zero)
qed

lemma budget_inv_fail:
  assumes inv: "budget_inv env s" and o: "bs_open s = xs @ (v, model, n) # ys" and "c \<le> bv_reserved_usd v"
  shows "budget_inv env (charge v c False (s\<lparr>bs_open := xs @ ys\<rparr>))"
proof -
  have "c * of_int USD_SCALE \<le> of_int (reserve_micro (bv_reserved_usd v))"
    using mult_right_mono [OF assms(3), of "of_int USD_SCALE"] USD_SCALE_pos reserve_micro_ge(1) [of "bv_reserved_usd v"] by linarith
  then have "budget_inv env (charge v c False (s\<lparr>bs_ledger := bs_ledger s, bs_open := xs @ ys\<rparr>))"
    using budget_invD(1) [OF inv] by (intro budget_inv_close [OF inv o]) auto
  then show ?thesis by simp
qed

lemma budget_inv_step:
  assumes "budget_step env s s'" and lim: "0 < limit_usd env" and inv: "budget_inv env s"
  shows "budget_inv env s'"
  using assms(1)
proof (cases rule: budget_step.cases)
  case (reserved rep readable model prompt today v led)
  from budget_inv_reserve [OF inv lim reserved(2)] reserved(1) show ?thesis by simp
next
  case answered
  with budget_inv_answer [OF inv answered(2-5)] show ?thesis by simp
next
  case refused
  with budget_inv_refuse [OF inv refused(2,3)] show ?thesis by simp
next
  case failed
  with budget_inv_fail [OF inv failed(2,4)] show ?thesis by simp
qed

lemma budget_inv_init: "budget_init s \<Longrightarrow> budget_inv env s"
  by (simp add: budget_init_def budget_inv_def booked_def spent_micro_def)

interpretation budget: invariant_system budget_init "budget_step env" "\<lambda>s. 0 < limit_usd env \<longrightarrow> budget_inv env s" for env
proof unfold_locales
  show "0 < limit_usd env \<longrightarrow> budget_inv env s" if "budget_init s" for s
    using budget_inv_init [OF that] by simp
  show "0 < limit_usd env \<longrightarrow> budget_inv env t" if "budget_step env s t" "0 < limit_usd env \<longrightarrow> budget_inv env s" for s t
    using budget_inv_step [OF that(1)] that(2) by simp
qed

lemma booked_nonneg: "0 \<le> booked s d"
proof -
  have "0 \<le> x" if "x \<in> set (map (\<lambda>(v, m, n). if call_day v = d then (of_int (reserve_micro (bv_reserved_usd v)) :: rat) else 0) (bs_open s))" for x
    using that order_trans [OF zero_le_one reserve_micro_ge(2)] by (auto split: if_splits)
  then show ?thesis unfolding booked_def by (rule sum_list_nonneg)
qed

section \<open>Properties\<close>

text \<open>
  C28. The daily ceiling holds: with a positive limit, however many workers reserve, settle, release and fail in
  whatever order and whatever the database does with their updates, the ledger of a day never passes the limit, and
  what the provider really charges for the calls of a day is never more than the limit, half a microdollar of
  rounding for each settled call apart. This rests on the provider charging no more tokens than the prompt has
  bytes and no more output than was allowed.
\<close>

theorem daily_ceiling_holds:
  assumes "0 < limit_usd env" and "budget_init s0" and "(budget_step env)\<^sup>*\<^sup>* s0 s"
  shows "spent_micro (bs_ledger s) d \<le> limit_micro env \<and>
    bs_paid s d \<le> limit_usd env + of_int (bs_settled s d) / (2 * of_int USD_SCALE)"
proof -
  have inv: "budget_inv env s" using budget.reach_inv [OF assms(2,3)] assms(1) by simp
  have l: "0 \<le> limit_micro env" using assms(1) USD_SCALE_pos by (simp add: limit_micro_def)
  note d = budget_invD(1-3) [OF inv, of d]
  have "spent_micro (bs_ledger s) d \<le> limit_micro env" using d(2) l by simp
  then have "(of_int (spent_micro (bs_ledger s) d) :: rat) \<le> of_int (limit_micro env)" by simp
  with d(3) booked_nonneg [of s d] have "bs_paid s d * of_int USD_SCALE \<le> of_int (limit_micro env) + of_int (bs_settled s d) / 2"
    by linarith
  also have "\<dots> \<le> limit_usd env * of_int USD_SCALE + of_int (bs_settled s d) / 2" unfolding limit_micro_def by linarith
  finally have "bs_paid s d \<le> (limit_usd env * of_int USD_SCALE + of_int (bs_settled s d) / 2) / of_int USD_SCALE"
    using USD_SCALE_pos by (simp add: pos_le_divide_eq)
  with d(2) l show ?thesis using USD_SCALE_pos by (simp add: add_divide_distrib)
qed

text \<open>
  The guard fails closed and charges before it allows: a call is allowed only when no limit is set (whatever the ledger
  says, though \<open>config.py\<close> promises a ban) or when its worst case was booked within the limit and the
  database said so; a refusal by the guard leaves the ledger as it was, unless the answer of the database got lost.
\<close>

theorem reserve_fails_closed:
  assumes "reserve env rep readable model prompt today led = (v, led')"
  defines "micro \<equiv> reserve_micro (estimate_worst_case_usd env model prompt)"
  shows "(bv_allowed v \<longleftrightarrow> limit_usd env = 0 \<or>
      rep = Committed \<and> micro \<le> limit_micro env \<and> (led today \<noteq> None \<longrightarrow> spent_micro led today + micro \<le> limit_micro env)) \<and>
    (bv_allowed v \<and> limit_usd env \<noteq> 0 \<longrightarrow> led' = led(today \<mapsto> spent_micro led today + micro) \<and> bv_day v = Some today) \<and>
    (\<not> bv_allowed v \<and> rep \<noteq> Lost \<longrightarrow> led' = led)"
proof -
  have "limit_usd env \<le> 0 \<longleftrightarrow> limit_usd env = 0"
    by (auto simp: limit_usd_def Let_def split: option.splits dest: positive_float_pos)
  then show ?thesis using assms(1)
    by (cases rep) (auto simp: reserve_def commit_reply_def reserve_atomic_def Let_def verdict_def spent_micro_def micro_def
        split: option.splits if_splits)
qed

section \<open>Witnesses\<close>

definition sample_cost :: cost_env where
  "sample_cost = \<lparr>LLM_DAILY_BUDGET_USD = PInt 1, LLM_PRICE_PER_MTOK = PDict [], LLM_PRICE_FALLBACK_INPUT = PNone,
     LLM_PRICE_FALLBACK_OUTPUT = PNone, MAX_TOKENS = 100\<rparr>"

definition sample_books :: budget_state where
  "sample_books = \<lparr>bs_ledger = Map.empty, bs_open = [], bs_paid = (\<lambda>_. 0), bs_settled = (\<lambda>_. 0)\<rparr>"

lemma sample_limit: "limit_usd sample_cost = 1" "limit_micro sample_cost = 1000000"
proof -
  show "limit_usd sample_cost = 1"
    by (simp add: limit_usd_def sample_cost_def positive_float_def to_float_def Let_def)
  then show "limit_micro sample_cost = 1000000" by (simp add: limit_micro_def USD_SCALE_def)
qed

lemma sample_worst_case: "reserve_micro (estimate_worst_case_usd sample_cost ''m'' ''text'') = 7560"
  by (simp add: reserve_micro_def estimate_worst_case_usd_def estimate_cost_usd_def rates_for_def sample_cost_def max_output_def
      valid_rate_def positive_float_def to_float_def price_table_def dget_def USD_SCALE_def Let_def)

lemma sample_reserve:
  obtains v where "reserve sample_cost Committed True ''m'' ''text'' 1 Map.empty = (v, [1 \<mapsto> 7560])" and "bv_allowed v"
proof -
  obtain v led where r: "reserve sample_cost Committed True ''m'' ''text'' 1 Map.empty = (v, led)" by fastforce
  then have "bv_allowed v \<and> led = [1 \<mapsto> 7560]"
    using sample_limit sample_worst_case by (auto simp: reserve_def commit_reply_def reserve_atomic_def Let_def)
  with r that show thesis by blast
qed

theorem daily_ceiling_holds_witness:
  "\<exists>s :: budget_state. spent_micro (bs_ledger s) 1 = 7560 \<and> spent_micro (bs_ledger s) 1 \<le> limit_micro sample_cost \<and> bs_open s \<noteq> []"
proof -
  obtain v where v: "reserve sample_cost Committed True ''m'' ''text'' 1 Map.empty = (v, [1 \<mapsto> 7560])" "bv_allowed v" by (rule sample_reserve)
  let ?s = "sample_books\<lparr>bs_ledger := [1 \<mapsto> 7560], bs_open := [(v, ''m'', 4)]\<rparr>"
  have "budget_step sample_cost sample_books ?s"
    using budget_step.reserved [of sample_cost Committed True "''m''" "''text''" 1 sample_books v "[1 \<mapsto> 7560]"] v
    by (simp add: sample_books_def)
  then have "(budget_step sample_cost)\<^sup>*\<^sup>* sample_books ?s" ..
  moreover have "budget_init sample_books" by (simp add: budget_init_def sample_books_def)
  ultimately have "spent_micro (bs_ledger ?s) 1 \<le> limit_micro sample_cost"
    using daily_ceiling_holds [of sample_cost sample_books ?s 1] sample_limit(1) by simp
  then show ?thesis by (intro exI [of _ ?s]) (simp add: spent_micro_def)
qed

theorem reserve_fails_closed_witness:
  "\<exists>v led. reserve sample_cost Failed True ''m'' ''text'' 1 Map.empty = (v, led) \<and> \<not> bv_allowed v \<and> led = Map.empty"
proof -
  obtain v led where r: "reserve sample_cost Failed True ''m'' ''text'' 1 Map.empty = (v, led)" by fastforce
  from reserve_fails_closed [OF r] r show ?thesis by (simp add: sample_limit)
qed

end
