(* ===== verification/Llm_Client.thy ===== *)
theory Llm_Client
  imports Redis Cost_Guard
begin

text \<open>
  \<open>app/services/resilience.py\<close> (retries and the circuit breaker of the provider) and the call of the model in
  \<open>app/services/llm_service.py\<close>, which reserves, asks, settles or gives back, and reports. The provider's
  answer, the replies of the database, the point of a cancellation and the random part of a delay are
  arguments; the scripts that the code sends to Redis are one step each. Redis times are whole seconds.
\<close>

section \<open>Errors and what is worth a retry\<close>

text \<open>
  \<open>RateLimitExn\<close> carries the header \<open>retry-after\<close> (\<open>PNone\<close> without one), \<open>OtherExn\<close> its \<open>__cause__\<close>. A
  cancellation is no \<open>Exception\<close>.
\<close>

datatype llm_exn =
    CircuitOpenExn | BudgetExceededExn | ConnectionExn | RateLimitExn pyval | StatusExn int | TimeoutExn | OtherExn "llm_exn option"

datatype 'a outcome = Returned 'a | Raised llm_exn | Cancelled

fun is_retryable_llm_error :: "llm_exn \<Rightarrow> bool" where
  "is_retryable_llm_error CircuitOpenExn = False"
| "is_retryable_llm_error ConnectionExn = True"
| "is_retryable_llm_error (RateLimitExn h) = True"
| "is_retryable_llm_error (StatusExn code) = (500 \<le> code)"
| "is_retryable_llm_error TimeoutExn = True"
| "is_retryable_llm_error (OtherExn (Some cause)) = is_retryable_llm_error cause"
| "is_retryable_llm_error (OtherExn None) = False"
| "is_retryable_llm_error BudgetExceededExn = False"

definition RETRY_AFTER_CAP_SECONDS :: rat where "RETRY_AFTER_CAP_SECONDS = 30"

text \<open>\<open>min(value, cap)\<close> keeps a NaN.\<close>

definition retry_after_seconds :: "llm_exn \<Rightarrow> num_val option" where
  "retry_after_seconds e =
     (case e of
        RateLimitExn raw \<Rightarrow>
          (if raw = PNone then None
           else (case to_float raw of
                   Inl _ \<Rightarrow> None
                 | Inr v \<Rightarrow> if nlt v 0 then None
                     else if ngt v RETRY_AFTER_CAP_SECONDS then Some (NFin RETRY_AFTER_CAP_SECONDS) else Some v))
      | _ \<Rightarrow> None)"

definition plus_jitter :: "num_val \<Rightarrow> rat \<Rightarrow> num_val" where
  "plus_jitter v x = (case v of NFin q \<Rightarrow> NFin (q + x) | _ \<Rightarrow> v)"

text \<open>\<open>u\<close> is \<open>random.random()\<close>, of which \<open>random.uniform(a, b)\<close> is \<open>a + (b - a) * u\<close>.\<close>

definition retry_delay :: "rat \<Rightarrow> nat \<Rightarrow> llm_exn \<Rightarrow> num_val" where
  "retry_delay u attempt e =
     (case retry_after_seconds e of
        Some ra \<Rightarrow> plus_jitter ra (1 / 2 * u)
      | None \<Rightarrow> NFin (1 / 2 * of_nat attempt * (1 / 2 + u)))"

fun retry_attempts ::
  "(nat \<Rightarrow> rat) \<Rightarrow> (nat \<Rightarrow> 's \<Rightarrow> 'a outcome \<times> 's) \<Rightarrow> nat \<Rightarrow> nat \<Rightarrow> 's \<Rightarrow> 'a outcome \<times> num_val list \<times> 's" where
  "retry_attempts rnd f attempt left s =
     (case f attempt s of
        (Raised e, s1) \<Rightarrow>
          (if \<not> is_retryable_llm_error e then (Raised e, [], s1)
           else (case left of
                   0 \<Rightarrow> (Raised e, [], s1)
                 | Suc n \<Rightarrow>
                     (case retry_attempts rnd f (attempt + 1) n s1 of
                        (res, delays, s2) \<Rightarrow> (res, retry_delay (rnd attempt) attempt e # delays, s2))))
      | (res, s1) \<Rightarrow> (res, [], s1))"

definition RETRIES :: nat where "RETRIES = 3"

definition llm_retry_strategy ::
  "(nat \<Rightarrow> rat) \<Rightarrow> (nat \<Rightarrow> 's \<Rightarrow> 'a outcome \<times> 's) \<Rightarrow> 's \<Rightarrow> 'a outcome \<times> num_val list \<times> 's" where
  "llm_retry_strategy rnd f s = retry_attempts rnd f 1 (RETRIES - 1) s"

text \<open>
  \<open>with_external_retry\<close>, for a function that returns or raises; with no attempts at all its closing assertion
  fails, which is \<open>None\<close>.
\<close>

fun external_attempts ::
  "('e \<Rightarrow> bool) \<Rightarrow> rat \<Rightarrow> (nat \<Rightarrow> 's \<Rightarrow> ('e + 'a) \<times> 's) \<Rightarrow> nat \<Rightarrow> nat \<Rightarrow> rat \<Rightarrow> 's \<Rightarrow> ('e + 'a) \<times> rat list \<times> 's" where
  "external_attempts retry_on factor f attempt left delay s =
     (case f attempt s of
        (Inr x, s1) \<Rightarrow> (Inr x, [], s1)
      | (Inl e, s1) \<Rightarrow>
          (if \<not> retry_on e then (Inl e, [], s1)
           else (case left of
                   0 \<Rightarrow> (Inl e, [], s1)
                 | Suc n \<Rightarrow>
                     (case external_attempts retry_on factor f (attempt + 1) n (delay * factor) s1 of
                        (res, delays, s2) \<Rightarrow> (res, delay # delays, s2)))))"

definition with_external_retry ::
  "nat \<Rightarrow> rat \<Rightarrow> rat \<Rightarrow> ('e \<Rightarrow> bool) \<Rightarrow> (nat \<Rightarrow> 's \<Rightarrow> ('e + 'a) \<times> 's) \<Rightarrow> 's \<Rightarrow> (('e + 'a) \<times> rat list \<times> 's) option" where
  "with_external_retry max_attempts initial_delay backoff_factor retry_on f s =
     (case max_attempts of 0 \<Rightarrow> None | Suc n \<Rightarrow> Some (external_attempts retry_on backoff_factor f 1 n initial_delay s))"

section \<open>The circuit breaker\<close>

definition CB_FAIL_WINDOW_SECONDS :: int where "CB_FAIL_WINDOW_SECONDS = 60"
definition CB_FAIL_THRESHOLD :: int where "CB_FAIL_THRESHOLD = 5"
definition CB_OPEN_SECONDS :: int where "CB_OPEN_SECONDS = 60"
definition CB_HALF_OPEN_MAX_TRIALS :: int where "CB_HALF_OPEN_MAX_TRIALS = 2"
definition CB_HALF_OPEN_WINDOW_SECONDS :: int where "CB_HALF_OPEN_WINDOW_SECONDS = 300"

definition open_key :: "string \<Rightarrow> string" where "open_key p = ''cb:open:'' @ p"
definition halfopen_key :: "string \<Rightarrow> string" where "halfopen_key p = ''cb:halfopen:'' @ p"
definition trial_key :: "string \<Rightarrow> string" where "trial_key p = ''cb:trial:'' @ p"
definition fail_key :: "string \<Rightarrow> string" where "fail_key p = ''cb:fail:'' @ p"

text \<open>\<open>INCR\<close> with an expiry that is set for a new counter and for one that has none.\<close>

definition counted :: "'r redis_api \<Rightarrow> int \<Rightarrow> string \<Rightarrow> int \<Rightarrow> 'r \<Rightarrow> (int \<times> 'r) option" where
  "counted api now key seconds r =
     Option.bind (r_incrby api r now key 1) (\<lambda>(count, r1).
     Option.bind (r_ttl api r1 now key) (\<lambda>ttl.
       if count = 1 \<or> ttl < 0 then map_option (\<lambda>(_, r2). (count, r2)) (r_expire api r1 now key seconds) else Some (count, r1)))"

definition is_circuit_open :: "'r redis_api \<Rightarrow> string \<Rightarrow> int \<Rightarrow> 'r \<Rightarrow> (bool \<times> 'r) option" where
  "is_circuit_open api p now r =
     Option.bind (r_exists api r now (open_key p)) (\<lambda>opened.
       if opened then Some (True, r)
       else Option.bind (r_exists api r now (halfopen_key p)) (\<lambda>half.
         if \<not> half then Some (False, r)
         else map_option (\<lambda>(trials, r1). (CB_HALF_OPEN_MAX_TRIALS < trials, r1)) (counted api now (trial_key p) CB_OPEN_SECONDS r)))"

text \<open>The transaction of \<open>_open_circuit\<close>.\<close>

definition open_circuit :: "'r redis_api \<Rightarrow> string \<Rightarrow> int \<Rightarrow> 'r \<Rightarrow> 'r option" where
  "open_circuit api p now r =
     Option.bind (r_set api r now (open_key p) ''1'' CB_OPEN_SECONDS False) (\<lambda>(_, r1).
     Option.bind (r_set api r1 now (halfopen_key p) ''1'' (CB_OPEN_SECONDS + CB_HALF_OPEN_WINDOW_SECONDS) False) (\<lambda>(_, r2).
     Option.bind (r_delete api r2 now (trial_key p)) (\<lambda>r3. r_delete api r3 now (fail_key p))))"

text \<open>An error of Redis ends a report with what was done before it.\<close>

definition report_failure :: "'r redis_api \<Rightarrow> string \<Rightarrow> int \<Rightarrow> 'r \<Rightarrow> 'r" where
  "report_failure api p now r =
     (let open_from = (\<lambda>r1. case open_circuit api p now r1 of None \<Rightarrow> r1 | Some r2 \<Rightarrow> r2) in
      case r_exists api r now (open_key p) of
        None \<Rightarrow> r
      | Some opened \<Rightarrow>
          (case (if opened then Some False else r_exists api r now (halfopen_key p)) of
             None \<Rightarrow> r
           | Some half \<Rightarrow>
               if half then open_from r
               else (case counted api now (fail_key p) CB_FAIL_WINDOW_SECONDS r of
                       None \<Rightarrow> r
                     | Some (count, r1) \<Rightarrow> if CB_FAIL_THRESHOLD \<le> count then open_from r1 else r1)))"

definition report_success :: "'r redis_api \<Rightarrow> string \<Rightarrow> int \<Rightarrow> 'r \<Rightarrow> 'r" where
  "report_success api p now r =
     (case Option.bind (r_delete api r now (fail_key p)) (\<lambda>r1.
           Option.bind (r_delete api r1 now (halfopen_key p)) (\<lambda>r2. r_delete api r2 now (trial_key p))) of
        None \<Rightarrow> r
      | Some r' \<Rightarrow> r')"

section \<open>One call of the model\<close>

record 'r llm_env =
  lm_cost :: cost_env
  lm_api :: "'r redis_api"
  lm_cli :: bool
  lm_breaker :: bool
  lm_model :: string

definition LLM_PROVIDER :: string where "LLM_PROVIDER = ''anthropic''"

record 'r llm_world =
  lw_ledger :: ledger
  lw_redis :: 'r
  lw_metric :: rat
  lw_denied :: "string list"
  lw_requests :: nat

text \<open>An answer: its text, the tokens charged, and whether it was cut off; or an error.\<close>

datatype answer = Text string int int bool | Fails llm_exn

datatype cancel = Never | InReserve | InRequest | InSettle | InReport

record attempt =
  at_now :: int
  at_day :: int
  at_reserve :: db_reply
  at_readable :: bool
  at_answer :: answer
  at_settle :: db_reply
  at_day_end :: int
  at_end :: int
  at_cancel :: cancel

record reply =
  rp_text :: string
  rp_input :: int
  rp_output :: int
  rp_truncated :: bool
  rp_cost :: rat

definition track_llm_cost :: "rat \<Rightarrow> 'r llm_world \<Rightarrow> 'r llm_world" where
  "track_llm_cost c w = (if 0 < c then w\<lparr>lw_metric := lw_metric w + c\<rparr> else w)"

definition report_provider :: "'r llm_env \<Rightarrow> bool \<Rightarrow> int \<Rightarrow> 'r llm_world \<Rightarrow> 'r llm_world" where
  "report_provider env success now w =
     (if lm_cli env \<or> \<not> lm_breaker env then w
      else w\<lparr>lw_redis := (if success then report_success else report_failure) (lm_api env) LLM_PROVIDER now (lw_redis w)\<rparr>)"

definition circuit_check :: "'r llm_env \<Rightarrow> int \<Rightarrow> 'r llm_world \<Rightarrow> bool \<times> 'r llm_world" where
  "circuit_check env now w =
     (if \<not> lm_breaker env then (False, w)
      else (case is_circuit_open (lm_api env) LLM_PROVIDER now (lw_redis w) of
              None \<Rightarrow> (False, w)
            | Some (opened, r) \<Rightarrow> (opened, w\<lparr>lw_redis := r\<rparr>)))"

text \<open>The chain of \<open>except\<close> clauses for an error before the reservation was settled.\<close>

definition failed_call :: "'r llm_env \<Rightarrow> attempt \<Rightarrow> BudgetVerdict \<Rightarrow> llm_exn \<Rightarrow> 'r llm_world \<Rightarrow> reply outcome \<times> 'r llm_world" where
  "failed_call env a v e w =
     (case e of
        CircuitOpenExn \<Rightarrow> (Raised e, w)
      | BudgetExceededExn \<Rightarrow> (Raised e, w)
      | TimeoutExn \<Rightarrow> (Raised (OtherExn (Some TimeoutExn)), report_provider env False (at_end a) (track_llm_cost (bv_reserved_usd v) w))
      | RateLimitExn h \<Rightarrow>
          (case release (at_settle a) v (at_day_end a) (lw_ledger w) of
             (retained, led) \<Rightarrow>
               (Raised e, report_provider env False (at_end a) (track_llm_cost retained (w\<lparr>lw_ledger := led\<rparr>))))
      | _ \<Rightarrow> (Raised e, report_provider env False (at_end a) (track_llm_cost (bv_reserved_usd v) w)))"

definition answered_call ::
  "'r llm_env \<Rightarrow> attempt \<Rightarrow> BudgetVerdict \<Rightarrow> string \<Rightarrow> int \<Rightarrow> int \<Rightarrow> bool \<Rightarrow> 'r llm_world \<Rightarrow> reply outcome \<times> 'r llm_world" where
  "answered_call env a v text input output trunc w =
     (case settle (lm_cost env) (at_settle a) v (lm_model env) input output (at_day_end a) (lw_ledger w) of
        (cost, led) \<Rightarrow>
          (let w1 = w\<lparr>lw_ledger := led\<rparr> in
           if at_cancel a = InSettle then (Cancelled, track_llm_cost (bv_reserved_usd v) w1)
           else (let w2 = track_llm_cost cost w1 in
                 if at_cancel a = InReport then (Cancelled, w2)
                 else (Returned \<lparr>rp_text = text, rp_input = input, rp_output = output, rp_truncated = trunc, rp_cost = cost\<rparr>,
                       report_provider env True (at_end a) w2))))"

text \<open>The request itself, once the guard has allowed it.\<close>

definition requested_call :: "'r llm_env \<Rightarrow> attempt \<Rightarrow> BudgetVerdict \<Rightarrow> 'r llm_world \<Rightarrow> reply outcome \<times> 'r llm_world" where
  "requested_call env a v w0 =
     (let w = w0\<lparr>lw_requests := lw_requests w0 + 1\<rparr> in
      if at_cancel a = InRequest then (Cancelled, track_llm_cost (bv_reserved_usd v) w)
      else (case at_answer a of
              Fails e \<Rightarrow> failed_call env a v e w
            | Text text input output trunc \<Rightarrow>
                if text = [] then failed_call env a v (OtherExn None) w
                else answered_call env a v text input output trunc w))"

definition cli_call :: "attempt \<Rightarrow> 'r llm_world \<Rightarrow> reply outcome \<times> 'r llm_world" where
  "cli_call a w =
     (case at_answer a of
        Text text _ _ _ \<Rightarrow> (Returned \<lparr>rp_text = text, rp_input = 0, rp_output = 0, rp_truncated = False, rp_cost = 0\<rparr>, w)
      | Fails e \<Rightarrow> (Raised (if e = TimeoutExn then OtherExn (Some TimeoutExn) else e), w))"

definition generate_full :: "'r llm_env \<Rightarrow> string \<Rightarrow> attempt \<Rightarrow> 'r llm_world \<Rightarrow> reply outcome \<times> 'r llm_world" where
  "generate_full env prompt a w =
     (if lm_cli env then cli_call a w
      else (case circuit_check env (at_now a) w of
              (True, w1) \<Rightarrow> (Raised CircuitOpenExn, w1)
            | (False, w1) \<Rightarrow>
                (case reserve (lm_cost env) (at_reserve a) (at_readable a) (lm_model env) prompt (at_day a) (lw_ledger w1) of
                   (v, led) \<Rightarrow>
                     (let w2 = w1\<lparr>lw_ledger := led\<rparr> in
                      if at_cancel a = InReserve then (Cancelled, track_llm_cost (bv_reserved_usd v) w2)
                      else if \<not> bv_allowed v then (Raised BudgetExceededExn, w2\<lparr>lw_denied := lw_denied w2 @ [bv_reason v]\<rparr>)
                      else requested_call env a v w2))))"

text \<open>The decorated function: up to three attempts, each with its own circumstances.\<close>

definition ask_model ::
  "'r llm_env \<Rightarrow> string \<Rightarrow> (nat \<Rightarrow> rat) \<Rightarrow> (nat \<Rightarrow> attempt) \<Rightarrow> 'r llm_world \<Rightarrow> reply outcome \<times> num_val list \<times> 'r llm_world" where
  "ask_model env prompt rnd ats w = llm_retry_strategy rnd (\<lambda>k. generate_full env prompt (ats k)) w"

section \<open>Retries\<close>

declare retry_attempts.simps [simp del] external_attempts.simps [simp del]

text \<open>One attempt, by what it returned.\<close>

lemma retry_attempts_step:
  assumes "f attempt s = (res, s1)"
  shows "retry_attempts rnd f attempt left s =
    (case res of
       Raised e \<Rightarrow>
         (if is_retryable_llm_error e \<and> left \<noteq> 0
          then (case retry_attempts rnd f (attempt + 1) (left - 1) s1 of
                  (res', delays, s2) \<Rightarrow> (res', retry_delay (rnd attempt) attempt e # delays, s2))
          else (Raised e, [], s1))
     | _ \<Rightarrow> (res, [], s1))"
  using assms by (subst retry_attempts.simps) (auto split: nat.splits outcome.splits)


lemma retry_requests:
  assumes "\<And>k s. lw_requests (snd (f k s)) \<le> lw_requests s + 1"
  shows "lw_requests (snd (snd (retry_attempts rnd f attempt left s))) \<le> lw_requests s + (left + 1) \<and>
    length (fst (snd (retry_attempts rnd f attempt left s))) \<le> left"
proof (induction left arbitrary: attempt s)
  case 0
  obtain res s1 where f: "f attempt s = (res, s1)" by fastforce
  with assms [of attempt s] show ?case by (simp add: retry_attempts_step split: outcome.splits)
next
  case (Suc n)
  obtain res s1 where f: "f attempt s = (res, s1)" by fastforce
  with assms [of attempt s] have "lw_requests s1 \<le> lw_requests s + 1" by simp
  moreover obtain res' ds s2 where r: "retry_attempts rnd f (attempt + 1) n s1 = (res', ds, s2)" by (metis prod_cases3)
  moreover note Suc.IH [of "attempt + 1" s1]
  ultimately show ?case by (auto simp: retry_attempts_step [of f, OF f] split: outcome.splits)
qed

lemma retry_delay_bounded:
  assumes "0 \<le> u" and "u \<le> 1" and "attempt \<le> 2"
  shows "retry_delay u attempt e = NNaN \<or> (\<exists>q. retry_delay u attempt e = NFin q \<and> 0 \<le> q \<and> q \<le> 61 / 2)"
proof (cases "retry_after_seconds e")
  case None
  have a: "(of_nat attempt :: rat) \<le> 2" using assms(3) by (metis of_nat_le_iff of_nat_numeral)
  have "of_nat attempt * (1 / 2 + u) \<le> 2 * (3 / 2)" by (rule mult_mono) (use a assms(1,2) in simp_all)
  moreover have "0 \<le> of_nat attempt * (1 / 2 + u)" by (rule mult_nonneg_nonneg) (use assms(1) in simp_all)
  moreover have "retry_delay u attempt e = NFin (of_nat attempt * (1 / 2 + u) / 2)" using None by (simp add: retry_delay_def)
  ultimately show ?thesis by (intro disjI2 exI [of _ "of_nat attempt * (1 / 2 + u) / 2"]) simp
next
  case (Some v)
  then have "v = NNaN \<or> (\<exists>q. v = NFin q \<and> 0 \<le> q \<and> q \<le> 30)"
    by (cases v) (auto simp: retry_after_seconds_def RETRY_AFTER_CAP_SECONDS_def split: llm_exn.splits sum.splits if_splits)
  with Some assms(1,2) show ?thesis by (auto simp: retry_delay_def plus_jitter_def)
qed

lemma retry_delays_bounded:
  assumes "\<And>k. 0 \<le> rnd k \<and> rnd k \<le> 1" and "attempt + left \<le> 3"
    and "x \<in> set (fst (snd (retry_attempts rnd f attempt left s)))"
  shows "x = NNaN \<or> (\<exists>q. x = NFin q \<and> 0 \<le> q \<and> q \<le> 61 / 2)"
  using assms(2,3)
proof (induction left arbitrary: attempt s)
  case 0
  obtain res s1 where f: "f attempt s = (res, s1)" by fastforce
  with 0 show ?case by (simp add: retry_attempts_step split: outcome.splits)
next
  case (Suc n)
  obtain res s1 where f: "f attempt s = (res, s1)" by fastforce
  note d = retry_delay_bounded [of "rnd attempt" attempt] 
  from Suc.prems(2) obtain e where "x = retry_delay (rnd attempt) attempt e \<or>
      x \<in> set (fst (snd (retry_attempts rnd f (attempt + 1) n s1)))"
    by (auto simp: retry_attempts_step [of f, OF f] split: prod.splits outcome.splits if_splits)
  then show ?case
  proof
    assume "x = retry_delay (rnd attempt) attempt e"
    with d [of e] assms(1) Suc.prems(1) show ?thesis by simp
  next
    assume "x \<in> set (fst (snd (retry_attempts rnd f (attempt + 1) n s1)))"
    with Suc.IH [of "attempt + 1" s1] Suc.prems(1) show ?thesis by simp
  qed
qed

lemma track_requests [simp]: "lw_requests (track_llm_cost c w) = lw_requests w" "lw_ledger (track_llm_cost c w) = lw_ledger w"
  by (simp_all add: track_llm_cost_def)

lemma report_same [simp]:
  "lw_requests (report_provider env b t w) = lw_requests w" "lw_ledger (report_provider env b t w) = lw_ledger w"
  "lw_metric (report_provider env b t w) = lw_metric w"
  by (simp_all add: report_provider_def)

lemma circuit_check_same:
  "circuit_check env t w = (b, w') \<Longrightarrow> lw_requests w' = lw_requests w \<and> lw_ledger w' = lw_ledger w \<and> lw_metric w' = lw_metric w"
  by (auto simp: circuit_check_def split: if_splits option.splits prod.splits)

lemma failed_call_requests: "lw_requests (snd (failed_call env a v e w)) = lw_requests w"
  by (cases e) (auto simp: failed_call_def split: prod.splits)

lemma answered_call_requests: "lw_requests (snd (answered_call env a v t i o' c w)) = lw_requests w"
  by (auto simp: answered_call_def Let_def split: prod.splits)

lemma requested_call_requests: "lw_requests (snd (requested_call env a v w)) = lw_requests w + 1"
  by (auto simp: requested_call_def Let_def failed_call_requests answered_call_requests split: answer.splits)

lemma generate_full_requests: "lw_requests (snd (generate_full env prompt a w)) \<le> lw_requests w + 1"
proof (cases "lm_cli env")
  case True
  then show ?thesis by (auto simp: generate_full_def cli_call_def split: answer.splits)
next
  case False
  obtain b w1 where c: "circuit_check env (at_now a) w = (b, w1)" by fastforce
  obtain v led where r: "reserve (lm_cost env) (at_reserve a) (at_readable a) (lm_model env) prompt (at_day a) (lw_ledger w1) = (v, led)" by fastforce
  show ?thesis using False c r circuit_check_same [OF c] requested_call_requests [of env a v "w1\<lparr>lw_ledger := led\<rparr>"]
    by (auto simp: generate_full_def Let_def split: bool.splits)
qed

section \<open>What a call costs\<close>














section \<open>The breaker over time\<close>

lemma cb_keys_distinct:
  "open_key p \<noteq> halfopen_key p" "open_key p \<noteq> trial_key p" "open_key p \<noteq> fail_key p"
  "halfopen_key p \<noteq> trial_key p" "halfopen_key p \<noteq> fail_key p" "trial_key p \<noteq> fail_key p"
  by (simp_all add: open_key_def halfopen_key_def trial_key_def fail_key_def)

lemmas cb_keys = cb_keys_distinct cb_keys_distinct [symmetric]

text \<open>The answers to a row of checks, and what a row of failures leaves. An error of Redis lets a call pass.\<close>

fun checks :: "'r redis_api \<Rightarrow> string \<Rightarrow> int list \<Rightarrow> 'r \<Rightarrow> bool list" where
  "checks api p [] r = []"
| "checks api p (t # ts) r =
     (case is_circuit_open api p t r of None \<Rightarrow> False # checks api p ts r | Some (b, r1) \<Rightarrow> b # checks api p ts r1)"

fun failures :: "'r redis_api \<Rightarrow> string \<Rightarrow> int list \<Rightarrow> 'r \<Rightarrow> 'r" where
  "failures api p [] r = r"
| "failures api p (t # ts) r = failures api p ts (report_failure api p t r)"

context redis
begin

text \<open>What a counter holds: nothing before its first count, then the number of counts until the end of its window.\<close>

definition counting :: "string \<Rightarrow> nat \<Rightarrow> int \<Rightarrow> 'r \<Rightarrow> bool" where
  "counting k n e r \<longleftrightarrow> (\<forall>t. live (view r) t k = (if n = 0 then None else if t < e then Some (int_str (int n), Some e) else None))"

lemma counted_first:
  assumes "up r" and "counting k 0 e r"
  shows "\<exists>r'. counted api now k secs r = Some (1, r') \<and> up r' \<and> (\<forall>t k'. live (view r') t k' =
    (if k' = k then if t < now + secs then Some (int_str 1, Some (now + secs)) else None else live (view r) t k'))"
proof -
  have l: "live (view r) now k = None" using assms(2) by (simp add: counting_def)
  then have "(case live (view r) now k of None \<Rightarrow> Some (0, None) | Some (v, e) \<Rightarrow> map_option (\<lambda>n. (n, e)) (redis_int v)) = Some (0, None)" by simp
  from incr_view [OF assms(1) this, of 1] obtain r1 where r1: "r_incrby api r now k 1 = Some (1, r1)" "up r1"
    "live (view r1) = live ((view r)(k \<mapsto> (int_str 1, None)))" by auto
  then have "live (view r1) now k = Some (int_str 1, None)" by simp
  from expire_view [OF r1(2) this, of secs] obtain r2 where r2: "r_expire api r1 now k secs = Some (True, r2)" "up r2"
    "live (view r2) = live ((view r1)(k \<mapsto> (int_str 1, Some (now + secs))))" by auto
  have "counted api now k secs r = Some (1, r2)" using r1 r2 ttl_view [OF r1(2), of now k] by (simp add: counted_def)
  moreover have "live (view r2) t k' = (if k' = k then if t < now + secs then Some (int_str 1, Some (now + secs)) else None else live (view r) t k')" for t k'
    using r1(3) r2(3) by simp
  ultimately show ?thesis using r2(2) by blast
qed

lemma counted_next:
  assumes "up r" and "counting k (Suc n) e r" and "now < e"
  shows "\<exists>r'. counted api now k secs r = Some (int (Suc (Suc n)), r') \<and> up r' \<and> (\<forall>t k'. live (view r') t k' =
    (if k' = k then if t < e then Some (int_str (int (Suc (Suc n))), Some e) else None else live (view r) t k'))"
proof -
  have l: "live (view r) now k = Some (int_str (int (Suc n)), Some e)" using assms(2,3) by (simp add: counting_def)
  then have "(case live (view r) now k of None \<Rightarrow> Some (0, None) | Some (v, e) \<Rightarrow> map_option (\<lambda>n. (n, e)) (redis_int v)) = Some (int (Suc n), Some e)"
    by simp
  from incr_view [OF assms(1) this, of 1] obtain r1 where r1: "r_incrby api r now k 1 = Some (int (Suc n) + 1, r1)" "up r1"
    "live (view r1) = live ((view r)(k \<mapsto> (int_str (int (Suc n) + 1), Some e)))" by auto
  have "live (view r1) now k = Some (int_str (int (Suc n) + 1), Some e)" using r1(3) assms(3) by simp
  then have "r_ttl api r1 now k = Some (e - now)" using ttl_view [OF r1(2), of now k] by (simp add: remaining_ttl_def)
  with r1(1) assms(3) have "counted api now k secs r = Some (int (Suc (Suc n)), r1)" by (simp add: counted_def)
  moreover have "live (view r1) t k' = (if k' = k then if t < e then Some (int_str (int (Suc (Suc n))), Some e) else None else live (view r) t k')" for t k'
    using r1(3) by (simp add: add.commute)
  ultimately show ?thesis using r1(2) by blast
qed

lemma counted_counts:
  assumes "up r" and "counting k n e r" and "n = 0 \<longrightarrow> e = now + secs" and "now < e"
  shows "\<exists>r'. counted api now k secs r = Some (int (Suc n), r') \<and> up r' \<and> counting k (Suc n) e r' \<and>
    (\<forall>t k'. k' \<noteq> k \<longrightarrow> live (view r') t k' = live (view r) t k')"
proof (cases n)
  case 0
  with assms have "counting k 0 e r" "e = now + secs" by simp_all
  from counted_first [OF assms(1) this(1), of now secs] this(2) 0 show ?thesis by (auto simp: counting_def)
next
  case (Suc m)
  with assms(2) have "counting k (Suc m) e r" by simp
  from counted_next [OF assms(1) this assms(4), of secs] Suc show ?thesis by (auto simp: counting_def)
qed

text \<open>The state in which the breaker is open until \<open>t + 60\<close> and half-open after that until \<open>t + 360\<close>.\<close>

definition opened :: "string \<Rightarrow> int \<Rightarrow> 'r \<Rightarrow> bool" where
  "opened p t r \<longleftrightarrow> up r \<and>
     (\<forall>u. live (view r) u (open_key p) \<noteq> None \<longleftrightarrow> u < t + CB_OPEN_SECONDS) \<and>
     (\<forall>u. live (view r) u (halfopen_key p) \<noteq> None \<longleftrightarrow> u < t + (CB_OPEN_SECONDS + CB_HALF_OPEN_WINDOW_SECONDS))"

lemma open_circuit_opens:
  assumes "up r"
  shows "\<exists>r'. open_circuit api p t r = Some r' \<and> opened p t r' \<and> counting (trial_key p) 0 e r' \<and> counting (fail_key p) 0 e r'"
proof -
  from set_view [OF assms, of False t "open_key p" "''1''" CB_OPEN_SECONDS] obtain r1 where
    r1: "r_set api r t (open_key p) ''1'' CB_OPEN_SECONDS False = Some (True, r1)" "up r1"
    "live (view r1) = live ((view r)(open_key p \<mapsto> (''1'', Some (t + CB_OPEN_SECONDS))))" by auto
  from set_view [OF r1(2), of False t "halfopen_key p" "''1''" "CB_OPEN_SECONDS + CB_HALF_OPEN_WINDOW_SECONDS"] obtain r2 where
    r2: "r_set api r1 t (halfopen_key p) ''1'' (CB_OPEN_SECONDS + CB_HALF_OPEN_WINDOW_SECONDS) False = Some (True, r2)" "up r2"
    "live (view r2) = live ((view r1)(halfopen_key p \<mapsto> (''1'', Some (t + (CB_OPEN_SECONDS + CB_HALF_OPEN_WINDOW_SECONDS)))))" by auto
  from delete_view [OF r2(2), of t "trial_key p"] obtain r3 where
    r3: "r_delete api r2 t (trial_key p) = Some r3" "up r3" "live (view r3) = live ((view r2)(trial_key p := None))" by auto
  from delete_view [OF r3(2), of t "fail_key p"] obtain r4 where
    r4: "r_delete api r3 t (fail_key p) = Some r4" "up r4" "live (view r4) = live ((view r3)(fail_key p := None))" by auto
  have "live (view r4) u k = (if k = fail_key p \<or> k = trial_key p then None
      else if k = halfopen_key p then (if u < t + (CB_OPEN_SECONDS + CB_HALF_OPEN_WINDOW_SECONDS)
        then Some (''1'', Some (t + (CB_OPEN_SECONDS + CB_HALF_OPEN_WINDOW_SECONDS))) else None)
      else if k = open_key p then (if u < t + CB_OPEN_SECONDS then Some (''1'', Some (t + CB_OPEN_SECONDS)) else None)
      else live (view r) u k)" for u k
    using r1(3) r2(3) r3(3) r4(3) by simp
  with r1(1) r2(1) r3(1) r4(1,2) cb_keys show ?thesis
    by (auto simp: open_circuit_def opened_def counting_def)
qed

lemma check_open: "opened p t r \<Longrightarrow> u < t + CB_OPEN_SECONDS \<Longrightarrow> is_circuit_open api p u r = Some (True, r)"
  by (auto simp: is_circuit_open_def opened_def exists_view)

lemma check_half:
  assumes o: "opened p t r" and u: "t + CB_OPEN_SECONDS \<le> u" "u < t + (CB_OPEN_SECONDS + CB_HALF_OPEN_WINDOW_SECONDS)"
    and c: "counting (trial_key p) n e r" "n = 0 \<longrightarrow> e = u + CB_OPEN_SECONDS" "u < e"
  shows "\<exists>r'. is_circuit_open api p u r = Some (CB_HALF_OPEN_MAX_TRIALS < int (Suc n), r') \<and> opened p t r' \<and>
    counting (trial_key p) (Suc n) e r'"
proof -
  have up: "up r" using o by (simp add: opened_def)
  from counted_counts [OF up c] obtain r' where r': "counted api u (trial_key p) CB_OPEN_SECONDS r = Some (int (Suc n), r')" "up r'"
    "counting (trial_key p) (Suc n) e r'" "\<And>t k'. k' \<noteq> trial_key p \<Longrightarrow> live (view r') t k' = live (view r) t k'" by blast
  have "is_circuit_open api p u r = Some (CB_HALF_OPEN_MAX_TRIALS < int (Suc n), r')"
    using o u r'(1) exists_view [OF up] by (simp add: is_circuit_open_def opened_def)
  moreover have "opened p t r'" using o r'(2,4) cb_keys by (simp add: opened_def)
  ultimately show ?thesis using r'(3) by blast
qed

lemma half_run:
  assumes "opened p t r" and "counting (trial_key p) n e r" and "0 < n \<or> (\<exists>u us. ts = u # us \<and> e = u + CB_OPEN_SECONDS) \<or> ts = []"
    and "\<forall>u\<in>set ts. t + CB_OPEN_SECONDS \<le> u \<and> u < t + (CB_OPEN_SECONDS + CB_HALF_OPEN_WINDOW_SECONDS) \<and> u < e"
  shows "checks api p ts r = map (\<lambda>i. CB_HALF_OPEN_MAX_TRIALS < int (Suc (n + i))) [0..<length ts]"
  using assms
proof (induction ts arbitrary: r n)
  case (Cons u us)
  have "n = 0 \<longrightarrow> e = u + CB_OPEN_SECONDS" using Cons.prems(3) by auto
  from check_half [OF Cons.prems(1) _ _ Cons.prems(2) this] Cons.prems(4) obtain r' where
    r': "is_circuit_open api p u r = Some (CB_HALF_OPEN_MAX_TRIALS < int (Suc n), r')" "opened p t r'" "counting (trial_key p) (Suc n) e r'"
    by auto
  have "checks api p us r' = map (\<lambda>i. CB_HALF_OPEN_MAX_TRIALS < int (Suc (Suc n + i))) [0..<length us]"
    by (rule Cons.IH [OF r'(2,3)]) (use Cons.prems(4) in auto)
  then show ?case using r'(1) by (simp add: map_upt_Suc del: upt_Suc)
qed simp

definition calm :: "string \<Rightarrow> 'r \<Rightarrow> bool" where
  "calm p r \<longleftrightarrow> up r \<and> (\<forall>u. live (view r) u (open_key p) = None \<and> live (view r) u (halfopen_key p) = None)"

lemma check_calm: "calm p r \<Longrightarrow> is_circuit_open api p u r = Some (False, r)"
  by (simp add: is_circuit_open_def calm_def exists_view)

lemma checks_calm: "calm p r \<Longrightarrow> checks api p us r = replicate (length us) False"
  by (induction us) (simp_all add: check_calm)

lemma checks_open: "opened p t r \<Longrightarrow> \<forall>u\<in>set us. u < t + CB_OPEN_SECONDS \<Longrightarrow> checks api p us r = replicate (length us) True"
  by (induction us) (simp_all add: check_open)

lemma failure_counts:
  assumes "calm p r" and "counting (fail_key p) n e r" and "n = 0 \<longrightarrow> e = u + CB_FAIL_WINDOW_SECONDS" and "u < e"
  shows "if CB_FAIL_THRESHOLD \<le> int (Suc n)
    then opened p u (report_failure api p u r) \<and> counting (trial_key p) 0 e' (report_failure api p u r)
    else calm p (report_failure api p u r) \<and> counting (fail_key p) (Suc n) e (report_failure api p u r)"
proof -
  have up: "up r" using assms(1) by (simp add: calm_def)
  from counted_counts [OF up assms(2-4)] obtain r' where r': "counted api u (fail_key p) CB_FAIL_WINDOW_SECONDS r = Some (int (Suc n), r')" "up r'"
    "counting (fail_key p) (Suc n) e r'" "\<And>t k'. k' \<noteq> fail_key p \<Longrightarrow> live (view r') t k' = live (view r) t k'" by blast
  obtain r2 where r2: "open_circuit api p u r' = Some r2" "opened p u r2" "counting (trial_key p) 0 e' r2"
    using open_circuit_opens [OF r'(2)] by blast
  have rep: "report_failure api p u r = (if CB_FAIL_THRESHOLD \<le> int (Suc n) then r2 else r')"
    using assms(1) r'(1) r2(1) exists_view [OF up] by (simp add: report_failure_def calm_def Let_def)
  have "calm p r'" using assms(1) r'(2,4) cb_keys by (simp add: calm_def)
  with r2 r'(3) show ?thesis by (simp add: rep)
qed

lemma failures_count:
  assumes "calm p r" and "counting (fail_key p) n e r" and "0 < n \<or> (\<exists>u us. ts = u # us \<and> e = u + CB_FAIL_WINDOW_SECONDS) \<or> ts = []"
    and "\<forall>u\<in>set ts. u < e" and "n + length ts < 5"
  shows "calm p (failures api p ts r) \<and> counting (fail_key p) (n + length ts) e (failures api p ts r)"
  using assms
proof (induction ts arbitrary: r n)
  case (Cons u us)
  have "n = 0 \<longrightarrow> e = u + CB_FAIL_WINDOW_SECONDS" using Cons.prems(3) by auto
  from failure_counts [OF Cons.prems(1,2) this] Cons.prems(4,5)
  have s: "calm p (report_failure api p u r)" "counting (fail_key p) (Suc n) e (report_failure api p u r)"
    by (simp_all add: CB_FAIL_THRESHOLD_def)
  have "calm p (failures api p us (report_failure api p u r)) \<and>
      counting (fail_key p) (Suc n + length us) e (failures api p us (report_failure api p u r))"
    by (rule Cons.IH [OF s]) (use Cons.prems(4,5) in auto)
  then show ?case by simp
qed simp

end

lemma failures_append: "failures api p (xs @ ys) r = failures api p ys (failures api p xs r)"
  by (induction xs arbitrary: r) simp_all

section \<open>Properties\<close>

text \<open>
  The circuit breaker: from a clean slate, fewer than five failures within a minute let every call pass; the fifth opens
  the circuit and every call of the next minute is refused; after that, as long as nothing is reported, of the
  calls of one minute within the half-open time exactly the first two are let through as trials.
\<close>

theorem breaker_limits_calls:
  assumes "redis api view up" and "up r"
    and free: "\<And>t k. k \<in> {open_key p, halfopen_key p, trial_key p, fail_key p} \<Longrightarrow> live (view r) t k = None"
    and fs: "length fs = 4" "\<forall>u\<in>set (fs @ [t]). u < hd fs + CB_FAIL_WINDOW_SECONDS"
    and us: "\<forall>u\<in>set us. u < t + CB_OPEN_SECONDS"
    and hs: "\<forall>u\<in>set hs. t + CB_OPEN_SECONDS \<le> u \<and> u < t + (CB_OPEN_SECONDS + CB_HALF_OPEN_WINDOW_SECONDS) \<and> u < hd hs + CB_OPEN_SECONDS"
  shows "checks api p us (failures api p fs r) = replicate (length us) False \<and>
    checks api p us (failures api p (fs @ [t]) r) = replicate (length us) True \<and>
    checks api p hs (failures api p (fs @ [t]) r) = map (\<lambda>i. 2 \<le> i) [0..<length hs]"
proof -
  note R = assms(1)
  let ?e = "hd fs + CB_FAIL_WINDOW_SECONDS" and ?e' = "hd hs + CB_OPEN_SECONDS"
  have "redis.calm view up p r" "redis.counting view (fail_key p) 0 ?e r"
    using assms(2) free by (simp_all add: redis.calm_def [OF R] redis.counting_def [OF R])
  moreover have "\<exists>u us. fs = u # us \<and> ?e = u + CB_FAIL_WINDOW_SECONDS" using fs(1) by (cases fs) simp_all
  ultimately have four: "redis.calm view up p (failures api p fs r)" "redis.counting view (fail_key p) 4 ?e (failures api p fs r)"
    using redis.failures_count [OF R, of p r 0 ?e fs] fs by simp_all
  have "redis.opened view up p t (failures api p (fs @ [t]) r)" "redis.counting view (trial_key p) 0 ?e' (failures api p (fs @ [t]) r)"
    using redis.failure_counts [OF R four, of t ?e'] fs(2) by (simp_all add: failures_append CB_FAIL_THRESHOLD_def)
  then show ?thesis using redis.checks_calm [OF R four(1)] redis.checks_open [OF R _ us] hs
      redis.half_run [OF R, of p t "failures api p (fs @ [t]) r" 0 ?e' hs]
    by (cases hs) (auto simp: CB_HALF_OPEN_MAX_TRIALS_def)
qed


text \<open>
  C30. A question to the model costs at most three requests, with at most two pauses between them, each no longer than
  half a minute and a half second, whatever the provider answers, with one exception that the cap on \<open>Retry-After\<close>
  misses: a header that reads as NaN is kept as the delay.
\<close>

theorem at_most_three_requests:
  assumes "\<And>k. 0 \<le> rnd k \<and> rnd k \<le> 1" and "ask_model env prompt rnd ats w = (res, delays, w')"
  shows "lw_requests w' \<le> lw_requests w + 3 \<and> length delays \<le> 2 \<and>
    (\<forall>x\<in>set delays. x = NNaN \<or> (\<exists>q. x = NFin q \<and> 0 \<le> q \<and> q \<le> 61 / 2))"
proof -
  let ?f = "\<lambda>k. generate_full env prompt (ats k)"
  have r: "retry_attempts rnd ?f 1 2 w = (res, delays, w')"
    using assms(2) by (simp add: ask_model_def llm_retry_strategy_def RETRIES_def)
  show ?thesis
    using retry_requests [where f = ?f and rnd = rnd and attempt = 1 and left = 2 and s = w, OF generate_full_requests]
      retry_delays_bounded [where f = ?f and rnd = rnd and attempt = 1 and left = 2 and s = w, OF assms(1)] r by fastforce
qed

section \<open>Witnesses\<close>

definition sample_llm :: "kv llm_env" where
  "sample_llm = \<lparr>lm_cost = sample_cost, lm_api = kv_api, lm_cli = False, lm_breaker = True, lm_model = ''m''\<rparr>"

definition sample_llm_world :: "kv llm_world" where
  "sample_llm_world = \<lparr>lw_ledger = Map.empty, lw_redis = [], lw_metric = 0, lw_denied = [], lw_requests = 0\<rparr>"

definition sample_attempt :: attempt where
  "sample_attempt = \<lparr>at_now = 0, at_day = 1, at_reserve = Committed, at_readable = True, at_answer = Fails (RateLimitExn (PStr ''nan'')),
     at_settle = Failed, at_day_end = 1, at_end = 1, at_cancel = Never\<rparr>"

theorem breaker_limits_calls_witness:
  "checks kv_api ''a'' [65, 66, 67] (failures kv_api ''a'' [0, 1, 2, 3, 4] []) = [False, False, True] \<and>
   checks kv_api ''a'' [5, 63] (failures kv_api ''a'' [0, 1, 2, 3, 4] []) = [True, True]"
  using breaker_limits_calls [OF kv.redis_axioms, where r = "[]" and p = "''a''" and fs = "[0, 1, 2, 3]" and t = 4 and us = "[5, 63]"
      and hs = "[65, 66, 67]"]
  by (simp add: live_def CB_FAIL_WINDOW_SECONDS_def CB_OPEN_SECONDS_def CB_HALF_OPEN_WINDOW_SECONDS_def upt_rec)




theorem at_most_three_requests_witness:
  "\<exists>res delays w'. ask_model sample_llm ''text'' (\<lambda>_. 1) (\<lambda>_. sample_attempt) sample_llm_world = (res, delays, w') \<and>
     length delays \<le> 2 \<and> lw_requests w' \<le> 3"
proof -
  obtain res delays w' where a: "ask_model sample_llm ''text'' (\<lambda>_. 1) (\<lambda>_. sample_attempt) sample_llm_world = (res, delays, w')"
    by (metis prod_cases3)
  from at_most_three_requests [OF _ a] a show ?thesis by (simp add: sample_llm_world_def)
qed

end
