(* ===== verification/Report_Delivery.thy ===== *)
theory Report_Delivery
  imports Incident_Machine Execution_Dsl
begin

text \<open>
  Delivery of the incident report to Discord through outbox markers
  (\<open>src/app/workers/report_delivery.py\<close>, the severity gate of \<open>discord/routing.py\<close>, the redelivery
  branch of \<open>IncidentPipeline.run\<close> and the marker \<open>_persist\<close> writes). The row in the database and the
  session's object are two values: a worker may hold an object that another writer has overtaken. The
  ORM session is a parameter; what the code relies on is \<open>orm_laws\<close>, the documented behaviour of
  \<open>refresh\<close>, \<open>commit\<close> and \<open>rollback\<close> for a session without autoflush (\<open>SessionLocal\<close>). The Discord
  service, the reader of ISO-8601 times and the clock are parameters as well; one delivery reads the
  clock once. Log lines are left out.
\<close>

section \<open>The session\<close>

text \<open>An object of the session: its attributes as assigned, and as they were loaded.\<close>

record orm_object =
  oo_now :: incident_record
  oo_loaded :: incident_record

definition fresh :: "incident_record \<Rightarrow> orm_object" where
  "fresh row = \<lparr>oo_now = row, oo_loaded = row\<rparr>"

record orm =
  o_refresh :: "incident_record \<Rightarrow> orm_object \<Rightarrow> orm_object option"
  o_commit :: "incident_record \<Rightarrow> orm_object \<Rightarrow> (incident_record \<times> orm_object) option"
  o_rollback :: "incident_record \<Rightarrow> orm_object \<Rightarrow> orm_object"

text \<open>A commit writes the attributes that differ from what was loaded, of those this code assigns.\<close>

definition written :: "'a \<Rightarrow> 'a \<Rightarrow> 'a \<Rightarrow> 'a" where
  "written row_value loaded_value new_value = (if new_value = loaded_value then row_value else new_value)"

definition commit_row :: "incident_record \<Rightarrow> orm_object \<Rightarrow> incident_record" where
  "commit_row row obj =
     (let n = oo_now obj; l = oo_loaded obj in
      row\<lparr>ir_status := written (ir_status row) (ir_status l) (ir_status n),
          ir_analysis := written (ir_analysis row) (ir_analysis l) (ir_analysis n),
          ir_trace := written (ir_trace row) (ir_trace l) (ir_trace n),
          ir_report_state := written (ir_report_state row) (ir_report_state l) (ir_report_state n),
          ir_report_attempts := written (ir_report_attempts row) (ir_report_attempts l) (ir_report_attempts n),
          ir_report_updated_at :=
            written (ir_report_updated_at row) (ir_report_updated_at l) (ir_report_updated_at n)\<rparr>)"

text \<open>
  \<open>refresh\<close> expires the object and reloads it, so that assignments not yet flushed are gone; each
  command may fail.
\<close>

definition orm_laws :: "orm \<Rightarrow> bool" where
  "orm_laws db \<longleftrightarrow>
     (\<forall>row obj obj'. o_refresh db row obj = Some obj' \<longrightarrow> obj' = fresh row) \<and>
     (\<forall>row obj row' obj'. o_commit db row obj = Some (row', obj') \<longrightarrow>
        row' = commit_row row obj \<and> oo_now obj' = oo_now obj \<and> oo_loaded obj' = oo_now obj) \<and>
     (\<forall>row obj. o_rollback db row obj = fresh row)"

definition orm_works :: "orm \<Rightarrow> bool" where
  "orm_works db \<longleftrightarrow> orm_laws db \<and>
     (\<forall>row obj. o_refresh db row obj \<noteq> None \<and> o_commit db row obj \<noteq> None)"

section \<open>Constants\<close>

definition PENDING_KEY :: string where "PENDING_KEY = ''report_pending''"
definition SENT_KEY :: string where "SENT_KEY = ''report_sent''"
definition FAILED_KEY :: string where "FAILED_KEY = ''report_failed''"

definition CHECKPOINT_KEY :: string where "CHECKPOINT_KEY = ''pipeline_checkpoint''"

definition REPORT_SENT :: string where "REPORT_SENT = ''sent''"
definition REPORT_FAILED :: string where "REPORT_FAILED = ''failed''"

text \<open>\<open>int(getattr(settings, "REPORT_DELIVERY_MAX_ATTEMPTS", 4) or 4)\<close>; the setting is absent or a number.\<close>

definition MAX_ATTEMPTS :: "int option \<Rightarrow> int" where
  "MAX_ATTEMPTS setting = (case setting of Some n \<Rightarrow> if n = 0 then 4 else n | None \<Rightarrow> 4)"

section \<open>Severity gate\<close>

definition ROUTEABLE_SEVERITIES :: "string list" where
  "ROUTEABLE_SEVERITIES = [''critical'', ''warning'']"

definition should_route_to_error :: "string \<Rightarrow> bool" where
  "should_route_to_error severity = (lower (strip severity) \<in> set ROUTEABLE_SEVERITIES)"

text \<open>A truthy severity that is not a text has no \<open>strip\<close>: the \<open>AttributeError\<close> counts as routeable.\<close>

definition severity_routeable :: "pyval \<Rightarrow> bool" where
  "severity_routeable severity =
     (if \<not> truthy severity then should_route_to_error ''''
      else (case severity of PStr s \<Rightarrow> should_route_to_error s | _ \<Rightarrow> True))"

section \<open>State of a delivery\<close>

datatype kwarg = Plain pyval | Intent "ExecutionIntent option" | Moment "int option"

text \<open>\<open>Answered None\<close> is a service that returned nothing; \<open>SendRaised\<close> one that raised.\<close>

datatype send_answer = Answered "bool option" | SendRaised

record denv =
  de_orm :: orm
  de_send :: "(string \<times> kwarg) list \<Rightarrow> send_answer"
  de_fromisoformat :: "string \<Rightarrow> int option"
  de_now_iso :: string
  de_utcnow :: int
  de_max_setting :: "int option"

record delivery =
  rd_row :: incident_record
  rd_record :: "orm_object option"
  rd_pending :: "pydict option"
  rd_outboxed :: bool
  rd_sends :: "(string \<times> kwarg) list list"
  rd_audit :: "(string \<times> int) list"

definition report_delivery :: "incident_record \<Rightarrow> orm_object option \<Rightarrow> delivery" where
  "report_delivery row rec = \<lparr>rd_row = row, rd_record = rec, rd_pending = None, rd_outboxed = False,
     rd_sends = [], rd_audit = []\<rparr>"

section \<open>Markers\<close>

definition new_marker :: "denv \<Rightarrow> pydict \<Rightarrow> pydict" where
  "new_marker env args =
     [(''args'', PDict args), (''attempts'', PInt 0), (''queued_at'', PStr (de_now_iso env))]"

definition mark_outboxed :: "delivery \<Rightarrow> delivery" where
  "mark_outboxed d = d\<lparr>rd_outboxed := True\<rparr>"

definition stage :: "pydict \<Rightarrow> delivery \<Rightarrow> delivery" where
  "stage args d = d\<lparr>rd_pending := Some [(''args'', PDict args), (''attempts'', PInt 0)]\<rparr>"

definition load_pending :: "delivery \<Rightarrow> pydict option" where
  "load_pending d =
     (case rd_record d of
        None \<Rightarrow> None
      | Some obj \<Rightarrow>
          (case ir_analysis (oo_now obj) of
             PDict analysis \<Rightarrow>
               (if truthy (dget analysis SENT_KEY) \<or> truthy (dget analysis FAILED_KEY) then None
                else (case dget analysis PENDING_KEY of
                        PDict pending \<Rightarrow>
                          (case dget pending ''args'' of PDict args \<Rightarrow> Some pending | _ \<Rightarrow> None)
                      | _ \<Rightarrow> None))
           | _ \<Rightarrow> None))"

text \<open>The row lock: a failure is swallowed and leaves the object as it was.\<close>

definition lock_record :: "denv \<Rightarrow> delivery \<Rightarrow> orm_object \<Rightarrow> orm_object" where
  "lock_record env d obj =
     (case o_refresh (de_orm env) (rd_row d) obj of Some obj' \<Rightarrow> obj' | None \<Rightarrow> obj)"

definition update_analysis :: "denv \<Rightarrow> (pydict \<Rightarrow> pydict) \<Rightarrow> delivery \<Rightarrow> delivery" where
  "update_analysis env mutate d =
     (case rd_record d of
        None \<Rightarrow> d
      | Some obj \<Rightarrow>
          (let locked = lock_record env d obj;
               analysis = (case ir_analysis (oo_now locked) of PDict a \<Rightarrow> a | _ \<Rightarrow> []);
               assigned = locked\<lparr>oo_now := (oo_now locked)\<lparr>ir_analysis := PDict (mutate analysis)\<rparr>\<rparr>
           in (case o_commit (de_orm env) (rd_row d) assigned of
                 Some (row', obj') \<Rightarrow> d\<lparr>rd_row := row', rd_record := Some obj'\<rparr>
               | None \<Rightarrow> d\<lparr>rd_record := Some (o_rollback (de_orm env) (rd_row d) assigned)\<rparr>)))"

definition set_state_column :: "denv \<Rightarrow> string \<Rightarrow> int \<Rightarrow> delivery \<Rightarrow> delivery" where
  "set_state_column env state attempts d =
     (case rd_record d of
        None \<Rightarrow> d
      | Some obj \<Rightarrow>
          d\<lparr>rd_record := Some (obj\<lparr>oo_now :=
              set_report_state (oo_now obj) (Some state) (Some attempts) (de_utcnow env)\<rparr>)\<rparr>)"

definition sent_marker :: "denv \<Rightarrow> int \<Rightarrow> pydict \<Rightarrow> pydict" where
  "sent_marker env attempts analysis =
     dset (dpop analysis PENDING_KEY) SENT_KEY
       (PDict [(''sent_at'', PStr (de_now_iso env)), (''attempts'', PInt attempts)])"

definition mark_sent :: "denv \<Rightarrow> int \<Rightarrow> delivery \<Rightarrow> delivery" where
  "mark_sent env attempts d =
     update_analysis env (sent_marker env attempts)
       (set_state_column env REPORT_SENT attempts (d\<lparr>rd_pending := None\<rparr>))"

definition failed_marker :: "denv \<Rightarrow> int \<Rightarrow> string \<Rightarrow> pydict \<Rightarrow> pydict" where
  "failed_marker env attempts reason analysis =
     dset (dpop analysis PENDING_KEY) FAILED_KEY
       (PDict [(''failed_at'', PStr (de_now_iso env)), (''attempts'', PInt attempts),
               (''reason'', PStr reason)])"

definition mark_failed :: "denv \<Rightarrow> int \<Rightarrow> string \<Rightarrow> delivery \<Rightarrow> delivery" where
  "mark_failed env attempts reason d =
     update_analysis env (failed_marker env attempts reason)
       (set_state_column env REPORT_FAILED attempts (d\<lparr>rd_pending := None\<rparr>))"

definition bumped_marker :: "denv \<Rightarrow> pydict \<Rightarrow> int \<Rightarrow> pydict \<Rightarrow> pydict" where
  "bumped_marker env args attempts analysis =
     (let base = (case dget analysis PENDING_KEY of
                    PDict pending \<Rightarrow> pending
                  | _ \<Rightarrow> [(''queued_at'', PStr (de_now_iso env))])
      in dset analysis PENDING_KEY (PDict
           (dset (dset (dset base ''args'' (PDict args)) ''attempts'' (PInt attempts))
              ''last_error_at'' (PStr (de_now_iso env)))))"

definition bump_attempts :: "denv \<Rightarrow> pydict \<Rightarrow> int \<Rightarrow> delivery \<Rightarrow> delivery" where
  "bump_attempts env args attempts d =
     update_analysis env (bumped_marker env args attempts)
       (d\<lparr>rd_pending := map_option (\<lambda>p. dset p ''attempts'' (PInt attempts)) (rd_pending d)\<rparr>)"

definition refreshed_marker :: "denv \<Rightarrow> pydict \<Rightarrow> pydict \<Rightarrow> pydict" where
  "refreshed_marker env args analysis =
     (let base = (case dget analysis PENDING_KEY of
                    PDict pending \<Rightarrow> pending
                  | _ \<Rightarrow> [(''attempts'', PInt 0), (''queued_at'', PStr (de_now_iso env))])
      in dset analysis PENDING_KEY (PDict (dset base ''args'' (PDict args))))"

definition refresh_args :: "denv \<Rightarrow> pydict \<Rightarrow> delivery \<Rightarrow> delivery" where
  "refresh_args env args d = update_analysis env (refreshed_marker env args) d"

section \<open>Sending\<close>

text \<open>The fields of a marker as arguments of the service: an intent and a time come back from JSON.\<close>

definition send_kwarg :: "denv \<Rightarrow> string \<Rightarrow> pyval \<Rightarrow> kwarg" where
  "send_kwarg env key v =
     (if key = ''execution_intent'' then
        (case v of
           PDict intent \<Rightarrow> Intent (case model_validate v of Inr i \<Rightarrow> Some i | Inl _ \<Rightarrow> None)
         | _ \<Rightarrow> Plain v)
      else if key = ''incident_ts'' then
        (case v of PStr s \<Rightarrow> Moment (de_fromisoformat env s) | _ \<Rightarrow> Plain v)
      else Plain v)"

definition send_kwargs :: "denv \<Rightarrow> pydict \<Rightarrow> (string \<times> kwarg) list" where
  "send_kwargs env args = map (\<lambda>(key, v). (key, send_kwarg env key v)) args"

definition accepted :: "send_answer \<Rightarrow> bool" where
  "accepted answer = (case answer of Answered r \<Rightarrow> r \<noteq> Some False | SendRaised \<Rightarrow> False)"

definition send_once :: "denv \<Rightarrow> pydict \<Rightarrow> delivery \<Rightarrow> bool \<times> delivery" where
  "send_once env args d =
     (accepted (de_send env (send_kwargs env args)),
      d\<lparr>rd_sends := rd_sends d @ [send_kwargs env args]\<rparr>)"

section \<open>One delivery\<close>

datatype delivery_exn = ReportDeliveryPending int | Other exn

text \<open>\<open>int(pending.get("attempts") or 0)\<close>\<close>

definition attempts_of :: "pydict \<Rightarrow> int result" where
  "attempts_of pending =
     (let v = dget pending ''attempts'' in if truthy v then to_int v else Inr 0)"

definition undelivered :: "denv \<Rightarrow> pydict \<Rightarrow> int \<Rightarrow> delivery \<Rightarrow> (delivery_exn + unit) \<times> delivery" where
  "undelivered env args attempts d =
     (if \<not> rd_outboxed d then (Inr (), d)
      else if \<not> severity_routeable (dget args ''severity'') then
        (Inr (), mark_failed env attempts ''severity_gate_skip'' d)
      else if MAX_ATTEMPTS (de_max_setting env) \<le> attempts then
        (Inr (), mark_failed env attempts ''discord_delivery_failed''
           (d\<lparr>rd_audit := rd_audit d @ [(''PIPELINE_REPORT_DELIVERY_FAILED'', attempts)]\<rparr>))
      else (Inl (ReportDeliveryPending attempts), bump_attempts env args attempts d))"

definition deliver :: "denv \<Rightarrow> pydict \<Rightarrow> delivery \<Rightarrow> (delivery_exn + unit) \<times> delivery" where
  "deliver env pending d =
     (case dget pending ''args'' of
        PDict args \<Rightarrow>
          (case attempts_of pending of
             Inl e \<Rightarrow> (Inl (Other e), d)
           | Inr done_before \<Rightarrow>
               (let attempts = done_before + 1 in
                case send_once env args d of (delivered, d') \<Rightarrow>
                  if delivered then (Inr (), mark_sent env attempts d')
                  else undelivered env args attempts d'))
      | _ \<Rightarrow>
          (case attempts_of pending of
             Inl e \<Rightarrow> (Inl (Other e), d)
           | Inr n \<Rightarrow> (Inr (), mark_failed env n ''marker_unusable'' d)))"

definition flush :: "denv \<Rightarrow> delivery \<Rightarrow> (delivery_exn + unit) \<times> delivery" where
  "flush env d = (case rd_pending d of None \<Rightarrow> (Inr (), d) | Some pending \<Rightarrow> deliver env pending d)"

definition resend :: "denv \<Rightarrow> pydict \<Rightarrow> delivery \<Rightarrow> (delivery_exn + unit) \<times> delivery" where
  "resend env pending d =
     (case attempts_of pending of
        Inl e \<Rightarrow> (Inl (Other e), d)
      | Inr n \<Rightarrow> deliver env pending
          (d\<lparr>rd_audit := rd_audit d @ [(''PIPELINE_REPORT_RESEND'', n)],
             rd_outboxed := True, rd_pending := Some pending\<rparr>))"

section \<open>A task and its retries\<close>

text \<open>
  The end of \<open>_persist\<close>: markers of an earlier cycle go, the new one is written with the terminal
  state; afterwards the enriched fields are staged and added to the marker, and \<open>run\<close> flushes.
\<close>

definition outbox_analysis :: "denv \<Rightarrow> pydict \<Rightarrow> pydict \<Rightarrow> pydict" where
  "outbox_analysis env args analysis =
     dset (foldl dpop analysis [CHECKPOINT_KEY, ''failed'', ''resolved_early'', SENT_KEY, FAILED_KEY])
       PENDING_KEY (PDict (new_marker env args))"

definition first_delivery ::
  "denv \<Rightarrow> pydict \<Rightarrow> pydict \<Rightarrow> incident_record \<Rightarrow> (delivery_exn + unit) \<times> delivery" where
  "first_delivery env args enriched row =
     (let analysis = (case ir_analysis row of PDict a \<Rightarrow> a | _ \<Rightarrow> []);
          committed = row\<lparr>ir_analysis := PDict (outbox_analysis env args analysis)\<rparr>;
          d = stage enriched (mark_outboxed (report_delivery committed (Some (fresh committed))))
      in flush env (if rd_outboxed d then refresh_args env enriched d else d))"

text \<open>\<open>run\<close> on a row in a terminal state: only the report is sent, if its marker is still there.\<close>

definition redeliver :: "denv \<Rightarrow> incident_record \<Rightarrow> ((delivery_exn + unit) \<times> delivery) option" where
  "redeliver env row =
     (let d = report_delivery row (Some (fresh row)) in
      map_option (\<lambda>pending. resend env pending d) (load_pending d))"

text \<open>
  Celery starts the task again while it raises and retries are left. The answer: whether the last
  run raised, the row, and what was sent.
\<close>

fun retried ::
  "(nat \<Rightarrow> denv) \<Rightarrow> nat \<Rightarrow> nat \<Rightarrow> incident_record \<Rightarrow> bool \<times> incident_record \<times> (string \<times> kwarg) list list" where
  "retried envs i 0 row = (True, row, [])"
| "retried envs i (Suc n) row =
     (case redeliver (envs i) row of
        None \<Rightarrow> (False, row, [])
      | Some (Inr _, d) \<Rightarrow> (False, rd_row d, rd_sends d)
      | Some (Inl (Other e), d) \<Rightarrow> (False, rd_row d, rd_sends d)
      | Some (Inl (ReportDeliveryPending k), d) \<Rightarrow>
          (case retried envs (Suc i) n (rd_row d) of (r, row', sends) \<Rightarrow> (r, row', rd_sends d @ sends)))"


section \<open>Lemmas\<close>

definition analysis_of :: "incident_record \<Rightarrow> pydict" where
  "analysis_of row = (case ir_analysis row of PDict a \<Rightarrow> a | _ \<Rightarrow> [])"

lemma fresh_simps [simp]: "oo_now (fresh row) = row" "oo_loaded (fresh row) = row"
  by (simp_all add: fresh_def)

lemma dget_Cons [simp]: "dget ((k, v) # d) k' = (if k = k' then v else dget d k')"
  by (simp add: dget_def)

lemma written_same [simp]: "written row_value v v = row_value" "written v v w = w"
  by (simp_all add: written_def)

lemma keys_differ_report [simp]:
  "PENDING_KEY \<noteq> SENT_KEY" "PENDING_KEY \<noteq> FAILED_KEY" "SENT_KEY \<noteq> FAILED_KEY"
  "SENT_KEY \<noteq> PENDING_KEY" "FAILED_KEY \<noteq> PENDING_KEY" "FAILED_KEY \<noteq> SENT_KEY"
  by (simp_all add: PENDING_KEY_def SENT_KEY_def FAILED_KEY_def)

text \<open>
  Under a session that works, whatever object the worker held and whatever it assigned to it before,
  an update changes the analysis of the current row and nothing else of it.
\<close>

lemma update_analysis_works:
  assumes "orm_works (de_orm env)" and "rd_record d = Some obj"
  shows "\<exists>obj'. update_analysis env mutate d =
      d\<lparr>rd_row := (rd_row d)\<lparr>ir_analysis := PDict (mutate (analysis_of (rd_row d)))\<rparr>, rd_record := Some obj'\<rparr>
      \<and> oo_now obj' = (rd_row d)\<lparr>ir_analysis := PDict (mutate (analysis_of (rd_row d)))\<rparr>"
proof -
  let ?db = "de_orm env" and ?row = "rd_row d"
  let ?a = "(fresh ?row)\<lparr>oo_now := ?row\<lparr>ir_analysis := PDict (mutate (analysis_of ?row))\<rparr>\<rparr>"
  obtain obj1 where "o_refresh ?db ?row obj = Some obj1"
    using assms(1) by (auto simp: orm_works_def)
  then have l: "lock_record env d obj = fresh ?row"
    using assms(1) by (auto simp: lock_record_def orm_works_def orm_laws_def)
  obtain row' obj' where c: "o_commit ?db ?row ?a = Some (row', obj')"
    using assms(1) by (force simp: orm_works_def)
  then have "row' = commit_row ?row ?a \<and> oo_now obj' = oo_now ?a"
    using assms(1) unfolding orm_works_def orm_laws_def by blast
  then have "row' = ?row\<lparr>ir_analysis := PDict (mutate (analysis_of ?row))\<rparr>" "oo_now obj' = oo_now ?a"
    by (simp_all add: commit_row_def Let_def)
  with assms(2) l c show ?thesis
    by (auto simp: update_analysis_def analysis_of_def Let_def)
qed

lemma set_state_column_simps [simp]:
  "rd_row (set_state_column env st n d) = rd_row d" "rd_sends (set_state_column env st n d) = rd_sends d"
  "rd_outboxed (set_state_column env st n d) = rd_outboxed d" "rd_audit (set_state_column env st n d) = rd_audit d"
  "(\<exists>obj. rd_record (set_state_column env st n d) = Some obj) \<longleftrightarrow> (\<exists>obj. rd_record d = Some obj)"
  by (auto simp: set_state_column_def split: option.split)

text \<open>What one attempt does, given a session that works and an object to write through.\<close>

definition attempt_result ::
  "denv \<Rightarrow> pydict \<Rightarrow> int \<Rightarrow> pydict \<Rightarrow> (delivery_exn + unit) \<times> pydict" where
  "attempt_result env args attempts analysis =
     (if accepted (de_send env (send_kwargs env args)) then (Inr (), sent_marker env attempts analysis)
      else if \<not> severity_routeable (dget args ''severity'') then
        (Inr (), failed_marker env attempts ''severity_gate_skip'' analysis)
      else if MAX_ATTEMPTS (de_max_setting env) \<le> attempts then
        (Inr (), failed_marker env attempts ''discord_delivery_failed'' analysis)
      else (Inl (ReportDeliveryPending attempts), bumped_marker env args attempts analysis))"

lemma deliver_attempt:
  assumes "orm_works (de_orm env)" and "rd_record d \<noteq> None" and "rd_outboxed d"
    and "dget pending ''args'' = PDict args" and "attempts_of pending = Inr n"
  shows "fst (deliver env pending d) = fst (attempt_result env args (n + 1) (analysis_of (rd_row d))) \<and>
    rd_row (snd (deliver env pending d)) =
      (rd_row d)\<lparr>ir_analysis := PDict (snd (attempt_result env args (n + 1) (analysis_of (rd_row d))))\<rparr> \<and>
    rd_sends (snd (deliver env pending d)) = rd_sends d @ [send_kwargs env args] \<and>
    (\<exists>obj. rd_record (snd (deliver env pending d)) = Some obj)"
proof -
  have u: "rd_record e \<noteq> None \<Longrightarrow> rd_row (update_analysis env m e) =
        (rd_row e)\<lparr>ir_analysis := PDict (m (analysis_of (rd_row e)))\<rparr> \<and>
      rd_sends (update_analysis env m e) = rd_sends e \<and> (\<exists>obj. rd_record (update_analysis env m e) = Some obj)"
    for m e
    using update_analysis_works [OF assms(1), of e _ m] by fastforce
  show ?thesis
    using assms(2-5) u
    by (simp add: deliver_def send_once_def undelivered_def attempt_result_def mark_sent_def mark_failed_def
        bump_attempts_def Let_def)
qed

text \<open>The same where a commit may fail: then the row stays as it was.\<close>

lemma update_analysis_or_not:
  assumes "orm_laws (de_orm env)" and "\<And>row obj. o_refresh (de_orm env) row obj \<noteq> None" and "rd_record d \<noteq> None"
  shows "rd_sends (update_analysis env mutate d) = rd_sends d \<and>
    (rd_row (update_analysis env mutate d) = (rd_row d)\<lparr>ir_analysis := PDict (mutate (analysis_of (rd_row d)))\<rparr> \<or>
     rd_row (update_analysis env mutate d) = rd_row d \<and> (\<exists>obj. o_commit (de_orm env) (rd_row d) obj = None))"
proof -
  obtain obj where obj: "rd_record d = Some obj" using assms(3) by auto
  let ?db = "de_orm env" and ?row = "rd_row d"
  let ?a = "(fresh ?row)\<lparr>oo_now := ?row\<lparr>ir_analysis := PDict (mutate (analysis_of ?row))\<rparr>\<rparr>"
  obtain obj1 where "o_refresh ?db ?row obj = Some obj1" using assms(2) [of ?row obj] by auto
  then have l: "lock_record env d obj = fresh ?row"
    using assms(1) by (auto simp: lock_record_def orm_laws_def)
  show ?thesis
  proof (cases "o_commit ?db ?row ?a")
    case None
    then show ?thesis using obj l by (auto simp: update_analysis_def analysis_of_def Let_def)
  next
    case (Some x)
    obtain row' obj' where x: "x = (row', obj')" by (cases x)
    have "row' = commit_row ?row ?a"
      using assms(1) Some x unfolding orm_laws_def by blast
    then have "row' = ?row\<lparr>ir_analysis := PDict (mutate (analysis_of ?row))\<rparr>"
      by (simp add: commit_row_def Let_def)
    with obj l Some x show ?thesis by (simp add: update_analysis_def analysis_of_def Let_def)
  qed
qed

lemma deliver_attempt_or_not:
  assumes "orm_laws (de_orm env)" and "\<And>row obj. o_refresh (de_orm env) row obj \<noteq> None"
    and "rd_record d \<noteq> None" and "rd_outboxed d"
    and "dget pending ''args'' = PDict args" and "attempts_of pending = Inr n"
  shows "fst (deliver env pending d) = fst (attempt_result env args (n + 1) (analysis_of (rd_row d))) \<and>
    rd_sends (snd (deliver env pending d)) = rd_sends d @ [send_kwargs env args] \<and>
    (rd_row (snd (deliver env pending d)) =
       (rd_row d)\<lparr>ir_analysis := PDict (snd (attempt_result env args (n + 1) (analysis_of (rd_row d))))\<rparr> \<or>
     rd_row (snd (deliver env pending d)) = rd_row d \<and> (\<exists>obj. o_commit (de_orm env) (rd_row d) obj = None))"
proof -
  have u: "rd_sends (update_analysis env m e) = rd_sends e"
    "rd_row (update_analysis env m e) = (rd_row d)\<lparr>ir_analysis := PDict (m (analysis_of (rd_row d)))\<rparr> \<or>
     rd_row (update_analysis env m e) = rd_row d \<and> (\<exists>obj. o_commit (de_orm env) (rd_row d) obj = None)"
    if "rd_record e \<noteq> None" "rd_row e = rd_row d" for m e
    using update_analysis_or_not [OF assms(1,2) that(1), of m] that(2) by simp_all
  show ?thesis
    using assms(3-6)
    by (simp add: deliver_def send_once_def undelivered_def attempt_result_def mark_sent_def mark_failed_def
        bump_attempts_def Let_def u)
qed

lemma attempt_keeps:
  assumes "k \<notin> {PENDING_KEY, SENT_KEY, FAILED_KEY}"
  shows "dget (snd (attempt_result env args n analysis)) k = dget analysis k"
  using assms
  by (simp add: attempt_result_def sent_marker_def failed_marker_def bumped_marker_def Let_def)

lemma load_pending_Some:
  "load_pending d = Some pending \<Longrightarrow> \<exists>args obj. rd_record d = Some obj \<and> dget pending ''args'' = PDict args \<and>
     dget (analysis_of (oo_now obj)) PENDING_KEY = PDict pending \<and>
     \<not> truthy (dget (analysis_of (oo_now obj)) SENT_KEY) \<and> \<not> truthy (dget (analysis_of (oo_now obj)) FAILED_KEY)"
  by (auto simp: load_pending_def analysis_of_def split: option.splits pyval.splits if_splits)


text \<open>A whole task: the first delivery and, while it raises, its retries.\<close>

definition task_deliveries ::
  "(nat \<Rightarrow> denv) \<Rightarrow> nat \<Rightarrow> pydict \<Rightarrow> pydict \<Rightarrow> incident_record \<Rightarrow> bool \<times> incident_record \<times> (string \<times> kwarg) list list" where
  "task_deliveries envs retries args enriched row =
     (case first_delivery (envs 0) args enriched row of
        (Inl (ReportDeliveryPending k), d) \<Rightarrow>
          (case retried envs 1 retries (rd_row d) of (r, row', sends) \<Rightarrow> (r, row', rd_sends d @ sends))
      | (_, d) \<Rightarrow> (False, rd_row d, rd_sends d))"

text \<open>A row whose marker says that so many attempts have been made.\<close>

definition waiting :: "int \<Rightarrow> pydict \<Rightarrow> bool" where
  "waiting n analysis \<longleftrightarrow> \<not> truthy (dget analysis SENT_KEY) \<and> \<not> truthy (dget analysis FAILED_KEY) \<and>
     (\<exists>pending args. dget analysis PENDING_KEY = PDict pending \<and> dget pending ''args'' = PDict args \<and>
        attempts_of pending = Inr n)"

text \<open>Everything of a row except its analysis, and the analysis except the three markers.\<close>

definition settles :: "denv \<Rightarrow> (string \<times> kwarg) list \<Rightarrow> pydict \<Rightarrow> bool" where
  "settles env sent analysis \<longleftrightarrow> dget analysis PENDING_KEY = PNone \<and>
     truthy (dget analysis SENT_KEY) = accepted (de_send env sent) \<and>
     truthy (dget analysis FAILED_KEY) = (\<not> accepted (de_send env sent))"

lemma attempt_result_outcome:
  assumes "\<not> truthy (dget analysis SENT_KEY)" "\<not> truthy (dget analysis FAILED_KEY)" and "0 \<le> n"
  shows "case attempt_result env args (n + 1) analysis of
      (Inr _, a) \<Rightarrow> settles env (send_kwargs env args) a
    | (Inl (ReportDeliveryPending k), a) \<Rightarrow> k = n + 1 \<and> k < MAX_ATTEMPTS (de_max_setting env) \<and> waiting k a
    | (Inl (Other e), a) \<Rightarrow> False"
  using assms
  by (simp add: attempt_result_def settles_def waiting_def sent_marker_def failed_marker_def
      bumped_marker_def attempts_of_def to_int_def Let_def)

lemma redeliver_attempt:
  assumes "orm_works (de_orm env)" and "waiting n (analysis_of row)" and "0 \<le> n"
  shows "\<exists>res args a d. redeliver env row = Some (res, d) \<and>
    attempt_result env args (n + 1) (analysis_of row) = (res, a) \<and> rd_row d = row\<lparr>ir_analysis := PDict a\<rparr> \<and>
    rd_sends d = [send_kwargs env args]"
proof -
  obtain pending args where p: "dget (analysis_of row) PENDING_KEY = PDict pending" "dget pending ''args'' = PDict args"
    "attempts_of pending = Inr n" using assms(2) by (auto simp: waiting_def)
  let ?d = "report_delivery row (Some (fresh row))"
  let ?e = "?d\<lparr>rd_audit := rd_audit ?d @ [(''PIPELINE_REPORT_RESEND'', n)], rd_outboxed := True, rd_pending := Some pending\<rparr>"
  have ne: "analysis_of row \<noteq> []" using p(1) by (auto simp: dget_def)
  then obtain a0 where "ir_analysis row = PDict a0" by (auto simp: analysis_of_def split: pyval.splits)
  then have l: "load_pending ?d = Some pending"
    using assms(2) p by (simp add: load_pending_def report_delivery_def waiting_def analysis_of_def)
  have d: "fst (deliver env pending ?e) = fst (attempt_result env args (n + 1) (analysis_of (rd_row ?e))) \<and>
    rd_row (snd (deliver env pending ?e)) =
      (rd_row ?e)\<lparr>ir_analysis := PDict (snd (attempt_result env args (n + 1) (analysis_of (rd_row ?e))))\<rparr> \<and>
    rd_sends (snd (deliver env pending ?e)) = rd_sends ?e @ [send_kwargs env args] \<and>
    (\<exists>obj. rd_record (snd (deliver env pending ?e)) = Some obj)"
    by (rule deliver_attempt [OF assms(1)]) (simp_all add: report_delivery_def p)
  show ?thesis
    using l p(3) d
    by (intro exI [of _ "fst (deliver env pending ?e)"] exI [of _ args]
        exI [of _ "snd (attempt_result env args (n + 1) (analysis_of row))"] exI [of _ "snd (deliver env pending ?e)"])
      (simp add: redeliver_def resend_def report_delivery_def prod_eq_iff)
qed

lemma analysis_of_update [simp]: "analysis_of (row\<lparr>ir_analysis := PDict a\<rparr>) = a"
  by (simp add: analysis_of_def)

text \<open>
  What a finished run of deliveries left: a terminal marker that agrees with the last answer, and
  everything else of the row as it was.
\<close>

definition report_settled ::
  "(nat \<Rightarrow> denv) \<Rightarrow> nat \<Rightarrow> incident_record \<Rightarrow> bool \<times> incident_record \<times> (string \<times> kwarg) list list \<Rightarrow> bool" where
  "report_settled envs i row r =
     (case r of (raised, row', sends) \<Rightarrow> \<not> raised \<and> sends \<noteq> [] \<and>
        settles (envs (i + length sends - 1)) (last sends) (analysis_of row') \<and>
        (\<exists>a. row' = row\<lparr>ir_analysis := PDict a\<rparr>) \<and>
        (\<forall>k. k \<notin> {PENDING_KEY, SENT_KEY, FAILED_KEY} \<longrightarrow> dget (analysis_of row') k = dget (analysis_of row) k))"

lemma retried_settles:
  assumes "\<And>i. orm_works (de_orm (envs i))" and "\<And>i. MAX_ATTEMPTS (de_max_setting (envs i)) = m"
    and "waiting n (analysis_of row)" and "0 \<le> n" and "n < m" and "m - n \<le> int fuel"
  shows "report_settled envs i row (retried envs i fuel row) \<and>
    int (length (snd (snd (retried envs i fuel row)))) \<le> m - n"
  using assms(3-6)
proof (induction fuel arbitrary: i n row)
  case (Suc fuel)
  obtain res args a d where r: "redeliver (envs i) row = Some (res, d)"
    "attempt_result (envs i) args (n + 1) (analysis_of row) = (res, a)"
    "rd_row d = row\<lparr>ir_analysis := PDict a\<rparr>" "rd_sends d = [send_kwargs (envs i) args]"
    using redeliver_attempt [OF assms(1) Suc.prems(1,2)] by blast
  have o: "case (res, a) of
      (Inr _, a) \<Rightarrow> settles (envs i) (send_kwargs (envs i) args) a
    | (Inl (ReportDeliveryPending k), a) \<Rightarrow> k = n + 1 \<and> k < MAX_ATTEMPTS (de_max_setting (envs i)) \<and> waiting k a
    | (Inl (Other e), a) \<Rightarrow> False"
    using attempt_result_outcome [of "analysis_of row" n "envs i" args] Suc.prems(1,2) r(2)
    by (simp add: waiting_def)
  have kept: "k \<notin> {PENDING_KEY, SENT_KEY, FAILED_KEY} \<Longrightarrow> dget a k = dget (analysis_of row) k" for k
    using attempt_keeps [of k "envs i" args "n + 1" "analysis_of row"] r(2) by simp
  show ?case
  proof (cases res)
    case (Inr u)
    with r o kept Suc.prems show ?thesis by (auto simp: report_settled_def)
  next
    case (Inl e)
    then obtain k where e: "e = ReportDeliveryPending k" using o by (cases e) auto
    then have k: "k = n + 1" "k < m" "waiting k a" using o Inl assms(2) by auto
    let ?r = "retried envs (Suc i) fuel (rd_row d)"
    have IH: "report_settled envs (Suc i) (rd_row d) ?r \<and> int (length (snd (snd ?r))) \<le> m - k"
      using Suc.IH [of k "rd_row d" "Suc i"] k Suc.prems r(3) by simp
    obtain raised row' sends where s: "?r = (raised, row', sends)" by (metis prod_cases3)
    have "retried envs i (Suc fuel) row = (raised, row', rd_sends d @ sends)"
      using r(1) Inl e s by simp
    then show ?thesis
      using IH s r(3,4) k(1) kept by (auto simp: report_settled_def)
  qed
qed simp

lemma task_settles:
  assumes "\<And>i. orm_works (de_orm (envs i))" and "\<And>i. MAX_ATTEMPTS (de_max_setting (envs i)) = m"
    and "1 \<le> m" and "m - 1 \<le> int retries"
  shows "case task_deliveries envs retries args enriched row of (raised, row', sends) \<Rightarrow>
    \<not> raised \<and> 1 \<le> length sends \<and> int (length sends) \<le> m \<and>
    settles (envs (length sends - 1)) (last sends) (analysis_of row') \<and>
    (\<exists>a. row' = row\<lparr>ir_analysis := PDict a\<rparr>)"
proof -
  let ?env = "envs 0"
  let ?c = "row\<lparr>ir_analysis := PDict (outbox_analysis ?env args (analysis_of row))\<rparr>"
  let ?init = "stage enriched (mark_outboxed (report_delivery ?c (Some (fresh ?c))))"
  let ?d = "refresh_args ?env enriched ?init" and ?p = "[(''args'', PDict enriched), (''attempts'', PInt 0)]"
  have "rd_record ?init = Some (fresh ?c)" by (simp add: stage_def mark_outboxed_def report_delivery_def)
  then obtain obj where "?d = ?init\<lparr>rd_row := (rd_row ?init)\<lparr>ir_analysis :=
        PDict (refreshed_marker ?env enriched (analysis_of (rd_row ?init)))\<rparr>, rd_record := Some obj\<rparr>"
    using update_analysis_works [OF assms(1)] unfolding refresh_args_def by blast
  then have obj: "?d = ?init\<lparr>rd_row := ?c\<lparr>ir_analysis :=
        PDict (refreshed_marker ?env enriched (outbox_analysis ?env args (analysis_of row)))\<rparr>, rd_record := Some obj\<rparr>"
    by (simp add: stage_def mark_outboxed_def report_delivery_def)
  define b where "b = refreshed_marker ?env enriched (outbox_analysis ?env args (analysis_of row))"
  have b: "\<not> truthy (dget b SENT_KEY)" "\<not> truthy (dget b FAILED_KEY)"
    by (simp_all add: b_def refreshed_marker_def outbox_analysis_def Let_def)
  have row_c: "rd_row ?d = row\<lparr>ir_analysis := PDict b\<rparr>" using obj by (simp add: b_def)
  then have row_d: "analysis_of (rd_row ?d) = b" by simp
  have f: "first_delivery ?env args enriched row = deliver ?env ?p ?d"
    using obj by (simp add: first_delivery_def Let_def analysis_of_def flush_def stage_def mark_outboxed_def)
  have "fst (deliver ?env ?p ?d) = fst (attempt_result ?env enriched (0 + 1) (analysis_of (rd_row ?d))) \<and>
    rd_row (snd (deliver ?env ?p ?d)) =
      (rd_row ?d)\<lparr>ir_analysis := PDict (snd (attempt_result ?env enriched (0 + 1) (analysis_of (rd_row ?d))))\<rparr> \<and>
    rd_sends (snd (deliver ?env ?p ?d)) = rd_sends ?d @ [send_kwargs ?env enriched] \<and>
    (\<exists>obj. rd_record (snd (deliver ?env ?p ?d)) = Some obj)"
    by (rule deliver_attempt [OF assms(1)])
      (use obj in \<open>simp_all add: stage_def mark_outboxed_def dget_def attempts_of_def\<close>)
  moreover have "rd_sends ?d = []" using obj by (simp add: stage_def mark_outboxed_def report_delivery_def)
  ultimately obtain res a d where d: "deliver ?env ?p ?d = (res, d)"
    "attempt_result ?env enriched 1 b = (res, a)" "rd_row d = (rd_row ?d)\<lparr>ir_analysis := PDict a\<rparr>"
    "rd_sends d = [send_kwargs ?env enriched]"
    using row_d by (metis add_0 append_Nil prod.collapse)
  have o: "case (res, a) of
      (Inr _, a) \<Rightarrow> settles ?env (send_kwargs ?env enriched) a
    | (Inl (ReportDeliveryPending k), a) \<Rightarrow> k = 0 + 1 \<and> k < MAX_ATTEMPTS (de_max_setting ?env) \<and> waiting k a
    | (Inl (Other e), a) \<Rightarrow> False"
    using attempt_result_outcome [OF b, of 0 ?env enriched] d(2) by simp
  show ?thesis
  proof (cases res)
    case (Inr u)
    with o d f assms(3) row_c show ?thesis by (auto simp: task_deliveries_def)
  next
    case (Inl e)
    then obtain k where e: "e = ReportDeliveryPending k" using o by (cases e) auto
    then have k: "k = 1" "k < m" "waiting k a" using o Inl assms(2) by auto
    let ?r = "retried envs 1 retries (rd_row d)"
    have r: "report_settled envs 1 (rd_row d) ?r \<and> int (length (snd (snd ?r))) \<le> m - k"
      by (rule retried_settles [OF assms(1,2)]) (use k d(3) assms(4) in auto)
    obtain raised row' sends where s: "?r = (raised, row', sends)" by (metis prod_cases3)
    have "task_deliveries envs retries args enriched row = (raised, row', rd_sends d @ sends)"
      using Inl e s f d(1) by (simp add: task_deliveries_def)
    then show ?thesis
      using r s d(3,4) k(1) row_c by (auto simp: report_settled_def)
  qed
qed

section \<open>Properties\<close>

text \<open>
  C31. A report is never lost from its row, and the markers never disturb the rest of the row. Take a run whose
  marker is committed, whatever object the worker holds and whatever another writer has meanwhile put into the
  row. One attempt sends the report once. It either leaves the sent marker (exactly when the service did not answer no and
  did not raise) or the failed marker with its reason, with the pending marker gone, or, before the last
  attempt, raises \<open>ReportDeliveryPending\<close> and leaves the pending marker with the fields to send and the
  attempt counted; every other key of the analysis, the write guard \<open>executor_applied\<close> among them, and
  every other column keeps the value it has in the database. Or the commit fails: then the row stays as it was, the
  marker of the attempt before with it, and the attempt is not counted. The lock of the row, a refresh, is taken to
  work; where it fails, the code goes on with the worker's copy.
\<close>

theorem report_is_never_lost:
  assumes "orm_laws (de_orm env)" and "\<And>row obj. o_refresh (de_orm env) row obj \<noteq> None"
    and "rd_record d \<noteq> None" and "rd_outboxed d"
    and "dget pending ''args'' = PDict args" and "attempts_of pending = Inr n"
  shows "case deliver env pending d of (res, d') \<Rightarrow> rd_sends d' = rd_sends d @ [send_kwargs env args] \<and>
    (case res of
       Inr _ \<Rightarrow> True
     | Inl (ReportDeliveryPending k) \<Rightarrow> \<not> accepted (de_send env (send_kwargs env args)) \<and>
         k = n + 1 \<and> k < MAX_ATTEMPTS (de_max_setting env)
     | Inl (Other e) \<Rightarrow> False) \<and>
    (rd_row d' = rd_row d \<and> (\<exists>obj. o_commit (de_orm env) (rd_row d) obj = None) \<or>
     (\<exists>a. rd_row d' = (rd_row d)\<lparr>ir_analysis := PDict a\<rparr> \<and>
       (\<forall>k. k \<notin> {PENDING_KEY, SENT_KEY, FAILED_KEY} \<longrightarrow> dget a k = dget (analysis_of (rd_row d)) k) \<and>
       (case res of
          Inr _ \<Rightarrow> dget a PENDING_KEY = PNone \<and>
            (if accepted (de_send env (send_kwargs env args)) then truthy (dget a SENT_KEY)
             else (\<exists>failed reason. dget a FAILED_KEY = PDict failed \<and> dget failed ''reason'' = PStr reason \<and>
                     (reason = ''severity_gate_skip'' \<or> reason = ''discord_delivery_failed'')))
        | Inl (ReportDeliveryPending k) \<Rightarrow>
            (\<exists>marker. dget a PENDING_KEY = PDict marker \<and> dget marker ''args'' = PDict args \<and>
               dget marker ''attempts'' = PInt k)
        | Inl (Other e) \<Rightarrow> False)))"
proof -
  obtain res d' where r: "deliver env pending d = (res, d')" by (cases "deliver env pending d")
  let ?ar = "attempt_result env args (n + 1) (analysis_of (rd_row d))"
  have left: "case fst ?ar of
       Inr _ \<Rightarrow> dget (snd ?ar) PENDING_KEY = PNone \<and>
         (if accepted (de_send env (send_kwargs env args)) then truthy (dget (snd ?ar) SENT_KEY)
          else (\<exists>failed reason. dget (snd ?ar) FAILED_KEY = PDict failed \<and> dget failed ''reason'' = PStr reason \<and>
                  (reason = ''severity_gate_skip'' \<or> reason = ''discord_delivery_failed'')))
     | Inl (ReportDeliveryPending k) \<Rightarrow>
         (\<exists>marker. dget (snd ?ar) PENDING_KEY = PDict marker \<and> dget marker ''args'' = PDict args \<and>
            dget marker ''attempts'' = PInt k)
     | Inl (Other e) \<Rightarrow> False"
    and raised: "case fst ?ar of
       Inr _ \<Rightarrow> True
     | Inl (ReportDeliveryPending k) \<Rightarrow> \<not> accepted (de_send env (send_kwargs env args)) \<and>
         k = n + 1 \<and> k < MAX_ATTEMPTS (de_max_setting env)
     | Inl (Other e) \<Rightarrow> False"
    by (simp_all add: attempt_result_def sent_marker_def failed_marker_def bumped_marker_def Let_def)
  have o': "res = fst ?ar" "rd_sends d' = rd_sends d @ [send_kwargs env args]"
    "rd_row d' = (rd_row d)\<lparr>ir_analysis := PDict (snd ?ar)\<rparr> \<or>
     rd_row d' = rd_row d \<and> (\<exists>obj. o_commit (de_orm env) (rd_row d) obj = None)"
    using deliver_attempt_or_not [OF assms] r by simp_all
  have kept: "\<forall>k. k \<notin> {PENDING_KEY, SENT_KEY, FAILED_KEY} \<longrightarrow> dget (snd ?ar) k = dget (analysis_of (rd_row d)) k"
    using attempt_keeps by blast
  show ?thesis
    unfolding r prod.case o'(1)
    by (intro conjI o'(2) raised) (use o'(3) kept left in blast)
qed

text \<open>
  C21. Delivery ends: with a session that works, a limit of m attempts and m - 1 retries of the task
  (the code has 4 and 3), the first run and its retries send the report at least once and at most m
  times and then stop raising, with the pending marker gone and exactly one of the two terminal
  markers, the sent one exactly when the last send was accepted; markers of an earlier cycle of the
  same row do not count.
\<close>

theorem delivery_ends:
  assumes "\<And>i. orm_works (de_orm (envs i))" and "\<And>i. MAX_ATTEMPTS (de_max_setting (envs i)) = m"
    and "1 \<le> m" and "m - 1 \<le> int retries"
  shows "case task_deliveries envs retries args enriched row of (raised, row', sends) \<Rightarrow>
    \<not> raised \<and> 1 \<le> length sends \<and> int (length sends) \<le> m \<and>
    settles (envs (length sends - 1)) (last sends) (analysis_of row')"
  using task_settles [where envs = envs and args = args and enriched = enriched and row = row, OF assms] by (auto split: prod.splits)

text \<open>
  C32. The indexed column does not follow the marker. \<open>mark_sent\<close> and \<open>mark_failed\<close> assign
  \<open>report_state\<close>, \<open>report_attempts\<close> and \<open>report_updated_at\<close> before \<open>_update_analysis\<close>, whose
  \<open>refresh\<close> discards what is not flushed: with a session that works all three columns keep their
  values through the whole task, and \<open>report_state_of\<close> answers the old column if it has one and only
  otherwise what became of the report.
\<close>

theorem report_column_never_follows:
  assumes "\<And>i. orm_works (de_orm (envs i))" and "\<And>i. MAX_ATTEMPTS (de_max_setting (envs i)) = m"
    and "1 \<le> m" and "m - 1 \<le> int retries"
  shows "case task_deliveries envs retries args enriched row of (raised, row', sends) \<Rightarrow>
    ir_report_state row' = ir_report_state row \<and> ir_report_attempts row' = ir_report_attempts row \<and>
    ir_report_updated_at row' = ir_report_updated_at row \<and>
    report_state_of row' = str_or (ir_report_state row)
      (Some (if accepted (de_send (envs (length sends - 1)) (last sends)) then REPORT_SENT else REPORT_FAILED))"
proof -
  obtain raised row' sends where t: "task_deliveries envs retries args enriched row = (raised, row', sends)"
    by (metis prod_cases3)
  obtain a where a: "row' = row\<lparr>ir_analysis := PDict a\<rparr>" "settles (envs (length sends - 1)) (last sends) a"
    using task_settles [where envs = envs and args = args and enriched = enriched and row = row, OF assms] t by auto
  then show ?thesis
    using t by (simp add: report_state_of_def from_legacy_def report_legacy_def settles_def SENT_KEY_def
        FAILED_KEY_def REPORT_SENT_def REPORT_FAILED_def)
qed

section \<open>Witnesses\<close>

definition sample_orm :: orm where
  "sample_orm = \<lparr>o_refresh = (\<lambda>row obj. Some (fresh row)),
     o_commit = (\<lambda>row obj. Some (commit_row row obj, obj\<lparr>oo_loaded := oo_now obj\<rparr>)),
     o_rollback = (\<lambda>row obj. fresh row)\<rparr>"

lemma sample_orm_works: "orm_works sample_orm"
  by (simp add: orm_works_def orm_laws_def sample_orm_def)

text \<open>A webhook that refuses twice and then accepts.\<close>

definition sample_denv :: "nat \<Rightarrow> denv" where
  "sample_denv i = \<lparr>de_orm = sample_orm, de_send = (\<lambda>kwargs. if i < 2 then Answered (Some False) else Answered None),
     de_fromisoformat = (\<lambda>s. None), de_now_iso = ''2026-10-01T12:00:00+00:00'', de_utcnow = 0,
     de_max_setting = None\<rparr>"

definition sample_args :: pydict where
  "sample_args = [(''incident_id'', PStr ''i-1''), (''severity'', PStr ''critical'')]"

definition sample_report_row :: incident_record where
  "sample_report_row = row0\<lparr>ir_analysis := PDict [(''executor_applied'', PBool True), (''report_sent'', PBool True)],
     ir_report_state := Some ''pending''\<rparr>"

lemma sample_denv_simps [simp]:
  "orm_works (de_orm (sample_denv i))" "MAX_ATTEMPTS (de_max_setting (sample_denv i)) = 4"
  by (simp_all add: sample_denv_def sample_orm_works MAX_ATTEMPTS_def)

theorem report_is_never_lost_witness:
  "\<exists>d d' marker. fst (deliver (sample_denv 0) [(''args'', PDict sample_args), (''attempts'', PInt 1)] d) =
      Inl (ReportDeliveryPending 2) \<and>
    d' = snd (deliver (sample_denv 0) [(''args'', PDict sample_args), (''attempts'', PInt 1)] d) \<and>
    dget (analysis_of (rd_row d')) ''executor_applied'' = PBool True \<and>
    dget (analysis_of (rd_row d')) PENDING_KEY = PDict marker \<and> dget marker ''attempts'' = PInt 2"
proof -
  let ?p = "[(''args'', PDict sample_args), (''attempts'', PInt 1)]"
  let ?d = "mark_outboxed (report_delivery sample_report_row (Some (fresh sample_report_row)))"
  obtain res d' where r: "deliver (sample_denv 0) ?p ?d = (res, d')" by (cases "deliver (sample_denv 0) ?p ?d")
  have a: "\<not> accepted (de_send (sample_denv 0) kwargs)" for kwargs
    by (simp add: accepted_def sample_denv_def)
  have "deliver (sample_denv 0) ?p ?d =
      (Inl (ReportDeliveryPending 2), snd (deliver (sample_denv 0) ?p ?d))"
    using a by (simp add: deliver_def send_once_def undelivered_def attempts_of_def to_int_def mark_outboxed_def
        sample_args_def severity_routeable_def should_route_to_error_def ROUTEABLE_SEVERITIES_def lower_def
        ch_lower_def strip_def rstrip_def lstrip_def ch_space_def Let_def)
  with r have res: "res = Inl (ReportDeliveryPending 2)" by simp
  have w: "orm_laws (de_orm (sample_denv 0))" "o_refresh (de_orm (sample_denv 0)) row obj \<noteq> None"
    "o_commit (de_orm (sample_denv 0)) row obj \<noteq> None" for row obj
    using sample_denv_simps(1) [of 0] by (simp_all add: orm_works_def)
  have "rd_record ?d \<noteq> None" "rd_outboxed ?d" "dget ?p ''args'' = PDict sample_args" "attempts_of ?p = Inr 1"
    by (simp_all add: mark_outboxed_def report_delivery_def attempts_of_def to_int_def)
  from report_is_never_lost [OF w(1,2) this] obtain a marker where "rd_row d' = (rd_row ?d)\<lparr>ir_analysis := PDict a\<rparr>"
    "\<forall>k. k \<notin> {PENDING_KEY, SENT_KEY, FAILED_KEY} \<longrightarrow> dget a k = dget (analysis_of (rd_row ?d)) k"
    "dget a PENDING_KEY = PDict marker" "dget marker ''attempts'' = PInt 2"
    using w(3) unfolding r res by auto
  moreover have "dget (analysis_of (rd_row ?d)) ''executor_applied'' = PBool True"
    by (simp add: mark_outboxed_def report_delivery_def sample_report_row_def analysis_of_def)
  ultimately show ?thesis
    using r res by (intro exI [of _ ?d] exI [of _ d'] exI [of _ marker])
      (simp add: PENDING_KEY_def SENT_KEY_def FAILED_KEY_def)
qed

theorem delivery_ends_witness:
  "case task_deliveries sample_denv 3 sample_args sample_args sample_report_row of (raised, row', sends) \<Rightarrow>
    \<not> raised \<and> length sends \<le> 4"
  using delivery_ends [where envs = sample_denv and m = 4 and retries = 3 and args = sample_args
      and enriched = sample_args and row = sample_report_row] by (auto split: prod.splits)

theorem report_column_never_follows_witness:
  "case task_deliveries sample_denv 3 sample_args sample_args sample_report_row of (raised, row', sends) \<Rightarrow>
    report_state_of row' = Some ''pending''"
  using report_column_never_follows [where envs = sample_denv and m = 4 and retries = 3 and args = sample_args
      and enriched = sample_args and row = sample_report_row]
  by (auto simp: sample_report_row_def str_or_def split: prod.splits)

end
