(* ===== verification/Regex.thy ===== *)
theory Regex
  imports Prelude
begin

text \<open>
  The part of Python's \<open>re\<close> the diagnostic rules use: patterns as a datatype, matched by backtracking.
  The matches of a pattern from a position are a list in the order in which the interpreter tries
  them, so that its head is the match \<open>re\<close> returns; \<open>search\<close>, \<open>findall\<close> and \<open>finditer\<close> are built on it.
  A position is the reversed text past it, the text after it and the groups captured so far.
\<close>

section \<open>Patterns\<close>

datatype regex =
    Eps
  | Chars "char \<Rightarrow> bool"
  | Then regex regex
  | Either regex regex
  | Greedy regex
  | Lazy "nat option" regex
  | Group nat regex
  | WordEdge

type_synonym position = "string \<times> string \<times> (nat \<times> string) list"

definition word_char :: "char \<Rightarrow> bool" where
  "word_char c =
     (let n = (of_char c :: int) in
      ch_digit c \<or> ch_az c \<or> ch_AZ c \<or> n = 95 \<or> n = 170 \<or> n = 178 \<or> n = 179 \<or> n = 181 \<or> n = 185 \<or> n = 186 \<or>
      188 \<le> n \<and> n \<le> 190 \<or> 192 \<le> n \<and> n \<noteq> 215 \<and> n \<noteq> 247)"

definition first_is :: "(char \<Rightarrow> bool) \<Rightarrow> string \<Rightarrow> bool" where
  "first_is p s = (case s of [] \<Rightarrow> False | c # cs \<Rightarrow> p c)"

text \<open>
  Repetition: an iteration that consumes nothing ends it, so as many rounds as there are characters
  left are enough.
\<close>

primrec greedy :: "(position \<Rightarrow> position list) \<Rightarrow> nat \<Rightarrow> position \<Rightarrow> position list" where
  "greedy f 0 s = [s]"
| "greedy f (Suc n) s =
     concat (map (greedy f n) (filter (\<lambda>t. length (fst (snd t)) < length (fst (snd s))) (f s))) @ [s]"

primrec lazily :: "(position \<Rightarrow> position list) \<Rightarrow> nat \<Rightarrow> position \<Rightarrow> position list" where
  "lazily f 0 s = [s]"
| "lazily f (Suc n) s =
     s # concat (map (lazily f n) (filter (\<lambda>t. length (fst (snd t)) < length (fst (snd s))) (f s)))"

primrec tries :: "regex \<Rightarrow> position \<Rightarrow> position list" where
  "tries Eps s = [s]"
| "tries (Chars p) s =
     (case s of (past, rest, g) \<Rightarrow>
        (case rest of [] \<Rightarrow> [] | c # cs \<Rightarrow> if p c then [(c # past, cs, g)] else []))"
| "tries (Then a b) s = concat (map (tries b) (tries a s))"
| "tries (Either a b) s = tries a s @ tries b s"
| "tries (Greedy a) s = greedy (tries a) (length (fst (snd s))) s"
| "tries (Lazy bound a) s =
     lazily (tries a) (case bound of None \<Rightarrow> length (fst (snd s)) | Some n \<Rightarrow> n) s"
| "tries (Group k a) s =
     (case s of (past, rest, g) \<Rightarrow>
        map (\<lambda>(past', rest', g'). (past', rest', (k, take (length rest - length rest') rest) # g'))
          (tries a s))"
| "tries WordEdge s =
     (case s of (past, rest, g) \<Rightarrow>
        if first_is word_char past = first_is word_char rest then [] else [s])"

section \<open>Shorthands for patterns\<close>

definition same_letter :: "char \<Rightarrow> char \<Rightarrow> bool" where
  "same_letter p c \<longleftrightarrow> ch_lower c = ch_lower p"

text \<open>A literal text, without regard to case (\<open>re.IGNORECASE\<close>).\<close>

primrec lit :: "string \<Rightarrow> regex" where
  "lit [] = Eps"
| "lit (c # cs) = Then (Chars (same_letter c)) (lit cs)"

primrec seqs :: "regex list \<Rightarrow> regex" where
  "seqs [] = Eps"
| "seqs (r # rs) = Then r (seqs rs)"

fun alts :: "regex list \<Rightarrow> regex" where
  "alts [] = Chars (\<lambda>_. False)"
| "alts [r] = r"
| "alts (r # s # rs) = Either r (alts (s # rs))"

definition opt :: "regex \<Rightarrow> regex" where "opt r = Either r Eps"
definition many1 :: "regex \<Rightarrow> regex" where "many1 r = Then r (Greedy r)"
definition digits1 :: regex where "digits1 = many1 (Chars ch_digit)"
definition spaces :: regex where "spaces = Greedy (Chars ch_space)"
definition spaces1 :: regex where "spaces1 = many1 (Chars ch_space)"
definition nonspaces :: regex where "nonspaces = Greedy (Chars (\<lambda>c. \<not> ch_space c))"
definition dot :: "char \<Rightarrow> bool" where "dot c \<longleftrightarrow> c \<noteq> CHR 0x0A"
definition dots :: regex where "dots = Greedy (Chars dot)"
definition dots_lazy :: regex where "dots_lazy = Lazy None (Chars dot)"
definition one_of :: "string \<Rightarrow> regex" where "one_of cs = Chars (\<lambda>c. c \<in> set cs)"

section \<open>Searching\<close>

record found_match =
  fm_text :: string
  fm_groups :: "(nat \<times> string) list"

definition match_here :: "regex \<Rightarrow> string \<Rightarrow> string \<Rightarrow> position option" where
  "match_here r past rest = (case tries r (past, rest, []) of [] \<Rightarrow> None | p # ps \<Rightarrow> Some p)"

definition the_match :: "string \<Rightarrow> position \<Rightarrow> found_match" where
  "the_match rest p = \<lparr>fm_text = take (length rest - length (fst (snd p))) rest, fm_groups = snd (snd p)\<rparr>"

function finditer_from :: "regex \<Rightarrow> string \<Rightarrow> string \<Rightarrow> found_match list" where
  "finditer_from r past rest =
     (case match_here r past rest of
        Some p \<Rightarrow>
          the_match rest p #
            (if length (fst (snd p)) < length rest then finditer_from r (fst p) (fst (snd p))
             else (case rest of [] \<Rightarrow> [] | c # cs \<Rightarrow> finditer_from r (c # past) cs))
      | None \<Rightarrow> (case rest of [] \<Rightarrow> [] | c # cs \<Rightarrow> finditer_from r (c # past) cs))"
  by pat_completeness auto
termination
  by (relation "measure (\<lambda>(r, past, rest). length rest)") auto

declare finditer_from.simps [simp del]

definition finditer :: "regex \<Rightarrow> string \<Rightarrow> found_match list" where
  "finditer r s = finditer_from r [] s"

definition count_matches :: "string \<Rightarrow> regex \<Rightarrow> int" where
  "count_matches haystack pattern = int (length (finditer pattern haystack))"

fun search_from :: "regex \<Rightarrow> string \<Rightarrow> string \<Rightarrow> found_match option" where
  "search_from r past [] = map_option (the_match []) (match_here r past [])"
| "search_from r past (c # cs) =
     (case match_here r past (c # cs) of
        Some p \<Rightarrow> Some (the_match (c # cs) p)
      | None \<Rightarrow> search_from r (c # past) cs)"

definition search :: "regex \<Rightarrow> string \<Rightarrow> found_match option" where
  "search r s = search_from r [] s"

definition searches :: "regex \<Rightarrow> string \<Rightarrow> bool" where
  "searches r s = (search r s \<noteq> None)"

text \<open>\<open>m.group(k)\<close>; a group that took no part is \<open>None\<close>.\<close>

definition group_of :: "nat \<Rightarrow> found_match \<Rightarrow> string option" where
  "group_of k m = map_of (fm_groups m) k"

definition group_text :: "nat \<Rightarrow> found_match \<Rightarrow> string" where
  "group_text k m = (case group_of k m of Some s \<Rightarrow> s | None \<Rightarrow> [])"

section \<open>Lemmas\<close>

text \<open>Where a pattern is found, \<open>finditer\<close> finds something, and the other way round.\<close>

lemma finditer_from_Nil: "finditer_from r past s = [] \<longleftrightarrow> search_from r past s = None"
  by (induction r past s rule: search_from.induct)
    (simp_all add: finditer_from.simps split: option.split)

lemma finditer_Nil: "finditer r s = [] \<longleftrightarrow> \<not> searches r s"
  by (simp add: finditer_def searches_def search_def finditer_from_Nil)

lemma count_matches_zero: "count_matches s r = 0 \<longleftrightarrow> \<not> searches r s"
  by (simp add: count_matches_def finditer_Nil)

lemma count_matches_nonneg [simp]: "0 \<le> count_matches s r"
  by (simp add: count_matches_def)

text \<open>A literal is found exactly where it occurs, case aside.\<close>

lemma tries_lit:
  "tries (lit p) (past, rest, g) =
    (if startswith (lower rest) (lower p) then [(rev (take (length p) rest) @ past, drop (length p) rest, g)] else [])"
proof (induction p arbitrary: past rest)
  case (Cons c p)
  then show ?case by (cases rest) (auto simp: same_letter_def lower_def)
qed (simp add: lower_def)

lemma match_here_None: "match_here r past s = None \<longleftrightarrow> tries r (past, s, []) = []"
  by (simp add: match_here_def split: list.split)

lemma split_Cons: "(\<exists>u v. c # cs = u @ v \<and> P u v) \<longleftrightarrow> P [] (c # cs) \<or> (\<exists>u v. cs = u @ v \<and> P (c # u) v)"
  by (auto simp: Cons_eq_append_conv)

lemma search_from_None:
  "search_from r past s = None \<longleftrightarrow> \<not> (\<exists>u v. s = u @ v \<and> tries r (rev u @ past, v, []) \<noteq> [])"
proof (induction s arbitrary: past)
  case (Cons c cs)
  show ?case
  proof (cases "tries r (past, c # cs, []) = []")
    case True
    then have "match_here r past (c # cs) = None" by (simp add: match_here_None)
    with True Cons show ?thesis unfolding split_Cons by simp
  next
    case False
    then obtain p where "match_here r past (c # cs) = Some p" by (metis match_here_None option.exhaust)
    with False show ?thesis unfolding split_Cons by simp
  qed
qed (simp add: match_here_None)

lemma searches_iff: "searches r s \<longleftrightarrow> (\<exists>u v. s = u @ v \<and> tries r (rev u, v, []) \<noteq> [])"
  using search_from_None [of r "[]" s] by (simp add: searches_def search_def)

lemma searches_lit: "searches (lit p) s \<longleftrightarrow> contains (lower s) (lower p)"
proof
  assume "searches (lit p) s"
  then obtain u v where "s = u @ v" "startswith (lower v) (lower p)"
    by (auto simp: searches_iff tries_lit split: if_splits)
  then show "contains (lower s) (lower p)" by (auto simp: contains_iff startswith_iff)
next
  assume "contains (lower s) (lower p)"
  then obtain u v where uv: "lower s = u @ lower p @ v" by (auto simp: contains_iff)
  then have "lower (drop (length u) s) = lower p @ v"
    by (simp add: lower_def drop_map [symmetric])
  then have "tries (lit p) (rev (take (length u) s), drop (length u) s, []) \<noteq> []"
    by (simp add: tries_lit)
  moreover have "s = take (length u) s @ drop (length u) s" by simp
  ultimately show "searches (lit p) s" unfolding searches_iff by blast
qed

lemma searches_Either: "searches (Either a b) s \<longleftrightarrow> searches a s \<or> searches b s"
  by (auto simp: searches_iff)

lemma searches_alts: "searches (alts rs) s \<longleftrightarrow> (\<exists>r\<in>set rs. searches r s)"
  by (induction rs rule: alts.induct) (auto simp: searches_iff split: list.splits)

end
