(* ===== verification/Rule_Base.thy ===== *)
theory Rule_Base
  imports Regex Facts "HOL-Library.Monad_Syntax"
begin

text \<open>
  What the diagnostic rules share: the readers of the context (\<open>rules/base.py\<close>), the attribution of a
  Kubernetes event to the workload of the alert (\<open>rules/pod_events.py\<close>, \<open>rules/_container_start.py\<close>) and
  the constructor of facts. An expression that raises is \<open>None\<close>. The labels in the context are texts
  or \<open>None\<close> and its lists are lists or absent, as \<open>build_diagnostics_ctx\<close> puts them there; a time is its
  ISO-8601 text.
\<close>

section \<open>Reading the context\<close>

definition newline :: string where "newline = [CHR 0x0A]"

text \<open>\<open>d.get(k) or ""\<close>, used where only a text will do.\<close>

definition text_or_empty :: "pydict \<Rightarrow> string \<Rightarrow> string option" where
  "text_or_empty d k = (let v = dget d k in if truthy v then as_str v else Some '''')"

text \<open>\<open>d.get(k, "")\<close>, used where only a text will do.\<close>

definition text_default :: "pydict \<Rightarrow> string \<Rightarrow> string option" where
  "text_default d k = (if has_key d k then as_str (dget d k) else Some '''')"

definition text_haystack :: "pydict \<Rightarrow> string option" where
  "text_haystack ctx = do {
     a \<leftarrow> text_default ctx ''alertname'';
     b \<leftarrow> text_default ctx ''description'';
     c \<leftarrow> text_or_empty ctx ''k8s_summary'';
     d \<leftarrow> text_or_empty ctx ''logs_summary'';
     Some (lower (join newline [a, b, c, d]))
   }"

definition ctx_label :: "pydict \<Rightarrow> string \<Rightarrow> string option" where
  "ctx_label ctx k = as_str (dget ctx k)"

definition target_of :: "pydict \<Rightarrow> string option" where
  "target_of ctx = str_or (ctx_label ctx ''pod'') (ctx_label ctx ''service'')"

definition subject_of :: "pydict \<Rightarrow> string option" where
  "subject_of ctx = str_or (target_of ctx) (ctx_label ctx ''namespace'')"

text \<open>Truth of an optional text.\<close>

definition has_label :: "string option \<Rightarrow> bool" where
  "has_label s = (s \<noteq> None \<and> s \<noteq> Some [])"

text \<open>\<open>ctx.get(k) or []\<close>\<close>

definition items_of :: "pydict \<Rightarrow> string \<Rightarrow> pyval list option" where
  "items_of ctx k = (let v = dget ctx k in if \<not> truthy v then Some [] else (case v of PList xs \<Rightarrow> Some xs | _ \<Rightarrow> None))"

text \<open>\<open>ctx.get(k) or {}\<close>\<close>

definition mapping_of :: "pydict \<Rightarrow> string \<Rightarrow> pydict option" where
  "mapping_of ctx k = (let v = dget ctx k in if \<not> truthy v then Some [] else as_dict v)"

definition option_of :: "'a result \<Rightarrow> 'a option" where
  "option_of r = (case r of Inl _ \<Rightarrow> None | Inr x \<Rightarrow> Some x)"

text \<open>\<open>int(ev.get("count") or 1)\<close>\<close>

definition count_of :: "pydict \<Rightarrow> int option" where
  "count_of ev = (let v = dget ev ''count'' in if truthy v then option_of (to_int v) else Some 1)"

text \<open>\<open>d.get(k, v)\<close>\<close>

definition get_default :: "pydict \<Rightarrow> string \<Rightarrow> pyval \<Rightarrow> pyval" where
  "get_default d k v = (case map_of d k of None \<Rightarrow> v | Some x \<Rightarrow> x)"

section \<open>Facts a rule builds\<close>

text \<open>A fact before \<open>__post_init__\<close>, with the defaults of the fields a rule leaves out.\<close>

definition raw_fact :: "string \<Rightarrow> string \<Rightarrow> bool \<Rightarrow> pyfloat \<Rightarrow> string option \<Rightarrow> pydict \<Rightarrow> Fact" where
  "raw_fact rule kind seen confidence subject evidence =
     \<lparr>fc_kind = kind, fc_observed = seen, fc_confidence = confidence, fc_evidence = evidence,
      fc_subject = subject, fc_source_rule = Some rule, fc_verdict = '''', fc_epistemic = None,
      fc_provenance = None, fc_window_min = None, fc_data_age_min = None, fc_unknown_reason = None\<rparr>"

definition new_fact :: "Fact \<Rightarrow> Fact option" where
  "new_fact raw = option_of (post_init raw)"

text \<open>A rule that answers with one fact.\<close>

definition single :: "Fact option \<Rightarrow> Fact list option" where
  "single m = do {
     raw \<leftarrow> m;
     f \<leftarrow> new_fact raw;
     Some [f]
   }"

definition known_fact :: "Fact \<Rightarrow> string \<Rightarrow> string \<Rightarrow> Fact" where
  "known_fact f epistemic provenance =
     f\<lparr>fc_epistemic := Some epistemic, fc_provenance := Some provenance\<rparr>"

text \<open>\<open>"; ".join(f"{src}: {why}" for ...)\<close>\<close>

definition failed_reason :: "pydict \<Rightarrow> string" where
  "failed_reason failed = join ''; '' (map (\<lambda>(src, why). src @ '': '' @ py_str why) failed)"

text \<open>The rule object of a class: its name, its sources, its \<open>evaluate\<close>.\<close>

definition make_rule :: "string \<Rightarrow> string list \<Rightarrow> (pydict \<Rightarrow> Fact list option) \<Rightarrow> diag_rule" where
  "make_rule name sources evaluate =
     \<lparr>rl_name = name, rl_sources = sources, rl_evaluate = (\<lambda>ctx. map_option (map Some) (evaluate ctx))\<rparr>"

text \<open>\<open>self.failed_sources(ctx)\<close> from within \<open>evaluate\<close>\<close>

definition failed_of :: "string list \<Rightarrow> pydict \<Rightarrow> pydict" where
  "failed_of sources ctx = failed_sources \<lparr>rl_name = [], rl_sources = sources, rl_evaluate = (\<lambda>_. None)\<rparr> ctx"

section \<open>Confidences\<close>

text \<open>\<open>min(a, b)\<close> of two finite confidences; \<open>round(0.5 * a, 4)\<close> of one with two decimals, exactly.\<close>

function norm_float :: "int \<Rightarrow> int \<Rightarrow> pyfloat" where
  "norm_float m e = (if m = 0 then FFin 0 0 else if m mod 10 = 0 then norm_float (m div 10) (e + 1) else FFin m e)"
  by pat_completeness auto
termination
  by (relation "measure (\<lambda>(m, e). nat \<bar>m\<bar>)") auto

declare norm_float.simps [simp del]

definition halved :: "pyfloat \<Rightarrow> pyfloat" where
  "halved c = (case c of FFin m e \<Rightarrow> norm_float (5 * m) (e - 1) | _ \<Rightarrow> c)"

definition conf_val :: "pyfloat \<Rightarrow> rat" where
  "conf_val c = (case c of FFin m e \<Rightarrow> dec_val m e | _ \<Rightarrow> 0)"

definition conf_min :: "pyfloat \<Rightarrow> pyfloat \<Rightarrow> pyfloat" where
  "conf_min a b = (if conf_val b < conf_val a then b else a)"

section \<open>Events and their workload\<close>

datatype Attribution = SCOPED | FOREIGN | UNVERIFIED

definition event_object :: "pydict \<Rightarrow> string" where
  "event_object ev =
     (case find (\<lambda>key. case dget ev key of PStr s \<Rightarrow> s \<noteq> [] | _ \<Rightarrow> False) [''object'', ''pod_name''] of
        Some key \<Rightarrow> (case dget ev key of PStr s \<Rightarrow> s | _ \<Rightarrow> '''')
      | None \<Rightarrow>
          (case dget ev ''involvedObject'' of
             PDict involved \<Rightarrow> (case dget involved ''name'' of PStr name \<Rightarrow> name | _ \<Rightarrow> '''')
           | PStr s \<Rightarrow> s
           | _ \<Rightarrow> ''''))"

definition attribution :: "string \<Rightarrow> string option \<Rightarrow> Attribution" where
  "attribution obj target =
     (case target of
        None \<Rightarrow> UNVERIFIED
      | Some t \<Rightarrow>
          if t = [] \<or> obj = [] then UNVERIFIED else if same_workload obj t then SCOPED else FOREIGN)"

definition dict_events :: "pyval list \<Rightarrow> pydict list" where
  "dict_events events = List.map_filter as_dict events"

definition classify_events :: "pyval list \<Rightarrow> string option \<Rightarrow> (Attribution \<times> pydict) list" where
  "classify_events events target = map (\<lambda>ev. (attribution (event_object ev) target, ev)) (dict_events events)"

definition PULL_REASONS :: "string list" where
  "PULL_REASONS = [''imagepullbackoff'', ''errimagepull'', ''errimageneverpull'', ''invalidimagename'']"

definition back_off_pulling :: regex where
  "back_off_pulling = seqs [lit ''back'', opt (lit ''-''), lit ''off pulling image'']"

definition PULL_MESSAGE_RE :: regex where
  "PULL_MESSAGE_RE = alts [back_off_pulling, lit ''failed to pull image'',
     seqs [lit ''pulling image '', dots, lit '' failed''], lit ''imagepullbackoff'', lit ''errimagepull'']"

definition is_image_pull_backoff :: "pydict \<Rightarrow> bool option" where
  "is_image_pull_backoff ev = do {
     reason \<leftarrow> text_or_empty ev ''reason'';
     if lower reason \<in> set PULL_REASONS then Some True
     else do {
       message \<leftarrow> text_or_empty ev ''message'';
       Some (searches PULL_MESSAGE_RE message)
     }
   }"

section \<open>Lists under exceptions\<close>

text \<open>A filter, a map, and the first answer of a loop, whose function may raise.\<close>

fun first_some :: "('a \<Rightarrow> 'b option option) \<Rightarrow> 'a list \<Rightarrow> 'b option option" where
  "first_some f [] = Some None"
| "first_some f (x # xs) = do {
     r \<leftarrow> f x;
     (case r of None \<Rightarrow> first_some f xs | Some y \<Rightarrow> Some (Some y))
   }"

fun filter_opt :: "('a \<Rightarrow> bool option) \<Rightarrow> 'a list \<Rightarrow> 'a list option" where
  "filter_opt p [] = Some []"
| "filter_opt p (x # xs) = do {
     b \<leftarrow> p x;
     ys \<leftarrow> filter_opt p xs;
     Some (if b then x # ys else ys)
   }"

fun map_opt :: "('a \<Rightarrow> 'b option) \<Rightarrow> 'a list \<Rightarrow> 'b list option" where
  "map_opt f [] = Some []"
| "map_opt f (x # xs) = do {
     y \<leftarrow> f x;
     ys \<leftarrow> map_opt f xs;
     Some (y # ys)
   }"

text \<open>\<open>sorted(set(xs))\<close>\<close>

definition sorted_set :: "string list \<Rightarrow> string list" where
  "sorted_set xs = sort (remdups xs)"

section \<open>Lemmas\<close>

lemma filter_opt_Some: "filter_opt p xs = Some ys \<Longrightarrow> (\<forall>x\<in>set xs. p x \<noteq> None) \<and> ys = filter (\<lambda>x. p x = Some True) xs"
  by (induction xs arbitrary: ys) (auto split: Option.bind_splits)

lemma bind_SomeE:
  assumes "Option.bind m f = Some y"
  obtains x where "m = Some x" and "f x = Some y"
  using assms by (auto simp: bind_eq_Some_conv)

lemma single_Some: "single m = Some fs \<Longrightarrow> f \<in> set fs \<Longrightarrow> \<exists>raw. m = Some raw \<and> new_fact raw = Some f"
  by (auto simp: single_def elim!: bind_SomeE)

lemma single_Some_iff: "single (Some raw) = Some fs \<longleftrightarrow> (\<exists>f. new_fact raw = Some f \<and> fs = [f])"
  by (auto simp: single_def bind_eq_Some_conv)

lemma first_some_Some: "first_some f xs = Some (Some y) \<Longrightarrow> \<exists>x\<in>set xs. f x = Some (Some y)"
  by (induction xs) (auto split: Option.bind_splits option.splits)

lemma map_opt_Some: "map_opt f xs = Some ys \<Longrightarrow> list_all2 (\<lambda>x y. f x = Some y) xs ys"
  by (induction xs arbitrary: ys) (auto split: Option.bind_splits)

lemma new_fact_wf: "new_fact raw = Some f \<Longrightarrow> fact_wf f"
  by (auto simp: new_fact_def option_of_def intro: post_init_wf split: sum.splits)

lemma raw_fact_simps [simp]:
  "fc_kind (raw_fact r k s c sub e) = k" "fc_observed (raw_fact r k s c sub e) = s"
  "fc_confidence (raw_fact r k s c sub e) = c" "fc_subject (raw_fact r k s c sub e) = sub"
  "fc_evidence (raw_fact r k s c sub e) = e" "fc_source_rule (raw_fact r k s c sub e) = Some r"
  "fc_verdict (raw_fact r k s c sub e) = ''''" "fc_epistemic (raw_fact r k s c sub e) = None"
  by (simp_all add: raw_fact_def)

lemma known_fact_simps [simp]:
  "fc_kind (known_fact f ep p) = fc_kind f" "fc_observed (known_fact f ep p) = fc_observed f"
  "fc_confidence (known_fact f ep p) = fc_confidence f" "fc_subject (known_fact f ep p) = fc_subject f"
  "fc_evidence (known_fact f ep p) = fc_evidence f" "fc_source_rule (known_fact f ep p) = fc_source_rule f"
  "fc_verdict (known_fact f ep p) = fc_verdict f" "fc_epistemic (known_fact f ep p) = Some ep"
  by (simp_all add: known_fact_def)

lemma conf_vals [simp]:
  "conf_val (FFin m e) = dec_val m e"
  by (simp add: conf_val_def)

lemma conf_min_le: "conf_val (conf_min a b) \<le> conf_val b"
  by (simp add: conf_min_def)

end
