(* ===== verification/State_Rules.thy ===== *)
theory State_Rules
  imports Rule_Base
begin

text \<open>
  The rules over the state of pods and over Kubernetes events: \<open>rules/oom.py\<close>,
  \<open>rules/process_crash.py\<close> and \<open>rules/pod_events.py\<close>. An exit code is an integer or absent. A long dash is
  written \<open>--\<close> in a note.
\<close>

section \<open>Pod states\<close>

definition exit_code_of :: "pydict \<Rightarrow> int option option" where
  "exit_code_of info = (case dget info ''exit_code'' of PNone \<Rightarrow> Some None | PInt n \<Rightarrow> Some (Some n) | _ \<Rightarrow> None)"

definition state_reason :: "pydict \<Rightarrow> string option" where
  "state_reason info = map_option strip (text_or_empty info ''reason'')"

text \<open>The target's own state first, then the pods of its workload, or all pods without a target.\<close>

definition state_candidates :: "pydict \<Rightarrow> string option \<Rightarrow> (string \<times> pyval) list" where
  "state_candidates pod_state pod =
     (case pod of
        Some p \<Rightarrow> if p \<noteq> [] \<and> has_key pod_state p then [(p, dget pod_state p)] else []
      | None \<Rightarrow> []) @
     filter (\<lambda>(name, info). Some name \<noteq> pod \<and>
         (case pod of Some p \<Rightarrow> p = [] \<or> same_workload name p | None \<Rightarrow> True)) pod_state"

section \<open>OOMKilledRule\<close>

definition HARD_PATTERN :: regex where
  "HARD_PATTERN = alts [seqs [lit ''oom'', opt (Chars ch_space), lit ''killed''], lit ''out of memory'',
     lit ''memory cgroup out of memory'', seqs [lit ''killed'', dots_lazy, lit ''oom'']]"

definition SOFT_PATTERN :: regex where
  "SOFT_PATTERN = Either (seqs [lit ''exit'', spaces, lit ''code'', spaces, lit ''137''])
     (seqs [WordEdge, lit ''sigkill'', WordEdge])"

definition UNATTRIBUTED_HARD_CONFIDENCE :: pyfloat where
  "UNATTRIBUTED_HARD_CONFIDENCE = FFin 45 (- 2)"

definition oom_fact :: "bool \<Rightarrow> pyfloat \<Rightarrow> string option \<Rightarrow> pydict \<Rightarrow> Fact" where
  "oom_fact = raw_fact ''OOMKilledRule'' ''oom_killed''"

definition oom_state :: "string \<times> pyval \<Rightarrow> Fact option option" where
  "oom_state candidate = (case candidate of (pod_name, v) \<Rightarrow> do {
     info \<leftarrow> as_dict v;
     reason \<leftarrow> state_reason info;
     exit_code \<leftarrow> exit_code_of info;
     Some (if reason = ''OOMKilled'' then
             Some (oom_fact True (FFin 98 (- 2)) (Some pod_name)
               [(''source'', PStr ''k8s_terminated_state''), (''exit_code'', dget info ''exit_code''),
                (''container'', get_default info ''container'' (PStr ''''))])
           else if exit_code = Some 137 then
             Some (oom_fact True (FFin 55 (- 2)) (Some pod_name)
               [(''source'', PStr ''k8s_terminated_state''), (''exit_code'', PInt 137),
                (''note'', PStr ''exit 137 without explicit OOMKilled reason''),
                (''container'', get_default info ''container'' (PStr ''''))])
           else None)
   })"

definition target_exit_of :: "pydict \<Rightarrow> string option \<Rightarrow> int option option" where
  "target_exit_of pod_state pod =
     (case pod of
        Some p \<Rightarrow> if p \<noteq> [] \<and> has_key pod_state p then do {
                     info \<leftarrow> as_dict (dget pod_state p);
                     exit_code_of info
                   } else Some None
      | None \<Rightarrow> Some None)"

definition oom_text :: "string option \<Rightarrow> int \<Rightarrow> int \<Rightarrow> Fact" where
  "oom_text pod hard soft =
     (if 1 \<le> hard then
        (if pod \<noteq> None then
           oom_fact True (FFin 95 (- 2)) pod [(''hard_matches'', PInt hard), (''soft_matches'', PInt soft)]
         else
           oom_fact True UNATTRIBUTED_HARD_CONFIDENCE pod
             [(''hard_matches'', PInt hard), (''soft_matches'', PInt soft), (''attribution'', PStr ''unverified''),
              (''note'', PStr ''text match without pod/service label -- may belong to another workload in the namespace'')])
      else if 1 \<le> soft then
        oom_fact True (FFin 4 (- 1)) pod [(''soft_matches'', PInt soft), (''note'', PStr ''exit 137 only'')]
      else oom_fact False (FFin 9 (- 1)) pod [])"

definition oom_raw :: "pydict \<Rightarrow> Fact option" where
  "oom_raw ctx = do {
     pod_state \<leftarrow> mapping_of ctx ''k8s_pod_state'';
     target_exit \<leftarrow> target_exit_of pod_state (target_of ctx);
     structured \<leftarrow> first_some oom_state (state_candidates pod_state (target_of ctx));
     (case structured of
        Some f \<Rightarrow> Some f
      | None \<Rightarrow>
                 (case target_exit of
                    Some code \<Rightarrow>
                      if code \<noteq> 0 \<and> code \<noteq> 137 then
                        Some (oom_fact False (FFin 9 (- 1)) (target_of ctx)
                          [(''source'', PStr ''k8s_terminated_state''), (''exit_code'', PInt code),
                           (''note'', PStr ''non-OOM exit code; text matches suppressed'')])
                      else map_option (\<lambda>text. oom_text (target_of ctx) (count_matches text HARD_PATTERN)
                             (count_matches text SOFT_PATTERN)) (text_haystack ctx)
                  | None \<Rightarrow> map_option (\<lambda>text. oom_text (target_of ctx) (count_matches text HARD_PATTERN)
                             (count_matches text SOFT_PATTERN)) (text_haystack ctx)))
   }"

definition oom_evaluate :: "pydict \<Rightarrow> Fact list option" where
  "oom_evaluate ctx = single (oom_raw ctx)"

definition OOMKilledRule :: diag_rule where
  "OOMKilledRule = make_rule ''OOMKilledRule'' [''k8s_pod_state'', ''k8s_summary'', ''logs_summary''] oom_evaluate"

section \<open>ProcessCrashRule\<close>

definition CRASH_EXIT_CODES :: "(int \<times> string \<times> pyfloat) list" where
  "CRASH_EXIT_CODES = [(139, ''SIGSEGV'', FFin 97 (- 2)), (134, ''SIGABRT'', FFin 95 (- 2)),
     (132, ''SIGILL'', FFin 93 (- 2)), (135, ''SIGBUS'', FFin 93 (- 2)), (136, ''SIGFPE'', FFin 9 (- 1)),
     (138, ''SIGUSR1'', FFin 7 (- 1))]"

definition generic_crash_code :: "int \<Rightarrow> bool" where
  "generic_crash_code code \<longleftrightarrow> 1 \<le> code \<and> code < 256 \<and> code \<noteq> 137 \<and> code \<noteq> 143"

definition EXIT_CODE_PATTERN :: regex where
  "EXIT_CODE_PATTERN = Either
     (seqs [lit ''exit'', spaces, lit ''code'', many1 (Chars (\<lambda>c. c = CHR '':'' \<or> ch_space c)), Group 1 digits1])
     (seqs [lit ''exited'', spaces1, lit ''with'', spaces1, opt (Then (lit ''code'') spaces1), Group 2 digits1])"

definition SIGNALS :: "(int \<times> string) list" where
  "SIGNALS = [(139, ''SIGSEGV''), (134, ''SIGABRT''), (132, ''SIGILL''), (135, ''SIGBUS''), (136, ''SIGFPE''),
     (138, ''SIGUSR1''), (137, ''SIGKILL''), (143, ''SIGTERM''), (130, ''SIGINT'')]"

definition signal_label :: "int \<Rightarrow> string" where
  "signal_label code =
     (case map_of SIGNALS code of
        Some s \<Rightarrow> s
      | None \<Rightarrow> if 128 < code then ''signal='' @ int_str (code - 128) else '''')"

definition crash_fact :: "bool \<Rightarrow> pyfloat \<Rightarrow> string option \<Rightarrow> pydict \<Rightarrow> Fact" where
  "crash_fact = raw_fact ''ProcessCrashRule'' ''process_crash''"

definition crash_state :: "string \<times> pyval \<Rightarrow> Fact option option" where
  "crash_state candidate = (case candidate of (pod_name, v) \<Rightarrow> do {
     info \<leftarrow> as_dict v;
     exit_code \<leftarrow> exit_code_of info;
     reason \<leftarrow> state_reason info;
     Some (case exit_code of
             None \<Rightarrow> None
           | Some code \<Rightarrow>
               if code = 0 \<or> code = 137 \<or> code = 143 then None
               else
                 (let evidence = (\<lambda>signal. [(''source'', PStr ''k8s_terminated_state''), (''exit_code'', PInt code),
                        (''signal'', PStr signal), (''reason'', PStr reason),
                        (''container'', get_default info ''container'' (PStr ''''))])
                  in (case map_of CRASH_EXIT_CODES code of
                        Some (signal, conf) \<Rightarrow> Some (crash_fact True conf (Some pod_name) (evidence signal))
                      | None \<Rightarrow>
                          if reason = ''Error'' then
                            Some (crash_fact True (FFin 55 (- 2)) (Some pod_name) (evidence (signal_label code)))
                          else None)))
   })"

definition crash_match :: "found_match \<Rightarrow> (int \<times> string \<times> pyfloat) option" where
  "crash_match m =
     (case Option.bind (str_or (group_of 1 m) (group_of 2 m)) int_of_digits of
        None \<Rightarrow> None
      | Some code \<Rightarrow>
          if code = 0 \<or> code = 137 \<or> code = 143 then None
          else (case map_of CRASH_EXIT_CODES code of
                  Some (signal, conf) \<Rightarrow> Some (code, signal, conf)
                | None \<Rightarrow> if generic_crash_code code then Some (code, signal_label code, FFin 45 (- 2)) else None))"

definition crash_text :: "string option \<Rightarrow> string \<Rightarrow> Fact" where
  "crash_text pod text =
     (case List.map_filter crash_match (finditer EXIT_CODE_PATTERN text) of
        (code, signal, conf) # _ \<Rightarrow>
          crash_fact True conf pod
            [(''source'', PStr ''log_regex''), (''exit_code'', PInt code), (''signal'', PStr signal)]
      | [] \<Rightarrow> crash_fact False (FFin 7 (- 1)) pod [])"

definition process_crash_raw :: "pydict \<Rightarrow> Fact option" where
  "process_crash_raw ctx = do {
     pod_state \<leftarrow> mapping_of ctx ''k8s_pod_state'';
     structured \<leftarrow> first_some crash_state (state_candidates pod_state (target_of ctx));
     (case structured of
               Some f \<Rightarrow>
                 Some (if truthy (dget ctx ''core_dump_node'')
                       then f\<lparr>fc_evidence := dset (fc_evidence f) ''core_dump_node'' (dget ctx ''core_dump_node'')\<rparr>
                       else f)
             | None \<Rightarrow> map_option (crash_text (target_of ctx)) (text_haystack ctx))
   }"

definition process_crash_evaluate :: "pydict \<Rightarrow> Fact list option" where
  "process_crash_evaluate ctx = single (process_crash_raw ctx)"

definition ProcessCrashRule :: diag_rule where
  "ProcessCrashRule =
     make_rule ''ProcessCrashRule'' [''k8s_pod_state'', ''k8s_summary'', ''logs_summary''] process_crash_evaluate"

section \<open>PodEventsRule\<close>

definition REASON_MAP :: "(string \<times> string \<times> pyfloat) list" where
  "REASON_MAP = [(''oomkill'', ''oom_killed'', FFin 95 (- 2)), (''evict'', ''resource_pressure'', FFin 9 (- 1)),
     (''memorypressure'', ''resource_pressure'', FFin 85 (- 2)), (''diskpressure'', ''resource_pressure'', FFin 85 (- 2)),
     (''failedscheduling'', ''failed_scheduling'', FFin 95 (- 2)), (''crashloopbackoff'', ''crashloop'', FFin 85 (- 2)),
     (''backoff'', ''crashloop'', FFin 75 (- 2))]"

definition FOREIGN_OBJECT_CONFIDENCE :: pyfloat where
  "FOREIGN_OBJECT_CONFIDENCE = FFin 5 (- 1)"

definition match_reason :: "string \<Rightarrow> (string \<times> pyfloat) option" where
  "match_reason reason =
     map_option snd (find (\<lambda>(prefix, _). startswith (lower reason) prefix \<or> contains (lower reason) prefix) REASON_MAP)"

type_synonym event_bucket = "(string \<times> pyfloat \<times> pydict) list"

definition keep_best :: "event_bucket \<Rightarrow> string \<Rightarrow> pyfloat \<Rightarrow> pydict \<Rightarrow> event_bucket" where
  "keep_best bucket kind conf evidence =
     (case map_of bucket kind of
        None \<Rightarrow> AList.update kind (conf, evidence) bucket
      | Some (c, _) \<Rightarrow> if conf_val c < conf_val conf then AList.update kind (conf, evidence) bucket else bucket)"

definition event_evidence :: "pydict \<Rightarrow> string \<Rightarrow> pydict" where
  "event_evidence ev message =
     [(''source'', PStr ''k8s_event''), (''reason'', dget ev ''reason''), (''message'', PStr (take 120 message)),
      (''count'', get_default ev ''count'' (PInt 1)), (''object'', PStr (event_object ev))]"

definition note_event ::
  "string option \<Rightarrow> (Attribution \<Rightarrow> event_bucket) \<Rightarrow> pyval \<Rightarrow> (Attribution \<Rightarrow> event_bucket) option" where
  "note_event target best v = do {
     ev \<leftarrow> as_dict v;
     pull \<leftarrow> is_image_pull_backoff ev;
     if pull then Some best
     else do {
       reason \<leftarrow> text_default ev ''reason'';
       (case match_reason reason of
          None \<Rightarrow> Some best
        | Some (kind, conf) \<Rightarrow> do {
            message \<leftarrow> text_default ev ''message'';
            (let a = attribution (event_object ev) target in
             Some (best(a := keep_best (best a) kind conf (event_evidence ev message))))
          })
     }
   }"

fun note_events ::
  "string option \<Rightarrow> (Attribution \<Rightarrow> event_bucket) \<Rightarrow> pyval list \<Rightarrow> (Attribution \<Rightarrow> event_bucket) option" where
  "note_events target best [] = Some best"
| "note_events target best (v # vs) = do {
     best' \<leftarrow> note_event target best v;
     note_events target best' vs
   }"

definition event_fact :: "string \<Rightarrow> bool \<Rightarrow> pyfloat \<Rightarrow> string option \<Rightarrow> pydict \<Rightarrow> string \<Rightarrow> Fact" where
  "event_fact kind seen conf subject evidence epistemic =
     known_fact (raw_fact ''PodEventsRule'' kind seen conf subject evidence) epistemic ''k8s_event''"

definition scoped_fact :: "string option \<Rightarrow> string \<times> pyfloat \<times> pydict \<Rightarrow> Fact" where
  "scoped_fact fallback x = (case x of (kind, conf, evidence) \<Rightarrow>
     event_fact kind True conf
       (str_or (as_str (dget evidence ''object'')) fallback) evidence ''observed'')"

definition unverified_fact :: "string option \<Rightarrow> string \<times> pyfloat \<times> pydict \<Rightarrow> Fact" where
  "unverified_fact fallback x = (case x of (kind, conf, evidence) \<Rightarrow>
     event_fact kind True (halved conf) fallback
       (evidence @ [(''attribution'', PStr ''unverified''), 
        (''note'', PStr ''namespace-wide event; alert has no pod/service label to attribute it to the target workload'')]) ''inferred'')"

definition foreign_fact :: "string option \<Rightarrow> string \<times> pyfloat \<times> pydict \<Rightarrow> Fact" where
  "foreign_fact fallback x = (case x of (kind, conf, evidence) \<Rightarrow>
     event_fact kind False FOREIGN_OBJECT_CONFIDENCE fallback
       (evidence @ [(''attribution'', PStr ''other_workload''), 
        (''note'', PStr ''event belongs to a different workload in the same namespace -- not evidence about the target'')])
       ''observed'')"

definition event_facts :: "string option \<Rightarrow> (Attribution \<Rightarrow> event_bucket) \<Rightarrow> Fact list" where
  "event_facts fallback best =
     map (scoped_fact fallback) (best SCOPED) @
     map (unverified_fact fallback) (filter (\<lambda>(kind, _). map_of (best SCOPED) kind = None) (best UNVERIFIED)) @
     map (foreign_fact fallback)
       (filter (\<lambda>(kind, _). map_of (best SCOPED) kind = None \<and> map_of (best UNVERIFIED) kind = None) (best FOREIGN))"

definition pod_events_evaluate :: "pydict \<Rightarrow> Fact list option" where
  "pod_events_evaluate ctx = do {
     events \<leftarrow> items_of ctx ''k8s_events'';
     if events = [] then
       (case source_problem ctx ''k8s_events'' of
          None \<Rightarrow> Some []
        | Some problem \<Rightarrow>
            map_opt (\<lambda>kind. option_of (fact_unknown kind problem (subject_of ctx) (Some ''PodEventsRule'')
                (Some ''kg_pod_events'') None []))
              (rev (remdups (rev (map (\<lambda>(_, kind, _). kind) REASON_MAP)))))
     else do {
       best \<leftarrow> note_events (target_of ctx) (\<lambda>_. []) events;
       map_opt new_fact (event_facts (subject_of ctx) best)
     }
   }"

definition PodEventsRule :: diag_rule where
  "PodEventsRule = make_rule ''PodEventsRule'' [''k8s_events''] pod_events_evaluate"


section \<open>Lemmas\<close>

text \<open>What is known of an entry of a bucket: where its confidence comes from, and which event it is with what reason.\<close>

definition entry_ok ::
  "string option \<Rightarrow> pyval list \<Rightarrow> Attribution \<Rightarrow> string \<times> pyfloat \<times> pydict \<Rightarrow> bool" where
  "entry_ok target events a x \<longleftrightarrow> (case x of (kind, conf, evidence) \<Rightarrow>
     (kind, conf) \<in> snd ` set REASON_MAP \<and> dget evidence ''source'' = PStr ''k8s_event'' \<and>
     (\<exists>ev. PDict ev \<in> set events \<and> is_image_pull_backoff ev = Some False \<and>
        (\<exists>reason. dget ev ''reason'' = PStr reason) \<and> dget evidence ''reason'' = dget ev ''reason'' \<and>
        dget evidence ''object'' = PStr (event_object ev) \<and> attribution (event_object ev) target = a))"

lemma update_mem: "x \<in> set (AList.update k v xs) \<Longrightarrow> x = (k, v) \<or> x \<in> set xs"
  by (induction xs) (auto split: if_splits)

lemma keep_best_mem:
  "x \<in> set (keep_best bucket kind conf evidence) \<Longrightarrow> x = (kind, conf, evidence) \<or> x \<in> set bucket"
  by (auto simp: keep_best_def split: option.splits if_splits dest: update_mem)

lemma find_mem: "find p xs = Some y \<Longrightarrow> y \<in> set xs"
  by (metis find_Some_iff nth_mem)

lemma match_reason_mem: "match_reason r = Some (kind, conf) \<Longrightarrow> (kind, conf) \<in> snd ` set REASON_MAP"
  by (auto simp: match_reason_def dest!: find_mem intro: rev_image_eqI)

lemma as_dict_Some: "as_dict v = Some d \<longleftrightarrow> v = PDict d"
  by (cases v) auto

lemma match_reason_empty: "match_reason [] = None"
  by code_simp

lemma text_default_Some: "text_default d k = Some s \<Longrightarrow> s \<noteq> [] \<Longrightarrow> dget d k = PStr s"
  by (cases "dget d k") (auto simp: text_default_def split: if_splits)

lemma note_eventE:
  assumes "note_event target best v = Some best'"
  obtains (same) "best' = best"
  | (added) ev kind conf message where "v = PDict ev" "is_image_pull_backoff ev = Some False"
      "\<exists>reason. dget ev ''reason'' = PStr reason" "(kind, conf) \<in> snd ` set REASON_MAP"
      "best' = best(attribution (event_object ev) target :=
         keep_best (best (attribution (event_object ev) target)) kind conf (event_evidence ev message))"
proof -
  obtain ev pull where v: "v = PDict ev" "is_image_pull_backoff ev = Some pull"
    and r: "(if pull then Some best
       else do {
         reason \<leftarrow> text_default ev ''reason'';
         (case match_reason reason of
            None \<Rightarrow> Some best
          | Some (kind, conf) \<Rightarrow> do {
              message \<leftarrow> text_default ev ''message'';
              (let a = attribution (event_object ev) target in
               Some (best(a := keep_best (best a) kind conf (event_evidence ev message))))
            })
       }) = Some best'"
    using assms by (auto simp: note_event_def as_dict_Some elim!: bind_SomeE)
  show thesis
  proof (cases "best' = best")
    case False
    with r obtain reason kind conf message where "\<not> pull" and t: "text_default ev ''reason'' = Some reason"
      and m: "match_reason reason = Some (kind, conf)"
      and "best' = best(attribution (event_object ev) target :=
         keep_best (best (attribution (event_object ev) target)) kind conf (event_evidence ev message))"
      by (auto simp: Let_def elim!: bind_SomeE split: if_splits option.splits)
    moreover have "reason \<noteq> []" using m match_reason_empty by auto
    ultimately show thesis
      using v text_default_Some [OF t] match_reason_mem [OF m] by (intro added) auto
  qed (rule same)
qed

lemma note_event_ok:
  assumes "note_event target best v = Some best'" and "v \<in> set events"
    and "\<And>a x. x \<in> set (best a) \<Longrightarrow> entry_ok target events a x" and "x \<in> set (best' a)"
  shows "entry_ok target events a x"
  using assms(1)
proof (cases rule: note_eventE)
  case (added ev kind conf message)
  show ?thesis
  proof (cases "x \<in> set (best a)")
    case False
    with added(5) assms(4) have "a = attribution (event_object ev) target" "x = (kind, conf, event_evidence ev message)"
      by (auto split: if_splits dest: keep_best_mem)
    with added(1-4) assms(2) show ?thesis
      by (auto simp: entry_ok_def event_evidence_def dget_def)
  qed (use assms(3) in blast)
qed (use assms(3,4) in simp)

lemma note_events_ok:
  assumes "note_events target best vs = Some best'" and "set vs \<subseteq> set events"
    and "\<And>a x. x \<in> set (best a) \<Longrightarrow> entry_ok target events a x"
  shows "x \<in> set (best' a) \<Longrightarrow> entry_ok target events a x"
  using assms
proof (induction vs arbitrary: best a x)
  case (Cons v vs)
  then obtain mid where m: "note_event target best v = Some mid" "note_events target mid vs = Some best'"
    by (auto elim!: bind_SomeE)
  have "x \<in> set (mid a) \<Longrightarrow> entry_ok target events a x" for a x
    using note_event_ok [OF m(1), of events] Cons.prems(3,4) by (metis list.set_intros(1) subsetD)
  with Cons.IH [OF _ m(2)] Cons.prems(1,3) show ?case by auto
qed simp

text \<open>The facts of a run over events: each comes from an entry of its attribution.\<close>

lemma event_facts_mem:
  assumes "f \<in> set (event_facts fallback best)"
  obtains (scoped) x where "x \<in> set (best SCOPED)" "f = scoped_fact fallback x"
  | (unverified) x where "x \<in> set (best UNVERIFIED)" "f = unverified_fact fallback x"
  | (foreign) x where "x \<in> set (best FOREIGN)" "f = foreign_fact fallback x"
  using assms by (auto simp: event_facts_def)

lemma attribution_scoped: "attribution obj target = SCOPED \<Longrightarrow> \<exists>t. target = Some t \<and> t \<noteq> [] \<and> obj \<noteq> [] \<and> same_workload obj t"
  by (auto simp: attribution_def split: option.splits if_splits)

lemma attribution_no_target: "target = None \<or> target = Some [] \<Longrightarrow> attribution obj target = UNVERIFIED"
  by (auto simp: attribution_def split: option.splits)

lemma state_candidates_mem:
  "(name, info) \<in> set (state_candidates st (Some p)) \<Longrightarrow> p \<noteq> [] \<Longrightarrow> same_workload name p"
  by (auto simp: state_candidates_def same_workload_refl split: if_splits)

end
