(* ===== verification/Start_Rules.thy ===== *)
theory Start_Rules
  imports Rule_Base
begin

text \<open>
  The rules about a container that never started: \<open>rules/image_pull.py\<close> and
  \<open>rules/container_config.py\<close>.
\<close>

definition CONFIDENCE_OF_EVENT :: pyfloat where "CONFIDENCE_OF_EVENT = FFin 95 (- 2)"
definition ABSENT_CONFIDENCE :: pyfloat where "ABSENT_CONFIDENCE = FFin 7 (- 1)"
definition FOREIGN_CONFIDENCE :: pyfloat where "FOREIGN_CONFIDENCE = FFin 5 (- 1)"

section \<open>ImagePullRule\<close>

definition IMAGE_PULL_REASONS :: "string list" where
  "IMAGE_PULL_REASONS = [''errimagepull'', ''imagepullbackoff'', ''errimageneverpull'', ''invalidimagename'']"

definition IMAGE_MESSAGE_RE :: regex where
  "IMAGE_MESSAGE_RE = alts [lit ''failed to pull image'', back_off_pulling,
     seqs [lit ''pulling image '', dots, lit '' failed''], lit ''errimagepull'', lit ''imagepullbackoff'']"

definition IMAGE_TEXT_RE :: regex where
  "IMAGE_TEXT_RE = alts [lit ''imagepullbackoff'', lit ''errimagepull'', lit ''errimageneverpull'',
     lit ''failed to pull image'', back_off_pulling]"

definition IMAGE_RE :: regex where
  "IMAGE_RE = seqs [Either (seqs [lit ''pull'', opt (lit ''ing''), lit '' image'']) (lit ''image''), spaces1,
     lit [CHR 0x22], Group 1 (many1 (Chars (\<lambda>c. c \<noteq> CHR 0x22 \<and> \<not> ch_space c))), lit [CHR 0x22]]"

definition AUTH_RE :: regex where
  "AUTH_RE = alts [lit ''unauthorized'', lit ''authentication required'', lit ''access denied'', lit ''denied:'',
     lit ''forbidden'', lit ''no basic auth credentials'', seqs [WordEdge, lit ''401'', WordEdge],
     seqs [WordEdge, lit ''403'', WordEdge]]"

definition NETWORK_RE :: regex where
  "NETWORK_RE = alts [lit ''i/o timeout'', lit ''connection refused'', lit ''no such host'',
     lit ''tls handshake timeout'', lit ''context deadline exceeded'', lit ''dial tcp'',
     lit ''network is unreachable'', lit ''connection reset'']"

definition NOT_FOUND_RE :: regex where
  "NOT_FOUND_RE = alts [lit ''manifest unknown'', seqs [lit ''manifest for '', dots, lit '' not found''],
     lit ''not found'', lit ''no such manifest'', lit ''repository does not exist'', lit ''name unknown'']"

definition CAUSES :: "(string \<times> regex) list" where
  "CAUSES = [(''auth'', AUTH_RE), (''network'', NETWORK_RE), (''not_found'', NOT_FOUND_RE)]"

definition is_pull_event :: "pydict \<Rightarrow> bool option" where
  "is_pull_event ev = do {
     reason \<leftarrow> text_or_empty ev ''reason'';
     if lower reason \<in> set IMAGE_PULL_REASONS then Some True
     else if lower reason = ''failed'' \<or> lower reason = ''backoff'' then do {
       message \<leftarrow> text_or_empty ev ''message'';
       Some (searches IMAGE_MESSAGE_RE message)
     }
     else Some False
   }"

definition pull_cause :: "string \<Rightarrow> string" where
  "pull_cause text =
     (case find (\<lambda>(cause, pattern). searches pattern text) CAUSES of Some (cause, _) \<Rightarrow> cause | None \<Rightarrow> ''unknown'')"

definition image_of :: "string \<Rightarrow> pyval" where
  "image_of text = (case search IMAGE_RE text of Some m \<Rightarrow> PStr (group_text 1 m) | None \<Rightarrow> PNone)"

text \<open>The best event of an attribution: whether its cause is known, its count, its evidence.\<close>

type_synonym pull_best = "bool \<times> int \<times> pydict"

definition note_pull ::
  "(Attribution \<Rightarrow> pull_best option) \<Rightarrow> Attribution \<times> pydict \<Rightarrow> (Attribution \<Rightarrow> pull_best option) option" where
  "note_pull best x = (case x of (a, ev) \<Rightarrow> do {
     pull \<leftarrow> is_pull_event ev;
     if \<not> pull then Some best
     else do {
       count \<leftarrow> count_of ev;
       message \<leftarrow> text_or_empty ev ''message'';
       reason \<leftarrow> text_or_empty ev ''reason'';
       (let known = pull_cause message \<noteq> ''unknown'' in
        if (case best a of
              None \<Rightarrow> True
            | Some (k, n, _) \<Rightarrow> known \<and> \<not> k \<or> known = k \<and> n < count)
        then Some (best(a := Some (known, count,
               [(''source'', PStr ''k8s_event''), (''reason'', PStr reason), (''count'', PInt count),
                (''object'', PStr (event_object ev)), (''cause'', PStr (pull_cause message)),
                (''image'', image_of message), (''message'', PStr (take 160 message))])))
        else Some best)
     }
   })"

fun note_pulls ::
  "(Attribution \<Rightarrow> pull_best option) \<Rightarrow> (Attribution \<times> pydict) list \<Rightarrow> (Attribution \<Rightarrow> pull_best option) option" where
  "note_pulls best [] = Some best"
| "note_pulls best (x # xs) = do {
     best' \<leftarrow> note_pull best x;
     note_pulls best' xs
   }"

definition image_fact :: "bool \<Rightarrow> pyfloat \<Rightarrow> string option \<Rightarrow> pydict \<Rightarrow> Fact" where
  "image_fact = raw_fact ''ImagePullRule'' ''image_pull''"

definition pull_event_fact :: "string option \<Rightarrow> (Attribution \<Rightarrow> pull_best option) \<Rightarrow> Fact option" where
  "pull_event_fact subject best =
     (case best SCOPED of
        Some (_, _, evidence) \<Rightarrow>
          Some (known_fact (image_fact True CONFIDENCE_OF_EVENT
            (str_or (as_str (dget evidence ''object'')) subject) evidence) ''observed'' ''k8s_event'')
      | None \<Rightarrow>
          (case best UNVERIFIED of
             Some (_, _, evidence) \<Rightarrow>
               Some (known_fact (image_fact True (halved CONFIDENCE_OF_EVENT)
                 (str_or (as_str (dget evidence ''object'')) subject)
                 (evidence @ [(''attribution'', PStr ''unverified'')])) ''observed'' ''k8s_event'')
           | None \<Rightarrow> None))"

definition pull_text_fact :: "string option \<Rightarrow> string option \<Rightarrow> string \<Rightarrow> int \<Rightarrow> Fact" where
  "pull_text_fact target subject text hits =
     image_fact True (if has_label target then FFin 8 (- 1) else halved (FFin 8 (- 1))) subject
       [(''source'', PStr ''k8s_text''), (''phrase_hits'', PInt hits), (''cause'', PStr (pull_cause text)),
        (''image'', image_of text)]"

definition image_pull_raw :: "pydict \<Rightarrow> Fact option" where
  "image_pull_raw ctx = do {
     events \<leftarrow> items_of ctx ''k8s_events'';
     best \<leftarrow> note_pulls (\<lambda>_. None) (classify_events events (target_of ctx));
     (case pull_event_fact (subject_of ctx) best of
               Some f \<Rightarrow> Some f
             | None \<Rightarrow> do {
                 text \<leftarrow> text_haystack ctx;
                 (let hits = count_matches text IMAGE_TEXT_RE in
                  Some (if hits \<noteq> 0 then pull_text_fact (target_of ctx) (subject_of ctx) text hits
                        else (case best FOREIGN of
                                Some (_, _, evidence) \<Rightarrow>
                                  image_fact False FOREIGN_CONFIDENCE (subject_of ctx)
                                    (evidence @ [(''attribution'', PStr ''foreign'')])
                              | None \<Rightarrow>
                                  image_fact False ABSENT_CONFIDENCE (subject_of ctx)
                                    [(''events_seen'', PInt (int (length events)))])))
               })
   }"

definition image_pull_evaluate :: "pydict \<Rightarrow> Fact list option" where
  "image_pull_evaluate ctx = single (image_pull_raw ctx)"

definition ImagePullRule :: diag_rule where
  "ImagePullRule = make_rule ''ImagePullRule'' [''k8s_events'', ''k8s_summary'', ''logs_summary''] image_pull_evaluate"

section \<open>ContainerConfigRule\<close>

definition name_char :: "char \<Rightarrow> bool" where
  "name_char c \<longleftrightarrow> word_char c \<or> c = CHR ''.'' \<or> c = CHR ''-''"

definition MISSING_KEY_RE :: regex where
  "MISSING_KEY_RE = seqs [lit ''couldn'', opt (lit [CHR 0x27]), lit ''t find key'', spaces1,
     Group 1 (many1 (Chars (\<lambda>c. \<not> ch_space c))), spaces1, lit ''in'', spaces1,
     Group 2 (Either (lit ''secret'') (lit ''configmap'')), spaces1,
     Group 3 (many1 (Chars (\<lambda>c. name_char c \<or> c = CHR ''/'')))]"

definition MISSING_OBJECT_RE :: regex where
  "MISSING_OBJECT_RE = seqs [WordEdge,
     Group 1 (Either (Then (lit ''secret'') (opt (lit ''s''))) (Then (lit ''configmap'') (opt (lit ''s'')))), spaces1,
     lit [CHR 0x22], Group 2 (many1 (Chars name_char)), lit [CHR 0x22], spaces1, lit ''not found'']"

definition CONFIG_TEXT_RE :: regex where
  "CONFIG_TEXT_RE = Either (lit ''createcontainerconfigerror'')
     (seqs [lit ''couldn'', opt (lit [CHR 0x27]), lit ''t find key'', spaces1, many1 (Chars (\<lambda>c. \<not> ch_space c)),
        spaces1, lit ''in'', spaces1, Either (lit ''secret'') (lit ''configmap'')])"

definition is_config_event :: "pydict \<Rightarrow> bool option" where
  "is_config_event ev = do {
     reason \<leftarrow> text_or_empty ev ''reason'';
     if lower reason = ''createcontainerconfigerror'' then Some True
     else if lower reason \<noteq> ''failed'' then Some False
     else do {
       message \<leftarrow> text_or_empty ev ''message'';
       Some (searches MISSING_KEY_RE message \<or> searches MISSING_OBJECT_RE message \<or>
             contains (lower message) ''createcontainerconfigerror'')
     }
   }"

definition object_kind :: "string \<Rightarrow> string" where
  "object_kind raw = (if startswith (lower raw) ''configmap'' then ''configmap'' else ''secret'')"

definition after_slash :: "string \<Rightarrow> string" where
  "after_slash s = last (split_on (\<lambda>c. c = CHR ''/'') s)"

definition add_missing_key ::
  "string list \<times> string option \<times> string option \<Rightarrow> found_match \<Rightarrow> string list \<times> string option \<times> string option" where
  "add_missing_key acc m = (case acc of (keys, kind, name) \<Rightarrow>
     (if group_text 1 m \<in> set keys then keys else keys @ [group_text 1 m],
      str_or kind (Some (object_kind (group_text 2 m))),
      str_or name (Some (after_slash (group_text 3 m)))))"

definition py_opt :: "string option \<Rightarrow> pyval" where
  "py_opt s = (case s of None \<Rightarrow> PNone | Some t \<Rightarrow> PStr t)"

definition parse_config_error :: "string \<Rightarrow> pydict" where
  "parse_config_error text =
     (case foldl add_missing_key ([], None, None) (finditer MISSING_KEY_RE text) of (keys, kind, name) \<Rightarrow>
        (case search MISSING_OBJECT_RE text of
           None \<Rightarrow> [(''object_kind'', py_opt kind), (''object_name'', py_opt name),
                    (''missing_keys'', PList (map PStr (take 10 keys))), (''missing_object'', PBool False)]
         | Some m \<Rightarrow>
             [(''object_kind'', py_opt (str_or kind (Some (object_kind (group_text 1 m))))),
              (''object_name'', py_opt (str_or name (Some (group_text 2 m)))),
              (''missing_keys'', PList (map PStr (take 10 keys))), (''missing_object'', PBool True)]))"

definition config_fact :: "bool \<Rightarrow> pyfloat \<Rightarrow> string option \<Rightarrow> pydict \<Rightarrow> Fact" where
  "config_fact = raw_fact ''ContainerConfigRule'' ''container_config''"

text \<open>The events of one attribution, joined; \<open>e\<close> is the first of them.\<close>

definition config_events_fact :: "string option \<Rightarrow> bool \<Rightarrow> pydict list \<Rightarrow> Fact option" where
  "config_events_fact subject verified events = do {
     messages \<leftarrow> map_opt (\<lambda>e. text_or_empty e ''message'') events;
     reason \<leftarrow> text_or_empty (hd events) ''reason'';
     counts \<leftarrow> map_opt count_of events;
     (let evidence = [(''source'', PStr ''k8s_event''), (''reason'', PStr reason), (''count'', PInt (sum_list counts)),
            (''object'', PStr (event_object (hd events)))] @ parse_config_error (join newline messages)
      in Some (known_fact (config_fact True
           (if verified then CONFIDENCE_OF_EVENT else halved CONFIDENCE_OF_EVENT)
           (str_or (Some (event_object (hd events))) subject)
           (if verified then evidence else evidence @ [(''attribution'', PStr ''unverified'')]))
           ''observed'' ''k8s_event''))
   }"

text \<open>\<open>str(ctx.get(k) or "")\<close>\<close>

definition text_of :: "pydict \<Rightarrow> string \<Rightarrow> string" where
  "text_of ctx k = (if truthy (dget ctx k) then py_str (dget ctx k) else '''')"

definition config_text_fact :: "pydict \<Rightarrow> int \<Rightarrow> Fact" where
  "config_text_fact ctx hits =
     config_fact True (if has_label (target_of ctx) then FFin 85 (- 2) else halved (FFin 85 (- 2))) (subject_of ctx)
       ([(''source'', PStr ''k8s_text''), (''phrase_hits'', PInt hits)] @
        parse_config_error (join newline [text_of ctx ''description'', text_of ctx ''k8s_summary'',
          text_of ctx ''logs_summary'']))"

definition config_absent_fact :: "pydict \<Rightarrow> pydict list \<Rightarrow> int \<Rightarrow> Fact option" where
  "config_absent_fact ctx foreign events_seen =
     (case foreign of
        ev # _ \<Rightarrow>
          map_option (\<lambda>message. config_fact False FOREIGN_CONFIDENCE (subject_of ctx)
            ([(''source'', PStr ''k8s_event''), (''attribution'', PStr ''foreign''),
              (''object'', PStr (event_object ev))] @ parse_config_error message))
            (text_or_empty ev ''message'')
      | [] \<Rightarrow> Some (config_fact False ABSENT_CONFIDENCE (subject_of ctx) [(''events_seen'', PInt events_seen)]))"

definition of_class :: "Attribution \<Rightarrow> (Attribution \<times> pydict) list \<Rightarrow> pydict list" where
  "of_class a xs = map snd (filter (\<lambda>(b, _). b = a) xs)"

definition container_config_raw :: "pydict \<Rightarrow> Fact option" where
  "container_config_raw ctx = do {
     events \<leftarrow> items_of ctx ''k8s_events'';
     grouped \<leftarrow> filter_opt (\<lambda>(_, ev). is_config_event ev) (classify_events events (target_of ctx));
     (if of_class SCOPED grouped \<noteq> [] then config_events_fact (subject_of ctx) True (of_class SCOPED grouped)
             else if of_class UNVERIFIED grouped \<noteq> []
             then config_events_fact (subject_of ctx) False (of_class UNVERIFIED grouped)
             else do {
               text \<leftarrow> text_haystack ctx;
               (let hits = count_matches text CONFIG_TEXT_RE in
                if hits \<noteq> 0 then Some (config_text_fact ctx hits)
                else config_absent_fact ctx (of_class FOREIGN grouped) (int (length events)))
             })
   }"

definition container_config_evaluate :: "pydict \<Rightarrow> Fact list option" where
  "container_config_evaluate ctx = single (container_config_raw ctx)"

definition ContainerConfigRule :: diag_rule where
  "ContainerConfigRule =
     make_rule ''ContainerConfigRule'' [''k8s_events'', ''k8s_summary'', ''logs_summary''] container_config_evaluate"

end
