(* ===== verification/Text_Rules.thy ===== *)
theory Text_Rules
  imports Rule_Base
begin

text \<open>
  The rules over the text of an incident: \<open>rules/crashloop.py\<close>, \<open>rules/failed_scheduling.py\<close>,
  \<open>rules/resource_pressure.py\<close>, \<open>rules/db_permission.py\<close>, \<open>rules/migration_failed.py\<close> and
  \<open>rules/orleans_membership.py\<close>. The alternatives of the Orleans patterns that are written in Cyrillic
  are left out: no text of the model contains those letters. The note of the chronic Orleans fact, in Cyrillic too, is
  one word.
\<close>

section \<open>CrashLoopBackOffRule\<close>

definition CRASHLOOP_PATTERN :: regex where
  "CRASHLOOP_PATTERN = alts [lit ''crashloopbackoff'', lit ''back-off restarting failed container'',
     lit ''liveness probe failed'']"

definition RESTART_COUNT_PATTERN :: regex where
  "RESTART_COUNT_PATTERN = seqs [lit ''restart'', opt (Either (lit ''s'') (Then spaces (lit ''count''))), spaces,
     one_of '':='', spaces, Group 1 digits1]"

definition BACKOFF_EVENT_REASONS :: "string list" where
  "BACKOFF_EVENT_REASONS = [''BackOff'', ''CrashLoopBackOff'']"

definition recent_backoff :: "pydict \<Rightarrow> bool option" where
  "recent_backoff ev = do {
     message \<leftarrow> text_or_empty ev ''message'';
     pull \<leftarrow> is_image_pull_backoff ev;
     Some (\<not> pull \<and> ((case dget ev ''reason'' of PStr r \<Rightarrow> r \<in> set BACKOFF_EVENT_REASONS | _ \<Rightarrow> False) \<or>
             contains (lower message) ''back-off restarting''))
   }"

definition recent_backoff_events :: "pyval list \<Rightarrow> pydict list option" where
  "recent_backoff_events events = filter_opt recent_backoff (dict_events events)"

definition crashloop_fact :: "bool \<Rightarrow> pyfloat \<Rightarrow> string option \<Rightarrow> pydict \<Rightarrow> Fact" where
  "crashloop_fact = raw_fact ''CrashLoopBackOffRule'' ''crashloop''"

definition crashloop_raw :: "pydict \<Rightarrow> Fact option" where
  "crashloop_raw ctx = do {
     text \<leftarrow> text_haystack ctx;
     restarts \<leftarrow> map_opt (\<lambda>m. int_of_digits (group_text 1 m)) (finditer RESTART_COUNT_PATTERN text);
     events \<leftarrow> items_of ctx ''k8s_events'';
     backoff \<leftarrow> recent_backoff_events events;
     (let hits = count_matches text CRASHLOOP_PATTERN;
          max_restarts = foldl max 0 restarts in
        Some (
          if 1 \<le> hits \<or> backoff \<noteq> [] then
            crashloop_fact True (if 1 \<le> hits then FFin 9 (- 1) else FFin 8 (- 1)) (target_of ctx)
              [(''phrase_hits'', PInt hits), (''recent_backoff_events'', PInt (int (length backoff))),
               (''max_restart_count'', PInt max_restarts)]
          else crashloop_fact False (FFin 85 (- 2)) (target_of ctx) [(''max_restart_count'', PInt max_restarts)]))
   }"
definition crashloop_evaluate :: "pydict \<Rightarrow> Fact list option" where
  "crashloop_evaluate ctx = single (crashloop_raw ctx)"


definition CrashLoopBackOffRule :: diag_rule where
  "CrashLoopBackOffRule =
     make_rule ''CrashLoopBackOffRule'' [''k8s_events'', ''k8s_summary'', ''logs_summary''] crashloop_evaluate"

section \<open>FailedSchedulingRule\<close>

definition SCHEDULING_PATTERN :: regex where
  "SCHEDULING_PATTERN = alts [lit ''failedscheduling'', seqs [lit ''0/'', digits1, lit '' nodes are available''],
     seqs [lit ''insufficient '', Either (lit ''cpu'') (lit ''memory'')],
     seqs [lit ''taint'', dots_lazy, lit ''untolerated''],
     seqs [lit ''didn'', opt (lit [CHR 0x27]), lit ''t match'', dots_lazy, lit ''affinity''],
     lit ''untolerated taint'']"

definition scheduling_cause :: "string \<Rightarrow> string" where
  "scheduling_cause text =
     (if searches (lit ''insufficient cpu'') text then ''insufficient_cpu''
      else if searches (lit ''insufficient memory'') text then ''insufficient_memory''
      else if searches (lit ''taint'') text then ''taint_mismatch''
      else if searches (lit ''affinity'') text then ''affinity_mismatch''
      else ''unknown'')"

definition scheduling_fact :: "bool \<Rightarrow> pyfloat \<Rightarrow> string option \<Rightarrow> pydict \<Rightarrow> Fact" where
  "scheduling_fact = raw_fact ''FailedSchedulingRule'' ''failed_scheduling''"

definition failed_scheduling_raw :: "pydict \<Rightarrow> Fact option" where
  "failed_scheduling_raw ctx = do {
     text \<leftarrow> text_haystack ctx;
     (let hits = count_matches text SCHEDULING_PATTERN in
        Some (
          if hits = 0 then scheduling_fact False (FFin 85 (- 2)) (ctx_label ctx ''namespace'') []
          else scheduling_fact True (FFin 9 (- 1)) (ctx_label ctx ''namespace'')
                 [(''hits'', PInt hits), (''cause'', PStr (scheduling_cause text))]))
   }"
definition failed_scheduling_evaluate :: "pydict \<Rightarrow> Fact list option" where
  "failed_scheduling_evaluate ctx = single (failed_scheduling_raw ctx)"


definition FailedSchedulingRule :: diag_rule where
  "FailedSchedulingRule =
     make_rule ''FailedSchedulingRule'' [''k8s_summary'', ''logs_summary''] failed_scheduling_evaluate"

section \<open>ResourcePressureRule\<close>

definition PRESSURE_PATTERN :: regex where
  "PRESSURE_PATTERN = alts (map lit [''memorypressure'', ''diskpressure'', ''pidpressure'', ''nodenotready'',
     ''high cpu usage'', ''high memory usage'', ''throttling''])"

definition pressure_types :: "string \<Rightarrow> bool \<Rightarrow> bool \<Rightarrow> string list" where
  "pressure_types text cpu_high mem_high =
     (let memory = searches (alts (map lit [''memorypressure'', ''high memory'', ''memory_pressure''])) text;
          types = (if memory then [''memory''] else []) @
            (if searches (lit ''diskpressure'') text then [''disk''] else []) @
            (if searches (lit ''pidpressure'') text then [''pid''] else []) @
            (if searches (alts (map lit [''high cpu'', ''cpu_pressure'', ''throttling''])) text \<or> cpu_high
             then [''cpu''] else [])
      in if mem_high \<and> \<not> memory then types @ [''memory''] else types)"

definition pressure_fact :: "bool \<Rightarrow> pyfloat \<Rightarrow> string option \<Rightarrow> pydict \<Rightarrow> Fact" where
  "pressure_fact = raw_fact ''ResourcePressureRule'' ''resource_pressure''"

definition resource_pressure_raw :: "pydict \<Rightarrow> Fact option" where
  "resource_pressure_raw ctx = do {
     text \<leftarrow> text_haystack ctx;
     metrics \<leftarrow> mapping_of ctx ''metrics_summary'';
     (let hits = count_matches text PRESSURE_PATTERN;
          cpu_high = truthy (dget metrics ''cpu_pressure'');
          mem_high = truthy (dget metrics ''memory_pressure'');
          types = sorted_set (pressure_types text cpu_high mem_high) in
        Some (
          if hits = 0 \<and> \<not> cpu_high \<and> \<not> mem_high
          then pressure_fact False (FFin 75 (- 2)) (ctx_label ctx ''namespace'') []
          else pressure_fact True (if 0 < hits then FFin 8 (- 1) else FFin 6 (- 1)) (ctx_label ctx ''namespace'')
                 [(''types'', PList (map PStr (if types = [] then [''unknown''] else types))), (''hits'', PInt hits)]))
   }"
definition resource_pressure_evaluate :: "pydict \<Rightarrow> Fact list option" where
  "resource_pressure_evaluate ctx = single (resource_pressure_raw ctx)"


definition ResourcePressureRule :: diag_rule where
  "ResourcePressureRule = make_rule ''ResourcePressureRule'' [''metrics_summary'', ''k8s_summary'', ''logs_summary'']
     resource_pressure_evaluate"

section \<open>DbPermissionRule\<close>

definition name_dot :: "char \<Rightarrow> bool" where
  "name_dot c \<longleftrightarrow> word_char c \<or> c = CHR ''.''"

definition name_dot_dash :: "char \<Rightarrow> bool" where
  "name_dot_dash c \<longleftrightarrow> word_char c \<or> c = CHR ''.'' \<or> c = CHR ''-''"

definition quote_opt :: regex where "quote_opt = opt (lit [CHR 0x22])"

definition DENIED_FOR :: regex where
  "DENIED_FOR = seqs [lit ''permission denied for '', Group 1 (alts (map lit [''table'', ''schema'', ''sequence'',
     ''relation'', ''database'', ''function'', ''view''])), spaces1, quote_opt, Group 2 (many1 (Chars name_dot)), quote_opt]"

definition DENIED_TO :: regex where
  "DENIED_TO = Then (lit ''permission denied to '') (Group 1 (many1 (Chars word_char)))"

definition MUST_BE_OWNER :: regex where
  "MUST_BE_OWNER = seqs [lit ''must be owner of '', Group 1 (alts (map lit [''table'', ''relation'', ''schema'',
     ''sequence'', ''database'', ''function'', ''view''])), spaces1, quote_opt, Group 2 (many1 (Chars name_dot)), quote_opt]"

definition INSUFFICIENT :: regex where
  "INSUFFICIENT = Either (seqs [lit ''insufficient'', one_of ''_ '', lit ''privilege''])
     (seqs [lit ''sqlstate'', spaces, opt (one_of '':=''), spaces, lit ''42501''])"

definition ROLE_MISSING :: regex where
  "ROLE_MISSING = seqs [lit ''role'', spaces1, quote_opt, Group 1 (many1 (Chars name_dot_dash)), quote_opt, spaces1,
     lit ''does not exist'']"

definition AUTH_FAILED :: regex where
  "AUTH_FAILED = seqs [lit ''password authentication failed for user'', spaces1, quote_opt,
     Group 1 (many1 (Chars name_dot_dash)), quote_opt]"

definition SUBTYPE_CONF :: "(string \<times> pyfloat) list" where
  "SUBTYPE_CONF = [(''grants'', FFin 9 (- 1)), (''role_missing'', FFin 9 (- 1)), (''auth'', FFin 85 (- 2))]"

definition UNATTRIBUTED_CONFIDENCE :: pyfloat where
  "UNATTRIBUTED_CONFIDENCE = FFin 45 (- 2)"

definition db_objects :: "string \<Rightarrow> string list" where
  "db_objects text = sorted_set (map (\<lambda>m. lower (group_text 1 m) @ '' '' @ group_text 2 m)
     (finditer DENIED_FOR text @ finditer MUST_BE_OWNER text))"

definition groups1 :: "regex \<Rightarrow> string \<Rightarrow> string list" where
  "groups1 r text = map (group_text 1) (finditer r text)"

definition py_list :: "string list \<Rightarrow> pyval" where
  "py_list xs = PList (map PStr xs)"

text \<open>The subtypes found, in the order of the source, each with its details.\<close>

definition db_found :: "string \<Rightarrow> (string \<times> (string \<times> string list) list) list" where
  "db_found text =
     (let objects = db_objects text;
          operations = sorted_set (map lower (groups1 DENIED_TO text));
          roles = sorted_set (groups1 ROLE_MISSING text);
          users = sorted_set (groups1 AUTH_FAILED text) in
      (if objects \<noteq> [] \<or> operations \<noteq> [] \<or> searches INSUFFICIENT text
       then [(''grants'', [(''objects'', take 3 objects), (''operations'', take 3 operations)])] else []) @
      (if roles \<noteq> [] then [(''role_missing'', [(''roles'', take 3 roles)])] else []) @
      (if users \<noteq> [] then [(''auth'', [(''users'', take 3 users)])] else []))"

definition db_fact :: "bool \<Rightarrow> pyfloat \<Rightarrow> string option \<Rightarrow> pydict \<Rightarrow> Fact" where
  "db_fact = raw_fact ''DbPermissionRule'' ''db_permission''"

definition service_subject :: "pydict \<Rightarrow> string option" where
  "service_subject ctx =
     str_or (str_or (ctx_label ctx ''service'') (ctx_label ctx ''pod'')) (ctx_label ctx ''namespace'')"

definition db_found_fact :: "pydict \<Rightarrow> (string \<times> (string \<times> string list) list) list \<Rightarrow> Fact" where
  "db_found_fact ctx found =
     (case find (\<lambda>(s, _). s \<in> set (map fst found)) SUBTYPE_CONF of
        None \<Rightarrow> db_fact False (FFin 6 (- 1)) (service_subject ctx) []
      | Some (subtype, conf) \<Rightarrow>
          db_fact True (if has_label (target_of ctx) then conf else conf_min conf UNATTRIBUTED_CONFIDENCE)
            (service_subject ctx)
            ([(''subtype'', PStr subtype), (''subtypes'', py_list (sort (map fst found)))] @
             (if has_label (target_of ctx) then [] else [(''attribution'', PStr ''unverified'')]) @
             map (\<lambda>(k, v). (k, py_list v)) (filter (\<lambda>(k, v). v \<noteq> []) (concat (map snd found)))))"

definition DB_SOURCES :: "string list" where "DB_SOURCES = [''k8s_summary'', ''logs_summary'']"

text \<open>What a rule without material answers: an unknown fact if a source failed, nothing otherwise.\<close>

definition not_scanned :: "string \<Rightarrow> string \<Rightarrow> string list \<Rightarrow> pydict \<Rightarrow> Fact list option" where
  "not_scanned rule kind sources ctx =
     (let failed = failed_of sources ctx in
      if failed = [] then Some []
      else map_option (\<lambda>f. [f]) (option_of
             (fact_unknown kind (failed_reason failed) (service_subject ctx) (Some rule) None None [])))"

definition db_permission_evaluate :: "pydict \<Rightarrow> Fact list option" where
  "db_permission_evaluate ctx = do {
     text \<leftarrow> text_haystack ctx;
     if db_found text \<noteq> [] then single (Some (db_found_fact ctx (db_found text)))
     else if \<not> truthy (dget ctx ''logs_summary'') \<and> \<not> truthy (dget ctx ''k8s_summary'')
     then not_scanned ''DbPermissionRule'' ''db_permission'' DB_SOURCES ctx
     else single (Some (db_fact False (FFin 6 (- 1)) (service_subject ctx)
              [(''note'', PStr ''no permission/auth errors in scanned logs/snapshot'')]))
   }"

definition DbPermissionRule :: diag_rule where
  "DbPermissionRule = make_rule ''DbPermissionRule'' DB_SOURCES db_permission_evaluate"

section \<open>MigrationFailedRule\<close>

definition DIRTY_VERSION :: regex where
  "DIRTY_VERSION = seqs [lit ''dirty database version'', spaces, Group 1 digits1]"

definition DIRTY_FLAG :: regex where
  "DIRTY_FLAG = seqs [lit ''schema_migrations'', Lazy (Some 80) (Chars dot), lit ''dirty'', spaces, one_of ''=:'',
     spaces, Either (lit ''true'') (lit ''t''), WordEdge]"

definition MIGRATION_ERROR :: regex where
  "MIGRATION_ERROR = Group 1 (alts [seqs [lit ''migration'', spaces1, lit ''failed''],
     Then (lit ''failed to run migration'') (opt (lit ''s'')), lit ''alembic.util.exc.commanderror'',
     lit ([CHR ''c'', CHR ''a'', CHR ''n'', CHR 0x27] @ ''t locate revision'')])"

definition ORLEANS_FIELD :: regex where
  "ORLEANS_FIELD = seqs [lit ''field not found in row:'', spaces, Group 1 (many1 (Chars name_dot))]"

definition MISSING_SCHEMA_OBJECT :: regex where
  "MISSING_SCHEMA_OBJECT = seqs [WordEdge, Group 1 (Either (lit ''column'') (lit ''relation'')), spaces1, quote_opt,
     Group 2 (many1 (Chars name_dot)), quote_opt, spaces1, lit ''does not exist'']"

definition MIGRATION_CONF :: "(string \<times> pyfloat) list" where
  "MIGRATION_CONF = [(''dirty'', FFin 95 (- 2)), (''migrate_job'', FFin 9 (- 1)), (''migration_error'', FFin 85 (- 2)),
     (''orleans_column'', FFin 85 (- 2)), (''schema_mismatch_after_deploy'', FFin 75 (- 2)),
     (''schema_mismatch'', FFin 55 (- 2))]"

record migrate_job =
  mj_job :: string
  mj_reason :: string
  mj_related :: bool

definition text_value :: "pydict \<Rightarrow> string \<Rightarrow> string" where
  "text_value d k = (if truthy (dget d k) then py_str (dget d k) else '''')"

definition migrate_event :: "pydict \<Rightarrow> migrate_job option" where
  "migrate_event ev =
     (let obj = event_object ev; reason = text_value ev ''reason''; message = lower (text_value ev ''message'') in
      if \<not> contains (lower obj) ''migrat'' then None
      else if contains (lower reason) ''backofflimitexceeded'' \<or> contains (lower reason) ''deadlineexceeded'' \<or>
        contains message ''backofflimitexceeded''
      then Some \<lparr>mj_job = obj, mj_reason = reason, mj_related = False\<rparr>
      else if contains (lower reason) ''imagepullbackoff'' \<or> contains (lower reason) ''errimagepull'' \<or>
        contains message ''imagepullbackoff''
      then Some \<lparr>mj_job = obj, mj_reason = reason, mj_related = True\<rparr>
      else None)"

definition migrate_job_signal :: "pydict list \<Rightarrow> migrate_job option" where
  "migrate_job_signal events =
     (case List.map_filter migrate_event events of [] \<Rightarrow> None | j # _ \<Rightarrow> Some j)"

text \<open>\<open>(v or 0) > 0\<close> of a counter.\<close>

definition positive_count :: "pyval \<Rightarrow> bool option" where
  "positive_count v = (if \<not> truthy v then Some False else map_option (\<lambda>n. 0 < n) (as_int v))"

definition kg_job_failed :: "pydict \<Rightarrow> bool option" where
  "kg_job_failed j =
     (if truthy (dget j ''status'')
      then Some (dget j ''status'' = PStr ''failed'' \<or> dget j ''status'' = PStr ''retrying'')
      else map_option (\<lambda>b. b \<and> \<not> truthy (dget j ''succeeded'')) (positive_count (dget j ''failed'')))"

definition kg_migrate_job :: "pyval \<Rightarrow> migrate_job option option" where
  "kg_migrate_job v =
     (case v of
        PDict j \<Rightarrow>
          if \<not> truthy (dget j ''migrate'') \<or> truthy (dget j ''state_after_as_of'') then Some None
          else map_option (\<lambda>failed. if \<not> failed then None
                 else Some \<lparr>mj_job = text_value j ''name'',
                   mj_reason = (if dget j ''status'' = PStr ''retrying'' then ''Retrying'' else ''Failed'') @
                     (if dget j ''exit_code'' = PNone then '''' else '' exit_code='' @ py_str (dget j ''exit_code'')),
                   mj_related = False\<rparr>) (kg_job_failed j)
      | _ \<Rightarrow> Some None)"

definition kg_migrate_job_signal :: "pyval list \<Rightarrow> migrate_job option option" where
  "kg_migrate_job_signal jobs = first_some kg_migrate_job jobs"

text \<open>The signals in the text and the jobs, with their evidence.\<close>

definition migration_signals :: "pydict \<Rightarrow> string \<Rightarrow> migrate_job option \<Rightarrow> (string \<times> pydict) list" where
  "migration_signals ctx text job =
     (let versions = groups1 DIRTY_VERSION text;
          fields = groups1 ORLEANS_FIELD text;
          missing = finditer MISSING_SCHEMA_OBJECT text;
          after_deploy = truthy (dget ctx ''recent_deployments'') in
      (if versions \<noteq> [] \<or> searches DIRTY_FLAG text
       then [(''dirty'', (''dirty'', PBool True) # (case versions of [] \<Rightarrow> [] | v # _ \<Rightarrow> [(''version'', PStr v)]))]
       else []) @
      (case job of
         None \<Rightarrow> []
       | Some j \<Rightarrow> [(''migrate_job'', [(''job'', PStr (mj_job j)), (''job_reason'', PStr (mj_reason j))] @
             (if mj_related j then [(''related'', PStr ''image_pull'')] else []))]) @
      (case search MIGRATION_ERROR text of
         None \<Rightarrow> []
       | Some m \<Rightarrow> [(''migration_error'', [(''error'', PStr (take 60 (group_text 1 m)))])]) @
      (if fields \<noteq> [] then [(''orleans_column'', [(''missing_fields'', py_list (take 3 (sorted_set fields)))])] else []) @
      (if missing \<noteq> []
       then [(if after_deploy then ''schema_mismatch_after_deploy'' else ''schema_mismatch'',
              [(''missing_objects'', py_list (take 3 (sorted_set
                  (map (\<lambda>m. lower (group_text 1 m) @ '' '' @ group_text 2 m) missing)))),
               (''after_recent_deploy'', PBool after_deploy)])]
       else []))"

definition migration_attribution :: "string option \<Rightarrow> migrate_job option \<Rightarrow> string list \<Rightarrow> string" where
  "migration_attribution target job signals =
     (case target of
        None \<Rightarrow> ''unverified''
      | Some t \<Rightarrow>
          if t = [] then ''unverified''
          else (case job of
                  Some j \<Rightarrow> if mj_job j \<noteq> [] \<and> signals = [''migrate_job''] \<and> \<not> same_workload (mj_job j) t
                            then ''foreign'' else ''scoped''
                | None \<Rightarrow> ''scoped''))"

definition max_conf :: "string list \<Rightarrow> pyfloat" where
  "max_conf signals =
     foldl (\<lambda>acc s. case map_of MIGRATION_CONF s of
                      Some c \<Rightarrow> if conf_val acc < conf_val c then c else acc | None \<Rightarrow> acc) (FFin 0 0) signals"

definition migration_fact :: "bool \<Rightarrow> pyfloat \<Rightarrow> string option \<Rightarrow> pydict \<Rightarrow> Fact" where
  "migration_fact = raw_fact ''MigrationFailedRule'' ''migration_failed''"

definition migration_found_fact :: "pydict \<Rightarrow> migrate_job option \<Rightarrow> (string \<times> pydict) list \<Rightarrow> Fact" where
  "migration_found_fact ctx job found =
     (let signals = map fst found; a = migration_attribution (target_of ctx) job signals in
      migration_fact True
        (if a = ''scoped'' then max_conf signals else conf_min (max_conf signals) UNATTRIBUTED_CONFIDENCE)
        (service_subject ctx)
        ([(''signals'', py_list signals)] @ concat (map snd found) @
         (if a = ''scoped'' then [] else [(''attribution'', PStr a)])))"

definition MIGRATION_SOURCES :: "string list" where
  "MIGRATION_SOURCES = [''k8s_events'', ''k8s_summary'', ''logs_summary'', ''kg_jobs'']"

definition migration_failed_evaluate :: "pydict \<Rightarrow> Fact list option" where
  "migration_failed_evaluate ctx = do {
     text \<leftarrow> text_haystack ctx;
     raw_events \<leftarrow> items_of ctx ''k8s_events'';
     job \<leftarrow> (case migrate_job_signal (dict_events raw_events) of
               Some j \<Rightarrow> Some (Some j)
             | None \<Rightarrow> do {
                 jobs \<leftarrow> items_of ctx ''kg_jobs'';
                 kg_migrate_job_signal jobs
               });
     (let found = migration_signals ctx text job in
      if found \<noteq> [] then single (Some (migration_found_fact ctx job found))
      else if \<not> truthy (dget ctx ''logs_summary'') \<and> \<not> truthy (dget ctx ''k8s_summary'') \<and>
        dict_events raw_events = [] \<and> \<not> truthy (dget ctx ''kg_jobs'')
      then not_scanned ''MigrationFailedRule'' ''migration_failed'' MIGRATION_SOURCES ctx
      else single (Some (migration_fact False (FFin 6 (- 1)) (service_subject ctx)
               [(''note'', PStr ''no migration signals in scanned logs/snapshot/events'')])))
   }"

definition MigrationFailedRule :: diag_rule where
  "MigrationFailedRule = make_rule ''MigrationFailedRule'' MIGRATION_SOURCES migration_failed_evaluate"

section \<open>OrleansMembershipRule\<close>

definition ORLEANS_RE :: regex where
  "ORLEANS_RE = alts (map lit [''orleans'', ''membership'', ''silo''])"

definition DEAD_RE :: regex where
  "DEAD_RE = alts [seqs [lit ''status'', spaces, lit ''='', spaces, lit ''6''],
     seqs [WordEdge, lit ''dead'', WordEdge], lit ''defunct'', lit ''zombie'']"

definition FRESH_TEXT_RE :: regex where
  "FRESH_TEXT_RE = alts
     [seqs [lit ''silo'', spaces1, nonspaces, spaces, opt (Then (lit ''is'') spaces1), lit ''not'', spaces1, lit ''active''],
      lit ''siloUnavailable'',
      seqs [Either (lit ''not'') (lit ''no longer''), spaces1, opt (Then (lit ''found'') spaces1), lit ''in'', spaces1,
        opt (Then (lit ''the'') spaces1), lit ''membership''],
      lit ''syncmapsourceeffects'', lit ''orleansmessagerejection'',
      seqs [lit ''target silo '', dots, lit '' '', Either (lit ''dead'') (lit ''unavailable'')]]"

definition QUORUM_RE :: regex where "QUORUM_RE = lit ''quorum''"

definition HEALTH_FLOORS :: "(string \<times> rat) list" where
  "HEALTH_FLOORS = [(''orleans_pings_missed_rate'', 1 / 2), (''orleans_messaging_fault_rate'', 1),
     (''orleans_timedout_rate'', 1 / 2)]"

text \<open>\<open>splitlines\<close> without the empty lines, in which no pattern matches.\<close>

definition line_break :: "char \<Rightarrow> bool" where
  "line_break c = (let n = (of_char c :: int) in 10 \<le> n \<and> n \<le> 13 \<or> 28 \<le> n \<and> n \<le> 30 \<or> n = 133)"

definition text_lines :: "string \<Rightarrow> string list" where
  "text_lines s = filter (\<lambda>l. l \<noteq> []) (split_on line_break s)"

definition dead_record_lines :: "string \<Rightarrow> string list" where
  "dead_record_lines text = map strip (filter (\<lambda>l. searches ORLEANS_RE l \<and> searches DEAD_RE l) (text_lines text))"

definition fresh_in :: "string \<Rightarrow> string list" where
  "fresh_in text = map fm_text (finditer FRESH_TEXT_RE text) @
     concat (map (\<lambda>l. map fm_text (finditer QUORUM_RE l)) (filter (searches ORLEANS_RE) (text_lines text)))"

definition fresh_event_hits :: "pyval list \<Rightarrow> string option \<Rightarrow> Attribution \<Rightarrow> string list" where
  "fresh_event_hits events target a =
     concat (map (\<lambda>ev. fresh_in (text_value ev ''reason'' @ '' '' @ text_value ev ''message''))
       (filter (\<lambda>ev. attribution (event_object ev) target = a) (dict_events events)))"

definition membership_growth :: "pydict \<Rightarrow> (int \<times> int) option" where
  "membership_growth ctx =
     (case dget ctx ''orleans_membership'' of
        PDict m \<Rightarrow>
          (case (dget m ''dead_now'', dget m ''dead_before'') of
             (PInt n, PInt b) \<Rightarrow> if b < n then Some (n, b) else None
           | _ \<Rightarrow> None)
      | _ \<Rightarrow> None)"

definition as_float :: "pyval \<Rightarrow> pyval" where
  "as_float v =
     (case v of
        PInt i \<Rightarrow> PFloat (norm_float i 0)
      | PBool b \<Rightarrow> PFloat (if b then FFin 1 0 else FFin 0 0)
      | _ \<Rightarrow> v)"

definition spiking :: "pydict \<Rightarrow> pydict \<Rightarrow> pydict \<Rightarrow> string \<Rightarrow> rat \<Rightarrow> bool" where
  "spiking latest deltas baseline metric floor_value =
     (case as_num (dget latest metric) of
        None \<Rightarrow> False
      | Some v \<Rightarrow> \<not> nlt v floor_value \<and>
          (as_num (dget baseline metric) = Some (NFin 0) \<or>
           (case as_num (dget deltas metric) of Some d \<Rightarrow> nge d 50 | None \<Rightarrow> False)))"

definition health_spikes :: "pydict \<Rightarrow> pydict option" where
  "health_spikes ctx =
     (case dget ctx ''orleans_health'' of
        PDict health \<Rightarrow>
          if \<not> truthy (dget health ''present'') then Some []
          else do {
            latest \<leftarrow> mapping_of health ''latest'';
            deltas \<leftarrow> mapping_of health ''deltas_pct'';
            baseline \<leftarrow> mapping_of health ''baseline'';
            Some (map (\<lambda>(metric, _). (metric, as_float (dget latest metric)))
              (filter (\<lambda>(metric, floor_value). spiking latest deltas baseline metric floor_value) HEALTH_FLOORS))
          }
      | _ \<Rightarrow> Some [])"

definition orleans_fact :: "bool \<Rightarrow> pyfloat \<Rightarrow> string option \<Rightarrow> pydict \<Rightarrow> Fact" where
  "orleans_fact seen conf subject evidence =
     known_fact (raw_fact ''OrleansMembershipRule'' ''orleans_membership_degraded'' seen conf subject evidence)
       ''observed'' ''orleans_membership''"

definition orleans_found :: "string option \<Rightarrow> bool \<Rightarrow> string list \<Rightarrow> string list \<Rightarrow> string list \<Rightarrow>
    (int \<times> int) option \<Rightarrow> pydict \<Rightarrow> bool \<Rightarrow> Fact" where
  "orleans_found subject strong signals unverified foreign growth spikes dead =
     orleans_fact True (if strong then FFin 8 (- 1) else FFin 4 (- 1)) subject
       [(''fresh_signals'', py_list (take 5 (sorted_set (map lower signals)))),
        (''unverified_events'', PInt (int (length unverified))),
        (''foreign_events_ignored'', PInt (int (length foreign))),
        (''dead_records_growth'', (case growth of None \<Rightarrow> PNone
            | Some (n, b) \<Rightarrow> PDict [(''dead_now'', PInt n), (''dead_before'', PInt b)])),
        (''health_spikes'', PDict spikes), (''dead_records_mentioned'', PBool dead)]"

definition orleans_chronic :: "string option \<Rightarrow> Fact" where
  "orleans_chronic subject =
     orleans_fact False (FFin 7 (- 1)) subject
       [(''chronic'', PBool True), (''background'', PStr ''dead_silo_records''), (''note'', PStr ''background'')]"

definition orleans_evaluate :: "pydict \<Rightarrow> Fact list option" where
  "orleans_evaluate ctx = do {
     text \<leftarrow> text_haystack ctx;
     events \<leftarrow> items_of ctx ''k8s_events'';
     spikes \<leftarrow> health_spikes ctx;
     (let dead = dead_record_lines text;
          fresh = fresh_in text;
          hits = fresh_event_hits events (target_of ctx);
          growth = membership_growth ctx;
          strong = (fresh \<noteq> [] \<or> hits SCOPED \<noteq> [] \<or> growth \<noteq> None \<or> spikes \<noteq> []) in
      if strong \<or> hits UNVERIFIED \<noteq> [] then
        single (Some (orleans_found (ctx_label ctx ''service'') strong (fresh @ hits SCOPED @ hits UNVERIFIED)
               (hits UNVERIFIED) (hits FOREIGN) growth spikes (dead \<noteq> [])))
      else if dead \<noteq> [] then single (Some (orleans_chronic (ctx_label ctx ''service'')))
      else Some [])
   }"

definition OrleansMembershipRule :: diag_rule where
  "OrleansMembershipRule = make_rule ''OrleansMembershipRule''
     [''k8s_summary'', ''logs_summary'', ''k8s_events'', ''orleans_membership'', ''orleans_health''] orleans_evaluate"

end
