(* ===== verification/Rules.thy ===== *)
theory Rules
  imports State_Rules Start_Rules Text_Rules Alert_Dedup
begin

text \<open>
  The two rules over the graph (\<open>rules/upstream_degraded.py\<close>, \<open>rules/recent_deploy.py\<close>), the list
  \<open>DEFAULT_RULES\<close> of \<open>rules/__init__.py\<close>, and what holds of the facts of a diagnostic run with it.
\<close>

section \<open>UpstreamDegradedRule\<close>

definition window_of :: "pydict \<Rightarrow> string \<Rightarrow> int option" where
  "window_of ctx k = as_int (dget ctx k)"

definition graph_fact :: "Fact \<Rightarrow> Verdict \<Rightarrow> string \<Rightarrow> string \<Rightarrow> int option \<Rightarrow> Fact" where
  "graph_fact f verdict epistemic provenance window_min =
     (known_fact f epistemic provenance)\<lparr>fc_verdict := verdict_value verdict, fc_window_min := window_min\<rparr>"

definition upstream_entry :: "pyval \<Rightarrow> pyval option" where
  "upstream_entry v =
     map_option (\<lambda>a. PDict [(''service'', dget a ''service''), (''alertname'', dget a ''alertname''),
         (''minutes_before'', dget a ''minutes_before'')]) (as_dict v)"

definition upstream_fact :: "bool \<Rightarrow> pyfloat \<Rightarrow> string option \<Rightarrow> pydict \<Rightarrow> Fact" where
  "upstream_fact = raw_fact ''UpstreamDegradedRule'' ''upstream_degraded''"

definition upstream_evaluate :: "pydict \<Rightarrow> Fact list option" where
  "upstream_evaluate ctx =
     (let subject = ctx_label ctx ''service''; window_min = window_of ctx ''upstream_window_min'';
          problem = source_problem ctx ''upstream_alerts'' in
      if dget ctx ''upstream_alerts'' = PNone \<or> problem \<noteq> None then
        map_option (\<lambda>f. [f]) (option_of (fact_unknown ''upstream_degraded''
          (case problem of Some p \<Rightarrow> p | None \<Rightarrow> ''no_graph_data'') subject (Some ''UpstreamDegradedRule'')
          (Some ''kg_alerts/upstream'') window_min []))
      else do {
        alerts \<leftarrow> items_of ctx ''upstream_alerts'';
        entries \<leftarrow> map_opt upstream_entry alerts;
        single (Some (
          if alerts = [] then
            graph_fact (upstream_fact False (FFin 9 (- 1)) subject [(''upstreams_checked'', PInt 0)])
              ABSENT ''observed'' ''kg_alerts/upstream'' window_min
          else
            graph_fact (upstream_fact True (FFin 85 (- 2)) subject
                [(''count'', PInt (int (length alerts))), (''alerts'', PList entries)])
              FOUND ''observed'' ''kg_alerts/upstream'' window_min))
      })"

definition UpstreamDegradedRule :: diag_rule where
  "UpstreamDegradedRule = make_rule ''UpstreamDegradedRule'' [''upstream_alerts''] upstream_evaluate"

section \<open>RecentDeployRule\<close>

definition LOOKBACK_MINUTES :: int where "LOOKBACK_MINUTES = 60"
definition EXACT_CONFIDENCE :: pyfloat where "EXACT_CONFIDENCE = FFin 95 (- 2)"
definition BROADCAST_CONFIDENCE :: pyfloat where "BROADCAST_CONFIDENCE = FFin 6 (- 1)"

definition DEPLOY_KEYS :: "string list" where
  "DEPLOY_KEYS = [''name'', ''repo'', ''sha'', ''buildtype_id'', ''number'', ''triggered_by'', ''url'']"

text \<open>Times are microseconds since the epoch, UTC.\<close>

definition parse_ts_value :: "iso_time \<Rightarrow> pyval \<Rightarrow> int option" where
  "parse_ts_value clk v = (case v of PStr s \<Rightarrow> parse_ts clk s | _ \<Rightarrow> None)"

definition py_or :: "pyval \<Rightarrow> pyval \<Rightarrow> pyval" where
  "py_or a b = (if truthy a then a else b)"

definition deploy_entry :: "iso_time \<Rightarrow> int \<Rightarrow> pydict \<Rightarrow> pydict option" where
  "deploy_entry clk incident_at d =
     (case parse_ts_value clk (py_or (py_or (dget d ''ts'') (dget d ''finished_at'')) (dget d ''at'')) of
        None \<Rightarrow> None
      | Some d_ts \<Rightarrow>
          (let delta = incident_at - d_ts in
           if 0 \<le> delta \<and> delta \<le> LOOKBACK_MINUTES * 60 * 1000000 then
             Some (filter (\<lambda>(k, v). k \<in> set DEPLOY_KEYS) d @
               [(''scope'', py_or (dget d ''attribution_scope'') (PStr ''unknown'')),
                (''minutes_before_incident'', PInt (delta div 60000000))])
           else None))"

definition deploy_fact :: "bool \<Rightarrow> pyfloat \<Rightarrow> string option \<Rightarrow> pydict \<Rightarrow> Fact" where
  "deploy_fact = raw_fact ''RecentDeployRule'' ''recent_deploy''"

definition nearby_fact :: "string option \<Rightarrow> string \<Rightarrow> pydict list \<Rightarrow> Fact" where
  "nearby_fact subject provenance nearby =
     (let exact = filter (\<lambda>d. dget d ''scope'' = PStr ''service'') nearby;
          others = filter (\<lambda>d. dget d ''scope'' \<noteq> PStr ''service'') nearby;
          scope = (if exact \<noteq> [] then ''service'' else ''namespace'');
          evidence = [(''lookback_minutes'', PInt LOOKBACK_MINUTES), (''deploys'', PList (map PDict (exact @ others))),
            (''attribution'', PStr scope)]
      in graph_fact (deploy_fact True (if exact \<noteq> [] then EXACT_CONFIDENCE else BROADCAST_CONFIDENCE) subject
           (if exact \<noteq> [] then evidence else evidence @ [(''note'', PStr ''deploy recorded for the namespace, not attributed to this service -- the build may not have touched it'')]))
         FOUND (if exact \<noteq> [] then ''observed'' else ''inferred'') (provenance @ ''/'' @ scope)
         (Some LOOKBACK_MINUTES))"

definition deploy_unknown :: "pydict \<Rightarrow> string \<Rightarrow> string \<Rightarrow> Fact list option" where
  "deploy_unknown ctx provenance reason =
     map_option (\<lambda>f. [f]) (option_of (fact_unknown ''recent_deploy'' reason (ctx_label ctx ''service'')
       (Some ''RecentDeployRule'') (Some provenance) (Some LOOKBACK_MINUTES) []))"

definition recent_deploy_evaluate :: "iso_time \<Rightarrow> pydict \<Rightarrow> Fact list option" where
  "recent_deploy_evaluate clk ctx =
     (let provenance = (case str_or (ctx_label ctx ''deploy_provenance'') (Some ''kg_deployments'') of
                          Some p \<Rightarrow> p | None \<Rightarrow> '''') in
      case source_problem ctx ''recent_deployments'' of
        Some problem \<Rightarrow> deploy_unknown ctx provenance problem
      | None \<Rightarrow>
          (case parse_ts_value clk (dget ctx ''incident_starts_at'') of
             None \<Rightarrow> deploy_unknown ctx provenance ''no_incident_timestamp''
           | Some incident_at \<Rightarrow> do {
               raw \<leftarrow> items_of ctx ''recent_deployments'';
               deploys \<leftarrow> map_opt as_dict raw;
               (let nearby = List.map_filter (deploy_entry clk incident_at) deploys in
                 single (Some (
                    if nearby \<noteq> [] then nearby_fact (ctx_label ctx ''service'') provenance nearby
                    else graph_fact (deploy_fact False EXACT_CONFIDENCE (ctx_label ctx ''service'')
                        [(''lookback_minutes'', PInt LOOKBACK_MINUTES),
                         (''deploys_checked'', PInt (int (length deploys)))])
                      ABSENT ''observed'' provenance (Some LOOKBACK_MINUTES))))
             }))"

definition RecentDeployRule :: "iso_time \<Rightarrow> diag_rule" where
  "RecentDeployRule clk = make_rule ''RecentDeployRule'' [''recent_deployments''] (recent_deploy_evaluate clk)"

section \<open>The default rules\<close>

definition DEFAULT_RULES :: "iso_time \<Rightarrow> diag_rule list" where
  "DEFAULT_RULES clk = [OOMKilledRule, CrashLoopBackOffRule, FailedSchedulingRule, RecentDeployRule clk,
     ResourcePressureRule, UpstreamDegradedRule, PodEventsRule, ProcessCrashRule, MigrationFailedRule,
     DbPermissionRule, OrleansMembershipRule, ImagePullRule, ContainerConfigRule]"

section \<open>What every rule returns\<close>

definition unit_conf :: "pyfloat \<Rightarrow> bool" where
  "unit_conf c \<longleftrightarrow> (\<exists>m e. c = FFin m e \<and> 0 \<le> dec_val m e \<and> dec_val m e \<le> 1)"

text \<open>A fact as its rule may return it: well formed, signed by the rule, of a known kind.\<close>

definition rule_fact :: "string \<Rightarrow> Fact \<Rightarrow> bool" where
  "rule_fact name f \<longleftrightarrow>
     fact_wf f \<and> fc_source_rule f = Some name \<and> fc_kind f \<in> set FACT_KINDS \<and> unit_conf (fc_confidence f)"

definition returns_rule_facts :: "diag_rule \<Rightarrow> bool" where
  "returns_rule_facts r \<longleftrightarrow>
     (\<forall>ctx fs f. rl_evaluate r ctx = Some fs \<longrightarrow> Some f \<in> set fs \<longrightarrow> rule_fact (rl_name r) f)"

lemma unit_conf_consts [simp]:
  "unit_conf (FFin 98 (- 2))" "unit_conf (FFin 97 (- 2))" "unit_conf (FFin 95 (- 2))" "unit_conf (FFin 93 (- 2))"
  "unit_conf (FFin 9 (- 1))" "unit_conf (FFin 85 (- 2))" "unit_conf (FFin 8 (- 1))" "unit_conf (FFin 75 (- 2))"
  "unit_conf (FFin 7 (- 1))" "unit_conf (FFin 6 (- 1))" "unit_conf (FFin 55 (- 2))" "unit_conf (FFin 5 (- 1))"
  "unit_conf (FFin 45 (- 2))" "unit_conf (FFin 4 (- 1))" "unit_conf (FFin 0 0)"
  by (simp_all add: unit_conf_def dec_val_def)

lemma default_verdict_keeps [simp]:
  "fc_source_rule (default_verdict f) = fc_source_rule f" "fc_kind (default_verdict f) = fc_kind f"
  "fc_confidence (default_verdict f) = fc_confidence f"
  by (simp_all add: default_verdict_def)

lemma as_unknown_source [simp]: "fc_source_rule (as_unknown f) = fc_source_rule f"
  by (simp add: as_unknown_def Let_def)

lemma post_init_keeps:
  assumes "post_init raw = Inr f"
  shows "fact_wf f \<and> fc_source_rule f = fc_source_rule raw \<and> fc_kind f = fc_kind raw \<and>
     (fc_confidence f = fc_confidence raw \<or> fc_confidence f = FFin 0 0)"
proof -
  have "check_verdict (default_verdict raw) = Inr f"
    using assms by (auto simp: post_init_def rbind_eq_Inr dest: check_epistemic_Inr)
  then have "f = default_verdict raw \<or> f = as_unknown (default_verdict raw)"
    by (simp add: check_verdict_def split: if_splits)
  then show ?thesis using post_init_wf [OF assms] by auto
qed

lemma new_fact_rule_fact:
  assumes "new_fact raw = Some f" and "fc_source_rule raw = Some name" and "fc_kind raw \<in> set FACT_KINDS"
    and "unit_conf (fc_confidence raw)"
  shows "rule_fact name f"
proof -
  have "post_init raw = Inr f" using assms(1) by (simp add: new_fact_def option_of_def split: sum.splits)
  from post_init_keeps [OF this] assms(2-4) show ?thesis by (auto simp: rule_fact_def)
qed

lemma unknown_rule_fact:
  assumes "option_of (fact_unknown kind reason subject (Some name) prov win ev) = Some f" and "kind \<in> set FACT_KINDS"
  shows "rule_fact name f"
proof -
  have "fact_unknown kind reason subject (Some name) prov win ev = Inr f"
    using assms(1) by (simp add: option_of_def split: sum.splits)
  from post_init_keeps [OF this [unfolded fact_unknown_def]] assms(2) show ?thesis by (auto simp: rule_fact_def)
qed



text \<open>A fact as a rule hands it to the constructor.\<close>

definition raw_ok :: "string \<Rightarrow> Fact \<Rightarrow> bool" where
  "raw_ok name raw \<longleftrightarrow>
     fc_source_rule raw = Some name \<and> fc_kind raw \<in> set FACT_KINDS \<and> unit_conf (fc_confidence raw)"

lemma raw_ok_rule_fact: "new_fact raw = Some f \<Longrightarrow> raw_ok name raw \<Longrightarrow> rule_fact name f"
  unfolding raw_ok_def by (rule new_fact_rule_fact) auto

lemma single_rule_fact:
  "single m = Some fs \<Longrightarrow> f \<in> set fs \<Longrightarrow> (\<And>raw. m = Some raw \<Longrightarrow> raw_ok name raw) \<Longrightarrow> rule_fact name f"
  using single_Some raw_ok_rule_fact by blast

lemma returns_make_rule:
  assumes "\<And>ctx fs f. evaluate ctx = Some fs \<Longrightarrow> f \<in> set fs \<Longrightarrow> rule_fact name f"
  shows "returns_rule_facts (make_rule name sources evaluate)"
  using assms by (auto simp: returns_rule_facts_def make_rule_def)

lemma returns_single:
  assumes "\<And>ctx raw. m ctx = Some raw \<Longrightarrow> raw_ok name raw"
  shows "returns_rule_facts (make_rule name sources (\<lambda>ctx. single (m ctx)))"
  using assms by (intro returns_make_rule single_rule_fact)

lemma map_opt_mem: "map_opt g xs = Some ys \<Longrightarrow> y \<in> set ys \<Longrightarrow> \<exists>x\<in>set xs. g x = Some y"
  by (drule map_opt_Some) (auto simp: list_all2_conv_all_nth in_set_conv_nth, metis nth_mem)

lemma kinds_known [simp]:
  "''oom_killed'' \<in> set FACT_KINDS" "''crashloop'' \<in> set FACT_KINDS" "''failed_scheduling'' \<in> set FACT_KINDS"
  "''recent_deploy'' \<in> set FACT_KINDS" "''resource_pressure'' \<in> set FACT_KINDS"
  "''upstream_degraded'' \<in> set FACT_KINDS" "''process_crash'' \<in> set FACT_KINDS"
  "''migration_failed'' \<in> set FACT_KINDS" "''db_permission'' \<in> set FACT_KINDS"
  "''orleans_membership_degraded'' \<in> set FACT_KINDS" "''image_pull'' \<in> set FACT_KINDS"
  "''container_config'' \<in> set FACT_KINDS"
  by (simp_all add: FACT_KINDS_def)

lemma raw_ok_raw [simp]:
  "raw_ok name (raw_fact r k s c sub e) \<longleftrightarrow> r = name \<and> k \<in> set FACT_KINDS \<and> unit_conf c"
  by (auto simp: raw_ok_def)

lemma raw_ok_known [simp]:
  "raw_ok name (known_fact f ep p) \<longleftrightarrow> raw_ok name f"
  "raw_ok name (graph_fact f v ep p w) \<longleftrightarrow> raw_ok name f"
  "raw_ok name (f\<lparr>fc_evidence := e\<rparr>) \<longleftrightarrow> raw_ok name f"
  by (simp_all add: raw_ok_def graph_fact_def)

lemma oom_raw_ok: "oom_raw ctx = Some raw \<Longrightarrow> raw_ok ''OOMKilledRule'' raw"
proof -
  have s: "oom_state c = Some (Some raw) \<Longrightarrow> raw_ok ''OOMKilledRule'' raw" for c
    by (cases c) (auto simp: oom_state_def oom_fact_def elim!: bind_SomeE split: if_splits)
  have t: "raw_ok ''OOMKilledRule'' (oom_text pod h so)" for pod h so
    by (simp add: oom_text_def oom_fact_def UNATTRIBUTED_HARD_CONFIDENCE_def)
  show "oom_raw ctx = Some raw \<Longrightarrow> raw_ok ''OOMKilledRule'' raw"
    using s t by (auto simp: oom_raw_def oom_fact_def elim!: bind_SomeE split: option.splits if_splits
        dest!: first_some_Some)
qed


lemma crash_codes_conf: "map_of CRASH_EXIT_CODES code = Some (signal, conf) \<Longrightarrow> unit_conf conf"
  by (auto simp: CRASH_EXIT_CODES_def split: if_splits)

lemma process_crash_raw_ok: "process_crash_raw ctx = Some raw \<Longrightarrow> raw_ok ''ProcessCrashRule'' raw"
proof -
  have s: "crash_state c = Some (Some raw) \<Longrightarrow> raw_ok ''ProcessCrashRule'' raw" for c raw
    by (cases c) (auto simp: crash_state_def crash_fact_def Let_def crash_codes_conf elim!: bind_SomeE
        split: if_splits option.splits)
  have m: "crash_match m = Some (code, signal, conf) \<Longrightarrow> unit_conf conf" for m code signal conf
    by (auto simp: crash_match_def split: if_splits option.splits intro: crash_codes_conf)
  have t: "raw_ok ''ProcessCrashRule'' (crash_text pod hay)" for pod hay
  proof (cases "List.map_filter crash_match (finditer EXIT_CODE_PATTERN hay)")
    case (Cons x xs)
    then have "x \<in> set (List.map_filter crash_match (finditer EXIT_CODE_PATTERN hay))" by simp
    then obtain y where "crash_match y = Some x" by (auto simp: List.map_filter_def)
    with m Cons show ?thesis by (cases x) (simp add: crash_text_def crash_fact_def)
  qed (simp add: crash_text_def crash_fact_def)
  show "process_crash_raw ctx = Some raw \<Longrightarrow> raw_ok ''ProcessCrashRule'' raw"
    using s t by (auto simp: process_crash_raw_def elim!: bind_SomeE split: option.splits if_splits
        dest!: first_some_Some)
qed

lemma halved_consts [simp]:
  "halved (FFin 95 (- 2)) = FFin 475 (- 3)" "halved (FFin 9 (- 1)) = FFin 45 (- 2)"
  "halved (FFin 85 (- 2)) = FFin 425 (- 3)" "halved (FFin 8 (- 1)) = FFin 4 (- 1)"
  "halved (FFin 75 (- 2)) = FFin 375 (- 3)"
  by (simp_all add: halved_def norm_float.simps)

lemma unit_conf_halved [simp]:
  "unit_conf (FFin 475 (- 3))" "unit_conf (FFin 425 (- 3))" "unit_conf (FFin 375 (- 3))"
  by (simp_all add: unit_conf_def dec_val_def)

lemma reason_map_ok:
  "(kind, conf) \<in> snd ` set REASON_MAP \<Longrightarrow> kind \<in> set FACT_KINDS \<and> unit_conf conf \<and> unit_conf (halved conf) \<and>
     conf_val (halved conf) < 1 / 2"
  by (auto simp: REASON_MAP_def dec_val_def)

lemma image_pull_raw_ok: "image_pull_raw ctx = Some raw \<Longrightarrow> raw_ok ''ImagePullRule'' raw"
  by (auto simp: image_pull_raw_def pull_event_fact_def pull_text_fact_def image_fact_def CONFIDENCE_OF_EVENT_def
      FOREIGN_CONFIDENCE_def ABSENT_CONFIDENCE_def Let_def elim!: bind_SomeE split: option.splits if_splits)

lemma container_config_raw_ok: "container_config_raw ctx = Some raw \<Longrightarrow> raw_ok ''ContainerConfigRule'' raw"
  by (auto simp: container_config_raw_def config_events_fact_def config_text_fact_def config_absent_fact_def
      config_fact_def CONFIDENCE_OF_EVENT_def FOREIGN_CONFIDENCE_def ABSENT_CONFIDENCE_def Let_def
      elim!: bind_SomeE split: option.splits if_splits list.splits)

lemma crashloop_raw_ok: "crashloop_raw ctx = Some raw \<Longrightarrow> raw_ok ''CrashLoopBackOffRule'' raw"
  by (auto simp: crashloop_raw_def crashloop_fact_def Let_def elim!: bind_SomeE split: if_splits)

lemma failed_scheduling_raw_ok: "failed_scheduling_raw ctx = Some raw \<Longrightarrow> raw_ok ''FailedSchedulingRule'' raw"
  by (auto simp: failed_scheduling_raw_def scheduling_fact_def Let_def elim!: bind_SomeE split: if_splits)

lemma resource_pressure_raw_ok: "resource_pressure_raw ctx = Some raw \<Longrightarrow> raw_ok ''ResourcePressureRule'' raw"
  by (auto simp: resource_pressure_raw_def pressure_fact_def Let_def elim!: bind_SomeE split: if_splits)

lemma conf_min_unit: "unit_conf a \<Longrightarrow> unit_conf b \<Longrightarrow> unit_conf (conf_min a b)"
  by (simp add: conf_min_def)

lemma db_found_ok: "raw_ok ''DbPermissionRule'' (db_found_fact ctx found)"
  by (auto simp: db_found_fact_def db_fact_def SUBTYPE_CONF_def UNATTRIBUTED_CONFIDENCE_def conf_min_unit
      split: option.splits if_splits)

lemma not_scanned_ok:
  "not_scanned rule kind sources ctx = Some fs \<Longrightarrow> f \<in> set fs \<Longrightarrow> kind \<in> set FACT_KINDS \<Longrightarrow> rule_fact rule f"
  by (auto simp: not_scanned_def Let_def split: if_splits intro: unknown_rule_fact)

lemma db_permission_ok: "db_permission_evaluate ctx = Some fs \<Longrightarrow> f \<in> set fs \<Longrightarrow> rule_fact ''DbPermissionRule'' f"
  by (auto simp: single_Some_iff db_permission_evaluate_def db_fact_def elim!: bind_SomeE split: if_splits)
    ((erule raw_ok_rule_fact | erule (1) not_scanned_ok | erule unknown_rule_fact), simp add: db_found_ok)+

lemma max_conf_unit: "unit_conf (max_conf signals)"
proof -
  have "unit_conf acc \<Longrightarrow> unit_conf (foldl (\<lambda>acc s. case map_of MIGRATION_CONF s of
      Some c \<Rightarrow> if conf_val acc < conf_val c then c else acc | None \<Rightarrow> acc) acc signals)" for acc
  proof (induction signals arbitrary: acc)
    case (Cons s signals)
    have "map_of MIGRATION_CONF s = Some c \<Longrightarrow> unit_conf c" for c
      by (auto simp: MIGRATION_CONF_def split: if_splits)
    with Cons show ?case by (auto split: option.split)
  qed simp
  then show ?thesis by (simp add: max_conf_def)
qed

lemma migration_ok: "migration_failed_evaluate ctx = Some fs \<Longrightarrow> f \<in> set fs \<Longrightarrow> rule_fact ''MigrationFailedRule'' f"
proof -
  have m: "raw_ok ''MigrationFailedRule'' (migration_found_fact ctx job found)" for job found
    by (simp add: migration_found_fact_def migration_fact_def Let_def max_conf_unit conf_min_unit
        UNATTRIBUTED_CONFIDENCE_def)
  show "migration_failed_evaluate ctx = Some fs \<Longrightarrow> f \<in> set fs \<Longrightarrow> rule_fact ''MigrationFailedRule'' f"
    by (auto simp: single_Some_iff migration_failed_evaluate_def migration_fact_def Let_def elim!: bind_SomeE
        split: if_splits) ((erule raw_ok_rule_fact | erule (1) not_scanned_ok | erule unknown_rule_fact), simp add: m)+
qed

lemma orleans_ok: "orleans_evaluate ctx = Some fs \<Longrightarrow> f \<in> set fs \<Longrightarrow> rule_fact ''OrleansMembershipRule'' f"
  by (auto simp: single_Some_iff orleans_evaluate_def orleans_found_def orleans_chronic_def orleans_fact_def Let_def
      elim!: bind_SomeE split: if_splits) (erule raw_ok_rule_fact, simp)+

lemma upstream_ok: "upstream_evaluate ctx = Some fs \<Longrightarrow> f \<in> set fs \<Longrightarrow> rule_fact ''UpstreamDegradedRule'' f"
  by (auto simp: single_Some_iff upstream_evaluate_def upstream_fact_def Let_def elim!: bind_SomeE split: if_splits)
    ((erule raw_ok_rule_fact | erule unknown_rule_fact), simp)+

lemma recent_deploy_ok: "recent_deploy_evaluate clk ctx = Some fs \<Longrightarrow> f \<in> set fs \<Longrightarrow> rule_fact ''RecentDeployRule'' f"
  by (auto simp: single_Some_iff recent_deploy_evaluate_def deploy_unknown_def nearby_fact_def deploy_fact_def EXACT_CONFIDENCE_def
      BROADCAST_CONFIDENCE_def Let_def elim!: bind_SomeE split: if_splits option.splits)
    ((erule raw_ok_rule_fact | erule unknown_rule_fact), simp)+

lemma reason_kinds: "kind \<in> set (rev (remdups (rev (map (\<lambda>(_, kind, _). kind) REASON_MAP)))) \<Longrightarrow> kind \<in> set FACT_KINDS"
  by (auto simp: REASON_MAP_def)

lemma pod_events_ok: "pod_events_evaluate ctx = Some fs \<Longrightarrow> f \<in> set fs \<Longrightarrow> rule_fact ''PodEventsRule'' f"
proof -
  assume e: "pod_events_evaluate ctx = Some fs" and f: "f \<in> set fs"
  obtain events where ev: "items_of ctx ''k8s_events'' = Some events"
    using e by (auto simp: pod_events_evaluate_def elim!: bind_SomeE)
  show "rule_fact ''PodEventsRule'' f"
  proof (cases "events = []")
    case True
    with e ev f show ?thesis
      by (auto simp del: set_rev set_remdups set_map simp: pod_events_evaluate_def split: option.splits
          dest!: map_opt_mem reason_kinds intro: unknown_rule_fact)
  next
    case False
    with e ev obtain best where b: "note_events (target_of ctx) (\<lambda>_. []) events = Some best"
      "map_opt new_fact (event_facts (subject_of ctx) best) = Some fs"
      by (auto simp: pod_events_evaluate_def elim!: bind_SomeE)
    from map_opt_mem [OF b(2) f] obtain raw where r: "raw \<in> set (event_facts (subject_of ctx) best)" "new_fact raw = Some f"
      by blast
    have ok: "x \<in> set (best a) \<Longrightarrow> entry_ok (target_of ctx) events a x" for a x
      using note_events_ok [OF b(1), of events] by auto
    have "raw_ok ''PodEventsRule'' raw"
      using r(1)
      by (cases rule: event_facts_mem)
        (auto dest!: ok reason_map_ok simp: entry_ok_def scoped_fact_def unverified_fact_def foreign_fact_def
          event_fact_def FOREIGN_OBJECT_CONFIDENCE_def)
    with r(2) show ?thesis using raw_ok_rule_fact by blast
  qed
qed


lemma default_rules_return:
  assumes "r \<in> set (DEFAULT_RULES clk)"
  shows "returns_rule_facts r"
  using assms oom_raw_ok process_crash_raw_ok image_pull_raw_ok container_config_raw_ok crashloop_raw_ok
    failed_scheduling_raw_ok resource_pressure_raw_ok db_permission_ok migration_ok orleans_ok upstream_ok
    recent_deploy_ok pod_events_ok
  unfolding DEFAULT_RULES_def
  by (auto simp: OOMKilledRule_def ProcessCrashRule_def ImagePullRule_def ContainerConfigRule_def
      CrashLoopBackOffRule_def FailedSchedulingRule_def ResourcePressureRule_def DbPermissionRule_def
      MigrationFailedRule_def OrleansMembershipRule_def UpstreamDegradedRule_def RecentDeployRule_def
      PodEventsRule_def oom_evaluate_def process_crash_evaluate_def image_pull_evaluate_def
      container_config_evaluate_def crashloop_evaluate_def failed_scheduling_evaluate_def
      resource_pressure_evaluate_def intro!: returns_make_rule elim!: single_rule_fact)

lemma default_rules_named: "r \<in> set (DEFAULT_RULES clk) \<Longrightarrow> rl_name r \<noteq> []"
  by (auto simp: DEFAULT_RULES_def OOMKilledRule_def ProcessCrashRule_def ImagePullRule_def ContainerConfigRule_def
      CrashLoopBackOffRule_def FailedSchedulingRule_def ResourcePressureRule_def DbPermissionRule_def
      MigrationFailedRule_def OrleansMembershipRule_def UpstreamDegradedRule_def RecentDeployRule_def
      PodEventsRule_def make_rule_def)

text \<open>What \<open>run\<close> adds to \<open>evaluate\<close>: an absence that passes means that every source answered.\<close>

lemma rule_run_fact:
  assumes "returns_rule_facts r" and "rl_name r \<noteq> []" and "rule_run r ctx = Inr fs" and "Some f \<in> set fs"
  shows "rule_fact (rl_name r) f \<and> (is_absent f \<longrightarrow> failed_sources r ctx = [])"
proof -
  obtain es where es: "rl_evaluate r ctx = Some es" "apply_source_status r ctx es = Inr fs"
    using assms(3) by (auto simp: rule_run_def split: option.splits)
  have ok: "Some e \<in> set es \<Longrightarrow> rule_fact (rl_name r) e" for e
    using assms(1) es(1) by (auto simp: returns_rule_facts_def)
  show ?thesis
  proof (cases "failed_sources r ctx = []")
    case True
    with es(2) assms(4) ok show ?thesis by (auto simp: apply_source_status_def)
  next
    case False
    then obtain reason where "rmap (demote (rl_name r) reason) es = Inr fs"
      using es(2) by (auto simp: apply_source_status_def Let_def)
    from rmap_mem [OF this assms(4)] obtain x where x: "x \<in> set es" "demote (rl_name r) reason x = Inr (Some f)"
      by blast
    obtain e where e: "x = Some e" using x(2) by (cases x) (simp_all add: demote_def)
    have re: "rule_fact (rl_name r) e" using ok x(1) e by simp
    show ?thesis
    proof (cases "is_absent e")
      case True
      have src: "fc_source_rule e = Some (rl_name r)" using re by (simp add: rule_fact_def)
      have "fact_unknown (fc_kind e) reason (fc_subject e) (Some (rl_name r)) (fc_provenance e) (fc_window_min e)
          (merge_dict [(''demoted_from'', PStr ''absent'')] (fc_evidence e)) = Inr f"
        using x(2) e True src assms(2) by (auto simp: demote_def rbind_eq_Inr)
      then have u: "option_of (fact_unknown (fc_kind e) reason (fc_subject e) (Some (rl_name r)) (fc_provenance e)
          (fc_window_min e) (merge_dict [(''demoted_from'', PStr ''absent'')] (fc_evidence e))) = Some f"
        and "is_unknown f"
        using fact_unknown_total [of "fc_kind e" reason "fc_subject e" "Some (rl_name r)" "fc_provenance e"
            "fc_window_min e" "merge_dict [(''demoted_from'', PStr ''absent'')] (fc_evidence e)"]
        by (auto simp: option_of_def)
      moreover have "rule_fact (rl_name r) f"
        using re by (intro unknown_rule_fact [OF u]) (simp add: rule_fact_def)
      ultimately have "rule_fact (rl_name r) f" and "is_unknown f" by simp_all
      then show ?thesis by (simp add: is_absent_def is_unknown_def)
    next
      case False
      with x(2) e re show ?thesis by (simp add: demote_def)
    qed
  qed
qed

text \<open>What the properties below say of a fact of a run with the default rules.\<close>

definition vouched :: "iso_time \<Rightarrow> pydict \<Rightarrow> Fact \<Rightarrow> bool" where
  "vouched clk ctx f \<longleftrightarrow> (\<exists>r\<in>set (DEFAULT_RULES clk). rule_fact (rl_name r) f \<and>
     (is_absent f \<longrightarrow> failed_sources r ctx = []))"

lemma cap_unit: "unit_conf c \<Longrightarrow> unit_conf (cap_confidence c)"
  by (simp add: cap_confidence_def)

lemma mark_conflict_vouched: "vouched clk ctx f \<Longrightarrow> vouched clk ctx (mark_conflict k f)"
  by (auto simp: vouched_def rule_fact_def is_absent_def mark_conflict_wf cap_unit)
    (auto simp: mark_conflict_def)

lemma run_vouched:
  assumes "f \<in> set (engine_run pairs (DEFAULT_RULES clk) ctx)"
  shows "vouched clk ctx f"
proof (rule engine_run_keeps [where P = "vouched clk ctx", OF _ _ assms])
  fix g assume "g \<in> set (collect (DEFAULT_RULES clk) ctx)"
  then obtain r fs where "r \<in> set (DEFAULT_RULES clk)" "rule_run r ctx = Inr fs" "Some g \<in> set fs"
    by (rule collect_mem)
  then show "vouched clk ctx g"
    unfolding vouched_def using rule_run_fact [OF default_rules_return default_rules_named] by blast
qed (rule mark_conflict_vouched)

section \<open>Attribution\<close>

text \<open>The constructor leaves an observed fact as it is.\<close>

lemma new_fact_observed:
  assumes "new_fact raw = Some f" and "fc_observed f"
  shows "fc_observed raw \<and> fc_evidence f = fc_evidence raw \<and> fc_subject f = fc_subject raw \<and>
    fc_confidence f = fc_confidence raw \<and> fc_kind f = fc_kind raw"
proof -
  have "check_verdict (default_verdict raw) = Inr f"
    using assms(1) by (auto simp: new_fact_def option_of_def post_init_def rbind_eq_Inr dest: check_epistemic_Inr
        split: sum.splits)
  with assms(2) show ?thesis
    by (auto simp: check_verdict_def default_verdict_def split: if_splits)
qed

lemma unknown_not_observed: "option_of (fact_unknown kind reason subject rule prov win ev) = Some f \<Longrightarrow> \<not> fc_observed f"
  using fact_unknown_total [of kind reason subject rule prov win ev]
    fact_unknown_wf [of kind reason subject rule prov win ev f]
  by (auto simp: option_of_def fact_wf_def is_unknown_def)

lemma note_pull_ok:
  assumes "note_pull best (a, ev) = Some best'"
    and "\<And>b k n e. best b = Some (k, n, e) \<Longrightarrow> P b e"
    and "\<And>e reason. dget e ''source'' = PStr ''k8s_event'' \<Longrightarrow> dget e ''object'' = PStr (event_object ev) \<Longrightarrow> text_or_empty ev ''reason'' = Some reason \<Longrightarrow>
      dget e ''reason'' = PStr reason \<Longrightarrow> P a e"
    and "best' b = Some (k, n, e)"
  shows "P b e"
  using assms by (auto simp: note_pull_def Let_def dget_def elim!: bind_SomeE split: if_splits option.splits)

lemma note_pulls_ok:
  assumes "note_pulls best xs = Some best'"
    and "\<And>b k n e. best b = Some (k, n, e) \<Longrightarrow> P b e"
    and "\<And>a ev e reason. (a, ev) \<in> set xs \<Longrightarrow> dget e ''source'' = PStr ''k8s_event'' \<Longrightarrow> dget e ''object'' = PStr (event_object ev) \<Longrightarrow>
      text_or_empty ev ''reason'' = Some reason \<Longrightarrow> dget e ''reason'' = PStr reason \<Longrightarrow> P a e"
    and "best' b = Some (k, n, e)"
  shows "P b e"
  using assms
proof (induction xs arbitrary: best)
  case (Cons x xs)
  obtain a ev where x: "x = (a, ev)" by (cases x)
  with Cons.prems(1) obtain mid where m: "note_pull best (a, ev) = Some mid" "note_pulls mid xs = Some best'"
    by (auto elim!: bind_SomeE)
  have "\<And>b k n e. mid b = Some (k, n, e) \<Longrightarrow> P b e"
    by (rule note_pull_ok [OF m(1)]) (use Cons.prems(2) Cons.prems(3) [of a ev] x in auto)
  with Cons.IH [OF m(2)] Cons.prems(3,4) show ?case by auto
qed simp

lemma classified:
  "(a, ev) \<in> set (classify_events events target) \<Longrightarrow> attribution (event_object ev) target = a \<and> PDict ev \<in> set events"
  by (auto simp: classify_events_def dict_events_def List.map_filter_def as_dict_Some)


text \<open>Rules that read a structured source, and what each fact of theirs is about.\<close>

definition structured :: "Fact \<Rightarrow> bool" where
  "structured f \<longleftrightarrow> dget (fc_evidence f) ''source'' = PStr ''k8s_event'' \<or>
     dget (fc_evidence f) ''source'' = PStr ''k8s_terminated_state''"

text \<open>What stands behind a fact from an event, and behind one from the state of a pod: an item of the workload of \<open>t\<close>.\<close>

definition event_backs :: "pydict \<Rightarrow> string \<Rightarrow> Fact \<Rightarrow> bool" where
  "event_backs ctx t f \<longleftrightarrow> (\<exists>events ev reason. items_of ctx ''k8s_events'' = Some events \<and> PDict ev \<in> set events \<and>
     same_workload (event_object ev) t \<and> fc_subject f = Some (event_object ev) \<and>
     dget (fc_evidence f) ''object'' = PStr (event_object ev) \<and>
     text_or_empty ev ''reason'' = Some reason \<and> dget (fc_evidence f) ''reason'' = PStr reason)"

definition state_backs :: "pydict \<Rightarrow> string \<Rightarrow> Fact \<Rightarrow> bool" where
  "state_backs ctx t f \<longleftrightarrow> (\<exists>st name info. mapping_of ctx ''k8s_pod_state'' = Some st \<and> (name, PDict info) \<in> set st \<and>
     same_workload name t \<and> fc_subject f = Some name \<and>
     dget (fc_evidence f) ''exit_code'' = dget info ''exit_code'')"

definition anchored :: "pydict \<Rightarrow> string \<Rightarrow> Fact \<Rightarrow> bool" where
  "anchored ctx t f \<longleftrightarrow> (fc_observed f \<longrightarrow> structured f \<longrightarrow> 1 / 2 \<le> conf_val (fc_confidence f) \<longrightarrow>
     (if dget (fc_evidence f) ''source'' = PStr ''k8s_event'' then event_backs ctx t f else state_backs ctx t f))"

lemma new_fact_anchored:
  assumes "new_fact raw = Some f" and "anchored ctx t raw"
  shows "anchored ctx t f"
  using assms(2) new_fact_observed [OF assms(1)]
  by (auto simp: anchored_def structured_def event_backs_def state_backs_def)

lemma single_anchored:
  assumes "single m = Some fs" and "f \<in> set fs" and "\<And>raw. m = Some raw \<Longrightarrow> anchored ctx t raw"
  shows "anchored ctx t f"
  using single_Some [OF assms(1,2)] assms(3) new_fact_anchored by blast

lemma state_candidates_item: "(name, v) \<in> set (state_candidates st target) \<Longrightarrow> (name, v) \<in> set st"
  by (auto simp: state_candidates_def dget_def has_key_def split: option.splits if_splits dest: map_of_SomeD)

lemma dget_entry [simp]: "dget ((k, v) # d) k' = (if k = k' then v else dget d k')" "dget [] k' = PNone"
  by (simp_all add: dget_def)

lemma dget_append: "dget (d @ e) k = (if has_key d k then dget d k else dget e k)"
  by (simp add: dget_def has_key_def map_add_def split: option.split)

lemma oom_text_plain: "\<not> structured (oom_text pod h so)"
  by (simp add: oom_text_def oom_fact_def structured_def)

lemma exit_code_of_Some: "exit_code_of info = Some (Some n) \<Longrightarrow> dget info ''exit_code'' = PInt n"
  by (cases "dget info ''exit_code''") (auto simp: exit_code_of_def)

lemma oom_raw_cases:
  assumes "oom_raw ctx = Some raw"
  obtains (state) st name info where "mapping_of ctx ''k8s_pod_state'' = Some st"
      "(name, PDict info) \<in> set (state_candidates st (target_of ctx))"
      "fc_subject raw = Some name" "dget (fc_evidence raw) ''source'' = PStr ''k8s_terminated_state''"
      "dget (fc_evidence raw) ''exit_code'' = dget info ''exit_code''"
  | (other) "\<not> fc_observed raw"
  | (words) h so where "raw = oom_text (target_of ctx) h so"
proof -
  obtain st exit hit where m: "mapping_of ctx ''k8s_pod_state'' = Some st"
    and h: "first_some oom_state (state_candidates st (target_of ctx)) = Some hit"
    and r: "(case hit of Some f \<Rightarrow> Some f
      | None \<Rightarrow> (case exit of
          Some code \<Rightarrow>
            if code \<noteq> 0 \<and> code \<noteq> 137 then
              Some (oom_fact False (FFin 9 (- 1)) (target_of ctx)
                [(''source'', PStr ''k8s_terminated_state''), (''exit_code'', PInt code),
                 (''note'', PStr ''non-OOM exit code; text matches suppressed'')])
            else map_option (\<lambda>text. oom_text (target_of ctx) (count_matches text HARD_PATTERN)
                   (count_matches text SOFT_PATTERN)) (text_haystack ctx)
        | None \<Rightarrow> map_option (\<lambda>text. oom_text (target_of ctx) (count_matches text HARD_PATTERN)
                   (count_matches text SOFT_PATTERN)) (text_haystack ctx))) = Some raw"
    using assms unfolding oom_raw_def by (elim bind_SomeE) blast
  show thesis
  proof (cases hit)
    case (Some f)
    then obtain c where "c \<in> set (state_candidates st (target_of ctx))" "oom_state c = Some (Some f)"
      using h first_some_Some by metis
    moreover obtain name v where c: "c = (name, v)" by (cases c)
    ultimately obtain info where "(name, PDict info) \<in> set (state_candidates st (target_of ctx))" "fc_subject f = Some name"
      "dget (fc_evidence f) ''source'' = PStr ''k8s_terminated_state''"
      "dget (fc_evidence f) ''exit_code'' = dget info ''exit_code''"
      by (auto simp: oom_state_def oom_fact_def as_dict_Some exit_code_of_Some elim!: bind_SomeE split: if_splits)
    with r Some state m show thesis by auto
  next
    case None
    with r have "\<not> fc_observed raw \<or> (\<exists>h so. raw = oom_text (target_of ctx) h so)"
      by (auto simp: oom_fact_def split: option.splits if_splits)
    with other words show thesis by blast
  qed
qed

lemma oom_anchored:
  assumes "oom_raw ctx = Some raw" and "target_of ctx = Some t" and "t \<noteq> []"
  shows "anchored ctx t raw"
  using assms(1)
proof (cases rule: oom_raw_cases)
  case (state st name info)
  with assms(2) state_candidates_mem [OF _ assms(3), of name "PDict info" st]
  show ?thesis by (auto simp: anchored_def state_backs_def dest: state_candidates_item)
qed (use oom_text_plain in \<open>auto simp: anchored_def\<close>)

lemma crash_text_plain: "\<not> structured (crash_text pod hay)"
  by (simp add: crash_text_def crash_fact_def structured_def split: list.split prod.split)

lemma process_crash_anchored:
  assumes "process_crash_raw ctx = Some raw" and "target_of ctx = Some t" and "t \<noteq> []"
  shows "anchored ctx t raw"
proof -
  obtain st hit where m: "mapping_of ctx ''k8s_pod_state'' = Some st"
    and h: "first_some crash_state (state_candidates st (Some t)) = Some hit"
    and r: "(case hit of
        Some f \<Rightarrow> Some (if truthy (dget ctx ''core_dump_node'')
              then f\<lparr>fc_evidence := dset (fc_evidence f) ''core_dump_node'' (dget ctx ''core_dump_node'')\<rparr> else f)
      | None \<Rightarrow> map_option (crash_text (target_of ctx)) (text_haystack ctx)) = Some raw"
    using assms(1) unfolding process_crash_raw_def assms(2) by (elim bind_SomeE) blast
  show ?thesis
  proof (cases hit)
    case (Some f)
    then obtain c where "c \<in> set (state_candidates st (Some t))" "crash_state c = Some (Some f)"
      using h first_some_Some by metis
    moreover obtain name v where c: "c = (name, v)" by (cases c)
    ultimately obtain info where i: "(name, PDict info) \<in> set (state_candidates st (Some t))" "fc_subject f = Some name"
      "dget (fc_evidence f) ''source'' = PStr ''k8s_terminated_state''"
      "dget (fc_evidence f) ''exit_code'' = dget info ''exit_code''"
      by (auto simp: crash_state_def crash_fact_def as_dict_Some Let_def elim!: bind_SomeE
          split: if_splits option.splits dest!: exit_code_of_Some)
    then have "state_backs ctx t raw" "dget (fc_evidence raw) ''source'' \<noteq> PStr ''k8s_event''"
      using r Some m state_candidates_mem [OF i(1) assms(3)] state_candidates_item [OF i(1)]
      by (auto simp: state_backs_def split: if_splits)
    then show ?thesis by (simp add: anchored_def)
  next
    case None
    with r have "\<not> structured raw" using crash_text_plain by auto
    then show ?thesis by (auto simp: anchored_def)
  qed
qed

lemma image_pull_anchored:
  assumes "image_pull_raw ctx = Some raw" and "target_of ctx = Some t"
  shows "anchored ctx t raw"
proof -
  obtain events best where ev: "items_of ctx ''k8s_events'' = Some events"
    and e: "note_pulls (\<lambda>_. None) (classify_events events (target_of ctx)) = Some best"
    and b: "pull_event_fact (subject_of ctx) best = Some raw \<or> \<not> fc_observed raw \<or> \<not> structured raw"
    using assms(1) by (auto simp: image_pull_raw_def pull_text_fact_def image_fact_def structured_def Let_def
        elim!: bind_SomeE split: option.splits if_splits)
  let ?P = "\<lambda>a e. dget e ''source'' = PStr ''k8s_event'' \<and> (\<exists>ev reason. PDict ev \<in> set events \<and> dget e ''object'' = PStr (event_object ev) \<and>
    text_or_empty ev ''reason'' = Some reason \<and> dget e ''reason'' = PStr reason \<and>
    attribution (event_object ev) (target_of ctx) = a)"
  have ok: "best a = Some (k, n, ev) \<Longrightarrow> ?P a ev" for a k n ev
    by (rule note_pulls_ok [OF e, where P = ?P]) (auto dest: classified)
  show ?thesis
  proof (cases "best SCOPED")
    case None
    with b show ?thesis
      by (auto simp: anchored_def pull_event_fact_def image_fact_def CONFIDENCE_OF_EVENT_def dec_val_def split: option.splits)
  next
    case (Some x)
    obtain k n e where x: "x = (k, n, e)" by (cases x)
    then obtain ev' reason where o': "PDict ev' \<in> set events" "dget e ''object'' = PStr (event_object ev')"
      "text_or_empty ev' ''reason'' = Some reason" "dget e ''reason'' = PStr reason"
      "attribution (event_object ev') (target_of ctx) = SCOPED"
      using ok Some by blast
    from attribution_scoped [OF o'(5)] assms(2) have "event_object ev' \<noteq> []" "same_workload (event_object ev') t" by auto
    moreover have "dget e ''source'' = PStr ''k8s_event''" using ok Some x by blast
    ultimately have "event_backs ctx t raw \<and> dget (fc_evidence raw) ''source'' = PStr ''k8s_event''"
      if "pull_event_fact (subject_of ctx) best = Some raw"
      using that Some x o' ev by (auto simp: event_backs_def pull_event_fact_def image_fact_def str_or_def)
    with b show ?thesis by (auto simp: anchored_def)
  qed
qed

lemma container_config_anchored:
  assumes "container_config_raw ctx = Some raw" and "target_of ctx = Some t"
  shows "anchored ctx t raw"
proof -
  obtain events grouped where ev: "items_of ctx ''k8s_events'' = Some events" and
    g: "filter_opt (\<lambda>(_, ev). is_config_event ev) (classify_events events (target_of ctx)) = Some grouped"
    and r: "(if of_class SCOPED grouped \<noteq> [] then config_events_fact (subject_of ctx) True (of_class SCOPED grouped)
       else if of_class UNVERIFIED grouped \<noteq> []
       then config_events_fact (subject_of ctx) False (of_class UNVERIFIED grouped)
       else do {
         text \<leftarrow> text_haystack ctx;
         (let hits = count_matches text CONFIG_TEXT_RE in
          if hits \<noteq> 0 then Some (config_text_fact ctx hits)
          else config_absent_fact ctx (of_class FOREIGN grouped) (int (length events)))
       }) = Some raw"
    using assms(1) unfolding container_config_raw_def by (elim bind_SomeE) blast
  have b: "of_class SCOPED grouped \<noteq> [] \<and>
        config_events_fact (subject_of ctx) True (of_class SCOPED grouped) = Some raw \<or>
      (\<exists>es. config_events_fact (subject_of ctx) False es = Some raw) \<or> \<not> fc_observed raw \<or> \<not> structured raw"
    using r by (auto simp: config_text_fact_def config_absent_fact_def config_fact_def structured_def dget_append
        has_key_def Let_def elim!: bind_SomeE split: if_splits list.splits)
  show ?thesis
  proof (cases "of_class SCOPED grouped = []")
    case True
    with b show ?thesis
      by (auto simp: anchored_def config_events_fact_def config_fact_def CONFIDENCE_OF_EVENT_def dec_val_def Let_def
          elim!: bind_SomeE)
  next
    case False
    let ?e = "hd (of_class SCOPED grouped)"
    have "?e \<in> set (of_class SCOPED grouped)" using False by simp
    then have "(SCOPED, ?e) \<in> set (classify_events events (target_of ctx))"
      using filter_opt_Some [OF g] by (auto simp: of_class_def)
    then have e: "attribution (event_object ?e) (target_of ctx) = SCOPED" "PDict ?e \<in> set events"
      by (auto dest: classified)
    from attribution_scoped [OF e(1)] assms(2) have "event_object ?e \<noteq> []" "same_workload (event_object ?e) t" by auto
    with e(2) ev have "event_backs ctx t raw \<and> dget (fc_evidence raw) ''source'' = PStr ''k8s_event''"
      if "config_events_fact (subject_of ctx) True (of_class SCOPED grouped) = Some raw"
      using that by (auto simp: config_events_fact_def config_fact_def event_backs_def str_or_def Let_def elim!: bind_SomeE)
    moreover have "\<not> 1 / 2 \<le> conf_val (fc_confidence raw)"
      if "config_events_fact (subject_of ctx) False es = Some raw" for es
      using that by (auto simp: config_events_fact_def config_fact_def CONFIDENCE_OF_EVENT_def dec_val_def Let_def
          elim!: bind_SomeE)
    ultimately show ?thesis using b by (auto simp: anchored_def)
  qed
qed

lemma pod_events_anchored:
  assumes "pod_events_evaluate ctx = Some fs" and "f \<in> set fs" and "target_of ctx = Some t"
  shows "anchored ctx t f"
proof -
  obtain events where ev: "items_of ctx ''k8s_events'' = Some events"
    using assms(1) by (auto simp: pod_events_evaluate_def elim!: bind_SomeE)
  show ?thesis
  proof (cases "events = []")
    case True
    with assms(1,2) ev show ?thesis
      by (auto simp del: set_rev set_remdups set_map simp: pod_events_evaluate_def anchored_def split: option.splits
          dest!: map_opt_mem unknown_not_observed)
  next
    case False
    with assms(1) ev obtain best where b: "note_events (target_of ctx) (\<lambda>_. []) events = Some best"
      "map_opt new_fact (event_facts (subject_of ctx) best) = Some fs"
      by (auto simp: pod_events_evaluate_def elim!: bind_SomeE)
    from map_opt_mem [OF b(2) assms(2)] obtain raw
      where r: "raw \<in> set (event_facts (subject_of ctx) best)" "new_fact raw = Some f" by blast
    have ok: "x \<in> set (best a) \<Longrightarrow> entry_ok (target_of ctx) events a x" for a x
      using note_events_ok [OF b(1), of events] by auto
    from r(1) have "anchored ctx t raw"
    proof (cases rule: event_facts_mem)
      case (scoped x)
      then obtain kind conf e ev' reason where x: "x = (kind, conf, e)" "dget e ''object'' = PStr (event_object ev')"
        "attribution (event_object ev') (target_of ctx) = SCOPED" "PDict ev' \<in> set events"
        "dget e ''source'' = PStr ''k8s_event''" "dget ev' ''reason'' = PStr reason" "dget e ''reason'' = PStr reason"
        using ok [of x SCOPED] by (auto simp: entry_ok_def)
      moreover have "text_or_empty ev' ''reason'' = Some reason"
        using x(6) by (simp add: text_or_empty_def)
      ultimately show ?thesis using attribution_scoped [OF x(3)] assms(3) scoped ev
        by (auto simp: anchored_def event_backs_def scoped_fact_def event_fact_def str_or_def)
    next
      case (unverified x)
      then show ?thesis using ok [of x UNVERIFIED]
        by (cases x) (auto simp: anchored_def unverified_fact_def event_fact_def entry_ok_def dest!: reason_map_ok)
    next
      case (foreign x)
      obtain kind conf e where "x = (kind, conf, e)" by (cases x) auto
      with foreign show ?thesis by (simp add: anchored_def foreign_fact_def event_fact_def)
    qed
    with r(2) show ?thesis by (rule new_fact_anchored)
  qed
qed


text \<open>Without a target, what is said from text or events stays below the threshold of the critic.\<close>

definition soft :: "Fact \<Rightarrow> bool" where
  "soft f \<longleftrightarrow> (fc_observed f \<longrightarrow> dget (fc_evidence f) ''source'' \<noteq> PStr ''k8s_terminated_state'' \<longrightarrow>
     conf_val (fc_confidence f) < 1 / 2)"

lemma new_fact_soft: "new_fact raw = Some f \<Longrightarrow> soft raw \<Longrightarrow> soft f"
  using new_fact_observed [of raw f] by (auto simp: soft_def)

lemma single_soft: "single m = Some fs \<Longrightarrow> f \<in> set fs \<Longrightarrow> (\<And>raw. m = Some raw \<Longrightarrow> soft raw) \<Longrightarrow> soft f"
  using single_Some new_fact_soft by blast

lemma unknown_soft: "option_of (fact_unknown kind reason subject rule prov win ev) = Some f \<Longrightarrow> soft f"
  by (drule unknown_not_observed) (simp add: soft_def)

lemma oom_soft:
  assumes "oom_raw ctx = Some raw" and "target_of ctx = None"
  shows "soft raw"
  using assms(1)
proof (cases rule: oom_raw_cases)
  case (words h so)
  with assms(2) show ?thesis
    by (simp add: soft_def oom_text_def oom_fact_def UNATTRIBUTED_HARD_CONFIDENCE_def dec_val_def)
qed (simp_all add: soft_def)

lemma image_pull_soft:
  assumes "image_pull_raw ctx = Some raw" and "target_of ctx = None"
  shows "soft raw"
proof -
  obtain events best where ev: "note_pulls (\<lambda>_. None) (classify_events events (target_of ctx)) = Some best"
    and r: "(case pull_event_fact (subject_of ctx) best of
               Some f \<Rightarrow> Some f
             | None \<Rightarrow> do {
                 text \<leftarrow> text_haystack ctx;
                 (let hits = count_matches text IMAGE_TEXT_RE in
                  Some (if hits \<noteq> 0 then pull_text_fact (target_of ctx) (subject_of ctx) text hits
                        else (case best FOREIGN of
                                Some (_, _, evidence) \<Rightarrow>
                                  image_fact False FOREIGN_CONFIDENCE (subject_of ctx)
                                    (evidence @ [(''attribution'', PStr ''foreign'')])
                              | None \<Rightarrow>
                                  image_fact False ABSENT_CONFIDENCE (subject_of ctx)
                                    [(''events_seen'', PInt (int (length events)))])))
               }) = Some raw"
    using assms(1) unfolding image_pull_raw_def by (elim bind_SomeE) blast
  have e: "note_pulls (\<lambda>_. None) (classify_events events None) = Some best"
    using ev assms(2) by simp
  have b: "pull_event_fact (subject_of ctx) best = Some raw \<or> \<not> fc_observed raw \<or>
      (\<exists>hay hits. raw = pull_text_fact None (subject_of ctx) hay hits)"
    using r assms(2)
    by (auto simp: image_fact_def Let_def elim!: bind_SomeE split: option.splits if_splits) blast+
  have "best a = Some (k, n, ev) \<Longrightarrow> a = UNVERIFIED" for a k n ev
    by (rule note_pulls_ok [OF e, where P = "\<lambda>a e. a = UNVERIFIED"])
      (auto dest: classified simp: attribution_no_target)
  then have "best SCOPED = None" by (metis Attribution.distinct(3) not_None_eq prod_cases3)
  with b show ?thesis
    by (auto simp: soft_def pull_event_fact_def pull_text_fact_def image_fact_def CONFIDENCE_OF_EVENT_def
        has_label_def dec_val_def split: option.splits)
qed

lemma container_config_soft:
  assumes "container_config_raw ctx = Some raw" and "target_of ctx = None"
  shows "soft raw"
proof -
  obtain events grouped where
    g: "filter_opt (\<lambda>(_, ev). is_config_event ev) (classify_events events (target_of ctx)) = Some grouped"
    and r: "(if of_class SCOPED grouped \<noteq> [] then config_events_fact (subject_of ctx) True (of_class SCOPED grouped)
       else if of_class UNVERIFIED grouped \<noteq> []
       then config_events_fact (subject_of ctx) False (of_class UNVERIFIED grouped)
       else do {
         text \<leftarrow> text_haystack ctx;
         (let hits = count_matches text CONFIG_TEXT_RE in
          if hits \<noteq> 0 then Some (config_text_fact ctx hits)
          else config_absent_fact ctx (of_class FOREIGN grouped) (int (length events)))
       }) = Some raw"
    using assms(1) unfolding container_config_raw_def by (elim bind_SomeE) blast
  have "of_class SCOPED grouped = []"
    using filter_opt_Some [OF g] assms(2)
    by (auto simp: of_class_def filter_empty_conv attribution_no_target dest: classified)
  with r assms(2) show ?thesis
    by (auto simp: soft_def config_events_fact_def config_text_fact_def config_absent_fact_def config_fact_def
        CONFIDENCE_OF_EVENT_def has_label_def dec_val_def Let_def elim!: bind_SomeE split: if_splits list.splits)
qed

lemma pod_events_soft:
  assumes "pod_events_evaluate ctx = Some fs" and "f \<in> set fs" and "target_of ctx = None"
  shows "soft f"
proof -
  obtain events where ev: "items_of ctx ''k8s_events'' = Some events"
    using assms(1) by (auto simp: pod_events_evaluate_def elim!: bind_SomeE)
  show ?thesis
  proof (cases "events = []")
    case True
    with assms(1,2) ev show ?thesis
      by (auto simp del: set_rev set_remdups set_map simp: pod_events_evaluate_def split: option.splits
          dest!: map_opt_mem unknown_soft)
  next
    case False
    with assms(1) ev obtain best where b: "note_events (target_of ctx) (\<lambda>_. []) events = Some best"
      "map_opt new_fact (event_facts (subject_of ctx) best) = Some fs"
      by (auto simp: pod_events_evaluate_def elim!: bind_SomeE)
    from map_opt_mem [OF b(2) assms(2)] obtain raw
      where r: "raw \<in> set (event_facts (subject_of ctx) best)" "new_fact raw = Some f" by blast
    have ok: "x \<in> set (best a) \<Longrightarrow> entry_ok (target_of ctx) events a x" for a x
      using note_events_ok [OF b(1), of events] by auto
    from r(1) have "soft raw"
    proof (cases rule: event_facts_mem)
      case (scoped x)
      then show ?thesis using ok [of x SCOPED] assms(3) by (auto simp: entry_ok_def attribution_no_target)
    next
      case (unverified x)
      then show ?thesis using ok [of x UNVERIFIED]
        by (cases x) (auto simp: soft_def unverified_fact_def event_fact_def entry_ok_def dest!: reason_map_ok)
    next
      case (foreign x)
      obtain kind conf e where "x = (kind, conf, e)" by (cases x) auto
      with foreign show ?thesis by (simp add: soft_def foreign_fact_def event_fact_def)
    qed
    with r(2) show ?thesis by (rule new_fact_soft)
  qed
qed

lemma conf_min_soft: "conf_val b < 1 / 2 \<Longrightarrow> conf_val (conf_min a b) < 1 / 2"
  using conf_min_le [of a b] by linarith

lemma unattributed_value: "conf_val UNATTRIBUTED_CONFIDENCE < 1 / 2"
  by (simp add: UNATTRIBUTED_CONFIDENCE_def dec_val_def)

lemma not_scanned_soft: "not_scanned rule kind sources ctx = Some fs \<Longrightarrow> f \<in> set fs \<Longrightarrow> soft f"
  by (auto simp: not_scanned_def Let_def split: if_splits dest: unknown_soft)

lemma db_permission_soft:
  assumes "db_permission_evaluate ctx = Some fs" and "f \<in> set fs" and "target_of ctx = None"
  shows "soft f"
proof -
  have s: "soft (db_found_fact ctx found)" for found
    using assms(3) conf_min_soft [OF unattributed_value]
    by (auto simp: soft_def db_found_fact_def db_fact_def has_label_def split: option.split)
  have a: "soft (db_fact False c sub e)" for c sub e
    by (simp add: soft_def db_fact_def)
  show ?thesis
    using assms(1,2)
    by (auto simp: single_Some_iff db_permission_evaluate_def elim!: bind_SomeE split: if_splits)
      ((erule new_fact_soft, simp only: s a) | (erule (1) not_scanned_soft))+
qed

lemma migration_soft:
  assumes "migration_failed_evaluate ctx = Some fs" and "f \<in> set fs" and "target_of ctx = None"
  shows "soft f"
proof -
  have s: "soft (migration_found_fact ctx job found)" for job found
    using assms(3) conf_min_soft [OF unattributed_value]
    by (simp add: soft_def migration_found_fact_def migration_fact_def migration_attribution_def Let_def)
  have a: "soft (migration_fact False c sub e)" for c sub e
    by (simp add: soft_def migration_fact_def)
  show ?thesis
    using assms(1,2)
    by (auto simp: single_Some_iff migration_failed_evaluate_def Let_def elim!: bind_SomeE split: if_splits)
      ((erule new_fact_soft, simp only: s a) | (erule (1) not_scanned_soft))+
qed

end
