(* ===== verification/Diagnosis.thy ===== *)
theory Diagnosis
  imports Rules
begin

text \<open>
  What holds of the facts of a diagnostic run with \<open>DEFAULT_RULES\<close>: their form, what an absence
  rests on, which workload a fact is about, how sure an unattributed fact may be, and that a pull
  which is retried is not taken for a crash loop.
\<close>

section \<open>Evaluating a rule\<close>

lemma evaluate_make_rule:
  "rl_evaluate (make_rule name sources evaluate) ctx = Some es \<Longrightarrow> Some f \<in> set es \<Longrightarrow>
     \<exists>fs. evaluate ctx = Some fs \<and> f \<in> set fs"
  by (auto simp: make_rule_def)

lemmas rule_defs = OOMKilledRule_def ProcessCrashRule_def PodEventsRule_def ImagePullRule_def
  ContainerConfigRule_def DbPermissionRule_def MigrationFailedRule_def CrashLoopBackOffRule_def

lemmas evaluate_defs = oom_evaluate_def process_crash_evaluate_def image_pull_evaluate_def
  container_config_evaluate_def crashloop_evaluate_def

lemma structured_rules_anchored:
  assumes "r \<in> {OOMKilledRule, ProcessCrashRule, PodEventsRule, ImagePullRule, ContainerConfigRule}"
    and "rl_evaluate r ctx = Some es" and "Some f \<in> set es" and "target_of ctx = Some t" and "t \<noteq> []"
  shows "anchored ctx t f"
  using assms unfolding rule_defs evaluate_defs
  by (auto dest!: evaluate_make_rule
      intro: single_anchored oom_anchored process_crash_anchored image_pull_anchored container_config_anchored
        pod_events_anchored)

lemma unattributed_rules_soft:
  assumes "r \<in> {OOMKilledRule, PodEventsRule, ImagePullRule, ContainerConfigRule, DbPermissionRule, MigrationFailedRule}"
    and "rl_evaluate r ctx = Some es" and "Some f \<in> set es" and "target_of ctx = None"
  shows "soft f"
  using assms unfolding rule_defs evaluate_defs
  by (auto dest!: evaluate_make_rule
      intro: single_soft oom_soft image_pull_soft container_config_soft pod_events_soft db_permission_soft
        migration_soft)

lemma crashloop_observed:
  assumes "crashloop_raw ctx = Some raw" and "fc_observed raw"
  shows "(\<exists>text. text_haystack ctx = Some text \<and> count_matches text CRASHLOOP_PATTERN \<noteq> 0) \<or>
    (\<exists>events ev. items_of ctx ''k8s_events'' = Some events \<and> PDict ev \<in> set events \<and>
       is_image_pull_backoff ev = Some False)"
proof -
  obtain events backoff where e: "items_of ctx ''k8s_events'' = Some events"
    "filter_opt recent_backoff (dict_events events) = Some backoff"
    and c: "(\<exists>text. text_haystack ctx = Some text \<and> count_matches text CRASHLOOP_PATTERN \<noteq> 0) \<or> backoff \<noteq> []"
    using assms
    by (auto simp: crashloop_raw_def recent_backoff_events_def crashloop_fact_def Let_def elim!: bind_SomeE
        split: if_splits)
  have "\<exists>ev. PDict ev \<in> set events \<and> is_image_pull_backoff ev = Some False" if b: "backoff \<noteq> []"
  proof -
    have "hd backoff \<in> set (dict_events events)" "recent_backoff (hd backoff) = Some True"
      using filter_opt_Some [OF e(2)] hd_in_set [OF b] by auto
    then show ?thesis
      by (auto simp: dict_events_def List.map_filter_def as_dict_Some recent_backoff_def elim!: bind_SomeE)
  qed
  with c e(1) show ?thesis by blast
qed

lemma pod_events_observed:
  assumes "pod_events_evaluate ctx = Some fs" and "f \<in> set fs" and "fc_observed f"
  shows "\<exists>events ev. items_of ctx ''k8s_events'' = Some events \<and> PDict ev \<in> set events \<and>
    is_image_pull_backoff ev = Some False"
proof -
  obtain events where ev: "items_of ctx ''k8s_events'' = Some events"
    using assms(1) by (auto simp: pod_events_evaluate_def elim!: bind_SomeE)
  show ?thesis
  proof (cases "events = []")
    case True
    with assms ev show ?thesis
      by (auto simp del: set_rev set_remdups set_map simp: pod_events_evaluate_def split: option.splits
          dest!: map_opt_mem unknown_not_observed)
  next
    case False
    with assms(1) ev obtain best where b: "note_events (target_of ctx) (\<lambda>_. []) events = Some best"
      "map_opt new_fact (event_facts (subject_of ctx) best) = Some fs"
      by (auto simp: pod_events_evaluate_def elim!: bind_SomeE)
    from map_opt_mem [OF b(2) assms(2)] obtain raw x a where "x \<in> set (best a)"
      by (auto elim: event_facts_mem)
    with note_events_ok [OF b(1), of events x a] ev show ?thesis by (cases x) (auto simp: entry_ok_def)
  qed
qed

section \<open>Properties\<close>

text \<open>
  C33. Every fact of a run with the default rules, whatever the context holds and in whatever order the
  interpreter takes the exclusive pairs, obeys the evidence contract: its verdict and its
  observed flag agree, an unknown one has confidence zero, its kind is one of
  \<open>FactKind\<close>, its confidence lies between 0 and 1, and it names the default rule that made it.
\<close>

theorem default_facts_wf:
  assumes "f \<in> set (engine_run pairs (DEFAULT_RULES clk) ctx)"
  shows "fact_wf f \<and> fc_kind f \<in> set FACT_KINDS \<and>
    (\<exists>m e. fc_confidence f = FFin m e \<and> 0 \<le> dec_val m e \<and> dec_val m e \<le> 1) \<and>
    (\<exists>r\<in>set (DEFAULT_RULES clk). fc_source_rule f = Some (rl_name r))"
  using run_vouched [OF assms] by (auto simp: vouched_def rule_fact_def unit_conf_def)

definition no_clock :: iso_time where
  "no_clock = \<lparr>fromisoformat = (\<lambda>s. None), isoformat = (\<lambda>n. [])\<rparr>"

theorem default_facts_wf_witness:
  "\<exists>f. f \<in> set (engine_run [] (DEFAULT_RULES no_clock) []) \<and> fact_wf f \<and> fc_kind f \<in> set FACT_KINDS"
proof -
  have "engine_run [] (DEFAULT_RULES no_clock) [] \<noteq> []" by code_simp
  then have "hd (engine_run [] (DEFAULT_RULES no_clock) []) \<in> set (engine_run [] (DEFAULT_RULES no_clock) [])"
    by simp
  with default_facts_wf [OF this] show ?thesis by blast
qed

text \<open>
  C34. A run claims that something is absent only when a default rule vouches for it with working eyes:
  the fact names a default rule and none of the sources of that rule is marked in
  \<open>source_status\<close>. A source that failed, timed out or was skipped never proves an absence.
\<close>

theorem absence_is_vouched:
  assumes "f \<in> set (engine_run pairs (DEFAULT_RULES clk) ctx)" and "is_absent f"
  shows "\<exists>r\<in>set (DEFAULT_RULES clk). fc_source_rule f = Some (rl_name r) \<and>
    (\<forall>src\<in>set (rl_sources r). source_problem ctx src = None)"
  using run_vouched [OF assms(1)] assms(2) by (auto simp: vouched_def rule_fact_def failed_sources_Nil)

definition lame_ctx :: pydict where
  "lame_ctx = [(''source_status'', PDict [(''k8s_pod_state'', PStr ''failed'')])]"

theorem absence_is_vouched_witness:
  "\<exists>f. f \<in> set (engine_run [] (DEFAULT_RULES no_clock) lame_ctx) \<and> is_absent f \<and>
    fc_source_rule f \<noteq> Some ''OOMKilledRule''"
proof -
  let ?fs = "engine_run [] (DEFAULT_RULES no_clock) lame_ctx"
  have "find is_absent ?fs \<noteq> None" by code_simp
  then obtain f where f: "f \<in> set ?fs" "is_absent f"
    by (metis find_None_iff)
  have p: "source_problem lame_ctx ''k8s_pod_state'' \<noteq> None"
    by (simp add: lame_ctx_def source_problem_def dget_def)
  obtain r where r: "r \<in> set (DEFAULT_RULES no_clock)" "fc_source_rule f = Some (rl_name r)"
    "\<forall>src\<in>set (rl_sources r). source_problem lame_ctx src = None"
    using absence_is_vouched [OF f] by blast
  have "rl_name r \<noteq> ''OOMKilledRule''"
  proof
    assume "rl_name r = ''OOMKilledRule''"
    then have "r = OOMKilledRule"
      using r(1) by (auto simp: DEFAULT_RULES_def make_rule_def CrashLoopBackOffRule_def FailedSchedulingRule_def
          RecentDeployRule_def ResourcePressureRule_def UpstreamDegradedRule_def PodEventsRule_def
          ProcessCrashRule_def MigrationFailedRule_def DbPermissionRule_def OrleansMembershipRule_def
          ImagePullRule_def ContainerConfigRule_def)
    with r(3) p show False by (simp add: OOMKilledRule_def make_rule_def)
  qed
  with f r(2) show ?thesis by auto
qed

text \<open>
  C35. What happened to another workload is not pinned on the pod of the alert by the rules over pod states and
  events that weigh attribution: \<open>OOMKilledRule\<close>, \<open>ProcessCrashRule\<close>, \<open>PodEventsRule\<close>, \<open>ImagePullRule\<close> and
  \<open>ContainerConfigRule\<close>. When one of them reports from such a source, with a confidence of one half or more,
  that something was observed, then the context holds what it reports: an event of the alert's workload, which the fact
  names as its subject and in its evidence, with the reason of that event; or the state of a pod of
  that workload, which is its subject, with the exit code of that state. \<open>CrashLoopBackOffRule\<close> is not
  among them: it counts the back-off events of every workload (\<open>crashloop_takes_foreign_events\<close>).
\<close>

theorem no_foreign_anchor:
  assumes "r \<in> {OOMKilledRule, ProcessCrashRule, PodEventsRule, ImagePullRule, ContainerConfigRule}"
    and "rl_evaluate r ctx = Some es" and "Some f \<in> set es"
    and "target_of ctx = Some t" and "t \<noteq> []"
    and "fc_observed f" and "1 / 2 \<le> conf_val (fc_confidence f)"
  shows "(dget (fc_evidence f) ''source'' = PStr ''k8s_event'' \<longrightarrow>
      (\<exists>events ev reason. items_of ctx ''k8s_events'' = Some events \<and> PDict ev \<in> set events \<and>
         same_workload (event_object ev) t \<and> fc_subject f = Some (event_object ev) \<and>
         dget (fc_evidence f) ''object'' = PStr (event_object ev) \<and>
         text_or_empty ev ''reason'' = Some reason \<and> dget (fc_evidence f) ''reason'' = PStr reason)) \<and>
    (dget (fc_evidence f) ''source'' = PStr ''k8s_terminated_state'' \<longrightarrow>
      (\<exists>st name info. mapping_of ctx ''k8s_pod_state'' = Some st \<and> (name, PDict info) \<in> set st \<and>
         same_workload name t \<and> fc_subject f = Some name \<and>
         dget (fc_evidence f) ''exit_code'' = dget info ''exit_code''))"
  using structured_rules_anchored [OF assms(1-5)] assms(6,7)
  by (auto simp: anchored_def structured_def event_backs_def state_backs_def)

definition api_ctx :: pydict where
  "api_ctx = [(''pod'', PStr ''api-1''),
     (''k8s_events'', PList [PDict [(''reason'', PStr ''ErrImagePull''), (''object'', PStr ''api-1'')]])]"

theorem no_foreign_anchor_witness:
  "\<exists>f. rl_evaluate ImagePullRule api_ctx = Some [Some f] \<and>
     (\<exists>ev. fc_subject f = Some (event_object ev) \<and> same_workload (event_object ev) ''api-1'')"
proof -
  let ?f = "the (hd (the (rl_evaluate ImagePullRule api_ctx)))"
  have "rl_evaluate ImagePullRule api_ctx = Some [Some ?f] \<and> fc_observed ?f \<and>
      1 / 2 \<le> conf_val (fc_confidence ?f) \<and> dget (fc_evidence ?f) ''source'' = PStr ''k8s_event''"
    by code_simp
  moreover have "target_of api_ctx = Some ''api-1''" by code_simp
  ultimately show ?thesis
    using no_foreign_anchor [of ImagePullRule api_ctx "[Some ?f]" ?f "''api-1''"] by (intro exI [of _ ?f]) auto
qed

text \<open>The rule that does not look at whose event it is, and one that takes any text for the target's.\<close>

definition neighbour_ctx :: pydict where
  "neighbour_ctx = [(''service'', PStr ''api''),
     (''k8s_events'', PList [PDict [(''reason'', PStr ''BackOff''), (''object'', PStr ''db-0'')]])]"

lemma crashloop_takes_foreign_events:
  "map_option (map (map_option (\<lambda>f. (fc_observed f, fc_subject f, fc_confidence f))))
     (rl_evaluate CrashLoopBackOffRule neighbour_ctx) = Some [Some (True, Some ''api'', FFin 8 (- 1))]"
  by code_simp

definition crash_log_ctx :: pydict where
  "crash_log_ctx = [(''logs_summary'', PStr ''exited with code 139'')]"

lemma crash_text_is_not_softened:
  "target_of crash_log_ctx = None"
  "map_option (map (map_option (\<lambda>f. (fc_observed f, fc_subject f, fc_confidence f))))
     (rl_evaluate ProcessCrashRule crash_log_ctx) = Some [Some (True, None, FFin 97 (- 2))]"
  by code_simp+

text \<open>
  C36. Without a pod or a service, the six rules that weigh attribution do not guess. What \<open>OOMKilledRule\<close>,
  \<open>PodEventsRule\<close>, \<open>ImagePullRule\<close>, \<open>ContainerConfigRule\<close>, \<open>DbPermissionRule\<close> or \<open>MigrationFailedRule\<close>
  then observe in a text or in the events of a namespace carries a confidence below one half, under what
  the critic accepts; only a container state read from the cluster, which names its pod, may carry more.
  Not every other rule does: an exit code in a text still gives \<open>ProcessCrashRule\<close> up to 0.97
  (\<open>crash_text_is_not_softened\<close>), \<open>CrashLoopBackOffRule\<close> says 0.8 or 0.9 and \<open>FailedSchedulingRule\<close> 0.9.
\<close>

theorem unattributed_stays_soft:
  assumes "r \<in> {OOMKilledRule, PodEventsRule, ImagePullRule, ContainerConfigRule, DbPermissionRule, MigrationFailedRule}"
    and "rl_evaluate r ctx = Some es" and "Some f \<in> set es"
    and "target_of ctx = None" and "fc_observed f"
    and "dget (fc_evidence f) ''source'' \<noteq> PStr ''k8s_terminated_state''"
  shows "conf_val (fc_confidence f) < 1 / 2"
  using unattributed_rules_soft [OF assms(1-4)] assms(5,6) by (auto simp: soft_def)

definition lost_ctx :: pydict where
  "lost_ctx = [(''k8s_events'', PList [PDict [(''reason'', PStr ''Evicted''), (''object'', PStr ''db-0'')]])]"

theorem unattributed_stays_soft_witness:
  "\<exists>f. rl_evaluate PodEventsRule lost_ctx = Some [Some f] \<and> fc_observed f \<and> conf_val (fc_confidence f) < 1 / 2"
proof -
  let ?f = "the (hd (the (rl_evaluate PodEventsRule lost_ctx)))"
  have "rl_evaluate PodEventsRule lost_ctx = Some [Some ?f] \<and> fc_observed ?f \<and>
      dget (fc_evidence ?f) ''source'' = PStr ''k8s_event''"
    by code_simp
  moreover have "target_of lost_ctx = None" by code_simp
  ultimately show ?thesis
    using unattributed_stays_soft [of PodEventsRule lost_ctx "[Some ?f]" ?f] by (intro exI [of _ ?f]) auto
qed

text \<open>
  C37. A container that never started because its image cannot be pulled is not taken for one that
  keeps crashing, although Kubernetes gives both the reason \<open>BackOff\<close>: when every event is about
  a pull and the text has none of the crash-loop phrases, neither rule observes anything.
\<close>

theorem image_pull_is_no_crash_loop:
  assumes "r \<in> {CrashLoopBackOffRule, PodEventsRule}"
    and "rl_evaluate r ctx = Some es" and "Some f \<in> set es"
    and "items_of ctx ''k8s_events'' = Some events"
    and "\<And>v. v \<in> set events \<Longrightarrow> \<exists>ev. v = PDict ev \<and> is_image_pull_backoff ev = Some True"
    and "\<And>text. text_haystack ctx = Some text \<Longrightarrow> count_matches text CRASHLOOP_PATTERN = 0"
  shows "\<not> fc_observed f"
proof
  assume o: "fc_observed f"
  have no: "\<not> (PDict ev \<in> set events \<and> is_image_pull_backoff ev = Some False)" for ev
    using assms(5) [of "PDict ev"] by auto
  from assms(1) show False
  proof (elim insertE)
    assume "r = CrashLoopBackOffRule"
    then obtain raw where "crashloop_raw ctx = Some raw" "new_fact raw = Some f"
      using assms(2,3) by (auto simp: CrashLoopBackOffRule_def crashloop_evaluate_def dest!: evaluate_make_rule single_Some)
    with crashloop_observed [of ctx raw] new_fact_observed [of raw f] o no assms(4,6) show False by auto
  next
    assume "r = PodEventsRule"
    then obtain fs where "pod_events_evaluate ctx = Some fs" "f \<in> set fs"
      using assms(2,3) by (auto simp: PodEventsRule_def dest!: evaluate_make_rule)
    with pod_events_observed [of ctx fs f] o no assms(4) show False by auto
  qed simp
qed

definition pull_ctx :: pydict where
  "pull_ctx = [(''k8s_events'', PList [PDict [(''reason'', PStr ''BackOff''),
     (''message'', PStr ''Back-off pulling image x'')]])]"

theorem image_pull_is_no_crash_loop_witness:
  "\<exists>f. rl_evaluate CrashLoopBackOffRule pull_ctx = Some [Some f] \<and> \<not> fc_observed f"
proof -
  let ?f = "the (hd (the (rl_evaluate CrashLoopBackOffRule pull_ctx)))"
  let ?ev = "[(''reason'', PStr ''BackOff''), (''message'', PStr ''Back-off pulling image x'')]"
  have "rl_evaluate CrashLoopBackOffRule pull_ctx = Some [Some ?f]" by code_simp
  moreover have "items_of pull_ctx ''k8s_events'' = Some [PDict ?ev]" by code_simp
  moreover have "is_image_pull_backoff ?ev = Some True" by code_simp
  moreover have "map_option (\<lambda>hay. count_matches hay CRASHLOOP_PATTERN) (text_haystack pull_ctx) = Some 0" by code_simp
  ultimately show ?thesis
    using image_pull_is_no_crash_loop [of CrashLoopBackOffRule pull_ctx "[Some ?f]" ?f "[PDict ?ev]"]
    by (intro exI [of _ ?f]) auto
qed

end
