(* ===== verification/Hypotheses.thy ===== *)
theory Hypotheses
  imports Rule_Base
begin

text \<open>
  Hypotheses about the cause of an incident: the schema and the set of \<open>agents/models/hypothesis.py\<close> and
  the fan-out over the perspectives of \<open>agents/multi_hypothesis.py\<close>. The answer of a model is an argument, as is
  \<open>json.loads\<close> (\<open>None\<close> where it raises); the prompts are not modelled.
\<close>

section \<open>Lines\<close>

text \<open>\<open>str.splitlines\<close>: a carriage return before a line feed belongs to it, and the last line break ends a line.\<close>

fun merge_crlf :: "string \<Rightarrow> string" where
  "merge_crlf [] = []"
| "merge_crlf [c] = [c]"
| "merge_crlf (c # d # cs) =
     (if c = CHR 0x0D \<and> d = CHR 0x0A then d # merge_crlf cs else c # merge_crlf (d # cs))"

definition ends_line :: "char \<Rightarrow> bool" where
  "ends_line c = (let n = (of_char c :: int) in 10 \<le> n \<and> n \<le> 13 \<or> 28 \<le> n \<and> n \<le> 30 \<or> n = 133)"

definition splitlines :: "string \<Rightarrow> string list" where
  "splitlines s =
     (let ls = split_on ends_line (merge_crlf s) in if last ls = [] then butlast ls else ls)"

definition fence :: string where "fence = [CHR 0x60, CHR 0x60, CHR 0x60]"

text \<open>What is left of an answer when the lines of a Markdown fence are taken away.\<close>

definition unfenced :: "string \<Rightarrow> string" where
  "unfenced raw =
     (let s = strip raw in
      if startswith s fence then join [CHR 0x0A] (filter (\<lambda>line. \<not> startswith line fence) (splitlines s)) else s)"

type_synonym json_reader = "string \<Rightarrow> pyval option"

section \<open>The schema\<close>

record Hypothesis =
  hy_cause :: string
  hy_detail :: string
  hy_anchored_facts :: "string list"
  hy_confidence :: pyfloat
  hy_perspective :: string
  hy_refutations :: "string list"

fun strings_of :: "pyval list \<Rightarrow> string list option" where
  "strings_of [] = Some []"
| "strings_of (PStr s # vs) = map_option ((#) s) (strings_of vs)"
| "strings_of (v # vs) = None"

definition at_least_one_anchor :: "string list \<Rightarrow> bool" where
  "at_least_one_anchor v \<longleftrightarrow> v \<noteq> []"

text \<open>A number as a decimal; no double has more than 1074 decimals.\<close>

definition rat_float :: "rat \<Rightarrow> pyfloat option" where
  "rat_float q =
     (case quotient_of q of (n, d) \<Rightarrow>
        map_option (\<lambda>k. FFin (n * (10 ^ k div d)) (- int k)) (find (\<lambda>k. 10 ^ k mod d = 0) [0..<1075]))"

definition unit_float :: "pyfloat \<Rightarrow> pyfloat option" where
  "unit_float c =
     (case c of FFin m e \<Rightarrow> if 0 \<le> dec_val m e \<and> dec_val m e \<le> 1 then Some c else None | _ \<Rightarrow> None)"

text \<open>The float field in lax mode, with its bounds: numbers, booleans and texts of numbers; no NaN passes.\<close>

definition p_confidence :: "pyval \<Rightarrow> pyfloat option" where
  "p_confidence v =
     (case v of
        PFloat c \<Rightarrow> unit_float c
      | PInt i \<Rightarrow> unit_float (FFin i 0)
      | PBool b \<Rightarrow> Some (FFin (if b then 1 else 0) 0)
      | PStr s \<Rightarrow> (case float_text s of Some (NFin q) \<Rightarrow> Option.bind (rat_float q) unit_float | _ \<Rightarrow> None)
      | _ \<Rightarrow> None)"

text \<open>\<open>Hypothesis(**item)\<close>; \<open>None\<close> is the \<open>ValidationError\<close>.\<close>

definition p_hypothesis :: "pydict \<Rightarrow> Hypothesis option" where
  "p_hypothesis item =
     (case (dget item ''cause'', dget item ''detail'', dget item ''anchored_facts'',
            p_confidence (dget item ''confidence''), dget item ''perspective'') of
        (PStr cause, PStr detail, PList anchors, Some confidence, PStr perspective) \<Rightarrow>
          (case (strings_of anchors,
                 if has_key item ''refutations''
                 then (case dget item ''refutations'' of PList rs \<Rightarrow> strings_of rs | _ \<Rightarrow> None) else Some []) of
             (Some anchored, Some refutations) \<Rightarrow>
               if at_least_one_anchor anchored
               then Some \<lparr>hy_cause = cause, hy_detail = detail, hy_anchored_facts = anchored,
                          hy_confidence = confidence, hy_perspective = perspective,
                          hy_refutations = refutations\<rparr>
               else None
           | _ \<Rightarrow> None)
      | _ \<Rightarrow> None)"

definition parse_item :: "string \<Rightarrow> pyval \<Rightarrow> Hypothesis option" where
  "parse_item perspective v =
     (case v of
        PDict item \<Rightarrow> p_hypothesis (setdefault (dset item ''perspective'' (PStr perspective)) ''detail'' (PStr []))
      | _ \<Rightarrow> None)"

text \<open>\<open>data.get(key) if isinstance(data, dict) else None\<close>, where only a list will do.\<close>

definition list_under :: "string \<Rightarrow> pyval option \<Rightarrow> pyval list option" where
  "list_under key data =
     (case data of
        Some (PDict d) \<Rightarrow> (case dget d key of PList xs \<Rightarrow> Some xs | _ \<Rightarrow> None)
      | _ \<Rightarrow> None)"

definition parse_hypotheses :: "json_reader \<Rightarrow> string \<Rightarrow> string \<Rightarrow> Hypothesis list" where
  "parse_hypotheses json raw perspective =
     (if strip raw = [] then []
      else (case list_under ''hypotheses'' (json (unfenced raw)) of
              Some items \<Rightarrow> List.map_filter (parse_item perspective) items
            | None \<Rightarrow> []))"

section \<open>The set\<close>

type_synonym HypothesisSet = "Hypothesis list"

definition ground :: "string set \<Rightarrow> Hypothesis \<Rightarrow> Hypothesis option" where
  "ground observed h =
     (case filter (\<lambda>f. f \<in> observed) (hy_anchored_facts h) of
        [] \<Rightarrow> None
      | grounded \<Rightarrow> Some (h\<lparr>hy_anchored_facts := grounded\<rparr>))"

definition filter_grounded :: "string set \<Rightarrow> HypothesisSet \<Rightarrow> HypothesisSet" where
  "filter_grounded observed items = List.map_filter (ground observed) items"

definition by_perspective :: "HypothesisSet \<Rightarrow> (string \<times> Hypothesis list) list" where
  "by_perspective items =
     map (\<lambda>p. (p, filter (\<lambda>h. hy_perspective h = p) items)) (rev (remdups (rev (map hy_perspective items))))"

definition perspectives_of :: "HypothesisSet \<Rightarrow> string \<Rightarrow> string set" where
  "perspectives_of items kind = set (map hy_perspective (filter (\<lambda>h. kind \<in> set (hy_anchored_facts h)) items))"

definition consensus_kinds :: "HypothesisSet \<Rightarrow> string list" where
  "consensus_kinds items =
     sort (filter (\<lambda>kind. 2 \<le> card (perspectives_of items kind)) (remdups (concat (map hy_anchored_facts items))))"

text \<open>\<open>max(hyps, key=...)\<close>: the first of the greatest.\<close>

fun first_max :: "('a \<Rightarrow> 'b::linorder) \<Rightarrow> 'a list \<Rightarrow> 'a option" where
  "first_max key [] = None"
| "first_max key (x # xs) =
     (case first_max key xs of
        None \<Rightarrow> Some x
      | Some y \<Rightarrow> if key x < key y then Some y else Some x)"

definition top_anchors :: "Hypothesis list \<Rightarrow> string list" where
  "top_anchors hyps = (case first_max (\<lambda>h. conf_val (hy_confidence h)) hyps of Some h \<Rightarrow> sort (hy_anchored_facts h) | None \<Rightarrow> [])"

text \<open>Whether there is a signal; its text is fixed.\<close>

definition disagreement_signal :: "HypothesisSet \<Rightarrow> bool" where
  "disagreement_signal items =
     (let tops = map (\<lambda>(p, hyps). top_anchors hyps) (by_perspective items) in
      2 \<le> length tops \<and> distinct tops)"

section \<open>The fan-out\<close>

text \<open>What a call of the model ends with: \<open>LLMTruncatedResponse\<close>, \<open>MissingRecording\<close> and any other exception apart.\<close>

datatype answer = Reply string | Truncated | NoRecording | CallFailed

datatype stage_exn = LLMTruncatedResponse | MissingRecording

definition PERSPECTIVES :: "string list" where
  "PERSPECTIVES = [''app'', ''infra'', ''deps'', ''runtime'']"

definition PERSPECTIVE_PRECONDITIONS :: "string \<Rightarrow> string list" where
  "PERSPECTIVE_PRECONDITIONS p = (if p = ''runtime'' then [''process_crash''] else [])"

definition active_perspectives :: "FactStore \<Rightarrow> string list" where
  "active_perspectives facts =
     filter (\<lambda>p. \<forall>kind\<in>set (PERSPECTIVE_PRECONDITIONS p). kind \<in> observed_kinds facts) PERSPECTIVES"

definition perspective_result :: "json_reader \<Rightarrow> (string \<Rightarrow> answer) \<Rightarrow> string \<Rightarrow> Hypothesis list" where
  "perspective_result json answers p =
     (case answers p of Reply raw \<Rightarrow> parse_hypotheses json raw p | _ \<Rightarrow> [])"

definition generate :: "json_reader \<Rightarrow> (string \<Rightarrow> answer) \<Rightarrow> FactStore \<Rightarrow> stage_exn + HypothesisSet" where
  "generate json answers facts =
     (let active = active_perspectives facts in
      if list_ex (\<lambda>p. answers p = Truncated) active then Inl LLMTruncatedResponse
      else Inr (filter_grounded (observed_kinds facts) (concat (map (perspective_result json answers) active))))"

section \<open>Lemmas\<close>

text \<open>A hypothesis as the schema lets it through.\<close>

definition hyp_ok :: "Hypothesis \<Rightarrow> bool" where
  "hyp_ok h \<longleftrightarrow> hy_anchored_facts h \<noteq> [] \<and> unit_float (hy_confidence h) = Some (hy_confidence h)"

lemma unit_float_Some: "unit_float c = Some d \<Longrightarrow> c = d"
  by (auto simp: unit_float_def split: pyfloat.splits if_splits)

lemma p_confidence_Some: "p_confidence v = Some q \<Longrightarrow> unit_float q = Some q"
  by (auto simp: p_confidence_def bind_eq_Some_conv split: pyval.splits option.splits num_val.splits
      dest: unit_float_Some) (auto simp: unit_float_def dec_val_def)

lemma p_hypothesis_ok: "p_hypothesis item = Some h \<Longrightarrow> hyp_ok h \<and> dget item ''perspective'' = PStr (hy_perspective h)"
  by (auto simp: p_hypothesis_def hyp_ok_def at_least_one_anchor_def p_confidence_Some
      split: pyval.splits option.splits if_splits dest!: p_confidence_Some)

lemma parse_hypotheses_mem:
  assumes "h \<in> set (parse_hypotheses json raw p)"
  shows "hyp_ok h \<and> hy_perspective h = p"
proof -
  obtain items v where v: "v \<in> set items" "parse_item p v = Some h"
    using assms by (auto simp: parse_hypotheses_def List.map_filter_def split: if_splits option.splits)
  then obtain item where item: "v = PDict item"
    "p_hypothesis (setdefault (dset item ''perspective'' (PStr p)) ''detail'' (PStr [])) = Some h"
    by (auto simp: parse_item_def split: pyval.splits)
  have "dget (setdefault (dset item ''perspective'' (PStr p)) ''detail'' (PStr [])) ''perspective'' = PStr p"
    by (auto simp: setdefault_def dget_def dset_def has_key_def update_conv' map_add_def split: option.splits)
  with p_hypothesis_ok [OF item(2)] show ?thesis by simp
qed

lemma ground_Some:
  "ground observed h = Some g \<longleftrightarrow>
     filter (\<lambda>f. f \<in> observed) (hy_anchored_facts h) \<noteq> [] \<and>
     g = h\<lparr>hy_anchored_facts := filter (\<lambda>f. f \<in> observed) (hy_anchored_facts h)\<rparr>"
  by (auto simp: ground_def split: list.split)

lemma filter_grounded_mem:
  "g \<in> set (filter_grounded observed items) \<longleftrightarrow> (\<exists>h\<in>set items. ground observed h = Some g)"
  unfolding filter_grounded_def List.map_filter_def by force

lemma generate_mem:
  assumes "generate json answers facts = Inr hyps" and "h \<in> set hyps"
  shows "hyp_ok h \<and> set (hy_anchored_facts h) \<subseteq> observed_kinds facts \<and>
    hy_perspective h \<in> set (active_perspectives facts) \<and> (\<exists>raw. answers (hy_perspective h) = Reply raw)"
proof -
  obtain p g where p: "p \<in> set (active_perspectives facts)" "g \<in> set (perspective_result json answers p)"
    and g: "ground (observed_kinds facts) g = Some h"
    using assms by (auto simp: generate_def Let_def filter_grounded_mem split: if_splits)
  obtain raw where "answers p = Reply raw" "g \<in> set (parse_hypotheses json raw p)"
    using p(2) by (cases "answers p") (simp_all add: perspective_result_def)
  with p(1) g parse_hypotheses_mem [of g json raw p] show ?thesis
    by (auto simp: ground_Some hyp_ok_def)
qed

lemma first_max_None [simp]: "first_max key xs = None \<longleftrightarrow> xs = []"
  by (cases xs) (auto split: option.splits)

lemma first_max_Some:
  assumes "first_max key xs = Some x"
  shows "x \<in> set xs \<and> (\<forall>y\<in>set xs. key y \<le> key x)"
  using assms by (induction xs arbitrary: x) (auto split: option.splits if_splits dest: order.trans less_imp_le)

end
