(* ===== verification/Fact_Critic.thy ===== *)
theory Fact_Critic
  imports Hypotheses
begin

text \<open>
  The critic of \<open>agents/fact_critic.py\<close>: the checks against the facts, the critique of one hypothesis, the batch
  with its splitting, and what survives. The answer to the \<open>n\<close>-th call of the model is an argument, with the
  time it took and the time left to the deadline after it; the calls made so far are part of the result.
\<close>

section \<open>Numbers\<close>

text \<open>\<open>max\<close> over the confidences of facts: the first that no later one exceeds; a NaN exceeds nothing.\<close>

fun num_less :: "num_val \<Rightarrow> num_val \<Rightarrow> bool" where
  "num_less (NFin x) (NFin y) = (x < y)"
| "num_less (NFin x) NInf = True"
| "num_less NNegInf (NFin y) = True"
| "num_less NNegInf NInf = True"
| "num_less a b = False"

fun max_num :: "num_val \<Rightarrow> num_val list \<Rightarrow> num_val" where
  "max_num m [] = m"
| "max_num m (x # xs) = max_num (if num_less m x then x else m) xs"

definition conf_num :: "Fact \<Rightarrow> num_val" where
  "conf_num f = (case as_num (PFloat (fc_confidence f)) of Some n \<Rightarrow> n | None \<Rightarrow> NNaN)"

text \<open>\<open>round(x, 4)\<close>, ties to even.\<close>

definition half_even :: "rat \<Rightarrow> int" where
  "half_even x =
     (let n = \<lfloor>x\<rfloor>; r = x - of_int n in if r < 1 / 2 \<or> r = 1 / 2 \<and> even n then n else n + 1)"

definition round4 :: "rat \<Rightarrow> pyfloat" where
  "round4 x = norm_float (half_even (x * 10000)) (- 4)"

section \<open>The check against the facts\<close>

definition VERY_LOW_CONFIDENCE :: rat where "VERY_LOW_CONFIDENCE = 1 / 4"
definition LOW_CONFIDENCE :: rat where "LOW_CONFIDENCE = 1 / 2"
definition LOW_CONFIDENCE_PENALTY :: rat where "LOW_CONFIDENCE_PENALTY = 3 / 5"

definition kind_confidence :: "FactStore \<Rightarrow> string \<Rightarrow> num_val option" where
  "kind_confidence facts kind =
     (case map conf_num (filter fc_observed (by_kind facts kind)) of [] \<Rightarrow> None | c # cs \<Rightarrow> Some (max_num c cs))"

definition observed_anchor_confidences :: "Hypothesis \<Rightarrow> FactStore \<Rightarrow> num_val list" where
  "observed_anchor_confidences h facts =
     List.map_filter (\<lambda>kind. if kind \<in> observed_kinds facts then kind_confidence facts kind else None)
       (hy_anchored_facts h)"

text \<open>A number in the format \<open>.2f\<close>.\<close>

fun fmt2 :: "num_val \<Rightarrow> string" where
  "fmt2 (NFin x) =
     (let n = half_even (\<bar>x\<bar> * 100) in
      (if x < 0 then ''-'' else []) @ int_str (n div 100) @ ''.'' @ pad2 (int_str (n mod 100)))"
| "fmt2 NInf = ''inf''"
| "fmt2 NNegInf = ''-inf''"
| "fmt2 NNaN = ''nan''"

definition quoted :: "string \<Rightarrow> string" where
  "quoted s = [CHR 0x27] @ s @ [CHR 0x27]"

definition algorithmic_refutation :: "FactStore \<Rightarrow> string \<Rightarrow> string option" where
  "algorithmic_refutation facts kind =
     (if kind \<notin> observed_kinds facts then
        (if kind \<in> unknown_kinds facts then None else Some (''algo: anchor '' @ quoted kind @ '' is NOT observed in fact store''))
      else (case kind_confidence facts kind of
              Some c \<Rightarrow>
                if nlt c VERY_LOW_CONFIDENCE
                then Some (''algo: anchor '' @ quoted kind @ '' is observed only with low confidence ('' @ fmt2 c @ '')'')
                else None
            | None \<Rightarrow> None))"

definition algorithmic_refutations :: "Hypothesis \<Rightarrow> FactStore \<Rightarrow> string list" where
  "algorithmic_refutations h facts = List.map_filter (algorithmic_refutation facts) (hy_anchored_facts h)"

definition algorithmic_confidence_penalty :: "Hypothesis \<Rightarrow> FactStore \<Rightarrow> rat" where
  "algorithmic_confidence_penalty h facts =
     (if list_ex (\<lambda>c. nge c VERY_LOW_CONFIDENCE \<and> nlt c LOW_CONFIDENCE) (observed_anchor_confidences h facts)
      then LOW_CONFIDENCE_PENALTY else 1)"

definition refute :: "string list \<Rightarrow> Hypothesis \<Rightarrow> Hypothesis" where
  "refute refs h = h\<lparr>hy_refutations := refs\<rparr>"

text \<open>The hypothesis to go on with, and whether the model is to see it.\<close>

definition precheck :: "FactStore \<Rightarrow> Hypothesis \<Rightarrow> Hypothesis \<times> bool" where
  "precheck facts h =
     (let algo = algorithmic_refutations h facts; penalty = algorithmic_confidence_penalty h facts in
      if algo \<noteq> [] then (refute algo h, False)
      else if penalty < 1 then (h\<lparr>hy_confidence := round4 (conf_val (hy_confidence h) * penalty)\<rparr>, True)
      else (h, True))"

section \<open>One hypothesis at a time\<close>

definition refutation_texts :: "pyval list \<Rightarrow> string list" where
  "refutation_texts refs = map py_str (filter truthy refs)"

definition parse_refutations :: "json_reader \<Rightarrow> string \<Rightarrow> string list" where
  "parse_refutations json raw =
     (if strip raw = [] then []
      else (case list_under ''refutations'' (json (unfenced raw)) of Some refs \<Rightarrow> refutation_texts refs | None \<Rightarrow> []))"

definition critique :: "json_reader \<Rightarrow> FactStore \<Rightarrow> (Hypothesis \<Rightarrow> answer) \<Rightarrow> Hypothesis \<Rightarrow> stage_exn + Hypothesis" where
  "critique json facts ask h =
     (case precheck facts h of
        (working, needs_llm) \<Rightarrow>
          if \<not> needs_llm then Inr working
          else (case ask working of
                  Truncated \<Rightarrow> Inl LLMTruncatedResponse
                | Reply raw \<Rightarrow> Inr (refute (parse_refutations json raw) working)
                | _ \<Rightarrow> Inr working))"

text \<open>The answers to the single calls depend on the hypothesis shown and on its place in the set.\<close>

definition critique_each ::
  "json_reader \<Rightarrow> FactStore \<Rightarrow> (nat \<Rightarrow> Hypothesis \<Rightarrow> answer) \<Rightarrow> HypothesisSet \<Rightarrow> stage_exn + HypothesisSet" where
  "critique_each json facts ask items = rmap (\<lambda>(n, h). critique json facts (ask n) h) (enumerate 0 items)"

section \<open>The batch\<close>

definition BATCH_NO_VERDICT :: string where
  "BATCH_NO_VERDICT = ''critic: no verdict for this hypothesis in batch response''"

definition BATCH_NOT_REVIEWED :: string where
  "BATCH_NOT_REVIEWED = ''critic: not reviewed (outside batch top-N by confidence)''"

definition hyp_id :: "nat \<Rightarrow> string" where
  "hyp_id n = ''h'' @ int_str (int n + 1)"

text \<open>The verdicts of an answer by id; the first entry of an id wins.\<close>

fun batch_entries :: "string set \<Rightarrow> (string \<times> string list) list \<Rightarrow> pyval list \<Rightarrow> (string \<times> string list) list" where
  "batch_entries wanted out [] = out"
| "batch_entries wanted out (v # vs) =
     (case v of
        PDict e \<Rightarrow>
          (let hid = (if has_key e ''id'' then py_str (dget e ''id'') else []) in
           case dget e ''refutations'' of
             PList refs \<Rightarrow>
               if hid \<notin> wanted \<or> hid \<in> fst ` set out then batch_entries wanted out vs
               else batch_entries wanted (out @ [(hid, refutation_texts refs)]) vs
           | _ \<Rightarrow> batch_entries wanted out vs)
      | _ \<Rightarrow> batch_entries wanted out vs)"

definition parse_batch :: "json_reader \<Rightarrow> string \<Rightarrow> string list \<Rightarrow> string \<rightharpoonup> string list" where
  "parse_batch json raw ids =
     (if strip raw = [] then Map.empty
      else (case list_under ''critiques'' (json (unfenced raw)) of
              Some entries \<Rightarrow> map_of (batch_entries (set ids) [] entries)
            | None \<Rightarrow> Map.empty))"

record batch_call =
  bc_answer :: answer
  bc_took :: rat
  bc_left :: rat

type_synonym pending = "(nat \<times> Hypothesis) list"
type_synonym call_log = "(Hypothesis list \<times> batch_call) list"

text \<open>The indices of a batch with what the answer says of each.\<close>

definition read_verdicts :: "json_reader \<Rightarrow> string \<Rightarrow> pending \<Rightarrow> (nat \<times> string list option) list" where
  "read_verdicts json raw batch =
     (let ids = map hyp_id [0..<length batch] in
      map (\<lambda>(hid, i, _). (i, parse_batch json raw ids hid)) (zip ids batch))"

datatype split_choice = Halve | Give_up stage_exn | Answered "(nat \<times> string list option) list"

text \<open>What one call of the model leads to.\<close>

definition after_call :: "json_reader \<Rightarrow> batch_call \<Rightarrow> pending \<Rightarrow> split_choice" where
  "after_call json call batch =
     (case bc_answer call of
        Reply raw \<Rightarrow> Answered (read_verdicts json raw batch)
      | Truncated \<Rightarrow>
          if length batch = 1 \<or> bc_left call < bc_took call then Give_up LLMTruncatedResponse else Halve
      | NoRecording \<Rightarrow> Give_up MissingRecording
      | CallFailed \<Rightarrow>
          if 1 < length batch \<and> bc_left call < bc_took call then Answered (map (\<lambda>(i, _). (i, None)) batch)
          else if 1 < length batch then Halve
          else Answered (map (\<lambda>(i, _). (i, Some [])) batch))"

text \<open>Two batches, one after the other.\<close>

definition both ::
  "(call_log \<Rightarrow> (stage_exn + (nat \<times> string list option) list) \<times> call_log) \<Rightarrow>
   (call_log \<Rightarrow> (stage_exn + (nat \<times> string list option) list) \<times> call_log) \<Rightarrow>
   call_log \<Rightarrow> (stage_exn + (nat \<times> string list option) list) \<times> call_log" where
  "both f g hist =
     (case f hist of
        (Inl e, hist') \<Rightarrow> (Inl e, hist')
      | (Inr d, hist') \<Rightarrow> (case g hist' of (Inl e, hist'') \<Rightarrow> (Inl e, hist'') | (Inr d', hist'') \<Rightarrow> (Inr (d @ d'), hist'')))"

lemma both_cong [fundef_cong]:
  "hist = hist' \<Longrightarrow> (\<And>l. f l = f' l) \<Longrightarrow> (\<And>l. g l = g' l) \<Longrightarrow> both f g hist = both f' g' hist'"
  by (simp add: both_def split: prod.split sum.split)

lemma after_call_Halve: "after_call json call batch = Halve \<Longrightarrow> batch \<noteq> [] \<Longrightarrow> 1 < length batch"
  by (cases batch) (auto simp: after_call_def split: answer.splits if_splits)

text \<open>
  The batch is cut into pieces of at most \<open>piece\<close>; a piece whose call fails or is cut off is halved. An empty
  batch is never asked.
\<close>

function ask_batch ::
  "json_reader \<Rightarrow> nat \<Rightarrow> (nat \<Rightarrow> Hypothesis list \<Rightarrow> batch_call) \<Rightarrow> pending \<Rightarrow> call_log \<Rightarrow>
   (stage_exn + (nat \<times> string list option) list) \<times> call_log" where
  "ask_batch json piece calls batch hist =
     (if batch = [] then (Inr [], hist)
      else if max 1 piece < length batch then
        both (ask_batch json piece calls (take (max 1 piece) batch))
          (ask_batch json piece calls (drop (max 1 piece) batch)) hist
      else
        (let call = calls (length hist) (map snd batch); hist' = hist @ [(map snd batch, call)] in
         case after_call json call batch of
           Give_up e \<Rightarrow> (Inl e, hist')
         | Answered d \<Rightarrow> (Inr d, hist')
         | Halve \<Rightarrow>
             both (ask_batch json piece calls (take (length batch div 2) batch))
               (ask_batch json piece calls (drop (length batch div 2) batch)) hist'))"
  by pat_completeness auto
termination
  by (relation "measure (\<lambda>(json, piece, calls, batch, hist). length batch)")
    (auto simp: min_def dest: after_call_Halve)

declare ask_batch.simps [simp del]

record critic_settings =
  cs_mode :: string
  cs_top_n :: nat
  cs_batch_max :: nat

definition verdict_of :: "(nat \<times> string list option) list \<Rightarrow> nat \<Rightarrow> string list option" where
  "verdict_of verdicts i = (case map_of verdicts i of Some (Some refs) \<Rightarrow> Some refs | _ \<Rightarrow> None)"

definition judged :: "(nat \<times> string list option) list \<Rightarrow> nat \<Rightarrow> Hypothesis \<Rightarrow> Hypothesis" where
  "judged verdicts i h =
     (case verdict_of verdicts i of None \<Rightarrow> refute [BATCH_NO_VERDICT] h | Some refs \<Rightarrow> refute refs h)"

definition put_all :: "(nat \<Rightarrow> Hypothesis \<Rightarrow> Hypothesis) \<Rightarrow> pending \<Rightarrow> Hypothesis list \<Rightarrow> Hypothesis list" where
  "put_all f batch out = foldl (\<lambda>o' (i, h). o'[i := f i h]) out batch"

definition to_ask :: "FactStore \<Rightarrow> HypothesisSet \<Rightarrow> pending" where
  "to_ask facts items =
     map (\<lambda>(i, h). (i, fst (precheck facts h))) (filter (\<lambda>(i, h). snd (precheck facts h)) (enumerate 0 items))"

text \<open>The hypotheses the model is to see, in their order, and the others.\<close>

definition top_of :: "nat \<Rightarrow> pending \<Rightarrow> pending \<times> pending" where
  "top_of top_n batch =
     (if 0 < top_n \<and> top_n < length batch
      then (let ranked = sort_key (\<lambda>p. - conf_val (hy_confidence (snd p))) batch in
            (sort_key fst (take top_n ranked), drop top_n ranked))
      else (batch, []))"

definition critique_batch ::
  "json_reader \<Rightarrow> critic_settings \<Rightarrow> FactStore \<Rightarrow> (nat \<Rightarrow> Hypothesis list \<Rightarrow> batch_call) \<Rightarrow> HypothesisSet \<Rightarrow>
   (stage_exn + HypothesisSet) \<times> call_log" where
  "critique_batch json cfg facts calls items =
     (let checked = map (fst \<circ> precheck facts) items;
          (seen, skipped) = top_of (cs_top_n cfg) (to_ask facts items);
          out = put_all (\<lambda>_. refute [BATCH_NOT_REVIEWED]) skipped checked in
      case ask_batch json (cs_batch_max cfg) calls seen [] of
        (Inl e, hist) \<Rightarrow> (Inl e, hist)
      | (Inr verdicts, hist) \<Rightarrow> (Inr (put_all (judged verdicts) seen out), hist))"

definition critique_all ::
  "json_reader \<Rightarrow> critic_settings \<Rightarrow> FactStore \<Rightarrow> (nat \<Rightarrow> Hypothesis \<Rightarrow> answer) \<Rightarrow>
   (nat \<Rightarrow> Hypothesis list \<Rightarrow> batch_call) \<Rightarrow> HypothesisSet \<Rightarrow> stage_exn + HypothesisSet" where
  "critique_all json cfg facts ask calls items =
     (if cs_mode cfg = ''batch'' then fst (critique_batch json cfg facts calls items)
      else critique_each json facts ask items)"

section \<open>What is left\<close>

definition survivors :: "HypothesisSet \<Rightarrow> HypothesisSet" where
  "survivors items = filter (\<lambda>h. hy_refutations h = []) items"

definition refuted :: "HypothesisSet \<Rightarrow> HypothesisSet" where
  "refuted items = filter (\<lambda>h. hy_refutations h \<noteq> []) items"

definition best_candidate :: "HypothesisSet \<Rightarrow> Hypothesis option" where
  "best_candidate items =
     (case first_max (\<lambda>h. conf_val (hy_confidence h)) (survivors items) of
        None \<Rightarrow> None
      | Some most \<Rightarrow>
          first_max (\<lambda>h. length (hy_anchored_facts h))
            (filter (\<lambda>h. conf_val (hy_confidence h) = conf_val (hy_confidence most)) (survivors items)))"

end
