(* ===== verification/Critique.thy ===== *)
theory Critique
  imports Fact_Critic "HOL-Library.Multiset"
begin

text \<open>
  What the critic does to a set of hypotheses, in both of its modes: nothing is lost or invented, what
  survives is grounded and was judged, the number of calls is bounded, and the modes agree where
  the answers of the model do.
\<close>

section \<open>The check against the facts\<close>

lemma max_num_mem: "max_num m xs = m \<or> max_num m xs \<in> set xs"
  by (induction xs arbitrary: m) (fastforce split: if_splits)+

lemma kind_confidence_Some:
  assumes "kind_confidence facts kind = Some c"
  shows "\<exists>f\<in>set facts. fc_observed f \<and> fc_kind f = kind \<and> conf_num f = c"
proof -
  obtain x xs where x: "map conf_num (filter fc_observed (by_kind facts kind)) = x # xs" "c = max_num x xs"
    using assms by (auto simp: kind_confidence_def split: list.splits)
  then have "c \<in> set (map conf_num (filter fc_observed (by_kind facts kind)))"
    using max_num_mem [of x xs] by (metis list.set_intros)
  then show ?thesis by (auto simp: by_kind_def)
qed

lemma observed_has_confidence: "kind \<in> observed_kinds facts \<Longrightarrow> kind_confidence facts kind \<noteq> None"
  by (auto simp: kind_confidence_def observed_kinds_def by_kind_def filter_empty_conv split: list.split)

lemma algorithmic_refutations_Nil:
  "algorithmic_refutations h facts = [] \<longleftrightarrow> (\<forall>kind\<in>set (hy_anchored_facts h). algorithmic_refutation facts kind = None)"
  by (auto simp: algorithmic_refutations_def List.map_filter_def filter_empty_conv)

lemma not_refuted:
  assumes "algorithmic_refutation facts kind = None" and "kind \<in> observed_kinds facts"
  shows "\<exists>f\<in>set facts. fc_observed f \<and> fc_kind f = kind \<and> \<not> nlt (conf_num f) VERY_LOW_CONFIDENCE"
  using assms observed_has_confidence [OF assms(2)] kind_confidence_Some [of facts kind]
  by (auto simp: algorithmic_refutation_def split: option.splits if_splits)

text \<open>A hypothesis after the critic: what it claims is the same, its confidence may be lowered.\<close>

definition same_claim :: "Hypothesis \<Rightarrow> Hypothesis \<Rightarrow> bool" where
  "same_claim h w \<longleftrightarrow> hy_cause w = hy_cause h \<and> hy_detail w = hy_detail h \<and>
     hy_anchored_facts w = hy_anchored_facts h \<and> hy_perspective w = hy_perspective h \<and>
     (hy_confidence w = hy_confidence h \<or> hy_confidence w = round4 (conf_val (hy_confidence h) * LOW_CONFIDENCE_PENALTY))"

lemma refute_simps [simp]:
  "hy_refutations (refute refs h) = refs" "same_claim h (refute refs w) \<longleftrightarrow> same_claim h w"
  "hy_anchored_facts (refute refs h) = hy_anchored_facts h" "hy_confidence (refute refs h) = hy_confidence h"
  "refute refs (refute refs' h) = refute refs h"
  by (simp_all add: refute_def same_claim_def)

lemma same_claim_refl [simp]: "same_claim h h"
  by (simp add: same_claim_def)

lemma precheck_same: "precheck facts h = (w, b) \<Longrightarrow> same_claim h w"
  by (auto simp: precheck_def Let_def same_claim_def refute_def algorithmic_confidence_penalty_def split: if_splits)

lemma precheck_asks: "precheck facts h = (w, True) \<Longrightarrow> algorithmic_refutations h facts = []"
  by (auto simp: precheck_def Let_def split: if_splits)

lemma precheck_refuted: "precheck facts h = (w, False) \<Longrightarrow> hy_refutations w \<noteq> []"
  by (auto simp: precheck_def Let_def split: if_splits)

section \<open>The batch\<close>

lemma to_ask_mem:
  "(i, w) \<in> set (to_ask facts items) \<longleftrightarrow> i < length items \<and> precheck facts (items ! i) = (w, True)"
  by (auto simp: to_ask_def in_set_enumerate_eq image_iff) (metis prod.collapse)+

lemma to_ask_distinct: "distinct (map fst (to_ask facts items))"
proof -
  have "map fst (to_ask facts items) = map fst (filter (\<lambda>(i, h). snd (precheck facts h)) (enumerate 0 items))"
    by (simp add: to_ask_def comp_def case_prod_beta)
  also have "distinct \<dots>" by (rule distinct_map_filter) simp
  finally show ?thesis .
qed

lemma top_of_parts:
  assumes "top_of n batch = (seen, skipped)"
  shows "mset seen + mset skipped = mset batch"
proof (cases "0 < n \<and> n < length batch")
  case True
  let ?r = "sort_key (\<lambda>p. - conf_val (hy_confidence (snd p))) batch"
  have "mset (take n ?r) + mset (drop n ?r) = mset ?r"
    by (metis append_take_drop_id mset_append)
  with True assms show ?thesis by (auto simp: top_of_def Let_def)
qed (use assms in \<open>auto simp: top_of_def\<close>)

lemma top_of_mem:
  assumes "top_of n (to_ask facts items) = (seen, skipped)"
  shows "distinct (map fst seen)" and "distinct (map fst skipped)" and "set seen \<union> set skipped = set (to_ask facts items)"
    and "fst ` set seen \<inter> fst ` set skipped = {}"
proof -
  have m: "mset (seen @ skipped) = mset (to_ask facts items)" using top_of_parts [OF assms] by simp
  then have "mset (map fst (seen @ skipped)) = mset (map fst (to_ask facts items))" by (metis mset_map)
  then have d: "distinct (map fst (seen @ skipped))"
    using to_ask_distinct mset_eq_imp_distinct_iff by blast
  then show "distinct (map fst seen)" "distinct (map fst skipped)" "fst ` set seen \<inter> fst ` set skipped = {}" by auto
  show "set seen \<union> set skipped = set (to_ask facts items)" using mset_eq_setD [OF m] by simp
qed

lemma top_of_length:
  assumes "top_of n batch = (seen, skipped)"
  shows "length skipped = (if 0 < n then length batch - n else 0)"
  using assms by (auto simp: top_of_def Let_def split: if_splits)

lemma top_of_rank:
  assumes "top_of n batch = (seen, skipped)" and "x \<in> set skipped" and "y \<in> set seen"
  shows "conf_val (hy_confidence (snd x)) \<le> conf_val (hy_confidence (snd y))"
proof -
  let ?f = "\<lambda>p. - conf_val (hy_confidence (snd p))"
  let ?r = "sort_key ?f batch"
  have "x \<in> set (drop n ?r)" "y \<in> set (take n ?r)"
    using assms by (auto simp: top_of_def Let_def split: if_splits)
  moreover have "sorted (map ?f (take n ?r @ drop n ?r))" by simp
  ultimately have "?f y \<le> ?f x" by (simp only: map_append sorted_append) auto
  then show ?thesis by simp
qed

lemma put_all_length [simp]: "length (put_all f batch out) = length out"
  unfolding put_all_def by (induction batch arbitrary: out) auto

lemma put_all_nth:
  assumes "distinct (map fst batch)" and "i < length out"
  shows "put_all f batch out ! i = (case map_of batch i of Some h \<Rightarrow> f i h | None \<Rightarrow> out ! i)"
  using assms
proof (induction batch arbitrary: out)
  case (Cons x batch)
  obtain j h where x: "x = (j, h)" by (cases x)
  have "put_all f (x # batch) out = put_all f batch (out[j := f j h])" by (simp add: put_all_def x)
  with Cons x show ?case
    by (auto simp: nth_list_update split: option.split dest: map_of_SomeD intro: rev_image_eqI)
qed (simp add: put_all_def)

section \<open>The calls of a batch\<close>

text \<open>
  What it takes to be cleared: an answer that gives the hypothesis, by the id under which it was asked, an empty
  list of refutations, or a call on it alone that failed.
\<close>

definition cleared :: "json_reader \<Rightarrow> call_log \<Rightarrow> Hypothesis \<Rightarrow> bool" where
  "cleared json hist w \<longleftrightarrow> (\<exists>asked call. (asked, call) \<in> set hist \<and>
     ((\<exists>raw k. bc_answer call = Reply raw \<and> k < length asked \<and> asked ! k = w \<and>
         parse_batch json raw (map hyp_id [0..<length asked]) (hyp_id k) = Some []) \<or>
      (bc_answer call = CallFailed \<and> asked = [w])))"

lemma cleared_mono: "cleared json hist w \<Longrightarrow> set hist \<subseteq> set hist' \<Longrightarrow> cleared json hist' w"
  unfolding cleared_def by blast

lemma both_Inr:
  assumes "both f g hist = (Inr d, hist')"
  obtains d1 h1 d2 where "f hist = (Inr d1, h1)" and "g h1 = (Inr d2, hist')" and "d = d1 @ d2"
  using assms by (auto simp: both_def split: prod.splits sum.splits)

lemma fst_read_verdicts: "map fst (read_verdicts json raw batch) = map fst batch"
  by (auto simp: read_verdicts_def Let_def intro!: nth_equalityI split: prod.splits)

lemma read_verdicts_mem:
  assumes "(i, Some []) \<in> set (read_verdicts json raw batch)"
  shows "\<exists>k < length batch. fst (batch ! k) = i \<and>
    parse_batch json raw (map hyp_id [0..<length batch]) (hyp_id k) = Some []"
  using assms by (auto simp: read_verdicts_def Let_def set_zip) (metis fst_conv)

text \<open>What one run of the batch guarantees, as one statement for the induction over its pieces.\<close>

definition batch_ok :: "json_reader \<Rightarrow> pending \<Rightarrow> call_log \<Rightarrow> (nat \<times> string list option) list \<Rightarrow> call_log \<Rightarrow> bool" where
  "batch_ok json batch hist d hist' \<longleftrightarrow>
     map fst d = map fst batch \<and> set hist \<subseteq> set hist' \<and>
     (\<forall>i. (i, Some []) \<in> set d \<longrightarrow> (\<exists>w. (i, w) \<in> set batch \<and> cleared json hist' w))"

lemma batch_ok_append:
  assumes "batch_ok json b1 hist d1 h1" and "batch_ok json b2 h1 d2 hist'"
  shows "batch_ok json (b1 @ b2) hist (d1 @ d2) hist'"
  using assms cleared_mono unfolding batch_ok_def by (auto, blast+)

lemma after_call_ok:
  assumes "after_call json call batch = Answered d" and "batch \<noteq> []"
  shows "batch_ok json batch hist d (hist @ [(map snd batch, call)])"
proof (cases "bc_answer call")
  case (Reply raw)
  with assms(1) have d: "d = read_verdicts json raw batch" by (simp add: after_call_def)
  have "\<exists>w. (i, w) \<in> set batch \<and> cleared json (hist @ [(map snd batch, call)]) w"
    if i: "(i, Some []) \<in> set d" for i
  proof -
    obtain k where k: "k < length batch" "fst (batch ! k) = i"
      "parse_batch json raw (map hyp_id [0..<length batch]) (hyp_id k) = Some []"
      using read_verdicts_mem i d by blast
    have "(i, snd (batch ! k)) \<in> set batch" using k by (metis nth_mem prod.collapse)
    moreover have "cleared json (hist @ [(map snd batch, call)]) (snd (batch ! k))"
      unfolding cleared_def using k Reply
      by (intro exI [of _ "map snd batch"] exI [of _ call]) auto
    ultimately show ?thesis by blast
  qed
  with d show ?thesis by (auto simp: batch_ok_def fst_read_verdicts)
next
  case CallFailed
  show ?thesis
  proof (cases "1 < length batch")
    case True
    with CallFailed assms show ?thesis
      by (auto simp: batch_ok_def after_call_def split: if_splits)
  next
    case False
    with assms(2) obtain i w where "batch = [(i, w)]" by (cases batch rule: remdups_adj.cases) auto
    with CallFailed assms(1) show ?thesis by (auto simp: batch_ok_def after_call_def cleared_def)
  qed
qed (use assms in \<open>auto simp: after_call_def split: if_splits\<close>)

lemma ask_batch_Nil [simp]: "ask_batch json piece calls [] hist = (Inr [], hist)"
  by (simp add: ask_batch.simps)

lemma ask_batch_cut:
  "batch \<noteq> [] \<Longrightarrow> max 1 piece < length batch \<Longrightarrow>
     ask_batch json piece calls batch hist =
     both (ask_batch json piece calls (take (max 1 piece) batch))
       (ask_batch json piece calls (drop (max 1 piece) batch)) hist"
  by (subst ask_batch.simps) (simp only: if_True if_False refl)

lemma ask_batch_halve:
  assumes "batch \<noteq> []" and "\<not> max 1 piece < length batch"
    and "after_call json (calls (length hist) (map snd batch)) batch = Halve"
  shows "ask_batch json piece calls batch hist =
     both (ask_batch json piece calls (take (length batch div 2) batch))
       (ask_batch json piece calls (drop (length batch div 2) batch))
       (hist @ [(map snd batch, calls (length hist) (map snd batch))])"
  using assms by (subst ask_batch.simps) (simp only: if_False Let_def split_choice.case)

lemma ask_batch_once:
  assumes "batch \<noteq> []" and "\<not> max 1 piece < length batch"
    and "after_call json (calls (length hist) (map snd batch)) batch = c"
  shows "c = Give_up e \<Longrightarrow> ask_batch json piece calls batch hist =
      (Inl e, hist @ [(map snd batch, calls (length hist) (map snd batch))])"
    and "c = Answered d \<Longrightarrow> ask_batch json piece calls batch hist =
      (Inr d, hist @ [(map snd batch, calls (length hist) (map snd batch))])"
  using assms by (subst ask_batch.simps, simp only: if_False Let_def split_choice.case)+

lemma ask_batch_ok: "ask_batch json piece calls batch hist = (Inr d, hist') \<Longrightarrow> batch_ok json batch hist d hist'"
proof (induction json piece calls batch hist arbitrary: d hist' rule: ask_batch.induct)
  case (1 json piece calls batch hist)
  let ?call = "calls (length hist) (map snd batch)" and ?hist = "hist @ [(map snd batch, calls (length hist) (map snd batch))]"
  show ?case
  proof (cases "batch = []")
    case True
    with "1.prems" show ?thesis by (simp add: batch_ok_def)
  next
    case ne: False
    show ?thesis
    proof (cases "max 1 piece < length batch")
      case True
      obtain d1 h1 d2 where
        "ask_batch json piece calls (take (max 1 piece) batch) hist = (Inr d1, h1)"
        "ask_batch json piece calls (drop (max 1 piece) batch) h1 = (Inr d2, hist')" and d: "d = d1 @ d2"
        by (rule both_Inr [OF "1.prems" [unfolded ask_batch_cut [OF ne True]]])
      with "1.IH"(1,2) [OF ne True]
      have "batch_ok json (take (max 1 piece) batch) hist d1 h1" "batch_ok json (drop (max 1 piece) batch) h1 d2 hist'"
        by blast+
      from batch_ok_append [OF this] d show ?thesis by simp
    next
      case False
      show ?thesis
      proof (cases "after_call json ?call batch")
        case Halve
        obtain d1 h1 d2 where
          "ask_batch json piece calls (take (length batch div 2) batch) ?hist = (Inr d1, h1)"
          "ask_batch json piece calls (drop (length batch div 2) batch) h1 = (Inr d2, hist')" and d: "d = d1 @ d2"
          by (rule both_Inr [OF "1.prems" [unfolded ask_batch_halve [of _ piece json calls, OF ne False Halve]]])
        with "1.IH"(3,4) [OF ne False refl refl Halve]
        have "batch_ok json (take (length batch div 2) batch) ?hist d1 h1"
          "batch_ok json (drop (length batch div 2) batch) h1 d2 hist'"
          by blast+
        from batch_ok_append [OF this] d show ?thesis by (auto simp: batch_ok_def)
      next
        case (Give_up e)
        with "1.prems" ask_batch_once(1) [where calls = calls, OF ne False Give_up refl] show ?thesis by simp
      next
        case (Answered a)
        with "1.prems" ask_batch_once(2) [where calls = calls, OF ne False Answered refl] after_call_ok [OF Answered ne] show ?thesis
          by auto
      qed
    qed
  qed
qed


text \<open>How often the model is asked.\<close>

lemma both_calls:
  assumes "length (snd (f hist)) \<le> length hist + a" and "\<And>h. length (snd (g h)) \<le> length h + b"
  shows "length (snd (both f g hist)) \<le> length hist + (a + b)"
proof (cases "f hist")
  case (Pair r h1)
  have "length (snd (g h1)) \<le> length h1 + b" by (rule assms(2))
  with Pair assms(1) show ?thesis
    by (cases r; cases "g h1") (auto simp: both_def split: sum.splits)
qed

lemma ask_batch_calls: "length (snd (ask_batch json piece calls batch hist)) \<le> length hist + (2 * length batch - 1)"
proof (induction "length batch" arbitrary: batch hist rule: less_induct)
  case less
  let ?call = "calls (length hist) (map snd batch)" and ?hist = "hist @ [(map snd batch, calls (length hist) (map snd batch))]"
  have cut: "length (snd (both (ask_batch json piece calls (take k batch)) (ask_batch json piece calls (drop k batch)) h))
      \<le> length h + (2 * length batch - 2)" if "0 < k" "k < length batch" for k h
  proof -
    have "length (snd (both (ask_batch json piece calls (take k batch)) (ask_batch json piece calls (drop k batch)) h))
      \<le> length h + ((2 * length (take k batch) - 1) + (2 * length (drop k batch) - 1))"
      using that by (intro both_calls less.hyps) simp_all
    also have "(2 * length (take k batch) - 1) + (2 * length (drop k batch) - 1) \<le> 2 * length batch - 2"
      using that by simp
    finally show ?thesis by simp
  qed
  show ?case
  proof (cases "batch \<noteq> [] \<and> max 1 piece < length batch")
    case True
    then have "length (snd (ask_batch json piece calls batch hist)) \<le> length hist + (2 * length batch - 2)"
      using cut [of "max 1 piece" hist] ask_batch_cut [of batch piece json calls hist] by simp
    then show ?thesis by simp
  next
    case False
    show ?thesis
    proof (cases "batch = []")
      case ne: False
      with False have whole: "\<not> max 1 piece < length batch" by simp
      show ?thesis
      proof (cases "after_call json ?call batch")
        case Halve
        have half: "0 < length batch div 2" "length batch div 2 < length batch"
          using after_call_Halve [OF Halve ne] by auto
        have "ask_batch json piece calls batch hist =
            both (ask_batch json piece calls (take (length batch div 2) batch))
              (ask_batch json piece calls (drop (length batch div 2) batch)) ?hist"
          by (rule ask_batch_halve [where calls = calls, OF ne whole Halve])
        then have "length (snd (ask_batch json piece calls batch hist)) \<le> length ?hist + (2 * length batch - 2)"
          using cut [OF half, of ?hist] by simp
        then show ?thesis using ne by (cases batch) auto
      next
        case (Give_up e)
        with ask_batch_once(1) [where calls = calls, OF ne whole Give_up refl] ne show ?thesis by (cases batch) simp_all
      next
        case (Answered d)
        with ask_batch_once(2) [where calls = calls, OF ne whole Answered refl] ne show ?thesis by (cases batch) simp_all
      qed
    qed simp
  qed
qed


section \<open>What becomes of each hypothesis\<close>

lemma critique_batch_nth:
  assumes "critique_batch json cfg facts calls items = (Inr out, hist)"
    and "i < length items" and "precheck facts (items ! i) = (w, b)"
  shows "length out = length items \<and> (\<not> b \<longrightarrow> out ! i = w) \<and>
    (b \<longrightarrow> (\<exists>refs. out ! i = refute refs w) \<and> (hy_refutations (out ! i) = [] \<longrightarrow> cleared json hist w))"
proof -
  obtain seen skipped where parts: "top_of (cs_top_n cfg) (to_ask facts items) = (seen, skipped)" by fastforce
  let ?checked = "map (fst \<circ> precheck facts) items"
  obtain verdicts where v: "ask_batch json (cs_batch_max cfg) calls seen [] = (Inr verdicts, hist)"
    and out: "out = put_all (judged verdicts) seen (put_all (\<lambda>_. refute [BATCH_NOT_REVIEWED]) skipped ?checked)"
    using assms(1) by (auto simp: critique_batch_def Let_def parts split: prod.splits sum.splits)
  note mem = top_of_mem [OF parts]
  have asked: "(i, x) \<in> set seen \<union> set skipped \<longleftrightarrow> b \<and> x = w" for x
    using mem(3) to_ask_mem [of i x facts items] assms(2,3) by auto
  have out_i: "out ! i = (case map_of seen i of Some h \<Rightarrow> judged verdicts i h
      | None \<Rightarrow> (case map_of skipped i of Some h \<Rightarrow> refute [BATCH_NOT_REVIEWED] h | None \<Rightarrow> w))"
    using assms(2,3) by (simp add: out put_all_nth mem(1,2) split: option.split)
  have len: "length out = length items" by (simp add: out)
  show ?thesis
  proof (cases "map_of seen i")
    case (Some h)
    then have h: "b" "h = w" using asked [of h] map_of_SomeD by fastforce+
    have "cleared json hist w" if "hy_refutations (judged verdicts i w) = []"
    proof -
      have "(i, Some []) \<in> set verdicts"
        using that by (auto simp: judged_def verdict_of_def split: option.splits dest: map_of_SomeD)
      then obtain x where "(i, x) \<in> set seen" "cleared json hist x"
        using ask_batch_ok [OF v] by (auto simp: batch_ok_def)
      with asked [of x] show ?thesis by auto
    qed
    moreover have "\<exists>refs. judged verdicts i w = refute refs w" by (auto simp: judged_def split: option.split)
    ultimately show ?thesis using out_i Some h len by auto
  next
    case None
    show ?thesis
    proof (cases "map_of skipped i")
      case (Some h)
      then have "b" "h = w" using asked [of h] map_of_SomeD by fastforce+
      with out_i None Some len show ?thesis by auto
    next
      case no: None
      then have "\<not> b" using None asked [of w] by (auto simp: map_of_eq_None_iff intro: rev_image_eqI)
      with out_i None no len show ?thesis by simp
    qed
  qed
qed

lemma critique_each_nth:
  assumes "critique_each json facts ask items = Inr out" and "i < length items"
  shows "length out = length items \<and> critique json facts (ask i) (items ! i) = Inr (out ! i)"
  using assms by (auto simp: critique_each_def rmap_Inr list_all2_conv_all_nth nth_enumerate_eq)

lemma critique_cases:
  assumes "critique json facts ask h = Inr h'" and "precheck facts h = (w, b)"
  shows "(\<not> b \<longrightarrow> h' = w) \<and> (b \<longrightarrow> h' = w \<or> (\<exists>refs. h' = refute refs w))"
  using assms by (auto simp: critique_def split: if_splits answer.splits)

lemma critique_all_nth:
  assumes "critique_all json cfg facts ask calls items = Inr out" and "i < length items"
    and "precheck facts (items ! i) = (w, b)"
  shows "length out = length items \<and> (\<not> b \<longrightarrow> out ! i = w) \<and> (b \<longrightarrow> out ! i = w \<or> (\<exists>refs. out ! i = refute refs w))"
proof (cases "cs_mode cfg = ''batch''")
  case True
  then obtain hist where "critique_batch json cfg facts calls items = (Inr out, hist)"
    using assms(1) by (cases "critique_batch json cfg facts calls items") (simp add: critique_all_def)
  with critique_batch_nth [OF this assms(2,3)] show ?thesis by blast
next
  case False
  with assms(1) have e: "critique_each json facts ask items = Inr out" by (simp add: critique_all_def)
  with critique_each_nth [OF e assms(2)] critique_cases [OF _ assms(3)] show ?thesis by blast
qed

lemma critique_all_length: "critique_all json cfg facts ask calls items = Inr out \<Longrightarrow> length out = length items"
proof (cases items)
  case Nil
  assume "critique_all json cfg facts ask calls items = Inr out"
  with Nil show ?thesis
    by (auto simp: critique_all_def critique_each_def critique_batch_def to_ask_def top_of_def put_all_def enumerate_eq_zip
        split: if_splits)
next
  case (Cons h hs)
  assume "critique_all json cfg facts ask calls items = Inr out"
  from critique_all_nth [OF this, of 0] Cons show ?thesis by (cases "precheck facts h") auto
qed


section \<open>Both modes on the same answers\<close>

definition by_verdict :: "FactStore \<Rightarrow> (Hypothesis \<Rightarrow> string list) \<Rightarrow> Hypothesis \<Rightarrow> Hypothesis" where
  "by_verdict facts v h = (case precheck facts h of (w, b) \<Rightarrow> if b then refute (v w) w else w)"

lemma rmap_all: "(\<And>x. x \<in> set xs \<Longrightarrow> g x = Inr (f x)) \<Longrightarrow> rmap g xs = Inr (map f xs)"
  by (induction xs) simp_all

lemma critique_each_verdict:
  assumes "\<And>n h. \<exists>raw. ask n h = Reply raw \<and> parse_refutations json raw = v h"
  shows "critique_each json facts ask items = Inr (map (by_verdict facts v) items)"
proof -
  have "critique json facts (ask n) h = Inr (by_verdict facts v h)" for n h
    using assms [of n "fst (precheck facts h)"]
    by (auto simp: critique_def by_verdict_def split: prod.split)
  then have "critique_each json facts ask items = Inr (map (\<lambda>(n, h). by_verdict facts v h) (enumerate 0 items))"
    unfolding critique_each_def by (intro rmap_all) auto
  also have "map (\<lambda>(n, h). by_verdict facts v h) (enumerate 0 items) = map (by_verdict facts v) items"
    by (rule nth_equalityI) (simp_all add: nth_enumerate_eq)
  finally show ?thesis .
qed

text \<open>The answer to a batch gives every hypothesis shown its verdict.\<close>

definition answers_all :: "json_reader \<Rightarrow> (Hypothesis \<Rightarrow> string list) \<Rightarrow> Hypothesis list \<Rightarrow> batch_call \<Rightarrow> bool" where
  "answers_all json v asked call \<longleftrightarrow> (\<exists>raw. bc_answer call = Reply raw \<and>
     (\<forall>k<length asked. parse_batch json raw (map hyp_id [0..<length asked]) (hyp_id k) = Some (v (asked ! k))))"

lemma answers_all_verdicts:
  assumes "answers_all json v (map snd batch) call"
  shows "after_call json call batch = Answered (map (\<lambda>(i, w). (i, Some (v w))) batch)"
proof -
  obtain raw where raw: "bc_answer call = Reply raw"
    "\<And>k. k < length batch \<Longrightarrow> parse_batch json raw (map hyp_id [0..<length batch]) (hyp_id k) = Some (v (snd (batch ! k)))"
    using assms by (auto simp: answers_all_def)
  have "read_verdicts json raw batch = map (\<lambda>(i, w). (i, Some (v w))) batch"
    by (rule nth_equalityI) (auto simp: read_verdicts_def Let_def raw(2) split: prod.split)
  with raw(1) show ?thesis by (simp add: after_call_def)
qed

lemma ask_batch_verdict:
  assumes "\<And>n asked. 0 < length asked \<Longrightarrow> length asked \<le> max 1 piece \<Longrightarrow> answers_all json v asked (calls n asked)"
  shows "fst (ask_batch json piece calls batch hist) = Inr (map (\<lambda>(i, w). (i, Some (v w))) batch)"
proof (induction "length batch" arbitrary: batch hist rule: less_induct)
  case less
  show ?case
  proof (cases "batch \<noteq> [] \<and> max 1 piece < length batch")
    case True
    have "fst (both f g h) = Inr (d @ d')" if "fst (f h) = Inr d" "\<And>h. fst (g h) = Inr d'" for f g h d d'
      using that by (auto simp: both_def split: prod.splits sum.splits) (metis fst_conv Inr_not_Inl, metis fst_conv sum.inject(2))
    then have "fst (both (ask_batch json piece calls (take (max 1 piece) batch))
        (ask_batch json piece calls (drop (max 1 piece) batch)) hist) =
        Inr (map (\<lambda>(i, w). (i, Some (v w))) (take (max 1 piece) batch) @
             map (\<lambda>(i, w). (i, Some (v w))) (drop (max 1 piece) batch))"
      using True less.hyps by simp
    with True ask_batch_cut [of batch piece json calls hist] show ?thesis
      by (simp del: max_less_iff_conj flip: map_append)
  next
    case False
    show ?thesis
    proof (cases "batch = []")
      case ne: False
      with False have whole: "\<not> max 1 piece < length batch" by simp
      then have "after_call json (calls (length hist) (map snd batch)) batch =
          Answered (map (\<lambda>(i, w). (i, Some (v w))) batch)"
        using ne by (intro answers_all_verdicts assms) auto
      from ask_batch_once(2) [where calls = calls, OF ne whole this refl] show ?thesis by simp
    qed simp
  qed
qed


section \<open>Properties\<close>

text \<open>
  C17. No cause reaches the report on the word of a model alone: a hypothesis that survives the critic, in
  whichever mode and whatever the models answer, still rests on at least one fact, and each fact
  it rests on was observed in this run with a confidence that is not negligible.
\<close>

theorem survivor_is_grounded:
  assumes "generate json answers facts = Inr hyps"
    and "critique_all json' cfg facts ask calls hyps = Inr out" and "h \<in> set (survivors out)"
  shows "hy_anchored_facts h \<noteq> [] \<and> (\<forall>kind\<in>set (hy_anchored_facts h).
    \<exists>f\<in>set facts. fc_observed f \<and> fc_kind f = kind \<and> \<not> nlt (conf_num f) (1 / 4))"
proof -
  obtain i where i: "i < length out" "out ! i = h" "hy_refutations h = []"
    using assms(3) by (auto simp: survivors_def in_set_conv_nth)
  obtain w b where w: "precheck facts (hyps ! i) = (w, b)" by fastforce
  have len: "i < length hyps" using i critique_all_length [OF assms(2)] by simp
  have cases: "(\<not> b \<longrightarrow> h = w) \<and> (b \<longrightarrow> h = w \<or> (\<exists>refs. h = refute refs w))"
    using critique_all_nth [OF assms(2) len w] i(2) by simp
  have b: b using cases precheck_refuted [of facts "hyps ! i" w] w i(3) by (cases b) auto
  have same: "hy_anchored_facts h = hy_anchored_facts (hyps ! i)"
    using cases b precheck_same [OF w] by (auto simp: same_claim_def)
  have gen: "hy_anchored_facts (hyps ! i) \<noteq> []" "set (hy_anchored_facts (hyps ! i)) \<subseteq> observed_kinds facts"
    using generate_mem [OF assms(1), of "hyps ! i"] len by (auto simp: hyp_ok_def)
  have "\<exists>f\<in>set facts. fc_observed f \<and> fc_kind f = kind \<and> \<not> nlt (conf_num f) (1 / 4)"
    if k: "kind \<in> set (hy_anchored_facts (hyps ! i))" for kind
    using not_refuted [of facts kind] precheck_asks [of facts "hyps ! i" w] w b k gen(2)
    by (auto simp: algorithmic_refutations_Nil VERY_LOW_CONFIDENCE_def)
  with gen(1) same show ?thesis by simp
qed

definition oom_seen :: Fact where
  "oom_seen = \<lparr>fc_kind = ''oom_killed'', fc_observed = True, fc_confidence = FFin 98 (- 2), fc_evidence = [],
     fc_subject = None, fc_source_rule = Some ''OOMKilledRule'', fc_verdict = ''found'', fc_epistemic = None,
     fc_provenance = None, fc_window_min = None, fc_data_age_min = None, fc_unknown_reason = None\<rparr>"

definition toy_json :: json_reader where
  "toy_json raw =
     (if raw = ''h'' then Some (PDict [(''hypotheses'', PList [PDict [(''cause'', PStr ''oom''),
          (''anchored_facts'', PList [PStr ''oom_killed'']), (''confidence'', PFloat (FFin 9 (- 1)))]])])
      else if raw = ''c'' then Some (PDict [(''critiques'', PList [PDict [(''id'', PStr ''h1''),
          (''refutations'', PList [])]])])
      else if raw = ''r'' then Some (PDict [(''refutations'', PList [])])
      else None)"

definition toy_hyps :: HypothesisSet where
  "toy_hyps = [\<lparr>hy_cause = ''oom'', hy_detail = [], hy_anchored_facts = [''oom_killed''], hy_confidence = FFin 9 (- 1),
     hy_perspective = ''infra'', hy_refutations = []\<rparr>]"

definition toy_answers :: "string \<Rightarrow> answer" where
  "toy_answers p = (if p = ''infra'' then Reply ''h'' else CallFailed)"

definition toy_call :: batch_call where
  "toy_call = \<lparr>bc_answer = Reply ''c'', bc_took = 1, bc_left = 100\<rparr>"

definition toy_settings :: critic_settings where
  "toy_settings = \<lparr>cs_mode = ''batch'', cs_top_n = 0, cs_batch_max = 1\<rparr>"

theorem survivor_is_grounded_witness:
  "\<exists>h. h \<in> set (survivors toy_hyps) \<and> hy_anchored_facts h \<noteq> []"
proof -
  have g: "generate toy_json toy_answers [oom_seen] = Inr toy_hyps" by code_simp
  have c: "critique_all toy_json toy_settings [oom_seen] (\<lambda>_ _. CallFailed) (\<lambda>_ _. toy_call) toy_hyps = Inr toy_hyps"
    by code_simp
  have "hd toy_hyps \<in> set (survivors toy_hyps)" by code_simp
  with survivor_is_grounded [OF g c this] show ?thesis by blast
qed

text \<open>
  The critic judges, it does not edit: in both modes it gives back as many hypotheses as it was given,
  in their order, each with the cause, the detail, the anchors and the perspective it came with;
  only the list of refutations is new and the confidence may be lowered for a weak anchor.
\<close>

theorem critic_keeps_the_claims:
  assumes "critique_all json cfg facts ask calls items = Inr out"
  shows "list_all2 same_claim items out"
proof (rule list_all2_all_nthI)
  show "length items = length out" using critique_all_length [OF assms] by simp
  fix i assume i: "i < length items"
  obtain w b where w: "precheck facts (items ! i) = (w, b)" by fastforce
  from critique_all_nth [OF assms i w] precheck_same [OF w] show "same_claim (items ! i) (out ! i)"
    by (cases b) auto
qed

theorem critic_keeps_the_claims_witness:
  "list_all2 same_claim toy_hyps toy_hyps"
proof -
  have "critique_all toy_json toy_settings [oom_seen] (\<lambda>_ _. CallFailed) (\<lambda>_ _. toy_call) toy_hyps = Inr toy_hyps"
    by code_simp
  from critic_keeps_the_claims [OF this] show ?thesis .
qed

text \<open>
  C38. In a batch silence is no acquittal: a hypothesis is left without refutations only if the checks
  against the facts passed and either some answer of the model gave, under the id by which this
  very hypothesis was shown, an empty list, or a call about it alone failed. One the model left
  out, answered in another form, or never saw is refuted.
\<close>

theorem batch_fails_closed:
  assumes "critique_batch json cfg facts calls items = (Inr out, hist)"
    and "i < length items" and "hy_refutations (out ! i) = []"
  shows "\<exists>w. precheck facts (items ! i) = (w, True) \<and> out ! i = refute [] w \<and> cleared json hist w"
proof -
  obtain w b where w: "precheck facts (items ! i) = (w, b)" by fastforce
  from critique_batch_nth [OF assms(1,2) w] assms(3) precheck_refuted [of facts "items ! i" w] w
  show ?thesis by (cases b) auto
qed

theorem batch_fails_closed_witness:
  "\<exists>w. precheck [oom_seen] (hd toy_hyps) = (w, True) \<and> cleared toy_json [([hd toy_hyps], toy_call)] w"
proof -
  have "critique_batch toy_json toy_settings [oom_seen] (\<lambda>_ _. toy_call) toy_hyps =
      (Inr toy_hyps, [([hd toy_hyps], toy_call)])"
    by code_simp
  moreover have "0 < length toy_hyps" "hy_refutations (toy_hyps ! 0) = []" "toy_hyps ! 0 = hd toy_hyps" by code_simp+
  ultimately show ?thesis using batch_fails_closed by metis
qed

text \<open>
  C39. A batch ends after a bounded number of calls, although every call that fails or is cut off is
  repeated on its two halves: at most two per hypothesis, less one, whatever the answers, the times
  and the sizes are.
\<close>

theorem batch_calls_bounded:
  "length (snd (critique_batch json cfg facts calls items)) \<le> 2 * length items - 1"
proof -
  obtain seen skipped where parts: "top_of (cs_top_n cfg) (to_ask facts items) = (seen, skipped)" by fastforce
  have "length seen + length skipped = length (to_ask facts items)"
    using top_of_parts [OF parts] by (metis size_mset size_union)
  also have "\<dots> \<le> length items" by (simp add: to_ask_def) (metis length_enumerate length_filter_le)
  finally have "length seen \<le> length items" by simp
  moreover have "length (snd (critique_batch json cfg facts calls items)) \<le> 2 * length seen - 1"
    using ask_batch_calls [of json "cs_batch_max cfg" calls seen "[]"]
    by (auto simp: critique_batch_def Let_def parts split: prod.split sum.split)
  ultimately show ?thesis by simp
qed

text \<open>
  C40. The mode of the critic is a matter of cost, but for the limit \<open>FACT_CRITIC_BATCH_TOP_N\<close>. When the model,
  asked about each hypothesis alone, gives the verdicts it gives in a batch, the batch returns the same
  hypotheses in the same places as the single calls, with the exception of those it did not show: when
  a limit is set and more hypotheses pass the checks against the facts, as many as exceed it, none of them more confident
  than one that was shown, come back refuted as not reviewed. Nothing depends on how the batch is cut into pieces.
\<close>

theorem critic_modes_agree:
  assumes "\<And>n h. \<exists>raw. ask n h = Reply raw \<and> parse_refutations json raw = v h"
    and "\<And>n asked. 0 < length asked \<Longrightarrow> length asked \<le> max 1 (cs_batch_max cfg) \<Longrightarrow>
      answers_all json v asked (calls n asked)"
    and "passing = {i. i < length items \<and> snd (precheck facts (items ! i))}"
  shows "\<exists>unseen out each. fst (critique_batch json cfg facts calls items) = Inr out \<and>
    critique_each json facts ask items = Inr each \<and> length out = length items \<and> length each = length items \<and>
    unseen \<subseteq> passing \<and> card unseen = (if 0 < cs_top_n cfg then card passing - cs_top_n cfg else 0) \<and>
    (\<forall>i\<in>unseen. \<forall>j\<in>passing - unseen. conf_val (hy_confidence (fst (precheck facts (items ! i)))) \<le>
       conf_val (hy_confidence (fst (precheck facts (items ! j))))) \<and>
    (\<forall>i<length items. out ! i =
       (if i \<in> unseen then refute [BATCH_NOT_REVIEWED] (fst (precheck facts (items ! i))) else each ! i))"
proof -
  obtain seen skipped where parts: "top_of (cs_top_n cfg) (to_ask facts items) = (seen, skipped)" by fastforce
  note mem = top_of_mem [OF parts]
  let ?verdicts = "map (\<lambda>(i, w). (i, Some (v w))) seen" and ?unseen = "fst ` set skipped"
  have "fst (ask_batch json (cs_batch_max cfg) calls seen []) = Inr ?verdicts"
    by (rule ask_batch_verdict) (rule assms(2))
  then obtain hist where a: "ask_batch json (cs_batch_max cfg) calls seen [] = (Inr ?verdicts, hist)"
    by (metis prod.collapse)
  let ?out = "put_all (judged ?verdicts) seen
    (put_all (\<lambda>_. refute [BATCH_NOT_REVIEWED]) skipped (map (fst \<circ> precheck facts) items))"
  have out: "fst (critique_batch json cfg facts calls items) = Inr ?out"
    using a by (simp add: critique_batch_def parts Let_def)
  have parted: "(i, w) \<in> set seen \<union> set skipped \<longleftrightarrow> i \<in> passing \<and> w = fst (precheck facts (items ! i))" for i w
    using mem(3) to_ask_mem [of i w facts items] by (auto simp: assms(3) prod_eq_iff)
  have passing: "passing = fst ` set (to_ask facts items)"
    using parted mem(3) by (force simp: image_iff)
  then have "card passing = length (to_ask facts items)"
    using to_ask_distinct [of facts items] by (metis distinct_card length_map set_map)
  moreover have "card ?unseen = length skipped" using mem(2) by (metis distinct_card length_map set_map)
  ultimately have c: "card ?unseen = (if 0 < cs_top_n cfg then card passing - cs_top_n cfg else 0)"
    using top_of_length [OF parts] by simp
  have rank: "conf_val (hy_confidence (fst (precheck facts (items ! i)))) \<le>
      conf_val (hy_confidence (fst (precheck facts (items ! j))))" if "i \<in> ?unseen" "j \<in> passing - ?unseen" for i j
  proof -
    from that(1) obtain x where x: "x \<in> set skipped" "i = fst x" by blast
    have "j \<in> fst ` set seen" using that(2) unfolding passing mem(3) [symmetric] by blast
    then obtain y where y: "y \<in> set seen" "j = fst y" by blast
    have "snd x = fst (precheck facts (items ! i))" "snd y = fst (precheck facts (items ! j))"
      using parted [of i "snd x"] parted [of j "snd y"] x y by auto
    with top_of_rank [OF parts x(1) y(1)] show ?thesis by simp
  qed
  have same: "?out ! i = (if i \<in> ?unseen then refute [BATCH_NOT_REVIEWED] (fst (precheck facts (items ! i)))
      else map (by_verdict facts v) items ! i)" if i: "i < length items" for i
  proof -
    obtain w b where w: "precheck facts (items ! i) = (w, b)" by fastforce
    have m: "map_of seen i = (if b \<and> i \<notin> ?unseen then Some w else None)"
      "map_of skipped i = (if i \<in> ?unseen then Some w else None)"
    proof -
      have p: "(i, x) \<in> set seen \<or> (i, x) \<in> set skipped \<longleftrightarrow> b \<and> x = w" for x
        using parted [of i x] w i by (simp add: assms(3))
      have no: "\<not> ((i, x) \<in> set seen \<and> i \<in> ?unseen)" for x using mem(4) by force
      have "(i, w) \<in> set skipped" if "i \<in> ?unseen" using that p by force
      moreover have "(i, w) \<in> set seen" if "b" "i \<notin> ?unseen" using that p [of w] by force
      moreover have "map_of seen i = None" if "\<not> b \<or> i \<in> ?unseen"
        using that p no by (cases "map_of seen i") (auto dest: map_of_SomeD)
      ultimately show "map_of seen i = (if b \<and> i \<notin> ?unseen then Some w else None)"
        "map_of skipped i = (if i \<in> ?unseen then Some w else None)"
        using mem(1,2) by (auto simp: map_of_eq_None_iff)
    qed
    have "map_of ?verdicts i = map_option (\<lambda>w. Some (v w)) (map_of seen i)"
      by (induction seen) auto
    with m i w parted [of i] show ?thesis
      by (auto simp: put_all_nth [OF mem(1)] put_all_nth [OF mem(2)] by_verdict_def judged_def verdict_of_def)
  qed
  show ?thesis
    by (rule exI [of _ ?unseen], rule exI [of _ ?out], rule exI [of _ "map (by_verdict facts v) items"])
      (use out critique_each_verdict [OF assms(1)] c rank same passing mem(3) in auto)
qed

theorem critic_modes_agree_witness:
  "\<exists>each. fst (critique_batch toy_json toy_settings [oom_seen] (\<lambda>_ _. toy_call) toy_hyps) = Inr each \<and>
     critique_each toy_json [oom_seen] (\<lambda>_ _. Reply ''r'') toy_hyps = Inr each"
proof -
  let ?passing = "{i. i < length toy_hyps \<and> snd (precheck [oom_seen] (toy_hyps ! i))}"
  have 1: "\<exists>raw. Reply ''r'' = Reply raw \<and> parse_refutations toy_json raw = []"
    by (intro exI [of _ "''r''"]) code_simp
  have "parse_batch toy_json ''c'' (map hyp_id [0..<1]) (hyp_id 0) = Some []" by code_simp
  then have 2: "answers_all toy_json (\<lambda>_. []) asked toy_call"
    if "0 < length asked" "length asked \<le> max 1 (cs_batch_max toy_settings)" for asked
    using that by (cases asked) (auto simp: answers_all_def toy_call_def toy_settings_def)
  obtain unseen out each where r: "fst (critique_batch toy_json toy_settings [oom_seen] (\<lambda>_ _. toy_call) toy_hyps) = Inr out"
    "critique_each toy_json [oom_seen] (\<lambda>_ _. Reply ''r'') toy_hyps = Inr each"
    "length out = length toy_hyps" "length each = length toy_hyps" "unseen \<subseteq> ?passing"
    "card unseen = (if 0 < cs_top_n toy_settings then card ?passing - cs_top_n toy_settings else 0)"
    "\<forall>i<length toy_hyps. out ! i =
       (if i \<in> unseen then refute [BATCH_NOT_REVIEWED] (fst (precheck [oom_seen] (toy_hyps ! i))) else each ! i)"
    using critic_modes_agree [where ask = "\<lambda>_ _. Reply ''r''" and json = toy_json and v = "\<lambda>_. []" and cfg = toy_settings
        and calls = "\<lambda>_ _. toy_call" and items = toy_hyps and facts = "[oom_seen]", OF 1 2 refl] by blast
  have "finite ?passing" by simp
  then have "unseen = {}" using r(5,6) by (simp add: toy_settings_def finite_subset)
  with r show ?thesis by (auto intro: nth_equalityI)
qed

end
