(* ===== verification/Checkpoint.thy ===== *)
theory Checkpoint
  imports Hypotheses Report_Delivery Ingest
begin

text \<open>
  The memory of one run of \<open>IncidentPipeline\<close> (\<open>workers/pipeline.py\<close>) and its checkpoint in the row:
  \<open>_save_checkpoint\<close> and \<open>_restore_checkpoint\<close>, with the JSON forms of facts (\<open>Fact.to_dict\<close>,
  \<open>Fact(**f)\<close>) and hypotheses. A field of another type than the one the code writes makes a
  checkpoint unusable. JSON gives values back as they were. A checkpoint holds the traces of the moment it
  is written, which is what the database stores; that the list in memory goes on growing is left out.
\<close>

section \<open>JSON forms\<close>

definition opt_pyint :: "int option \<Rightarrow> pyval" where
  "opt_pyint o' = (case o' of None \<Rightarrow> PNone | Some n \<Rightarrow> PInt n)"

fun opt_of_str :: "pyval \<Rightarrow> string option option" where
  "opt_of_str PNone = Some None"
| "opt_of_str (PStr s) = Some (Some s)"
| "opt_of_str v = None"

fun opt_of_int :: "pyval \<Rightarrow> int option option" where
  "opt_of_int PNone = Some None"
| "opt_of_int (PInt n) = Some (Some n)"
| "opt_of_int v = None"

definition fact_to_dict :: "Fact \<Rightarrow> pydict" where
  "fact_to_dict f =
     [(''kind'', PStr (fc_kind f)), (''observed'', PBool (fc_observed f)), (''confidence'', PFloat (fc_confidence f)),
      (''evidence'', PDict (fc_evidence f)), (''subject'', opt_pystr (fc_subject f)),
      (''source_rule'', opt_pystr (fc_source_rule f)), (''verdict'', PStr (fc_verdict f)),
      (''epistemic'', opt_pystr (fc_epistemic f)), (''provenance'', opt_pystr (fc_provenance f)),
      (''window_min'', opt_pyint (fc_window_min f)), (''data_age_min'', opt_pyint (fc_data_age_min f)),
      (''unknown_reason'', opt_pystr (fc_unknown_reason f))]"

definition FACT_FIELDS :: "string list" where
  "FACT_FIELDS =
     [''kind'', ''observed'', ''confidence'', ''evidence'', ''subject'', ''source_rule'', ''verdict'', ''epistemic'',
      ''provenance'', ''window_min'', ''data_age_min'', ''unknown_reason'']"

text \<open>\<open>Fact(**f)\<close>: an unknown or a missing key is a \<open>TypeError\<close>, and \<open>__post_init__\<close> runs.\<close>

definition fact_load :: "pyval \<Rightarrow> Fact option" where
  "fact_load v =
     (case v of
        PDict d \<Rightarrow>
          if \<not> fst ` set d \<subseteq> set FACT_FIELDS then None
          else (case (dget d ''kind'', dget d ''observed'', dget d ''confidence'',
                      if has_key d ''evidence'' then dget d ''evidence'' else PDict [],
                      if has_key d ''verdict'' then dget d ''verdict'' else PStr []) of
                  (PStr kind, PBool observed, PFloat confidence, PDict evidence, PStr verdict) \<Rightarrow>
                    (case (opt_of_str (dget d ''subject''), opt_of_str (dget d ''source_rule''),
                           opt_of_str (dget d ''epistemic''), opt_of_str (dget d ''provenance''),
                           opt_of_int (dget d ''window_min''), opt_of_int (dget d ''data_age_min''),
                           opt_of_str (dget d ''unknown_reason'')) of
                       (Some subject, Some source_rule, Some epistemic, Some provenance, Some window_min,
                        Some data_age_min, Some unknown_reason) \<Rightarrow>
                         (case post_init \<lparr>fc_kind = kind, fc_observed = observed, fc_confidence = confidence,
                                 fc_evidence = evidence, fc_subject = subject, fc_source_rule = source_rule,
                                 fc_verdict = verdict, fc_epistemic = epistemic, fc_provenance = provenance,
                                 fc_window_min = window_min, fc_data_age_min = data_age_min,
                                 fc_unknown_reason = unknown_reason\<rparr> of
                            Inr f \<Rightarrow> Some f
                          | Inl e \<Rightarrow> None)
                     | _ \<Rightarrow> None)
                | _ \<Rightarrow> None)
      | _ \<Rightarrow> None)"

definition hypothesis_dump :: "Hypothesis \<Rightarrow> pydict" where
  "hypothesis_dump h =
     [(''cause'', PStr (hy_cause h)), (''detail'', PStr (hy_detail h)),
      (''anchored_facts'', PList (map PStr (hy_anchored_facts h))), (''confidence'', PFloat (hy_confidence h)),
      (''perspective'', PStr (hy_perspective h)), (''refutations'', PList (map PStr (hy_refutations h)))]"

definition hypothesis_load :: "pyval \<Rightarrow> Hypothesis option" where
  "hypothesis_load v = (case v of PDict d \<Rightarrow> p_hypothesis (setdefault d ''detail'' (PStr [])) | _ \<Rightarrow> None)"

text \<open>What a comprehension iterates over; \<open>None\<close> where the value is not iterable.\<close>

fun iterate :: "pyval \<Rightarrow> pyval list option" where
  "iterate (PList xs) = Some xs"
| "iterate (PDict d) = Some (map (\<lambda>(k, v). PStr k) d)"
| "iterate (PStr s) = Some (map (\<lambda>c. PStr [c]) s)"
| "iterate v = None"

fun load_each :: "(pyval \<Rightarrow> 'a option) \<Rightarrow> pyval list \<Rightarrow> 'a list option" where
  "load_each f [] = Some []"
| "load_each f (v # vs) =
     (case f v of None \<Rightarrow> None | Some x \<Rightarrow> map_option ((#) x) (load_each f vs))"

definition load_all :: "(pyval \<Rightarrow> 'a option) \<Rightarrow> pyval \<Rightarrow> 'a list option" where
  "load_all f v = Option.bind (iterate v) (load_each f)"

section \<open>The memory of a run\<close>

text \<open>
  The attributes of the pipeline object. Its \<open>Incident\<close> changes during a run: diagnosis may fill
  \<open>teamcity_context\<close> and add labels.
\<close>

record memory =
  me_incident :: Incident
  me_analysis :: pyval
  me_facts :: "FactStore option"
  me_cluster_health :: pyval
  me_gitlab :: pyval
  me_blast_radius :: pyval
  me_statics :: pyval
  me_kg_prompt :: pyval
  me_deploy :: pyval
  me_team_owner :: pyval
  me_snapshot :: pyval
  me_restored :: "pyval list"
  me_collectors :: "pyval list"
  me_similar :: pyval
  me_recurrence :: bool
  me_hypotheses :: "HypothesisSet option"
  me_critiqued :: "HypothesisSet option"
  me_best :: "Hypothesis option"
  me_cause :: pyval
  me_hyp_text :: pyval
  me_jira :: pyval
  me_fix :: pyval
  me_intent :: "ExecutionIntent option"
  me_match :: pyval
  me_executor :: pyval
  me_risk :: pyval
  me_synthesis :: pyval
  me_traces :: "pyval list"

definition new_memory :: "Incident \<Rightarrow> memory" where
  "new_memory incident =
     \<lparr>me_incident = incident, me_analysis = PNone, me_facts = None, me_cluster_health = PNone, me_gitlab = PNone,
      me_blast_radius = PNone, me_statics = PNone, me_kg_prompt = PNone, me_deploy = PNone, me_team_owner = PNone,
      me_snapshot = PNone, me_restored = [], me_collectors = [], me_similar = PList [], me_recurrence = False,
      me_hypotheses = None, me_critiqued = None, me_best = None, me_cause = PStr [], me_hyp_text = PStr [],
      me_jira = PNone, me_fix = PNone, me_intent = None, me_match = PNone, me_executor = PNone, me_risk = PNone,
      me_synthesis = PNone, me_traces = []\<rparr>"

definition collector_summaries :: "memory \<Rightarrow> pyval list" where
  "collector_summaries m = me_restored m @ me_collectors m"

section \<open>Saving\<close>

definition opt_dump :: "('a \<Rightarrow> pyval) \<Rightarrow> 'a option \<Rightarrow> pyval" where
  "opt_dump f o' = (case o' of None \<Rightarrow> PNone | Some x \<Rightarrow> f x)"

definition facts_dump :: "FactStore \<Rightarrow> pyval" where
  "facts_dump facts = PList (map (PDict \<circ> fact_to_dict) facts)"

definition hypotheses_dump :: "HypothesisSet \<Rightarrow> pyval" where
  "hypotheses_dump hs = PList (map (PDict \<circ> hypothesis_dump) hs)"

definition checkpoint_of :: "memory \<Rightarrow> pydict" where
  "checkpoint_of m =
     [(''summary'', me_analysis m), (''teamcity_context'', in_teamcity_context (me_incident m)),
      (''cluster_health_context'', me_cluster_health m), (''gitlab_context'', me_gitlab m),
      (''blast_radius_context'', me_blast_radius m), (''statics_check_context'', me_statics m),
      (''kg_context_prompt'', me_kg_prompt m), (''deploy_correlation'', me_deploy m),
      (''team_owner'', me_team_owner m), (''context_snapshot'', me_snapshot m),
      (''facts'', opt_dump facts_dump (me_facts m)), (''similar_past'', me_similar m),
      (''is_recurrence'', PBool (me_recurrence m)), (''hypotheses_text'', me_hyp_text m),
      (''final_cause'', me_cause m), (''critiqued'', opt_dump hypotheses_dump (me_critiqued m)),
      (''best'', opt_dump (PDict \<circ> hypothesis_dump) (me_best m)), (''jira_context'', me_jira m),
      (''fix_suggestion'', me_fix m), (''execution_intent'', opt_dump (PDict \<circ> model_dump) (me_intent m)),
      (''playbook_match'', me_match m), (''traces'', PList (me_traces m)),
      (''collectors'', PList (collector_summaries m))]"

text \<open>
  \<open>{**(record.analysis or {}), key: cp}\<close>; a truthy value that is not a dict raises, and the failure to
  save is swallowed.
\<close>

definition save_checkpoint :: "memory \<Rightarrow> pyval \<Rightarrow> pyval" where
  "save_checkpoint m analysis =
     (case analysis of
        PDict a \<Rightarrow> PDict (dset a CHECKPOINT_KEY (PDict (checkpoint_of m)))
      | _ \<Rightarrow> if truthy analysis then analysis else PDict [(CHECKPOINT_KEY, PDict (checkpoint_of m))])"

section \<open>Restoring\<close>

text \<open>Whether the checkpoint can be used, and the memory as far as it was filled.\<close>

type_synonym restored = "bool \<times> memory"

definition and_restore :: "restored \<Rightarrow> bool \<Rightarrow> (memory \<Rightarrow> restored) \<Rightarrow> restored" where
  "and_restore r wanted f = (case r of (ok, m) \<Rightarrow> if ok \<and> wanted then f m else r)"

definition restore_analyze :: "pydict \<Rightarrow> memory \<Rightarrow> restored" where
  "restore_analyze cp m =
     (if dget cp ''summary'' = PNone then (False, m) else (True, m\<lparr>me_analysis := dget cp ''summary''\<rparr>))"

definition restore_diagnose :: "pydict \<Rightarrow> memory \<Rightarrow> restored" where
  "restore_diagnose cp m =
     (if dget cp ''facts'' = PNone then (False, m)
      else (case load_all fact_load (dget cp ''facts'') of
              None \<Rightarrow> (False, m)
            | Some facts \<Rightarrow>
                (True, m\<lparr>me_facts := Some facts,
                   me_cluster_health := dget cp ''cluster_health_context'',
                   me_gitlab := dget cp ''gitlab_context'',
                   me_blast_radius := dget cp ''blast_radius_context'',
                   me_statics := dget cp ''statics_check_context'',
                   me_kg_prompt := dget cp ''kg_context_prompt'',
                   me_deploy := dget cp ''deploy_correlation'',
                   me_team_owner := dget cp ''team_owner'',
                   me_snapshot := dget cp ''context_snapshot'',
                   me_incident := (if in_teamcity_context (me_incident m) = PNone
                                   then (me_incident m)\<lparr>in_teamcity_context := dget cp ''teamcity_context''\<rparr>
                                   else me_incident m)\<rparr>)))"

definition restore_critique :: "pydict \<Rightarrow> memory \<Rightarrow> restored" where
  "restore_critique cp m =
     (if dget cp ''critiqued'' = PNone \<or> \<not> truthy (dget cp ''final_cause'') then (False, m)
      else (case load_all hypothesis_load (dget cp ''critiqued'') of
              None \<Rightarrow> (False, m)
            | Some hs \<Rightarrow>
                (let m1 = m\<lparr>me_critiqued := Some hs, me_hypotheses := Some hs\<rparr>;
                     rest = (\<lambda>best. (True, m1\<lparr>me_best := best, me_cause := dget cp ''final_cause'',
                       me_hyp_text := (if truthy (dget cp ''hypotheses_text'') then dget cp ''hypotheses_text'' else PStr []),
                       me_similar := (if truthy (dget cp ''similar_past'') then dget cp ''similar_past'' else PList []),
                       me_recurrence := truthy (dget cp ''is_recurrence'')\<rparr>))
                 in if \<not> truthy (dget cp ''best'') then rest None
                    else (case hypothesis_load (dget cp ''best'') of
                            None \<Rightarrow> (False, m1)
                          | Some b \<Rightarrow> rest (Some b)))))"

definition restore_fix :: "pydict \<Rightarrow> memory \<Rightarrow> restored" where
  "restore_fix cp m =
     (let m1 = m\<lparr>me_jira := dget cp ''jira_context'', me_fix := dget cp ''fix_suggestion''\<rparr>;
          rest = (\<lambda>intent. (True, m1\<lparr>me_intent := intent, me_match := dget cp ''playbook_match''\<rparr>))
      in if \<not> truthy (dget cp ''execution_intent'') then rest None
         else (case model_validate (dget cp ''execution_intent'') of
                 Inl e \<Rightarrow> (False, m1)
               | Inr i \<Rightarrow> rest (Some i)))"

definition is_dict :: "pyval \<Rightarrow> bool" where
  "is_dict v = (case v of PDict d \<Rightarrow> True | _ \<Rightarrow> False)"

definition restore_tail :: "stage set \<Rightarrow> pydict \<Rightarrow> memory \<Rightarrow> restored" where
  "restore_tail completed cp m =
     (True, m\<lparr>me_traces := (case dget cp ''traces'' of PList ts \<Rightarrow> ts | _ \<Rightarrow> me_traces m),
        me_restored := (if Diagnose \<in> completed
                        then (case dget cp ''collectors'' of PList cs \<Rightarrow> filter is_dict cs | _ \<Rightarrow> []) else [])\<rparr>)"

definition restore_from :: "stage set \<Rightarrow> pydict \<Rightarrow> memory \<Rightarrow> restored" where
  "restore_from completed cp m =
     and_restore (and_restore (and_restore (and_restore (and_restore (True, m\<lparr>me_restored := []\<rparr>)
       (Analyze \<in> completed) (restore_analyze cp))
       (Diagnose \<in> completed) (restore_diagnose cp))
       (Critique \<in> completed) (restore_critique cp))
       (Fix \<in> completed) (restore_fix cp))
       True (restore_tail completed cp)"

definition restore_checkpoint :: "stage set \<Rightarrow> pyval \<Rightarrow> memory \<Rightarrow> restored" where
  "restore_checkpoint completed analysis m =
     (case analysis of
        PDict a \<Rightarrow> (case dget a CHECKPOINT_KEY of PDict cp \<Rightarrow> restore_from completed cp m | _ \<Rightarrow> (False, m))
      | _ \<Rightarrow> (False, m))"

section \<open>What a checkpoint keeps\<close>

lemma opt_of_dump [simp]: "opt_of_str (opt_pystr s) = Some s" "opt_of_int (opt_pyint n) = Some n"
  by (cases s; cases n; simp add: opt_pystr_def opt_pyint_def)+

lemma strings_of_dump [simp]: "strings_of (map PStr xs) = Some xs"
  by (induction xs) simp_all

lemma fact_load_dump:
  assumes "fact_wf f"
  shows "fact_load (PDict (fact_to_dict f)) = Some f"
proof -
  have "post_init f = Inr f" using assms by (simp add: fact_wf_def)
  then show ?thesis
    by (cases f) (simp add: fact_load_def fact_to_dict_def FACT_FIELDS_def has_key_def)
qed

lemma hypothesis_load_dump:
  assumes "hyp_ok h"
  shows "hypothesis_load (PDict (hypothesis_dump h)) = Some h"
proof -
  have "p_confidence (PFloat (hy_confidence h)) = Some (hy_confidence h)"
    using assms by (simp add: p_confidence_def hyp_ok_def)
  then show ?thesis
    using assms by (simp add: hypothesis_load_def hypothesis_dump_def p_hypothesis_def setdefault_def has_key_def
        at_least_one_anchor_def hyp_ok_def)
qed

lemma load_each_dump: "(\<And>x. x \<in> set xs \<Longrightarrow> f (g x) = Some x) \<Longrightarrow> load_each f (map g xs) = Some xs"
  by (induction xs) simp_all

lemma load_facts: "\<forall>f\<in>set facts. fact_wf f \<Longrightarrow> load_all fact_load (facts_dump facts) = Some facts"
  unfolding load_all_def facts_dump_def comp_def
  by (simp add: load_each_dump fact_load_dump)

lemma load_hypotheses: "\<forall>h\<in>set hs. hyp_ok h \<Longrightarrow> load_all hypothesis_load (hypotheses_dump hs) = Some hs"
  unfolding load_all_def hypotheses_dump_def comp_def
  by (simp add: load_each_dump hypothesis_load_dump)

text \<open>A memory as the stages up to the given ones leave it.\<close>

definition memory_ok :: "stage set \<Rightarrow> memory \<Rightarrow> bool" where
  "memory_ok completed m \<longleftrightarrow>
     (Analyze \<in> completed \<longrightarrow> me_analysis m \<noteq> PNone) \<and>
     (Diagnose \<in> completed \<longrightarrow> (\<exists>facts. me_facts m = Some facts \<and> (\<forall>f\<in>set facts. fact_wf f)) \<and>
        list_all is_dict (collector_summaries m)) \<and>
     (Critique \<in> completed \<longrightarrow> (\<exists>hs. me_critiqued m = Some hs \<and> (\<forall>h\<in>set hs. hyp_ok h)) \<and>
        (\<forall>h. me_best m = Some h \<longrightarrow> hyp_ok h) \<and> truthy (me_cause m) \<and>
        (\<exists>s. me_hyp_text m = PStr s) \<and> (\<exists>xs. me_similar m = PList xs)) \<and>
     (Fix \<in> completed \<longrightarrow> (\<forall>i. me_intent m = Some i \<longrightarrow> model_validate (PDict (model_dump i)) = Inr i))"

text \<open>
  The memory after a restore: what the completed stages produced comes from the saved memory, the rest from
  the fresh one.
\<close>

definition resumed :: "stage set \<Rightarrow> memory \<Rightarrow> memory \<Rightarrow> memory" where
  "resumed completed saved m =
     (let m1 = (if Analyze \<in> completed then m\<lparr>me_analysis := me_analysis saved\<rparr> else m);
          m2 = (if Diagnose \<in> completed
                then m1\<lparr>me_facts := me_facts saved, me_cluster_health := me_cluster_health saved,
                  me_gitlab := me_gitlab saved, me_blast_radius := me_blast_radius saved,
                  me_statics := me_statics saved, me_kg_prompt := me_kg_prompt saved, me_deploy := me_deploy saved,
                  me_team_owner := me_team_owner saved, me_snapshot := me_snapshot saved,
                  me_incident := (if in_teamcity_context (me_incident m) = PNone
                    then (me_incident m)\<lparr>in_teamcity_context := in_teamcity_context (me_incident saved)\<rparr>
                    else me_incident m)\<rparr>
                else m1);
          m3 = (if Critique \<in> completed
                then m2\<lparr>me_critiqued := me_critiqued saved, me_hypotheses := me_critiqued saved,
                  me_best := me_best saved, me_cause := me_cause saved, me_hyp_text := me_hyp_text saved,
                  me_similar := me_similar saved, me_recurrence := me_recurrence saved\<rparr>
                else m2);
          m4 = (if Fix \<in> completed
                then m3\<lparr>me_jira := me_jira saved, me_fix := me_fix saved, me_intent := me_intent saved,
                  me_match := me_match saved\<rparr>
                else m3)
      in m4\<lparr>me_traces := me_traces saved,
           me_restored := (if Diagnose \<in> completed then collector_summaries saved else [])\<rparr>)"

lemma checkpoint_get [simp]:
  "dget (checkpoint_of m) ''summary'' = me_analysis m"
  "dget (checkpoint_of m) ''teamcity_context'' = in_teamcity_context (me_incident m)"
  "dget (checkpoint_of m) ''cluster_health_context'' = me_cluster_health m"
  "dget (checkpoint_of m) ''gitlab_context'' = me_gitlab m"
  "dget (checkpoint_of m) ''blast_radius_context'' = me_blast_radius m"
  "dget (checkpoint_of m) ''statics_check_context'' = me_statics m"
  "dget (checkpoint_of m) ''kg_context_prompt'' = me_kg_prompt m"
  "dget (checkpoint_of m) ''deploy_correlation'' = me_deploy m"
  "dget (checkpoint_of m) ''team_owner'' = me_team_owner m"
  "dget (checkpoint_of m) ''context_snapshot'' = me_snapshot m"
  "dget (checkpoint_of m) ''facts'' = opt_dump facts_dump (me_facts m)"
  "dget (checkpoint_of m) ''similar_past'' = me_similar m"
  "dget (checkpoint_of m) ''is_recurrence'' = PBool (me_recurrence m)"
  "dget (checkpoint_of m) ''hypotheses_text'' = me_hyp_text m"
  "dget (checkpoint_of m) ''final_cause'' = me_cause m"
  "dget (checkpoint_of m) ''critiqued'' = opt_dump hypotheses_dump (me_critiqued m)"
  "dget (checkpoint_of m) ''best'' = opt_dump (PDict \<circ> hypothesis_dump) (me_best m)"
  "dget (checkpoint_of m) ''jira_context'' = me_jira m"
  "dget (checkpoint_of m) ''fix_suggestion'' = me_fix m"
  "dget (checkpoint_of m) ''execution_intent'' = opt_dump (PDict \<circ> model_dump) (me_intent m)"
  "dget (checkpoint_of m) ''playbook_match'' = me_match m"
  "dget (checkpoint_of m) ''traces'' = PList (me_traces m)"
  "dget (checkpoint_of m) ''collectors'' = PList (collector_summaries m)"
  by (simp_all add: checkpoint_of_def)

lemma and_restore_step: "(wanted \<Longrightarrow> f m = (True, m')) \<Longrightarrow>
    and_restore (True, m) wanted f = (True, if wanted then m' else m)"
  by (simp add: and_restore_def)

lemma restore_analyze_dump: "me_analysis s \<noteq> PNone \<Longrightarrow>
    restore_analyze (checkpoint_of s) m = (True, m\<lparr>me_analysis := me_analysis s\<rparr>)"
  by (simp add: restore_analyze_def)

lemma restore_diagnose_dump:
  assumes "me_facts s = Some facts" and "\<forall>f\<in>set facts. fact_wf f"
  shows "restore_diagnose (checkpoint_of s) m =
    (True, m\<lparr>me_facts := me_facts s, me_cluster_health := me_cluster_health s, me_gitlab := me_gitlab s,
       me_blast_radius := me_blast_radius s, me_statics := me_statics s, me_kg_prompt := me_kg_prompt s,
       me_deploy := me_deploy s, me_team_owner := me_team_owner s, me_snapshot := me_snapshot s,
       me_incident := (if in_teamcity_context (me_incident m) = PNone
         then (me_incident m)\<lparr>in_teamcity_context := in_teamcity_context (me_incident s)\<rparr> else me_incident m)\<rparr>)"
  using assms by (simp add: restore_diagnose_def opt_dump_def load_facts) (simp add: facts_dump_def)

lemma restore_critique_dump:
  assumes "me_critiqued s = Some hs" and "\<forall>h\<in>set hs. hyp_ok h" and "\<forall>h. me_best s = Some h \<longrightarrow> hyp_ok h"
    and "truthy (me_cause s)" and "me_hyp_text s = PStr t" and "me_similar s = PList xs"
  shows "restore_critique (checkpoint_of s) m =
    (True, m\<lparr>me_critiqued := me_critiqued s, me_hypotheses := me_critiqued s, me_best := me_best s,
       me_cause := me_cause s, me_hyp_text := me_hyp_text s, me_similar := me_similar s,
       me_recurrence := me_recurrence s\<rparr>)"
proof -
  have "opt_dump hypotheses_dump (me_critiqued s) \<noteq> PNone"
    "load_all hypothesis_load (opt_dump hypotheses_dump (me_critiqued s)) = Some hs"
    using assms(1,2) by (simp_all add: opt_dump_def load_hypotheses) (simp add: hypotheses_dump_def)
  moreover have "hypothesis_dump h \<noteq> []" for h by (simp add: hypothesis_dump_def)
  ultimately show ?thesis
    using assms by (cases "me_best s") (simp_all add: restore_critique_def Let_def opt_dump_def hypothesis_load_dump)
qed

lemma restore_fix_dump:
  assumes "\<forall>i. me_intent s = Some i \<longrightarrow> model_validate (PDict (model_dump i)) = Inr i"
  shows "restore_fix (checkpoint_of s) m =
    (True, m\<lparr>me_jira := me_jira s, me_fix := me_fix s, me_intent := me_intent s, me_match := me_match s\<rparr>)"
proof -
  have "model_dump i \<noteq> []" for i by (simp add: model_dump_def)
  then show ?thesis
    using assms by (cases "me_intent s") (simp_all add: restore_fix_def Let_def opt_dump_def)
qed

lemma restore_from_dump:
  assumes "memory_ok completed s"
  shows "restore_from completed (checkpoint_of s) m = (True, resumed completed s m)"
proof -
  have a: "restore_analyze (checkpoint_of s) k = (True, k\<lparr>me_analysis := me_analysis s\<rparr>)" if "Analyze \<in> completed" for k
    using assms that by (intro restore_analyze_dump) (simp add: memory_ok_def)
  obtain facts where f: "Diagnose \<in> completed \<Longrightarrow> me_facts s = Some facts \<and> (\<forall>f\<in>set facts. fact_wf f)"
    using assms by (auto simp: memory_ok_def)
  obtain hs t xs where h: "Critique \<in> completed \<Longrightarrow> me_critiqued s = Some hs \<and> (\<forall>h\<in>set hs. hyp_ok h) \<and>
      (\<forall>h. me_best s = Some h \<longrightarrow> hyp_ok h) \<and> truthy (me_cause s) \<and> me_hyp_text s = PStr t \<and> me_similar s = PList xs"
    using assms unfolding memory_ok_def by blast
  have i: "Fix \<in> completed \<Longrightarrow> \<forall>i. me_intent s = Some i \<longrightarrow> model_validate (PDict (model_dump i)) = Inr i"
    using assms by (simp add: memory_ok_def)
  have c: "Diagnose \<in> completed \<Longrightarrow> filter is_dict (collector_summaries s) = collector_summaries s"
    using assms by (auto simp: memory_ok_def list_all_iff intro: filter_True)
  show ?thesis
    using a restore_diagnose_dump [of s facts] restore_critique_dump [of s hs t xs] restore_fix_dump [of s] f h i c
    by (auto simp: restore_from_def and_restore_def restore_tail_def resumed_def Let_def split: if_splits)
qed

end
