(* ===== verification/Pipeline_Stages.thy ===== *)
theory Pipeline_Stages
  imports Checkpoint Fact_Critic Rules Bridge
begin

text \<open>
  The stages of \<open>IncidentPipeline\<close> (\<open>workers/pipeline.py\<close>). The agents, the clients and the graph answer
  through the environment, each as a function of what the code gives it; hypotheses, critic, diagnostic rules,
  playbooks and the dry run are those of the other theories. The session is that of \<open>Report_Delivery\<close>: it
  never reloads the row by itself (\<open>expire_on_commit=False\<close>), and what other sessions commit while a
  stage runs is an argument. The four enrichments that the code gathers write different keys of the
  context and run in order here. Audit events, spans and metrics are left out. Words outside of Latin-1
  are arguments.
\<close>

section \<open>Environment and state\<close>

datatype run_stage =
    S_Populate | S_Analyze | S_Diagnose | S_Hypothesize | S_Critique | S_Jira | S_Fix | S_Risk | S_Executor | S_Synthesize

text \<open>
  What an agent or the database may raise: an exception of \<open>RETRIABLE_EXC\<close> or another, with its type and
  its text. A stage that hits its time cap raises \<open>PipelineStageTimeout\<close>, which is final. A run may also
  end with the control-flow signal.
\<close>

datatype failure = Retriable string string | Final string string

datatype run_exn = IncidentResolvedExternally | Failed failure

record found_deploy =
  fd_started :: int
  fd_finished :: "int option"

record 'r pipeline_env =
  pp_bridge :: "'r bridge_env"
  pp_denv :: denv
  pp_now :: int
  pp_others :: "run_stage \<Rightarrow> incident_record \<Rightarrow> incident_record"
  pp_snapshot :: "string \<Rightarrow> pydict"
  pp_populates :: bool
  pp_analyze :: "Incident \<Rightarrow> failure + pyval"
  pp_teamcity :: "Incident \<Rightarrow> pyval"
  pp_gitlab :: "pyval \<Rightarrow> pyval"
  pp_build_ctx :: "Incident \<Rightarrow> pyval \<Rightarrow> failure + pydict \<times> pyval list"
  pp_enrich_k8s :: "Incident \<Rightarrow> pydict \<Rightarrow> pydict \<times> pyval list"
  pp_enrich_vm :: "Incident \<Rightarrow> pydict \<Rightarrow> pydict \<times> pyval list \<times> pyval"
  pp_blast_radius :: "string \<Rightarrow> string \<Rightarrow> pyval"
  pp_statics :: "string \<Rightarrow> pyval"
  pp_service :: "string \<Rightarrow> string \<Rightarrow> (int \<times> string option) option"
  pp_correlate :: "int \<Rightarrow> pyval \<Rightarrow> pydict option"
  pp_resolve_target :: "(string \<times> string) list \<Rightarrow> string option \<times> string option"
  pp_deploy_since :: "int \<Rightarrow> int \<Rightarrow> found_deploy option"
  pp_context_snapshot :: "pydict \<Rightarrow> FactStore \<Rightarrow> pyval"
  pp_kg_prompt :: "pyval \<Rightarrow> pyval"
  pp_pairs :: "(string \<times> string) list"
  pp_similar :: "failure + pydict list"
  pp_flap_note :: "int \<Rightarrow> string"
  pp_dash :: string
  pp_teamcity_prompt :: "pyval \<Rightarrow> pyval"
  pp_gitlab_prompt :: "pyval \<Rightarrow> pyval"
  pp_json :: json_reader
  pp_ask_perspective :: "string \<Rightarrow> FactStore \<Rightarrow> string \<Rightarrow> answer"
  pp_critic :: critic_settings
  pp_ask_critic :: "FactStore \<Rightarrow> nat \<Rightarrow> Hypothesis \<Rightarrow> answer"
  pp_ask_batch :: "FactStore \<Rightarrow> nat \<Rightarrow> Hypothesis list \<Rightarrow> batch_call"
  pp_facts_prompt :: "FactStore \<Rightarrow> string"
  pp_jira_configured :: bool
  pp_jira :: "string \<Rightarrow> string option \<Rightarrow> pyval option"
  pp_suggest :: "pyval \<Rightarrow> bool \<Rightarrow> pyval \<Rightarrow> Playbook list option \<Rightarrow> failure + pyval \<times> ExecutionIntent option"
  pp_assess :: "pyval \<Rightarrow> failure + pyval"
  pp_error_text :: "string \<Rightarrow> string"
  pp_synthesize :: "pyval \<Rightarrow> pyval \<Rightarrow> pyval \<Rightarrow> pyval \<Rightarrow> pyval \<Rightarrow> failure + pyval"
  pp_incident_ts :: "string \<Rightarrow> pyval"
  pp_disagreement :: string
  pp_coverage :: "pyval list \<Rightarrow> pyval"
  pp_recurrence_counts :: "string \<Rightarrow> Incident \<Rightarrow> int \<times> int"
  ROLLOUT_SUPPRESS_ENABLED :: bool
  ROLLOUT_SUPPRESS_WINDOW_MINUTES :: int
  SUPPRESSED_ALERT_SHORT_CIRCUIT :: bool

record 'r run_state =
  rs_memory :: memory
  rs_delivery :: delivery
  rs_world :: "'r kworld"
  rs_ran :: "run_stage list"

type_synonym 'r run_result = "(run_exn + unit) \<times> 'r run_state"

definition in_memory :: "(memory \<Rightarrow> memory) \<Rightarrow> 'r run_state \<Rightarrow> 'r run_state" where
  "in_memory f st = st\<lparr>rs_memory := f (rs_memory st)\<rparr>"

text \<open>A stage starts: other sessions may commit while it runs.\<close>

definition begin_stage :: "'r pipeline_env \<Rightarrow> run_stage \<Rightarrow> 'r run_state \<Rightarrow> 'r run_state" where
  "begin_stage env s st =
     st\<lparr>rs_delivery := (rs_delivery st)\<lparr>rd_row := pp_others env s (rd_row (rs_delivery st))\<rparr>,
        rs_ran := rs_ran st @ [s]\<rparr>"

section \<open>Transitions\<close>

definition database_error :: failure where
  "database_error = Retriable ''OperationalError'' []"

definition put_object :: "orm_object \<Rightarrow> 'r run_state \<Rightarrow> 'r run_state" where
  "put_object obj st = st\<lparr>rs_delivery := (rs_delivery st)\<lparr>rd_record := Some obj\<rparr>\<rparr>"

text \<open>\<open>db.commit()\<close>\<close>

definition commit_record :: "'r pipeline_env \<Rightarrow> 'r run_state \<Rightarrow> 'r run_result" where
  "commit_record env st =
     (case rd_record (rs_delivery st) of
        None \<Rightarrow> (Inr (), st)
      | Some obj \<Rightarrow>
          (case o_commit (de_orm (pp_denv env)) (rd_row (rs_delivery st)) obj of
             None \<Rightarrow> (Inl (Failed database_error), st)
           | Some (row, obj') \<Rightarrow>
               (Inr (), st\<lparr>rs_delivery := (rs_delivery st)\<lparr>rd_row := row, rd_record := Some obj'\<rparr>\<rparr>)))"

definition rollback_record :: "'r pipeline_env \<Rightarrow> 'r run_state \<Rightarrow> 'r run_state" where
  "rollback_record env st =
     (case rd_record (rs_delivery st) of
        None \<Rightarrow> st
      | Some obj \<Rightarrow> put_object (o_rollback (de_orm (pp_denv env)) (rd_row (rs_delivery st)) obj) st)"

definition exn_of :: "exn \<Rightarrow> failure" where
  "exn_of e = Final (exn_name e) (case e of ValueError s \<Rightarrow> s | PermissionError s \<Rightarrow> s | _ \<Rightarrow> [])"

definition commit_transition :: "'r pipeline_env \<Rightarrow> orm_object \<Rightarrow> IncidentState \<Rightarrow> 'r run_state \<Rightarrow> 'r run_result" where
  "commit_transition env obj new_state st =
     (case transition_to (oo_now obj) new_state of
        Inl e \<Rightarrow> (Inl (Failed (exn_of e)), put_object obj st)
      | Inr rec \<Rightarrow>
          if rec = oo_now obj then (Inr (), put_object obj st)
          else commit_record env (put_object (obj\<lparr>oo_now := rec\<rparr>) st))"

definition closed :: "IncidentState \<Rightarrow> bool" where
  "closed s \<longleftrightarrow> s = RESOLVED \<or> s = TRIAGE_REQUIRED"

definition with_checkpoint :: "memory \<Rightarrow> IncidentState \<Rightarrow> orm_object \<Rightarrow> orm_object" where
  "with_checkpoint m new_state obj =
     (if pipeline_state_order new_state = None then obj
      else obj\<lparr>oo_now := (oo_now obj)\<lparr>ir_analysis := save_checkpoint m (ir_analysis (oo_now obj))\<rparr>\<rparr>)"

definition safe_transition :: "'r pipeline_env \<Rightarrow> IncidentState \<Rightarrow> 'r run_state \<Rightarrow> 'r run_result" where
  "safe_transition env new_state st =
     (case rd_record (rs_delivery st) of
        None \<Rightarrow> (Inr (), st)
      | Some obj \<Rightarrow>
          (let current = current_state (oo_now obj) in
           if closed current \<and> current \<noteq> new_state then (Inl IncidentResolvedExternally, st)
           else commit_transition env (with_checkpoint (rs_memory st) new_state obj) new_state st))"

definition has_record :: "'r run_state \<Rightarrow> bool" where
  "has_record st \<longleftrightarrow> rd_record (rs_delivery st) \<noteq> None"

text \<open>The trace of a stage; the transition adds the state it led to.\<close>

definition stage_trace :: "'r pipeline_env \<Rightarrow> string \<Rightarrow> IncidentState option \<Rightarrow> pyval" where
  "stage_trace env name after_state =
     PDict (case after_state of
              None \<Rightarrow> pp_snapshot env name
            | Some s \<Rightarrow> dset (pp_snapshot env name) ''state_after'' (PStr (state_value s)))"

definition add_trace :: "pyval \<Rightarrow> memory \<Rightarrow> memory" where
  "add_trace t m = m\<lparr>me_traces := me_traces m @ [t]\<rparr>"

definition finish_stage :: "'r pipeline_env \<Rightarrow> string \<Rightarrow> IncidentState \<Rightarrow> 'r run_state \<Rightarrow> 'r run_result" where
  "finish_stage env name new_state st =
     (case safe_transition env new_state st of
        (Inl e, st1) \<Rightarrow> (Inl e, st1)
      | (Inr _, st1) \<Rightarrow>
          (Inr (), in_memory (add_trace (stage_trace env name (if has_record st then Some new_state else None))) st1))"

section \<open>Population and analysis\<close>

definition populate_kg :: "'r pipeline_env \<Rightarrow> 'r run_state \<Rightarrow> 'r run_state" where
  "populate_kg env st =
     (if \<not> pp_populates env then rollback_record env st
      else (case commit_record env st of (Inr _, st1) \<Rightarrow> st1 | (Inl _, st1) \<Rightarrow> rollback_record env st1))"

definition stage_analyze :: "'r pipeline_env \<Rightarrow> 'r run_state \<Rightarrow> 'r run_result" where
  "stage_analyze env st =
     (case pp_analyze env (me_incident (rs_memory st)) of
        Inl e \<Rightarrow> (Inl (Failed e), st)
      | Inr summary \<Rightarrow>
          finish_stage env ''analyzer'' INVESTIGATING (in_memory (\<lambda>m. m\<lparr>me_analysis := summary\<rparr>) st))"

section \<open>Diagnosis\<close>

definition ROLLOUT_NOISE_ALERTNAMES :: "string list" where
  "ROLLOUT_NOISE_ALERTNAMES =
     [''KubeDeploymentGenerationMismatch'', ''KubeDeploymentReplicasMismatch'', ''KubeContainerWaiting'']"

definition ROLLOUT_NOISE_NEVER_SUPPRESS :: "string list" where
  "ROLLOUT_NOISE_NEVER_SUPPRESS = [''KubePodCrashLooping'', ''KubeJobFailed'', ''TargetDown'', ''KubePodNotReady'']"

definition label :: "Incident \<Rightarrow> string \<Rightarrow> string option" where
  "label inc k = map_of (in_labels inc) k"

definition set_label :: "string \<Rightarrow> string \<Rightarrow> Incident \<Rightarrow> Incident" where
  "set_label k v inc = inc\<lparr>in_labels := AList.update k v (in_labels inc)\<rparr>"

definition enrich_teamcity :: "'r pipeline_env \<Rightarrow> Incident \<Rightarrow> Incident" where
  "enrich_teamcity env inc =
     (if in_teamcity_context inc \<noteq> PNone then inc
      else (let tc = pp_teamcity env inc in if truthy tc then inc\<lparr>in_teamcity_context := tc\<rparr> else inc))"

definition enrich_gitlab :: "'r pipeline_env \<Rightarrow> memory \<Rightarrow> memory" where
  "enrich_gitlab env m =
     (let gl = pp_gitlab env (in_teamcity_context (me_incident m)) in if truthy gl then m\<lparr>me_gitlab := gl\<rparr> else m)"

definition enrich_clickhouse :: "'r pipeline_env \<Rightarrow> pydict \<times> memory \<Rightarrow> pydict \<times> memory" where
  "enrich_clickhouse env cm =
     (case cm of (ctx, m) \<Rightarrow>
        (case nonempty (in_namespace (me_incident m)) of
           None \<Rightarrow> cm
         | Some ns \<Rightarrow>
             if in_starts_at (me_incident m) = [] then cm
             else (let blast = pp_blast_radius env ns (in_starts_at (me_incident m)) in
                   if truthy blast then (dset ctx ''blast_radius'' blast, m\<lparr>me_blast_radius := blast\<rparr>) else cm)))"

definition enrich_statics :: "'r pipeline_env \<Rightarrow> pydict \<times> memory \<Rightarrow> pydict \<times> memory" where
  "enrich_statics env cm =
     (case cm of (ctx, m) \<Rightarrow>
        (let inc = me_incident m;
             error_text = (case nonempty (map_of (in_annotations inc) ''description'') of
                             Some s \<Rightarrow> s | None \<Rightarrow> in_description inc)
         in if error_text = [] then cm
            else (let check = pp_statics env error_text in
                  if truthy check then (dset ctx ''statics_check'' check, m\<lparr>me_statics := check\<rparr>) else cm)))"

definition enrich_deploy_correlation :: "'r pipeline_env \<Rightarrow> pydict \<times> memory \<Rightarrow> pydict \<times> memory" where
  "enrich_deploy_correlation env cm =
     (case cm of (ctx, m) \<Rightarrow>
        (case (nonempty (in_namespace (me_incident m)), nonempty (label (me_incident m) ''service'')) of
           (Some ns, Some name) \<Rightarrow>
             (case (dget ctx ''incident_starts_at'', pp_service env ns name) of
                (PNone, _) \<Rightarrow> cm
              | (_, None) \<Rightarrow> cm
              | (ts, Some (sid, owner)) \<Rightarrow>
                  (case pp_correlate env sid ts of
                     None \<Rightarrow> cm
                   | Some result \<Rightarrow>
                       (dset ctx ''deploy_correlation'' (PDict result),
                        m\<lparr>me_deploy := PDict result,
                          me_team_owner := (case nonempty owner of Some o' \<Rightarrow> PStr o' | None \<Rightarrow> me_team_owner m)\<rparr>)))
         | _ \<Rightarrow> cm))"

text \<open>The rollout behind an alert: one that started in the window and has not a finish five minutes before its start.\<close>

definition active_rollout :: "'r pipeline_env \<Rightarrow> Incident \<Rightarrow> found_deploy option" where
  "active_rollout env inc =
     (case pp_resolve_target env (in_labels inc) of
        (resolved_ns, resolved_svc) \<Rightarrow>
          (case (nonempty (str_or resolved_ns (in_namespace inc)),
                 nonempty (str_or resolved_svc (str_or (label inc ''service'') (label inc ''app'')))) of
             (Some ns, Some name) \<Rightarrow>
               (case pp_service env ns name of
                  None \<Rightarrow> None
                | Some (sid, _) \<Rightarrow>
                    (case pp_deploy_since env sid
                            (pp_now env - max 1 (ROLLOUT_SUPPRESS_WINDOW_MINUTES env) * 60 * 1000000) of
                       None \<Rightarrow> None
                     | Some deploy \<Rightarrow>
                         (case fd_finished deploy of
                            Some finished \<Rightarrow> if finished < fd_started deploy - 5 * 60 * 1000000 then None else Some deploy
                          | None \<Rightarrow> Some deploy)))
           | _ \<Rightarrow> None))"

definition filter_rollout_noise :: "'r pipeline_env \<Rightarrow> pydict \<times> memory \<Rightarrow> pydict \<times> memory" where
  "filter_rollout_noise env cm =
     (case cm of (ctx, m) \<Rightarrow>
        (let inc = me_incident m; alertname = (case label inc ''alertname'' of Some a \<Rightarrow> a | None \<Rightarrow> []) in
         if \<not> ROLLOUT_SUPPRESS_ENABLED env \<or> alertname \<notin> set ROLLOUT_NOISE_ALERTNAMES
           \<or> alertname \<in> set ROLLOUT_NOISE_NEVER_SUPPRESS then cm
         else (case active_rollout env inc of
                 None \<Rightarrow> cm
               | Some deploy \<Rightarrow>
                   (dset ctx ''rollout_suppressed'' (PBool True),
                    m\<lparr>me_incident := set_label ''original_severity'' (in_severity inc)
                        (set_label ''suppress_reason'' ''active_rollout'' (inc\<lparr>in_severity := ''info''\<rparr>))\<rparr>))))"

definition KG_CTX_KEY :: string where "KG_CTX_KEY = ''kg_incident_context''"

definition diagnose :: "'r pipeline_env \<Rightarrow> memory \<Rightarrow> failure + memory" where
  "diagnose env m =
     (let m1 = enrich_gitlab env (m\<lparr>me_incident := enrich_teamcity env (me_incident m)\<rparr>) in
      case pp_build_ctx env (me_incident m1) (me_analysis m1) of
        Inl e \<Rightarrow> Inl e
      | Inr (ctx0, runs) \<Rightarrow>
          (case pp_enrich_k8s env (me_incident m1) ctx0 of (ctx1, k8s_runs) \<Rightarrow>
           (case pp_enrich_vm env (me_incident m1) ctx1 of (ctx2, vm_runs, health) \<Rightarrow>
              (let m2 = m1\<lparr>me_collectors := me_collectors m1 @ runs @ k8s_runs @ vm_runs,
                          me_cluster_health := (if health = PNone then me_cluster_health m1 else health)\<rparr>
               in case filter_rollout_noise env (enrich_deploy_correlation env
                         (enrich_statics env (enrich_clickhouse env (ctx2, m2)))) of
                    (ctx, m3) \<Rightarrow>
                      (let facts = engine_run (pp_pairs env) (DEFAULT_RULES (ve_time (bv_verify (pp_bridge env)))) ctx in
                       Inr (m3\<lparr>me_facts := Some facts, me_snapshot := pp_context_snapshot env ctx facts,
                               me_kg_prompt := pp_kg_prompt env (dget ctx KG_CTX_KEY)\<rparr>))))))"

definition stage_diagnose :: "'r pipeline_env \<Rightarrow> 'r run_state \<Rightarrow> 'r run_result" where
  "stage_diagnose env st =
     (case diagnose env (rs_memory st) of
        Inl e \<Rightarrow> (Inl (Failed e), st)
      | Inr m \<Rightarrow> finish_stage env ''diagnostics'' FACTS_COLLECTED (st\<lparr>rs_memory := m\<rparr>))"

section \<open>Hypotheses and critic\<close>

definition blank_line :: string where "blank_line = [CHR 0x0A, CHR 0x0A]"

definition add_block :: "pyval \<Rightarrow> string \<Rightarrow> string" where
  "add_block v summary = (if truthy v then summary @ blank_line @ py_str v else summary)"

definition past_line :: "pydict \<Rightarrow> string" where
  "past_line p =
     ''- score='' @ py_str (if has_key p ''score'' then dget p ''score'' else PStr ''?'') @ '' cause='' @
     take 200 (if truthy (dget p ''root_cause'') then py_str (dget p ''root_cause'') else ''?'') @
     (if \<not> truthy (dget p ''recurrence'') then []
      else if dget p ''days_ago'' \<noteq> PNone then '' [RECURRENCE: '' @ py_str (dget p ''days_ago'') @ ''d ago]''
      else '' [RECURRENCE]'')"

definition add_past :: "pydict list \<Rightarrow> string \<Rightarrow> string" where
  "add_past past summary =
     (if past = [] then summary
      else summary @ blank_line @
        ''Similar past resolutions (consider as patterns, verify against current facts):'' @ [CHR 0x0A] @
        join [CHR 0x0A] (map past_line past))"

definition hypothesis_summary :: "'r pipeline_env \<Rightarrow> memory \<Rightarrow> pydict list \<Rightarrow> string" where
  "hypothesis_summary env m past =
     (let inc = me_incident m; summary = py_str (me_analysis m) in
      add_past past
        (add_block (me_kg_prompt m)
        (add_block (me_statics m)
        (add_block (me_blast_radius m)
        (add_block (pp_gitlab_prompt env (me_gitlab m))
        (add_block (pp_teamcity_prompt env (in_teamcity_context inc))
        (add_block (me_cluster_health m)
          (if 0 < in_flap_count inc then pp_flap_note env (in_flap_count inc) @ blank_line @ summary else summary))))))))"

definition stage_exn_of :: "stage_exn \<Rightarrow> failure" where
  "stage_exn_of e =
     (case e of LLMTruncatedResponse \<Rightarrow> Final ''LLMTruncatedResponse'' [] | MissingRecording \<Rightarrow> Final ''MissingRecording'' [])"

definition facts_of :: "memory \<Rightarrow> FactStore" where
  "facts_of m = (case me_facts m of Some facts \<Rightarrow> facts | None \<Rightarrow> [])"

definition stage_hypothesize :: "'r pipeline_env \<Rightarrow> 'r run_state \<Rightarrow> 'r run_result" where
  "stage_hypothesize env st =
     (case pp_similar env of
        Inl e \<Rightarrow> (Inl (Failed e), st)
      | Inr past \<Rightarrow>
          (let m = (rs_memory st)\<lparr>me_similar := PList (map PDict past),
                     me_recurrence := list_ex (\<lambda>p. truthy (dget p ''recurrence'')) past\<rparr>;
               st1 = st\<lparr>rs_memory := m\<rparr>
           in case generate (pp_json env)
                  (pp_ask_perspective env (hypothesis_summary env m past) (facts_of m)) (facts_of m) of
                Inl e \<Rightarrow> (Inl (Failed (stage_exn_of e)), st1)
              | Inr hyps \<Rightarrow>
                  (Inr (), in_memory (\<lambda>m. (add_trace (stage_trace env ''hypothesis'' None) m)\<lparr>me_hypotheses := Some hyps\<rparr>) st1)))"

definition confidence_text :: "Hypothesis \<Rightarrow> string" where
  "confidence_text h = (case as_num (PFloat (hy_confidence h)) of Some c \<Rightarrow> fmt2 c | None \<Rightarrow> [])"

definition survivor_lines :: "Hypothesis \<Rightarrow> string list" where
  "survivor_lines h =
     [''[SURVIVED] perspective='' @ hy_perspective h @ '' conf='' @ confidence_text h, ''  cause: '' @ hy_cause h] @
     (if hy_detail h = [] then [] else [''  detail: '' @ hy_detail h]) @
     [''  anchored_facts: '' @ py_repr (PList (map PStr (hy_anchored_facts h)))]"

definition refuted_lines :: "Hypothesis \<Rightarrow> string list" where
  "refuted_lines h =
     [''[REFUTED]  perspective='' @ hy_perspective h @ '' conf='' @ confidence_text h, ''  cause: '' @ hy_cause h,
      ''  refuted_by: '' @ py_repr (PList (map PStr (hy_refutations h)))]"

definition serialize_hypotheses :: "'r pipeline_env \<Rightarrow> HypothesisSet \<Rightarrow> FactStore \<Rightarrow> string" where
  "serialize_hypotheses env hyps facts =
     join [CHR 0x0A]
       ([''=== HYPOTHESES (fact-anchored multi-perspective) ===''] @
        (if survivors hyps = [] \<and> refuted hyps = []
         then [''(no hypotheses produced'' @ pp_dash env @ ''facts may be insufficient)''] else []) @
        concat (map survivor_lines (survivors hyps)) @ concat (map refuted_lines (refuted hyps)) @
        ['''', pp_facts_prompt env facts])"

definition final_cause :: "'r pipeline_env \<Rightarrow> FactStore \<Rightarrow> Hypothesis option \<Rightarrow> string" where
  "final_cause env facts best =
     (case best of
        None \<Rightarrow>
          ''No hypothesis survived adversarial critique. Observed facts: '' @
          py_repr (PList (map PStr (sort (remdups (map fc_kind (filter fc_observed facts)))))) @
          ''. Manual triage required.''
      | Some h \<Rightarrow> hy_cause h @ (if hy_detail h = [] then [] else pp_dash env @ hy_detail h))"

definition after_critique :: "'r pipeline_env \<Rightarrow> HypothesisSet \<Rightarrow> memory \<Rightarrow> memory" where
  "after_critique env hyps m =
     (add_trace (stage_trace env ''critic'' (Some HYPOTHESIS_GENERATED)) m)
       \<lparr>me_critiqued := Some hyps, me_best := best_candidate hyps,
        me_cause := PStr (final_cause env (facts_of m) (best_candidate hyps)),
        me_hyp_text := PStr (serialize_hypotheses env hyps (facts_of m))\<rparr>"

definition stage_critique :: "'r pipeline_env \<Rightarrow> 'r run_state \<Rightarrow> 'r run_result" where
  "stage_critique env st =
     (let m = rs_memory st in
      case critique_all (pp_json env) (pp_critic env) (facts_of m) (pp_ask_critic env (facts_of m))
             (pp_ask_batch env (facts_of m)) (case me_hypotheses m of Some hs \<Rightarrow> hs | None \<Rightarrow> []) of
        Inl e \<Rightarrow> (Inl (Failed (stage_exn_of e)), st)
      | Inr hyps \<Rightarrow> safe_transition env HYPOTHESIS_GENERATED (in_memory (after_critique env hyps) st))"

section \<open>Tickets and fix\<close>

definition stage_jira :: "'r pipeline_env \<Rightarrow> 'r run_state \<Rightarrow> 'r run_result" where
  "stage_jira env st =
     (let inc = me_incident (rs_memory st) in
      case (pp_jira_configured env, nonempty (str_or (label inc ''service'') (label inc ''app''))) of
        (True, Some service) \<Rightarrow>
          (case pp_jira env service (in_namespace inc) of
             Some context \<Rightarrow> (Inr (), in_memory (\<lambda>m. m\<lparr>me_jira := context\<rparr>) st)
           | None \<Rightarrow> (Inr (), st))
      | _ \<Rightarrow> (Inr (), st))"

definition candidate_playbooks :: "'r pipeline_env \<Rightarrow> memory \<Rightarrow> Playbook list option \<times> memory" where
  "candidate_playbooks env m =
     (let inc = me_incident m; alertname = label inc ''alertname''; classification = classify_alert (in_labels inc);
          v = bv_verify (pp_bridge env)
      in if \<not> bv_binding (pp_bridge env) then (None, m)
         else (case bv_registry (pp_bridge env) of
                 Inl _ \<Rightarrow> (None, m)
               | Inr registry \<Rightarrow>
                   (let candidates = match_playbooks registry alertname classification (me_facts m) in
                    (Some candidates,
                     m\<lparr>me_match := PDict (build_match_snapshot (ve_sha v) candidates (me_facts m)
                        (case in_namespace inc of Some ns \<Rightarrow> ns | None \<Rightarrow> []) alertname classification
                        (isoformat (ve_time v) (pp_now env)))\<rparr>))))"

text \<open>\<open>bind_server_params\<close> with the live replicas, which are read only where the plan asks for them.\<close>

definition bind_intent ::
  "'r pipeline_env \<Rightarrow> ExecutionIntent \<Rightarrow> pyval \<Rightarrow> 'r kworld \<Rightarrow> (ExecutionIntent \<times> pyval) \<times> 'r kworld" where
  "bind_intent env intent snapshot w =
     (case nonempty (ei_playbook_match intent) of
        None \<Rightarrow> ((intent, snapshot), w)
      | Some _ \<Rightarrow>
          (case find_entry snapshot (ei_playbook intent) of
             Some entry \<Rightarrow> bind_live (pp_bridge env) (pp_now env) intent entry snapshot w
           | None \<Rightarrow> (bind_server_params (ve_sha (bv_verify (pp_bridge env))) (\<lambda>_. None) intent snapshot, w)))"

definition stage_fix :: "'r pipeline_env \<Rightarrow> 'r run_state \<Rightarrow> 'r run_result" where
  "stage_fix env st =
     (case candidate_playbooks env (rs_memory st) of
        (candidates, m) \<Rightarrow>
          (case pp_suggest env (me_cause m) (me_recurrence m) (me_jira m) candidates of
             Inl e \<Rightarrow> (Inl (Failed e), st\<lparr>rs_memory := m\<rparr>)
           | Inr (suggestion, proposed) \<Rightarrow>
               (let m1 = m\<lparr>me_fix := suggestion\<rparr> in
                case proposed of
                  None \<Rightarrow> finish_stage env ''fix'' FIX_PROPOSED (st\<lparr>rs_memory := m1\<lparr>me_intent := None\<rparr>\<rparr>)
                | Some i \<Rightarrow>
                    (case bind_intent env (enforce_candidate_binding i candidates (me_match m)) (me_match m) (rs_world st) of
                       ((bound, snapshot), w) \<Rightarrow>
                         finish_stage env ''fix'' FIX_PROPOSED
                           (st\<lparr>rs_memory := m1\<lparr>me_intent := Some bound, me_match := snapshot\<rparr>, rs_world := w\<rparr>)))))"

section \<open>Risk and dry run\<close>

definition stage_risk :: "'r pipeline_env \<Rightarrow> 'r run_state \<Rightarrow> 'r run_result" where
  "stage_risk env st =
     (case pp_assess env (me_fix (rs_memory st)) of
        Inl e \<Rightarrow> (Inl (Failed e), st)
      | Inr report \<Rightarrow>
          (Inr (), in_memory (\<lambda>m. (add_trace (stage_trace env ''risk'' None) m)\<lparr>me_risk := report\<rparr>) st))"

definition skipped_result :: "string \<Rightarrow> pyval" where
  "skipped_result reason = PDict [(''status'', PStr ''skipped''), (''reason'', PStr reason)]"

definition executor_exit_code :: "pydict \<Rightarrow> pyval" where
  "executor_exit_code res =
     (if \<not> has_key res ''exit_code'' then PNone
      else (let v = dget res ''exit_code'' in if truthy v then v else PInt 0))"

definition dry_run_result :: "pydict \<Rightarrow> pyval" where
  "dry_run_result res =
     (let base = [(''status'', PStr (if truthy (dget res ''success'') then ''dry_run_ok'' else ''dry_run_failed'')),
                  (''command'', dget res ''command''), (''stdout'', text_field res ''stdout''),
                  (''stderr'', text_field res ''stderr''), (''exit_code'', executor_exit_code res)]
      in case dget res ''error'' of
           PStr e \<Rightarrow>
             if startswith e ''GUARDRAIL_BLOCK''
             then PDict (dset (dset base ''status'' (PStr ''guardrail_blocked'')) ''reason'' (PStr e))
             else PDict base
         | _ \<Rightarrow> PDict base)"

definition executor_error :: "'r pipeline_env \<Rightarrow> string \<Rightarrow> pyval" where
  "executor_error env name =
     PDict [(''status'', PStr ''error''), (''error_type'', PStr name), (''error'', PStr (take 512 (pp_error_text env name)))]"

definition stage_executor :: "'r pipeline_env \<Rightarrow> 'r run_state \<Rightarrow> 'r run_result" where
  "stage_executor env st =
     (if \<not> EXECUTOR_ENABLED (pp_bridge env) then
        (Inr (), in_memory (\<lambda>m. m\<lparr>me_executor := skipped_result ''executor_disabled''\<rparr>) st)
      else (case me_intent (rs_memory st) of
              None \<Rightarrow> (Inr (), in_memory (\<lambda>m. m\<lparr>me_executor := skipped_result ''no_intent''\<rparr>) st)
            | Some intent \<Rightarrow>
                (case run_dry (pp_bridge env) (pp_now env) intent (rs_world st) of
                   (r, w) \<Rightarrow>
                     (Inr (), in_memory (\<lambda>m. (add_trace (stage_trace env ''executor'' None) m)
                        \<lparr>me_executor := (case r of Inl name \<Rightarrow> executor_error env name | Inr res \<Rightarrow> dry_run_result res)\<rparr>)
                        (st\<lparr>rs_world := w\<rparr>)))))"

end
