(* ===== verification/Pipeline_Run.thy ===== *)
theory Pipeline_Run
  imports Pipeline_Stages
begin

text \<open>
  One run of the pipeline and the task behind its gates: \<open>_persist\<close>, the two early ends,
  \<open>IncidentPipeline.run\<close> (\<open>workers/pipeline.py\<close>) and the failure handling of \<open>async_process_incident\<close>
  (\<open>workers/tasks.py\<close>); the gates and the retries are in Pipeline_Task. A row that does not exist when the
  run starts does not appear while it lasts.
\<close>

section \<open>The report and the terminal state\<close>

definition json_intent :: "memory \<Rightarrow> pyval" where
  "json_intent m = opt_dump (PDict \<circ> model_dump) (me_intent m)"

definition quality :: "memory \<Rightarrow> string" where
  "quality m = (if me_best m = None then ''unresolved'' else ''resolved'')"

definition cause_of :: "memory \<Rightarrow> pyval" where
  "cause_of m = (case me_best m of None \<Rightarrow> PNone | Some h \<Rightarrow> PStr (hy_cause h))"

definition build_report_args :: "'r pipeline_env \<Rightarrow> memory \<Rightarrow> pydict" where
  "build_report_args env m =
     (let inc = me_incident m; opt = opt_pystr in
      [(''incident_id'', PStr (in_incident_id inc)),
       (''alertname'', PStr (case label inc ''alertname'' of Some a \<Rightarrow> a | None \<Rightarrow> ''UnknownAlert'')),
       (''namespace'', PStr (case in_namespace inc of Some ns \<Rightarrow> ns | None \<Rightarrow> [])),
       (''pod'', opt (label inc ''pod'')), (''service'', opt (str_or (label inc ''service'') (label inc ''app''))),
       (''node'', opt (str_or (label inc ''node'') (label inc ''instance''))),
       (''severity'', PStr (if in_severity inc = [] then ''warning'' else in_severity inc)),
       (''cause'', cause_of m), (''resolution_quality'', PStr (quality m)),
       (''synthesis'', if truthy (me_synthesis m) then me_synthesis m else PStr []),
       (''is_recurrence'', PBool (me_recurrence m)), (''flap_count'', PInt (in_flap_count inc)),
       (''execution_intent'', json_intent m), (''executor_result'', me_executor m),
       (''deploy_correlation'', me_deploy m), (''team_owner'', me_team_owner m),
       (''recurrence_count_24h'', PInt 0), (''recurrence_count_7d'', PInt 0),
       (''incident_ts'', if in_starts_at inc = [] then PNone else pp_incident_ts env (in_starts_at inc))])"

definition conflict_entry :: "FactStore \<Rightarrow> nat \<times> nat \<Rightarrow> pyval" where
  "conflict_entry facts ij =
     (case ij of (i, j) \<Rightarrow>
        PDict [(''a'', PStr (fc_kind (facts ! i))), (''b'', PStr (fc_kind (facts ! j))),
               (''a_conf'', PFloat (fc_confidence (facts ! i))), (''b_conf'', PFloat (fc_confidence (facts ! j)))])"

definition critiqued_of :: "memory \<Rightarrow> HypothesisSet" where
  "critiqued_of m = (case me_critiqued m of Some hs \<Rightarrow> hs | None \<Rightarrow> [])"

definition fresh_analysis :: "'r pipeline_env \<Rightarrow> memory \<Rightarrow> pydict" where
  "fresh_analysis env m =
     [(''summary'', me_analysis m), (''hypotheses'', me_hyp_text m), (''cause'', cause_of m),
      (''triage_note'', if me_best m = None then me_cause m else PNone), (''resolution_quality'', PStr (quality m)),
      (''fix'', me_fix m), (''risk'', me_risk m), (''synthesis'', me_synthesis m),
      (''similar_past_count'', PInt (case me_similar m of PList xs \<Rightarrow> int (length xs) | _ \<Rightarrow> 0)),
      (''is_recurrence'', PBool (me_recurrence m)), (''jira_context'', me_jira m),
      (''facts'', facts_dump (facts_of m)),
      (''fact_conflicts'', PList (map (conflict_entry (facts_of m)) (conflicts (pp_pairs env) (facts_of m)))),
      (''hypothesis_set'', hypotheses_dump (critiqued_of m)),
      (''best_candidate'', opt_dump (PDict \<circ> hypothesis_dump) (me_best m)),
      (''disagreement_signal'', if disagreement_signal (critiqued_of m) then PStr (pp_disagreement env) else PNone),
      (''consensus_kinds'', PList (map PStr (consensus_kinds (critiqued_of m)))),
      (''cluster_health_context'', me_cluster_health m), (''gitlab_context'', me_gitlab m),
      (''blast_radius_context'', me_blast_radius m), (''statics_check_context'', me_statics m),
      (''execution_intent'', json_intent m), (''executor_result'', me_executor m), (''playbook_match'', me_match m),
      (''source_coverage'', pp_coverage env (collector_summaries m)), (''context_snapshot'', me_snapshot m)]"

text \<open>\<open>{**(record.analysis or {}), **fresh}\<close>; a truthy value that is not a dict is a \<open>TypeError\<close>.\<close>

definition merged_with :: "pyval \<Rightarrow> pydict \<Rightarrow> pydict option" where
  "merged_with analysis fresh_keys =
     (case analysis of
        PDict a \<Rightarrow> Some (merge_dict a fresh_keys)
      | _ \<Rightarrow> if truthy analysis then None else Some (merge_dict [] fresh_keys))"

definition assign_analysis :: "pydict \<Rightarrow> orm_object \<Rightarrow> orm_object" where
  "assign_analysis a obj = obj\<lparr>oo_now := (oo_now obj)\<lparr>ir_analysis := PDict a\<rparr>\<rparr>"

definition assign_trace :: "pyval list \<Rightarrow> orm_object \<Rightarrow> orm_object" where
  "assign_trace ts obj = obj\<lparr>oo_now := (oo_now obj)\<lparr>ir_trace := PList ts\<rparr>\<rparr>"

definition on_object :: "(orm_object \<Rightarrow> orm_object) \<Rightarrow> 'r run_state \<Rightarrow> 'r run_state" where
  "on_object f st =
     (case rd_record (rs_delivery st) of None \<Rightarrow> st | Some obj \<Rightarrow> put_object (f obj) st)"

definition on_delivery :: "(delivery \<Rightarrow> delivery) \<Rightarrow> 'r run_state \<Rightarrow> 'r run_state" where
  "on_delivery f st = st\<lparr>rs_delivery := f (rs_delivery st)\<rparr>"

definition final_state :: "memory \<Rightarrow> IncidentState" where
  "final_state m = (if me_best m = None then TRIAGE_REQUIRED else RESOLVED)"

text \<open>The terminal state, the analysis and the outbox marker in one commit, the trace in a second.\<close>

definition persist_record :: "'r pipeline_env \<Rightarrow> orm_object \<Rightarrow> 'r run_state \<Rightarrow> 'r run_result" where
  "persist_record env obj st =
     (let m = rs_memory st; args = build_report_args env m in
      case merged_with (ir_analysis (oo_now obj)) (fresh_analysis env m) of
        None \<Rightarrow> (Inl (Failed (Final ''TypeError'' [])), st)
      | Some merged \<Rightarrow>
          (case safe_transition env (final_state m)
                  (put_object (assign_analysis (outbox_analysis (pp_denv env) args merged) obj) st) of
             (Inl e, st1) \<Rightarrow> (Inl e, st1)
           | (Inr _, st1) \<Rightarrow>
               (case commit_record env
                       (on_object (assign_trace (me_traces m @ [stage_trace env ''synthesis'' (Some (final_state m))])) st1) of
                  (Inl e, st2) \<Rightarrow> (Inl e, st2)
                | (Inr _, st2) \<Rightarrow> (Inr (), on_delivery mark_outboxed st2))))"

definition resolve_team_owner :: "'r pipeline_env \<Rightarrow> memory \<Rightarrow> memory" where
  "resolve_team_owner env m =
     (let inc = me_incident m in
      if truthy (me_team_owner m) then m
      else (case (nonempty (in_namespace inc), nonempty (str_or (label inc ''service'') (label inc ''app''))) of
              (Some ns, Some name) \<Rightarrow>
                (case Option.bind (pp_service env ns name) (nonempty \<circ> snd) of
                   Some owner \<Rightarrow> m\<lparr>me_team_owner := PStr owner\<rparr>
                 | None \<Rightarrow> m)
            | _ \<Rightarrow> m))"

definition enriched_args :: "'r pipeline_env \<Rightarrow> memory \<Rightarrow> pydict \<Rightarrow> pydict" where
  "enriched_args env m args =
     (let alertname = (case label (me_incident m) ''alertname'' of Some a \<Rightarrow> a | None \<Rightarrow> ''UnknownAlert'');
          (c24, c7) = pp_recurrence_counts env alertname (me_incident m)
      in dset (dset (dset args ''team_owner'' (me_team_owner m)) ''recurrence_count_24h'' (PInt c24))
           ''recurrence_count_7d'' (PInt c7))"

definition persist :: "'r pipeline_env \<Rightarrow> 'r run_state \<Rightarrow> 'r run_result" where
  "persist env st =
     (let args = build_report_args env (rs_memory st) in
      case (case rd_record (rs_delivery st) of
              Some obj \<Rightarrow> persist_record env obj st
            | None \<Rightarrow> (Inr (), in_memory (add_trace (stage_trace env ''synthesis'' None)) st)) of
        (Inl e, st1) \<Rightarrow> (Inl e, st1)
      | (Inr _, st1) \<Rightarrow>
          (let m = resolve_team_owner env (rs_memory st1);
               enriched = enriched_args env m args;
               st2 = on_delivery (Report_Delivery.stage enriched) (st1\<lparr>rs_memory := m\<rparr>)
           in (Inr (), on_delivery (\<lambda>d. if rd_outboxed d then refresh_args (pp_denv env) enriched d else d) st2)))"

definition stage_synthesize :: "'r pipeline_env \<Rightarrow> 'r run_state \<Rightarrow> 'r run_result" where
  "stage_synthesize env st =
     (let m = rs_memory st in
      case pp_synthesize env (me_analysis m) (me_hyp_text m) (me_cause m) (me_fix m) (me_risk m) of
        Inl e \<Rightarrow> (Inl (Failed e), st)
      | Inr text' \<Rightarrow> persist env (in_memory (\<lambda>m. m\<lparr>me_synthesis := text'\<rparr>) st))"

section \<open>Early ends\<close>

definition noise_suppressed :: "'r pipeline_env \<Rightarrow> memory \<Rightarrow> bool" where
  "noise_suppressed env m \<longleftrightarrow>
     SUPPRESSED_ALERT_SHORT_CIRCUIT env \<and> label (me_incident m) ''suppress_reason'' = Some ''active_rollout''"

definition suppressed_analysis :: "'r pipeline_env \<Rightarrow> memory \<Rightarrow> pydict" where
  "suppressed_analysis env m =
     (let inc = me_incident m in
      [(''summary'', me_analysis m), (''resolution_quality'', PStr ''suppressed''),
       (''suppressed'', PDict
          [(''reason'', opt_pystr (label inc ''suppress_reason'')),
           (''original_severity'', opt_pystr (label inc ''original_severity'')),
           (''alertname'', PStr (case label inc ''alertname'' of Some a \<Rightarrow> a | None \<Rightarrow> []))]),
       (''facts'', case me_facts m of Some facts \<Rightarrow> facts_dump facts | None \<Rightarrow> PList []),
       (''source_coverage'', pp_coverage env (collector_summaries m)), (''context_snapshot'', me_snapshot m)])"

definition finalize_suppressed :: "'r pipeline_env \<Rightarrow> 'r run_state \<Rightarrow> 'r run_result" where
  "finalize_suppressed env st =
     (case rd_record (rs_delivery st) of
        None \<Rightarrow> (Inr (), st)
      | Some obj \<Rightarrow>
          (case merged_with (ir_analysis (oo_now obj)) (suppressed_analysis env (rs_memory st)) of
             None \<Rightarrow> (Inl (Failed (Final ''TypeError'' [])), st)
           | Some merged \<Rightarrow>
               (case safe_transition env RESOLVED
                       (put_object (assign_trace (me_traces (rs_memory st))
                         (assign_analysis (dpop merged CHECKPOINT_KEY) obj)) st) of
                  (Inl e, st1) \<Rightarrow> (Inl e, st1)
                | (Inr _, st1) \<Rightarrow> commit_record env st1)))"

definition resolved_early :: "string \<Rightarrow> IncidentState \<Rightarrow> pyval" where
  "resolved_early reason s =
     PDict [(''reason'', PStr reason), (''state'', PStr (state_value s)),
            (''note'', PStr ''alert resolved while pipeline was in flight; analysis stopped cleanly'')]"

definition record_resolved_early :: "'r pipeline_env \<Rightarrow> string \<Rightarrow> IncidentState \<Rightarrow> 'r run_state \<Rightarrow> 'r run_state" where
  "record_resolved_early env reason s st =
     (case rd_record (rs_delivery st) of
        None \<Rightarrow> st
      | Some obj \<Rightarrow>
          (case merged_with (ir_analysis (oo_now obj)) [] of
             None \<Rightarrow> rollback_record env st
           | Some merged \<Rightarrow>
               (case commit_record env
                       (put_object (assign_trace (me_traces (rs_memory st))
                         (assign_analysis (dset (dpop (dpop merged CHECKPOINT_KEY) PENDING_KEY) ''resolved_early''
                            (resolved_early reason s)) obj)) st) of
                  (Inr _, st1) \<Rightarrow> st1
                | (Inl _, st1) \<Rightarrow> rollback_record env st1)))"

section \<open>The run\<close>

text \<open>What a step of the run leads to: the next one, an early return, or an exception.\<close>

datatype next_step = Go_on | Return | Raise run_exn

definition outcome :: "'r run_result \<Rightarrow> next_step \<times> 'r run_state" where
  "outcome r = (case r of (Inl e, st) \<Rightarrow> (Raise e, st) | (Inr _, st) \<Rightarrow> (Go_on, st))"

datatype step = Do Incident_Machine.stage | Noise_check | Do_risk | Do_executor | Do_synthesize

definition run_steps :: "step list" where
  "run_steps =
     [Do Analyze, Do Diagnose, Noise_check, Do Hypothesize, Do Critique, Do Jira, Do Fix, Do_risk, Do_executor,
      Do_synthesize]"

fun do_stage :: "'r pipeline_env \<Rightarrow> Incident_Machine.stage \<Rightarrow> 'r run_state \<Rightarrow> 'r run_result" where
  "do_stage env Analyze st = stage_analyze env (begin_stage env S_Analyze st)"
| "do_stage env Diagnose st = stage_diagnose env (begin_stage env S_Diagnose st)"
| "do_stage env Hypothesize st = stage_hypothesize env (begin_stage env S_Hypothesize st)"
| "do_stage env Critique st = stage_critique env (begin_stage env S_Critique st)"
| "do_stage env Jira st = stage_jira env (begin_stage env S_Jira st)"
| "do_stage env Fix st = stage_fix env (begin_stage env S_Fix st)"

fun do_step ::
  "'r pipeline_env \<Rightarrow> Incident_Machine.stage list \<Rightarrow> step \<Rightarrow> 'r run_state \<Rightarrow> next_step \<times> 'r run_state" where
  "do_step env completed (Do s) st =
     (if s \<in> set completed then (Go_on, st) else outcome (do_stage env s st))"
| "do_step env completed Noise_check st =
     (if noise_suppressed env (rs_memory st)
      then (case finalize_suppressed env st of (Inl e, st1) \<Rightarrow> (Raise e, st1) | (Inr _, st1) \<Rightarrow> (Return, st1))
      else (Go_on, st))"
| "do_step env completed Do_risk st = outcome (stage_risk env (begin_stage env S_Risk st))"
| "do_step env completed Do_executor st = outcome (stage_executor env (begin_stage env S_Executor st))"
| "do_step env completed Do_synthesize st = outcome (stage_synthesize env (begin_stage env S_Synthesize st))"

fun do_steps ::
  "'r pipeline_env \<Rightarrow> Incident_Machine.stage list \<Rightarrow> step list \<Rightarrow> 'r run_state \<Rightarrow> next_step \<times> 'r run_state" where
  "do_steps env completed [] st = (Go_on, st)"
| "do_steps env completed (s # ss) st =
     (case do_step env completed s st of
        (Go_on, st1) \<Rightarrow> do_steps env completed ss st1
      | r \<Rightarrow> r)"

definition delivery_exn_of :: "delivery_exn \<Rightarrow> failure" where
  "delivery_exn_of e =
     (case e of ReportDeliveryPending n \<Rightarrow> Retriable ''ReportDeliveryPending'' (int_str n) | Other x \<Rightarrow> exn_of x)"

type_synonym 'r task_result = "(failure + unit) \<times> 'r run_state"

definition delivered ::
  "(denv \<Rightarrow> delivery \<Rightarrow> (delivery_exn + unit) \<times> delivery) \<Rightarrow> 'r pipeline_env \<Rightarrow> 'r run_state \<Rightarrow> 'r task_result" where
  "delivered send env st =
     (case send (pp_denv env) (rs_delivery st) of
        (Inl e, d) \<Rightarrow> (Inl (delivery_exn_of e), st\<lparr>rs_delivery := d\<rparr>)
      | (Inr _, d) \<Rightarrow> (Inr (), st\<lparr>rs_delivery := d\<rparr>))"

text \<open>The stages to skip, after the checkpoint was tried, and the memory to go on with.\<close>

definition resume_point :: "IncidentState \<Rightarrow> 'r run_state \<Rightarrow> Incident_Machine.stage list \<times> 'r run_state" where
  "resume_point s st =
     (case completed_by_state s of
        Some (c # cs) \<Rightarrow>
          (case rd_record (rs_delivery st) of
             None \<Rightarrow> ([], st)
           | Some obj \<Rightarrow>
               (case restore_checkpoint (set (c # cs)) (ir_analysis (oo_now obj)) (rs_memory st) of
                  (ok, m) \<Rightarrow> (if ok then c # cs else [], st\<lparr>rs_memory := m\<rparr>)))
      | _ \<Rightarrow> ([], st))"

definition start_state :: "'r run_state \<Rightarrow> IncidentState" where
  "start_state st = (case rd_record (rs_delivery st) of None \<Rightarrow> OPEN | Some obj \<Rightarrow> current_state (oo_now obj))"

definition first_population :: "'r pipeline_env \<Rightarrow> Incident_Machine.stage list \<Rightarrow> 'r run_state \<Rightarrow> 'r run_state" where
  "first_population env completed st =
     (if completed = [] then populate_kg env (begin_stage env S_Populate st) else st)"

definition run_pipeline :: "'r pipeline_env \<Rightarrow> 'r run_state \<Rightarrow> 'r task_result" where
  "run_pipeline env st =
     (let s = start_state st in
      if closed s then
        (case load_pending (rs_delivery st) of
           Some pending \<Rightarrow> delivered (\<lambda>e. resend e pending) env st
         | None \<Rightarrow> (Inr (), record_resolved_early env ''terminal_before_start'' s st))
      else
        (case resume_point s st of
           (completed, st1) \<Rightarrow>
             (case do_steps env completed run_steps (first_population env completed st1) of
                (Raise IncidentResolvedExternally, st2) \<Rightarrow>
                  (Inr (), record_resolved_early env ''resolved_mid_flight'' RESOLVED st2)
              | (Raise (Failed e), st2) \<Rightarrow> (Inl e, st2)
              | (Return, st2) \<Rightarrow> (Inr (), st2)
              | (Go_on, st2) \<Rightarrow> delivered flush env st2)))"

text \<open>A new pipeline object over a row just read.\<close>

definition new_run :: "Incident \<Rightarrow> incident_record \<Rightarrow> 'r kworld \<Rightarrow> 'r run_state" where
  "new_run inc row w =
     \<lparr>rs_memory = new_memory inc, rs_delivery = report_delivery row (Some (fresh row)), rs_world = w, rs_ran = []\<rparr>"

section \<open>The task\<close>

fun retriable :: "failure \<Rightarrow> bool" where
  "retriable (Retriable n t) = True"
| "retriable (Final n t) = False"

fun failed_entry :: "failure \<Rightarrow> pyval" where
  "failed_entry (Retriable n t) = PDict [(''error'', PStr t), (''error_type'', PStr n)]"
| "failed_entry (Final n t) = PDict [(''error'', PStr t), (''error_type'', PStr n)]"

text \<open>
  The post mortem, then \<open>FAILED\<close>; a failure to write it is rolled back. \<open>flag_modified\<close>, by which the
  column is written even where the value is the one loaded, is left out.
\<close>

definition post_mortem :: "'r pipeline_env \<Rightarrow> failure \<Rightarrow> 'r run_state \<Rightarrow> 'r run_state" where
  "post_mortem env e st =
     (case rd_record (rs_delivery st) of
        None \<Rightarrow> st
      | Some obj \<Rightarrow>
          (case merged_with (ir_analysis (oo_now obj)) [(''failed'', failed_entry e)] of
             None \<Rightarrow> rollback_record env st
           | Some merged \<Rightarrow>
               (case commit_record env (put_object (assign_analysis merged obj) st) of
                  (Inr _, st1) \<Rightarrow> st1
                | (Inl _, st1) \<Rightarrow> rollback_record env st1)))"

text \<open>\<open>transition_to(record, FAILED, db)\<close>, of which only a \<open>ValueError\<close> is caught.\<close>

definition mark_run_failed :: "'r pipeline_env \<Rightarrow> 'r run_state \<Rightarrow> 'r task_result" where
  "mark_run_failed env st =
     (case rd_record (rs_delivery st) of
        None \<Rightarrow> (Inr (), st)
      | Some obj \<Rightarrow>
          (case commit_transition env obj FAILED st of
             (Inr _, st1) \<Rightarrow> (Inr (), st1)
           | (Inl (Failed (Retriable n t)), st1) \<Rightarrow> (Inl (Retriable n t), st1)
           | (Inl _, st1) \<Rightarrow> (Inr (), rollback_record env st1)))"

text \<open>The task behind its gates, over the row it has read: the run and what is done when it raises.\<close>

definition process_row :: "'r pipeline_env \<Rightarrow> nat \<Rightarrow> nat \<Rightarrow> 'r run_state \<Rightarrow> 'r task_result" where
  "process_row env retries max_retries st =
     (case run_pipeline env st of
        (Inr _, st1) \<Rightarrow> (Inr (), st1)
      | (Inl e, st1) \<Rightarrow>
          if retriable e \<and> retries < max_retries then (Inl e, rollback_record env st1)
          else (case mark_run_failed env (post_mortem env e st1) of
                  (Inl e', st2) \<Rightarrow> (Inl e', st2)
                | (Inr _, st2) \<Rightarrow> (Inl e, st2)))"

end
