(* ===== verification/Run_Props.thy ===== *)
theory Run_Props
  imports Pipeline_Run
begin

text \<open>What holds of a run of the pipeline, of its retries and of what other sessions do meanwhile.\<close>

section \<open>The session\<close>

abbreviation (input) session_works :: "'r pipeline_env \<Rightarrow> bool" where
  "session_works env \<equiv> orm_works (de_orm (pp_denv env))"

abbreviation row_of :: "'r run_state \<Rightarrow> incident_record" where
  "row_of st \<equiv> rd_row (rs_delivery st)"

abbreviation object_of :: "'r run_state \<Rightarrow> orm_object option" where
  "object_of st \<equiv> rd_record (rs_delivery st)"

lemma orm_object_fresh: "oo_now obj = r \<Longrightarrow> oo_loaded obj = r \<Longrightarrow> obj = fresh r"
  by (simp add: fresh_def)

text \<open>A commit that works: the row takes what was assigned, the object keeps it.\<close>

definition committed :: "orm_object \<Rightarrow> 'r run_state \<Rightarrow> 'r run_state" where
  "committed obj st =
     st\<lparr>rs_delivery := (rs_delivery st)\<lparr>rd_row := commit_row (row_of st) obj, rd_record := Some (fresh (oo_now obj))\<rparr>\<rparr>"

lemma commit_record_works:
  assumes "session_works env" and "object_of st = Some obj"
  shows "commit_record env st = (Inr (), committed obj st)"
proof -
  obtain row' obj' where c: "o_commit (de_orm (pp_denv env)) (row_of st) obj = Some (row', obj')"
    using assms(1) unfolding orm_works_def by (metis option.exhaust prod.collapse)
  then have "row' = commit_row (row_of st) obj" "oo_now obj' = oo_now obj" "oo_loaded obj' = oo_now obj"
    using assms(1) unfolding orm_works_def orm_laws_def by blast+
  then have "row' = commit_row (row_of st) obj" "obj' = fresh (oo_now obj)" by (simp_all add: orm_object_fresh)
  with c assms(2) show ?thesis by (simp add: commit_record_def committed_def)
qed

lemma rollback_record_works:
  assumes "session_works env"
  shows "rollback_record env st = (case object_of st of None \<Rightarrow> st | Some obj \<Rightarrow> put_object (fresh (row_of st)) st)"
  using assms by (simp add: rollback_record_def orm_works_def orm_laws_def split: option.split)

lemma put_object_simps [simp]:
  "object_of (put_object obj st) = Some obj" "row_of (put_object obj st) = row_of st"
  "rs_memory (put_object obj st) = rs_memory st" "rs_world (put_object obj st) = rs_world st"
  "rs_ran (put_object obj st) = rs_ran st" "rd_outboxed (rs_delivery (put_object obj st)) = rd_outboxed (rs_delivery st)"
  "rd_sends (rs_delivery (put_object obj st)) = rd_sends (rs_delivery st)"
  by (simp_all add: put_object_def)

lemma committed_simps [simp]:
  "object_of (committed obj st) = Some (fresh (oo_now obj))" "row_of (committed obj st) = commit_row (row_of st) obj"
  "rs_memory (committed obj st) = rs_memory st" "rs_world (committed obj st) = rs_world st"
  "rs_ran (committed obj st) = rs_ran st" "rd_outboxed (rs_delivery (committed obj st)) = rd_outboxed (rs_delivery st)"
  "rd_sends (rs_delivery (committed obj st)) = rd_sends (rs_delivery st)"
  by (simp_all add: committed_def)

lemma in_memory_simps [simp]:
  "rs_delivery (in_memory f st) = rs_delivery st" "rs_memory (in_memory f st) = f (rs_memory st)"
  "rs_world (in_memory f st) = rs_world st" "rs_ran (in_memory f st) = rs_ran st"
  by (simp_all add: in_memory_def)

lemma begin_stage_simps [simp]:
  "object_of (begin_stage env s st) = object_of st" "row_of (begin_stage env s st) = pp_others env s (row_of st)"
  "rs_memory (begin_stage env s st) = rs_memory st" "rs_world (begin_stage env s st) = rs_world st"
  by (simp_all add: begin_stage_def)

lemma commit_row_status:
  "ir_status (commit_row row obj) = written (ir_status row) (ir_status (oo_loaded obj)) (ir_status (oo_now obj))"
  "ir_analysis (commit_row row obj) = written (ir_analysis row) (ir_analysis (oo_loaded obj)) (ir_analysis (oo_now obj))"
  by (simp_all add: commit_row_def Let_def)

lemma current_state_cong: "ir_status r = ir_status r' \<Longrightarrow> current_state r = current_state r'"
  by (simp add: current_state_def)

lemma with_checkpoint_simps [simp]:
  "ir_status (oo_now (with_checkpoint m s obj)) = ir_status (oo_now obj)"
  "oo_loaded (with_checkpoint m s obj) = oo_loaded obj"
  "current_state (oo_now (with_checkpoint m s obj)) = current_state (oo_now obj)"
  by (auto simp: with_checkpoint_def intro: current_state_cong)

lemma assign_simps [simp]:
  "ir_status (oo_now (assign_analysis a obj)) = ir_status (oo_now obj)" "oo_loaded (assign_analysis a obj) = oo_loaded obj"
  "ir_status (oo_now (assign_trace ts obj)) = ir_status (oo_now obj)" "oo_loaded (assign_trace ts obj) = oo_loaded obj"
  "current_state (oo_now (assign_analysis a obj)) = current_state (oo_now obj)"
  "current_state (oo_now (assign_trace ts obj)) = current_state (oo_now obj)"
  by (auto simp: assign_analysis_def assign_trace_def intro: current_state_cong)

text \<open>The object moved to another state.\<close>

definition moved :: "IncidentState \<Rightarrow> orm_object \<Rightarrow> orm_object" where
  "moved s obj = obj\<lparr>oo_now := (oo_now obj)\<lparr>ir_status := Some (state_value s)\<rparr>\<rparr>"

lemma moved_simps [simp]:
  "oo_loaded (moved s obj) = oo_loaded obj" "current_state (oo_now (moved s obj)) = s"
  "ir_status (oo_now (moved s obj)) = Some (state_value s)"
  by (simp_all add: moved_def)

lemma commit_transition_cases:
  assumes "session_works env" and "commit_transition env obj new st = (r, st')"
  obtains (refused) "r = Inl (Failed (Final ''ValueError'' (''Invalid state transition: '' @ state_value (current_state (oo_now obj))
        @ '' -> '' @ state_value new)))" "st' = put_object obj st" "\<not> validate_transition (current_state (oo_now obj)) new"
      "current_state (oo_now obj) \<noteq> new"
  | (kept) "r = Inr ()" "st' = put_object obj st"
      "current_state (oo_now obj) = new \<or> pipeline_state_order new \<noteq> None"
  | (moves) "r = Inr ()" "st' = committed (moved new obj) (put_object (moved new obj) st)"
      "validate_transition (current_state (oo_now obj)) new" "current_state (oo_now obj) \<noteq> new"
proof (cases "current_state (oo_now obj) = new \<or> (case (pipeline_state_order (current_state (oo_now obj)), pipeline_state_order new) of
                 (Some c, Some n) \<Rightarrow> n < c | _ \<Rightarrow> False)")
  case True
  then have "transition_to (oo_now obj) new = Inr (oo_now obj)" by (auto simp: transition_to_def Let_def)
  with assms(2) True show ?thesis by (intro kept) (auto simp: commit_transition_def split: option.splits)
next
  case False
  show ?thesis
  proof (cases "validate_transition (current_state (oo_now obj)) new")
    case True
    let ?rec = "(oo_now obj)\<lparr>ir_status := Some (state_value new)\<rparr>"
    have "transition_to (oo_now obj) new = Inr ?rec" using False True by (simp add: transition_to_def Let_def)
    moreover have "?rec \<noteq> oo_now obj"
      using False by (metis current_state_set)
    ultimately have "commit_transition env obj new st = commit_record env (put_object (moved new obj) st)"
      by (simp add: commit_transition_def moved_def)
    with assms False True show ?thesis
      by (intro moves) (auto simp: commit_record_works [OF assms(1) put_object_simps(1)])
  next
    case bad: False
    with False have "transition_to (oo_now obj) new = Inl (ValueError (''Invalid state transition: '' @
        state_value (current_state (oo_now obj)) @ '' -> '' @ state_value new))"
      by (simp add: transition_to_def Let_def)
    with assms(2) False bad show ?thesis
      by (intro refused) (auto simp: commit_transition_def exn_of_def exn_name_def)
  qed
qed

section \<open>States a run leaves behind\<close>

definition settled :: "IncidentState \<Rightarrow> bool" where
  "settled s \<longleftrightarrow> closed s \<or> s = FAILED"

lemma settled_order [simp]: "pipeline_state_order s \<noteq> None \<Longrightarrow> \<not> settled s"
  by (cases s) (simp_all add: settled_def closed_def)

lemma validate_FAILED: "validate_transition s FAILED \<longleftrightarrow> \<not> settled s"
  by (cases s) (simp_all add: settled_def closed_def validate_transition_def)

lemma closed_final: "closed (final_state m)"
  by (simp add: final_state_def closed_def)

lemma closed_order [simp]: "closed s \<Longrightarrow> pipeline_state_order s = None"
  by (auto simp: closed_def)

text \<open>
  The object of a run has no unsaved status, and where it is settled so is the row.
\<close>

definition run_ok :: "'r run_state \<Rightarrow> bool" where
  "run_ok st \<longleftrightarrow> (\<exists>obj. object_of st = Some obj \<and> ir_status (oo_loaded obj) = ir_status (oo_now obj) \<and>
     (settled (current_state (oo_now obj)) \<longrightarrow> settled (current_state (row_of st))))"

definition open_run :: "'r run_state \<Rightarrow> bool" where
  "open_run st \<longleftrightarrow> (\<exists>obj. object_of st = Some obj \<and> \<not> closed (current_state (oo_now obj)))"

text \<open>Other sessions do not reopen an incident that has come to an end.\<close>

definition keeps_settled :: "'r pipeline_env \<Rightarrow> bool" where
  "keeps_settled env \<longleftrightarrow> (\<forall>s row. settled (current_state row) \<longrightarrow> settled (current_state (pp_others env s row)))"

lemma run_okE:
  assumes "run_ok st"
  obtains obj where "object_of st = Some obj" "ir_status (oo_loaded obj) = ir_status (oo_now obj)"
    "settled (current_state (oo_now obj)) \<Longrightarrow> settled (current_state (row_of st))"
  using assms by (auto simp: run_ok_def)

lemma run_ok_put:
  assumes "run_ok st" and "object_of st = Some obj" and "ir_status (oo_now obj') = ir_status (oo_now obj)"
    and "oo_loaded obj' = oo_loaded obj"
  shows "run_ok (put_object obj' st)"
  using assms current_state_cong [OF assms(3)] by (auto simp: run_ok_def)

lemma run_ok_in_memory [simp]: "run_ok (in_memory f st) = run_ok st" "run_ok (st\<lparr>rs_memory := m\<rparr>) = run_ok st"
  "run_ok (st\<lparr>rs_world := w\<rparr>) = run_ok st"
  by (simp_all add: run_ok_def)

lemma open_run_simps [simp]: "open_run (in_memory f st) = open_run st" "open_run (st\<lparr>rs_memory := m\<rparr>) = open_run st"
  "open_run (st\<lparr>rs_world := w\<rparr>) = open_run st" "open_run (begin_stage env s st) = open_run st"
  by (simp_all add: open_run_def)

lemma run_ok_begin: "keeps_settled env \<Longrightarrow> run_ok st \<Longrightarrow> run_ok (begin_stage env s st)"
  by (auto simp: run_ok_def keeps_settled_def)

lemma run_ok_committed:
  assumes "run_ok st" and "object_of st = Some obj" and "ir_status (oo_now obj') = ir_status (oo_now obj)"
    and "oo_loaded obj' = oo_loaded obj"
  shows "run_ok (committed obj' st)" and "current_state (row_of (committed obj' st)) = current_state (row_of st)"
proof -
  have l: "ir_status (oo_loaded obj) = ir_status (oo_now obj)" using assms(1,2) by (auto simp: run_ok_def)
  show r: "current_state (row_of (committed obj' st)) = current_state (row_of st)"
    by (rule current_state_cong) (simp add: commit_row_status assms(3,4) l)
  have "current_state (oo_now obj') = current_state (oo_now obj)" by (rule current_state_cong) (rule assms(3))
  with assms(1,2) r show "run_ok (committed obj' st)" by (auto simp: run_ok_def)
qed

lemma moved_committed:
  assumes "run_ok st" and "object_of st = Some obj" and "oo_loaded obj' = oo_loaded obj"
    and "ir_status (oo_now obj') = ir_status (oo_now obj)" and "current_state (oo_now obj) \<noteq> new"
  shows "run_ok (committed (moved new obj') (put_object (moved new obj') st))"
    and "current_state (row_of (committed (moved new obj') (put_object (moved new obj') st))) = new"
proof -
  have "ir_status (oo_loaded obj') = ir_status (oo_now obj)" using assms(1-3) by (auto simp: run_ok_def)
  then have "ir_status (oo_loaded obj') \<noteq> Some (state_value new)"
    using assms(5) by (auto simp: current_state_def)
  then show r: "current_state (row_of (committed (moved new obj') (put_object (moved new obj') st))) = new"
    by (simp add: commit_row_status written_def current_state_def)
  show "run_ok (committed (moved new obj') (put_object (moved new obj') st))"
    using r by (auto simp: run_ok_def)
qed

lemma transition_ok:
  assumes "session_works env" and "run_ok st" and "object_of st = Some obj"
    and "oo_loaded obj' = oo_loaded obj" and "ir_status (oo_now obj') = ir_status (oo_now obj)"
    and "commit_transition env obj' new st = (r, st')"
  shows "run_ok st' \<and> r \<noteq> Inl IncidentResolvedExternally \<and>
    (\<not> closed (current_state (oo_now obj)) \<longrightarrow> \<not> closed new \<longrightarrow> open_run st') \<and>
    (r = Inr () \<longrightarrow> current_state (oo_now obj) \<noteq> new \<longrightarrow> pipeline_state_order new = None \<longrightarrow>
      current_state (row_of st') = new)"
proof -
  have c: "current_state (oo_now obj') = current_state (oo_now obj)" by (rule current_state_cong) (rule assms(5))
  show ?thesis
  proof (rule commit_transition_cases [OF assms(1,6)])
    assume m: "r = Inr ()" "st' = committed (moved new obj') (put_object (moved new obj') st)"
      "validate_transition (current_state (oo_now obj')) new" "current_state (oo_now obj') \<noteq> new"
    then have "current_state (oo_now obj) \<noteq> new" using c by simp
    from moved_committed [OF assms(2-5) this] m c show ?thesis by (auto simp: open_run_def)
  qed (use run_ok_put [OF assms(2,3,5,4)] c in \<open>auto simp: open_run_def\<close>)
qed

lemma safe_transition_ok:
  assumes "session_works env" and "run_ok st" and "safe_transition env new st = (r, st')"
  shows "run_ok st' \<and> (open_run st \<longrightarrow> r \<noteq> Inl IncidentResolvedExternally \<and> (\<not> closed new \<longrightarrow> open_run st')) \<and>
    (r = Inr () \<longrightarrow> open_run st \<longrightarrow> closed new \<longrightarrow> current_state (row_of st') = new) \<and>
    (r = Inl IncidentResolvedExternally \<longrightarrow> settled (current_state (row_of st'))) \<and>
    (r = Inr () \<longrightarrow> closed new \<longrightarrow> settled (current_state (row_of st')))"
proof -
  from assms(2) obtain obj where obj: "object_of st = Some obj" by (auto simp: run_ok_def)
  show ?thesis
  proof (cases "closed (current_state (oo_now obj)) \<and> current_state (oo_now obj) \<noteq> new")
    case True
    with assms(3) obj have "r = Inl IncidentResolvedExternally" "st' = st" by (auto simp: safe_transition_def)
    with assms(2) True obj show ?thesis by (auto simp: open_run_def run_ok_def settled_def)
  next
    case False
    with assms(3) obj have t: "commit_transition env (with_checkpoint (rs_memory st) new obj) new st = (r, st')"
      by (simp add: safe_transition_def Let_def split: if_splits)
    note k = transition_ok [OF assms(1,2) obj _ _ t, simplified]
    have "settled (current_state (row_of st'))" if "r = Inr ()" "closed new"
    proof (cases "current_state (oo_now obj) = new")
      case True
      with that t obj assms(2) show ?thesis
        by (auto simp: commit_transition_def transition_to_def Let_def run_ok_def settled_def)
    qed (use k that in \<open>simp add: settled_def\<close>)
    with k obj show ?thesis by (auto simp: open_run_def)
  qed
qed

text \<open>A stage whose result the run may go on with.\<close>

definition fair :: "'r run_state \<Rightarrow> 'r run_result \<Rightarrow> bool" where
  "fair st r \<longleftrightarrow> (run_ok st \<longrightarrow> run_ok (snd r) \<and>
       (fst r = Inl IncidentResolvedExternally \<longrightarrow> settled (current_state (row_of (snd r))))) \<and>
     (run_ok st \<longrightarrow> open_run st \<longrightarrow> fst r \<noteq> Inl IncidentResolvedExternally \<and> open_run (snd r))"

lemma fair_safe_transition: "session_works env \<Longrightarrow> \<not> closed new \<Longrightarrow> fair st (safe_transition env new st)"
  using safe_transition_ok [of env st new] by (auto simp: fair_def) (metis prod.collapse)+

lemma fair_trans: "(run_ok st \<Longrightarrow> run_ok st0) \<Longrightarrow> (open_run st \<Longrightarrow> open_run st0) \<Longrightarrow> fair st0 r \<Longrightarrow> fair st r"
  by (auto simp: fair_def)

lemma fair_finish: "session_works env \<Longrightarrow> \<not> closed new \<Longrightarrow> fair st (finish_stage env name new st)"
  using fair_safe_transition [of env new st]
  by (auto simp: finish_stage_def fair_def split: prod.split sum.split)

lemma fair_same [simp]: "fair st (Inr (), in_memory f st)" "fair st (Inl (Failed e), st)" "fair st (Inr (), st)"
  "fair st (Inl (Failed e), st\<lparr>rs_memory := m\<rparr>)"
  by (simp_all add: fair_def)

lemma closed_simps [simp]: "\<not> closed INVESTIGATING" "\<not> closed FACTS_COLLECTED" "\<not> closed HYPOTHESIS_GENERATED"
  "\<not> closed FIX_PROPOSED" "\<not> closed OPEN" "\<not> closed FAILED" "closed RESOLVED" "closed TRIAGE_REQUIRED"
  by (simp_all add: closed_def)

lemma fair_stages:
  assumes "session_works env"
  shows "fair st (stage_analyze env st)" "fair st (stage_diagnose env st)" "fair st (stage_hypothesize env st)"
    "fair st (stage_critique env st)" "fair st (stage_jira env st)" "fair st (stage_fix env st)"
    "fair st (stage_risk env st)" "fair st (stage_executor env st)"
proof -
  note f = fair_finish [OF assms]
  show "fair st (stage_analyze env st)"
    by (auto simp: stage_analyze_def split: sum.split intro: fair_trans [OF _ _ f])
  show "fair st (stage_diagnose env st)"
    by (auto simp: stage_diagnose_def split: sum.split intro: fair_trans [OF _ _ f])
  show "fair st (stage_hypothesize env st)"
    by (auto simp: stage_hypothesize_def Let_def fair_def split: sum.split)
  show "fair st (stage_critique env st)"
    by (auto simp: stage_critique_def Let_def split: sum.split
        intro: fair_trans [OF _ _ fair_safe_transition [OF assms]])
  show "fair st (stage_jira env st)" by (auto simp: stage_jira_def Let_def split: option.split bool.split)
  show "fair st (stage_fix env st)"
    by (auto simp: stage_fix_def Let_def split: sum.split prod.split option.split intro: fair_trans [OF _ _ f])
  show "fair st (stage_risk env st)" by (auto simp: stage_risk_def split: sum.split)
  show "fair st (stage_executor env st)"
    by (auto simp: stage_executor_def fair_def split: option.split prod.split)
qed

section \<open>The last stage\<close>

lemma on_delivery_simps [simp]:
  "rs_delivery (on_delivery f st) = f (rs_delivery st)" "rs_memory (on_delivery f st) = rs_memory st"
  "rs_world (on_delivery f st) = rs_world st"
  by (simp_all add: on_delivery_def)

lemma put_ok:
  assumes "run_ok st" and "object_of st = Some obj" and "ir_status (oo_now obj') = ir_status (oo_now obj)"
    and "oo_loaded obj' = oo_loaded obj"
  shows "run_ok (put_object obj' st) \<and> (open_run st \<longrightarrow> open_run (put_object obj' st))"
  using run_ok_put [OF assms] assms current_state_cong [OF assms(3)] by (auto simp: open_run_def)

lemma run_ok_object: "run_ok st \<Longrightarrow> \<exists>obj. object_of st = Some obj"
  by (auto simp: run_ok_def)

text \<open>A commit of attributes other than the status.\<close>

lemma commit_assigned_ok:
  assumes "session_works env" and "run_ok st" and "object_of st = Some obj"
    and "ir_status (oo_now obj') = ir_status (oo_now obj)" and "oo_loaded obj' = oo_loaded obj"
    and "commit_record env (put_object obj' st) = (r, st')"
  shows "r = Inr () \<and> run_ok st' \<and> current_state (row_of st') = current_state (row_of st) \<and>
    (open_run st \<longrightarrow> open_run st')"
proof -
  have p: "run_ok (put_object obj' st)" using put_ok [OF assms(2-5)] by simp
  have "r = Inr () \<and> st' = committed obj' (put_object obj' st)"
    using assms(6) commit_record_works [OF assms(1) put_object_simps(1)] by auto
  then show ?thesis
    using run_ok_committed [OF p put_object_simps(1) refl refl] assms(3) current_state_cong [OF assms(4)]
    by (auto simp: open_run_def)
qed

lemma update_analysis_fresh:
  assumes "orm_works (de_orm denv)" and "rd_record d = Some obj"
  shows "update_analysis denv f d =
      d\<lparr>rd_row := (rd_row d)\<lparr>ir_analysis := PDict (f (Report_Delivery.analysis_of (rd_row d)))\<rparr>,
        rd_record := Some (fresh ((rd_row d)\<lparr>ir_analysis := PDict (f (Report_Delivery.analysis_of (rd_row d)))\<rparr>))\<rparr>"
proof -
  let ?db = "de_orm denv" and ?row = "rd_row d"
  let ?new = "?row\<lparr>ir_analysis := PDict (f (Report_Delivery.analysis_of ?row))\<rparr>"
  let ?a = "(fresh ?row)\<lparr>oo_now := ?new\<rparr>"
  obtain obj1 where "o_refresh ?db ?row obj = Some obj1" using assms(1) by (auto simp: orm_works_def)
  then have l: "lock_record denv d obj = fresh ?row"
    using assms(1) by (auto simp: lock_record_def orm_works_def orm_laws_def)
  obtain row' obj' where c: "o_commit ?db ?row ?a = Some (row', obj')"
    using assms(1) by (force simp: orm_works_def)
  then have "row' = commit_row ?row ?a \<and> oo_now obj' = oo_now ?a \<and> oo_loaded obj' = oo_now ?a"
    using assms(1) unfolding orm_works_def orm_laws_def by blast
  then have "row' = ?new" "obj' = fresh ?new" by (simp_all add: commit_row_def Let_def orm_object_fresh)
  with assms(2) l c show ?thesis
    by (simp add: update_analysis_def Report_Delivery.analysis_of_def Let_def)
qed

lemma refresh_ok:
  assumes "orm_works (de_orm denv)" and "rd_record d = Some obj"
  shows "\<exists>a. refresh_args denv args d =
    d\<lparr>rd_row := (rd_row d)\<lparr>ir_analysis := PDict a\<rparr>, rd_record := Some (fresh ((rd_row d)\<lparr>ir_analysis := PDict a\<rparr>))\<rparr>"
  using update_analysis_fresh [OF assms] unfolding refresh_args_def by blast

lemma run_ok_outboxed [simp]: "run_ok (on_delivery mark_outboxed st) = run_ok st"
  by (simp add: run_ok_def mark_outboxed_def)

lemma persist_record_ok:
  assumes "session_works env" and "run_ok st" and "object_of st = Some obj"
    and "persist_record env obj st = (r, st')"
  shows "run_ok st' \<and> (open_run st \<longrightarrow> r \<noteq> Inl IncidentResolvedExternally) \<and> (\<exists>obj'. object_of st' = Some obj') \<and>
    (r = Inl IncidentResolvedExternally \<longrightarrow> settled (current_state (row_of st'))) \<and>
    (r = Inr () \<longrightarrow> settled (current_state (row_of st')) \<and> rd_outboxed (rs_delivery st')) \<and>
    (r = Inr () \<longrightarrow> open_run st \<longrightarrow> current_state (row_of st') = final_state (rs_memory st))"
proof (cases "merged_with (ir_analysis (oo_now obj)) (fresh_analysis env (rs_memory st))")
  case None
  with assms show ?thesis by (auto simp: persist_record_def Let_def run_ok_def)
next
  case (Some merged)
  define st0 where "st0 = put_object (assign_analysis (outbox_analysis (pp_denv env)
    (build_report_args env (rs_memory st)) merged) obj) st"
  have st0: "run_ok st0" "open_run st \<longrightarrow> open_run st0"
    using put_ok [OF assms(2,3), of "assign_analysis (outbox_analysis (pp_denv env)
      (build_report_args env (rs_memory st)) merged) obj"] by (simp_all add: st0_def)
  obtain r1 st1 where t: "safe_transition env (final_state (rs_memory st)) st0 = (r1, st1)" by fastforce
  note k = safe_transition_ok [OF assms(1) st0(1) t]
  show ?thesis
  proof (cases r1)
    case (Inl e)
    with assms(4) Some t k st0 show ?thesis
      by (auto simp: persist_record_def Let_def st0_def [symmetric] dest: run_ok_object)
  next
    case (Inr u)
    let ?ts = "me_traces (rs_memory st) @ [stage_trace env ''synthesis'' (Some (final_state (rs_memory st)))]"
    obtain obj1 where obj1: "object_of st1 = Some obj1" using k run_ok_object by blast
    obtain r2 st2 where c: "commit_record env (put_object (assign_trace ?ts obj1) st1) = (r2, st2)" by fastforce
    have k1: "run_ok st1" using k by simp
    note k2 = commit_assigned_ok [OF assms(1) k1 obj1 _ _ c, simplified]
    have p: "persist_record env obj st = (Inr (), on_delivery mark_outboxed st2)"
      using Some t Inr obj1 c k2
      by (simp add: persist_record_def Let_def st0_def [symmetric] on_object_def)
    have "run_ok (on_delivery mark_outboxed st2)" using k2 by simp
    moreover have "open_run st \<longrightarrow> current_state (row_of st1) = final_state (rs_memory st)"
      using k st0(2) Inr closed_final by auto
    moreover have "settled (current_state (row_of st1))" using k Inr closed_final by auto
    ultimately show ?thesis
      using p assms(4) k2 run_ok_object [of "on_delivery mark_outboxed st2"]
      by (auto simp: mark_outboxed_def)
  qed
qed

lemma persist_ok:
  assumes "session_works env" and "run_ok st" and "persist env st = (r, st')"
  shows "run_ok st' \<and> (open_run st \<longrightarrow> r \<noteq> Inl IncidentResolvedExternally) \<and>
    (r = Inl IncidentResolvedExternally \<longrightarrow> settled (current_state (row_of st'))) \<and>
    (r = Inr () \<longrightarrow> settled (current_state (row_of st'))) \<and>
    (r = Inr () \<longrightarrow> open_run st \<longrightarrow> current_state (row_of st') = final_state (rs_memory st))"
proof -
  obtain obj where obj: "object_of st = Some obj" using assms(2) run_ok_object by blast
  obtain r1 st1 where p: "persist_record env obj st = (r1, st1)" by fastforce
  note k = persist_record_ok [OF assms(1,2) obj p]
  show ?thesis
  proof (cases r1)
    case (Inl e)
    with assms(3) obj p k show ?thesis by (auto simp: persist_def Let_def)
  next
    case (Inr u)
    define m where "m = resolve_team_owner env (rs_memory st1)"
    define args where "args = enriched_args env m (build_report_args env (rs_memory st))"
    define d where "d = Report_Delivery.stage args (rs_delivery st1)"
    obtain obj1 where obj1: "object_of st1 = Some obj1" using k by auto
    have d: "rd_record d = Some obj1" "rd_outboxed d" "rd_row d = row_of st1"
      "rd_pending d = Some [(''args'', PDict args), (''attempts'', PInt 0)]"
      using k Inr obj1 by (simp_all add: d_def stage_def)
    obtain a where f: "refresh_args (pp_denv env) args d = d\<lparr>rd_row := (rd_row d)\<lparr>ir_analysis := PDict a\<rparr>,
        rd_record := Some (fresh ((rd_row d)\<lparr>ir_analysis := PDict a\<rparr>))\<rparr>"
      using refresh_ok [OF assms(1) d(1)] by blast
    have r: "r = Inr ()" and del: "rs_delivery st' = refresh_args (pp_denv env) args d"
      using assms(3) obj p Inr d(2)
      by (auto simp: persist_def Let_def m_def [symmetric] args_def [symmetric] d_def [symmetric] on_delivery_def)
    have s: "current_state (row_of st') = current_state (row_of st1)"
      using f d(3) del by (auto intro: current_state_cong)
    have "run_ok st'"
      unfolding run_ok_def using del f d(3) by simp
    with r del f d s k Inr show ?thesis by auto
  qed
qed

section \<open>Delivery\<close>

text \<open>A delivery writes the analysis and nothing else, and leaves the object as it was or just read.\<close>

definition analysis_only :: "delivery \<Rightarrow> delivery \<Rightarrow> bool" where
  "analysis_only d d' \<longleftrightarrow> (\<exists>a. rd_row d' = (rd_row d)\<lparr>ir_analysis := a\<rparr>) \<and>
     (rd_record d' = rd_record d \<and> rd_row d' = rd_row d \<or> rd_record d' = Some (fresh (rd_row d')))"

lemma analysis_only_refl [simp]: "analysis_only d d"
  unfolding analysis_only_def by (auto intro: exI [of _ "ir_analysis (rd_row d)"])

lemma analysis_only_sends [simp]: "analysis_only d (d\<lparr>rd_sends := x\<rparr>)"
  unfolding analysis_only_def by (auto intro: exI [of _ "ir_analysis (rd_row d)"])

lemma update_analysis_only:
  assumes "orm_works (de_orm denv)" and "rd_record e = Some obj" and "rd_row e = rd_row d"
  shows "analysis_only d (update_analysis denv f e)"
  using update_analysis_fresh [OF assms(1,2), of f] assms(3) unfolding analysis_only_def by auto

lemma analysis_only_cong:
  "rd_row e = rd_row d \<Longrightarrow> rd_record e = rd_record d \<Longrightarrow> analysis_only e d' \<Longrightarrow> analysis_only d d'"
  by (simp add: analysis_only_def)

lemma deliver_only:
  assumes "orm_works (de_orm denv)" and "rd_record d = Some obj"
  shows "analysis_only d (snd (deliver denv pending d))"
proof -
  note u = update_analysis_only [OF assms(1)]
  have s: "rd_record (set_state_column denv x n (e\<lparr>rd_pending := None\<rparr>)) =
      Some (obj\<lparr>oo_now := set_report_state (oo_now obj) (Some x) (Some n) (de_utcnow denv)\<rparr>)"
    if "rd_record e = Some obj" for x n e
    using that by (simp add: set_state_column_def)
  have m: "analysis_only d (mark_sent denv n e)" "analysis_only d (mark_failed denv n r e)"
    "analysis_only d (bump_attempts denv args n e)" if "rd_record e = Some obj" "rd_row e = rd_row d" for n r args e
    using that u [OF s [OF that(1)]] u [of "e\<lparr>rd_pending := x\<rparr>" for x]
    by (simp_all add: mark_sent_def mark_failed_def bump_attempts_def)
  show ?thesis
    using assms(2)
    by (auto simp: deliver_def send_once_def undelivered_def Let_def
        intro!: m split: pyval.split sum.split)
qed

lemma delivered_ok:
  assumes "session_works env" and "run_ok st" and "\<And>d. \<exists>obj. rd_record d = Some obj \<Longrightarrow> analysis_only d (snd (send (pp_denv env) d))"
    and "delivered send env st = (r, st')"
  shows "run_ok st' \<and> current_state (row_of st') = current_state (row_of st)"
proof -
  obtain obj where obj: "object_of st = Some obj" using assms(2) run_ok_object by blast
  have d: "analysis_only (rs_delivery st) (rs_delivery st')"
    using assms(3) [of "rs_delivery st"] assms(4) obj by (auto simp: delivered_def split: prod.splits sum.splits)
  then have "ir_status (row_of st') = ir_status (row_of st)" by (auto simp: analysis_only_def)
  then have c: "current_state (row_of st') = current_state (row_of st)" by (rule current_state_cong)
  moreover have "run_ok st'"
    using d assms(2) obj c by (auto simp: analysis_only_def run_ok_def)
  ultimately show ?thesis by simp
qed

lemma flush_only:
  assumes "orm_works (de_orm denv)" and "rd_record d = Some obj"
  shows "analysis_only d (snd (flush denv d))"
  using deliver_only [OF assms] by (simp add: flush_def split: option.split)

lemma resend_only:
  assumes "orm_works (de_orm denv)" and "rd_record d = Some obj"
  shows "analysis_only d (snd (resend denv pending d))"
proof (cases "attempts_of pending")
  case (Inr n)
  let ?e = "d\<lparr>rd_audit := rd_audit d @ [(''PIPELINE_REPORT_RESEND'', n)], rd_outboxed := True, rd_pending := Some pending\<rparr>"
  have "analysis_only ?e (snd (deliver denv pending ?e))" by (rule deliver_only [OF assms(1)]) (simp add: assms(2))
  then have "analysis_only d (snd (deliver denv pending ?e))" by (rule analysis_only_cong [rotated 2]) simp_all
  with Inr show ?thesis by (simp add: resend_def)
qed (simp add: resend_def)

section \<open>The whole run\<close>

lemma final_state_synthesis [simp]: "final_state (m\<lparr>me_synthesis := x\<rparr>) = final_state m"
  by (simp add: final_state_def)

lemma synthesize_ok:
  assumes "session_works env" and "run_ok st" and "stage_synthesize env st = (r, st')"
  shows "run_ok st' \<and> (open_run st \<longrightarrow> r \<noteq> Inl IncidentResolvedExternally) \<and>
    (r = Inl IncidentResolvedExternally \<longrightarrow> settled (current_state (row_of st'))) \<and>
    (r = Inr () \<longrightarrow> settled (current_state (row_of st'))) \<and>
    (r = Inr () \<longrightarrow> open_run st \<longrightarrow> current_state (row_of st') = final_state (rs_memory st))"
  using assms(2-3) persist_ok [OF assms(1), of "in_memory f st" for f]
  by (auto simp: stage_synthesize_def Let_def split: sum.splits)

lemma finalize_ok:
  assumes "session_works env" and "run_ok st" and "finalize_suppressed env st = (r, st')"
  shows "run_ok st' \<and> (open_run st \<longrightarrow> r \<noteq> Inl IncidentResolvedExternally) \<and>
    (r = Inl IncidentResolvedExternally \<longrightarrow> settled (current_state (row_of st'))) \<and>
    (r = Inr () \<longrightarrow> settled (current_state (row_of st')))"
proof -
  obtain obj where obj: "object_of st = Some obj" using assms(2) run_ok_object by blast
  show ?thesis
  proof (cases "merged_with (ir_analysis (oo_now obj)) (suppressed_analysis env (rs_memory st))")
    case (Some merged)
    define obj0 where "obj0 = assign_trace (me_traces (rs_memory st)) (assign_analysis (dpop merged CHECKPOINT_KEY) obj)"
    have st0: "run_ok (put_object obj0 st)" "open_run st \<longrightarrow> open_run (put_object obj0 st)"
      using put_ok [OF assms(2) obj, of obj0] by (simp_all add: obj0_def)
    obtain r1 st1 where t: "safe_transition env RESOLVED (put_object obj0 st) = (r1, st1)" by fastforce
    note k = safe_transition_ok [OF assms(1) st0(1) t]
    show ?thesis
    proof (cases r1)
      case (Inr u)
      obtain obj1 where obj1: "object_of st1 = Some obj1" using k run_ok_object by blast
      have "put_object obj1 st1 = st1" using obj1 by (simp add: put_object_def)
      then obtain r2 st2 where c: "commit_record env (put_object obj1 st1) = (r2, st2)"
        "commit_record env st1 = (r2, st2)" by (metis surj_pair)
      have k1: "run_ok st1" using k by simp
      from commit_assigned_ok [OF assms(1) k1 obj1 refl refl c(1)] k st0(2) Inr assms(3) obj Some t c(2)
      show ?thesis by (auto simp: finalize_suppressed_def obj0_def [symmetric])
    qed (use k st0 assms(3) obj Some t in \<open>auto simp: finalize_suppressed_def obj0_def [symmetric]\<close>)
  qed (use assms obj in \<open>auto simp: finalize_suppressed_def\<close>)
qed

lemma do_stage_fair: "session_works env \<Longrightarrow> keeps_settled env \<Longrightarrow> fair st (do_stage env s st)"
  by (cases s) (auto intro: fair_trans [OF _ _ fair_stages(1)] fair_trans [OF _ _ fair_stages(2)]
      fair_trans [OF _ _ fair_stages(3)] fair_trans [OF _ _ fair_stages(4)] fair_trans [OF _ _ fair_stages(5)]
      fair_trans [OF _ _ fair_stages(6)] simp: run_ok_begin)

text \<open>What the run guarantees when its steps are over.\<close>

definition ends_well :: "'r run_state \<Rightarrow> next_step \<Rightarrow> 'r run_state \<Rightarrow> bool" where
  "ends_well st n st' \<longleftrightarrow> run_ok st' \<and>
     (n = Return \<or> n = Raise IncidentResolvedExternally \<longrightarrow> settled (current_state (row_of st'))) \<and>
     (open_run st \<longrightarrow> n \<noteq> Raise IncidentResolvedExternally)"

lemma do_step_ok:
  assumes "session_works env" and "keeps_settled env" and "run_ok st"
    and "do_step env completed s st = (n, st')"
  shows "ends_well st n st' \<and>
    (n = Go_on \<longrightarrow> (if s = Do_synthesize then settled (current_state (row_of st')) else open_run st \<longrightarrow> open_run st')) \<and>
    (n = Go_on \<longrightarrow> s = Do_synthesize \<longrightarrow> open_run st \<longrightarrow> current_state (row_of st') = final_state (rs_memory st))"
proof -
  have o1: "ends_well st n st' \<and> (n = Go_on \<longrightarrow> open_run st \<longrightarrow> open_run st')" if "outcome r = (n, st')" "fair st r" for r
    using that assms(3) by (cases r) (auto simp: fair_def ends_well_def outcome_def split: sum.splits)
  show ?thesis
  proof (cases s)
    case (Do x)
    with assms o1 [OF _ do_stage_fair [OF assms(1,2)]] show ?thesis
      by (auto simp: ends_well_def split: if_splits)
  next
    case Noise_check
    with assms finalize_ok [OF assms(1,3)] show ?thesis
      by (auto simp: ends_well_def split: if_splits prod.splits sum.splits)
  next
    case Do_risk
    with assms(4) o1 [OF _ fair_trans [OF run_ok_begin [OF assms(2)] _ fair_stages(7) [OF assms(1)]]] show ?thesis by auto
  next
    case Do_executor
    with assms(4) o1 [OF _ fair_trans [OF run_ok_begin [OF assms(2)] _ fair_stages(8) [OF assms(1)]]] show ?thesis by auto
  next
    case Do_synthesize
    obtain r st1 where r: "stage_synthesize env (begin_stage env S_Synthesize st) = (r, st1)" by fastforce
    from synthesize_ok [OF assms(1) run_ok_begin [OF assms(2,3)] r] assms(4) Do_synthesize r show ?thesis
      by (cases r) (auto simp: ends_well_def outcome_def)
  qed
qed

lemma do_steps_ok:
  assumes "session_works env" and "keeps_settled env" and "run_ok st"
    and "do_steps env completed ss st = (n, st')" and "Do_synthesize \<notin> set (butlast ss)" and "ss \<noteq> []"
    and "last ss = Do_synthesize"
  shows "ends_well st n st' \<and> (n = Go_on \<longrightarrow> settled (current_state (row_of st')) \<and>
    (open_run st \<longrightarrow> closed (current_state (row_of st'))))"
  using assms(3-7)
proof (induction ss arbitrary: st)
  case (Cons s ss)
  obtain n1 st1 where s: "do_step env completed s st = (n1, st1)" by fastforce
  note k = do_step_ok [OF assms(1,2) Cons.prems(1) s]
  show ?case
  proof (cases "n1 = Go_on \<and> ss \<noteq> []")
    case True
    with Cons.prems s k have "do_steps env completed ss st1 = (n, st')" "s \<noteq> Do_synthesize"
      "open_run st \<longrightarrow> open_run st1" "run_ok st1"
      by (auto simp: ends_well_def)
    with Cons.IH [of st1] Cons.prems True show ?thesis by (auto simp: ends_well_def)
  next
    case False
    then show ?thesis
    proof (cases n1)
      case Go_on
      with False Cons.prems s k show ?thesis by (auto simp: closed_final)
    qed (use Cons.prems s k in \<open>auto simp: ends_well_def\<close>)
  qed
qed simp

lemma populate_ok:
  assumes "session_works env" and "run_ok st"
  shows "run_ok (populate_kg env st) \<and> (pp_populates env \<longrightarrow> open_run st \<longrightarrow> open_run (populate_kg env st))"
proof -
  obtain obj where obj: "object_of st = Some obj" using assms(2) run_ok_object by blast
  then have "put_object obj st = st" by (simp add: put_object_def)
  then obtain r st' where c: "commit_record env (put_object obj st) = (r, st')" "commit_record env st = (r, st')"
    by (metis surj_pair)
  have "run_ok (rollback_record env st)"
    using obj by (simp add: rollback_record_works [OF assms(1)] run_ok_def)
  with commit_assigned_ok [OF assms(1,2) obj refl refl c(1)] c(2) show ?thesis
    by (auto simp: populate_kg_def)
qed

lemma first_population_ok:
  assumes "session_works env" and "keeps_settled env" and "run_ok st"
  shows "run_ok (first_population env completed st) \<and>
    (pp_populates env \<longrightarrow> open_run st \<longrightarrow> open_run (first_population env completed st))"
  using populate_ok [OF assms(1) run_ok_begin [OF assms(2,3)]] assms(3) by (simp add: first_population_def)

lemma run_steps_last [simp]: "last run_steps = Do_synthesize" "Do_synthesize \<notin> set (butlast run_steps)" "run_steps \<noteq> []"
  by (simp_all add: run_steps_def)

lemma resume_point_state:
  assumes "resume_point s st = (completed, st')"
  shows "rs_delivery st' = rs_delivery st \<and> rs_world st' = rs_world st"
  using assms by (auto simp: resume_point_def split: option.splits list.splits prod.splits)

lemma run_ok_delivery: "rs_delivery st' = rs_delivery st \<Longrightarrow> run_ok st' = run_ok st \<and> open_run st' = open_run st"
  by (simp add: run_ok_def open_run_def)

lemma start_open: "run_ok st \<Longrightarrow> \<not> closed (start_state st) \<Longrightarrow> open_run st"
  by (auto simp: run_ok_def open_run_def start_state_def)

lemma resolved_early_ok:
  assumes "session_works env" and "run_ok st"
  shows "run_ok (record_resolved_early env reason s st) \<and>
    current_state (row_of (record_resolved_early env reason s st)) = current_state (row_of st)"
proof -
  obtain obj where obj: "object_of st = Some obj" using assms(2) run_ok_object by blast
  have rb: "run_ok (rollback_record env st) \<and> row_of (rollback_record env st) = row_of st"
    using obj by (auto simp: rollback_record_works [OF assms(1)] run_ok_def)
  show ?thesis
  proof (cases "merged_with (ir_analysis (oo_now obj)) []")
    case (Some merged)
    define obj0 where "obj0 = assign_trace (me_traces (rs_memory st))
      (assign_analysis (dset (dpop (dpop merged CHECKPOINT_KEY) PENDING_KEY) ''resolved_early'' (resolved_early reason s)) obj)"
    obtain r st' where c: "commit_record env (put_object obj0 st) = (r, st')" by fastforce
    from commit_assigned_ok [OF assms(1,2) obj _ _ c] Some obj c show ?thesis
      by (auto simp: record_resolved_early_def obj0_def [symmetric]) (auto simp: obj0_def)
  qed (use rb obj in \<open>simp add: record_resolved_early_def\<close>)
qed

lemma run_pipeline_ok:
  assumes "session_works env" and "keeps_settled env" and "run_ok st"
    and "run_pipeline env st = (r, st')"
  shows "run_ok st' \<and> (r = Inr () \<longrightarrow> settled (current_state (row_of st')))"
proof (cases "closed (start_state st)")
  case True
  obtain obj where obj: "object_of st = Some obj" using assms(3) run_ok_object by blast
  then have row: "settled (current_state (row_of st))"
    using True assms(3) by (auto simp: run_ok_def start_state_def settled_def)
  show ?thesis
  proof (cases "load_pending (rs_delivery st)")
    case None
    with assms(4) True resolved_early_ok [OF assms(1,3)] row show ?thesis
      by (auto simp: run_pipeline_def Let_def)
  next
    case (Some pending)
    have "delivered (\<lambda>e. resend e pending) env st = (r, st')"
      using assms(4) True Some by (simp add: run_pipeline_def Let_def)
    moreover have "analysis_only d (snd (resend (pp_denv env) pending d))" if "\<exists>obj. rd_record d = Some obj" for d
      using that resend_only [OF assms(1)] by auto
    ultimately show ?thesis using delivered_ok [OF assms(1,3), of "\<lambda>e. resend e pending" r st'] row by auto
  qed
next
  case False
  obtain completed st1 where rp: "resume_point (start_state st) st = (completed, st1)" by fastforce
  obtain n st2 where d: "do_steps env completed run_steps (first_population env completed st1) = (n, st2)" by fastforce
  have "run_ok st1" using resume_point_state [OF rp] run_ok_delivery [of st1 st] assms(3) by simp
  then have k: "run_ok st2" "n = Go_on \<or> n = Return \<or> n = Raise IncidentResolvedExternally \<longrightarrow>
      settled (current_state (row_of st2))"
    using do_steps_ok [OF assms(1,2) _ d] first_population_ok [OF assms(1,2)] by (auto simp: ends_well_def)
  show ?thesis
  proof (cases n)
    case Go_on
    have "delivered flush env st2 = (r, st')" using assms(4) False rp d Go_on by (simp add: run_pipeline_def Let_def)
    moreover have "analysis_only d (snd (flush (pp_denv env) d))" if "\<exists>obj. rd_record d = Some obj" for d
      using that flush_only [OF assms(1)] by auto
    ultimately show ?thesis using delivered_ok [OF assms(1) k(1), of flush r st'] k Go_on by auto
  next
    case Return
    with assms(4) False rp d k show ?thesis by (auto simp: run_pipeline_def Let_def)
  next
    case (Raise e)
    with assms(4) False rp d k resolved_early_ok [OF assms(1) k(1)] show ?thesis
      by (cases e) (auto simp: run_pipeline_def Let_def)
  qed
qed

lemma post_mortem_ok:
  assumes "session_works env" and "run_ok st"
  shows "run_ok (post_mortem env e st) \<and> current_state (row_of (post_mortem env e st)) = current_state (row_of st)"
proof -
  obtain obj where obj: "object_of st = Some obj" using assms(2) run_ok_object by blast
  have rb: "run_ok (rollback_record env st) \<and> row_of (rollback_record env st) = row_of st"
    using obj by (auto simp: rollback_record_works [OF assms(1)] run_ok_def)
  show ?thesis
  proof (cases "merged_with (ir_analysis (oo_now obj)) [(''failed'', failed_entry e)]")
    case (Some merged)
    obtain r st' where c: "commit_record env (put_object (assign_analysis merged obj) st) = (r, st')" by fastforce
    from commit_assigned_ok [OF assms(1,2) obj _ _ c] Some obj c show ?thesis by (auto simp: post_mortem_def)
  qed (use rb obj in \<open>simp add: post_mortem_def\<close>)
qed

lemma mark_failed_ok:
  assumes "session_works env" and "run_ok st" and "mark_run_failed env st = (r, st')"
  shows "r = Inr () \<and> settled (current_state (row_of st'))"
proof -
  obtain obj where obj: "object_of st = Some obj" "settled (current_state (oo_now obj)) \<longrightarrow> settled (current_state (row_of st))"
    using assms(2) by (auto simp: run_ok_def)
  obtain r1 st1 where t: "commit_transition env obj FAILED st = (r1, st1)" by fastforce
  show ?thesis
  proof (rule commit_transition_cases [OF assms(1) t])
    assume "r1 = Inr ()" "st1 = put_object obj st" "current_state (oo_now obj) = FAILED \<or> pipeline_state_order FAILED \<noteq> None"
    with assms(3) obj t show ?thesis by (auto simp: mark_run_failed_def settled_def)
  next
    assume m: "r1 = Inr ()" "st1 = committed (moved FAILED obj) (put_object (moved FAILED obj) st)"
      "current_state (oo_now obj) \<noteq> FAILED"
    from moved_committed(2) [OF assms(2) obj(1) refl refl m(3)] m assms(3) obj(1) t show ?thesis
      by (auto simp: mark_run_failed_def settled_def)
  next
    assume m: "r1 = Inl (Failed (Final ''ValueError'' (''Invalid state transition: '' @ state_value (current_state (oo_now obj)) @
        '' -> '' @ state_value FAILED)))" "st1 = put_object obj st" "\<not> validate_transition (current_state (oo_now obj)) FAILED"
    with obj have "settled (current_state (row_of st))" by (simp add: validate_FAILED)
    with m(1,2) assms(3) obj(1) t show ?thesis
      by (auto simp: mark_run_failed_def rollback_record_works [OF assms(1)])
  qed
qed

lemma run_ok_new [simp]: "run_ok (new_run inc row w)"
  by (simp add: run_ok_def new_run_def report_delivery_def)

lemma process_row_ok:
  assumes "session_works env" and "keeps_settled env" and "run_ok st"
    and "process_row env retries max_retries st = (r, st')"
    and "\<And>e. r = Inl e \<Longrightarrow> \<not> (retriable e \<and> retries < max_retries)"
  shows "settled (current_state (row_of st'))"
proof -
  obtain r1 st1 where p: "run_pipeline env st = (r1, st1)" by fastforce
  note k = run_pipeline_ok [OF assms(1-3) p]
  show ?thesis
  proof (cases r1)
    case (Inl e)
    then have n: "\<not> (retriable e \<and> retries < max_retries)"
      using assms(4,5) p by (auto simp: process_row_def)
    obtain r2 st2 where m: "mark_run_failed env (post_mortem env e st1) = (r2, st2)" by fastforce
    have "run_ok (post_mortem env e st1)" using post_mortem_ok [OF assms(1)] k by simp
    from mark_failed_ok [OF assms(1) this m] m n p Inl assms(4) show ?thesis by (auto simp: process_row_def)
  qed (use k p assms(4) in \<open>auto simp: process_row_def\<close>)
qed

lemma commit_record_frame:
  "rs_memory (snd (commit_record env st)) = rs_memory st" "rs_world (snd (commit_record env st)) = rs_world st"
  "rs_ran (snd (commit_record env st)) = rs_ran st"
  by (simp_all add: commit_record_def split: option.split)

lemma commit_transition_frame:
  "rs_memory (snd (commit_transition env obj new st)) = rs_memory st \<and>
   rs_world (snd (commit_transition env obj new st)) = rs_world st \<and>
   rs_ran (snd (commit_transition env obj new st)) = rs_ran st"
  by (simp add: commit_transition_def commit_record_frame split: sum.split)

lemma safe_transition_frame:
  assumes "safe_transition env new st = (r, st')"
  shows "rs_memory st' = rs_memory st \<and> rs_world st' = rs_world st \<and> rs_ran st' = rs_ran st"
  using assms commit_transition_frame [of env _ new st]
  by (auto simp: safe_transition_def Let_def split: option.splits if_splits) (metis snd_conv)+

lemma on_object_frame [simp]:
  "rs_memory (on_object f st) = rs_memory st" "rs_world (on_object f st) = rs_world st" "rs_ran (on_object f st) = rs_ran st"
  by (simp_all add: on_object_def split: option.split)

lemma persist_record_frame:
  assumes "persist_record env obj st = (r, st')"
  shows "rs_memory st' = rs_memory st \<and> rs_world st' = rs_world st"
proof (cases "merged_with (ir_analysis (oo_now obj)) (fresh_analysis env (rs_memory st))")
  case (Some merged)
  let ?st0 = "put_object (assign_analysis (outbox_analysis (pp_denv env) (build_report_args env (rs_memory st)) merged) obj) st"
  obtain r1 st1 where t: "safe_transition env (final_state (rs_memory st)) ?st0 = (r1, st1)" by fastforce
  have f1: "rs_memory st1 = rs_memory st" "rs_world st1 = rs_world st"
    using safe_transition_frame [OF t] by simp_all
  let ?st1 = "on_object (assign_trace (me_traces (rs_memory st) @ [stage_trace env ''synthesis'' (Some (final_state (rs_memory st)))])) st1"
  obtain r2 st2 where c: "commit_record env ?st1 = (r2, st2)" by fastforce
  have "rs_memory st2 = rs_memory st" "rs_world st2 = rs_world st"
    using commit_record_frame(1,2) [of env ?st1] c f1 by simp_all
  with assms Some t c f1 show ?thesis
    by (cases r1; cases r2) (auto simp: persist_record_def Let_def)
qed (use assms in \<open>simp add: persist_record_def Let_def\<close>)

lemma persist_memory:
  assumes "persist env st = (r, st')"
  shows "me_best (rs_memory st') = me_best (rs_memory st) \<and> rs_world st' = rs_world st"
proof -
  have o': "me_best (resolve_team_owner env m) = me_best m" for m
    by (simp add: resolve_team_owner_def Let_def split: option.split)
  show ?thesis
    using assms o' by (auto simp: persist_def Let_def add_trace_def split: option.splits prod.splits sum.splits
        dest!: persist_record_frame)
qed

lemma synthesize_best:
  "stage_synthesize env st = (r, st') \<Longrightarrow> me_best (rs_memory st') = me_best (rs_memory st)"
  by (auto simp: stage_synthesize_def Let_def split: sum.splits dest!: persist_memory)

section \<open>Properties\<close>

text \<open>
  C16. A resolve that arrives in flight goes unnoticed. Take a run of an open incident whose session works, whose
  population of the graph succeeds, and beside which no other session reopens a closed incident. Its session
  never reloads the row, so however other sessions change it meanwhile, the check of \<open>_safe_transition\<close> finds no
  closed incident, the run does not stop early for it, and one that gets through its stages writes the terminal
  state of its own verdict over whatever is there. The exception is a failed population: its
  rollback reloads the row, and the run then stops at a resolve committed before.
\<close>

theorem resolve_in_flight_is_unseen:
  assumes "orm_works (de_orm (pp_denv env))" and "pp_populates env" and "keeps_settled env"
    and "\<not> closed (current_state row)"
    and "resume_point (current_state row) (new_run inc row w) = (completed, st1)"
    and "do_steps env completed run_steps (first_population env completed st1) = (n, st2)"
  shows "n \<noteq> Raise IncidentResolvedExternally \<and>
    (n = Go_on \<longrightarrow> current_state (rd_row (rs_delivery st2)) = final_state (rs_memory st2))"
proof -
  have d: "rs_delivery st1 = report_delivery row (Some (fresh row))"
    using resume_point_state [OF assms(5)] by (simp add: new_run_def)
  then have o1: "run_ok st1" "open_run st1"
    using assms(4) by (simp_all add: run_ok_def open_run_def report_delivery_def)
  let ?p = "first_population env completed st1"
  have p: "run_ok ?p" "open_run ?p" using first_population_ok [OF assms(1,3) o1(1)] assms(2) o1(2) by simp_all
  have "n = Go_on \<longrightarrow> current_state (row_of st2) = final_state (rs_memory st2)"
    if "do_steps env completed ss st = (n, st2)" "run_ok st" "open_run st" "Do_synthesize \<notin> set (butlast ss)"
      "ss \<noteq> []" "last ss = Do_synthesize" for ss st
    using that
  proof (induction ss arbitrary: st)
    case (Cons s ss)
    obtain n1 st' where s: "do_step env completed s st = (n1, st')" by fastforce
    note k = do_step_ok [OF assms(1,3) Cons.prems(2) s]
    show ?case
    proof (cases "n1 = Go_on \<and> ss \<noteq> []")
      case True
      with Cons.prems s k have "do_steps env completed ss st' = (n, st2)" "s \<noteq> Do_synthesize" "open_run st'" "run_ok st'"
        by (auto simp: ends_well_def)
      with Cons.IH [of st'] Cons.prems True show ?thesis by auto
    next
      case False
      have "final_state (rs_memory st') = final_state (rs_memory st)" if "n1 = Go_on" "s = Do_synthesize"
        using that s synthesize_best [of env "begin_stage env S_Synthesize st"]
        by (auto simp: outcome_def final_state_def split: prod.splits sum.splits)
      with False Cons.prems s k show ?thesis by (cases n1) auto
    qed
  qed simp
  from this [OF assms(6) p] do_steps_ok [OF assms(1,3) p(1) assms(6)] p show ?thesis by (simp add: ends_well_def)
qed

definition pod_incident :: Incident where
  "pod_incident = (from_alertmanager sample_alert 0)\<lparr>in_labels := [(''alertname'', ''PodDown'')],
     in_namespace := Some ''squad-1'', in_starts_at := []\<rparr>"

text \<open>An environment in which the analysis is one word and no perspective answers.\<close>

definition sample_pipeline :: "kv pipeline_env" where
  "sample_pipeline =
     \<lparr>pp_bridge = sample_bridge, pp_denv = sample_denv 2, pp_now = 0, pp_others = (\<lambda>_ row. row), pp_snapshot = (\<lambda>_. []),
      pp_populates = True, pp_analyze = (\<lambda>_. Inr (PStr ''s'')), pp_teamcity = (\<lambda>_. PNone), pp_gitlab = (\<lambda>_. PNone),
      pp_build_ctx = (\<lambda>_ _. Inr ([], [])), pp_enrich_k8s = (\<lambda>_ ctx. (ctx, [])), pp_enrich_vm = (\<lambda>_ ctx. (ctx, [], PNone)),
      pp_blast_radius = (\<lambda>_ _. PNone), pp_statics = (\<lambda>_. PNone), pp_service = (\<lambda>_ _. None), pp_correlate = (\<lambda>_ _. None),
      pp_resolve_target = (\<lambda>_. (None, None)), pp_deploy_since = (\<lambda>_ _. None), pp_context_snapshot = (\<lambda>_ _. PNone),
      pp_kg_prompt = (\<lambda>_. PNone), pp_pairs = [], pp_similar = Inr [], pp_flap_note = (\<lambda>_. []), pp_dash = '' - '',
      pp_teamcity_prompt = (\<lambda>_. PNone), pp_gitlab_prompt = (\<lambda>_. PNone), pp_json = (\<lambda>_. None),
      pp_ask_perspective = (\<lambda>_ _ _. CallFailed), pp_critic = \<lparr>cs_mode = ''batch'', cs_top_n = 0, cs_batch_max = 1\<rparr>,
      pp_ask_critic = (\<lambda>_ _ _. CallFailed),
      pp_ask_batch = (\<lambda>_ _ _. \<lparr>bc_answer = CallFailed, bc_took = 1, bc_left = 1\<rparr>), pp_facts_prompt = (\<lambda>_. []),
      pp_jira_configured = False, pp_jira = (\<lambda>_ _. None), pp_suggest = (\<lambda>_ _ _ _. Inr (PStr ''f'', None)),
      pp_assess = (\<lambda>_. Inr (PStr ''r'')), pp_error_text = (\<lambda>e. e), pp_synthesize = (\<lambda>_ _ _ _ _. Inr (PStr ''t'')),
      pp_incident_ts = (\<lambda>_. PNone), pp_disagreement = [], pp_coverage = (\<lambda>_. PNone), pp_recurrence_counts = (\<lambda>_ _. (0, 0)),
      ROLLOUT_SUPPRESS_ENABLED = True, ROLLOUT_SUPPRESS_WINDOW_MINUTES = 20, SUPPRESSED_ALERT_SHORT_CIRCUIT = True\<rparr>"

definition open_row :: incident_record where
  "open_row = row0\<lparr>ir_status := Some ''OPEN''\<rparr>"

text \<open>The resolve webhook closes the row while the facts are collected.\<close>

definition resolved_meanwhile :: "kv pipeline_env" where
  "resolved_meanwhile = sample_pipeline\<lparr>pp_others := (\<lambda>s row. if s = S_Diagnose
     then row\<lparr>ir_status := Some (state_value RESOLVED)\<rparr> else row)\<rparr>"

lemma sample_pipeline_works:
  "orm_works (de_orm (pp_denv sample_pipeline))" "keeps_settled sample_pipeline" "pp_populates sample_pipeline"
  "orm_works (de_orm (pp_denv resolved_meanwhile))" "keeps_settled resolved_meanwhile" "pp_populates resolved_meanwhile"
  by (simp_all add: sample_pipeline_def resolved_meanwhile_def keeps_settled_def settled_def del: state_value.simps)

theorem resolve_in_flight_is_unseen_witness:
  "\<exists>n st2. do_steps resolved_meanwhile [] run_steps
       (first_population resolved_meanwhile [] (new_run pod_incident open_row sample_world)) = (n, st2) \<and>
     n \<noteq> Raise IncidentResolvedExternally"
proof -
  let ?st = "new_run pod_incident open_row sample_world"
  obtain n st2 where d: "do_steps resolved_meanwhile [] run_steps (first_population resolved_meanwhile [] ?st) = (n, st2)"
    by fastforce
  have o': "current_state open_row = OPEN" by code_simp
  then have r: "resume_point (current_state open_row) ?st = ([], ?st)" by (simp add: resume_point_def)
  have "\<not> closed (current_state open_row)" by (simp add: o')
  from resolve_in_flight_is_unseen [OF sample_pipeline_works(4,6,5) this r d] d show ?thesis by blast
qed

end
