(* ===== verification/Resume.thy ===== *)
theory Resume
  imports Run_Props Critique Diagnosis
begin

text \<open>
  A run that died and is started again: what it takes from the checkpoint, and that it ends as a run that
  never died. No other session writes meanwhile. The two runs are compared step by step: \<open>twin\<close> relates
  their states, every step keeps it (\<open>twin_step\<close>), and so does the rest of the run (\<open>twin_steps\<close>); the
  points at which a run can be taken up are \<open>at_facts\<close>, \<open>at_verdict\<close> and \<open>at_proposal\<close>.
\<close>

section \<open>A session alone\<close>

definition alone :: "'r pipeline_env \<Rightarrow> bool" where
  "alone env \<longleftrightarrow> orm_works (de_orm (pp_denv env)) \<and> (\<forall>s row. pp_others env s row = row)"

text \<open>The row and an object that was just read or written.\<close>

definition at_row :: "incident_record \<Rightarrow> delivery \<Rightarrow> delivery" where
  "at_row r d = d\<lparr>rd_row := r, rd_record := Some (fresh r)\<rparr>"

lemma at_row_simps [simp]:
  "rd_row (at_row r d) = r" "rd_record (at_row r d) = Some (fresh r)" "at_row r (at_row r' d) = at_row r d"
  "rd_sends (at_row r d) = rd_sends d" "rd_outboxed (at_row r d) = rd_outboxed d" "rd_pending (at_row r d) = rd_pending d"
  "(at_row r d)\<lparr>rd_row := x, rd_record := Some (fresh x)\<rparr> = at_row x d"
  by (simp_all add: at_row_def)

definition synced :: "delivery \<Rightarrow> bool" where
  "synced d \<longleftrightarrow> rd_record d = Some (fresh (rd_row d))"

lemma synced_at_row [simp]: "synced (at_row r d)"
  by (simp add: synced_def)

lemma at_own_row: "synced d \<Longrightarrow> at_row (rd_row d) d = d"
  by (cases d) (simp add: synced_def at_row_def)

lemma commit_row_assigned:
  "commit_row r \<lparr>oo_now = r\<lparr>ir_status := s, ir_analysis := a, ir_trace := t\<rparr>, oo_loaded = r\<rparr> =
     r\<lparr>ir_status := s, ir_analysis := a, ir_trace := t\<rparr>"
  by (simp add: commit_row_def written_def Let_def)

lemma commit_assigned:
  assumes "alone env" and "object_of st = Some obj" and "oo_loaded obj = row_of st"
    and "oo_now obj = (row_of st)\<lparr>ir_status := s, ir_analysis := a, ir_trace := t\<rparr>"
  shows "commit_record env st = (Inr (), st\<lparr>rs_delivery := at_row (oo_now obj) (rs_delivery st)\<rparr>)"
proof -
  have "obj = \<lparr>oo_now = oo_now obj, oo_loaded = row_of st\<rparr>" using assms(3) by (cases obj) simp
  then have "commit_row (row_of st) obj = oo_now obj" using assms(4) commit_row_assigned by metis
  with commit_record_works [of env st obj] assms(1,2) show ?thesis
    by (simp add: alone_def committed_def at_row_def)
qed

section \<open>Going forward\<close>

definition forward :: "IncidentState \<Rightarrow> IncidentState \<Rightarrow> bool" where
  "forward s new \<longleftrightarrow> \<not> closed s \<and> s \<noteq> new \<and> validate_transition s new \<and>
     (case (pipeline_state_order s, pipeline_state_order new) of (Some c, Some n) \<Rightarrow> c \<le> n | _ \<Rightarrow> True)"

lemma forward_steps [simp]: "forward OPEN INVESTIGATING" "forward INVESTIGATING FACTS_COLLECTED"
  "forward FACTS_COLLECTED HYPOTHESIS_GENERATED" "forward HYPOTHESIS_GENERATED FIX_PROPOSED"
  "forward FIX_PROPOSED RESOLVED" "forward FIX_PROPOSED TRIAGE_REQUIRED"
  by (simp_all add: forward_def validate_transition_def)

lemma transition_forward:
  "forward (current_state rec) new \<Longrightarrow> transition_to rec new = Inr (rec\<lparr>ir_status := Some (state_value new)\<rparr>)"
  by (auto simp: forward_def transition_to_def Let_def split: option.splits)

text \<open>The row a transition leaves.\<close>

definition stored :: "IncidentState \<Rightarrow> memory \<Rightarrow> incident_record \<Rightarrow> incident_record" where
  "stored new m r = r\<lparr>ir_status := Some (state_value new),
     ir_analysis := (if pipeline_state_order new = None then ir_analysis r else save_checkpoint m (ir_analysis r))\<rparr>"

lemma safe_transition_forward:
  assumes "alone env" and "object_of st = Some obj" and "oo_loaded obj = row_of st"
    and "oo_now obj = (row_of st)\<lparr>ir_analysis := a, ir_trace := t\<rparr>" and "forward (current_state (row_of st)) new"
  shows "safe_transition env new st =
    (Inr (), st\<lparr>rs_delivery := at_row (stored new (rs_memory st) (oo_now obj)) (rs_delivery st)\<rparr>)"
proof -
  let ?m = "rs_memory st" and ?o = "with_checkpoint (rs_memory st) new obj"
  let ?rec = "(oo_now ?o)\<lparr>ir_status := Some (state_value new)\<rparr>"
  have c: "current_state (oo_now ?o) = current_state (row_of st)"
    by (rule current_state_cong) (simp add: assms(4))
  have t: "transition_to (oo_now ?o) new = Inr ?rec"
    by (rule transition_forward) (use assms(5) c in simp)
  have ne: "?rec \<noteq> oo_now ?o"
    using assms(5) c by (metis current_state_set forward_def)
  have rec: "?rec = stored new ?m (oo_now obj)" by (simp add: stored_def with_checkpoint_def)
  let ?st = "put_object (?o\<lparr>oo_now := ?rec\<rparr>) st"
  have "commit_record env ?st = (Inr (), ?st\<lparr>rs_delivery := at_row ?rec (rs_delivery ?st)\<rparr>)"
    using commit_assigned [OF assms(1), where st = ?st and obj = "?o\<lparr>oo_now := ?rec\<rparr>"
        and s = "Some (state_value new)" and a = "ir_analysis ?rec" and t = t]
      assms(3,4) by (simp add: with_checkpoint_def)
  then have k: "commit_transition env ?o new st = (Inr (), st\<lparr>rs_delivery := at_row ?rec (rs_delivery st)\<rparr>)"
    using t ne by (simp add: commit_transition_def put_object_def at_row_def)
  have "\<not> closed (current_state (oo_now obj))"
    using assms(5) c by (simp add: forward_def)
  with k assms(2) rec show ?thesis by (simp add: safe_transition_def Let_def)
qed

definition finished :: "'r pipeline_env \<Rightarrow> string \<Rightarrow> IncidentState \<Rightarrow> 'r run_state \<Rightarrow> 'r run_state" where
  "finished env name new st =
     st\<lparr>rs_memory := add_trace (stage_trace env name (Some new)) (rs_memory st),
        rs_delivery := at_row (stored new (rs_memory st) (row_of st)) (rs_delivery st)\<rparr>"

lemma safe_transition_synced:
  assumes "alone env" and "synced (rs_delivery st)" and "forward (current_state (row_of st)) new"
  shows "safe_transition env new st =
    (Inr (), st\<lparr>rs_delivery := at_row (stored new (rs_memory st) (row_of st)) (rs_delivery st)\<rparr>)"
  using safe_transition_forward [OF assms(1), where st = st and obj = "fresh (row_of st)"
      and a = "ir_analysis (row_of st)" and t = "ir_trace (row_of st)"]
    assms(2,3) by (simp add: synced_def)

lemma finish_stage_forward:
  assumes "alone env" and "synced (rs_delivery st)" and "forward (current_state (row_of st)) new"
  shows "finish_stage env name new st = (Inr (), finished env name new st)"
  using assms(2) by (simp add: finish_stage_def safe_transition_synced [OF assms] has_record_def synced_def finished_def
      in_memory_def)

lemma current_stored [simp]: "current_state (stored new m r) = new"
  by (simp add: stored_def current_state_def)

section \<open>Two memories of one run\<close>

text \<open>
  After a restore a memory differs in its traces, in where the summaries of the collectors lie, and, once the
  critic has been, in the hypotheses it was given.
\<close>

definition alt :: "pyval list \<Rightarrow> pyval list \<Rightarrow> pyval list \<Rightarrow> HypothesisSet option \<Rightarrow> memory \<Rightarrow> memory" where
  "alt ts rs cs hs m = m\<lparr>me_traces := ts, me_restored := rs, me_collectors := cs, me_hypotheses := hs\<rparr>"

definition twin_memory :: "bool \<Rightarrow> memory \<Rightarrow> memory \<Rightarrow> bool" where
  "twin_memory h m m' \<longleftrightarrow> (\<exists>ts rs cs hs. m' = alt ts rs cs hs m \<and> rs @ cs = collector_summaries m \<and>
     (h \<longrightarrow> hs = me_hypotheses m))"

lemma alt_simps [simp]:
  "me_incident (alt ts rs cs hs m) = me_incident m" "me_analysis (alt ts rs cs hs m) = me_analysis m"
  "me_facts (alt ts rs cs hs m) = me_facts m" "me_cluster_health (alt ts rs cs hs m) = me_cluster_health m"
  "me_gitlab (alt ts rs cs hs m) = me_gitlab m" "me_blast_radius (alt ts rs cs hs m) = me_blast_radius m"
  "me_statics (alt ts rs cs hs m) = me_statics m" "me_kg_prompt (alt ts rs cs hs m) = me_kg_prompt m"
  "me_deploy (alt ts rs cs hs m) = me_deploy m" "me_team_owner (alt ts rs cs hs m) = me_team_owner m"
  "me_snapshot (alt ts rs cs hs m) = me_snapshot m" "me_similar (alt ts rs cs hs m) = me_similar m"
  "me_recurrence (alt ts rs cs hs m) = me_recurrence m" "me_critiqued (alt ts rs cs hs m) = me_critiqued m"
  "me_best (alt ts rs cs hs m) = me_best m" "me_cause (alt ts rs cs hs m) = me_cause m"
  "me_hyp_text (alt ts rs cs hs m) = me_hyp_text m" "me_jira (alt ts rs cs hs m) = me_jira m"
  "me_fix (alt ts rs cs hs m) = me_fix m" "me_intent (alt ts rs cs hs m) = me_intent m"
  "me_match (alt ts rs cs hs m) = me_match m" "me_executor (alt ts rs cs hs m) = me_executor m"
  "me_risk (alt ts rs cs hs m) = me_risk m" "me_synthesis (alt ts rs cs hs m) = me_synthesis m"
  "me_traces (alt ts rs cs hs m) = ts" "me_collectors (alt ts rs cs hs m) = cs" "me_hypotheses (alt ts rs cs hs m) = hs"
  "collector_summaries (alt ts rs cs hs m) = rs @ cs"
  by (simp_all add: alt_def collector_summaries_def)

lemma alt_updates [simp]:
  "(alt ts rs cs hs m)\<lparr>me_incident := inc\<rparr> = alt ts rs cs hs (m\<lparr>me_incident := inc\<rparr>)"
  "(alt ts rs cs hs m)\<lparr>me_analysis := v\<rparr> = alt ts rs cs hs (m\<lparr>me_analysis := v\<rparr>)"
  "(alt ts rs cs hs m)\<lparr>me_facts := fs\<rparr> = alt ts rs cs hs (m\<lparr>me_facts := fs\<rparr>)"
  "(alt ts rs cs hs m)\<lparr>me_cluster_health := v\<rparr> = alt ts rs cs hs (m\<lparr>me_cluster_health := v\<rparr>)"
  "(alt ts rs cs hs m)\<lparr>me_gitlab := v\<rparr> = alt ts rs cs hs (m\<lparr>me_gitlab := v\<rparr>)"
  "(alt ts rs cs hs m)\<lparr>me_blast_radius := v\<rparr> = alt ts rs cs hs (m\<lparr>me_blast_radius := v\<rparr>)"
  "(alt ts rs cs hs m)\<lparr>me_statics := v\<rparr> = alt ts rs cs hs (m\<lparr>me_statics := v\<rparr>)"
  "(alt ts rs cs hs m)\<lparr>me_kg_prompt := v\<rparr> = alt ts rs cs hs (m\<lparr>me_kg_prompt := v\<rparr>)"
  "(alt ts rs cs hs m)\<lparr>me_deploy := v\<rparr> = alt ts rs cs hs (m\<lparr>me_deploy := v\<rparr>)"
  "(alt ts rs cs hs m)\<lparr>me_team_owner := v\<rparr> = alt ts rs cs hs (m\<lparr>me_team_owner := v\<rparr>)"
  "(alt ts rs cs hs m)\<lparr>me_snapshot := v\<rparr> = alt ts rs cs hs (m\<lparr>me_snapshot := v\<rparr>)"
  "(alt ts rs cs hs m)\<lparr>me_similar := v\<rparr> = alt ts rs cs hs (m\<lparr>me_similar := v\<rparr>)"
  "(alt ts rs cs hs m)\<lparr>me_recurrence := b\<rparr> = alt ts rs cs hs (m\<lparr>me_recurrence := b\<rparr>)"
  "(alt ts rs cs hs m)\<lparr>me_critiqued := x\<rparr> = alt ts rs cs hs (m\<lparr>me_critiqued := x\<rparr>)"
  "(alt ts rs cs hs m)\<lparr>me_best := y\<rparr> = alt ts rs cs hs (m\<lparr>me_best := y\<rparr>)"
  "(alt ts rs cs hs m)\<lparr>me_cause := v\<rparr> = alt ts rs cs hs (m\<lparr>me_cause := v\<rparr>)"
  "(alt ts rs cs hs m)\<lparr>me_hyp_text := v\<rparr> = alt ts rs cs hs (m\<lparr>me_hyp_text := v\<rparr>)"
  "(alt ts rs cs hs m)\<lparr>me_jira := v\<rparr> = alt ts rs cs hs (m\<lparr>me_jira := v\<rparr>)"
  "(alt ts rs cs hs m)\<lparr>me_fix := v\<rparr> = alt ts rs cs hs (m\<lparr>me_fix := v\<rparr>)"
  "(alt ts rs cs hs m)\<lparr>me_intent := i\<rparr> = alt ts rs cs hs (m\<lparr>me_intent := i\<rparr>)"
  "(alt ts rs cs hs m)\<lparr>me_match := v\<rparr> = alt ts rs cs hs (m\<lparr>me_match := v\<rparr>)"
  "(alt ts rs cs hs m)\<lparr>me_executor := v\<rparr> = alt ts rs cs hs (m\<lparr>me_executor := v\<rparr>)"
  "(alt ts rs cs hs m)\<lparr>me_risk := v\<rparr> = alt ts rs cs hs (m\<lparr>me_risk := v\<rparr>)"
  "(alt ts rs cs hs m)\<lparr>me_synthesis := v\<rparr> = alt ts rs cs hs (m\<lparr>me_synthesis := v\<rparr>)"
  "(alt ts rs cs hs m)\<lparr>me_traces := ts'\<rparr> = alt ts' rs cs hs m"
  "(alt ts rs cs hs m)\<lparr>me_collectors := cs'\<rparr> = alt ts rs cs' hs m"
  "(alt ts rs cs hs m)\<lparr>me_hypotheses := hs'\<rparr> = alt ts rs cs hs' m"
  by (simp_all add: alt_def)

lemma twin_memoryI: "rs @ cs = collector_summaries m \<Longrightarrow> (h \<Longrightarrow> hs = me_hypotheses m) \<Longrightarrow> twin_memory h m (alt ts rs cs hs m)"
  unfolding twin_memory_def by blast

lemma twin_memoryE:
  assumes "twin_memory h m m'"
  obtains ts rs cs hs where "m' = alt ts rs cs hs m" "rs @ cs = collector_summaries m" "h \<Longrightarrow> hs = me_hypotheses m"
  using assms unfolding twin_memory_def by blast

lemma trace_alt:
  "add_trace t (alt ts rs cs hs m) = alt (ts @ [t]) rs cs hs (add_trace t' m)"
  "collector_summaries (add_trace t m) = collector_summaries m" "me_hypotheses (add_trace t m) = me_hypotheses m"
  by (simp_all add: alt_def add_trace_def collector_summaries_def)

lemma twin_memory_trace: "twin_memory h m m' \<Longrightarrow> twin_memory h (add_trace t m) (add_trace t' m')"
  by (elim twin_memoryE) (simp add: trace_alt(1) [where t' = t] twin_memoryI trace_alt(2,3))

section \<open>Two runs side by side\<close>

text \<open>Two rows that differ in the checkpoint and in the trace.\<close>

definition bare :: "incident_record \<Rightarrow> incident_record" where
  "bare r = r\<lparr>ir_analysis := PNone, ir_trace := PNone\<rparr>"

definition twin_rows :: "incident_record \<Rightarrow> incident_record \<Rightarrow> bool" where
  "twin_rows r r' \<longleftrightarrow> bare r' = bare r \<and> (\<exists>a a'. ir_analysis r = PDict a \<and> ir_analysis r' = PDict a' \<and>
     dpop a' CHECKPOINT_KEY = dpop a CHECKPOINT_KEY)"

definition public_row :: "incident_record \<Rightarrow> incident_record" where
  "public_row r = (bare r)\<lparr>ir_analysis :=
     (case ir_analysis r of PDict a \<Rightarrow> PDict (dpop a CHECKPOINT_KEY) | v \<Rightarrow> v)\<rparr>"

definition twin :: "bool \<Rightarrow> 'r run_state \<Rightarrow> 'r run_state \<Rightarrow> bool" where
  "twin h st st' \<longleftrightarrow> twin_memory h (rs_memory st) (rs_memory st') \<and> rs_world st' = rs_world st \<and>
     synced (rs_delivery st) \<and>
     (\<exists>r'. rs_delivery st' = at_row r' (rs_delivery st) \<and> twin_rows (row_of st) r')"

text \<open>What is left of two runs for others to see.\<close>

definition alike :: "'r run_state \<Rightarrow> 'r run_state \<Rightarrow> bool" where
  "alike st st' \<longleftrightarrow> public_row (row_of st) = public_row (row_of st') \<and> rs_world st = rs_world st' \<and>
     rd_sends (rs_delivery st) = rd_sends (rs_delivery st')"

definition together :: "bool \<Rightarrow> IncidentState \<Rightarrow> next_step \<times> 'r run_state \<Rightarrow> next_step \<times> 'r run_state \<Rightarrow> bool" where
  "together h new x y \<longleftrightarrow> fst x = fst y \<and> (fst x = Go_on \<or> (\<exists>e. fst x = Raise (Failed e))) \<and> alike (snd x) (snd y) \<and>
     (fst x = Go_on \<longrightarrow> twin h (snd x) (snd y) \<and> current_state (row_of (snd x)) = new)"

lemma public_twin: "twin_rows r r' \<Longrightarrow> public_row r' = public_row r"
  by (auto simp: twin_rows_def public_row_def)

lemma twin_alike: "twin h st st' \<Longrightarrow> alike st st'"
  by (auto simp: twin_def alike_def public_twin)

lemma twinE:
  assumes "twin h st st'"
  obtains ts rs cs hs r' rn where
    "st' = st\<lparr>rs_memory := alt ts rs cs hs (rs_memory st), rs_delivery := at_row r' (rs_delivery st), rs_ran := rn\<rparr>"
    "rs @ cs = collector_summaries (rs_memory st)" "h \<Longrightarrow> hs = me_hypotheses (rs_memory st)"
    "synced (rs_delivery st)" "twin_rows (row_of st) r'"
proof -
  obtain r' where r': "rs_delivery st' = at_row r' (rs_delivery st)" "twin_rows (row_of st) r'"
    using assms by (auto simp: twin_def)
  from assms obtain ts rs cs hs where m: "rs_memory st' = alt ts rs cs hs (rs_memory st)"
    "rs @ cs = collector_summaries (rs_memory st)" "h \<Longrightarrow> hs = me_hypotheses (rs_memory st)"
    unfolding twin_def twin_memory_def by blast
  show thesis
    by (rule that [where ts = ts and rn = "rs_ran st'", OF _ m(2,3) _ r'(2)])
      (use assms m(1) r'(1) in \<open>cases st, cases st', simp_all add: twin_def\<close>)
qed

lemma twinI:
  assumes "rs @ cs = collector_summaries m" and "h \<Longrightarrow> hs = me_hypotheses m" and "synced d" and "twin_rows (rd_row d) r'"
  shows "twin h (st\<lparr>rs_memory := m, rs_delivery := d\<rparr>)
    (st\<lparr>rs_memory := alt ts rs cs hs m, rs_delivery := at_row r' d, rs_ran := rn\<rparr>)"
  using assms by (auto simp: twin_def intro: twin_memoryI)

lemma dpop_dset [simp]: "dpop (dset a k v) k = dpop a k"
  by (induction a) (auto simp: dpop_def dset_def)

lemma bare_simps [simp]:
  "bare (stored new m r) = (bare r)\<lparr>ir_status := Some (state_value new)\<rparr>" "ir_status (bare r) = ir_status r"
  by (simp_all add: bare_def stored_def)

lemma stored_analysis:
  "ir_analysis r = PDict a \<Longrightarrow> ir_analysis (stored new m r) =
     PDict (if pipeline_state_order new = None then a else dset a CHECKPOINT_KEY (PDict (checkpoint_of m)))"
  by (simp add: stored_def save_checkpoint_def)

lemma twin_stored: "twin_rows r r' \<Longrightarrow> twin_rows (stored new m r) (stored new m' r')"
  by (auto simp: twin_rows_def stored_analysis)

lemma twin_state: "twin_rows r r' \<Longrightarrow> current_state r' = current_state r"
  unfolding twin_rows_def by (rule current_state_cong) (metis bare_simps(2))

lemma together_fail: "twin h st st' \<Longrightarrow> together h new (Raise (Failed e), st) (Raise (Failed e), st')"
  by (simp add: together_def twin_alike)

lemma outcome_simps [simp]: "outcome (Inl e, st) = (Raise e, st)" "outcome (Inr u, st) = (Go_on, st)"
  by (simp_all add: outcome_def)

text \<open>A stage ends with a transition, in both runs.\<close>

lemma twin_finish:
  assumes "alone env" and "twin h st st'" and "forward (current_state (row_of st)) new"
  shows "together h new (outcome (finish_stage env name new st)) (outcome (finish_stage env name new st'))"
proof -
  let ?d = "rs_delivery st" and ?d' = "rs_delivery st'"
  obtain r' where r': "?d' = at_row r' ?d" "twin_rows (row_of st) r'" using assms(2) by (auto simp: twin_def)
  then have f: "forward (current_state (row_of st')) new" using assms(3) twin_state [OF r'(2)] by simp
  have "twin h (finished env name new st) (finished env name new st')"
    using assms(2) r' by (auto simp: twin_def finished_def intro: twin_memory_trace twin_stored)
  moreover have "synced ?d" "synced ?d'" using assms(2) r' by (simp_all add: twin_def)
  ultimately show ?thesis
    using twin_alike by (auto simp: together_def finish_stage_forward [OF assms(1) _ assms(3)]
        finish_stage_forward [OF assms(1) _ f] finished_def)
qed

section \<open>The stages, side by side\<close>

lemma begin_alone:
  assumes "alone env"
  shows "rs_delivery (begin_stage env s st) = rs_delivery st"
  using assms by (cases "rs_delivery st") (simp add: begin_stage_def alone_def)

lemma twin_begin: "alone env \<Longrightarrow> twin h st st' \<Longrightarrow> twin h (begin_stage env s st) (begin_stage env s st')"
  by (simp add: twin_def begin_alone)

lemma enrich_alt:
  "enrich_gitlab env (alt ts rs cs hs m) = alt ts rs cs hs (enrich_gitlab env m)"
  "enrich_clickhouse env (ctx, alt ts rs cs hs m) = apsnd (alt ts rs cs hs) (enrich_clickhouse env (ctx, m))"
  "enrich_statics env (ctx, alt ts rs cs hs m) = apsnd (alt ts rs cs hs) (enrich_statics env (ctx, m))"
  "enrich_deploy_correlation env (ctx, alt ts rs cs hs m) = apsnd (alt ts rs cs hs) (enrich_deploy_correlation env (ctx, m))"
  "filter_rollout_noise env (ctx, alt ts rs cs hs m) = apsnd (alt ts rs cs hs) (filter_rollout_noise env (ctx, m))"
  by (simp_all add: enrich_gitlab_def enrich_clickhouse_def enrich_statics_def enrich_deploy_correlation_def
      filter_rollout_noise_def Let_def split: option.split pyval.split prod.split)

lemma enrich_keeps:
  "me_collectors (enrich_gitlab env m) = me_collectors m \<and> me_restored (enrich_gitlab env m) = me_restored m \<and>
     me_hypotheses (enrich_gitlab env m) = me_hypotheses m"
  "me_collectors (snd (enrich_clickhouse env cm)) = me_collectors (snd cm) \<and>
     me_restored (snd (enrich_clickhouse env cm)) = me_restored (snd cm) \<and>
     me_hypotheses (snd (enrich_clickhouse env cm)) = me_hypotheses (snd cm)"
  "me_collectors (snd (enrich_statics env cm)) = me_collectors (snd cm) \<and>
     me_restored (snd (enrich_statics env cm)) = me_restored (snd cm) \<and>
     me_hypotheses (snd (enrich_statics env cm)) = me_hypotheses (snd cm)"
  "me_collectors (snd (enrich_deploy_correlation env cm)) = me_collectors (snd cm) \<and>
     me_restored (snd (enrich_deploy_correlation env cm)) = me_restored (snd cm) \<and>
     me_hypotheses (snd (enrich_deploy_correlation env cm)) = me_hypotheses (snd cm)"
  "me_collectors (snd (filter_rollout_noise env cm)) = me_collectors (snd cm) \<and>
     me_restored (snd (filter_rollout_noise env cm)) = me_restored (snd cm) \<and>
     me_hypotheses (snd (filter_rollout_noise env cm)) = me_hypotheses (snd cm)"
  by (auto simp: enrich_gitlab_def enrich_clickhouse_def enrich_statics_def enrich_deploy_correlation_def
      filter_rollout_noise_def Let_def split: option.split pyval.split prod.split)

definition diagnosed :: "'r pipeline_env \<Rightarrow> pydict \<times> memory \<Rightarrow> memory" where
  "diagnosed env cm =
     (case filter_rollout_noise env (enrich_deploy_correlation env (enrich_statics env (enrich_clickhouse env cm))) of
        (ctx, m) \<Rightarrow>
          (let facts = engine_run (pp_pairs env) (DEFAULT_RULES (ve_time (bv_verify (pp_bridge env)))) ctx in
           m\<lparr>me_facts := Some facts, me_snapshot := pp_context_snapshot env ctx facts,
             me_kg_prompt := pp_kg_prompt env (dget ctx KG_CTX_KEY)\<rparr>))"

lemma diagnosed_alt: "diagnosed env (ctx, alt ts rs cs hs m) = alt ts rs cs hs (diagnosed env (ctx, m))"
  by (simp add: diagnosed_def enrich_alt apsnd_def map_prod_def split_beta Let_def)

lemma enriched_labels:
  "in_labels (me_incident (enrich_gitlab env m)) = in_labels (me_incident m)"
  "in_labels (me_incident (snd (enrich_clickhouse env cm))) = in_labels (me_incident (snd cm))"
  "in_labels (me_incident (snd (enrich_statics env cm))) = in_labels (me_incident (snd cm))"
  "in_labels (me_incident (snd (enrich_deploy_correlation env cm))) = in_labels (me_incident (snd cm))"
  "in_labels (enrich_teamcity env inc) = in_labels inc"
  by (auto simp: enrich_gitlab_def enrich_clickhouse_def enrich_statics_def enrich_deploy_correlation_def
      enrich_teamcity_def Let_def split: option.split pyval.split prod.split)

text \<open>No rollout is taken for the cause of the alert.\<close>

definition no_rollout :: "'r pipeline_env \<Rightarrow> Incident \<Rightarrow> bool" where
  "no_rollout env inc \<longleftrightarrow>
     (\<not> ROLLOUT_SUPPRESS_ENABLED env \<or> label inc ''alertname'' \<notin> Some ` set ROLLOUT_NOISE_ALERTNAMES) \<and>
     label inc ''suppress_reason'' \<noteq> Some ''active_rollout''"

lemma no_rollout_labels: "in_labels inc' = in_labels inc \<Longrightarrow> no_rollout env inc' = no_rollout env inc"
  by (simp add: no_rollout_def label_def)

lemma no_rollout_quiet: "no_rollout env (me_incident m) \<Longrightarrow> \<not> noise_suppressed env m"
  by (simp add: no_rollout_def noise_suppressed_def)

lemma filter_no_rollout: "no_rollout env (me_incident (snd cm)) \<Longrightarrow> filter_rollout_noise env cm = cm"
  by (auto simp: no_rollout_def filter_rollout_noise_def Let_def split: prod.split option.split)
    (auto simp: ROLLOUT_NOISE_ALERTNAMES_def image_iff)

lemma diagnose_diagnosed:
  "diagnose env m =
     (let m1 = enrich_gitlab env (m\<lparr>me_incident := enrich_teamcity env (me_incident m)\<rparr>) in
      case pp_build_ctx env (me_incident m1) (me_analysis m1) of
        Inl e \<Rightarrow> Inl e
      | Inr (ctx0, runs) \<Rightarrow>
          (case pp_enrich_k8s env (me_incident m1) ctx0 of (ctx1, k8s_runs) \<Rightarrow>
           (case pp_enrich_vm env (me_incident m1) ctx1 of (ctx2, vm_runs, health) \<Rightarrow>
              Inr (diagnosed env (ctx2, m1\<lparr>me_collectors := me_collectors m1 @ runs @ k8s_runs @ vm_runs,
                     me_cluster_health := (if health = PNone then me_cluster_health m1 else health)\<rparr>)))))"
  by (simp add: diagnose_def diagnosed_def Let_def split: sum.split prod.split)

lemma diagnosed_keeps:
  "me_collectors (diagnosed env cm) = me_collectors (snd cm) \<and> me_restored (diagnosed env cm) = me_restored (snd cm) \<and>
     me_hypotheses (diagnosed env cm) = me_hypotheses (snd cm)"
  by (simp add: enrich_keeps diagnosed_def split_beta Let_def)

lemma diagnosed_labels:
  assumes "no_rollout env (me_incident (snd cm))"
  shows "in_labels (me_incident (diagnosed env cm)) = in_labels (me_incident (snd cm))"
proof -
  let ?cm = "enrich_deploy_correlation env (enrich_statics env (enrich_clickhouse env cm))"
  have l: "in_labels (me_incident (snd ?cm)) = in_labels (me_incident (snd cm))" by (simp add: enriched_labels)
  with assms have "filter_rollout_noise env ?cm = ?cm" using filter_no_rollout no_rollout_labels by metis
  with l show ?thesis by (simp add: diagnosed_def split_beta Let_def)
qed

text \<open>Both diagnoses fail alike or make the same of their memories.\<close>

lemma twin_diagnose:
  assumes "twin_memory h m m'"
  obtains (fails) e where "diagnose env m = Inl e" "diagnose env m' = Inl e"
  | (works) m1 m1' where "diagnose env m = Inr m1" "diagnose env m' = Inr m1'" "twin_memory h m1 m1'"
proof -
  obtain ts rs cs hs where m': "m' = alt ts rs cs hs m" "rs @ cs = collector_summaries m" "h \<Longrightarrow> hs = me_hypotheses m"
    using assms unfolding twin_memory_def by blast
  let ?m1 = "enrich_gitlab env (m\<lparr>me_incident := enrich_teamcity env (me_incident m)\<rparr>)"
  have m1: "me_collectors ?m1 = me_collectors m \<and> me_restored ?m1 = me_restored m \<and> me_hypotheses ?m1 = me_hypotheses m"
    by (simp add: enrich_keeps)
  show thesis
  proof (cases "pp_build_ctx env (me_incident ?m1) (me_analysis ?m1)")
    case (Inl e)
    then show thesis using fails by (simp add: diagnose_diagnosed Let_def m'(1) enrich_alt)
  next
    case (Inr cr)
    obtain ctx0 runs ctx1 k8s_runs ctx2 vm_runs health where c: "cr = (ctx0, runs)"
      "pp_enrich_k8s env (me_incident ?m1) ctx0 = (ctx1, k8s_runs)"
      "pp_enrich_vm env (me_incident ?m1) ctx1 = (ctx2, vm_runs, health)" by (metis surj_pair)
    let ?new = "runs @ k8s_runs @ vm_runs" and ?h = "if health = PNone then me_cluster_health ?m1 else health"
    let ?d = "diagnosed env (ctx2, ?m1\<lparr>me_collectors := me_collectors ?m1 @ ?new, me_cluster_health := ?h\<rparr>)"
    have "diagnose env m = Inr ?d" using Inr c by (simp add: diagnose_diagnosed Let_def)
    moreover have "diagnose env m' = Inr (alt ts rs (cs @ ?new) hs ?d)"
      using Inr c m1 by (simp add: diagnose_diagnosed Let_def m'(1) enrich_alt flip: diagnosed_alt)
        (simp add: alt_def)
    moreover have "collector_summaries ?d = collector_summaries m @ ?new" "me_hypotheses ?d = me_hypotheses m"
      using m1 by (simp_all add: diagnosed_keeps collector_summaries_def)
    then have "twin_memory h ?d (alt ts rs (cs @ ?new) hs ?d)"
      using m'(2,3) by (intro twin_memoryI) simp_all
    ultimately show thesis using works by blast
  qed
qed

text \<open>Steps that leave the row alone.\<close>

lemma twin_quiet:
  assumes "twin h st st'" and "twin_memory h' m m'" and "current_state (row_of st) = s"
  shows "together h' s (Go_on, st\<lparr>rs_memory := m, rs_world := w\<rparr>) (Go_on, st'\<lparr>rs_memory := m', rs_world := w\<rparr>)"
  using assms twin_alike [of h st st'] by (auto simp: together_def twin_def alike_def)

lemma twin_quiet_memory:
  assumes "twin h st st'" and "twin_memory h' (f (rs_memory st)) (g (rs_memory st'))" and "current_state (row_of st) = s"
  shows "together h' s (Go_on, in_memory f st) (Go_on, in_memory g st')"
  using assms twin_alike [of h st st'] by (auto simp: together_def twin_def alike_def)

lemma summaries_update [simp]:
  "collector_summaries (m\<lparr>me_similar := v, me_recurrence := b\<rparr>) = collector_summaries m"
  "collector_summaries (m\<lparr>me_jira := v\<rparr>) = collector_summaries m"
  "collector_summaries (m\<lparr>me_risk := v\<rparr>) = collector_summaries m"
  "collector_summaries (m\<lparr>me_executor := v\<rparr>) = collector_summaries m"
  "collector_summaries (m\<lparr>me_synthesis := v\<rparr>) = collector_summaries m"
  "collector_summaries (m\<lparr>me_team_owner := v\<rparr>) = collector_summaries m"
  "collector_summaries (m\<lparr>me_match := v\<rparr>) = collector_summaries m"
  "collector_summaries (m\<lparr>me_hypotheses := hs\<rparr>) = collector_summaries m"
  by (simp_all add: collector_summaries_def)

lemma twin_memory_cong:
  assumes "twin_memory h m m'" and "\<And>ts rs cs hs. f (alt ts rs cs hs m) = alt ts rs cs hs (f m)"
    and "collector_summaries (f m) = collector_summaries m" and "me_hypotheses (f m) = me_hypotheses m"
  shows "twin_memory h (f m) (f m')"
  using assms(1) unfolding twin_memory_def by (metis assms(2-4))

lemma twin_memory_hypotheses:
  "twin_memory h m m' \<Longrightarrow> twin_memory h' (m\<lparr>me_hypotheses := hs\<rparr>) (m'\<lparr>me_hypotheses := hs\<rparr>)"
  unfolding twin_memory_def by (elim exE conjE) (simp add: alt_def collector_summaries_def, blast)

lemma twin_hypothesize:
  assumes "twin h st st'" and "current_state (row_of st) = s"
  shows "together h s (outcome (stage_hypothesize env st)) (outcome (stage_hypothesize env st'))"
proof -
  obtain ts rs cs hs where m': "rs_memory st' = alt ts rs cs hs (rs_memory st)"
    "rs @ cs = collector_summaries (rs_memory st)" "h \<Longrightarrow> hs = me_hypotheses (rs_memory st)"
    using assms(1) unfolding twin_def twin_memory_def by blast
  show ?thesis
  proof (cases "pp_similar env")
    case (Inl e)
    then show ?thesis using together_fail [OF assms(1)] by (simp add: stage_hypothesize_def)
  next
    case (Inr past)
    let ?g = "\<lambda>m. m\<lparr>me_similar := PList (map PDict past), me_recurrence := list_ex (\<lambda>p. truthy (dget p ''recurrence'')) past\<rparr>"
    let ?r = "generate (pp_json env) (pp_ask_perspective env (hypothesis_summary env (?g (rs_memory st)) past)
      (facts_of (rs_memory st))) (facts_of (rs_memory st))"
    let ?f = "\<lambda>hyps m. (add_trace (stage_trace env ''hypothesis'' None) m)\<lparr>me_hypotheses := Some hyps\<rparr>"
    have f: "facts_of (alt ts rs cs hs m) = facts_of m" "facts_of (?g m) = facts_of m"
      "hypothesis_summary env (alt ts rs cs hs m) past = hypothesis_summary env m past" for m
      by (simp_all add: facts_of_def hypothesis_summary_def Let_def)
    have "twin_memory h (?g (rs_memory st)) (alt ts rs cs hs (?g (rs_memory st)))"
      using m'(2,3) by (intro twin_memoryI) simp_all
    then have g: "twin h (st\<lparr>rs_memory := ?g (rs_memory st)\<rparr>) (st'\<lparr>rs_memory := ?g (rs_memory st')\<rparr>)"
      using assms(1) by (simp add: twin_def m'(1))
    have r: "stage_hypothesize env st' = (case ?r of
        Inl e \<Rightarrow> (Inl (Failed (stage_exn_of e)), st'\<lparr>rs_memory := ?g (rs_memory st')\<rparr>)
      | Inr hyps \<Rightarrow> (Inr (), in_memory (?f hyps) (st'\<lparr>rs_memory := ?g (rs_memory st')\<rparr>)))"
      by (simp add: stage_hypothesize_def Inr Let_def m'(1) f split: sum.split)
    have r': "stage_hypothesize env st = (case ?r of
        Inl e \<Rightarrow> (Inl (Failed (stage_exn_of e)), st\<lparr>rs_memory := ?g (rs_memory st)\<rparr>)
      | Inr hyps \<Rightarrow> (Inr (), in_memory (?f hyps) (st\<lparr>rs_memory := ?g (rs_memory st)\<rparr>)))"
      by (simp add: stage_hypothesize_def Inr Let_def f)
    show ?thesis
    proof (cases ?r)
      case (Inl e)
      with together_fail [OF g] r r' show ?thesis by simp
    next
      case (Inr hyps)
      have "twin_memory h (?f hyps (?g (rs_memory st))) (?f hyps (?g (rs_memory st')))"
        using g by (intro twin_memory_hypotheses [where h = h] twin_memory_trace) (simp add: twin_def)
      with twin_quiet_memory [OF g _ , of h "?f hyps" "?f hyps" s] assms(2) r r' Inr show ?thesis by simp
    qed
  qed
qed

lemma twin_transition:
  assumes "alone env" and "twin h st st'" and "forward (current_state (row_of st)) new"
  shows "together h new (outcome (safe_transition env new st)) (outcome (safe_transition env new st'))"
proof -
  obtain r' where r': "rs_delivery st' = at_row r' (rs_delivery st)" "twin_rows (row_of st) r'"
    using assms(2) by (auto simp: twin_def)
  have fw: "forward (current_state (row_of st')) new" using assms(3) r' twin_state [OF r'(2)] by simp
  have sy: "synced (rs_delivery st)" "synced (rs_delivery st')" using assms(2) r' by (simp_all add: twin_def)
  have "twin h (snd (safe_transition env new st)) (snd (safe_transition env new st'))"
    using assms(2) r' by (auto simp: safe_transition_synced [OF assms(1) sy(1) assms(3)]
        safe_transition_synced [OF assms(1) sy(2) fw] twin_def intro: twin_stored)
  then show ?thesis
    using twin_alike by (auto simp: together_def safe_transition_synced [OF assms(1) sy(1) assms(3)]
        safe_transition_synced [OF assms(1) sy(2) fw])
qed

lemma facts_of_alt [simp]: "facts_of (alt ts rs cs hs m) = facts_of m"
  by (simp add: facts_of_def)

lemma after_critique_alt: "after_critique env hyps (alt ts rs cs hs m) =
    alt (ts @ [stage_trace env ''critic'' (Some HYPOTHESIS_GENERATED)]) rs cs hs (after_critique env hyps m)"
  by (simp add: after_critique_def) (simp add: alt_def add_trace_def)

lemma twin_critique:
  assumes "alone env" and "twin True st st'" and "current_state (row_of st) = FACTS_COLLECTED"
  shows "together True HYPOTHESIS_GENERATED (outcome (stage_critique env st)) (outcome (stage_critique env st'))"
proof -
  obtain ts rs cs where m': "rs_memory st' = alt ts rs cs (me_hypotheses (rs_memory st)) (rs_memory st)"
    "rs @ cs = collector_summaries (rs_memory st)"
    using assms(2) unfolding twin_def twin_memory_def by blast
  let ?m = "rs_memory st" and ?m' = "rs_memory st'"
  have f: "facts_of (alt ts rs cs hs m) = facts_of m" for m hs by (simp add: facts_of_def)
  let ?r = "critique_all (pp_json env) (pp_critic env) (facts_of ?m) (pp_ask_critic env (facts_of ?m))
    (pp_ask_batch env (facts_of ?m)) (case me_hypotheses ?m of Some hs \<Rightarrow> hs | None \<Rightarrow> [])"
  show ?thesis
  proof (cases ?r)
    case (Inl e)
    with together_fail [OF assms(2)] show ?thesis by (simp add: stage_critique_def Let_def m'(1) f)
  next
    case (Inr hyps)
    let ?f = "in_memory (after_critique env hyps)"
    have "twin_memory True (after_critique env hyps ?m) (after_critique env hyps ?m')"
      unfolding m'(1) after_critique_alt
      by (rule twin_memoryI) (use m'(2) in \<open>simp_all add: after_critique_def add_trace_def collector_summaries_def\<close>)
    with assms(2) have t: "twin True (?f st) (?f st')" by (simp add: twin_def)
    have fw: "forward (current_state (row_of (?f st))) HYPOTHESIS_GENERATED" using assms(3) by simp
    have "stage_critique env st = safe_transition env HYPOTHESIS_GENERATED (?f st)"
      "stage_critique env st' = safe_transition env HYPOTHESIS_GENERATED (?f st')"
      using Inr by (simp_all add: stage_critique_def Let_def m'(1) split: option.split)
    with twin_transition [OF assms(1) t fw] show ?thesis by simp
  qed
qed

lemma twin_jira:
  assumes "twin h st st'" and "current_state (row_of st) = s"
  shows "together h s (outcome (stage_jira env st)) (outcome (stage_jira env st'))"
proof -
  obtain ts rs cs hs where m': "rs_memory st' = alt ts rs cs hs (rs_memory st)"
    "rs @ cs = collector_summaries (rs_memory st)" "h \<Longrightarrow> hs = me_hypotheses (rs_memory st)"
    using assms(1) unfolding twin_def twin_memory_def by blast
  have j: "together h s (Go_on, in_memory (\<lambda>m. m\<lparr>me_jira := c\<rparr>) st) (Go_on, in_memory (\<lambda>m. m\<lparr>me_jira := c\<rparr>) st')" for c
    by (rule twin_quiet_memory [OF assms(1) _ assms(2)])
      (use m' in \<open>auto simp: intro!: twin_memoryI\<close>)
  have k: "together h s (Go_on, st) (Go_on, st')"
    using assms twin_alike by (simp add: together_def)
  show ?thesis
    using j k by (simp add: stage_jira_def Let_def m'(1) split: bool.split option.split)
qed

lemma candidate_alt:
  "candidate_playbooks env (alt ts rs cs hs m) = apsnd (alt ts rs cs hs) (candidate_playbooks env m)"
  by (simp add: candidate_playbooks_def Let_def split: sum.split)

lemma candidate_keeps:
  "collector_summaries (snd (candidate_playbooks env m)) = collector_summaries m \<and>
   me_hypotheses (snd (candidate_playbooks env m)) = me_hypotheses m"
  by (simp add: candidate_playbooks_def Let_def collector_summaries_def split: sum.split)

lemma summaries_fix [simp]:
  "collector_summaries (m\<lparr>me_fix := v, me_intent := i\<rparr>) = collector_summaries m"
  "collector_summaries (m\<lparr>me_fix := v, me_intent := i, me_match := x\<rparr>) = collector_summaries m"
  by (simp_all add: collector_summaries_def)

lemma twin_fix:
  assumes "alone env" and "twin h st st'" and "current_state (row_of st) = HYPOTHESIS_GENERATED"
  shows "together h FIX_PROPOSED (outcome (stage_fix env st)) (outcome (stage_fix env st'))"
proof -
  obtain ts rs cs hs where m': "rs_memory st' = alt ts rs cs hs (rs_memory st)"
    "rs @ cs = collector_summaries (rs_memory st)" "h \<Longrightarrow> hs = me_hypotheses (rs_memory st)"
    using assms(2) unfolding twin_def twin_memory_def by blast
  obtain c m where m: "candidate_playbooks env (rs_memory st) = (c, m)" by fastforce
  then have k: "collector_summaries m = collector_summaries (rs_memory st)" "me_hypotheses m = me_hypotheses (rs_memory st)"
    using candidate_keeps [of env "rs_memory st"] by simp_all
  have c': "candidate_playbooks env (rs_memory st') = (c, alt ts rs cs hs m)"
    using m by (simp add: m'(1) candidate_alt)
  have w: "rs_world st' = rs_world st" using assms(2) by (simp add: twin_def)
  have t: "twin h (st\<lparr>rs_memory := x, rs_world := v\<rparr>) (st'\<lparr>rs_memory := alt ts rs cs hs x, rs_world := v\<rparr>)"
    if "collector_summaries x = collector_summaries m" "me_hypotheses x = me_hypotheses m" for x v
    using assms(2) that m' k by (auto simp: twin_def intro!: twin_memoryI)
  have t0: "twin h (st\<lparr>rs_memory := x\<rparr>) (st'\<lparr>rs_memory := alt ts rs cs hs x\<rparr>)"
    if "collector_summaries x = collector_summaries m" "me_hypotheses x = me_hypotheses m" for x
    using t [OF that, of "rs_world st"] w by (simp add: twin_def)
  have fin: "together h FIX_PROPOSED
      (outcome (finish_stage env ''fix'' FIX_PROPOSED (st\<lparr>rs_memory := x, rs_world := v\<rparr>)))
      (outcome (finish_stage env ''fix'' FIX_PROPOSED (st'\<lparr>rs_memory := alt ts rs cs hs x, rs_world := v\<rparr>)))"
    if "collector_summaries x = collector_summaries m" "me_hypotheses x = me_hypotheses m" for x v
    by (rule twin_finish [OF assms(1) t [OF that]]) (use assms(3) in simp)
  have fin0: "together h FIX_PROPOSED
      (outcome (finish_stage env ''fix'' FIX_PROPOSED (st\<lparr>rs_memory := x\<rparr>)))
      (outcome (finish_stage env ''fix'' FIX_PROPOSED (st'\<lparr>rs_memory := alt ts rs cs hs x\<rparr>)))"
    if "collector_summaries x = collector_summaries m" "me_hypotheses x = me_hypotheses m" for x
    by (rule twin_finish [OF assms(1) t0 [OF that]]) (use assms(3) in simp)
  show ?thesis
  proof (cases "pp_suggest env (me_cause m) (me_recurrence m) (me_jira m) c")
    case (Inl e)
    with together_fail [OF t0 [of m]] m c' show ?thesis by (simp add: stage_fix_def)
  next
    case (Inr sp)
    then show ?thesis
      using m c' w fin0 fin by (cases sp; cases "snd sp") (simp_all add: stage_fix_def Let_def split: prod.split)
  qed
qed

lemma twin_risk:
  assumes "twin h st st'" and "current_state (row_of st) = s"
  shows "together h s (outcome (stage_risk env st)) (outcome (stage_risk env st'))"
proof -
  have f: "me_fix (rs_memory st') = me_fix (rs_memory st)"
    using assms(1) unfolding twin_def twin_memory_def by force
  have "twin_memory h ((add_trace t (rs_memory st))\<lparr>me_risk := v\<rparr>) ((add_trace t (rs_memory st'))\<lparr>me_risk := v\<rparr>)" for t v
    by (rule twin_memory_cong [where f = "\<lambda>m. m\<lparr>me_risk := v\<rparr>"])
      (use assms(1) in \<open>simp_all add: twin_def twin_memory_trace\<close>)
  then have "together h s (Go_on, in_memory (\<lambda>m. (add_trace t m)\<lparr>me_risk := v\<rparr>) st)
      (Go_on, in_memory (\<lambda>m. (add_trace t m)\<lparr>me_risk := v\<rparr>) st')" for t v
    by (intro twin_quiet_memory [OF assms(1) _ assms(2)])
  with together_fail [OF assms(1)] f show ?thesis by (simp add: stage_risk_def split: sum.split)
qed

lemma twin_executor:
  assumes "twin h st st'" and "current_state (row_of st) = s"
  shows "together h s (outcome (stage_executor env st)) (outcome (stage_executor env st'))"
proof -
  have f: "me_intent (rs_memory st') = me_intent (rs_memory st)" "rs_world st' = rs_world st"
    using assms(1) unfolding twin_def twin_memory_def by force+
  have u: "twin_memory h (m\<lparr>me_executor := v\<rparr>) (m'\<lparr>me_executor := v\<rparr>)" if "twin_memory h m m'" for v m m'
    by (rule twin_memory_cong [where f = "\<lambda>m. m\<lparr>me_executor := v\<rparr>", OF that]) simp_all
  have tm: "twin_memory h (rs_memory st) (rs_memory st')" using assms(1) by (simp add: twin_def)
  have a: "together h s (Go_on, in_memory (\<lambda>m. m\<lparr>me_executor := v\<rparr>) st) (Go_on, in_memory (\<lambda>m. m\<lparr>me_executor := v\<rparr>) st')" for v
    using u [OF tm] by (intro twin_quiet_memory [OF assms(1) _ assms(2)])
  have b: "together h s
      (Go_on, in_memory (\<lambda>m. (add_trace t m)\<lparr>me_executor := v\<rparr>) (st\<lparr>rs_world := w\<rparr>))
      (Go_on, in_memory (\<lambda>m. (add_trace t m)\<lparr>me_executor := v\<rparr>) (st'\<lparr>rs_world := w\<rparr>))" for t v w
  proof (rule twin_quiet_memory)
    show "twin h (st\<lparr>rs_world := w\<rparr>) (st'\<lparr>rs_world := w\<rparr>)" using assms(1) by (simp add: twin_def)
    show "twin_memory h ((add_trace t (rs_memory (st\<lparr>rs_world := w\<rparr>)))\<lparr>me_executor := v\<rparr>)
        ((add_trace t (rs_memory (st'\<lparr>rs_world := w\<rparr>)))\<lparr>me_executor := v\<rparr>)"
      using u [OF twin_memory_trace [OF tm]] by simp
  qed (use assms(2) in simp)
  show ?thesis
    using a b by (simp add: stage_executor_def f split: option.split prod.split)
qed

section \<open>The report, side by side\<close>

text \<open>The same delivery over a row with another trace.\<close>

definition retrace :: "pyval \<Rightarrow> delivery \<Rightarrow> delivery" where
  "retrace t d = at_row ((rd_row d)\<lparr>ir_trace := t\<rparr>) d"

definition noted :: "(pydict \<Rightarrow> pydict) \<Rightarrow> incident_record \<Rightarrow> incident_record" where
  "noted f r = r\<lparr>ir_analysis := PDict (f (Report_Delivery.analysis_of r))\<rparr>"

lemma noted_trace: "noted f (r\<lparr>ir_trace := t\<rparr>) = (noted f r)\<lparr>ir_trace := t\<rparr>"
  by (simp add: noted_def Report_Delivery.analysis_of_def)

lemma update_at_row:
  assumes "orm_works (de_orm denv)" and "rd_record d \<noteq> None"
  shows "update_analysis denv f d = at_row (noted f (rd_row d)) d"
  using update_analysis_fresh [OF assms(1)] assms(2) by (auto simp: at_row_def noted_def)

lemma set_column_at_row [simp]:
  "rd_row (set_state_column denv x n d) = rd_row d" "at_row r (set_state_column denv x n d) = at_row r d"
  "rd_record (set_state_column denv x n d) = None \<longleftrightarrow> rd_record d = None"
  by (auto simp: set_state_column_def at_row_def split: option.split)

lemma marks_at_row:
  assumes "orm_works (de_orm denv)" and "rd_record d \<noteq> None"
  shows "mark_sent denv n d = at_row (noted (sent_marker denv n) (rd_row d)) (d\<lparr>rd_pending := None\<rparr>)"
    and "mark_failed denv n x d = at_row (noted (failed_marker denv n x) (rd_row d)) (d\<lparr>rd_pending := None\<rparr>)"
    and "bump_attempts denv args n d = at_row (noted (bumped_marker denv args n) (rd_row d))
      (d\<lparr>rd_pending := map_option (\<lambda>p. dset p ''attempts'' (PInt n)) (rd_pending d)\<rparr>)"
    and "refresh_args denv args d = at_row (noted (refreshed_marker denv args) (rd_row d)) d"
  using assms by (simp_all add: mark_sent_def mark_failed_def bump_attempts_def refresh_args_def update_at_row)

lemma retrace_commutes:
  "(retrace t d)\<lparr>rd_pending := x\<rparr> = retrace t (d\<lparr>rd_pending := x\<rparr>)"
  "(retrace t d)\<lparr>rd_sends := y\<rparr> = retrace t (d\<lparr>rd_sends := y\<rparr>)"
  "(retrace t d)\<lparr>rd_audit := z\<rparr> = retrace t (d\<lparr>rd_audit := z\<rparr>)"
  "at_row (noted f (rd_row (retrace t d))) (retrace t d') = retrace t (at_row (noted f (rd_row d)) d')"
  by (simp_all add: retrace_def at_row_def noted_trace)

lemma retrace_simps [simp]:
  "rd_row (retrace t d) = (rd_row d)\<lparr>ir_trace := t\<rparr>" "rd_record (retrace t d) \<noteq> None"
  "rd_sends (retrace t d) = rd_sends d" "rd_outboxed (retrace t d) = rd_outboxed d" "rd_pending (retrace t d) = rd_pending d"
  "rd_audit (retrace t d) = rd_audit d"
  by (simp_all add: retrace_def at_row_def)

text \<open>A delivery does not look at the trace.\<close>

lemma deliver_retrace:
  assumes "orm_works (de_orm denv)" and "rd_record d \<noteq> None"
  shows "deliver denv pending (retrace t d) = apsnd (retrace t) (deliver denv pending d)"
proof -
  have k: "mark_sent denv n (retrace t e) = retrace t (mark_sent denv n e)"
    "mark_failed denv n x (retrace t e) = retrace t (mark_failed denv n x e)"
    "bump_attempts denv args n (retrace t e) = retrace t (bump_attempts denv args n e)"
    if "rd_record e \<noteq> None" for n x args e
    using that by (simp_all add: marks_at_row [OF assms(1)] retrace_commutes(4) [symmetric] noted_trace retrace_commutes(1)
        del: retrace_commutes) (simp_all add: retrace_def at_row_def noted_trace)
  have u: "Report_Delivery.undelivered denv args n (retrace t e) = apsnd (retrace t) (Report_Delivery.undelivered denv args n e)"
    if "rd_record e \<noteq> None" for args n e
    using that by (simp add: Report_Delivery.undelivered_def k retrace_commutes(3))
  show ?thesis
    using assms(2) by (simp add: deliver_def send_once_def Let_def u k retrace_commutes(2) split: pyval.split sum.split)
qed

lemma flush_retrace:
  assumes "orm_works (de_orm denv)" and "synced d"
  shows "flush denv (retrace t d) = apsnd (retrace t) (flush denv d)"
  using deliver_retrace [OF assms(1)] assms(2) by (simp add: flush_def synced_def split: option.split)

definition closing_row :: "'r pipeline_env \<Rightarrow> memory \<Rightarrow> pydict \<Rightarrow> incident_record \<Rightarrow> pyval \<Rightarrow> incident_record" where
  "closing_row env m a r t = (bare r)\<lparr>ir_status := Some (state_value (final_state m)),
     ir_analysis := PDict (outbox_analysis (pp_denv env) (build_report_args env m) (merge_dict a (fresh_analysis env m))),
     ir_trace := t\<rparr>"

definition closing_delivery :: "'r pipeline_env \<Rightarrow> memory \<Rightarrow> incident_record \<Rightarrow> delivery \<Rightarrow> delivery" where
  "closing_delivery env m r d =
     (let enriched = enriched_args env (resolve_team_owner env m) (build_report_args env m) in
      refresh_args (pp_denv env) enriched (Report_Delivery.stage enriched (mark_outboxed (at_row r d))))"

lemma forward_final: "current_state r = FIX_PROPOSED \<Longrightarrow> forward (current_state r) (final_state m)"
  by (simp add: final_state_def)

lemma persist_forward:
  assumes "alone env" and "synced (rs_delivery st)" and "current_state (row_of st) = FIX_PROPOSED"
    and "ir_analysis (row_of st) = PDict a"
  shows "persist env st = (Inr (), st\<lparr>rs_memory := resolve_team_owner env (rs_memory st),
    rs_delivery := closing_delivery env (rs_memory st)
      (closing_row env (rs_memory st) a (row_of st)
         (PList (me_traces (rs_memory st) @ [stage_trace env ''synthesis'' (Some (final_state (rs_memory st)))])))
      (rs_delivery st)\<rparr>)"
proof -
  let ?m = "rs_memory st" and ?r = "row_of st" and ?d = "rs_delivery st"
  let ?ts = "me_traces ?m @ [stage_trace env ''synthesis'' (Some (final_state ?m))]"
  let ?A = "outbox_analysis (pp_denv env) (build_report_args env ?m) (merge_dict a (fresh_analysis env ?m))"
  have f: "forward (current_state ?r) (final_state ?m)" by (rule forward_final [OF assms(3)])
  have n: "pipeline_state_order (final_state ?m) = None" by (simp add: final_state_def)
  let ?obj = "assign_analysis ?A (fresh ?r)"
  let ?r1 = "?r\<lparr>ir_status := Some (state_value (final_state ?m)), ir_analysis := PDict ?A\<rparr>"
  have t: "safe_transition env (final_state ?m) (put_object ?obj st) =
      (Inr (), st\<lparr>rs_delivery := at_row ?r1 ?d\<rparr>)"
    using safe_transition_forward [OF assms(1), where st = "put_object ?obj st" and obj = ?obj and a = "PDict ?A"
        and t = "ir_trace ?r"] f n
    by (simp add: assign_analysis_def stored_def put_object_def at_row_def)
  let ?st1 = "st\<lparr>rs_delivery := at_row ?r1 ?d\<rparr>" and ?obj2 = "assign_trace ?ts (fresh ?r1)"
  have "on_object (assign_trace ?ts) ?st1 = put_object ?obj2 ?st1" by (simp add: on_object_def)
  moreover have "commit_record env (put_object ?obj2 ?st1) =
      (Inr (), st\<lparr>rs_delivery := at_row (?r1\<lparr>ir_trace := PList ?ts\<rparr>) ?d\<rparr>)"
    using commit_assigned [OF assms(1), where st = "put_object ?obj2 ?st1" and obj = ?obj2
        and s = "ir_status ?r1" and a = "PDict ?A" and t = "PList ?ts"]
    by (simp add: assign_trace_def put_object_def at_row_def)
  moreover have "?r1\<lparr>ir_trace := PList ?ts\<rparr> = closing_row env ?m a ?r (PList ?ts)"
    by (simp add: closing_row_def bare_def)
  ultimately have p: "persist_record env (fresh ?r) st =
      (Inr (), st\<lparr>rs_delivery := mark_outboxed (at_row (closing_row env ?m a ?r (PList ?ts)) ?d)\<rparr>)"
    using t assms(4) by (simp add: persist_record_def Let_def merged_with_def on_delivery_def)
  have "rd_outboxed (Report_Delivery.stage e (mark_outboxed x))" for e x by (simp add: stage_def mark_outboxed_def)
  with p assms(2) show ?thesis
    by (simp add: persist_def Let_def synced_def closing_delivery_def on_delivery_def)
qed

lemma dpop_dset_other: "k \<noteq> k' \<Longrightarrow> dpop (dset a k v) k' = dset (dpop a k') k v"
  by (induction a) (auto simp: dpop_def dset_def)

lemma dpop_merge: "k \<notin> fst ` set f \<Longrightarrow> dpop (merge_dict a f) k = merge_dict (dpop a k) f"
  unfolding merge_dict_def by (induction f arbitrary: a) (auto simp: dpop_dset_other)

lemma outbox_checkpoint:
  assumes "dpop a' CHECKPOINT_KEY = dpop a CHECKPOINT_KEY"
  shows "outbox_analysis denv args (merge_dict a' (fresh_analysis env m)) =
    outbox_analysis denv args (merge_dict a (fresh_analysis env m))"
proof -
  have "CHECKPOINT_KEY \<notin> fst ` set (fresh_analysis env m)"
    by (simp add: fresh_analysis_def CHECKPOINT_KEY_def)
  with assms show ?thesis by (simp add: outbox_analysis_def dpop_merge)
qed

lemma closing_alt:
  assumes "rs @ cs = collector_summaries m"
  shows "build_report_args env (alt ts rs cs hs m) = build_report_args env m"
    "fresh_analysis env (alt ts rs cs hs m) = fresh_analysis env m"
    "final_state (alt ts rs cs hs m) = final_state m"
    "resolve_team_owner env (alt ts rs cs hs m) = alt ts rs cs hs (resolve_team_owner env m)"
  using assms by (simp_all add: build_report_args_def fresh_analysis_def final_state_def resolve_team_owner_def
      enriched_args_def json_intent_def quality_def cause_of_def critiqued_of_def Let_def split: option.split)

lemma enriched_alt [simp]: "enriched_args env (alt ts rs cs hs m) args = enriched_args env m args"
  by (simp add: enriched_args_def Let_def)

lemma closing_row_twin:
  assumes "twin_rows r r'" and "ir_analysis r = PDict a" and "ir_analysis r' = PDict a'" and "rs @ cs = collector_summaries m"
  shows "closing_row env (alt ts rs cs hs m) a' r' t = (closing_row env m a r t')\<lparr>ir_trace := t\<rparr>"
proof -
  have "dpop a' CHECKPOINT_KEY = dpop a CHECKPOINT_KEY" "bare r' = bare r"
    using assms(1-3) by (auto simp: twin_rows_def)
  then show ?thesis by (simp add: closing_row_def closing_alt [OF assms(4)] outbox_checkpoint [of a' a])
qed

lemma closing_delivery_twin:
  assumes "orm_works (de_orm (pp_denv env))" and "rs @ cs = collector_summaries m"
  shows "closing_delivery env (alt ts rs cs hs m) (r\<lparr>ir_trace := t\<rparr>) (at_row x d) = retrace t (closing_delivery env m r d)"
  using assms by (simp add: closing_delivery_def Let_def closing_alt marks_at_row(4) stage_def mark_outboxed_def retrace_def
      noted_trace) (simp add: at_row_def)

lemma closing_delivery_synced: "orm_works (de_orm (pp_denv env)) \<Longrightarrow> synced (closing_delivery env m r d)"
  by (simp add: closing_delivery_def Let_def marks_at_row(4) stage_def mark_outboxed_def)

lemma twin_synthesize:
  assumes "alone env" and "twin h st st'" and "current_state (row_of st) = FIX_PROPOSED"
  obtains (fails) e where "stage_synthesize env st = (Inl (Failed e), st)" "stage_synthesize env st' = (Inl (Failed e), st')"
  | (works) st1 st1' t where "stage_synthesize env st = (Inr (), st1)" "stage_synthesize env st' = (Inr (), st1')"
      "rs_world st1' = rs_world st1" "synced (rs_delivery st1)" "rs_delivery st1' = retrace t (rs_delivery st1)"
proof -
  obtain ts rs cs hs r' where m': "rs_memory st' = alt ts rs cs hs (rs_memory st)"
    "rs @ cs = collector_summaries (rs_memory st)" "rs_delivery st' = at_row r' (rs_delivery st)"
    and tr: "twin_rows (row_of st) r'"
    using assms(2) unfolding twin_def twin_memory_def by blast
  have sy: "synced (rs_delivery st)" "rs_world st' = rs_world st" using assms(2) by (simp_all add: twin_def)
  obtain a a' where a: "ir_analysis (row_of st) = PDict a" "ir_analysis r' = PDict a'" using tr by (auto simp: twin_rows_def)
  have ow: "orm_works (de_orm (pp_denv env))" using assms(1) by (simp add: alone_def)
  let ?m = "rs_memory st"
  let ?r = "pp_synthesize env (me_analysis ?m) (me_hyp_text ?m) (me_cause ?m) (me_fix ?m) (me_risk ?m)"
  show thesis
  proof (cases ?r)
    case (Inl e)
    with fails show thesis by (simp add: stage_synthesize_def Let_def m'(1))
  next
    case (Inr x)
    let ?f = "\<lambda>m. m\<lparr>me_synthesis := x\<rparr>" and ?n = "(rs_memory st)\<lparr>me_synthesis := x\<rparr>"
    let ?p = "in_memory ?f st" and ?p' = "in_memory ?f st'"
    have s1: "stage_synthesize env st = persist env ?p" "stage_synthesize env st' = persist env ?p'"
      using Inr by (simp_all add: stage_synthesize_def Let_def m'(1))
    note p1 = persist_forward [OF assms(1), of ?p a]
    note p2 = persist_forward [OF assms(1), of ?p' a']
    have n: "rs @ cs = collector_summaries ?n" using m'(2) by simp
    show thesis
    proof (rule works)
      show "stage_synthesize env st = (Inr (), snd (persist env ?p))"
        using s1(1) p1 sy(1) assms(3) a(1) by simp
      show "stage_synthesize env st' = (Inr (), snd (persist env ?p'))"
        using s1(2) p2 assms(3) a(2) m'(3) twin_state [OF tr] by simp
      show "rs_world (snd (persist env ?p')) = rs_world (snd (persist env ?p))"
        using p1 p2 sy assms(3) a m'(3) twin_state [OF tr] by simp
      show "synced (rs_delivery (snd (persist env ?p)))"
        using p1 sy(1) assms(3) a(1) closing_delivery_synced [OF ow] by simp
      show "rs_delivery (snd (persist env ?p')) = retrace (PList (ts @
          [stage_trace env ''synthesis'' (Some (final_state ?m))])) (rs_delivery (snd (persist env ?p)))"
        using p1 p2 sy(1) assms(3) a m'(1,3) twin_state [OF tr]
        by (simp add: closing_row_twin [OF tr a n, where t' = "PList (me_traces ?m @
            [stage_trace env ''synthesis'' (Some (final_state ?m))])"] closing_delivery_twin [OF ow n] closing_alt(3) [OF n])
    qed
  qed
qed

section \<open>The rest of a run, side by side\<close>

fun before :: "step \<Rightarrow> IncidentState" where
  "before (Do Analyze) = OPEN"
| "before (Do Diagnose) = INVESTIGATING"
| "before Noise_check = FACTS_COLLECTED"
| "before (Do Hypothesize) = FACTS_COLLECTED"
| "before (Do Critique) = FACTS_COLLECTED"
| "before (Do Jira) = HYPOTHESIS_GENERATED"
| "before (Do Fix) = HYPOTHESIS_GENERATED"
| "before _ = FIX_PROPOSED"

fun after :: "step \<Rightarrow> IncidentState" where
  "after (Do Analyze) = INVESTIGATING"
| "after (Do Diagnose) = FACTS_COLLECTED"
| "after (Do Critique) = HYPOTHESIS_GENERATED"
| "after (Do Fix) = FIX_PROPOSED"
| "after s = before s"

fun tail :: "bool \<Rightarrow> IncidentState \<Rightarrow> step list \<Rightarrow> bool" where
  "tail h s [] = True"
| "tail h s (x # xs) \<longleftrightarrow> s = before x \<and> x \<noteq> Do Analyze \<and> (x = Do Critique \<longrightarrow> h) \<and> (x = Do_synthesize \<longleftrightarrow> xs = []) \<and>
     tail h (after x) xs"

lemma twin_incident: "twin h st st' \<Longrightarrow> me_incident (rs_memory st') = me_incident (rs_memory st)"
  unfolding twin_def twin_memory_def by force

lemma twin_step:
  assumes "alone env" and "twin h st st'" and "current_state (row_of st) = before s" and "s \<noteq> Do Analyze"
    and "s = Do Critique \<Longrightarrow> h" and "s \<noteq> Do_synthesize" and "no_rollout env (me_incident (rs_memory st))"
  shows "together h (after s) (do_step env [] s st) (do_step env [] s st')"
proof -
  have b: "twin h (begin_stage env x st) (begin_stage env x st')" for x by (rule twin_begin [OF assms(1,2)])
  have c: "current_state (row_of (begin_stage env x st)) = before s" for x
    using assms(3) by (simp add: begin_alone [OF assms(1)] del: begin_stage_simps)
  show ?thesis
  proof (cases s)
    case (Do x)
    show ?thesis
    proof (cases x)
      case Diagnose
      have tm: "twin_memory h (rs_memory (begin_stage env S_Diagnose st)) (rs_memory (begin_stage env S_Diagnose st'))"
        using b [of S_Diagnose] by (simp add: twin_def)
      have "together h FACTS_COLLECTED (outcome (stage_diagnose env (begin_stage env S_Diagnose st)))
          (outcome (stage_diagnose env (begin_stage env S_Diagnose st')))"
      proof (rule twin_diagnose [OF tm, of env])
        fix e
        assume "diagnose env (rs_memory (begin_stage env S_Diagnose st)) = Inl e"
          "diagnose env (rs_memory (begin_stage env S_Diagnose st')) = Inl e"
        with together_fail [OF b] show ?thesis by (simp add: stage_diagnose_def)
      next
        fix m1 m1'
        assume d: "diagnose env (rs_memory (begin_stage env S_Diagnose st)) = Inr m1"
          "diagnose env (rs_memory (begin_stage env S_Diagnose st')) = Inr m1'" "twin_memory h m1 m1'"
        then have "twin h ((begin_stage env S_Diagnose st)\<lparr>rs_memory := m1\<rparr>) ((begin_stage env S_Diagnose st')\<lparr>rs_memory := m1'\<rparr>)"
          using b [of S_Diagnose] by (simp add: twin_def)
        from twin_finish [OF assms(1) this, of FACTS_COLLECTED "''diagnostics''"] d c [of S_Diagnose] Do Diagnose
        show ?thesis by (simp add: stage_diagnose_def)
      qed
      with Do Diagnose show ?thesis by simp
    next
      case Hypothesize
      with twin_hypothesize [OF b c] Do show ?thesis by simp
    next
      case Critique
      with assms(5) Do have "h = True" by simp
      with twin_critique [OF assms(1), of "begin_stage env S_Critique st"] b [of S_Critique] c [of S_Critique] Do Critique
      show ?thesis by simp
    next
      case Jira
      with twin_jira [OF b c] Do show ?thesis by simp
    next
      case Fix
      with twin_fix [OF assms(1) b] c [of S_Fix] Do show ?thesis by simp
    qed (use assms(4) Do in simp)
  next
    case Noise_check
    have "\<not> noise_suppressed env (rs_memory st)" "\<not> noise_suppressed env (rs_memory st')"
      using assms(7) twin_incident [OF assms(2)] by (simp_all add: no_rollout_quiet)
    with Noise_check assms(2,3) twin_alike show ?thesis by (auto simp: together_def)
  next
    case Do_risk
    with twin_risk [OF b c] show ?thesis by simp
  next
    case Do_executor
    with twin_executor [OF b c] show ?thesis by simp
  qed (use assms(6) in simp)
qed

text \<open>A step that goes on leaves the labels of the incident alone.\<close>

lemma finish_stage_memory:
  assumes "finish_stage env name new st = (Inr (), st')"
  shows "\<exists>t. rs_memory st' = add_trace t (rs_memory st)"
  using assms by (auto simp: finish_stage_def split: prod.splits sum.splits dest!: safe_transition_frame)

lemma add_trace_incident [simp]: "me_incident (add_trace t m) = me_incident m"
  by (simp add: add_trace_def)

lemma diagnose_labels:
  assumes "diagnose env m = Inr m1" and "no_rollout env (me_incident m)"
  shows "in_labels (me_incident m1) = in_labels (me_incident m)"
proof -
  obtain cm where "m1 = diagnosed env cm" and l: "in_labels (me_incident (snd cm)) = in_labels (me_incident m)"
    using assms(1) by (auto simp: diagnose_diagnosed Let_def enriched_labels split: sum.splits prod.splits)
  moreover have "no_rollout env (me_incident (snd cm))" using assms(2) no_rollout_labels [OF l] by blast
  ultimately show ?thesis using diagnosed_labels [of env cm] by simp
qed

lemma outcome_go: "outcome r = (Go_on, st) \<longleftrightarrow> r = (Inr (), st)"
  by (cases r; cases "fst r") (auto simp: outcome_def)

lemma candidate_incident: "me_incident (snd (candidate_playbooks env m)) = me_incident m"
  by (simp add: candidate_playbooks_def Let_def split: sum.split)

lemma stage_labels:
  assumes "no_rollout env (me_incident (rs_memory st))"
  shows "stage_analyze env st = (Inr (), st') \<Longrightarrow> in_labels (me_incident (rs_memory st')) = in_labels (me_incident (rs_memory st))"
    and "stage_diagnose env st = (Inr (), st') \<Longrightarrow> in_labels (me_incident (rs_memory st')) = in_labels (me_incident (rs_memory st))"
    and "stage_hypothesize env st = (Inr (), st') \<Longrightarrow> in_labels (me_incident (rs_memory st')) = in_labels (me_incident (rs_memory st))"
    and "stage_critique env st = (Inr (), st') \<Longrightarrow> in_labels (me_incident (rs_memory st')) = in_labels (me_incident (rs_memory st))"
    and "stage_jira env st = (Inr (), st') \<Longrightarrow> in_labels (me_incident (rs_memory st')) = in_labels (me_incident (rs_memory st))"
    and "stage_fix env st = (Inr (), st') \<Longrightarrow> in_labels (me_incident (rs_memory st')) = in_labels (me_incident (rs_memory st))"
    and "stage_risk env st = (Inr (), st') \<Longrightarrow> in_labels (me_incident (rs_memory st')) = in_labels (me_incident (rs_memory st))"
    and "stage_executor env st = (Inr (), st') \<Longrightarrow> in_labels (me_incident (rs_memory st')) = in_labels (me_incident (rs_memory st))"
  subgoal by (auto simp: stage_analyze_def split: sum.splits dest!: finish_stage_memory)
  subgoal using assms by (auto simp: stage_diagnose_def split: sum.splits dest!: finish_stage_memory diagnose_labels)
  subgoal by (auto simp: stage_hypothesize_def Let_def add_trace_def split: sum.splits)
  subgoal by (auto simp: stage_critique_def Let_def after_critique_def split: sum.splits dest!: safe_transition_frame)
  subgoal by (auto simp: stage_jira_def Let_def split: bool.splits option.splits)
  subgoal using candidate_incident [of env "rs_memory st"]
    by (auto simp: stage_fix_def Let_def split: sum.splits prod.splits option.splits dest!: finish_stage_memory)
  subgoal by (auto simp: stage_risk_def split: sum.splits)
  subgoal by (auto simp: stage_executor_def split: if_splits option.splits prod.splits)
  done

lemma do_step_labels:
  assumes "do_step env C s st = (Go_on, st')" and "no_rollout env (me_incident (rs_memory st))" and "s \<noteq> Do_synthesize"
  shows "in_labels (me_incident (rs_memory st')) = in_labels (me_incident (rs_memory st))"
proof -
  have n: "no_rollout env (me_incident (rs_memory (begin_stage env x st)))" for x using assms(2) by simp
  show ?thesis
  proof (cases s)
    case (Do x)
    with assms(1) stage_labels [OF n] show ?thesis by (cases x) (auto simp: outcome_go split: if_splits)
  qed (use assms stage_labels(7,8) [OF n] in \<open>auto simp: outcome_go split: if_splits prod.splits sum.splits\<close>)
qed

text \<open>The same steps from twin states end alike; those of a whole run leave the report to be sent.\<close>

lemma twin_steps:
  assumes "alone env" and "twin h st st'" and "current_state (row_of st) = s" and "tail h s ss" and "ss \<noteq> []"
    and "no_rollout env (me_incident (rs_memory st))"
    and "do_steps env [] ss st = (n, st1)" and "do_steps env [] ss st' = (n', st1')"
  shows "n' = n \<and> (n = Go_on \<or> (\<exists>e. n = Raise (Failed e))) \<and> (n \<noteq> Go_on \<longrightarrow> alike st1 st1') \<and>
    (n = Go_on \<longrightarrow> rs_world st1' = rs_world st1 \<and> synced (rs_delivery st1) \<and>
       (\<exists>t. rs_delivery st1' = retrace t (rs_delivery st1)))"
  using assms(2-8)
proof (induction ss arbitrary: st st' s)
  case (Cons x xs)
  have s: "current_state (row_of st) = before x" "x \<noteq> Do Analyze" "x = Do Critique \<Longrightarrow> h"
    "x = Do_synthesize \<longleftrightarrow> xs = []" "tail h (after x) xs"
    using Cons.prems(2,3) by auto
  show ?case
  proof (cases "x = Do_synthesize")
    case True
    have b: "twin h (begin_stage env S_Synthesize st) (begin_stage env S_Synthesize st')"
      by (rule twin_begin [OF assms(1) Cons.prems(1)])
    have c: "current_state (row_of (begin_stage env S_Synthesize st)) = FIX_PROPOSED"
      using s(1) True by (simp add: begin_alone [OF assms(1)] del: begin_stage_simps)
    from True s(4) have "xs = []" by simp
    with True Cons.prems(6,7) have d: "outcome (stage_synthesize env (begin_stage env S_Synthesize st)) = (n, st1)"
      "outcome (stage_synthesize env (begin_stage env S_Synthesize st')) = (n', st1')"
      by (auto split: prod.splits next_step.splits)
    show ?thesis
    proof (rule twin_synthesize [OF assms(1) b c])
      fix e
      assume "stage_synthesize env (begin_stage env S_Synthesize st) = (Inl (Failed e), begin_stage env S_Synthesize st)"
        "stage_synthesize env (begin_stage env S_Synthesize st') = (Inl (Failed e), begin_stage env S_Synthesize st')"
      with d twin_alike [OF b] show ?thesis by auto
    next
      fix y y' t
      assume "stage_synthesize env (begin_stage env S_Synthesize st) = (Inr (), y)"
        "stage_synthesize env (begin_stage env S_Synthesize st') = (Inr (), y')"
        "rs_world y' = rs_world y" "synced (rs_delivery y)" "rs_delivery y' = retrace t (rs_delivery y)"
      with d show ?thesis by auto
    qed
  next
    case False
    obtain n2 st2 where d: "do_step env [] x st = (n2, st2)" by fastforce
    obtain n2' st2' where d': "do_step env [] x st' = (n2', st2')" by fastforce
    have t: "together h (after x) (n2, st2) (n2', st2')"
      using twin_step [OF assms(1) Cons.prems(1) s(1-3) False Cons.prems(5)] d d' by simp
    have ne: "xs \<noteq> []" using False s(4) by simp
    show ?thesis
    proof (cases "n2 = Go_on")
      case True
      then have t2: "n2' = Go_on" "twin h st2 st2'" "current_state (row_of st2) = after x"
        using t by (auto simp: together_def)
      have l: "in_labels (me_incident (rs_memory st2)) = in_labels (me_incident (rs_memory st))"
        using do_step_labels [OF _ Cons.prems(5) False] d True by blast
      have "do_steps env [] xs st2 = (n, st1)" "do_steps env [] xs st2' = (n', st1')"
        using Cons.prems(6,7) d d' True t2(1) by simp_all
      from Cons.IH [OF t2(2,3) s(5) ne _ this] no_rollout_labels [OF l, of env] Cons.prems(5) show ?thesis by simp
    next
      case False
      with t Cons.prems(6,7) d d' show ?thesis by (auto simp: together_def)
    qed
  qed
qed simp

text \<open>What a run leads to when its steps are over.\<close>

definition concluded :: "'r pipeline_env \<Rightarrow> next_step \<times> 'r run_state \<Rightarrow> 'r task_result" where
  "concluded env r =
     (case r of
        (Raise IncidentResolvedExternally, st) \<Rightarrow> (Inr (), record_resolved_early env ''resolved_mid_flight'' RESOLVED st)
      | (Raise (Failed e), st) \<Rightarrow> (Inl e, st)
      | (Return, st) \<Rightarrow> (Inr (), st)
      | (Go_on, st) \<Rightarrow> delivered flush env st)"

definition same_end :: "'r task_result \<Rightarrow> 'r task_result \<Rightarrow> bool" where
  "same_end x y \<longleftrightarrow> fst x = fst y \<and> alike (snd x) (snd y)"

lemma alike_retrace:
  assumes "rd_row d' = rd_row (retrace t d)" and "rd_sends d' = rd_sends d" and "rs_world st = rs_world st'"
    and "rs_delivery st = d" and "rs_delivery st' = d'"
  shows "alike st st'"
  using assms by (simp add: alike_def public_row_def bare_def)

lemma twin_concluded:
  assumes "alone env" and "twin h st st'" and "current_state (row_of st) = s" and "tail h s ss" and "ss \<noteq> []"
    and "no_rollout env (me_incident (rs_memory st))"
  shows "same_end (concluded env (do_steps env [] ss st)) (concluded env (do_steps env [] ss st'))"
proof -
  obtain n st1 where d: "do_steps env [] ss st = (n, st1)" by fastforce
  obtain n' st1' where d': "do_steps env [] ss st' = (n', st1')" by fastforce
  note k = twin_steps [OF assms d d']
  show ?thesis
  proof (cases "n = Go_on")
    case True
    then obtain t where t: "n' = Go_on" "rs_world st1' = rs_world st1" "synced (rs_delivery st1)"
      "rs_delivery st1' = retrace t (rs_delivery st1)" using k by blast
    obtain r e where f: "flush (pp_denv env) (rs_delivery st1) = (r, e)" by fastforce
    have "flush (pp_denv env) (rs_delivery st1') = (r, retrace t e)"
      using flush_retrace [OF _ t(3), of "pp_denv env" t] assms(1) f t(4) by (simp add: alone_def)
    with True d d' f t show ?thesis
      by (cases r) (auto simp: same_end_def concluded_def delivered_def intro!: alike_retrace)
  next
    case False
    with k obtain e where "n = Raise (Failed e)" "n' = Raise (Failed e)" by blast
    with k d d' show ?thesis by (simp add: same_end_def concluded_def)
  qed
qed

section \<open>What a checkpoint holds\<close>

text \<open>A memory without what the completed stages put into it.\<close>

definition wipe :: "Incident_Machine.stage set \<Rightarrow> memory \<Rightarrow> memory" where
  "wipe completed m =
     (let m1 = m\<lparr>me_analysis := PNone, me_traces := []\<rparr>;
          m2 = (if Diagnose \<in> completed
                then m1\<lparr>me_facts := None, me_cluster_health := PNone, me_gitlab := PNone, me_blast_radius := PNone,
                  me_statics := PNone, me_kg_prompt := PNone, me_deploy := PNone, me_team_owner := PNone,
                  me_snapshot := PNone, me_restored := [], me_collectors := []\<rparr>
                else m1);
          m3 = (if Critique \<in> completed
                then m2\<lparr>me_similar := PList [], me_recurrence := False, me_hypotheses := None, me_critiqued := None,
                  me_best := None, me_cause := PStr [], me_hyp_text := PStr []\<rparr>
                else m2)
      in if Fix \<in> completed then m3\<lparr>me_jira := PNone, me_fix := PNone, me_intent := None, me_match := PNone\<rparr> else m3)"

text \<open>The incident of a memory is the one of the task, with the context of the build server.\<close>

definition same_incident :: "Incident \<Rightarrow> Incident \<Rightarrow> bool" where
  "same_incident inc inc' \<longleftrightarrow> inc' = (if in_teamcity_context inc = PNone
     then inc\<lparr>in_teamcity_context := in_teamcity_context inc'\<rparr> else inc)"

definition untouched :: "Incident_Machine.stage set \<Rightarrow> Incident \<Rightarrow> memory \<Rightarrow> bool" where
  "untouched completed inc m \<longleftrightarrow> wipe completed m = (new_memory inc)\<lparr>me_incident := me_incident m\<rparr> \<and>
     same_incident inc (me_incident m)"

lemma resumed_alt:
  assumes "untouched completed inc saved"
    and "completed \<in> {{Analyze, Diagnose}, {Analyze, Diagnose, Hypothesize, Critique},
      {Analyze, Diagnose, Hypothesize, Critique, Jira, Fix}}"
  shows "resumed completed saved (new_memory inc) = alt (me_traces saved) (collector_summaries saved) []
    (if Critique \<in> completed then me_critiqued saved else me_hypotheses saved) saved"
proof -
  obtain j where j: "me_incident saved = j" by blast
  have i: "in_teamcity_context inc = PNone \<Longrightarrow> inc\<lparr>in_teamcity_context := in_teamcity_context j\<rparr> = j"
    "in_teamcity_context inc \<noteq> PNone \<Longrightarrow> inc = j"
    using assms(1) j by (auto simp: untouched_def same_incident_def split: if_splits)
  have w: "wipe completed saved = (new_memory inc)\<lparr>me_incident := j\<rparr>" using assms(1) j by (simp add: untouched_def)
  show ?thesis
    using assms(2) w i j
    by (cases saved) (auto simp: resumed_def alt_def wipe_def new_memory_def Let_def collector_summaries_def)
qed

lemma resumed_alt_first:
  assumes "untouched {Analyze} inc saved" and "me_incident saved = inc"
  shows "resumed {Analyze} saved (new_memory inc) = alt (me_traces saved) [] [] (me_hypotheses saved) saved"
    "collector_summaries saved = []"
  using assms by (cases saved; auto simp: untouched_def resumed_def alt_def wipe_def new_memory_def Let_def
      collector_summaries_def)+

text \<open>What the clients answer can be stored as JSON.\<close>

definition json_answers :: "'r pipeline_env \<Rightarrow> bool" where
  "json_answers env \<longleftrightarrow>
     (\<forall>inc v. pp_analyze env inc = Inr v \<longrightarrow> v \<noteq> PNone) \<and>
     (\<forall>inc v ctx runs. pp_build_ctx env inc v = Inr (ctx, runs) \<longrightarrow> list_all is_dict runs) \<and>
     (\<forall>inc ctx ctx' runs. pp_enrich_k8s env inc ctx = (ctx', runs) \<longrightarrow> list_all is_dict runs) \<and>
     (\<forall>inc ctx ctx' runs health. pp_enrich_vm env inc ctx = (ctx', runs, health) \<longrightarrow> list_all is_dict runs)"

definition restorable :: "memory \<Rightarrow> bool" where
  "restorable m \<longleftrightarrow> (\<forall>h. me_best m = Some h \<longrightarrow> hy_cause h \<noteq> []) \<and>
     (\<forall>i. me_intent m = Some i \<longrightarrow> model_validate (PDict (model_dump i)) = Inr i)"

text \<open>A run that has just made a transition: what it stored can be read back.\<close>

definition saved_point :: "Incident_Machine.stage set \<Rightarrow> Incident \<Rightarrow> IncidentState \<Rightarrow> memory \<Rightarrow> 'r run_state \<Rightarrow> bool" where
  "saved_point completed inc s saved st \<longleftrightarrow>
     (\<exists>r a. rs_delivery st = report_delivery r (Some (fresh r)) \<and> current_state r = s \<and> ir_analysis r = PDict a \<and>
        dget a CHECKPOINT_KEY = PDict (checkpoint_of saved)) \<and>
     (\<exists>ts. rs_memory st = saved\<lparr>me_traces := ts\<rparr>) \<and> untouched completed inc saved"

lemma saved_by_transition:
  assumes "rs_delivery st0 = report_delivery r (Some (fresh r))" and "is_dict (ir_analysis r) \<or> \<not> truthy (ir_analysis r)"
    and "pipeline_state_order new \<noteq> None" and "untouched completed inc (rs_memory st0)"
    and "rs_memory st = (rs_memory st0)\<lparr>me_traces := ts\<rparr>"
    and "rs_delivery st = at_row (stored new (rs_memory st0) r) (rs_delivery st0)"
  shows "saved_point completed inc new (rs_memory st0) st"
proof -
  let ?r = "stored new (rs_memory st0) r"
  obtain a where "ir_analysis ?r = PDict a" "dget a CHECKPOINT_KEY = PDict (checkpoint_of (rs_memory st0))"
    using assms(2,3) by (cases "ir_analysis r") (auto simp: stored_def save_checkpoint_def is_dict_def)
  then show ?thesis
    unfolding saved_point_def using assms(1,4-6)
    by (intro conjI exI [of _ ?r] exI [of _ a] exI [of _ ts]) (simp_all add: at_row_def report_delivery_def)
qed

lemma new_memory_incident [simp]: "me_incident (new_memory inc) = inc"
  by (simp add: new_memory_def)

text \<open>The first stage.\<close>

lemma after_analyze:
  assumes "alone env" and "rs_delivery st = report_delivery r (Some (fresh r))" and "current_state r = OPEN"
    and "is_dict (ir_analysis r) \<or> \<not> truthy (ir_analysis r)" and "rs_memory st = new_memory inc"
    and "do_step env [] (Do Analyze) st = (Go_on, st')"
  shows "\<exists>v. pp_analyze env inc = Inr v \<and> saved_point {Analyze} inc INVESTIGATING ((new_memory inc)\<lparr>me_analysis := v\<rparr>) st' \<and>
    rs_world st' = rs_world st"
proof -
  let ?b = "begin_stage env S_Analyze st"
  have d: "rs_delivery ?b = report_delivery r (Some (fresh r))" using begin_alone [OF assms(1)] assms(2) by simp
  obtain v where v: "pp_analyze env inc = Inr v"
    "finish_stage env ''analyzer'' INVESTIGATING (in_memory (\<lambda>m. m\<lparr>me_analysis := v\<rparr>) ?b) = (Inr (), st')"
    using assms(5,6) by (auto simp: outcome_go stage_analyze_def split: sum.splits)
  let ?st0 = "in_memory (\<lambda>m. m\<lparr>me_analysis := v\<rparr>) ?b"
  have d0: "rs_delivery ?st0 = report_delivery r (Some (fresh r))" using d by simp
  then have f: "synced (rs_delivery ?st0)" "forward (current_state (row_of ?st0)) INVESTIGATING"
    using assms(3) by (simp_all add: report_delivery_def synced_def)
  have st': "st' = finished env ''analyzer'' INVESTIGATING ?st0" using v(2) finish_stage_forward [OF assms(1) f] by simp
  have "saved_point {Analyze} inc INVESTIGATING (rs_memory ?st0) st'"
  proof (rule saved_by_transition [OF d0 assms(4)])
    show "untouched {Analyze} inc (rs_memory ?st0)"
      using assms(5) by (simp add: untouched_def wipe_def new_memory_def same_incident_def)
  qed (use assms(1,2) in \<open>simp_all add: st' finished_def add_trace_def d0 report_delivery_def at_row_def alone_def\<close>)
  with v(1) assms(5) st' show ?thesis by (auto simp: finished_def)
qed

text \<open>The second.\<close>

definition wipe_facts :: "memory \<Rightarrow> memory" where
  "wipe_facts m = m\<lparr>me_incident := undefined, me_facts := None, me_cluster_health := PNone, me_gitlab := PNone,
     me_blast_radius := PNone, me_statics := PNone, me_kg_prompt := PNone, me_deploy := PNone, me_team_owner := PNone,
     me_snapshot := PNone, me_collectors := []\<rparr>"

lemma wipe_facts_enrich:
  "wipe_facts (enrich_gitlab env m) = wipe_facts m"
  "wipe_facts (snd (enrich_clickhouse env cm)) = wipe_facts (snd cm)"
  "wipe_facts (snd (enrich_statics env cm)) = wipe_facts (snd cm)"
  "wipe_facts (snd (enrich_deploy_correlation env cm)) = wipe_facts (snd cm)"
  "wipe_facts (snd (filter_rollout_noise env cm)) = wipe_facts (snd cm)"
  by (auto simp: wipe_facts_def enrich_gitlab_def enrich_clickhouse_def enrich_statics_def enrich_deploy_correlation_def
      filter_rollout_noise_def Let_def split: option.split pyval.split prod.split)

lemma wipe_facts_diagnosed: "wipe_facts (diagnosed env cm) = wipe_facts (snd cm)"
proof -
  have "wipe_facts (m\<lparr>me_facts := x, me_snapshot := y, me_kg_prompt := z\<rparr>) = wipe_facts m" for m x y z
    by (simp add: wipe_facts_def)
  then show ?thesis by (simp add: diagnosed_def split_beta Let_def wipe_facts_enrich)
qed

lemma enriched_incident:
  "me_incident (enrich_gitlab env m) = me_incident m"
  "me_incident (snd (enrich_clickhouse env cm)) = me_incident (snd cm)"
  "me_incident (snd (enrich_statics env cm)) = me_incident (snd cm)"
  "me_incident (snd (enrich_deploy_correlation env cm)) = me_incident (snd cm)"
  by (auto simp: enrich_gitlab_def enrich_clickhouse_def enrich_statics_def enrich_deploy_correlation_def
      Let_def split: option.split pyval.split prod.split)

lemma diagnosed_result:
  assumes "no_rollout env (me_incident (snd cm))"
  shows "me_incident (diagnosed env cm) = me_incident (snd cm)"
    and "\<exists>facts. me_facts (diagnosed env cm) = Some facts \<and> (\<forall>f\<in>set facts. fact_wf f)"
proof -
  let ?cm = "enrich_deploy_correlation env (enrich_statics env (enrich_clickhouse env cm))"
  have l: "me_incident (snd ?cm) = me_incident (snd cm)" by (simp add: enriched_incident)
  with assms have f: "filter_rollout_noise env ?cm = ?cm" by (simp add: filter_no_rollout)
  with l show "me_incident (diagnosed env cm) = me_incident (snd cm)" by (simp add: diagnosed_def split_beta Let_def)
  show "\<exists>facts. me_facts (diagnosed env cm) = Some facts \<and> (\<forall>f\<in>set facts. fact_wf f)"
    using f run_vouched by (auto simp: diagnosed_def split_beta Let_def vouched_def rule_fact_def)
qed

lemma diagnose_result:
  assumes "diagnose env m = Inr m'" and "no_rollout env (me_incident m)" and "json_answers env"
  shows "wipe_facts m' = wipe_facts m \<and> me_incident m' = enrich_teamcity env (me_incident m) \<and>
    (\<exists>facts. me_facts m' = Some facts \<and> (\<forall>f\<in>set facts. fact_wf f)) \<and>
    (\<exists>runs. me_collectors m' = me_collectors m @ runs \<and> list_all is_dict runs)"
proof -
  let ?m1 = "enrich_gitlab env (m\<lparr>me_incident := enrich_teamcity env (me_incident m)\<rparr>)"
  obtain ctx0 runs ctx1 k8s_runs ctx2 vm_runs health m2 where b: "pp_build_ctx env (me_incident ?m1) (me_analysis ?m1) = Inr (ctx0, runs)"
    "pp_enrich_k8s env (me_incident ?m1) ctx0 = (ctx1, k8s_runs)" "pp_enrich_vm env (me_incident ?m1) ctx1 = (ctx2, vm_runs, health)"
    and m2: "m2 = ?m1\<lparr>me_collectors := me_collectors ?m1 @ runs @ k8s_runs @ vm_runs,
      me_cluster_health := (if health = PNone then me_cluster_health ?m1 else health)\<rparr>"
    and m': "m' = diagnosed env (ctx2, m2)"
    using assms(1) by (auto simp: diagnose_diagnosed Let_def split: sum.splits prod.splits)
  have i: "me_incident m2 = enrich_teamcity env (me_incident m)" by (simp add: m2 enriched_incident)
  have n: "no_rollout env (me_incident m2)"
    unfolding i by (rule iffD2 [OF no_rollout_labels assms(2)]) (simp add: enriched_labels)
  have "wipe_facts (k\<lparr>me_collectors := x, me_cluster_health := y\<rparr>) = wipe_facts k" "wipe_facts (k\<lparr>me_incident := j\<rparr>) = wipe_facts k"
    for k x y j by (simp_all add: wipe_facts_def)
  then have "wipe_facts m2 = wipe_facts m" by (simp add: m2 wipe_facts_enrich)
  moreover have "list_all is_dict (runs @ k8s_runs @ vm_runs)"
    using assms(3) b unfolding json_answers_def by (metis list_all_append)
  moreover have "me_collectors m2 = me_collectors m @ runs @ k8s_runs @ vm_runs" by (simp add: m2 enrich_keeps)
  ultimately show ?thesis
    using diagnosed_result [of env "(ctx2, m2)"] n i m' by (auto simp: wipe_facts_diagnosed diagnosed_keeps)
qed

lemma after_diagnose:
  assumes "alone env" and "saved_point {Analyze} inc INVESTIGATING saved st" and "me_incident saved = inc"
    and "no_rollout env inc" and "json_answers env" and "do_step env [] (Do Diagnose) st = (Go_on, st')"
  shows "\<exists>saved'. saved_point {Analyze, Diagnose} inc FACTS_COLLECTED saved' st' \<and> me_analysis saved' = me_analysis saved \<and>
    (\<exists>facts. me_facts saved' = Some facts \<and> (\<forall>f\<in>set facts. fact_wf f)) \<and>
    list_all is_dict (collector_summaries saved') \<and> rs_world st' = rs_world st"
proof -
  obtain r a ts where r: "rs_delivery st = report_delivery r (Some (fresh r))" "current_state r = INVESTIGATING"
    "ir_analysis r = PDict a" and ts: "rs_memory st = saved\<lparr>me_traces := ts\<rparr>" and u: "untouched {Analyze} inc saved"
    using assms(2) unfolding saved_point_def by blast
  let ?b = "begin_stage env S_Diagnose st"
  have d: "rs_delivery ?b = report_delivery r (Some (fresh r))" using begin_alone [OF assms(1)] r(1) by simp
  obtain m where m: "diagnose env (rs_memory st) = Inr m"
    "finish_stage env ''diagnostics'' FACTS_COLLECTED (?b\<lparr>rs_memory := m\<rparr>) = (Inr (), st')"
    using assms(6) by (auto simp: outcome_go stage_diagnose_def split: sum.splits)
  have n: "no_rollout env (me_incident (rs_memory st))" using assms(3,4) ts by simp
  note k = diagnose_result [OF m(1) n assms(5)]
  let ?st0 = "?b\<lparr>rs_memory := m\<rparr>"
  have d0: "rs_delivery ?st0 = report_delivery r (Some (fresh r))" using d by simp
  then have f: "synced (rs_delivery ?st0)" "forward (current_state (row_of ?st0)) FACTS_COLLECTED"
    using r(2) by (simp_all add: report_delivery_def synced_def)
  have st': "st' = finished env ''diagnostics'' FACTS_COLLECTED ?st0" using m(2) finish_stage_forward [OF assms(1) f] by simp
  have fields: "wipe {Analyze, Diagnose} m = (wipe {Analyze} (wipe_facts m))\<lparr>me_incident := me_incident m, me_restored := []\<rparr>"
    by (simp add: wipe_def wipe_facts_def)
  have same: "wipe {Analyze} (wipe_facts m) = wipe {Analyze} (wipe_facts (wipe {Analyze} saved))"
    using k ts by (simp add: wipe_def wipe_facts_def)
  have start: "wipe {Analyze} saved = (new_memory inc)\<lparr>me_incident := inc\<rparr>"
    using u assms(3) by (simp add: untouched_def)
  have w: "wipe {Analyze, Diagnose} m = (new_memory inc)\<lparr>me_incident := me_incident m\<rparr>"
    unfolding fields same start by (simp add: wipe_def wipe_facts_def new_memory_def)
  have "same_incident inc (me_incident m)"
    using k assms(3) ts by (simp add: same_incident_def enrich_teamcity_def Let_def)
  with w have u': "untouched {Analyze, Diagnose} inc m" by (simp add: untouched_def)
  have "saved_point {Analyze, Diagnose} inc FACTS_COLLECTED (rs_memory ?st0) st'"
    by (rule saved_by_transition [OF d0])
      (use assms(1) r u' in \<open>simp_all add: st' finished_def add_trace_def d0 report_delivery_def at_row_def alone_def is_dict_def\<close>)
  moreover have "me_analysis m = me_analysis saved"
  proof -
    have "me_analysis (wipe_facts m) = me_analysis (wipe_facts (rs_memory st))" using k by simp
    then show ?thesis using ts by (simp add: wipe_facts_def)
  qed
  moreover have "me_restored m = me_restored (rs_memory st)"
  proof -
    have "me_restored (wipe_facts m) = me_restored (wipe_facts (rs_memory st))" using k by simp
    then show ?thesis by (simp add: wipe_facts_def)
  qed
  moreover have "collector_summaries saved = []" using resumed_alt_first(2) [OF u assms(3)] .
  ultimately show ?thesis
    using k ts assms(1) by (intro exI [of _ m]) (auto simp: st' finished_def collector_summaries_def alone_def)
qed

text \<open>The critic keeps the form of the hypotheses.\<close>

lemma dec_val_shift: "10 dvd m \<Longrightarrow> dec_val (m div 10) (e + 1) = dec_val m e"
proof -
  assume "10 dvd m"
  then obtain k where m: "m = 10 * k" by blast
  show ?thesis
  proof (cases "0 \<le> e")
    case True
    then have "nat (e + 1) = Suc (nat e)" by simp
    with True show ?thesis by (simp add: dec_val_def m)
  next
    case False
    then have n: "nat (- e) = Suc (nat (- (e + 1)))" by simp
    have "dec_val k (e + 1) = of_int k / 10 ^ nat (- (e + 1))"
      using False by (cases "e = - 1") (simp_all add: dec_val_def)
    with False n show ?thesis by (simp add: dec_val_def m)
  qed
qed

lemma norm_float_val: "\<exists>m' e'. norm_float m e = FFin m' e' \<and> dec_val m' e' = dec_val m e"
proof (induction m e rule: norm_float.induct)
  case (1 m e)
  show ?case
  proof (cases "m = 0 \<or> m mod 10 \<noteq> 0")
    case True
    then show ?thesis by (auto simp: norm_float.simps [of m e] dec_val_def)
  next
    case False
    with 1 show ?thesis by (simp add: norm_float.simps [of m e] dec_val_shift mod_eq_0_iff_dvd)
  qed
qed

lemma half_even_bounds: "\<lfloor>x\<rfloor> \<le> half_even x \<and> half_even x \<le> \<lfloor>x\<rfloor> + 1"
  by (simp add: half_even_def Let_def)

lemma lowered_unit:
  assumes "unit_float c = Some c"
  shows "unit_float (round4 (conf_val c * LOW_CONFIDENCE_PENALTY)) = Some (round4 (conf_val c * LOW_CONFIDENCE_PENALTY))"
proof -
  obtain m e where c: "c = FFin m e" "0 \<le> dec_val m e" "dec_val m e \<le> 1"
    using assms by (auto simp: unit_float_def split: pyfloat.splits if_splits)
  let ?x = "conf_val c * LOW_CONFIDENCE_PENALTY * 10000"
  have "0 \<le> ?x" "?x \<le> 6000" using c by (simp_all add: conf_val_def LOW_CONFIDENCE_PENALTY_def)
  then have "0 \<le> \<lfloor>?x\<rfloor>" "\<lfloor>?x\<rfloor> \<le> 6000" using floor_mono [of ?x 6000] by simp_all
  then have "0 \<le> half_even ?x" "half_even ?x \<le> 10000" using half_even_bounds [of ?x] by linarith+
  moreover obtain m' e' where "norm_float (half_even ?x) (- 4) = FFin m' e'" "dec_val m' e' = of_int (half_even ?x) / 10000"
    using norm_float_val [of "half_even ?x" "- 4"] by (auto simp: dec_val_def)
  ultimately show ?thesis by (simp add: round4_def unit_float_def)
qed

lemma same_claim_ok: "same_claim h w \<Longrightarrow> hyp_ok h \<Longrightarrow> hyp_ok w"
  using lowered_unit by (auto simp: same_claim_def hyp_ok_def)

lemma critique_all_ok:
  assumes "critique_all json cfg facts ask calls items = Inr out" and "\<forall>h\<in>set items. hyp_ok h"
  shows "\<forall>h\<in>set out. hyp_ok h"
proof
  fix h assume "h \<in> set out"
  then obtain i where i: "i < length out" "h = out ! i" by (metis in_set_conv_nth)
  have n: "i < length items" using i(1) critique_all_length [OF assms(1)] by simp
  obtain w b where w: "precheck facts (items ! i) = (w, b)" by fastforce
  have "same_claim (items ! i) h"
    using critique_all_nth [OF assms(1) n w] precheck_same [OF w] i(2) by (cases b) auto
  with assms(2) n show "hyp_ok h" using same_claim_ok nth_mem by blast
qed

lemma best_candidate_mem: "best_candidate hs = Some h \<Longrightarrow> h \<in> set (survivors hs)"
  by (auto simp: best_candidate_def split: option.splits dest!: first_max_Some)

text \<open>The third and the fourth.\<close>

lemma after_hypothesize:
  assumes "alone env" and "saved_point completed inc s saved st" and "do_step env [] (Do Hypothesize) st = (Go_on, st')"
  shows "rs_delivery st' = rs_delivery st \<and> rs_world st' = rs_world st \<and>
    (\<exists>past b hyps ts answers. generate (pp_json env) answers (facts_of saved) = Inr hyps \<and>
       rs_memory st' = saved\<lparr>me_similar := PList past, me_recurrence := b, me_hypotheses := Some hyps, me_traces := ts\<rparr>)"
proof -
  obtain ts where ts: "rs_memory st = saved\<lparr>me_traces := ts\<rparr>" using assms(2) unfolding saved_point_def by blast
  obtain past where past: "pp_similar env = Inr past"
    using assms(3) by (auto simp: outcome_go stage_hypothesize_def split: sum.splits)
  let ?b = "list_ex (\<lambda>p. truthy (dget p ''recurrence'')) past"
  let ?m = "(rs_memory st)\<lparr>me_similar := PList (map PDict past), me_recurrence := ?b\<rparr>"
  have f: "facts_of ?m = facts_of saved" by (simp add: facts_of_def ts)
  obtain hyps where g: "generate (pp_json env) (pp_ask_perspective env (hypothesis_summary env ?m past) (facts_of ?m)) (facts_of ?m) = Inr hyps"
    "st' = in_memory (\<lambda>m. (add_trace (stage_trace env ''hypothesis'' None) m)\<lparr>me_hypotheses := Some hyps\<rparr>)
      ((begin_stage env S_Hypothesize st)\<lparr>rs_memory := ?m\<rparr>)"
    using assms(3) past by (auto simp: outcome_go stage_hypothesize_def Let_def split: sum.splits)
  have "rs_memory st' = saved\<lparr>me_similar := PList (map PDict past), me_recurrence := ?b, me_hypotheses := Some hyps,
      me_traces := ts @ [stage_trace env ''hypothesis'' None]\<rparr>"
    using g(2) ts by (simp add: add_trace_def)
  moreover have "rs_delivery st' = rs_delivery st" "rs_world st' = rs_world st"
    using g(2) begin_alone [OF assms(1)] by simp_all
  ultimately show ?thesis using g(1) unfolding f by blast
qed

lemma truthy_cause: "(\<And>h. best = Some h \<Longrightarrow> hy_cause h \<noteq> []) \<Longrightarrow> truthy (PStr (final_cause env facts best))"
  by (cases best) (simp_all add: final_cause_def)

lemma facts_of_Some: "me_facts m = Some facts \<Longrightarrow> facts_of m = facts"
  by (simp add: facts_of_def)

text \<open>What holds of the memory that was saved with the verdicts of the critic.\<close>

definition judged_memory :: "memory \<Rightarrow> bool" where
  "judged_memory m \<longleftrightarrow> (\<exists>hs. me_critiqued m = Some hs \<and> (\<forall>h\<in>set hs. hyp_ok h)) \<and>
     (\<forall>h. me_best m = Some h \<longrightarrow> hyp_ok h) \<and> (\<exists>s. me_hyp_text m = PStr s) \<and> (\<exists>xs. me_similar m = PList xs) \<and>
     ((\<forall>h. me_best m = Some h \<longrightarrow> hy_cause h \<noteq> []) \<longrightarrow> truthy (me_cause m))"

lemma after_critique_point:
  assumes "alone env" and "saved_point {Analyze, Diagnose} inc FACTS_COLLECTED saved st0"
    and "rs_delivery st = rs_delivery st0" and "generate json answers facts = Inr hyps"
    and "rs_memory st = saved\<lparr>me_similar := PList past, me_recurrence := b, me_hypotheses := Some hyps, me_traces := ts\<rparr>"
    and "do_step env [] (Do Critique) st = (Go_on, st')"
  shows "\<exists>saved'. saved_point {Analyze, Diagnose, Hypothesize, Critique} inc HYPOTHESIS_GENERATED saved' st' \<and>
    me_analysis saved' = me_analysis saved \<and> me_facts saved' = me_facts saved \<and>
    collector_summaries saved' = collector_summaries saved \<and> judged_memory saved' \<and> rs_world st' = rs_world st"
proof -
  obtain r a where r: "rs_delivery st = report_delivery r (Some (fresh r))" "current_state r = FACTS_COLLECTED"
    "ir_analysis r = PDict a" and u: "untouched {Analyze, Diagnose} inc saved"
    using assms(2,3) unfolding saved_point_def by auto
  let ?b = "begin_stage env S_Critique st"
  have d: "rs_delivery ?b = report_delivery r (Some (fresh r))" using begin_alone [OF assms(1)] r(1) by simp
  obtain out calls calls' where c: "critique_all (pp_json env) (pp_critic env) (facts_of (rs_memory st)) calls calls' hyps = Inr out"
    "safe_transition env HYPOTHESIS_GENERATED (in_memory (after_critique env out) ?b) = (Inr (), st')"
    using assms(5,6) by (auto simp: outcome_go stage_critique_def Let_def split: sum.splits)
  let ?st0 = "in_memory (after_critique env out) ?b" and ?m = "after_critique env out (rs_memory st)"
  have d0: "rs_delivery ?st0 = report_delivery r (Some (fresh r))" using d by simp
  then have f: "synced (rs_delivery ?st0)" "forward (current_state (row_of ?st0)) HYPOTHESIS_GENERATED"
    using r(2) by (simp_all add: report_delivery_def synced_def)
  have st': "st' = ?st0\<lparr>rs_delivery := at_row (stored HYPOTHESIS_GENERATED ?m r) (rs_delivery ?st0)\<rparr>"
    using c(2) safe_transition_synced [OF assms(1) f] d0 r(1) assms(1) by (simp add: report_delivery_def alone_def)
  have "wipe {Analyze, Diagnose, Hypothesize, Critique} ?m = (wipe {Analyze, Diagnose} saved)\<lparr>me_similar := PList [],
      me_recurrence := False, me_hypotheses := None, me_critiqued := None, me_best := None, me_cause := PStr [],
      me_hyp_text := PStr []\<rparr>"
    by (simp add: wipe_def assms(5) after_critique_def add_trace_def)
  then have u': "untouched {Analyze, Diagnose, Hypothesize, Critique} inc ?m"
    using u by (simp add: untouched_def assms(5) after_critique_def add_trace_def) (simp add: new_memory_def)
  have "saved_point {Analyze, Diagnose, Hypothesize, Critique} inc HYPOTHESIS_GENERATED (rs_memory ?st0) st'"
    by (rule saved_by_transition [OF d0, where ts = "me_traces ?m"])
      (use r u' in \<open>simp_all add: st' is_dict_def\<close>)
  moreover have "\<forall>h\<in>set out. hyp_ok h"
    using critique_all_ok [OF c(1)] generate_mem [OF assms(4)] by blast
  then have "judged_memory ?m"
    using best_candidate_mem [of out] truthy_cause [of "best_candidate out"]
    by (auto simp: judged_memory_def after_critique_def add_trace_def assms(5) survivors_def)
  ultimately show ?thesis
    using assms(1,5) by (intro exI [of _ ?m])
      (auto simp: st' after_critique_def add_trace_def collector_summaries_def alone_def)
qed

lemma after_jira:
  assumes "alone env" and "do_step env [] (Do Jira) st = (Go_on, st')"
  shows "rs_delivery st' = rs_delivery st \<and> rs_world st' = rs_world st \<and>
    (\<exists>v. rs_memory st' = (rs_memory st)\<lparr>me_jira := v\<rparr>)"
  using assms(2) begin_alone [OF assms(1)]
  by (auto simp: outcome_go stage_jira_def Let_def split: bool.splits option.splits) (metis memory.surjective memory.update_convs(21))+

lemma candidate_result:
  "\<exists>v. snd (candidate_playbooks env m) = m\<lparr>me_match := v\<rparr>"
  by (auto simp: candidate_playbooks_def Let_def split: sum.split) (metis memory.surjective memory.update_convs(24))+

lemma after_fix:
  assumes "alone env" and "saved_point {Analyze, Diagnose, Hypothesize, Critique} inc HYPOTHESIS_GENERATED saved st0"
    and "rs_delivery st = rs_delivery st0" and "rs_memory st = (rs_memory st0)\<lparr>me_jira := v\<rparr>"
    and "do_step env [] (Do Fix) st = (Go_on, st')"
  shows "\<exists>saved'. saved_point {Analyze, Diagnose, Hypothesize, Critique, Jira, Fix} inc FIX_PROPOSED saved' st' \<and>
    me_analysis saved' = me_analysis saved \<and> me_facts saved' = me_facts saved \<and>
    collector_summaries saved' = collector_summaries saved \<and> (judged_memory saved \<longrightarrow> judged_memory saved') \<and>
    me_best saved' = me_best saved"
proof -
  obtain r a ts where r: "rs_delivery st = report_delivery r (Some (fresh r))" "current_state r = HYPOTHESIS_GENERATED"
    "ir_analysis r = PDict a" and ts: "rs_memory st0 = saved\<lparr>me_traces := ts\<rparr>"
    and u: "untouched {Analyze, Diagnose, Hypothesize, Critique} inc saved"
    using assms(2,3) unfolding saved_point_def by auto
  let ?b = "begin_stage env S_Fix st"
  have d: "rs_delivery ?b = report_delivery r (Some (fresh r))" using begin_alone [OF assms(1)] r(1) by simp
  obtain m w where m: "finish_stage env ''fix'' FIX_PROPOSED (?b\<lparr>rs_memory := m, rs_world := w\<rparr>) = (Inr (), st')"
    and fields: "\<exists>x y z. m = saved\<lparr>me_traces := ts, me_jira := v, me_fix := x, me_intent := y, me_match := z\<rparr>"
  proof -
    obtain c m0 x where c: "candidate_playbooks env (rs_memory st) = (c, m0)" "m0 = (rs_memory st)\<lparr>me_match := x\<rparr>"
      using candidate_result [of env "rs_memory st"] by (cases "candidate_playbooks env (rs_memory st)") auto
    obtain suggestion proposed where s: "pp_suggest env (me_cause m0) (me_recurrence m0) (me_jira m0) c = Inr (suggestion, proposed)"
      using assms(5) c by (auto simp: outcome_go stage_fix_def split: sum.splits)
    show thesis
    proof (cases proposed)
      case None
      let ?n = "m0\<lparr>me_fix := suggestion, me_intent := None\<rparr>"
      have same: "?b\<lparr>rs_memory := ?n, rs_world := rs_world st\<rparr> = ?b\<lparr>rs_memory := ?n\<rparr>" by (simp add: begin_stage_def)
      have "finish_stage env ''fix'' FIX_PROPOSED (?b\<lparr>rs_memory := ?n, rs_world := rs_world st\<rparr>) = (Inr (), st')"
        unfolding same using assms(5) c s None by (simp add: outcome_go stage_fix_def Let_def)
      then show thesis
        by (rule that) (intro exI [of _ suggestion] exI [of _ None] exI [of _ x], simp add: c(2) assms(4) ts)
    next
      case (Some i)
      obtain bound snapshot w where b: "bind_intent env (enforce_candidate_binding i c (me_match m0)) (me_match m0) (rs_world ?b) =
          ((bound, snapshot), w)" by (metis surj_pair)
      let ?n = "m0\<lparr>me_fix := suggestion, me_intent := Some bound, me_match := snapshot\<rparr>"
      have "finish_stage env ''fix'' FIX_PROPOSED (?b\<lparr>rs_memory := ?n, rs_world := w\<rparr>) = (Inr (), st')"
        using assms(5) c s Some b by (simp add: outcome_go stage_fix_def Let_def)
      then show thesis
        by (rule that) (intro exI [of _ suggestion] exI [of _ "Some bound"] exI [of _ snapshot], simp add: c(2) assms(4) ts)
    qed
  qed
  let ?st0 = "?b\<lparr>rs_memory := m, rs_world := w\<rparr>"
  have d0: "rs_delivery ?st0 = report_delivery r (Some (fresh r))" using d by simp
  then have f: "synced (rs_delivery ?st0)" "forward (current_state (row_of ?st0)) FIX_PROPOSED"
    using r(2) by (simp_all add: report_delivery_def synced_def)
  have st': "st' = finished env ''fix'' FIX_PROPOSED ?st0" using m finish_stage_forward [OF assms(1) f] by simp
  have "wipe {Analyze, Diagnose, Hypothesize, Critique, Jira, Fix} m =
      (wipe {Analyze, Diagnose, Hypothesize, Critique} saved)\<lparr>me_jira := PNone, me_fix := PNone, me_intent := None, me_match := PNone\<rparr>"
    using fields by (auto simp: wipe_def)
  then have u': "untouched {Analyze, Diagnose, Hypothesize, Critique, Jira, Fix} inc m"
    using u fields by (auto simp: untouched_def) (simp add: new_memory_def)
  have "saved_point {Analyze, Diagnose, Hypothesize, Critique, Jira, Fix} inc FIX_PROPOSED (rs_memory ?st0) st'"
    by (rule saved_by_transition [OF d0])
      (use assms(1) r u' in \<open>simp_all add: st' finished_def add_trace_def d0 report_delivery_def at_row_def alone_def is_dict_def\<close>)
  then show ?thesis
    using fields by (intro exI [of _ m]) (auto simp: judged_memory_def collector_summaries_def)
qed

lemma after_risk:
  assumes "alone env" and "do_step env [] Do_risk st = (Go_on, st')"
  shows "rs_delivery st' = rs_delivery st \<and> rs_world st' = rs_world st \<and>
    me_best (rs_memory st') = me_best (rs_memory st) \<and> me_intent (rs_memory st') = me_intent (rs_memory st)"
  using assms(2) begin_alone [OF assms(1)]
  by (auto simp: outcome_go stage_risk_def add_trace_def split: sum.splits)

section \<open>Starting again\<close>

lemma run_pipeline_open:
  assumes "\<not> closed (start_state st)" and "resume_point (start_state st) st = (completed, st1)"
  shows "run_pipeline env st = concluded env (do_steps env completed run_steps (first_population env completed st1))"
  using assms by (simp add: run_pipeline_def concluded_def Let_def)

lemma do_steps_append:
  assumes "do_steps env completed ss st = (Go_on, st1)"
  shows "do_steps env completed (ss @ ts) st = do_steps env completed ts st1"
  using assms by (induction ss arbitrary: st) (auto split: prod.splits next_step.splits)

lemma do_steps_none_completed:
  "(\<And>x. Do x \<in> set ss \<Longrightarrow> x \<notin> set completed) \<Longrightarrow> do_steps env completed ss st = do_steps env [] ss st"
proof (induction ss arbitrary: st)
  case (Cons s ss)
  have "do_step env completed s st = do_step env [] s st"
    using Cons.prems [of "case s of Do x \<Rightarrow> x | _ \<Rightarrow> Analyze"] by (cases s) auto
  with Cons show ?case by (auto split: prod.splits next_step.splits)
qed simp

text \<open>How far a run gets before it dies, with the stages that count as completed then.\<close>

definition completed_after :: "nat \<Rightarrow> Incident_Machine.stage list" where
  "completed_after n =
     (if n = 0 then [] else if n = 1 then [Analyze] else if n < 5 then [Analyze, Diagnose]
      else if n < 7 then [Analyze, Diagnose, Hypothesize, Critique]
      else [Analyze, Diagnose, Hypothesize, Critique, Jira, Fix])"

text \<open>The steps that are left after a restart.\<close>

definition left_after :: "nat \<Rightarrow> step list" where
  "left_after n = drop (if n < 3 then n else if n < 5 then 2 else if n < 7 then 5 else 7) run_steps"

lemma skipped_steps:
  assumes "\<not> noise_suppressed env (rs_memory st)"
  shows "do_steps env (completed_after n) run_steps st = do_steps env [] (left_after n) st"
proof -
  have skip: "do_steps env completed run_steps st = do_steps env [] rest st"
    if "run_steps = first @ rest" "do_steps env completed first st = (Go_on, st)"
      "\<And>x. Do x \<in> set rest \<Longrightarrow> x \<notin> set completed" for completed first rest
    using do_steps_append [OF that(2), of rest] do_steps_none_completed [of rest completed] that(1,3) by simp
  consider "n = 0" | "n = 1" | "2 \<le> n" "n < 5" | "5 \<le> n" "n < 7" | "7 \<le> n" by linarith
  then show ?thesis
  proof cases
    case 3
    then have "n = 2 \<or> n = 3 \<or> n = 4" by linarith
    then have "left_after n = drop 2 run_steps" by (auto simp: left_after_def)
    moreover have "do_steps env [Analyze, Diagnose] run_steps st = do_steps env [] (drop 2 run_steps) st"
      by (rule skip [where first = "take 2 run_steps"]) (auto simp: run_steps_def)
    ultimately show ?thesis using 3 by (simp add: completed_after_def)
  next
    case 4
    have "do_steps env [Analyze, Diagnose, Hypothesize, Critique] run_steps st = do_steps env [] (drop 5 run_steps) st"
      by (rule skip [where first = "take 5 run_steps"]) (use assms in \<open>auto simp: run_steps_def\<close>)
    with 4 show ?thesis by (simp add: completed_after_def left_after_def)
  next
    case 5
    have "do_steps env [Analyze, Diagnose, Hypothesize, Critique, Jira, Fix] run_steps st = do_steps env [] (drop 7 run_steps) st"
      by (rule skip [where first = "take 7 run_steps"]) (use assms in \<open>auto simp: run_steps_def\<close>)
    with 5 show ?thesis by (simp add: completed_after_def left_after_def)
  next
    case 2
    have "do_steps env [Analyze] run_steps st = do_steps env [] (drop 1 run_steps) st"
      by (rule skip [where first = "take 1 run_steps"]) (auto simp: run_steps_def)
    with 2 show ?thesis by (simp add: completed_after_def left_after_def)
  qed (simp add: completed_after_def left_after_def)
qed

lemma same_incident_labels: "same_incident inc inc' \<Longrightarrow> in_labels inc' = in_labels inc"
  unfolding same_incident_def by (drule arg_cong [where f = in_labels]) (simp split: if_splits)

lemma untouched_labels: "untouched completed inc m \<Longrightarrow> no_rollout env (me_incident m) = no_rollout env inc"
  by (rule no_rollout_labels, rule same_incident_labels) (simp add: untouched_def)

lemma resume_from_point:
  assumes "saved_point (set (c # cs)) inc s saved st" and "completed_by_state s = Some (c # cs)"
    and "memory_ok (set (c # cs)) saved"
  shows "start_state (new_run inc (row_of st) w) = s \<and>
    resume_point s (new_run inc (row_of st) w) =
      (c # cs, (new_run inc (row_of st) w)\<lparr>rs_memory := resumed (set (c # cs)) saved (new_memory inc)\<rparr>)"
proof -
  obtain r a where r: "rs_delivery st = report_delivery r (Some (fresh r))" "current_state r = s" "ir_analysis r = PDict a"
    "dget a CHECKPOINT_KEY = PDict (checkpoint_of saved)"
    using assms(1) unfolding saved_point_def by blast
  have "restore_checkpoint (set (c # cs)) (PDict a) (new_memory inc) = (True, resumed (set (c # cs)) saved (new_memory inc))"
    by (simp add: restore_checkpoint_def r(4) restore_from_dump [OF assms(3)] del: set_simps)
  with r assms(2) show ?thesis
    by (simp add: resume_point_def start_state_def new_run_def report_delivery_def del: set_simps)
qed

lemma restarted_alike:
  assumes "alone env" and "no_rollout env inc" and "saved_point (set (c # cs)) inc s saved st"
    and "completed_after n = c # cs" and "completed_by_state s = Some (c # cs)" and "memory_ok (set (c # cs)) saved"
    and "tail h s (left_after n)" and "left_after n \<noteq> []"
    and "twin_memory h (rs_memory st) (resumed (set (c # cs)) saved (new_memory inc))"
  shows "same_end (concluded env (do_steps env [] (left_after n) st))
    (run_pipeline env (new_run inc (row_of st) (rs_world st)))"
proof -
  obtain r a where r: "rs_delivery st = report_delivery r (Some (fresh r))" "current_state r = s" "ir_analysis r = PDict a"
    and i: "me_incident (rs_memory st) = me_incident saved" and u: "untouched (set (c # cs)) inc saved"
    using assms(3) unfolding saved_point_def by auto
  let ?new = "new_run inc (row_of st) (rs_world st)"
  let ?st = "?new\<lparr>rs_memory := resumed (set (c # cs)) saved (new_memory inc)\<rparr>"
  note p = resume_from_point [OF assms(3,5,6), of "rs_world st"]
  have "\<not> closed s" using assms(5) by (cases s) simp_all
  with p have q: "run_pipeline env ?new = concluded env (do_steps env (c # cs) run_steps ?st)"
    using run_pipeline_open [of ?new "c # cs" ?st env] by (simp add: first_population_def)
  have t: "twin h st ?st"
    using assms(9) r(1,3) by (auto simp: twin_def new_run_def report_delivery_def at_row_def synced_def twin_rows_def)
  have n: "no_rollout env (me_incident (rs_memory st))" using assms(2) i untouched_labels [OF u, of env] by simp
  then have "\<not> noise_suppressed env (rs_memory ?st)"
    using twin_incident [OF t] by (simp add: no_rollout_quiet)
  then have "do_steps env (c # cs) run_steps ?st = do_steps env [] (left_after n) ?st"
    using skipped_steps [of env ?st n] assms(4) by simp
  with q twin_concluded [OF assms(1) t _ assms(7,8) n] r show ?thesis by (simp add: report_delivery_def)
qed

lemma do_steps_go:
  "do_steps env completed (s # ss) st = (Go_on, st') \<longleftrightarrow>
     (\<exists>st1. do_step env completed s st = (Go_on, st1) \<and> do_steps env completed ss st1 = (Go_on, st'))"
  by (cases "do_step env completed s st"; cases "fst (do_step env completed s st)") auto

lemma noise_go: "do_step env completed Noise_check st = (Go_on, st') \<Longrightarrow> st' = st"
  by (auto split: if_splits prod.splits sum.splits)

lemma first_population_alone:
  assumes "alone env" and "synced (rs_delivery st)"
  shows "rs_delivery (first_population env completed st) = rs_delivery st \<and>
    rs_memory (first_population env completed st) = rs_memory st \<and> rs_world (first_population env completed st) = rs_world st"
proof -
  let ?b = "begin_stage env S_Populate st"
  have d: "rs_delivery ?b = rs_delivery st" by (rule begin_alone [OF assms(1)])
  then have o': "object_of ?b = Some (fresh (row_of st))" and r: "row_of ?b = row_of st"
    using assms(2) by (simp_all add: synced_def)
  have "commit_record env ?b = (Inr (), ?b\<lparr>rs_delivery := at_row (row_of st) (rs_delivery ?b)\<rparr>)"
    using commit_assigned [OF assms(1) o', where s = "ir_status (row_of st)" and a = "ir_analysis (row_of st)"
        and t = "ir_trace (row_of st)"] r by simp
  moreover have "rollback_record env ?b = put_object (fresh (row_of st)) ?b"
    using rollback_record_works [of env ?b] assms(1) o' r by (simp add: alone_def)
  moreover have "put_object (fresh (row_of st)) ?b = ?b"
    using o' by (simp add: put_object_def)
  ultimately show ?thesis
    using d at_own_row [OF assms(2)] by (simp add: first_population_def populate_kg_def)
qed

text \<open>The points of a run from which it can be taken up again.\<close>

definition at_facts :: "Incident \<Rightarrow> memory \<Rightarrow> 'r run_state \<Rightarrow> bool" where
  "at_facts inc saved st \<longleftrightarrow> saved_point {Analyze, Diagnose} inc FACTS_COLLECTED saved st \<and> me_analysis saved \<noteq> PNone \<and>
     (\<exists>facts. me_facts saved = Some facts \<and> (\<forall>f\<in>set facts. fact_wf f)) \<and> list_all is_dict (collector_summaries saved)"

definition at_verdict :: "Incident \<Rightarrow> memory \<Rightarrow> 'r run_state \<Rightarrow> bool" where
  "at_verdict inc saved st \<longleftrightarrow> saved_point {Analyze, Diagnose, Hypothesize, Critique} inc HYPOTHESIS_GENERATED saved st \<and>
     me_analysis saved \<noteq> PNone \<and> (\<exists>facts. me_facts saved = Some facts \<and> (\<forall>f\<in>set facts. fact_wf f)) \<and>
     list_all is_dict (collector_summaries saved) \<and> judged_memory saved"

definition at_proposal :: "Incident \<Rightarrow> memory \<Rightarrow> 'r run_state \<Rightarrow> bool" where
  "at_proposal inc saved st \<longleftrightarrow> saved_point {Analyze, Diagnose, Hypothesize, Critique, Jira, Fix} inc FIX_PROPOSED saved st \<and>
     me_analysis saved \<noteq> PNone \<and> (\<exists>facts. me_facts saved = Some facts \<and> (\<forall>f\<in>set facts. fact_wf f)) \<and>
     list_all is_dict (collector_summaries saved) \<and> judged_memory saved"

text \<open>A run at its start.\<close>

definition at_start :: "'r pipeline_env \<Rightarrow> Incident \<Rightarrow> 'r run_state \<Rightarrow> bool" where
  "at_start env inc st \<longleftrightarrow> alone env \<and> json_answers env \<and> no_rollout env inc \<and>
     (\<exists>row. rs_delivery st = report_delivery row (Some (fresh row)) \<and> current_state row = OPEN \<and>
        (is_dict (ir_analysis row) \<or> \<not> truthy (ir_analysis row))) \<and> rs_memory st = new_memory inc"

lemma reach_analysis:
  assumes "at_start env inc st0" and "do_steps env [] (take 1 run_steps) st0 = (Go_on, st)"
  shows "\<exists>saved. saved_point {Analyze} inc INVESTIGATING saved st \<and> me_incident saved = inc \<and> me_analysis saved \<noteq> PNone"
proof -
  obtain row where r: "rs_delivery st0 = report_delivery row (Some (fresh row))" "current_state row = OPEN"
    "is_dict (ir_analysis row) \<or> \<not> truthy (ir_analysis row)" "rs_memory st0 = new_memory inc" "alone env" "json_answers env"
    using assms(1) by (auto simp: at_start_def)
  have "do_step env [] (Do Analyze) st0 = (Go_on, st)"
    using assms(2) by (simp add: run_steps_def do_steps_go del: do_steps.simps(2) do_step.simps)
  from after_analyze [OF r(5,1-4) this] show ?thesis
    using r(6) by (fastforce simp: json_answers_def)
qed

lemma reach_facts:
  assumes "at_start env inc st0" and "do_steps env [] (take 2 run_steps) st0 = (Go_on, st)"
  shows "\<exists>saved. at_facts inc saved st"
proof -
  obtain st1 where d: "do_steps env [] (take 1 run_steps) st0 = (Go_on, st1)" "do_step env [] (Do Diagnose) st1 = (Go_on, st)"
    using assms(2) by (auto simp: run_steps_def do_steps_go numeral_2_eq_2 simp del: do_steps.simps(2) do_step.simps)
  obtain saved where s: "saved_point {Analyze} inc INVESTIGATING saved st1" "me_incident saved = inc" "me_analysis saved \<noteq> PNone"
    using reach_analysis [OF assms(1) d(1)] by blast
  have "alone env" "no_rollout env inc" "json_answers env" using assms(1) by (simp_all add: at_start_def)
  from after_diagnose [OF this(1) s(1,2) this(2,3) d(2)] s(3) show ?thesis by (auto simp: at_facts_def)
qed

lemma reach_verdict:
  assumes "at_start env inc st0" and "do_steps env [] (take 5 run_steps) st0 = (Go_on, st)"
  shows "\<exists>saved. at_verdict inc saved st"
proof -
  obtain st2 st4 where d: "do_steps env [] (take 2 run_steps) st0 = (Go_on, st2)"
    "do_step env [] (Do Hypothesize) st2 = (Go_on, st4)" "do_step env [] (Do Critique) st4 = (Go_on, st)"
    using assms(2) by (auto simp: run_steps_def do_steps_go eval_nat_numeral simp del: do_steps.simps(2) do_step.simps
        dest!: noise_go)
  obtain saved where s: "at_facts inc saved st2" using reach_facts [OF assms(1) d(1)] by blast
  then have p: "saved_point {Analyze, Diagnose} inc FACTS_COLLECTED saved st2" by (simp add: at_facts_def)
  have al: "alone env" using assms(1) by (simp add: at_start_def)
  obtain past b hyps ts answers where h: "rs_delivery st4 = rs_delivery st2"
    "generate (pp_json env) answers (facts_of saved) = Inr hyps"
    "rs_memory st4 = saved\<lparr>me_similar := PList past, me_recurrence := b, me_hypotheses := Some hyps, me_traces := ts\<rparr>"
    using after_hypothesize [OF al p d(2)] by blast
  from after_critique_point [OF al p h d(3)] s show ?thesis by (auto simp: at_facts_def at_verdict_def)
qed

lemma reach_proposal:
  assumes "at_start env inc st0" and "do_steps env [] (take 7 run_steps) st0 = (Go_on, st)"
  shows "\<exists>saved. at_proposal inc saved st"
proof -
  obtain st5 st6 where d: "do_steps env [] (take 5 run_steps) st0 = (Go_on, st5)"
    "do_step env [] (Do Jira) st5 = (Go_on, st6)" "do_step env [] (Do Fix) st6 = (Go_on, st)"
    using assms(2) by (auto simp: run_steps_def do_steps_go eval_nat_numeral simp del: do_steps.simps(2) do_step.simps)
  obtain saved where s: "at_verdict inc saved st5" using reach_verdict [OF assms(1) d(1)] by blast
  then have p: "saved_point {Analyze, Diagnose, Hypothesize, Critique} inc HYPOTHESIS_GENERATED saved st5"
    by (simp add: at_verdict_def)
  have al: "alone env" using assms(1) by (simp add: at_start_def)
  obtain v where j: "rs_delivery st6 = rs_delivery st5" "rs_memory st6 = (rs_memory st5)\<lparr>me_jira := v\<rparr>"
    using after_jira [OF al d(2)] by blast
  from after_fix [OF al p j d(3)] s show ?thesis by (auto simp: at_verdict_def at_proposal_def)
qed

text \<open>From each of these points the run goes on as it would have.\<close>

lemma twin_resumed:
  assumes "saved_point completed inc s saved st"
    and "resumed completed saved (new_memory inc) = alt (me_traces saved) (collector_summaries saved) [] hs saved"
    and "h \<Longrightarrow> hs = me_hypotheses saved"
  shows "twin_memory h (rs_memory st) (resumed completed saved (new_memory inc))"
proof -
  obtain ts where m: "rs_memory st = saved\<lparr>me_traces := ts\<rparr>" using assms(1) by (auto simp: saved_point_def)
  have "alt (me_traces saved) (collector_summaries saved) [] hs saved =
      alt (me_traces saved) (collector_summaries saved) [] hs (rs_memory st)"
    by (simp add: m alt_def)
  moreover have "collector_summaries saved = collector_summaries (rs_memory st)" by (simp add: m collector_summaries_def)
  ultimately show ?thesis using assms(2,3) m by (auto intro!: twin_memoryI)
qed

lemma resumes_at_analysis:
  assumes "alone env" and "no_rollout env inc" and "saved_point {Analyze} inc INVESTIGATING saved st"
    and "me_incident saved = inc" and "me_analysis saved \<noteq> PNone"
  shows "same_end (concluded env (do_steps env [] (left_after 1) st))
    (run_pipeline env (new_run inc (row_of st) (rs_world st)))"
proof (rule restarted_alike [OF assms(1,2), where c = Analyze and cs = "[]" and s = INVESTIGATING and saved = saved and h = True])
  have u: "untouched {Analyze} inc saved" using assms(3) by (simp add: saved_point_def)
  have "resumed {Analyze} saved (new_memory inc) =
      alt (me_traces saved) (collector_summaries saved) [] (me_hypotheses saved) saved"
    using resumed_alt_first [OF u assms(4)] by simp
  from twin_resumed [OF assms(3) this, of True]
  show "twin_memory True (rs_memory st) (resumed (set [Analyze]) saved (new_memory inc))" by simp
qed (use assms in \<open>simp_all add: completed_after_def left_after_def run_steps_def memory_ok_def\<close>)

lemma resumes_at_facts:
  assumes "alone env" and "no_rollout env inc" and "at_facts inc saved st"
  shows "same_end (concluded env (do_steps env [] (left_after 2) st))
    (run_pipeline env (new_run inc (row_of st) (rs_world st)))"
proof (rule restarted_alike [OF assms(1,2), where c = Analyze and cs = "[Diagnose]" and s = FACTS_COLLECTED
      and saved = saved and h = True])
  have s: "saved_point {Analyze, Diagnose} inc FACTS_COLLECTED saved st" using assms(3) by (simp add: at_facts_def)
  then have u: "untouched {Analyze, Diagnose} inc saved" by (simp add: saved_point_def)
  show "twin_memory True (rs_memory st) (resumed (set [Analyze, Diagnose]) saved (new_memory inc))"
    using twin_resumed [OF s resumed_alt [OF u], of True] by simp
qed (use assms(3) in \<open>simp_all add: at_facts_def completed_after_def left_after_def run_steps_def memory_ok_def\<close>)

lemma resumes_at_verdict:
  assumes "alone env" and "no_rollout env inc" and "at_verdict inc saved st" and "restorable saved"
  shows "same_end (concluded env (do_steps env [] (left_after 5) st))
    (run_pipeline env (new_run inc (row_of st) (rs_world st)))"
proof (rule restarted_alike [OF assms(1,2), where c = Analyze and cs = "[Diagnose, Hypothesize, Critique]"
      and s = HYPOTHESIS_GENERATED and saved = saved and h = False])
  have s: "saved_point {Analyze, Diagnose, Hypothesize, Critique} inc HYPOTHESIS_GENERATED saved st"
    using assms(3) by (simp add: at_verdict_def)
  then have u: "untouched {Analyze, Diagnose, Hypothesize, Critique} inc saved" by (simp add: saved_point_def)
  show "twin_memory False (rs_memory st)
      (resumed (set [Analyze, Diagnose, Hypothesize, Critique]) saved (new_memory inc))"
    using twin_resumed [OF s resumed_alt [OF u], of False] by simp
qed (use assms(3,4) in \<open>auto simp: at_verdict_def judged_memory_def restorable_def completed_after_def left_after_def
    run_steps_def memory_ok_def\<close>)

lemma resumes_at_proposal:
  assumes "alone env" and "no_rollout env inc" and "at_proposal inc saved st" and "restorable saved"
  shows "same_end (concluded env (do_steps env [] (left_after 7) st))
    (run_pipeline env (new_run inc (row_of st) (rs_world st)))"
proof (rule restarted_alike [OF assms(1,2), where c = Analyze and cs = "[Diagnose, Hypothesize, Critique, Jira, Fix]"
      and s = FIX_PROPOSED and saved = saved and h = False])
  have s: "saved_point {Analyze, Diagnose, Hypothesize, Critique, Jira, Fix} inc FIX_PROPOSED saved st"
    using assms(3) by (simp add: at_proposal_def)
  then have u: "untouched {Analyze, Diagnose, Hypothesize, Critique, Jira, Fix} inc saved" by (simp add: saved_point_def)
  show "twin_memory False (rs_memory st)
      (resumed (set [Analyze, Diagnose, Hypothesize, Critique, Jira, Fix]) saved (new_memory inc))"
    using twin_resumed [OF s resumed_alt [OF u], of False] by simp
qed (use assms(3,4) in \<open>auto simp: at_proposal_def judged_memory_def restorable_def completed_after_def left_after_def
    run_steps_def memory_ok_def\<close>)

text \<open>The uninterrupted run, split where the other one died.\<close>

lemma concluded_at:
  assumes "do_steps env [] (take k run_steps) st0 = (Go_on, st)"
  shows "concluded env (do_steps env [] run_steps st0) = concluded env (do_steps env [] (drop k run_steps) st)"
  using do_steps_append [OF assms, of "drop k run_steps"] by simp

lemma restorable_saved:
  assumes "saved_point completed inc s saved st" and "me_best (rs_memory st') = me_best (rs_memory st)"
    and "me_intent (rs_memory st') = me_intent (rs_memory st)" and "restorable (rs_memory st')"
  shows "restorable saved"
  using assms by (auto simp: saved_point_def restorable_def)

lemma at_start_resumes:
  assumes "at_start env inc st0" and "0 < n" and "n \<le> 8"
    and "do_steps env [] (take n run_steps) st0 = (Go_on, st)" and "restorable (rs_memory st)"
  shows "same_end (concluded env (do_steps env [] run_steps st0))
    (run_pipeline env (new_run inc (row_of st) (rs_world st)))"
proof -
  have al: "alone env" "no_rollout env inc" using assms(1) by (simp_all add: at_start_def)
  note steps = run_steps_def do_steps_go eval_nat_numeral
  consider "n = 1" | "n = 2" | "n = 3" | "n = 4" | "n = 5" | "n = 6" | "n = 7" | "n = 8" using assms(2,3) by linarith
  then show ?thesis
  proof cases
    case 1
    with assms(4) have d: "do_steps env [] (take 1 run_steps) st0 = (Go_on, st)" by simp
    obtain saved where "saved_point {Analyze} inc INVESTIGATING saved st" "me_incident saved = inc" "me_analysis saved \<noteq> PNone"
      using reach_analysis [OF assms(1) d] by blast
    from resumes_at_analysis [OF al this] show ?thesis by (simp add: concluded_at [OF d] left_after_def)
  next
    case 2
    with assms(4) have d: "do_steps env [] (take 2 run_steps) st0 = (Go_on, st)" by simp
    obtain saved where "at_facts inc saved st" using reach_facts [OF assms(1) d] by blast
    from resumes_at_facts [OF al this] show ?thesis by (simp add: concluded_at [OF d] left_after_def)
  next
    case 3
    with assms(4) have d: "do_steps env [] (take 2 run_steps) st0 = (Go_on, st)"
      by (auto simp: steps simp del: do_steps.simps(2) do_step.simps dest!: noise_go)
    obtain saved where "at_facts inc saved st" using reach_facts [OF assms(1) d] by blast
    from resumes_at_facts [OF al this] show ?thesis by (simp add: concluded_at [OF d] left_after_def)
  next
    case 4
    with assms(4) obtain st2 where d: "do_steps env [] (take 2 run_steps) st0 = (Go_on, st2)"
      "do_step env [] (Do Hypothesize) st2 = (Go_on, st)"
      by (auto simp: steps simp del: do_steps.simps(2) do_step.simps dest!: noise_go)
    obtain saved where s: "at_facts inc saved st2" using reach_facts [OF assms(1) d(1)] by blast
    then have "saved_point {Analyze, Diagnose} inc FACTS_COLLECTED saved st2" by (simp add: at_facts_def)
    from after_hypothesize [OF al(1) this d(2)] resumes_at_facts [OF al s] show ?thesis
      by (simp add: concluded_at [OF d(1)] left_after_def)
  next
    case 5
    with assms(4) have d: "do_steps env [] (take 5 run_steps) st0 = (Go_on, st)" by simp
    obtain saved where s: "at_verdict inc saved st" using reach_verdict [OF assms(1) d] by blast
    then have "restorable saved"
      unfolding at_verdict_def using restorable_saved [of _ _ _ saved st st] assms(5) by blast
    from resumes_at_verdict [OF al s this] show ?thesis by (simp add: concluded_at [OF d] left_after_def)
  next
    case 6
    with assms(4) obtain st5 where d: "do_steps env [] (take 5 run_steps) st0 = (Go_on, st5)"
      "do_step env [] (Do Jira) st5 = (Go_on, st)"
      by (auto simp: steps simp del: do_steps.simps(2) do_step.simps)
    obtain saved where s: "at_verdict inc saved st5" using reach_verdict [OF assms(1) d(1)] by blast
    note j = after_jira [OF al(1) d(2)]
    then have "restorable saved"
      using s restorable_saved [of _ _ _ saved st5 st] assms(5) unfolding at_verdict_def by fastforce
    from resumes_at_verdict [OF al s this] j show ?thesis by (simp add: concluded_at [OF d(1)] left_after_def)
  next
    case 7
    with assms(4) have d: "do_steps env [] (take 7 run_steps) st0 = (Go_on, st)" by simp
    obtain saved where s: "at_proposal inc saved st" using reach_proposal [OF assms(1) d] by blast
    then have "restorable saved"
      unfolding at_proposal_def using restorable_saved [of _ _ _ saved st st] assms(5) by blast
    from resumes_at_proposal [OF al s this] show ?thesis by (simp add: concluded_at [OF d] left_after_def)
  next
    case 8
    with assms(4) obtain st7 where d: "do_steps env [] (take 7 run_steps) st0 = (Go_on, st7)"
      "do_step env [] Do_risk st7 = (Go_on, st)"
      by (auto simp: steps simp del: do_steps.simps(2) do_step.simps)
    obtain saved where s: "at_proposal inc saved st7" using reach_proposal [OF assms(1) d(1)] by blast
    note j = after_risk [OF al(1) d(2)]
    then have "restorable saved"
      using s restorable_saved [of _ _ _ saved st7 st] assms(5) unfolding at_proposal_def by fastforce
    from resumes_at_proposal [OF al s this] j show ?thesis by (simp add: concluded_at [OF d(1)] left_after_def)
  qed
qed

section \<open>Properties\<close>

text \<open>
  C8. A retry ends as a run that never died: whichever of the steps before the dry run was the last one
  finished, a new run over the row as it was left, with a new memory, gives the result, the row (the
  checkpoint and the trace apart), the commands and the messages of the uninterrupted run. This takes a
  session that works and no other one that writes, agents and clients that answer alike and in the form the
  checkpoint stores (an analysis that is not \<open>None\<close>, records of collectors that are dicts), a row that is \<open>OPEN\<close> at
  the start with a dict or nothing as its analysis, a best hypothesis that names a cause and a proposed intent that
  validates again. And it takes an alert that the run does not silence as the noise of a rollout: either that
  filter is off or the alert is not of its kind, and it carries no such mark. A silenced one is an exception, because
  the mark is not stored: a retry goes through all the stages that the first run would have skipped.
\<close>

theorem retry_resumes:
  assumes "alone env" and "json_answers env" and "no_rollout env inc" and "current_state row = OPEN"
    and "is_dict (ir_analysis row) \<or> \<not> truthy (ir_analysis row)" and "n \<le> 8"
    and "do_steps env [] (take n run_steps) (first_population env [] (new_run inc row w)) = (Go_on, st)"
    and "restorable (rs_memory st)"
  shows "same_end (run_pipeline env (new_run inc row w))
    (run_pipeline env (new_run inc (rd_row (rs_delivery st)) (rs_world st)))"
proof -
  let ?new = "new_run inc row w"
  let ?st0 = "first_population env [] ?new"
  have d: "rs_delivery ?new = report_delivery row (Some (fresh row))" "rs_memory ?new = new_memory inc" "rs_world ?new = w"
    by (simp_all add: new_run_def)
  then have "synced (rs_delivery ?new)" by (simp add: synced_def report_delivery_def)
  from first_population_alone [OF assms(1) this] d
  have p: "rs_delivery ?st0 = report_delivery row (Some (fresh row))" "rs_memory ?st0 = new_memory inc" "rs_world ?st0 = w"
    by simp_all
  have "start_state ?new = OPEN" "resume_point OPEN ?new = ([], ?new)"
    using assms(4) d by (simp_all add: start_state_def report_delivery_def resume_point_def)
  then have u: "run_pipeline env ?new = concluded env (do_steps env [] run_steps ?st0)"
    using run_pipeline_open [of ?new "[]" ?new env] by simp
  show ?thesis
  proof (cases "n = 0")
    case True
    with assms(7) p have "new_run inc (rd_row (rs_delivery st)) (rs_world st) = ?new"
      by (simp add: report_delivery_def)
    then show ?thesis by (simp add: same_end_def alike_def)
  next
    case False
    have "at_start env inc ?st0" using assms(1-5) p unfolding at_start_def by blast
    from at_start_resumes [OF this _ assms(6-8)] False u show ?thesis by simp
  qed
qed

text \<open>A run that dies when its facts are stored.\<close>

lemma sample_run_facts:
  "alone sample_pipeline" "json_answers sample_pipeline" "no_rollout sample_pipeline pod_incident"
  "current_state open_row = OPEN" "ir_analysis open_row = PNone"
proof -
  show "alone sample_pipeline" using sample_pipeline_works(1) by (simp add: alone_def sample_pipeline_def)
  show "json_answers sample_pipeline" by (simp add: json_answers_def sample_pipeline_def)
  show "no_rollout sample_pipeline pod_incident"
    by (auto simp: no_rollout_def sample_pipeline_def pod_incident_def label_def ROLLOUT_NOISE_ALERTNAMES_def)
  show "current_state open_row = OPEN" by code_simp
  show "ir_analysis open_row = PNone" by (simp add: open_row_def row0_def)
qed

lemma sample_diagnosed: "\<exists>m'. diagnose sample_pipeline m = Inr m'"
  by (simp add: diagnose_diagnosed sample_pipeline_def Let_def)

lemma sample_reaches_facts:
  "\<exists>st. do_steps sample_pipeline [] (take 2 run_steps)
     (first_population sample_pipeline [] (new_run pod_incident open_row sample_world)) = (Go_on, st)"
proof -
  note al = sample_run_facts(1)
  let ?new = "new_run pod_incident open_row sample_world :: kv run_state"
  let ?st0 = "first_population sample_pipeline [] ?new"
  have n: "synced (rs_delivery ?new)" "row_of ?new = open_row"
    by (simp_all add: new_run_def synced_def report_delivery_def)
  then have p: "synced (rs_delivery ?st0)" "row_of ?st0 = open_row"
    using first_population_alone [OF al n(1)] by simp_all
  let ?a = "in_memory (\<lambda>m. m\<lparr>me_analysis := PStr ''s''\<rparr>) (begin_stage sample_pipeline S_Analyze ?st0)"
  have a: "rs_delivery ?a = rs_delivery ?st0" using begin_alone [OF al] by simp
  have "finish_stage sample_pipeline ''analyzer'' INVESTIGATING ?a = (Inr (), finished sample_pipeline ''analyzer'' INVESTIGATING ?a)"
    by (rule finish_stage_forward [OF al]) (simp_all only: a p sample_run_facts(4) forward_steps)
  moreover have "pp_analyze sample_pipeline i = Inr (PStr ''s'')" for i by (simp add: sample_pipeline_def)
  ultimately have one: "do_step sample_pipeline [] (Do Analyze) ?st0 = (Go_on, finished sample_pipeline ''analyzer'' INVESTIGATING ?a)"
    by (simp add: stage_analyze_def)
  let ?st1 = "finished sample_pipeline ''analyzer'' INVESTIGATING ?a"
  have s: "synced (rs_delivery ?st1)" "current_state (row_of ?st1) = INVESTIGATING"
    using p a by (simp_all add: finished_def del: begin_stage_simps)
  obtain m where m: "diagnose sample_pipeline (rs_memory ?st1) = Inr m" using sample_diagnosed by blast
  let ?d = "(begin_stage sample_pipeline S_Diagnose ?st1)\<lparr>rs_memory := m\<rparr>"
  have d: "rs_delivery ?d = rs_delivery ?st1" using begin_alone [OF al] by simp
  have "finish_stage sample_pipeline ''diagnostics'' FACTS_COLLECTED ?d =
      (Inr (), finished sample_pipeline ''diagnostics'' FACTS_COLLECTED ?d)"
    by (rule finish_stage_forward [OF al]) (simp_all only: d s forward_steps)
  with m have "do_step sample_pipeline [] (Do Diagnose) ?st1 = (Go_on, finished sample_pipeline ''diagnostics'' FACTS_COLLECTED ?d)"
    by (simp add: stage_diagnose_def outcome_go)
  with one show ?thesis by (simp add: run_steps_def do_steps_go numeral_2_eq_2 del: do_steps.simps(2) do_step.simps)
qed

theorem retry_resumes_witness:
  "\<exists>st. do_steps sample_pipeline [] (take 2 run_steps)
       (first_population sample_pipeline [] (new_run pod_incident open_row sample_world)) = (Go_on, st) \<and>
     current_state (rd_row (rs_delivery st)) = FACTS_COLLECTED \<and>
     same_end (run_pipeline sample_pipeline (new_run pod_incident open_row sample_world))
       (run_pipeline sample_pipeline (new_run pod_incident (rd_row (rs_delivery st)) (rs_world st)))"
proof -
  let ?new = "new_run pod_incident open_row sample_world :: kv run_state"
  obtain st where st: "do_steps sample_pipeline [] (take 2 run_steps) (first_population sample_pipeline [] ?new) = (Go_on, st)"
    using sample_reaches_facts by blast
  note s = sample_run_facts
  have "synced (rs_delivery ?new)" by (simp add: new_run_def synced_def report_delivery_def)
  from first_population_alone [OF s(1) this, of "[]"]
  have "rs_delivery (first_population sample_pipeline [] ?new) = report_delivery open_row (Some (fresh open_row))"
    "rs_memory (first_population sample_pipeline [] ?new) = new_memory pod_incident"
    by (simp_all add: new_run_def)
  moreover have "is_dict (ir_analysis open_row) \<or> \<not> truthy (ir_analysis open_row)" by (simp add: s(5))
  ultimately have "at_start sample_pipeline pod_incident (first_population sample_pipeline [] ?new)"
    using s(1-4) unfolding at_start_def by blast
  then obtain saved where "at_facts pod_incident saved st" using reach_facts st by blast
  then obtain r ts where r: "rs_delivery st = report_delivery r (Some (fresh r))" "current_state r = FACTS_COLLECTED"
    and ts: "rs_memory st = saved\<lparr>me_traces := ts\<rparr>" and u: "untouched {Analyze, Diagnose} pod_incident saved"
    unfolding at_facts_def saved_point_def by blast
  have "me_best (wipe {Analyze, Diagnose} saved) = None" "me_intent (wipe {Analyze, Diagnose} saved) = None"
    using u by (simp_all add: untouched_def new_memory_def)
  then have "restorable (rs_memory st)" by (simp add: restorable_def ts wipe_def)
  from retry_resumes [OF s(1-4) _ _ st this] s(5) st r show ?thesis by (auto simp: report_delivery_def)
qed

end
