(* ===== verification/Pipeline_Task.thy ===== *)
theory Pipeline_Task
  imports Run_Props Cost_Guard
begin

text \<open>
  The task around a run (\<open>workers/tasks.py\<close>): the three gates of \<open>async_process_incident\<close>, and the retries
  of \<open>process_incident_task\<close>. Settings, the ledger of the budget and the outside world are those of each
  attempt. The read of the row is taken to answer.
\<close>

section \<open>The gates\<close>

record 'r task_env =
  te_pipeline :: "'r pipeline_env"
  LLM_PIPELINE_ENABLED :: bool
  te_ingest :: ingest_env
  te_cost :: cost_env
  te_readable :: bool
  te_today :: int
  te_ledger :: ledger

text \<open>The payload of the task: the incident, and the key by which the webhook vouches for the scope.\<close>

definition task_data :: "bool \<Rightarrow> Incident \<Rightarrow> pydict" where
  "task_data approved inc =
     (if approved then merge_dict (incident_dump inc) [(SCOPE_APPROVED_KEY, PBool True)] else incident_dump inc)"

definition task_scope :: "'r task_env \<Rightarrow> pydict \<Rightarrow> ScopeVerdict" where
  "task_scope env data =
     (if \<not> truthy (dget data SCOPE_APPROVED_KEY) then check_scope (te_ingest env) data
      else \<lparr>sc_in_scope = True, sc_reason = ''approved_by_webhook'', sc_severity = [], sc_namespace = []\<rparr>)"

definition task_budget :: "'r task_env \<Rightarrow> BudgetVerdict" where
  "task_budget env = peek (te_cost env) (te_readable env) (te_today env) (te_ledger env)"

text \<open>Why the task ends before it opens a session, if it does.\<close>

definition start_gate :: "'r task_env \<Rightarrow> pydict \<Rightarrow> string option" where
  "start_gate env data =
     (if \<not> LLM_PIPELINE_ENABLED env then Some ''LLM_PIPELINE_ENABLED=false''
      else if \<not> sc_in_scope (task_scope env data) then Some (sc_reason (task_scope env data))
      else if \<not> bv_allowed (task_budget env) then Some (bv_reason (task_budget env))
      else None)"

section \<open>Attempts\<close>

datatype task_answer = Skipped string | Raised failure | Finished

text \<open>The answer of one attempt, and the row and the world it leaves.\<close>

definition async_process_incident ::
  "'r task_env \<Rightarrow> bool \<Rightarrow> Incident \<Rightarrow> nat \<Rightarrow> nat \<Rightarrow> incident_record \<Rightarrow> 'r kworld \<Rightarrow>
   task_answer \<times> incident_record \<times> 'r kworld" where
  "async_process_incident env approved inc retries max_retries row w =
     (case start_gate env (task_data approved inc) of
        Some reason \<Rightarrow> (Skipped reason, row, w)
      | None \<Rightarrow>
          (case process_row (te_pipeline env) retries max_retries (new_run inc row w) of
             (Inl e, st) \<Rightarrow> (Raised e, rd_row (rs_delivery st), rs_world st)
           | (Inr _, st) \<Rightarrow> (Finished, rd_row (rs_delivery st), rs_world st)))"

fun retried :: "task_answer \<Rightarrow> bool" where
  "retried (Raised e) = retriable e"
| "retried (Skipped reason) = False"
| "retried Finished = False"

text \<open>
  Celery starts the task again while it raises something retriable and retries are left. Every attempt passes
  the gates anew and reads the row anew, and other sessions may commit in between. The list holds what each
  attempt answered and left.
\<close>

fun attempts ::
  "(nat \<Rightarrow> 'r task_env) \<Rightarrow> (nat \<Rightarrow> incident_record \<Rightarrow> incident_record) \<Rightarrow> bool \<Rightarrow> Incident \<Rightarrow> nat \<Rightarrow> nat \<Rightarrow>
   incident_record \<Rightarrow> 'r kworld \<Rightarrow> (task_answer \<times> incident_record \<times> 'r kworld) list" where
  "attempts envs between approved inc n 0 row w = [async_process_incident (envs n) approved inc n n row w]"
| "attempts envs between approved inc n (Suc left) row w =
     (case async_process_incident (envs n) approved inc n (n + Suc left) row w of
        (a, row', w') \<Rightarrow>
          (a, row', w') # (if retried a then attempts envs between approved inc (Suc n) left (between n row') w' else []))"

lemma attempts_not_empty [simp]: "attempts envs between approved inc n left row w \<noteq> []"
  by (cases left) (simp_all split: prod.split)

section \<open>How an attempt ends\<close>

lemma task_scope_approved: "task_scope env (task_data True inc) =
    \<lparr>sc_in_scope = True, sc_reason = ''approved_by_webhook'', sc_severity = [], sc_namespace = []\<rparr>"
  by (simp add: task_scope_def task_data_def SCOPE_APPROVED_KEY_def merge_dict_def)

lemma attempt_skipped:
  assumes "async_process_incident env approved inc retries max_retries row w = (Skipped reason, row', w')"
  shows "start_gate env (task_data approved inc) = Some reason \<and> row' = row \<and> w' = w"
  using assms by (auto simp: async_process_incident_def split: option.splits prod.splits sum.splits)

lemma attempt_settles:
  assumes "session_works (te_pipeline env)" and "keeps_settled (te_pipeline env)"
    and "async_process_incident env approved inc retries max_retries row w = (a, row', w')"
    and "\<not> (retried a \<and> retries < max_retries)" and "\<And>reason. a \<noteq> Skipped reason"
  shows "settled (current_state row')"
proof -
  obtain r st where p: "process_row (te_pipeline env) retries max_retries (new_run inc row w) = (r, st)" by fastforce
  have g: "start_gate env (task_data approved inc) = None"
    using assms(3,5) by (cases "start_gate env (task_data approved inc)") (auto simp: async_process_incident_def)
  then have "row' = row_of st" "\<And>e. r = Inl e \<Longrightarrow> \<not> (retriable e \<and> retries < max_retries)"
    using assms(3,4) p by (auto simp: async_process_incident_def split: sum.splits)
  with process_row_ok [OF assms(1,2) run_ok_new p] show ?thesis by simp
qed

lemma gate_reasons:
  assumes "start_gate env (task_data approved inc) = Some reason"
  shows "\<not> LLM_PIPELINE_ENABLED env \<and> reason = ''LLM_PIPELINE_ENABLED=false'' \<or>
    \<not> approved \<and> \<not> sc_in_scope (check_scope (te_ingest env) (incident_dump inc)) \<and>
      reason = sc_reason (check_scope (te_ingest env) (incident_dump inc)) \<or>
    \<not> bv_allowed (task_budget env) \<and> reason \<in> {''budget_state_unknown'', ''daily_budget_exhausted''}"
proof (cases approved)
  case False
  have "dget (incident_dump inc) SCOPE_APPROVED_KEY = PNone"
    by (simp add: incident_dump_def SCOPE_APPROVED_KEY_def dget_def)
  then have "task_scope env (task_data approved inc) = check_scope (te_ingest env) (incident_dump inc)"
    using False by (simp add: task_scope_def task_data_def)
  with assms False show ?thesis
    by (auto simp: start_gate_def task_budget_def peek_def Let_def verdict_def split: if_splits option.splits)
next
  case True
  with assms show ?thesis using task_scope_approved [of env inc]
    by (auto simp: start_gate_def task_budget_def peek_def Let_def verdict_def split: if_splits option.splits)
qed

section \<open>Properties\<close>

text \<open>
  C9. No incident is left in flight by the pipeline. Take sessions that work and other sessions that do not
  reopen a closed incident; the agents may answer or raise whatever they like. When the task and its retries
  have come to their end (a worker process that is killed has not), the row is resolved, in triage or failed, with one exception: the last attempt was turned away at
  a gate, because the pipeline is switched off, because the incident is out of scope and no webhook vouched
  for it, or because the day's budget is spent or unreadable. Then the attempt leaves the row as it found it:
  at the first attempt the row of the start, at a retry the row of the attempt before and what others made of it.
\<close>

theorem no_incident_left_in_flight:
  assumes "\<And>i. orm_works (de_orm (pp_denv (te_pipeline (envs i)))) \<and> keeps_settled (te_pipeline (envs i))"
    and "attempts envs between approved inc n left row w = xs" and "last xs = (a, row', w')"
  shows "settled (current_state row') \<or>
    (\<exists>reason. a = Skipped reason \<and>
      (let env = envs (n + length xs - 1) in
         \<not> LLM_PIPELINE_ENABLED env \<and> reason = ''LLM_PIPELINE_ENABLED=false'' \<or>
         \<not> approved \<and> \<not> sc_in_scope (check_scope (te_ingest env) (incident_dump inc)) \<and>
           reason = sc_reason (check_scope (te_ingest env) (incident_dump inc)) \<or>
         \<not> bv_allowed (task_budget env) \<and> reason \<in> {''budget_state_unknown'', ''daily_budget_exhausted''}) \<and>
      row' = (if length xs = 1 then row else between (n + length xs - 2) (fst (snd (xs ! (length xs - 2))))))"
  using assms(2,3)
proof (induction left arbitrary: n row w xs)
  case 0
  then have p: "async_process_incident (envs n) approved inc n n row w = (a, row', w')" "xs = [(a, row', w')]" by auto
  show ?case
  proof (cases "\<exists>reason. a = Skipped reason")
    case True
    then obtain reason where a: "a = Skipped reason" by blast
    from attempt_skipped [OF p(1) [unfolded a]] gate_reasons [of "envs n" approved inc reason] a p(2)
    show ?thesis by (auto simp: Let_def)
  qed (use attempt_settles [OF _ _ p(1)] assms(1) [of n] in auto)
next
  case (Suc left)
  obtain a1 row1 w1 where p: "async_process_incident (envs n) approved inc n (n + Suc left) row w = (a1, row1, w1)"
    by (metis prod_cases3)
  show ?case
  proof (cases "retried a1")
    case True
    define ys where "ys = attempts envs between approved inc (Suc n) left (between n row1) w1"
    have xs: "xs = (a1, row1, w1) # ys" "ys \<noteq> []" "last ys = (a, row', w')"
      using Suc.prems p True by (auto simp: ys_def)
    have "n + length xs - 1 = Suc n + length ys - 1"
      "(if length xs = 1 then row else between (n + length xs - 2) (fst (snd (xs ! (length xs - 2))))) =
       (if length ys = 1 then between n row1 else between (Suc n + length ys - 2) (fst (snd (ys ! (length ys - 2)))))"
      using xs(1,2) by (cases ys; cases "tl ys"; simp)+
    with Suc.IH [OF ys_def [symmetric] xs(3)] show ?thesis by (simp only:)
  next
    case False
    with Suc.prems p have a: "xs = [(a, row', w')]" "a1 = a" "row1 = row'" "w1 = w'" by auto
    show ?thesis
    proof (cases "\<exists>reason. a = Skipped reason")
      case True
      then obtain reason where s: "a = Skipped reason" by blast
      from attempt_skipped [OF p [unfolded a(2-4) s]] gate_reasons [of "envs n" approved inc reason] s a
      show ?thesis by (auto simp: Let_def)
    qed (use attempt_settles [OF _ _ p] assms(1) [of n] False a in auto)
  qed
qed

definition sample_task :: "kv task_env" where
  "sample_task = \<lparr>te_pipeline = resolved_meanwhile, LLM_PIPELINE_ENABLED = True, te_ingest = sample_ingest,
     te_cost = sample_cost, te_readable = True, te_today = 0, te_ledger = Map.empty\<rparr>"

text \<open>With the gates open the row ends closed, and with a spent budget it stays as it was.\<close>

theorem no_incident_left_in_flight_witness:
  "settled (current_state (fst (snd (last
     (attempts (\<lambda>_. sample_task) (\<lambda>_ row. row) True pod_incident 0 3 open_row sample_world))))) \<and>
   attempts (\<lambda>_. sample_task\<lparr>te_ledger := [0 \<mapsto> 1000000]\<rparr>) (\<lambda>_ row. row) True pod_incident 0 3 open_row sample_world =
     [(Skipped ''daily_budget_exhausted'', open_row, sample_world)]"
proof -
  let ?xs = "attempts (\<lambda>_. sample_task) (\<lambda>_ row. row) True pod_incident 0 3 open_row sample_world"
  obtain a row' w' where l: "last ?xs = (a, row', w')" by (metis prod_cases3)
  have b: "limit_usd sample_cost = 1" by (rule sample_limit)
  have "bv_allowed (task_budget sample_task)" "LLM_PIPELINE_ENABLED sample_task"
    by (simp_all add: task_budget_def sample_task_def peek_def b spent_today_usd_def verdict_def spent_micro_def USD_SCALE_def)
  then have "settled (current_state row')"
    using no_incident_left_in_flight [OF _ refl l] sample_pipeline_works by (simp add: sample_task_def)
  moreover have "start_gate (sample_task\<lparr>te_ledger := [0 \<mapsto> 1000000]\<rparr>) (task_data True pod_incident) =
      Some ''daily_budget_exhausted''"
    using task_scope_approved [of "sample_task\<lparr>te_ledger := [0 \<mapsto> 1000000]\<rparr>" pod_incident]
    by (simp add: start_gate_def task_budget_def sample_task_def peek_def b spent_today_usd_def verdict_def
        spent_micro_def USD_SCALE_def)
  then have "attempts (\<lambda>_. sample_task\<lparr>te_ledger := [0 \<mapsto> 1000000]\<rparr>) (\<lambda>_ row. row) True pod_incident 0 3 open_row sample_world =
      [(Skipped ''daily_budget_exhausted'', open_row, sample_world)]"
    by (simp add: async_process_incident_def numeral_eq_Suc)
  ultimately show ?thesis using l by simp
qed

end
