(* ===== verification/Spec2Isabelle.thy ===== *)
theory Spec2Isabelle
  imports Apply_System Alert_Dedup Api_Guards Approval_Flow Task_Lock Llm_Client Report_Delivery Diagnosis Critique Resume
    Pipeline_Task
begin

text \<open>
  Verification of the incident copilot (\<open>src/app\<close>): the path from a firing alert to a change in a
  Kubernetes cluster, with everything that may refuse it, and the services that path leans on.

  \<^bold>\<open>The program.\<close> Alertmanager calls the webhook (\<open>api/webhooks.py\<close>), which authenticates the
  request, filters the alerts, and opens or re-opens a row of \<open>incidents\<close> before it starts the
  pipeline. The pipeline collects facts with deterministic rules (\<open>diagnostics\<close>), asks an LLM
  (\<open>services/llm_service.py\<close>) for causes and a fix, and delivers a report. An alert with a playbook
  reaches the remediation bridge (\<open>remediation/bridge.py\<close>), which renders the playbook of the
  repository into an execution intent, dry-runs it and posts a card to Discord. A person presses a
  button of the card (\<open>api/discord_interactions.py\<close>); the executor (\<open>services/executor_apply.py\<close>)
  checks the stored intent again, claims the incident, runs one \<open>kubectl\<close> command through the guard
  (\<open>services/k8s_guard.py\<close>) and verifies the outcome later (\<open>remediation/verification.py\<close>).

  \<^bold>\<open>Theories.\<close> Each theory names the files it models in its opening text; the definitions carry the
  names of the code, without leading underscores.
  \<^item> \<open>Prelude\<close>: Python values, dictionaries, strings and numbers, exceptions as a sum, the invariant
    rule of step relations.
  \<^item> \<open>Regex\<close>, \<open>Redis\<close>: the regular expressions of \<open>re\<close>, and the commands of Redis with the
    laws the sources rely on.
  \<^item> \<open>Namespaces\<close>, \<open>Execution_Dsl\<close>, \<open>K8s_Guard\<close>, \<open>Kubectl_Breaker\<close>: what a command may be, its argv,
    the guard around every call and the circuit breaker below it.
  \<^item> \<open>Facts\<close>, \<open>Risk_Axes\<close>, \<open>Playbook\<close>, \<open>Policy\<close>, \<open>Matcher\<close>, \<open>Target_Resolver\<close>, \<open>Binding\<close>,
    \<open>Executor_Gate\<close>: facts and their evidence contract, the risk of an intent, the schema and registry
    of playbooks, the policy engine, the choice and rendering of a playbook, the target of an alert,
    the hash that ties an intent to the plan it came from, and the gate in front of the executor.
  \<^item> \<open>Rule_Base\<close>, \<open>State_Rules\<close>, \<open>Start_Rules\<close>, \<open>Text_Rules\<close>, \<open>Rules\<close>, \<open>Diagnosis\<close>: the thirteen
    diagnostic rules of \<open>diagnostics/rules\<close>, from the context of an incident to facts, their list
    \<open>DEFAULT_RULES\<close>, and what holds of a run with it. The context is that of \<open>build_diagnostics_ctx\<close>:
    labels are texts or absent, and its lists and dicts have that type.
  \<^item> \<open>Hypotheses\<close>, \<open>Fact_Critic\<close>, \<open>Critique\<close>: the hypotheses of the models, one call per perspective, and
    their grounding in observed facts (\<open>agents/multi_hypothesis.py\<close>); the critic that checks them
    against the facts and asks a model about the rest, one by one or in a batch that is cut and halved
    (\<open>agents/fact_critic.py\<close>); and what the two together let through. What a call answers is an argument.
  \<^item> \<open>Checkpoint\<close>, \<open>Pipeline_Stages\<close>, \<open>Pipeline_Run\<close>, \<open>Run_Props\<close>, \<open>Pipeline_Task\<close>, \<open>Resume\<close>: the pipeline of one
    incident (\<open>workers/pipeline.py\<close>). Its attributes are the record \<open>memory\<close>, and the checkpoint that goes
    into the row with every transition is made of it; the stages are functions of an environment that
    answers for agents, clients and the graph, over the row, the object of the ORM session and the
    cluster; \<open>run_pipeline\<close> composes them, \<open>async_process_incident\<close> is the task with its three gates (the
    flag, the scope, the budget), and \<open>attempts\<close> its retries (\<open>workers/tasks.py\<close>). What other sessions commit while a stage runs is part of the environment.
    \<open>Run_Props\<close>, \<open>Pipeline_Task\<close> and \<open>Resume\<close> hold what is true of a run, of a task and of a run that
    is started again.
  \<^item> \<open>Incident_Machine\<close>, \<open>Attempts\<close>, \<open>Verification\<close>, \<open>Executor_Apply\<close>, \<open>Apply_System\<close>: the rows and
    their state machine, the table of attempts, the check of an outcome, \<open>apply_intent\<close> in its three
    phases, and the system of all calls that overlap, die and are repeated.
  \<^item> \<open>Ingest\<close>, \<open>Api_Guards\<close>, \<open>Alert_Dedup\<close>: the webhook, its signature, replay and rate checks, and the
    suppression of repeated cards.
  \<^item> \<open>Bridge\<close>, \<open>Discord_Approvals\<close>, \<open>Approval_Flow\<close>: proposals, buttons, and the two composed from the
    posted card to the authorised application.
  \<^item> \<open>Task_Lock\<close>, \<open>Cost_Guard\<close>, \<open>Llm_Client\<close>, \<open>Report_Delivery\<close>: the lock of periodic tasks, the
    daily budget, the client of the LLM with its breaker and retries, and the outbox of the report.

  \<^bold>\<open>What the lemmas show.\<close> A write is at most one per incident over all interleavings, and it is the
  planned, approved, fresh command for the namespace of the incident (\<open>Apply_System\<close>,
  \<open>Executor_Apply\<close>, \<open>K8s_Guard\<close>, \<open>Binding\<close>, \<open>Approval_Flow\<close>); nothing before the button writes
  (\<open>Bridge\<close>), and the button obeys the whitelist (\<open>Discord_Approvals\<close>). The gate and the policy are
  characterised exactly (\<open>Executor_Gate\<close>, \<open>Policy\<close>). The facts of a diagnostic run keep
  their contract, a failed source never proves an absence, the rules that weigh attribution pin nothing of
  another workload on the alert's and make no confident guess for an alert without labels; the rules that do not
  are named (\<open>Facts\<close>, \<open>Diagnosis\<close>). A cause
  that a model proposed survives only on facts that were observed, a batch reads silence as a
  refutation, and it ends after a bounded number of calls (\<open>Critique\<close>). A task whose
  attempts pass its gates leaves no incident in flight, whatever the agents do and whoever else writes (\<open>Pipeline_Task\<close>),
  though it does not see a resolve that arrives during a run (\<open>Run_Props\<close>); a run that died and is taken up from its checkpoint ends as one that never
  died (\<open>Resume\<close>, by a simulation of the two runs step by step). The webhook accepts what it should and
  starts the pipeline once per opening (\<open>Api_Guards\<close>, \<open>Ingest\<close>). Locks exclude, budgets hold, breakers open and close, reports are
  delivered or stay marked (\<open>Task_Lock\<close>, \<open>Cost_Guard\<close>, \<open>Llm_Client\<close>, \<open>Report_Delivery\<close>).

  \<^bold>\<open>Parameters.\<close> Code outside the repository is an argument of the definitions: the commands of Redis
  (locale \<open>redis\<close>, interpreted on the store \<open>kv\<close>), the answers of \<open>kubectl\<close> and of the database,
  the ORM session (\<open>orm_laws\<close>), SHA-256 and HMAC (a hex digest, with injectivity assumed where it
  matters), Ed25519, the readers of JSON, YAML and ISO-8601, the LLM provider, Discord and the clocks.
  Every theorem that assumes something about them has a witness in which the parameter is a concrete
  function.

  \<^bold>\<open>Conventions and bounds.\<close> Text is over the code points U+0000 to U+00FF, except in \<open>Cost_Guard\<close>,
  where a prompt is its UTF-8 bytes. Floats are decimals with the three special values; costs are
  exact rationals where the code has doubles. Times are whole seconds for Redis and the bridge, and
  microseconds in \<open>Task_Lock\<close> and in the rows. Python integers are \<open>int\<close>. The loops of the code are
  bounded by their data or by a number of attempts, so the definitions are total; the retries of a
  task take that number as an argument and the theorems say from which number on it is enough.
  Processes that overlap are step relations whose invariants hold in every reachable state.

  \<^bold>\<open>Not modelled.\<close> The prompts and the prose that the agents answer; the collectors behind a diagnostic
  context (\<open>_enrich_k8s\<close>, \<open>_enrich_vm\<close>, \<open>build_diagnostics_ctx\<close>) and the context snapshot; the syncs of
  the knowledge graph, the enrichment of alerts, digests and statistics (I/O and SQL); the layout and words of Discord messages; metrics, spans and log lines; the Celery wrappers
  but for the retries named above; offline evaluation, scripts, migrations and deployment files.
\<close>

end
